(* ===== verification/Prelude.thy ===== *)
theory Prelude
  imports Main
begin

text \<open>
  Shared vocabulary of the development: the state-and-exception monad in which every
  asynchronous method of the code is written, loops over lists, tables of rows (the
  shape every Prisma model has) and the rules the component theories use.

  A method \<open>async f(x): Promise<'a>\<close> of the code is a function into
  \<open>('s, 'e, 'a) sem\<close>: from the state before the call to the state after it, with either
  the exception it threw (\<open>Inl\<close>) or its result (\<open>Inr\<close>).  The state after an
  exception is kept: what was written before a \<open>throw\<close> stays written, unless a
  transaction rolls it back (theory \<open>World\<close>).
\<close>

named_theorems monad_simps \<open>evaluation of the state-and-exception monad\<close>
named_theorems keeps_intros \<open>preservation of a state invariant by a method\<close>
named_theorems table_simps \<open>laws of the row operations\<close>

section \<open>The monad\<close>

type_synonym ('s, 'e, 'a) sem = "'s \<Rightarrow> ('e + 'a) \<times> 's"

definition returnM :: "'a \<Rightarrow> ('s, 'e, 'a) sem" where
  "returnM x = (\<lambda>s. (Inr x, s))"

definition throwM :: "'e \<Rightarrow> ('s, 'e, 'a) sem" where
  "throwM e = (\<lambda>s. (Inl e, s))"

definition bindM :: "('s, 'e, 'a) sem \<Rightarrow> ('a \<Rightarrow> ('s, 'e, 'b) sem) \<Rightarrow> ('s, 'e, 'b) sem" where
  "bindM m f = (\<lambda>s. case m s of (Inl e, s') \<Rightarrow> (Inl e, s') | (Inr x, s') \<Rightarrow> f x s')"

definition thenM :: "('s, 'e, 'a) sem \<Rightarrow> ('s, 'e, 'b) sem \<Rightarrow> ('s, 'e, 'b) sem" where
  "thenM m k = bindM m (\<lambda>_. k)"

definition getsM :: "('s \<Rightarrow> 'a) \<Rightarrow> ('s, 'e, 'a) sem" where
  "getsM f = (\<lambda>s. (Inr (f s), s))"

definition modifyM :: "('s \<Rightarrow> 's) \<Rightarrow> ('s, 'e, unit) sem" where
  "modifyM f = (\<lambda>s. (Inr (), f s))"

text \<open>\<open>if (c) throw e\<close>.\<close>

definition throw_if :: "bool \<Rightarrow> 'e \<Rightarrow> ('s, 'e, unit) sem" where
  "throw_if c e = (if c then throwM e else returnM ())"

text \<open>\<open>if (c) await m\<close>.\<close>

definition whenM :: "bool \<Rightarrow> ('s, 'e, unit) sem \<Rightarrow> ('s, 'e, unit) sem" where
  "whenM c m = (if c then m else returnM ())"

text \<open>\<open>if (x === null) throw e\<close>, with \<open>x\<close> narrowed afterwards.\<close>

definition orThrow :: "'a option \<Rightarrow> 'e \<Rightarrow> ('s, 'e, 'a) sem" where
  "orThrow x e = (case x of None \<Rightarrow> throwM e | Some y \<Rightarrow> returnM y)"

text \<open>\<open>for (const x of xs) await f(x)\<close>.\<close>

primrec forM :: "'a list \<Rightarrow> ('a \<Rightarrow> ('s, 'e, unit) sem) \<Rightarrow> ('s, 'e, unit) sem" where
  "forM [] f = returnM ()"
| "forM (x # xs) f = thenM (f x) (forM xs f)"

lemma returnM_run [simp, monad_simps]: "returnM x s = (Inr x, s)"
  by (simp add: returnM_def)

lemma throwM_run [simp, monad_simps]: "throwM e s = (Inl e, s)"
  by (simp add: throwM_def)

lemma getsM_run [simp, monad_simps]: "getsM f s = (Inr (f s), s)"
  by (simp add: getsM_def)

lemma modifyM_run [simp, monad_simps]: "modifyM f s = (Inr (), f s)"
  by (simp add: modifyM_def)

lemma bindM_run [monad_simps]:
  "bindM m f s = (case m s of (Inl e, s') \<Rightarrow> (Inl e, s') | (Inr x, s') \<Rightarrow> f x s')"
  by (simp add: bindM_def)

lemma thenM_run [monad_simps]:
  "thenM m k s = (case m s of (Inl e, s') \<Rightarrow> (Inl e, s') | (Inr x, s') \<Rightarrow> k s')"
  by (simp add: thenM_def bindM_def)

lemma throw_if_run [monad_simps]: "throw_if c e s = (if c then Inl e else Inr (), s)"
  by (simp add: throw_if_def)

lemma whenM_run [monad_simps]: "whenM c m s = (if c then m s else (Inr (), s))"
  by (simp add: whenM_def)

lemma orThrow_run [monad_simps]:
  "orThrow x e s = (case x of None \<Rightarrow> Inl e | Some y \<Rightarrow> Inr y, s)"
  by (simp add: orThrow_def split: option.split)

lemma bindM_Inr_iff:
  "bindM m f s = (Inr y, t) \<longleftrightarrow> (\<exists>x s'. m s = (Inr x, s') \<and> f x s' = (Inr y, t))"
  by (auto simp: bindM_def split: prod.splits sum.splits)

lemma thenM_Inr_iff:
  "thenM m k s = (Inr y, t) \<longleftrightarrow> (\<exists>x s'. m s = (Inr x, s') \<and> k s' = (Inr y, t))"
  by (simp add: thenM_def bindM_Inr_iff)

lemma bindM_Inl_iff:
  "bindM m f s = (Inl e, t) \<longleftrightarrow>
     m s = (Inl e, t) \<or> (\<exists>x s'. m s = (Inr x, s') \<and> f x s' = (Inl e, t))"
  by (auto simp: bindM_def split: prod.splits sum.splits)

lemma thenM_Inl_iff:
  "thenM m k s = (Inl e, t) \<longleftrightarrow>
     m s = (Inl e, t) \<or> (\<exists>x s'. m s = (Inr x, s') \<and> k s' = (Inl e, t))"
  by (simp add: thenM_def bindM_Inl_iff)

lemma throw_if_Inr_iff: "throw_if c e s = (Inr u, t) \<longleftrightarrow> \<not> c \<and> t = s"
  by (auto simp: throw_if_def)

lemma orThrow_Inr_iff: "orThrow x e s = (Inr y, t) \<longleftrightarrow> x = Some y \<and> t = s"
  by (auto simp: orThrow_def split: option.splits)

text \<open>A branch that ends in a \<open>throw\<close> was not taken by a call that returned.\<close>

lemma whenM_throw_Inr_iff [simp]:
  "whenM c (thenM m (throwM e)) s = (Inr u, t) \<longleftrightarrow> \<not> c \<and> t = s"
  by (auto simp: whenM_def thenM_Inr_iff)

lemmas success_iffs =
  bindM_Inr_iff thenM_Inr_iff throw_if_Inr_iff orThrow_Inr_iff

lemmas failure_iffs = bindM_Inl_iff thenM_Inl_iff

section \<open>Preservation of a state invariant\<close>

text \<open>
  \<open>keeps I m\<close>: from a state with \<open>I\<close>, the method ends in a state with \<open>I\<close>, whether it
  returns or throws.
\<close>

definition keeps :: "('s \<Rightarrow> bool) \<Rightarrow> ('s, 'e, 'a) sem \<Rightarrow> bool" where
  "keeps I m \<longleftrightarrow> (\<forall>s. I s \<longrightarrow> I (snd (m s)))"

lemma keepsI: "(\<And>s. I s \<Longrightarrow> I (snd (m s))) \<Longrightarrow> keeps I m"
  by (simp add: keeps_def)

lemma keepsD: "keeps I m \<Longrightarrow> I s \<Longrightarrow> I (snd (m s))"
  by (simp add: keeps_def)

lemma keepsE: "keeps I m \<Longrightarrow> m s = (r, t) \<Longrightarrow> I s \<Longrightarrow> I t"
  by (metis keepsD snd_conv)

lemma keeps_returnM [keeps_intros]: "keeps I (returnM x)"
  by (simp add: keeps_def)

lemma keeps_throwM [keeps_intros]: "keeps I (throwM e)"
  by (simp add: keeps_def)

lemma keeps_getsM [keeps_intros]: "keeps I (getsM f)"
  by (simp add: keeps_def)

lemma keeps_throw_if [keeps_intros]: "keeps I (throw_if c e)"
  by (simp add: keeps_def throw_if_run)

lemma keeps_orThrow [keeps_intros]: "keeps I (orThrow x e)"
  by (simp add: keeps_def orThrow_run)

lemma keeps_modifyM: "(\<And>s. I s \<Longrightarrow> I (f s)) \<Longrightarrow> keeps I (modifyM f)"
  by (simp add: keeps_def)

lemma keeps_bindM [keeps_intros]:
  assumes "keeps I m" and "\<And>x. keeps I (f x)"
  shows "keeps I (bindM m f)"
proof (rule keepsI)
  fix s assume "I s"
  then show "I (snd (bindM m f s))"
    using keepsE [OF assms(1), of s] keepsD [OF assms(2)]
    by (auto simp: bindM_def split: prod.splits sum.splits)
qed

lemma keeps_thenM [keeps_intros]: "keeps I m \<Longrightarrow> keeps I k \<Longrightarrow> keeps I (thenM m k)"
  by (simp add: thenM_def keeps_bindM)

lemma keeps_whenM [keeps_intros]: "keeps I m \<Longrightarrow> keeps I (whenM c m)"
  by (simp add: keeps_def whenM_run)

lemma keeps_if [keeps_intros]:
  "(c \<Longrightarrow> keeps I m) \<Longrightarrow> (\<not> c \<Longrightarrow> keeps I k) \<Longrightarrow> keeps I (if c then m else k)"
  by simp

lemma keeps_case_option [keeps_intros]:
  "keeps I m \<Longrightarrow> (\<And>y. keeps I (f y)) \<Longrightarrow> keeps I (case x of None \<Rightarrow> m | Some y \<Rightarrow> f y)"
  by (simp split: option.split)

lemma keeps_forM [keeps_intros]: "(\<And>x. keeps I (f x)) \<Longrightarrow> keeps I (forM xs f)"
  by (induction xs) (auto intro: keeps_intros)

section \<open>Credentials that work once\<close>

text \<open>
  The contract shared by every one-time credential of the code (refresh tokens, email
  verification and password reset tokens, OAuth states): presenting it
  (\<open>consume\<close>, together with the rest \<open>'p\<close> of the request) and succeeding spends it, a spent credential is refused, and no step of the
  system makes it good again.  \<open>good\<close> is the invariant of the provider.
\<close>

locale single_use =
  fixes consume :: "'k \<Rightarrow> 'p \<Rightarrow> ('s, 'e, 'a) sem"
    and spent :: "'k \<Rightarrow> 's \<Rightarrow> bool"
    and good :: "'s \<Rightarrow> bool"
    and step :: "'s \<Rightarrow> 's \<Rightarrow> bool"
  assumes consume_good: "good s \<Longrightarrow> good (snd (consume k p s))"
    and consume_spends: "good s \<Longrightarrow> consume k p s = (Inr x, t) \<Longrightarrow> spent k t"
    and spent_refused: "good s \<Longrightarrow> spent k s \<Longrightarrow> \<exists>e. fst (consume k p s) = Inl e"
    and step_good: "good s \<Longrightarrow> step s t \<Longrightarrow> good t"
    and step_spent: "good s \<Longrightarrow> step s t \<Longrightarrow> spent k s \<Longrightarrow> spent k t"
begin

lemma steps_good: "step\<^sup>*\<^sup>* s t \<Longrightarrow> good s \<Longrightarrow> good t"
  by (induction rule: rtranclp_induct) (auto intro: step_good)

lemma spent_stays:
  assumes "step\<^sup>*\<^sup>* s t" and "good s" and "spent k s"
  shows "good t \<and> spent k t"
  using assms by (induction rule: rtranclp_induct) (auto intro: step_good step_spent)

text \<open>A credential that was accepted once stays spent, and is refused ever after.\<close>

lemma used_stays_spent:
  assumes "good s" and "consume k p s = (Inr x, s1)" and "step\<^sup>*\<^sup>* s1 s2"
  shows "good s2 \<and> spent k s2"
proof -
  have "good s1" using consume_good [OF assms(1), of k p] assms(2) by simp
  moreover have "spent k s1" using assms(1,2) by (rule consume_spends)
  ultimately show ?thesis using spent_stays [OF assms(3)] by blast
qed

lemma used_once:
  assumes "good s" and "consume k p s = (Inr x, s1)" and "step\<^sup>*\<^sup>* s1 s2"
  shows "\<exists>e. fst (consume k q s2) = Inl e"
  using used_stays_spent [OF assms] spent_refused by blast

end

section \<open>Rows of a table\<close>

text \<open>
  \<open>findFirst\<close>, \<open>findMany\<close>, \<open>updateMany\<close>, \<open>deleteMany\<close> and \<open>count\<close> of the Prisma client
  as functions on the list of rows; the predicate is the \<open>where\<close> clause of the call and
  the update function its \<open>data\<close> clause.  \<open>findFirst\<close> without \<open>orderBy\<close> may return any
  matching row; the list stands for the order the database happens to use, and every
  theorem is about an arbitrary list.
\<close>

definition findFirst :: "('r \<Rightarrow> bool) \<Rightarrow> 'r list \<Rightarrow> 'r option" where
  "findFirst p rows = find p rows"

definition findMany :: "('r \<Rightarrow> bool) \<Rightarrow> 'r list \<Rightarrow> 'r list" where
  "findMany p rows = filter p rows"

definition updateRows :: "('r \<Rightarrow> bool) \<Rightarrow> ('r \<Rightarrow> 'r) \<Rightarrow> 'r list \<Rightarrow> 'r list" where
  "updateRows p f rows = map (\<lambda>r. if p r then f r else r) rows"

definition deleteRows :: "('r \<Rightarrow> bool) \<Rightarrow> 'r list \<Rightarrow> 'r list" where
  "deleteRows p rows = filter (\<lambda>r. \<not> p r) rows"

definition countRows :: "('r \<Rightarrow> bool) \<Rightarrow> 'r list \<Rightarrow> nat" where
  "countRows p rows = length (filter p rows)"

lemma findFirst_None_iff [table_simps]: "findFirst p rows = None \<longleftrightarrow> (\<forall>r \<in> set rows. \<not> p r)"
  by (auto simp: findFirst_def find_None_iff)

lemma findFirst_SomeD: "findFirst p rows = Some r \<Longrightarrow> r \<in> set rows \<and> p r"
  by (auto simp: findFirst_def find_Some_iff)

lemma findFirst_ex: "r \<in> set rows \<Longrightarrow> p r \<Longrightarrow> \<exists>r'. findFirst p rows = Some r'"
  by (metis findFirst_None_iff not_Some_eq)

lemma set_updateRows [table_simps]:
  "set (updateRows p f rows) = (\<lambda>r. if p r then f r else r) ` set rows"
  by (auto simp: updateRows_def)

lemma set_deleteRows [table_simps]: "set (deleteRows p rows) = {r \<in> set rows. \<not> p r}"
  by (auto simp: deleteRows_def)

lemma set_findMany [table_simps]: "set (findMany p rows) = {r \<in> set rows. p r}"
  by (auto simp: findMany_def)

lemma updateRows_Nil [simp]: "updateRows p f [] = []"
  by (simp add: updateRows_def)

lemma updateRows_Cons [simp]:
  "updateRows p f (r # rows) = (if p r then f r else r) # updateRows p f rows"
  by (simp add: updateRows_def)

lemma updateRows_append [simp]:
  "updateRows p f (xs @ ys) = updateRows p f xs @ updateRows p f ys"
  by (simp add: updateRows_def)

lemma updateRows_none: "(\<And>r. r \<in> set rows \<Longrightarrow> \<not> p r) \<Longrightarrow> updateRows p f rows = rows"
  by (induction rows) auto

lemma map_updateRows_key:
  "(\<And>r. key (f r) = key r) \<Longrightarrow> map key (updateRows p f rows) = map key rows"
  by (induction rows) auto

lemma countRows_zero_iff: "countRows p rows = 0 \<longleftrightarrow> (\<forall>r \<in> set rows. \<not> p r)"
  by (auto simp: countRows_def filter_empty_conv)

lemma countRows_pos_iff: "0 < countRows p rows \<longleftrightarrow> (\<exists>r \<in> set rows. p r)"
  using countRows_zero_iff [of p rows] by auto

lemma findFirst_updateRows_stable:
  assumes "\<And>r. p (if q r then f r else r) = p r"
  shows "findFirst p (updateRows q f rows) =
         map_option (\<lambda>r. if q r then f r else r) (findFirst p rows)"
  using assms by (induction rows) (auto simp: findFirst_def)

text \<open>Rows whose keys are pairwise different: a row is determined by its key.\<close>

lemma distinct_map_unique:
  "distinct (map key rows) \<Longrightarrow> r \<in> set rows \<Longrightarrow> r' \<in> set rows \<Longrightarrow> key r = key r' \<Longrightarrow> r = r'"
  by (metis distinct_map inj_on_eq_iff)

lemma findFirst_key:
  assumes "distinct (map key rows)" and "r \<in> set rows"
  shows "findFirst (\<lambda>x. key x = key r) rows = Some r"
  using assms by (induction rows) (auto simp: findFirst_def image_iff)

end
