(* ===== verification/JsStrings.thy ===== *)
theory JsStrings
  imports Prelude
begin

text \<open>
  The String methods of JavaScript the code calls, on \<open>string\<close> (lists of 8-bit
  characters; code units above 255 do not occur in the model): \<open>trim\<close>,
  \<open>toLowerCase\<close>, \<open>toUpperCase\<close>, \<open>split\<close>, \<open>join\<close>, \<open>startsWith\<close>, \<open>endsWith\<close>,
  \<open>includes\<close>, \<open>padEnd\<close>, the decimal text of a natural number and the hexadecimal
  text of a byte buffer; and truthiness of nullable strings.
\<close>

definition js_space :: "char \<Rightarrow> bool" where
  "js_space c \<longleftrightarrow> of_char c \<in> {9::nat, 10, 11, 12, 13, 32, 160}"

definition js_trim :: "string \<Rightarrow> string" where
  "js_trim s = rev (dropWhile js_space (rev (dropWhile js_space s)))"

definition lower_char :: "char \<Rightarrow> char" where
  "lower_char c = (if (65::nat) \<le> of_char c \<and> (of_char c :: nat) \<le> 90
                   then char_of ((of_char c :: nat) + 32) else c)"

definition upper_char :: "char \<Rightarrow> char" where
  "upper_char c = (if (97::nat) \<le> of_char c \<and> (of_char c :: nat) \<le> 122
                   then char_of ((of_char c :: nat) - 32) else c)"

definition toLowerCase :: "string \<Rightarrow> string" where
  "toLowerCase s = map lower_char s"

definition toUpperCase :: "string \<Rightarrow> string" where
  "toUpperCase s = map upper_char s"

definition startsWith :: "string \<Rightarrow> string \<Rightarrow> bool" where
  "startsWith s p \<longleftrightarrow> take (length p) s = p"

definition endsWith :: "string \<Rightarrow> string \<Rightarrow> bool" where
  "endsWith s p \<longleftrightarrow> startsWith (rev s) (rev p)"

fun js_includes :: "string \<Rightarrow> string \<Rightarrow> bool" where
  "js_includes [] p \<longleftrightarrow> p = []"
| "js_includes (c # s) p \<longleftrightarrow> startsWith (c # s) p \<or> js_includes s p"

text \<open>\<open>s.split(c)\<close> for a one-character separator: never empty.\<close>

fun js_split :: "char \<Rightarrow> string \<Rightarrow> string list" where
  "js_split c [] = [[]]"
| "js_split c (x # s) =
     (if x = c then [] # js_split c s
      else (case js_split c s of [] \<Rightarrow> [[x]] | p # ps \<Rightarrow> (x # p) # ps))"

fun js_join :: "string \<Rightarrow> string list \<Rightarrow> string" where
  "js_join sep [] = []"
| "js_join sep [p] = p"
| "js_join sep (p # q # ps) = p @ sep @ js_join sep (q # ps)"

definition padEnd :: "nat \<Rightarrow> char \<Rightarrow> string \<Rightarrow> string" where
  "padEnd n c s = s @ replicate (n - length s) c"

fun show_nat :: "nat \<Rightarrow> string" where
  "show_nat n = (if n < 10 then [char_of (48 + n)]
                 else show_nat (n div 10) @ [char_of (48 + n mod 10)])"

declare show_nat.simps [simp del]

definition hex_digit :: "nat \<Rightarrow> char" where
  "hex_digit n = (if n < 10 then char_of (48 + n) else char_of (87 + n))"

text \<open>\<open>Buffer.toString('hex')\<close>: two digits per byte.\<close>

definition to_hex :: "nat list \<Rightarrow> string" where
  "to_hex bs = concat (map (\<lambda>b. [hex_digit (b div 16), hex_digit (b mod 16)]) bs)"

text \<open>Truthiness of \<open>string | null\<close> and \<open>string | undefined\<close>: not null and not empty.\<close>

definition truthy_str :: "string option \<Rightarrow> bool" where
  "truthy_str x \<longleftrightarrow> x \<noteq> None \<and> x \<noteq> Some []"

text \<open>\<open>a ?? b\<close> on nullable values.\<close>

definition orElse :: "'a option \<Rightarrow> 'a option \<Rightarrow> 'a option" where
  "orElse a b = (case a of None \<Rightarrow> b | Some x \<Rightarrow> Some x)"

definition orDefault :: "'a option \<Rightarrow> 'a \<Rightarrow> 'a" where
  "orDefault a d = (case a of None \<Rightarrow> d | Some x \<Rightarrow> x)"

text \<open>\<open>dto.x ?? undefined\<close> in a Prisma \<open>data\<close> clause: undefined leaves the column.\<close>

definition setIf :: "'a option \<Rightarrow> ('a \<Rightarrow> 'r \<Rightarrow> 'r) \<Rightarrow> 'r \<Rightarrow> 'r" where
  "setIf a f r = (case a of None \<Rightarrow> r | Some x \<Rightarrow> f x r)"

section \<open>Laws\<close>

lemma orElse_simps [simp]: "orElse None b = b" "orElse (Some x) b = Some x"
  by (simp_all add: orElse_def)

lemma orDefault_simps [simp]: "orDefault None d = d" "orDefault (Some x) d = x"
  by (simp_all add: orDefault_def)

lemma setIf_simps [simp]: "setIf None f r = r" "setIf (Some x) f r = f x r"
  by (simp_all add: setIf_def)

lemma truthy_str_simps [simp]:
  "\<not> truthy_str None" "\<not> truthy_str (Some [])" "truthy_str (Some (c # s))"
  by (simp_all add: truthy_str_def)

lemma js_split_nonempty [simp]: "js_split c s \<noteq> []"
  by (induction s) (auto split: list.splits)

lemma js_join_split: "js_join [c] (js_split c s) = s"
proof (induction s)
  case Nil
  then show ?case by simp
next
  case (Cons x s)
  obtain p ps where ps: "js_split c s = p # ps"
    using js_split_nonempty [of c s] by (cases "js_split c s") auto
  with Cons show ?case by (cases ps) auto
qed

lemma js_split_parts: "p \<in> set (js_split c s) \<Longrightarrow> c \<notin> set p"
  by (induction s arbitrary: p) (auto split: list.splits if_splits)

lemma lower_char_idem [simp]: "lower_char (lower_char c) = lower_char c"
proof (cases "(65::nat) \<le> of_char c \<and> (of_char c :: nat) \<le> 90")
  case True
  then have "(of_char c :: nat) + 32 < 256" by simp
  then have "of_char (char_of ((of_char c :: nat) + 32) :: char) = (of_char c :: nat) + 32"
    by simp
  with True show ?thesis by (simp add: lower_char_def)
qed (auto simp add: lower_char_def)

lemma toLowerCase_idem [simp]: "toLowerCase (toLowerCase s) = toLowerCase s"
  by (simp add: toLowerCase_def)

lemma js_space_lower [simp]: "js_space (lower_char c) = js_space c"
proof (cases "(65::nat) \<le> of_char c \<and> (of_char c :: nat) \<le> 90")
  case True
  then have "(of_char c :: nat) + 32 < 256" by simp
  then have "of_char (char_of ((of_char c :: nat) + 32) :: char) = (of_char c :: nat) + 32"
    by simp
  with True show ?thesis by (auto simp add: lower_char_def js_space_def)
qed (auto simp add: lower_char_def)

lemma dropWhile_space_lower:
  "dropWhile js_space (map lower_char s) = map lower_char (dropWhile js_space s)"
  by (induction s) auto

lemma js_trim_lower: "js_trim (toLowerCase s) = toLowerCase (js_trim s)"
  by (simp add: js_trim_def toLowerCase_def dropWhile_space_lower rev_map)

lemma dropWhile_idem: "dropWhile P (dropWhile P xs) = dropWhile P xs"
  by (induction xs) auto

lemma dropWhile_rev_hd:
  "xs = [] \<or> \<not> P (hd xs) \<Longrightarrow>
   rev (dropWhile P (rev xs)) = [] \<or> \<not> P (hd (rev (dropWhile P (rev xs))))"
proof (induction xs rule: rev_induct)
  case (snoc x xs)
  then show ?case by (cases xs) auto
qed simp

lemma js_trim_idem [simp]: "js_trim (js_trim s) = js_trim s"
proof -
  let ?t = "dropWhile js_space s"
  have "?t = [] \<or> \<not> js_space (hd ?t)"
    by (metis hd_dropWhile)
  then have "js_trim s = [] \<or> \<not> js_space (hd (js_trim s))"
    unfolding js_trim_def by (rule dropWhile_rev_hd)
  then have "dropWhile js_space (js_trim s) = js_trim s"
    by (cases "js_trim s") auto
  then have "js_trim (js_trim s) = rev (dropWhile js_space (rev (js_trim s)))"
    by (simp add: js_trim_def [of "js_trim s"])
  then show ?thesis by (simp add: js_trim_def dropWhile_idem)
qed

text \<open>The normalisation every login path applies to an email, \<open>email.trim().toLowerCase()\<close>.\<close>

definition normalizeEmail :: "string \<Rightarrow> string" where
  "normalizeEmail s = toLowerCase (js_trim s)"

lemma normalizeEmail_idem [simp]: "normalizeEmail (normalizeEmail s) = normalizeEmail s"
  by (simp add: normalizeEmail_def js_trim_lower)

lemma show_nat_inj: "show_nat m = show_nat n \<Longrightarrow> m = n"
proof (induction m arbitrary: n rule: less_induct)
  case (less m)
  have last: "last (show_nat k) = char_of (48 + k mod 10)" for k
    by (subst show_nat.simps) simp
  have digit: "(char_of (48 + i) :: char) = char_of (48 + j) \<longleftrightarrow> i = j"
    if "i < 10" "j < 10" for i j :: nat
  proof
    assume "(char_of (48 + i) :: char) = char_of (48 + j)"
    then have "(of_char (char_of (48 + i) :: char) :: nat) = of_char (char_of (48 + j) :: char)"
      by simp
    with that show "i = j" by (simp add: of_char_of)
  qed simp
  from less.prems last digit [of "m mod 10" "n mod 10"]
  have m: "m mod 10 = n mod 10" by (metis mod_less_divisor zero_less_numeral)
  have but: "butlast (show_nat k) = (if k < 10 then [] else show_nat (k div 10))" for k
    by (subst show_nat.simps) simp
  have ne: "show_nat k \<noteq> []" for k by (subst show_nat.simps) simp
  have d: "(if m < 10 then [] else show_nat (m div 10)) = (if n < 10 then [] else show_nat (n div 10))"
    using less.prems but by metis
  show ?case
  proof (cases "m < 10")
    case True
    with d ne have "n < 10" by (metis (full_types))
    with True m show ?thesis by simp
  next
    case False
    with d ne have "\<not> n < 10" by (metis (full_types))
    with False d less.IH [of "m div 10" "n div 10"] have "m div 10 = n div 10" by simp
    with m show ?thesis by (metis div_mult_mod_eq)
  qed
qed

end
