(* ===== verification/JsValue.thy ===== *)
theory JsValue
  imports JsStrings Complex_Main
begin

text \<open>
  The values of type \<open>unknown\<close> that flow through attribute-based access control and
  the JSON columns: a JavaScript value, its truthiness, \<open>typeof\<close>, \<open>===\<close>, own keys and
  property reads.  Numbers are rationals with the three non-finite doubles; a date is its
  \<open>getTime()\<close>, \<open>None\<close> for an invalid one.  Values are compared by structure, so two
  occurrences of one object are the same object only up to \<open>JDate None\<close> and \<open>NaN\<close>
  inside them.
\<close>

datatype jsnum = NaN | NegInf | Fin rat | PosInf

datatype jsval =
    JUndefined
  | JNull
  | JBool bool
  | JNum jsnum
  | JStr string
  | JDate "int option"
  | JFun string
  | JArr "jsval list"
  | JObj "(string \<times> jsval) list"

datatype jstype = TUndefined | TBoolean | TNumber | TString | TFunction | TObject

text \<open>
  What the code takes from the ECMAScript runtime beyond these values: the conversions
  \<open>Number(v)\<close> and \<open>String(v)\<close>, date parsing, regular expressions (\<open>None\<close> when the
  pattern is a syntax error) and the functions inherited from the prototype of an object.
\<close>

record js_runtime =
  js_Number :: "jsval \<Rightarrow> jsnum"
  js_String :: "jsval \<Rightarrow> string"
  js_parseDate :: "string \<Rightarrow> int option"
  js_regexTest :: "string \<Rightarrow> string \<Rightarrow> bool option"
  js_inherited :: "jsval \<Rightarrow> string \<Rightarrow> string option"

fun js_typeof :: "jsval \<Rightarrow> jstype" where
  "js_typeof JUndefined = TUndefined"
| "js_typeof JNull = TObject"
| "js_typeof (JBool _) = TBoolean"
| "js_typeof (JNum _) = TNumber"
| "js_typeof (JStr _) = TString"
| "js_typeof (JDate _) = TObject"
| "js_typeof (JFun _) = TFunction"
| "js_typeof (JArr _) = TObject"
| "js_typeof (JObj _) = TObject"

text \<open>\<open>Boolean(v)\<close>.\<close>

fun js_truthy :: "jsval \<Rightarrow> bool" where
  "js_truthy JUndefined = False"
| "js_truthy JNull = False"
| "js_truthy (JBool b) = b"
| "js_truthy (JNum n) = (n \<noteq> NaN \<and> n \<noteq> Fin 0)"
| "js_truthy (JStr s) = (s \<noteq> [])"
| "js_truthy _ = True"

definition js_nullish :: "jsval \<Rightarrow> bool" where
  "js_nullish v \<longleftrightarrow> v = JUndefined \<or> v = JNull"

fun js_isArray :: "jsval \<Rightarrow> bool" where
  "js_isArray (JArr _) = True"
| "js_isArray _ = False"

text \<open>\<open>a === b\<close> on values that are not the same object.\<close>

fun js_strictEq :: "jsval \<Rightarrow> jsval \<Rightarrow> bool" where
  "js_strictEq JUndefined JUndefined = True"
| "js_strictEq JNull JNull = True"
| "js_strictEq (JBool a) (JBool b) = (a = b)"
| "js_strictEq (JNum a) (JNum b) = (a = b \<and> a \<noteq> NaN)"
| "js_strictEq (JStr a) (JStr b) = (a = b)"
| "js_strictEq (JFun a) (JFun b) = (a = b)"
| "js_strictEq _ _ = False"

text \<open>Own enumerable properties, \<open>Object.keys\<close> and the property read \<open>v[k]\<close>.\<close>

fun js_own :: "jsval \<Rightarrow> (string \<times> jsval) list" where
  "js_own (JObj kvs) = kvs"
| "js_own (JArr xs) = zip (map show_nat [0..<length xs]) xs"
| "js_own _ = []"

definition js_keys :: "jsval \<Rightarrow> string list" where
  "js_keys v = map fst (js_own v)"

definition js_builtin :: "js_runtime \<Rightarrow> jsval \<Rightarrow> string \<Rightarrow> jsval" where
  "js_builtin R v k =
     (case v of
        JArr xs \<Rightarrow> (if k = ''length'' then JNum (Fin (of_nat (length xs)))
                    else (case js_inherited R v k of None \<Rightarrow> JUndefined | Some f \<Rightarrow> JFun f))
      | _ \<Rightarrow> (case js_inherited R v k of None \<Rightarrow> JUndefined | Some f \<Rightarrow> JFun f))"

definition js_get :: "js_runtime \<Rightarrow> jsval \<Rightarrow> string \<Rightarrow> jsval" where
  "js_get R v k = (case map_of (js_own v) k of Some x \<Rightarrow> x | None \<Rightarrow> js_builtin R v k)"

text \<open>\<open>{...a, ...b}\<close>: later keys win.\<close>

definition js_spread :: "(string \<times> jsval) list \<Rightarrow> (string \<times> jsval) list \<Rightarrow> (string \<times> jsval) list" where
  "js_spread a b = b @ filter (\<lambda>(k, _). k \<notin> fst ` set b) a"

definition js_of_opt :: "string option \<Rightarrow> jsval" where
  "js_of_opt x = (case x of None \<Rightarrow> JNull | Some s \<Rightarrow> JStr s)"

section \<open>Size, for recursion over values\<close>

fun jsize :: "jsval \<Rightarrow> nat" where
  "jsize (JArr xs) = Suc (sum_list (map jsize xs))"
| "jsize (JObj kvs) = Suc (sum_list (map (\<lambda>kv. jsize (snd kv)) kvs))"
| "jsize _ = 0"

lemma jsize_builtin [simp]: "jsize (js_builtin R v k) = 0"
  by (auto simp: js_builtin_def split: jsval.splits option.splits)

lemma jsize_own: "(k, x) \<in> set (js_own v) \<Longrightarrow> jsize x < jsize v"
proof (cases v)
  case (JArr xs)
  moreover assume "(k, x) \<in> set (js_own v)"
  ultimately have "x \<in> set xs" by (auto dest: set_zip_rightD)
  with JArr show ?thesis by (simp add: le_imp_less_Suc member_le_sum_list)
next
  case (JObj kvs)
  moreover assume "(k, x) \<in> set (js_own v)"
  ultimately have "jsize x \<in> set (map (\<lambda>kv. jsize (snd kv)) kvs)" by force
  with JObj show ?thesis by (simp add: le_imp_less_Suc member_le_sum_list)
qed auto

lemma jsize_get_le: "jsize (js_get R v k) \<le> jsize v"
  by (auto simp: js_get_def split: option.splits dest!: map_of_SomeD jsize_own)

lemma jsize_get_less: "k \<in> set (js_keys v) \<Longrightarrow> jsize (js_get R v k) < jsize v"
  by (auto simp: js_get_def js_keys_def split: option.splits dest!: map_of_SomeD jsize_own
      simp: map_of_eq_None_iff)

lemma js_get_own: "map_of (js_own v) k = Some x \<Longrightarrow> js_get R v k = x"
  by (simp add: js_get_def)

lemma js_get_spread:
  "k \<in> fst ` set b \<Longrightarrow> js_get R (JObj (js_spread a b)) k = js_get R (JObj b) k"
  by (auto simp: js_get_def js_spread_def map_add_def split: option.splits
      simp: map_of_eq_None_iff)

lemma js_strictEq_sym: "js_strictEq a b = js_strictEq b a"
  by (cases a; cases b) auto

lemma js_strictEq_eq: "js_strictEq a b \<Longrightarrow> a = b"
  by (cases a; cases b) auto

end
