(* ===== verification/Schema.thy ===== *)
theory Schema
  imports JsValue
begin

text \<open>
  The data model of \<open>prisma/schema.prisma\<close>: one record per model, one datatype per
  enum, and the database as a record of tables (lists of rows).  A \<open>DateTime\<close> is its
  number of milliseconds, a nullable column an \<open>option\<close>, an \<open>Int\<close> an \<open>int\<close>.  The
  \<open>updatedAt\<close> columns, which no code reads for a decision, are left out.
\<close>

datatype UserStatus = UserActive | UserInactive | UserSuspended | UserLocked
datatype OrganizationStatus = OrgActive | OrgInactive | OrgSuspended
datatype OrganizationPlan = PlanFree | PlanPro | PlanEnterprise
datatype MembershipStatus = MemberActive | MemberInvited | MemberSuspended | MemberRemoved
datatype PolicyEffect = ALLOW | DENY
datatype AttributeSource = USER | MEMBERSHIP | RESOURCE | ORGANIZATION | REQUEST | ENVIRONMENT
datatype PolicyOperator =
    EQUALS | NOT_EQUALS | IN_OP | NOT_IN_OP | GREATER_THAN | GREATER_THAN_OR_EQUAL
  | LESS_THAN | LESS_THAN_OR_EQUAL | CONTAINS | STARTS_WITH | ENDS_WITH | EXISTS_OP | REGEX_MATCH
datatype AttributeValueType = VT_STRING | VT_NUMBER | VT_BOOLEAN | VT_ARRAY | VT_DATE | VT_JSON
datatype InvitationStatus = InvPending | InvAccepted | InvExpired | InvRevoked
datatype OAuthProvider = GOOGLE | GITHUB | MICROSOFT

record User =
  u_id :: string
  u_email :: string
  u_passwordHash :: string
  u_firstName :: "string option"
  u_lastName :: "string option"
  u_status :: UserStatus
  u_isEmailVerified :: bool
  u_tokenVersion :: int
  u_failedLoginAttempts :: int
  u_lockUntil :: "int option"
  u_lastLoginAt :: "int option"
  u_createdAt :: int
  u_deletedAt :: "int option"

record Session =
  s_id :: string
  s_userId :: string
  s_familyId :: string
  s_ipAddress :: "string option"
  s_userAgent :: "string option"
  s_deviceName :: "string option"
  s_lastActivityAt :: int
  s_expiresAt :: int
  s_revokedAt :: "int option"
  s_createdAt :: int

record RefreshToken =
  rt_id :: string
  rt_userId :: string
  rt_sessionId :: string
  rt_familyId :: string
  rt_tokenHash :: string
  rt_expiresAt :: int
  rt_revokedAt :: "int option"
  rt_replacedByTokenId :: "string option"
  rt_reuseDetectedAt :: "int option"

text \<open>\<open>EmailVerificationToken\<close> and \<open>PasswordResetToken\<close> have the same columns.\<close>

record OneTimeToken =
  ot_id :: string
  ot_userId :: string
  ot_tokenHash :: string
  ot_expiresAt :: int
  ot_usedAt :: "int option"

record PasswordHistory =
  ph_id :: string
  ph_userId :: string
  ph_passwordHash :: string
  ph_createdAt :: int

record Organization =
  o_id :: string
  o_name :: string
  o_slug :: string
  o_status :: OrganizationStatus
  o_plan :: OrganizationPlan
  o_settings :: jsval
  o_createdAt :: int
  o_deletedAt :: "int option"

record Membership =
  m_id :: string
  m_userId :: string
  m_organizationId :: string
  m_status :: MembershipStatus
  m_department :: "string option"
  m_region :: "string option"
  m_jobTitle :: "string option"
  m_clearanceLevel :: int
  m_permissionsVersion :: int
  m_attributesVersion :: int
  m_joinedAt :: int
  m_deletedAt :: "int option"

record Role =
  r_id :: string
  r_organizationId :: "string option"
  r_name :: string
  r_slug :: string
  r_description :: "string option"
  r_isSystem :: bool
  r_deletedAt :: "int option"

record Permission =
  p_id :: string
  p_resource :: string
  p_action :: string
  p_description :: "string option"

record RolePermission =
  rp_roleId :: string
  rp_permissionId :: string

record UserRole =
  ur_membershipId :: string
  ur_roleId :: string

record Policy =
  pol_id :: string
  pol_organizationId :: "string option"
  pol_name :: string
  pol_slug :: string
  pol_description :: "string option"
  pol_effect :: PolicyEffect
  pol_resource :: string
  pol_action :: string
  pol_priority :: int
  pol_isSystem :: bool
  pol_isEnabled :: bool
  pol_deletedAt :: "int option"

record PolicyCondition =
  pc_id :: string
  pc_policyId :: string
  pc_attributeSource :: AttributeSource
  pc_attributePath :: string
  pc_operator :: PolicyOperator
  pc_value :: jsval
  pc_valueType :: AttributeValueType

record PolicyAssignment =
  pa_id :: string
  pa_policyId :: string
  pa_roleId :: "string option"
  pa_userId :: "string option"
  pa_organizationId :: "string option"

record Invitation =
  inv_id :: string
  inv_organizationId :: string
  inv_email :: string
  inv_roleId :: "string option"
  inv_department :: "string option"
  inv_region :: "string option"
  inv_jobTitle :: "string option"
  inv_clearanceLevel :: int
  inv_tokenHash :: string
  inv_status :: InvitationStatus
  inv_expiresAt :: int
  inv_acceptedAt :: "int option"
  inv_createdAt :: int

record MfaSecret =
  ms_userId :: string
  ms_secretEncrypted :: string
  ms_isEnabled :: bool
  ms_lastUsedAt :: "int option"

record BackupCode =
  bc_id :: string
  bc_userId :: string
  bc_codeHash :: string
  bc_usedAt :: "int option"

record MfaChallenge =
  mc_id :: string
  mc_userId :: string
  mc_tokenHash :: string
  mc_expiresAt :: int
  mc_consumedAt :: "int option"
  mc_ipAddress :: "string option"
  mc_userAgent :: "string option"
  mc_deviceName :: "string option"
  mc_attempts :: int

record OAuthAccount =
  oa_id :: string
  oa_userId :: string
  oa_provider :: OAuthProvider
  oa_providerUserId :: string
  oa_email :: "string option"
  oa_accessTokenEncrypted :: "string option"
  oa_refreshTokenEncrypted :: "string option"
  oa_metadata :: jsval
  oa_createdAt :: int

record SsoConfiguration =
  sc_id :: string
  sc_organizationId :: string
  sc_providerName :: string
  sc_entryPoint :: string
  sc_issuer :: string
  sc_certificate :: string
  sc_metadataUrl :: "string option"
  sc_isEnabled :: bool
  sc_allowIdpInitiated :: bool
  sc_ssoOnlyMode :: bool
  sc_attributeMapping :: "(string \<times> string) list"
  sc_defaultRoleSlug :: "string option"
  sc_createdAt :: int

record database =
  users :: "User list"
  sessions :: "Session list"
  refreshTokens :: "RefreshToken list"
  emailVerificationTokens :: "OneTimeToken list"
  passwordResetTokens :: "OneTimeToken list"
  passwordHistory :: "PasswordHistory list"
  organizations :: "Organization list"
  memberships :: "Membership list"
  roles :: "Role list"
  permissions :: "Permission list"
  rolePermissions :: "RolePermission list"
  userRoles :: "UserRole list"
  policies :: "Policy list"
  policyConditions :: "PolicyCondition list"
  policyAssignments :: "PolicyAssignment list"
  invitations :: "Invitation list"
  mfaSecrets :: "MfaSecret list"
  backupCodes :: "BackupCode list"
  mfaChallenges :: "MfaChallenge list"
  oauthAccounts :: "OAuthAccount list"
  ssoConfigurations :: "SsoConfiguration list"

text \<open>A table of the database: how to read it and how to replace it.\<close>

type_synonym 'r table = "(database \<Rightarrow> 'r list) \<times> (('r list \<Rightarrow> 'r list) \<Rightarrow> database \<Rightarrow> database)"

abbreviation usersT :: "User table" where "usersT \<equiv> (users, users_update)"
abbreviation sessionsT :: "Session table" where "sessionsT \<equiv> (sessions, sessions_update)"
abbreviation refreshTokensT :: "RefreshToken table" where
  "refreshTokensT \<equiv> (refreshTokens, refreshTokens_update)"
abbreviation emailVerificationTokensT :: "OneTimeToken table" where
  "emailVerificationTokensT \<equiv> (emailVerificationTokens, emailVerificationTokens_update)"
abbreviation passwordResetTokensT :: "OneTimeToken table" where
  "passwordResetTokensT \<equiv> (passwordResetTokens, passwordResetTokens_update)"
abbreviation passwordHistoryT :: "PasswordHistory table" where
  "passwordHistoryT \<equiv> (passwordHistory, passwordHistory_update)"
abbreviation organizationsT :: "Organization table" where
  "organizationsT \<equiv> (organizations, organizations_update)"
abbreviation membershipsT :: "Membership table" where
  "membershipsT \<equiv> (memberships, memberships_update)"
abbreviation rolesT :: "Role table" where "rolesT \<equiv> (roles, roles_update)"
abbreviation permissionsT :: "Permission table" where
  "permissionsT \<equiv> (permissions, permissions_update)"
abbreviation rolePermissionsT :: "RolePermission table" where
  "rolePermissionsT \<equiv> (rolePermissions, rolePermissions_update)"
abbreviation userRolesT :: "UserRole table" where "userRolesT \<equiv> (userRoles, userRoles_update)"
abbreviation policiesT :: "Policy table" where "policiesT \<equiv> (policies, policies_update)"
abbreviation policyConditionsT :: "PolicyCondition table" where
  "policyConditionsT \<equiv> (policyConditions, policyConditions_update)"
abbreviation policyAssignmentsT :: "PolicyAssignment table" where
  "policyAssignmentsT \<equiv> (policyAssignments, policyAssignments_update)"
abbreviation invitationsT :: "Invitation table" where
  "invitationsT \<equiv> (invitations, invitations_update)"
abbreviation mfaSecretsT :: "MfaSecret table" where
  "mfaSecretsT \<equiv> (mfaSecrets, mfaSecrets_update)"
abbreviation backupCodesT :: "BackupCode table" where
  "backupCodesT \<equiv> (backupCodes, backupCodes_update)"
abbreviation mfaChallengesT :: "MfaChallenge table" where
  "mfaChallengesT \<equiv> (mfaChallenges, mfaChallenges_update)"
abbreviation oauthAccountsT :: "OAuthAccount table" where
  "oauthAccountsT \<equiv> (oauthAccounts, oauthAccounts_update)"
abbreviation ssoConfigurationsT :: "SsoConfiguration table" where
  "ssoConfigurationsT \<equiv> (ssoConfigurations, ssoConfigurations_update)"

end
