(* ===== verification/World.thy ===== *)
theory World
  imports Schema
begin

text \<open>
  The state every service works on and the infrastructure modules the services share:
  the clock, the source of random bytes and ids, the PostgreSQL database behind Prisma,
  the Redis cache (\<open>infrastructure/cache/cache.service.ts\<close>), the BullMQ queues
  (\<open>infrastructure/queue/queue.service.ts\<close>), the audit trail
  (\<open>modules/audit/audit.service.ts\<close>), the exceptions (\<open>common/exceptions\<close>) that
  theory \<open>HttpErrors\<close> translates to responses.

  A database transaction that throws leaves the tables as they were, while cache
  entries, queued jobs and drawn random values stay.  One call reads the clock as often
  as it likes and always sees the time the call started at.
\<close>

section \<open>Exceptions\<close>

record ApiErrorDetail =
  ed_field :: "string option"
  ed_code :: "string option"
  ed_message :: string

text \<open>\<open>meta.target\<close> of a Prisma error, the two shapes of the body of an HTTP exception.\<close>

datatype prisma_target = NoTarget | TargetText string | TargetFields "string list"

datatype http_message = NoMessage | OneMessage string | MessageList "string list"

datatype http_body =
    TextBody string
  | ObjectBody http_message "string option" "(ApiErrorDetail list) option"

datatype exn =
    AppException string string "ApiErrorDetail list" nat
  | PrismaKnownError string prisma_target
  | PrismaValidationError
  | HttpException nat http_body string
  | JsError string

record AppExceptionOptions =
  xo_code :: "string option"
  xo_message :: string
  xo_errors :: "(ApiErrorDetail list) option"
  xo_status :: "nat option"

text \<open>\<open>new AppException(options)\<close>: the defaults are \<open>APP_ERROR\<close> and 400.\<close>

definition newAppException :: "AppExceptionOptions \<Rightarrow> exn" where
  "newAppException opts =
     AppException (orDefault (xo_code opts) ''APP_ERROR'') (xo_message opts)
       (orDefault (xo_errors opts) []) (orDefault (xo_status opts) 400)"

definition appExn :: "string \<Rightarrow> string \<Rightarrow> nat \<Rightarrow> exn" where
  "appExn code msg status = newAppException
     \<lparr>xo_code = Some code, xo_message = msg, xo_errors = None, xo_status = Some status\<rparr>"

definition NotFoundAppException :: "string \<Rightarrow> exn" where
  "NotFoundAppException msg = appExn ''NOT_FOUND'' msg 404"

definition ValidationAppException :: "ApiErrorDetail list \<Rightarrow> string \<Rightarrow> exn" where
  "ValidationAppException errs msg = newAppException
     \<lparr>xo_code = Some ''VALIDATION_FAILED'', xo_message = msg, xo_errors = Some errs,
      xo_status = Some 400\<rparr>"

definition ForbiddenAppException :: "string \<Rightarrow> exn" where
  "ForbiddenAppException msg = appExn ''FORBIDDEN'' msg 403"

lemma appExn_eq: "appExn code msg status = AppException code msg [] status"
  by (simp add: appExn_def newAppException_def)

text \<open>
  The framework's \<open>new UnauthorizedException(msg)\<close> and \<open>new ForbiddenException(msg)\<close>:
  the body is an object with the message and no code.
\<close>

definition UnauthorizedException :: "string \<Rightarrow> exn" where
  "UnauthorizedException msg = HttpException 401 (ObjectBody (OneMessage msg) None None) msg"

definition ForbiddenException :: "string \<Rightarrow> exn" where
  "ForbiddenException msg = HttpException 403 (ObjectBody (OneMessage msg) None None) msg"

section \<open>Tokens, sessions and cached values\<close>

record JwtAccessPayload =
  jp_sub :: string
  jp_email :: string
  jp_sessionId :: string
  jp_tokenVersion :: int
  jp_organizationId :: "string option"
  jp_membershipId :: "string option"
  jp_roles :: "string list"
  jp_permissionsVersion :: int
  jp_attributesVersion :: int

record ResolvedPermission =
  perm_resource :: string
  perm_action :: string

record ResolvedAttributes =
  at_user :: "(string \<times> jsval) list"
  at_membership :: "(string \<times> jsval) list"
  at_organization :: "(string \<times> jsval) list"

datatype oauth_mode = LoginMode | LinkMode

record OAuthStateData =
  os_provider :: OAuthProvider
  os_codeVerifier :: string
  os_mode :: oauth_mode
  os_linkUserId :: "string option"
  os_redirectTo :: "string option"
  os_createdAt :: int

datatype cached =
    CSession string string
  | CPermissions "ResolvedPermission list"
  | CAttributes ResolvedAttributes
  | COAuthState OAuthStateData
  | CRelayState string
  | CReplay int

section \<open>Configuration and runtime\<close>

record PasswordPolicyConfig =
  pw_minLength :: nat
  pw_requireUppercase :: bool
  pw_requireLowercase :: bool
  pw_requireNumber :: bool
  pw_requireSpecial :: bool
  pw_historyLimit :: int

record AuthConfig =
  ac_bcryptSaltRounds :: nat
  ac_passwordPolicy :: PasswordPolicyConfig
  ac_maxLoginAttempts :: int
  ac_lockDurationMs :: int
  ac_emailVerificationTokenTtlMs :: int
  ac_passwordResetTokenTtlMs :: int
  ac_sessionTtlMs :: int
  ac_appUrl :: string

record OAuthProviderClientConfig =
  cc_clientId :: string
  cc_clientSecret :: string
  cc_callbackUrl :: string

record FederationConfig =
  fc_encryptionKey :: string
  fc_mfaIssuer :: string
  fc_mfaChallengeTtlMs :: int
  fc_mfaChallengeTokenBytes :: nat
  fc_mfaBackupCodeCount :: nat
  fc_mfaTotpWindow :: int
  fc_oauthStateTtlMs :: int
  fc_baseUrl :: string
  fc_google :: OAuthProviderClientConfig
  fc_github :: OAuthProviderClientConfig
  fc_microsoft :: OAuthProviderClientConfig
  fc_microsoftTenantId :: string
  fc_samlEntityId :: string
  fc_samlAcsBaseUrl :: string
  fc_samlClockSkewMs :: int
  fc_samlReplayCacheTtlMs :: int

text \<open>What the code passes to \<open>fetch\<close> and to the SAML library, and what it reads of the answers.\<close>

record FetchRequest =
  fq_method :: string
  fq_url :: string
  fq_headers :: "(string \<times> string) list"
  fq_body :: "string option"

record FetchResponse =
  fs_ok :: bool
  fs_status :: nat
  fs_json :: "jsval option"

record SamlConfig =
  sm_entryPoint :: string
  sm_idpCert :: string
  sm_idpIssuer :: string
  sm_issuer :: string
  sm_callbackUrl :: string
  sm_audience :: string
  sm_wantAssertionsSigned :: bool
  sm_wantAuthnResponseSigned :: bool
  sm_acceptedClockSkewMs :: int
  sm_validateInResponseTo :: string
  sm_disableRequestedAuthnContext :: bool

text \<open>
  The libraries the code calls, as parameters: ids (\<open>uuid\<close>), random bytes, SHA-256,
  bcrypt, AES-256-GCM (\<open>node:crypto\<close>), the JWT signer, \<open>speakeasy\<close>, \<open>qrcode\<close>,
  \<open>node-saml\<close>, HTTP requests to the identity providers, and the JavaScript runtime.  The
  numbers passed to \<open>e_uuid\<close>, \<open>e_randomBytes\<close>, \<open>e_bcryptHash\<close>, \<open>e_totpSecret\<close> and
  \<open>e_fetch\<close> count the draws, so that each draw may give a new value; \<open>e_totpVerify\<close> and
  \<open>e_samlValidate\<close> get the time.  \<open>None\<close> stands for an answer that does not come
  (\<open>e_fetch\<close>, \<open>e_qrCode\<close>, \<open>e_samlLoginUrl\<close> throw), for a body that is not JSON (\<open>fs_json\<close>)
  and for a text that is no URL (\<open>e_urlOrigin\<close>, and \<open>e_urlSet\<close>, the text of a URL after
  \<open>searchParams.set\<close> for each pair); \<open>Inl\<close> of \<open>e_samlValidate\<close> is the message of the error
  thrown, \<open>e_samlOk\<close> says that \<open>new SAML\<close> takes the configuration.
\<close>

record env =
  e_auth :: AuthConfig
  e_appUrl :: string
  e_fed :: FederationConfig
  e_js :: js_runtime
  e_uuid :: "nat \<Rightarrow> string"
  e_randomBytes :: "nat \<Rightarrow> nat \<Rightarrow> nat list"
  e_sha256 :: "string \<Rightarrow> nat list"
  e_bcryptHash :: "nat \<Rightarrow> nat \<Rightarrow> string \<Rightarrow> string"
  e_bcryptCompare :: "string \<Rightarrow> string \<Rightarrow> bool"
  e_gcmSeal :: "nat list \<Rightarrow> nat list \<Rightarrow> string \<Rightarrow> nat list \<times> nat list"
  e_gcmOpen :: "nat list \<Rightarrow> nat list \<Rightarrow> nat list \<Rightarrow> nat list \<Rightarrow> string option"
  e_jwtSign :: "int \<Rightarrow> JwtAccessPayload \<Rightarrow> string"
  e_toISOString :: "int \<Rightarrow> string"
  e_encodeURIComponent :: "string \<Rightarrow> string"
  e_urlOrigin :: "string \<Rightarrow> string option"
  e_urlSet :: "string \<Rightarrow> (string \<times> string) list \<Rightarrow> string option"
  e_totpSecret :: "nat \<Rightarrow> nat \<Rightarrow> string \<Rightarrow> string \<Rightarrow> string \<times> string option"
  e_totpVerify :: "int \<Rightarrow> string \<Rightarrow> string \<Rightarrow> int \<Rightarrow> int \<Rightarrow> int \<Rightarrow> bool"
  e_qrCode :: "string \<Rightarrow> string option"
  e_fetch :: "nat \<Rightarrow> FetchRequest \<Rightarrow> FetchResponse option"
  e_samlOk :: "SamlConfig \<Rightarrow> bool"
  e_samlLoginUrl :: "SamlConfig \<Rightarrow> string \<Rightarrow> string option"
  e_samlValidate :: "int \<Rightarrow> SamlConfig \<Rightarrow> string \<Rightarrow> string option \<Rightarrow> string + jsval option"
  e_nodeEnv :: string

section \<open>Jobs\<close>

datatype AuditAction =
    LOGIN_SUCCESS | LOGIN_FAILURE | LOGOUT | PASSWORD_CHANGED | PASSWORD_RESET_REQUESTED
  | PASSWORD_RESET_COMPLETED | MFA_SETUP_INITIATED | MFA_ENABLED | MFA_DISABLED
  | MFA_CHALLENGED | MFA_VERIFIED | MFA_FAILED | MFA_BACKUP_CODE_USED
  | MFA_BACKUP_CODES_REGENERATED | OAUTH_LOGIN_SUCCESS | OAUTH_LOGIN_FAILURE
  | OAUTH_ACCOUNT_LINKED | OAUTH_ACCOUNT_UNLINKED | SSO_LOGIN_SUCCESS | SSO_LOGIN_FAILURE
  | SSO_CONFIG_CREATED | SSO_CONFIG_UPDATED | SSO_CONFIG_DELETED | SSO_JIT_PROVISIONED
  | SUSPICIOUS_AUTH_FLOW | ROLE_ASSIGNED | ROLE_REVOKED | ROLE_CREATED | ROLE_UPDATED
  | ROLE_DELETED | PERMISSION_CREATED | PERMISSION_DELETED | POLICY_CREATED | POLICY_UPDATED
  | POLICY_DELETED | POLICY_ASSIGNED | POLICY_UNASSIGNED | POLICY_DENIED | ORG_CREATED
  | ORG_UPDATED | ORG_DELETED | ORG_MEMBER_ADDED | ORG_MEMBER_UPDATED | ORG_MEMBER_REMOVED
  | ORG_INVITATION_CREATED | ORG_INVITATION_ACCEPTED | ORG_INVITATION_REVOKED | ORG_SWITCHED
  | TOKEN_ISSUED | TOKEN_REVOKED

datatype AuditResource =
    AR_USER | AR_SESSION | AR_ROLE | AR_PERMISSION | AR_POLICY | AR_ORGANIZATION
  | AR_MEMBERSHIP | AR_INVITATION | AR_MFA_FACTOR | AR_TOKEN | AR_OAUTH_ACCOUNT
  | AR_SSO_CONFIGURATION

record RequestContextStore =
  rc_correlationId :: string
  rc_ip :: "string option"
  rc_userAgent :: "string option"
  rc_userId :: "string option"

record AuditEvent =
  ae_action :: AuditAction
  ae_resource :: AuditResource
  ae_resourceId :: "string option"
  ae_success :: bool
  ae_userId :: "string option"
  ae_email :: "string option"
  ae_ip :: "string option"
  ae_userAgent :: "string option"
  ae_metadata :: "(string \<times> jsval) list"
  ae_correlationId :: "string option"
  ae_timestamp :: string

datatype mail_job =
    VerifyEmailJob string "string option" string string
  | ResetPasswordJob string "string option" string string
  | PasswordChangedJob string "string option" "string option" "string option" string
  | OrgInvitationJob string string string string

datatype job = AuditJob AuditEvent | EmailJob mail_job

section \<open>The world\<close>

record world =
  w_now :: int
  w_draws :: nat
  w_db :: database
  w_cache :: "string \<Rightarrow> (cached \<times> int option) option"
  w_redisUp :: bool
  w_queueUp :: bool
  w_jobs :: "job list"
  w_ctx :: "RequestContextStore option"

type_synonym 'a act = "(world, exn, 'a) sem"

definition nowM :: "int act" where
  "nowM = getsM w_now"

definition drawM :: "nat act" where
  "drawM = bindM (getsM w_draws) (\<lambda>n. thenM (modifyM (\<lambda>w. w\<lparr>w_draws := Suc n\<rparr>)) (returnM n))"

definition newId :: "env \<Rightarrow> string act" where
  "newId E = bindM drawM (\<lambda>n. returnM (e_uuid E n))"

definition randomBytes :: "env \<Rightarrow> nat \<Rightarrow> (nat list) act" where
  "randomBytes E len = bindM drawM (\<lambda>n. returnM (e_randomBytes E n len))"

text \<open>
  \<open>prisma.$transaction(async tx => ...)\<close>: all or nothing for the tables.
\<close>

definition transaction :: "'a act \<Rightarrow> 'a act" where
  "transaction m = (\<lambda>w. case m w of
     (Inl e, w') \<Rightarrow> (Inl e, w'\<lparr>w_db := w_db w\<rparr>)
   | (Inr x, w') \<Rightarrow> (Inr x, w'))"

section \<open>Prisma calls\<close>

definition dbFind :: "'r table \<Rightarrow> ('r \<Rightarrow> bool) \<Rightarrow> ('r option) act" where
  "dbFind t p = getsM (\<lambda>w. findFirst p (fst t (w_db w)))"

definition dbFindMany :: "'r table \<Rightarrow> ('r \<Rightarrow> bool) \<Rightarrow> ('r list) act" where
  "dbFindMany t p = getsM (\<lambda>w. findMany p (fst t (w_db w)))"

definition dbCount :: "'r table \<Rightarrow> ('r \<Rightarrow> bool) \<Rightarrow> nat act" where
  "dbCount t p = getsM (\<lambda>w. countRows p (fst t (w_db w)))"

definition dbModify :: "'r table \<Rightarrow> ('r list \<Rightarrow> 'r list) \<Rightarrow> unit act" where
  "dbModify t f = modifyM (\<lambda>w. w_db_update (snd t f) w)"

text \<open>
  \<open>create\<close>: \<open>conflict\<close> says which existing rows a unique constraint of the schema sets
  against the new one (P2002, with the columns of the constraint), \<open>parent\<close> that the
  rows it refers to exist (P2003 otherwise).
\<close>

definition dbCreate ::
  "'r table \<Rightarrow> string list \<Rightarrow> ('r \<Rightarrow> bool) \<Rightarrow> (database \<Rightarrow> bool) \<Rightarrow> 'r \<Rightarrow> 'r act" where
  "dbCreate t cols conflict parent row = (\<lambda>w.
     if \<exists>r \<in> set (fst t (w_db w)). conflict r then (Inl (PrismaKnownError ''P2002'' (TargetFields cols)), w)
     else if \<not> parent (w_db w) then (Inl (PrismaKnownError ''P2003'' NoTarget), w)
     else (Inr row, w_db_update (snd t (\<lambda>rows. rows @ [row])) w))"

text \<open>\<open>update\<close> by a unique key: P2025 when no row has it.  The result is the new row.\<close>

definition dbUpdate :: "'r table \<Rightarrow> ('r \<Rightarrow> bool) \<Rightarrow> ('r \<Rightarrow> 'r) \<Rightarrow> 'r act" where
  "dbUpdate t p f = (\<lambda>w. case findFirst p (fst t (w_db w)) of
     None \<Rightarrow> (Inl (PrismaKnownError ''P2025'' NoTarget), w)
   | Some r \<Rightarrow> (Inr (f r), w_db_update (snd t (updateRows p f)) w))"

definition dbUpdateMany :: "'r table \<Rightarrow> ('r \<Rightarrow> bool) \<Rightarrow> ('r \<Rightarrow> 'r) \<Rightarrow> unit act" where
  "dbUpdateMany t p f = dbModify t (updateRows p f)"

text \<open>\<open>deleteMany\<close> returns how many rows it deleted.\<close>

definition dbDeleteMany :: "'r table \<Rightarrow> ('r \<Rightarrow> bool) \<Rightarrow> nat act" where
  "dbDeleteMany t p = bindM (dbCount t p) (\<lambda>n. thenM (dbModify t (deleteRows p)) (returnM n))"

definition dbDelete :: "'r table \<Rightarrow> ('r \<Rightarrow> bool) \<Rightarrow> unit act" where
  "dbDelete t p = bindM (dbFind t p) (\<lambda>r. thenM
     (throw_if (r = None) (PrismaKnownError ''P2025'' NoTarget)) (dbModify t (deleteRows p)))"

section \<open>CacheService\<close>

text \<open>
  Every method swallows a Redis failure: \<open>get\<close> then misses, \<open>set\<close> and \<open>delete\<close> do
  nothing and \<open>exists\<close> says no.  An entry whose time to live has passed is gone.
\<close>

definition cacheLive :: "world \<Rightarrow> string \<Rightarrow> cached option" where
  "cacheLive w k = (case w_cache w k of None \<Rightarrow> None
     | Some (v, None) \<Rightarrow> Some v
     | Some (v, Some t) \<Rightarrow> (if w_now w < t then Some v else None))"

definition cacheGet :: "string \<Rightarrow> (cached option) act" where
  "cacheGet k = getsM (\<lambda>w. if w_redisUp w then cacheLive w k else None)"

definition cacheSet :: "string \<Rightarrow> cached \<Rightarrow> int \<Rightarrow> unit act" where
  "cacheSet k v ttlSeconds = modifyM (\<lambda>w.
     if w_redisUp w
     then w_cache_update (\<lambda>c. c(k \<mapsto>
            (v, if 0 < ttlSeconds then Some (w_now w + ttlSeconds * 1000) else None))) w
     else w)"

definition cacheDelete :: "string list \<Rightarrow> unit act" where
  "cacheDelete ks = modifyM (\<lambda>w.
     if w_redisUp w then w_cache_update (\<lambda>c k. if k \<in> set ks then None else c k) w else w)"

definition cacheExists :: "string \<Rightarrow> bool act" where
  "cacheExists k = getsM (\<lambda>w. w_redisUp w \<and> cacheLive w k \<noteq> None)"

text \<open>\<open>getOrSet\<close>: \<open>decode\<close> is the cast \<open>JSON.parse(raw) as T\<close>.\<close>

definition cacheGetOrSet ::
  "string \<Rightarrow> (cached \<Rightarrow> 'a option) \<Rightarrow> ('a \<Rightarrow> cached) \<Rightarrow> 'a act \<Rightarrow> int \<Rightarrow> 'a act" where
  "cacheGetOrSet k decode encode loader ttlSeconds =
     bindM (cacheGet k) (\<lambda>hit.
       case (case hit of None \<Rightarrow> None | Some c \<Rightarrow> decode c) of
         Some v \<Rightarrow> returnM v
       | None \<Rightarrow> bindM loader (\<lambda>fresh. thenM (cacheSet k (encode fresh) ttlSeconds) (returnM fresh)))"

section \<open>QueueService and AuditService\<close>

definition enqueue :: "job \<Rightarrow> unit act" where
  "enqueue j = (\<lambda>w. if w_queueUp w then (Inr (), w_jobs_update (\<lambda>js. js @ [j]) w)
                    else (Inl (JsError ''queue unavailable''), w))"

record AuditOptions =
  ao_resourceId :: "string option"
  ao_success :: bool
  ao_userId :: "string option"
  ao_email :: "string option"
  ao_metadata :: "(string \<times> jsval) list"

definition buildEvent ::
  "env \<Rightarrow> AuditAction \<Rightarrow> AuditResource \<Rightarrow> AuditOptions \<Rightarrow> world \<Rightarrow> AuditEvent" where
  "buildEvent E a r opts w =
     \<lparr>ae_action = a, ae_resource = r, ae_resourceId = ao_resourceId opts,
      ae_success = ao_success opts,
      ae_userId = orElse (ao_userId opts)
        (case w_ctx w of None \<Rightarrow> None | Some c \<Rightarrow> rc_userId c),
      ae_email = ao_email opts,
      ae_ip = (case w_ctx w of None \<Rightarrow> None | Some c \<Rightarrow> rc_ip c),
      ae_userAgent = (case w_ctx w of None \<Rightarrow> None | Some c \<Rightarrow> rc_userAgent c),
      ae_metadata = ao_metadata opts,
      ae_correlationId = map_option rc_correlationId (w_ctx w),
      ae_timestamp = e_toISOString E (w_now w)\<rparr>"

text \<open>\<open>record\<close>: a queue failure is logged, not thrown.\<close>

definition auditRecord ::
  "env \<Rightarrow> AuditAction \<Rightarrow> AuditResource \<Rightarrow> AuditOptions \<Rightarrow> unit act" where
  "auditRecord E a r opts = (\<lambda>w.
     case enqueue (AuditJob (buildEvent E a r opts w)) w of
       (Inl _, w') \<Rightarrow> (Inr (), w')
     | (Inr _, w') \<Rightarrow> (Inr (), w'))"

definition auditOk :: "string option \<Rightarrow> string option \<Rightarrow> string option \<Rightarrow> (string \<times> jsval) list \<Rightarrow> AuditOptions" where
  "auditOk rid uid email meta =
     \<lparr>ao_resourceId = rid, ao_success = True, ao_userId = uid, ao_email = email, ao_metadata = meta\<rparr>"

definition auditFail :: "string option \<Rightarrow> string option \<Rightarrow> string option \<Rightarrow> (string \<times> jsval) list \<Rightarrow> AuditOptions" where
  "auditFail rid uid email meta =
     \<lparr>ao_resourceId = rid, ao_success = False, ao_userId = uid, ao_email = email, ao_metadata = meta\<rparr>"

section \<open>Tokens\<close>

text \<open>\<open>generateSecureToken\<close> and \<open>hashToken\<close> of \<open>auth/utils/token-hash.util.ts\<close>.\<close>

definition generateSecureToken :: "env \<Rightarrow> nat \<Rightarrow> string act" where
  "generateSecureToken E n = bindM (randomBytes E n) (\<lambda>bs. returnM (to_hex bs))"

definition hashToken :: "env \<Rightarrow> string \<Rightarrow> string" where
  "hashToken E token = to_hex (e_sha256 E token)"

end
