(* ===== verification/Storage.thy ===== *)
theory Storage
  imports World
begin

text \<open>
  The laws of the storage calls: how each of them runs, what it leaves alone, and the
  interface \<open>table\<close> every Prisma model implements (reading after replacing), with the
  row invariants its calls preserve.  The interface is interpreted on every table the
  services write.
\<close>

section \<open>Evaluation\<close>

lemma nowM_run [simp, monad_simps]: "nowM w = (Inr (w_now w), w)"
  by (simp add: nowM_def)

lemma drawM_run [monad_simps]: "drawM w = (Inr (w_draws w), w\<lparr>w_draws := Suc (w_draws w)\<rparr>)"
  by (simp add: drawM_def monad_simps)

lemma newId_run [monad_simps]:
  "newId E w = (Inr (e_uuid E (w_draws w)), w\<lparr>w_draws := Suc (w_draws w)\<rparr>)"
  by (simp add: newId_def monad_simps)

lemma randomBytes_run [monad_simps]:
  "randomBytes E n w =
     (Inr (e_randomBytes E (w_draws w) n), w\<lparr>w_draws := Suc (w_draws w)\<rparr>)"
  by (simp add: randomBytes_def monad_simps)

lemma generateSecureToken_run [monad_simps]:
  "generateSecureToken E n w =
     (Inr (to_hex (e_randomBytes E (w_draws w) n)), w\<lparr>w_draws := Suc (w_draws w)\<rparr>)"
  by (simp add: generateSecureToken_def monad_simps)

lemma dbFind_run [monad_simps]: "dbFind t p w = (Inr (findFirst p (fst t (w_db w))), w)"
  by (simp add: dbFind_def)

lemma dbFindMany_run [monad_simps]: "dbFindMany t p w = (Inr (findMany p (fst t (w_db w))), w)"
  by (simp add: dbFindMany_def)

lemma dbCount_run [monad_simps]: "dbCount t p w = (Inr (countRows p (fst t (w_db w))), w)"
  by (simp add: dbCount_def)

lemma dbModify_run [monad_simps]: "dbModify t f w = (Inr (), w_db_update (snd t f) w)"
  by (simp add: dbModify_def)

lemma dbUpdateMany_run [monad_simps]:
  "dbUpdateMany t p f w = (Inr (), w_db_update (snd t (updateRows p f)) w)"
  by (simp add: dbUpdateMany_def dbModify_run)

lemma dbDeleteMany_run [monad_simps]:
  "dbDeleteMany t p w = (Inr (countRows p (fst t (w_db w))),
     w_db_update (snd t (deleteRows p)) w)"
  by (simp add: dbDeleteMany_def monad_simps)

lemma dbCreate_run [monad_simps]:
  "dbCreate t cols conflict parent row w =
     (if \<exists>r \<in> set (fst t (w_db w)). conflict r then (Inl (PrismaKnownError ''P2002'' (TargetFields cols)), w)
      else if \<not> parent (w_db w) then (Inl (PrismaKnownError ''P2003'' NoTarget), w)
      else (Inr row, w_db_update (snd t (\<lambda>rows. rows @ [row])) w))"
  by (simp add: dbCreate_def)

lemma dbUpdate_run [monad_simps]:
  "dbUpdate t p f w = (case findFirst p (fst t (w_db w)) of
     None \<Rightarrow> (Inl (PrismaKnownError ''P2025'' NoTarget), w)
   | Some r \<Rightarrow> (Inr (f r), w_db_update (snd t (updateRows p f)) w))"
  by (simp add: dbUpdate_def)

lemma dbDelete_run [monad_simps]:
  "dbDelete t p w = (case findFirst p (fst t (w_db w)) of
     None \<Rightarrow> (Inl (PrismaKnownError ''P2025'' NoTarget), w)
   | Some r \<Rightarrow> (Inr (), w_db_update (snd t (deleteRows p)) w))"
  by (simp add: dbDelete_def monad_simps split: option.split)

lemma transaction_run:
  "transaction m w = (case m w of
     (Inl e, w') \<Rightarrow> (Inl e, w'\<lparr>w_db := w_db w\<rparr>)
   | (Inr x, w') \<Rightarrow> (Inr x, w'))"
  by (simp add: transaction_def)

lemma transaction_Inr_iff: "transaction m w = (Inr x, t) \<longleftrightarrow> m w = (Inr x, t)"
  by (auto simp: transaction_def split: prod.splits sum.splits)

lemma transaction_Inl_iff:
  "transaction m w = (Inl e, t) \<longleftrightarrow> (\<exists>w'. m w = (Inl e, w') \<and> t = w'\<lparr>w_db := w_db w\<rparr>)"
  by (auto simp: transaction_def split: prod.splits sum.splits)

text \<open>A transaction that throws leaves every table as it was.\<close>

lemma transaction_rollback: "transaction m w = (Inl e, t) \<Longrightarrow> w_db t = w_db w"
  by (auto simp: transaction_Inl_iff)

lemma cacheGet_run [monad_simps]:
  "cacheGet k w = (Inr (if w_redisUp w then cacheLive w k else None), w)"
  by (simp add: cacheGet_def)

lemma cacheExists_run [monad_simps]:
  "cacheExists k w = (Inr (w_redisUp w \<and> cacheLive w k \<noteq> None), w)"
  by (simp add: cacheExists_def)

lemma cacheSet_run [monad_simps]:
  "cacheSet k v ttl w = (Inr (), if w_redisUp w
     then w_cache_update (\<lambda>c. c(k \<mapsto>
            (v, if 0 < ttl then Some (w_now w + ttl * 1000) else None))) w else w)"
  by (simp add: cacheSet_def)

lemma cacheDelete_run [monad_simps]:
  "cacheDelete ks w = (Inr (), if w_redisUp w
     then w_cache_update (\<lambda>c k. if k \<in> set ks then None else c k) w else w)"
  by (simp add: cacheDelete_def)

lemma enqueue_run:
  "enqueue j w = (if w_queueUp w then (Inr (), w_jobs_update (\<lambda>js. js @ [j]) w)
                  else (Inl (JsError ''queue unavailable''), w))"
  by (simp add: enqueue_def)

lemma auditRecord_run [monad_simps]:
  "auditRecord E a r opts w = (Inr (), if w_queueUp w
     then w_jobs_update (\<lambda>js. js @ [AuditJob (buildEvent E a r opts w)]) w else w)"
  by (simp add: auditRecord_def enqueue_run)

lemma auditRecord_db [simp]: "w_db (snd (auditRecord E a r opts w)) = w_db w"
  by (simp add: auditRecord_run)

section \<open>Invariants of the database\<close>

definition dbInv :: "(database \<Rightarrow> bool) \<Rightarrow> world \<Rightarrow> bool" where
  "dbInv J w \<longleftrightarrow> J (w_db w)"

lemma keeps_dbInv_frame:
  "(\<And>w. w_db (snd (m w)) = w_db w) \<Longrightarrow> keeps (dbInv J) m"
  by (simp add: keeps_def dbInv_def)

lemma keeps_nowM [keeps_intros]: "keeps I nowM"
  by (simp add: keeps_def)

lemma keeps_drawM [keeps_intros]: "keeps (dbInv J) drawM"
  by (rule keeps_dbInv_frame) (simp add: monad_simps)

lemma keeps_newId [keeps_intros]: "keeps (dbInv J) (newId E)"
  by (rule keeps_dbInv_frame) (simp add: monad_simps)

lemma keeps_randomBytes [keeps_intros]: "keeps (dbInv J) (randomBytes E n)"
  by (rule keeps_dbInv_frame) (simp add: monad_simps)

lemma keeps_generateSecureToken [keeps_intros]: "keeps (dbInv J) (generateSecureToken E n)"
  by (rule keeps_dbInv_frame) (simp add: monad_simps)

lemma keeps_dbFind [keeps_intros]: "keeps I (dbFind t p)"
  by (simp add: keeps_def monad_simps)

lemma keeps_dbFindMany [keeps_intros]: "keeps I (dbFindMany t p)"
  by (simp add: keeps_def monad_simps)

lemma keeps_dbCount [keeps_intros]: "keeps I (dbCount t p)"
  by (simp add: keeps_def monad_simps)

lemma keeps_cacheGet [keeps_intros]: "keeps I (cacheGet k)"
  by (simp add: keeps_def monad_simps)

lemma keeps_cacheExists [keeps_intros]: "keeps I (cacheExists k)"
  by (simp add: keeps_def monad_simps)

lemma keeps_cacheSet [keeps_intros]: "keeps (dbInv J) (cacheSet k v ttl)"
  by (rule keeps_dbInv_frame) (simp add: monad_simps)

lemma keeps_cacheDelete [keeps_intros]: "keeps (dbInv J) (cacheDelete ks)"
  by (rule keeps_dbInv_frame) (simp add: monad_simps)

lemma keeps_cacheGetOrSet [keeps_intros]:
  "keeps (dbInv J) loader \<Longrightarrow> keeps (dbInv J) (cacheGetOrSet k dec enc loader ttl)"
  unfolding cacheGetOrSet_def by (intro keeps_intros)

lemma keeps_enqueue [keeps_intros]: "keeps (dbInv J) (enqueue j)"
  by (rule keeps_dbInv_frame) (simp add: enqueue_run)

lemma keeps_auditRecord [keeps_intros]: "keeps (dbInv J) (auditRecord E a r opts)"
  by (rule keeps_dbInv_frame) simp

lemma keeps_transaction [keeps_intros]:
  assumes "keeps (dbInv J) m"
  shows "keeps (dbInv J) (transaction m)"
proof (rule keepsI)
  fix w assume "dbInv J w"
  then show "dbInv J (snd (transaction m w))"
    using keepsE [OF assms, of w]
    by (auto simp: transaction_run dbInv_def split: prod.splits sum.splits)
qed

lemma keeps_dbUpdate:
  "(\<And>d. J d \<Longrightarrow> J (snd t (updateRows p f) d)) \<Longrightarrow> keeps (dbInv J) (dbUpdate t p f)"
  by (auto simp: keeps_def dbInv_def monad_simps split: option.splits)

lemma keeps_dbUpdateMany:
  "(\<And>d. J d \<Longrightarrow> J (snd t (updateRows p f) d)) \<Longrightarrow> keeps (dbInv J) (dbUpdateMany t p f)"
  by (auto simp: keeps_def dbInv_def monad_simps)

lemma keeps_dbCreate:
  "(\<And>d. J d \<Longrightarrow> parent d \<Longrightarrow> \<forall>r \<in> set (fst t d). \<not> conflict r \<Longrightarrow>
      J (snd t (\<lambda>rows. rows @ [row]) d)) \<Longrightarrow>
   keeps (dbInv J) (dbCreate t cols conflict parent row)"
  by (auto simp: keeps_def dbInv_def monad_simps)

lemma keeps_dbDeleteMany:
  "(\<And>d. J d \<Longrightarrow> J (snd t (deleteRows p) d)) \<Longrightarrow> keeps (dbInv J) (dbDeleteMany t p)"
  by (auto simp: keeps_def dbInv_def monad_simps)

lemma keeps_dbDelete:
  "(\<And>d. J d \<Longrightarrow> J (snd t (deleteRows p) d)) \<Longrightarrow> keeps (dbInv J) (dbDelete t p)"
  by (auto simp: keeps_def dbInv_def monad_simps split: option.splits)

section \<open>The table interface\<close>

locale table =
  fixes get :: "database \<Rightarrow> 'r list"
    and upd :: "('r list \<Rightarrow> 'r list) \<Rightarrow> database \<Rightarrow> database"
  assumes get_upd: "get (upd f d) = f (get d)"
    and upd_upd: "upd f (upd g d) = upd (\<lambda>rows. f (g rows)) d"
begin

lemma create_Inr_iff:
  "dbCreate (get, upd) cols conflict parent row w = (Inr r, w') \<longleftrightarrow>
     r = row \<and> (\<forall>r \<in> set (get (w_db w)). \<not> conflict r) \<and> parent (w_db w) \<and>
     w' = w_db_update (upd (\<lambda>rows. rows @ [row])) w"
  by (auto simp: monad_simps)

lemma create_rows:
  "dbCreate (get, upd) cols conflict parent row w = (Inr r, w') \<Longrightarrow>
     get (w_db w') = get (w_db w) @ [row]"
  by (auto simp: create_Inr_iff get_upd)

lemma update_Inr_iff:
  "dbUpdate (get, upd) p f w = (Inr r, w') \<longleftrightarrow>
     (\<exists>r0. findFirst p (get (w_db w)) = Some r0 \<and> r = f r0 \<and>
           w' = w_db_update (upd (updateRows p f)) w)"
  by (auto simp: monad_simps split: option.splits)

lemma update_rows:
  "dbUpdate (get, upd) p f w = (Inr r, w') \<Longrightarrow>
     get (w_db w') = updateRows p f (get (w_db w))"
  by (auto simp: update_Inr_iff get_upd)

lemma updateMany_twice:
  "upd (updateRows p f) (upd (updateRows q g) d) =
     upd (\<lambda>rows. updateRows p f (updateRows q g rows)) d"
  by (rule upd_upd)

text \<open>Every row has property \<open>P\<close>: kept by creating a row with it and by updates that keep it.\<close>

lemma keeps_rows_create:
  "P row \<Longrightarrow> keeps (dbInv (\<lambda>d. \<forall>r \<in> set (get d). P r))
     (dbCreate (get, upd) cols conflict parent row)"
  by (rule keeps_dbCreate) (auto simp: get_upd)

lemma keeps_rows_update:
  "(\<And>r. P r \<Longrightarrow> p r \<Longrightarrow> P (f r)) \<Longrightarrow>
   keeps (dbInv (\<lambda>d. \<forall>r \<in> set (get d). P r)) (dbUpdate (get, upd) p f)"
  by (rule keeps_dbUpdate) (auto simp: get_upd table_simps)

lemma keeps_rows_updateMany:
  "(\<And>r. P r \<Longrightarrow> p r \<Longrightarrow> P (f r)) \<Longrightarrow>
   keeps (dbInv (\<lambda>d. \<forall>r \<in> set (get d). P r)) (dbUpdateMany (get, upd) p f)"
  by (rule keeps_dbUpdateMany) (auto simp: get_upd table_simps)

text \<open>A key stays unique when a new row with a used key is a conflict.\<close>

lemma keeps_key_create:
  "(\<And>r. key r = key row \<Longrightarrow> conflict r) \<Longrightarrow>
   keeps (dbInv (\<lambda>d. distinct (map key (get d)))) (dbCreate (get, upd) cols conflict parent row)"
  by (rule keeps_dbCreate) (force simp: get_upd)

lemma keeps_key_update:
  "(\<And>r. key (f r) = key r) \<Longrightarrow>
   keeps (dbInv (\<lambda>d. distinct (map key (get d)))) (dbUpdate (get, upd) p f)"
  by (rule keeps_dbUpdate) (auto simp: get_upd map_updateRows_key)

lemma keeps_key_updateMany:
  "(\<And>r. key (f r) = key r) \<Longrightarrow>
   keeps (dbInv (\<lambda>d. distinct (map key (get d)))) (dbUpdateMany (get, upd) p f)"
  by (rule keeps_dbUpdateMany) (auto simp: get_upd map_updateRows_key)

end

interpretation usersI: table users users_update by unfold_locales simp_all
interpretation sessionsI: table sessions sessions_update by unfold_locales simp_all
interpretation refreshTokensI: table refreshTokens refreshTokens_update
  by unfold_locales simp_all
interpretation emailTokensI: table emailVerificationTokens emailVerificationTokens_update
  by unfold_locales simp_all
interpretation resetTokensI: table passwordResetTokens passwordResetTokens_update
  by unfold_locales simp_all
interpretation passwordHistoryI: table passwordHistory passwordHistory_update
  by unfold_locales simp_all
interpretation organizationsI: table organizations organizations_update
  by unfold_locales simp_all
interpretation membershipsI: table memberships memberships_update by unfold_locales simp_all
interpretation rolesI: table roles roles_update by unfold_locales simp_all
interpretation permissionsI: table permissions permissions_update by unfold_locales simp_all
interpretation rolePermissionsI: table rolePermissions rolePermissions_update
  by unfold_locales simp_all
interpretation userRolesI: table userRoles userRoles_update by unfold_locales simp_all
interpretation policiesI: table policies policies_update by unfold_locales simp_all
interpretation policyConditionsI: table policyConditions policyConditions_update
  by unfold_locales simp_all
interpretation policyAssignmentsI: table policyAssignments policyAssignments_update
  by unfold_locales simp_all
interpretation invitationsI: table invitations invitations_update by unfold_locales simp_all
interpretation mfaSecretsI: table mfaSecrets mfaSecrets_update by unfold_locales simp_all
interpretation backupCodesI: table backupCodes backupCodes_update by unfold_locales simp_all
interpretation mfaChallengesI: table mfaChallenges mfaChallenges_update
  by unfold_locales simp_all
interpretation oauthAccountsI: table oauthAccounts oauthAccounts_update
  by unfold_locales simp_all
interpretation ssoConfigurationsI: table ssoConfigurations ssoConfigurations_update
  by unfold_locales simp_all

end
