(* ===== verification/Sessions.thy ===== *)
theory Sessions
  imports Storage
begin

text \<open>
  Sessions and refresh tokens: \<open>modules/auth/services/session.service.ts\<close> with the
  cache keys of \<open>modules/auth/constants/auth.constants.ts\<close>.
\<close>

record LoginMetadata =
  lm_ipAddress :: "string option"
  lm_userAgent :: "string option"
  lm_deviceName :: "string option"

record CreatedSession =
  cs_session :: Session
  cs_refreshToken :: string
  cs_refreshTokenRecord :: RefreshToken
  cs_refreshTokenExpiresAt :: int

definition sessionKey :: "string \<Rightarrow> string" where
  "sessionKey sid = ''auth:session:'' @ sid"

definition REFRESH_TOKEN_BYTES :: nat where
  "REFRESH_TOKEN_BYTES = 48"

definition issueRefreshToken ::
  "env \<Rightarrow> string \<Rightarrow> string \<Rightarrow> string \<Rightarrow> int \<Rightarrow> (string \<times> RefreshToken \<times> int) act" where
  "issueRefreshToken E userId sessionId familyId expiresAt =
     bindM (generateSecureToken E REFRESH_TOKEN_BYTES) (\<lambda>refreshToken.
     bindM (newId E) (\<lambda>tid.
     bindM (dbCreate refreshTokensT [''tokenHash'']
              (\<lambda>t. rt_id t = tid \<or> rt_tokenHash t = hashToken E refreshToken)
              (\<lambda>d. (\<exists>u \<in> set (users d). u_id u = userId) \<and>
                   (\<exists>s \<in> set (sessions d). s_id s = sessionId))
              \<lparr>rt_id = tid, rt_userId = userId, rt_sessionId = sessionId,
               rt_familyId = familyId, rt_tokenHash = hashToken E refreshToken,
               rt_expiresAt = expiresAt, rt_revokedAt = None,
               rt_replacedByTokenId = None, rt_reuseDetectedAt = None\<rparr>) (\<lambda>record.
     returnM (refreshToken, record, expiresAt))))"

definition createSession :: "env \<Rightarrow> string \<Rightarrow> LoginMetadata \<Rightarrow> CreatedSession act" where
  "createSession E userId meta =
     bindM (newId E) (\<lambda>familyId.
     bindM nowM (\<lambda>now.
     bindM (newId E) (\<lambda>sid.
     bindM (dbCreate sessionsT [''familyId'']
              (\<lambda>s. s_id s = sid \<or> s_familyId s = familyId)
              (\<lambda>d. \<exists>u \<in> set (users d). u_id u = userId)
              \<lparr>s_id = sid, s_userId = userId, s_familyId = familyId,
               s_ipAddress = lm_ipAddress meta, s_userAgent = lm_userAgent meta,
               s_deviceName = lm_deviceName meta, s_lastActivityAt = now,
               s_expiresAt = now + ac_sessionTtlMs (e_auth E), s_revokedAt = None,
               s_createdAt = now\<rparr>) (\<lambda>session.
     bindM (issueRefreshToken E userId (s_id session) familyId
              (now + ac_sessionTtlMs (e_auth E))) (\<lambda>(refreshToken, record, expiresAt).
     thenM (cacheSet (sessionKey (s_id session)) (CSession userId familyId)
              (ac_sessionTtlMs (e_auth E) div 1000))
     (returnM \<lparr>cs_session = session, cs_refreshToken = refreshToken,
               cs_refreshTokenRecord = record, cs_refreshTokenExpiresAt = expiresAt\<rparr>))))))"

datatype revoke_reason = Reuse | LogoutReason

definition revokeFamily :: "string \<Rightarrow> revoke_reason \<Rightarrow> unit act" where
  "revokeFamily familyId reason =
     bindM nowM (\<lambda>now.
     thenM (dbUpdateMany refreshTokensT
              (\<lambda>t. rt_familyId t = familyId \<and> rt_revokedAt t = None)
              (\<lambda>t. if reason = Reuse
                   then t\<lparr>rt_revokedAt := Some now, rt_reuseDetectedAt := Some now\<rparr>
                   else t\<lparr>rt_revokedAt := Some now\<rparr>))
     (dbUpdateMany sessionsT
              (\<lambda>s. s_familyId s = familyId \<and> s_revokedAt s = None)
              (\<lambda>s. s\<lparr>s_revokedAt := Some now\<rparr>)))"

definition invalidRefresh :: exn where
  "invalidRefresh = appExn ''INVALID_REFRESH_TOKEN'' ''Invalid refresh token'' 401"

definition expiredRefresh :: exn where
  "expiredRefresh = appExn ''INVALID_REFRESH_TOKEN'' ''Refresh token expired'' 401"

definition reuseDetected :: exn where
  "reuseDetected =
     appExn ''REFRESH_TOKEN_REUSE_DETECTED'' ''Refresh token reuse detected; session revoked'' 401"

definition sessionRevoked :: exn where
  "sessionRevoked = appExn ''SESSION_REVOKED'' ''Session has been revoked'' 401"

definition sessionNotFound :: exn where
  "sessionNotFound = appExn ''SESSION_NOT_FOUND'' ''Session not found'' 404"

text \<open>
  The body of the transaction of \<open>rotateRefreshToken\<close>.  The row is read with its session
  (\<open>include: session\<close>), which the foreign key of the schema guarantees to exist.
\<close>

definition rotateBody :: "env \<Rightarrow> string \<Rightarrow> LoginMetadata \<Rightarrow> CreatedSession act" where
  "rotateBody E tokenHash meta =
     bindM (dbFind refreshTokensT (\<lambda>t. rt_tokenHash t = tokenHash)) (\<lambda>row.
     bindM (orThrow row invalidRefresh) (\<lambda>existing.
     bindM (dbFind sessionsT (\<lambda>s. s_id s = rt_sessionId existing)) (\<lambda>srow.
     bindM (orThrow srow (JsError ''missing session'')) (\<lambda>session.
     thenM (whenM (rt_revokedAt existing \<noteq> None)
              (thenM (revokeFamily (rt_familyId existing) Reuse) (throwM reuseDetected)))
     (bindM nowM (\<lambda>now.
     thenM (throw_if (rt_expiresAt existing \<le> now) expiredRefresh)
     (thenM (throw_if (s_revokedAt session \<noteq> None) sessionRevoked)
     (bindM (issueRefreshToken E (rt_userId existing) (rt_sessionId existing)
              (rt_familyId existing) (s_expiresAt session)) (\<lambda>(refreshToken, record, expiresAt).
     thenM (dbUpdate refreshTokensT (\<lambda>t. rt_id t = rt_id existing)
              (\<lambda>t. t\<lparr>rt_revokedAt := Some now, rt_replacedByTokenId := Some (rt_id record)\<rparr>))
     (bindM (dbUpdate sessionsT (\<lambda>s. s_id s = rt_sessionId existing)
              (\<lambda>s. s\<lparr>s_lastActivityAt := now,
                     s_ipAddress := orElse (lm_ipAddress meta) (s_ipAddress session),
                     s_userAgent := orElse (lm_userAgent meta) (s_userAgent session)\<rparr>)) (\<lambda>session'.
     returnM \<lparr>cs_session = session', cs_refreshToken = refreshToken,
              cs_refreshTokenRecord = record, cs_refreshTokenExpiresAt = expiresAt\<rparr>)))))))))))"

definition rotateRefreshToken :: "env \<Rightarrow> string \<Rightarrow> LoginMetadata \<Rightarrow> CreatedSession act" where
  "rotateRefreshToken E raw meta = transaction (rotateBody E (hashToken E raw) meta)"

definition revokeSession :: "string \<Rightarrow> string \<Rightarrow> unit act" where
  "revokeSession sessionId userId =
     thenM (transaction
       (bindM (dbFind sessionsT (\<lambda>s. s_id s = sessionId \<and> s_userId s = userId)) (\<lambda>row.
        bindM (orThrow row sessionNotFound) (\<lambda>session.
        whenM (s_revokedAt session = None)
          (bindM nowM (\<lambda>now.
           thenM (dbUpdate sessionsT (\<lambda>s. s_id s = sessionId) (\<lambda>s. s\<lparr>s_revokedAt := Some now\<rparr>))
           (dbUpdateMany refreshTokensT
              (\<lambda>t. rt_sessionId t = sessionId \<and> rt_revokedAt t = None)
              (\<lambda>t. t\<lparr>rt_revokedAt := Some now\<rparr>))))))))
     (cacheDelete [sessionKey sessionId])"

definition revokeAllSessionsForUser :: "string \<Rightarrow> string option \<Rightarrow> unit act" where
  "revokeAllSessionsForUser userId except =
     bindM (dbFindMany sessionsT (\<lambda>s. s_userId s = userId \<and> s_revokedAt s = None \<and>
              (truthy_str except \<longrightarrow> Some (s_id s) \<noteq> except))) (\<lambda>rows.
     whenM (rows \<noteq> [])
       (thenM (transaction
          (bindM nowM (\<lambda>now.
           thenM (dbUpdateMany sessionsT (\<lambda>s. s_id s \<in> set (map s_id rows))
                    (\<lambda>s. s\<lparr>s_revokedAt := Some now\<rparr>))
           (dbUpdateMany refreshTokensT
              (\<lambda>t. rt_sessionId t \<in> set (map s_id rows) \<and> rt_revokedAt t = None)
              (\<lambda>t. t\<lparr>rt_revokedAt := Some now\<rparr>)))))
        (cacheDelete (map (\<lambda>s. sessionKey (s_id s)) rows))))"

definition listActiveSessionsForUser :: "string \<Rightarrow> (Session list) act" where
  "listActiveSessionsForUser userId =
     bindM nowM (\<lambda>now.
     bindM (dbFindMany sessionsT (\<lambda>s. s_userId s = userId \<and> s_revokedAt s = None \<and>
              now < s_expiresAt s)) (\<lambda>rows.
     returnM (sort_key (\<lambda>s. - s_lastActivityAt s) rows)))"

definition findSessionById :: "string \<Rightarrow> (Session option) act" where
  "findSessionById sessionId = dbFind sessionsT (\<lambda>s. s_id s = sessionId)"

section \<open>The session invariant\<close>

text \<open>
  Keys are unique; every refresh token belongs to a session of the same user, family and
  expiry; a revoked session has no live token; a session has at most one live token.
\<close>

definition tokenOf :: "Session \<Rightarrow> RefreshToken \<Rightarrow> bool" where
  "tokenOf s t \<longleftrightarrow> s_id s = rt_sessionId t \<and> s_familyId s = rt_familyId t \<and>
     s_userId s = rt_userId t \<and> s_expiresAt s = rt_expiresAt t"

definition sessionKeys :: "database \<Rightarrow> bool" where
  "sessionKeys d \<longleftrightarrow> distinct (map s_id (sessions d)) \<and> distinct (map s_familyId (sessions d)) \<and>
     distinct (map rt_id (refreshTokens d)) \<and> distinct (map rt_tokenHash (refreshTokens d))"

definition tokensOwned :: "database \<Rightarrow> bool" where
  "tokensOwned d \<longleftrightarrow> (\<forall>t \<in> set (refreshTokens d). \<exists>s \<in> set (sessions d). tokenOf s t)"

definition revokedClosed :: "database \<Rightarrow> bool" where
  "revokedClosed d \<longleftrightarrow> (\<forall>s \<in> set (sessions d). \<forall>t \<in> set (refreshTokens d).
     s_revokedAt s \<noteq> None \<longrightarrow> rt_sessionId t = s_id s \<longrightarrow> rt_revokedAt t \<noteq> None)"

definition oneLive :: "database \<Rightarrow> bool" where
  "oneLive d \<longleftrightarrow> (\<forall>t \<in> set (refreshTokens d). \<forall>t' \<in> set (refreshTokens d).
     rt_revokedAt t = None \<longrightarrow> rt_revokedAt t' = None \<longrightarrow>
     rt_sessionId t = rt_sessionId t' \<longrightarrow> t = t')"

definition sessionInv :: "database \<Rightarrow> bool" where
  "sessionInv d \<longleftrightarrow> sessionKeys d \<and> tokensOwned d \<and> revokedClosed d \<and> oneLive d"

lemmas sessionInv_defs =
  sessionInv_def sessionKeys_def tokensOwned_def revokedClosed_def oneLive_def

text \<open>The invariant reads two tables only.\<close>

lemma sessionInv_cong:
  "sessions d' = sessions d \<Longrightarrow> refreshTokens d' = refreshTokens d \<Longrightarrow> sessionInv d' = sessionInv d"
  by (simp add: sessionInv_defs)


section \<open>Closed forms of the operations\<close>

lemma issueRefreshToken_Inr_iff:
  "issueRefreshToken E uid sid fid ex w = (Inr (raw, t, x), w') \<longleftrightarrow>
     (\<exists>tid. raw = to_hex (e_randomBytes E (w_draws w) REFRESH_TOKEN_BYTES) \<and>
       tid = e_uuid E (Suc (w_draws w)) \<and> x = ex \<and>
       t = \<lparr>rt_id = tid, rt_userId = uid, rt_sessionId = sid, rt_familyId = fid,
            rt_tokenHash = hashToken E raw, rt_expiresAt = ex, rt_revokedAt = None,
            rt_replacedByTokenId = None, rt_reuseDetectedAt = None\<rparr> \<and>
       (\<forall>t' \<in> set (refreshTokens (w_db w)). rt_id t' \<noteq> tid \<and> rt_tokenHash t' \<noteq> rt_tokenHash t) \<and>
       (\<exists>u \<in> set (users (w_db w)). u_id u = uid) \<and>
       (\<exists>s \<in> set (sessions (w_db w)). s_id s = sid) \<and>
       w' = w\<lparr>w_draws := Suc (Suc (w_draws w)),
              w_db := (w_db w)\<lparr>refreshTokens := refreshTokens (w_db w) @ [t]\<rparr>\<rparr>)"
  unfolding issueRefreshToken_def bindM_Inr_iff
  by (auto simp: monad_simps)

text \<open>Creating a session: one new session and one new live token of it.\<close>

lemma createSession_success:
  assumes "createSession E uid meta w = (Inr c, w')"
  defines "s \<equiv> cs_session c" and "t \<equiv> cs_refreshTokenRecord c"
  shows "s_userId s = uid \<and> s_revokedAt s = None \<and>
         s_expiresAt s = w_now w + ac_sessionTtlMs (e_auth E) \<and>
         tokenOf s t \<and> rt_revokedAt t = None \<and>
         rt_tokenHash t = hashToken E (cs_refreshToken c) \<and>
         cs_refreshTokenExpiresAt c = s_expiresAt s \<and>
         (\<forall>s' \<in> set (sessions (w_db w)). s_id s' \<noteq> s_id s \<and> s_familyId s' \<noteq> s_familyId s) \<and>
         (\<forall>t' \<in> set (refreshTokens (w_db w)). rt_id t' \<noteq> rt_id t \<and> rt_tokenHash t' \<noteq> rt_tokenHash t) \<and>
         (\<exists>u \<in> set (users (w_db w)). u_id u = uid) \<and>
         w_db w' = (w_db w)\<lparr>sessions := sessions (w_db w) @ [s],
                            refreshTokens := refreshTokens (w_db w) @ [t]\<rparr> \<and>
         w_now w' = w_now w"
  using assms unfolding createSession_def
  by (auto simp: success_iffs issueRefreshToken_Inr_iff newId_run nowM_run cacheSet_run
      sessionsI.create_Inr_iff tokenOf_def split: if_splits)

lemma createSession_Inl_db:
  "createSession E uid meta w = (Inl e, w') \<Longrightarrow>
     refreshTokens (w_db w') = refreshTokens (w_db w) \<and>
     (sessions (w_db w') = sessions (w_db w) \<or>
      (\<exists>s. sessions (w_db w') = sessions (w_db w) @ [s] \<and> s_revokedAt s = None \<and>
         (\<forall>s' \<in> set (sessions (w_db w)). s_id s' \<noteq> s_id s \<and> s_familyId s' \<noteq> s_familyId s)))"
  unfolding createSession_def
  by (auto simp: monad_simps issueRefreshToken_def split: if_splits prod.splits sum.splits)

lemma rotate_success:
  assumes "rotateRefreshToken E raw meta w = (Inr c, w')"
  obtains old s where
    "findFirst (\<lambda>t. rt_tokenHash t = hashToken E raw) (refreshTokens (w_db w)) = Some old"
    "findFirst (\<lambda>s. s_id s = rt_sessionId old) (sessions (w_db w)) = Some s"
    "rt_revokedAt old = None" "w_now w < rt_expiresAt old" "s_revokedAt s = None"
    "cs_refreshTokenRecord c =
       \<lparr>rt_id = rt_id (cs_refreshTokenRecord c), rt_userId = rt_userId old,
        rt_sessionId = rt_sessionId old, rt_familyId = rt_familyId old,
        rt_tokenHash = hashToken E (cs_refreshToken c), rt_expiresAt = s_expiresAt s,
        rt_revokedAt = None, rt_replacedByTokenId = None, rt_reuseDetectedAt = None\<rparr>"
    "\<forall>t' \<in> set (refreshTokens (w_db w)). rt_id t' \<noteq> rt_id (cs_refreshTokenRecord c) \<and>
       rt_tokenHash t' \<noteq> hashToken E (cs_refreshToken c)"
    "refreshTokens (w_db w') =
       updateRows (\<lambda>t. rt_id t = rt_id old)
         (\<lambda>t. t\<lparr>rt_revokedAt := Some (w_now w),
                rt_replacedByTokenId := Some (rt_id (cs_refreshTokenRecord c))\<rparr>)
         (refreshTokens (w_db w)) @ [cs_refreshTokenRecord c]"
    "sessions (w_db w') =
       updateRows (\<lambda>s'. s_id s' = rt_sessionId old)
         (\<lambda>s'. s'\<lparr>s_lastActivityAt := w_now w,
                 s_ipAddress := orElse (lm_ipAddress meta) (s_ipAddress s),
                 s_userAgent := orElse (lm_userAgent meta) (s_userAgent s)\<rparr>)
         (sessions (w_db w))"
    "cs_session c = s\<lparr>s_lastActivityAt := w_now w,
                 s_ipAddress := orElse (lm_ipAddress meta) (s_ipAddress s),
                 s_userAgent := orElse (lm_userAgent meta) (s_userAgent s)\<rparr>"
    "cs_refreshTokenExpiresAt c = s_expiresAt s"
    "w_now w' = w_now w"
proof -
  from assms have "rotateBody E (hashToken E raw) meta w = (Inr c, w')"
    by (simp add: rotateRefreshToken_def transaction_Inr_iff)
  then obtain old s where
    *: "findFirst (\<lambda>t. rt_tokenHash t = hashToken E raw) (refreshTokens (w_db w)) = Some old"
      "findFirst (\<lambda>s. s_id s = rt_sessionId old) (sessions (w_db w)) = Some s"
      "rt_revokedAt old = None" "w_now w < rt_expiresAt old" "s_revokedAt s = None"
      "(bindM (issueRefreshToken E (rt_userId old) (rt_sessionId old)
              (rt_familyId old) (s_expiresAt s)) (\<lambda>(refreshToken, record, expiresAt).
     thenM (dbUpdate refreshTokensT (\<lambda>t. rt_id t = rt_id old)
              (\<lambda>t. t\<lparr>rt_revokedAt := Some (w_now w), rt_replacedByTokenId := Some (rt_id record)\<rparr>))
     (bindM (dbUpdate sessionsT (\<lambda>s. s_id s = rt_sessionId old)
              (\<lambda>s'. s'\<lparr>s_lastActivityAt := w_now w,
                     s_ipAddress := orElse (lm_ipAddress meta) (s_ipAddress s),
                     s_userAgent := orElse (lm_userAgent meta) (s_userAgent s)\<rparr>)) (\<lambda>session'.
     returnM \<lparr>cs_session = session', cs_refreshToken = refreshToken,
              cs_refreshTokenRecord = record, cs_refreshTokenExpiresAt = expiresAt\<rparr>)))) w = (Inr c, w')"
    unfolding rotateBody_def
    by (auto simp: success_iffs dbFind_run whenM_throw_Inr_iff)
  have "rt_id old \<noteq> rt_id (cs_refreshTokenRecord c)"
    using * by (auto simp: success_iffs issueRefreshToken_Inr_iff refreshTokensI.update_Inr_iff
        sessionsI.update_Inr_iff dest: findFirst_SomeD split: prod.splits)
  with * that show thesis
    by (auto simp: success_iffs issueRefreshToken_Inr_iff refreshTokensI.update_Inr_iff
        sessionsI.update_Inr_iff split: prod.splits)
qed

end
