(* ===== verification/SessionInv.thy ===== *)
theory SessionInv
  imports Sessions
begin

text \<open>
  The session invariant survives the operations that write: creating a session, rotating
  its refresh token, and revoking sessions together with their live tokens.
\<close>

section \<open>The invariant is preserved\<close>

lemma sessionInv_tokenOwner:
  assumes "sessionInv d" "t \<in> set (refreshTokens d)" "s \<in> set (sessions d)"
    "s_id s = rt_sessionId t"
  shows "tokenOf s t"
  using assms unfolding sessionInv_def tokensOwned_def sessionKeys_def tokenOf_def
  by (metis (mono_tags, lifting) distinct_map_unique)

lemma sessionInv_add_session:
  assumes "sessionInv d" "s_revokedAt s = None"
    "\<forall>s' \<in> set (sessions d). s_id s' \<noteq> s_id s \<and> s_familyId s' \<noteq> s_familyId s"
  shows "sessionInv (d\<lparr>sessions := sessions d @ [s]\<rparr>)"
  using assms unfolding sessionInv_defs by fastforce

lemma sessionInv_add_token:
  assumes "sessionInv d" "s \<in> set (sessions d)" "tokenOf s t" "s_revokedAt s = None"
    "\<forall>t' \<in> set (refreshTokens d). rt_id t' \<noteq> rt_id t \<and> rt_tokenHash t' \<noteq> rt_tokenHash t"
    "\<forall>t' \<in> set (refreshTokens d). rt_sessionId t' = rt_sessionId t \<longrightarrow> rt_revokedAt t' \<noteq> None"
  shows "sessionInv (d\<lparr>refreshTokens := refreshTokens d @ [t]\<rparr>)"
proof -
  have "s' = s" if "s' \<in> set (sessions d)" "rt_sessionId t = s_id s'" for s'
    using assms that unfolding sessionInv_def sessionKeys_def tokenOf_def
    by (metis (mono_tags, lifting) distinct_map_unique)
  then have "s_revokedAt s' = None" if "s' \<in> set (sessions d)" "rt_sessionId t = s_id s'" for s'
    using that assms(4) by metis
  then show ?thesis
    using assms unfolding sessionInv_defs by (auto 4 4)
qed

lemma sessionInv_owned: "sessionInv d \<Longrightarrow> tokensOwned d"
  by (simp add: sessionInv_def)

lemma tokensOwned_updates:
  assumes "tokensOwned d"
    and "\<And>s t. tokenOf (if p s then f s else s) (if q t then g t else t) = tokenOf s t"
  shows "tokensOwned (d\<lparr>sessions := updateRows p f (sessions d),
                        refreshTokens := updateRows q g (refreshTokens d)\<rparr>)"
proof -
  have "\<exists>s \<in> set (updateRows p f (sessions d)). tokenOf s t'"
    if "t' \<in> set (updateRows q g (refreshTokens d))" for t'
  proof -
  from that obtain t where t: "t \<in> set (refreshTokens d)" "t' = (if q t then g t else t)"
    by (auto simp: table_simps)
  with assms(1) obtain s where s: "s \<in> set (sessions d)" "tokenOf s t"
    by (auto simp: tokensOwned_def)
  then have "tokenOf (if p s then f s else s) t'" using assms(2) t(2) by simp
  moreover have "(if p s then f s else s) \<in> set (updateRows p f (sessions d))"
    using s(1) by (simp add: set_updateRows)
  ultimately show ?thesis by (rule rev_bexI [rotated])
  qed
  then show ?thesis by (simp add: tokensOwned_def)
qed

lemma oneLive_updates:
  assumes "oneLive d" and "\<And>t. q t \<Longrightarrow> rt_revokedAt (g t) \<noteq> None"
  shows "oneLive (d\<lparr>sessions := ss, refreshTokens := updateRows q g (refreshTokens d)\<rparr>)"
proof -
  have "t \<in> set (refreshTokens d)"
    if "t \<in> set (updateRows q g (refreshTokens d))" "rt_revokedAt t = None" for t
    using that assms(2) by (force simp: set_updateRows split: if_splits)
  with assms(1) show ?thesis by (simp add: oneLive_def)
qed

text \<open>Revoking sessions together with their live tokens.\<close>

definition revokeIn :: "(string \<Rightarrow> bool) \<Rightarrow> int \<Rightarrow> database \<Rightarrow> database" where
  "revokeIn S now d =
     refreshTokens_update (updateRows (\<lambda>t. S (rt_sessionId t) \<and> rt_revokedAt t = None)
       (\<lambda>t. t\<lparr>rt_revokedAt := Some now\<rparr>))
     (sessions_update (updateRows (\<lambda>s. S (s_id s)) (\<lambda>s. s\<lparr>s_revokedAt := Some now\<rparr>)) d)"

lemma revokeIn_rows:
  "sessions (revokeIn S now d) =
     updateRows (\<lambda>s. S (s_id s)) (\<lambda>s. s\<lparr>s_revokedAt := Some now\<rparr>) (sessions d)"
  "refreshTokens (revokeIn S now d) =
     updateRows (\<lambda>t. S (rt_sessionId t) \<and> rt_revokedAt t = None)
       (\<lambda>t. t\<lparr>rt_revokedAt := Some now\<rparr>) (refreshTokens d)"
  by (simp_all add: revokeIn_def)

lemma sessionInv_revokeIn:
  assumes "sessionInv d"
  shows "sessionInv (revokeIn S now d)"
proof -
  let ?d = "d\<lparr>
     sessions := updateRows (\<lambda>s. S (s_id s)) (\<lambda>s. s\<lparr>s_revokedAt := Some now\<rparr>) (sessions d),
     refreshTokens := updateRows (\<lambda>t. S (rt_sessionId t) \<and> rt_revokedAt t = None)
       (\<lambda>t. t\<lparr>rt_revokedAt := Some now\<rparr>) (refreshTokens d)\<rparr>"
  have "sessionKeys ?d"
    using assms by (simp add: sessionInv_def sessionKeys_def map_updateRows_key)
  moreover have "tokensOwned ?d"
    by (rule tokensOwned_updates [OF sessionInv_owned [OF assms]]) (simp add: tokenOf_def)
  moreover have "revokedClosed ?d"
    using assms unfolding sessionInv_def revokedClosed_def
    by (auto simp: table_simps split: if_splits)
  moreover have "oneLive ?d"
    by (rule oneLive_updates) (use assms in \<open>simp_all add: sessionInv_def\<close>)
  ultimately have "sessionInv ?d" by (simp add: sessionInv_def)
  then show ?thesis
    using sessionInv_cong [of "revokeIn S now d" ?d] by (simp add: revokeIn_rows)
qed

lemma createSession_keeps: "keeps (dbInv sessionInv) (createSession E uid meta)"
proof (rule keepsI)
  fix w assume inv: "dbInv sessionInv w"
  obtain r w' where run: "createSession E uid meta w = (r, w')" by fastforce
  show "dbInv sessionInv (snd (createSession E uid meta w))"
  proof (cases r)
    case (Inr c)
    let ?s = "cs_session c" and ?t = "cs_refreshTokenRecord c" and ?d = "w_db w"
    note c = createSession_success [OF run [unfolded Inr]]
    have 1: "sessionInv (?d\<lparr>sessions := sessions ?d @ [?s]\<rparr>)"
      using inv c by (intro sessionInv_add_session) (auto simp: dbInv_def)
    have "\<forall>t' \<in> set (refreshTokens ?d). rt_sessionId t' \<noteq> rt_sessionId ?t"
      using inv c by (force simp: dbInv_def sessionInv_def tokensOwned_def tokenOf_def)
    with 1 have "sessionInv ((?d\<lparr>sessions := sessions ?d @ [?s]\<rparr>)
        \<lparr>refreshTokens := refreshTokens (?d\<lparr>sessions := sessions ?d @ [?s]\<rparr>) @ [?t]\<rparr>)"
      using c by (intro sessionInv_add_token [of _ ?s]) auto
    then show ?thesis using run c by (simp add: dbInv_def)
  next
    case (Inl e)
    from createSession_Inl_db [OF run [unfolded Inl]] consider
        "refreshTokens (w_db w') = refreshTokens (w_db w)" "sessions (w_db w') = sessions (w_db w)"
      | s where "refreshTokens (w_db w') = refreshTokens (w_db w)"
          "sessions (w_db w') = sessions (w_db w) @ [s]" "s_revokedAt s = None"
          "\<forall>s' \<in> set (sessions (w_db w)). s_id s' \<noteq> s_id s \<and> s_familyId s' \<noteq> s_familyId s"
      by blast
    then have "sessionInv (w_db w')"
    proof cases
      case 1
      with inv show ?thesis by (metis dbInv_def sessionInv_cong)
    next
      case (2 s)
      with inv have "sessionInv ((w_db w)\<lparr>sessions := sessions (w_db w) @ [s]\<rparr>)"
        by (intro sessionInv_add_session) (auto simp: dbInv_def)
      then show ?thesis
        using sessionInv_cong [of "w_db w'" "(w_db w)\<lparr>sessions := sessions (w_db w) @ [s]\<rparr>"] 2
        by simp
    qed
    then show ?thesis using run by (simp add: dbInv_def)
  qed
qed

lemma rotate_keeps: "keeps (dbInv sessionInv) (rotateRefreshToken E raw meta)"
proof (rule keepsI)
  fix w assume inv: "dbInv sessionInv w"
  obtain r w' where run: "rotateRefreshToken E raw meta w = (r, w')" by fastforce
  show "dbInv sessionInv (snd (rotateRefreshToken E raw meta w))"
  proof (cases r)
    case (Inl e)
    then have "w_db w' = w_db w"
      using run transaction_rollback by (fastforce simp: rotateRefreshToken_def)
    with inv run show ?thesis by (simp add: dbInv_def)
  next
    case (Inr c)
    let ?d = "w_db w" and ?n = "cs_refreshTokenRecord c"
    obtain old s where
      old: "findFirst (\<lambda>t. rt_tokenHash t = hashToken E raw) (refreshTokens ?d) = Some old"
        "findFirst (\<lambda>s. s_id s = rt_sessionId old) (sessions ?d) = Some s"
        "rt_revokedAt old = None" "s_revokedAt s = None"
      and n: "?n = \<lparr>rt_id = rt_id ?n, rt_userId = rt_userId old,
        rt_sessionId = rt_sessionId old, rt_familyId = rt_familyId old,
        rt_tokenHash = hashToken E (cs_refreshToken c), rt_expiresAt = s_expiresAt s,
        rt_revokedAt = None, rt_replacedByTokenId = None, rt_reuseDetectedAt = None\<rparr>"
        "\<forall>t' \<in> set (refreshTokens ?d). rt_id t' \<noteq> rt_id ?n \<and> rt_tokenHash t' \<noteq> hashToken E (cs_refreshToken c)"
      and ts: "refreshTokens (w_db w') =
         updateRows (\<lambda>t. rt_id t = rt_id old)
         (\<lambda>t. t\<lparr>rt_revokedAt := Some (w_now w), rt_replacedByTokenId := Some (rt_id ?n)\<rparr>)
         (refreshTokens ?d) @ [?n]" (is "_ = ?ts @ _")
      and ss: "sessions (w_db w') =
         updateRows (\<lambda>s'. s_id s' = rt_sessionId old)
         (\<lambda>s'. s'\<lparr>s_lastActivityAt := w_now w,
                 s_ipAddress := orElse (lm_ipAddress meta) (s_ipAddress s),
                 s_userAgent := orElse (lm_userAgent meta) (s_userAgent s)\<rparr>)
         (sessions ?d)" (is "_ = ?ss")
      by (rule rotate_success [OF run [unfolded Inr]])
    have oin: "old \<in> set (refreshTokens ?d)" and sin: "s \<in> set (sessions ?d)" "s_id s = rt_sessionId old"
      using old(1,2) by (auto dest: findFirst_SomeD)
    have I: "sessionInv ?d" using inv by (simp add: dbInv_def)
    have uniq: "t = old" if "t \<in> set (refreshTokens ?d)" "rt_id t = rt_id old" for t
      using I oin that unfolding sessionInv_def sessionKeys_def by (metis distinct_map_unique)
    have "tokenOf s old" using I oin sin by (rule sessionInv_tokenOwner)
    \<comment> \<open>First the old token is spent and the session touched, then the new token is added.\<close>
    have 1: "sessionInv (?d\<lparr>sessions := ?ss, refreshTokens := ?ts\<rparr>)" (is "sessionInv ?d1")
    proof -
      have "sessionKeys ?d1"
        using I by (simp add: sessionInv_def sessionKeys_def map_updateRows_key)
      moreover have "tokensOwned ?d1"
        by (rule tokensOwned_updates [OF sessionInv_owned [OF I]]) (simp add: tokenOf_def)
      moreover have "revokedClosed ?d1"
        using I unfolding sessionInv_def revokedClosed_def by (auto simp: table_simps)
      moreover have "oneLive ?d1"
        by (rule oneLive_updates) (use I in \<open>simp_all add: sessionInv_def\<close>)
      ultimately show ?thesis by (simp add: sessionInv_def)
    qed
    let ?s' = "s\<lparr>s_lastActivityAt := w_now w,
                 s_ipAddress := orElse (lm_ipAddress meta) (s_ipAddress s),
                 s_userAgent := orElse (lm_userAgent meta) (s_userAgent s)\<rparr>"
    have "sessionInv (?d1\<lparr>refreshTokens := refreshTokens ?d1 @ [?n]\<rparr>)"
    proof (rule sessionInv_add_token [OF 1])
      show "?s' \<in> set (sessions ?d1)"
        using sin by (auto simp: table_simps intro!: image_eqI [of _ _ s])
      show "tokenOf ?s' ?n"
        using \<open>tokenOf s old\<close> by (subst n(1)) (simp add: tokenOf_def)
      show "s_revokedAt ?s' = None" using old(4) by simp
      show "\<forall>t' \<in> set (refreshTokens ?d1). rt_id t' \<noteq> rt_id ?n \<and> rt_tokenHash t' \<noteq> rt_tokenHash ?n"
        using n(2) by (subst (2) n(1)) (auto simp: table_simps)
      have "rt_sessionId ?n = rt_sessionId old" by (subst n(1)) simp
      then show "\<forall>t' \<in> set (refreshTokens ?d1). rt_sessionId t' = rt_sessionId ?n \<longrightarrow> rt_revokedAt t' \<noteq> None"
        using I oin old(3) uniq unfolding sessionInv_def oneLive_def
        by (fastforce simp: table_simps)
    qed
    moreover have "sessionInv (w_db w') = sessionInv (?d1\<lparr>refreshTokens := refreshTokens ?d1 @ [?n]\<rparr>)"
      by (rule sessionInv_cong) (simp_all add: ts ss)
    ultimately have "sessionInv (w_db w')" by simp
    with run show ?thesis by (simp add: dbInv_def)
  qed
qed

end
