(* ===== verification/Fixtures.thy ===== *)
theory Fixtures
  imports Storage
begin

text \<open>
  A concrete environment and world for the witnesses: libraries replaced by small
  functions that compute (ids and random bytes count the draws, SHA-256 is the identity on
  bytes, bcrypt a salted text), one active user and no sessions.
\<close>

definition sampleClient :: OAuthProviderClientConfig where
  "sampleClient = \<lparr>cc_clientId = ''id'', cc_clientSecret = ''secret'', cc_callbackUrl = ''http://localhost/cb''\<rparr>"

definition sampleEnv :: env where
  "sampleEnv =
     \<lparr>e_auth = \<lparr>ac_bcryptSaltRounds = 12,
        ac_passwordPolicy = \<lparr>pw_minLength = 12, pw_requireUppercase = True,
          pw_requireLowercase = True, pw_requireNumber = True, pw_requireSpecial = True,
          pw_historyLimit = 5\<rparr>,
        ac_maxLoginAttempts = 5, ac_lockDurationMs = 900000,
        ac_emailVerificationTokenTtlMs = 86400000, ac_passwordResetTokenTtlMs = 3600000,
        ac_sessionTtlMs = 604800000, ac_appUrl = ''http://localhost:3000''\<rparr>,
      e_appUrl = ''http://localhost:3000'',
      e_fed = \<lparr>fc_encryptionKey = '''', fc_mfaIssuer = ''EnterpriseAuthPlatform'',
        fc_mfaChallengeTtlMs = 300000, fc_mfaChallengeTokenBytes = 32,
        fc_mfaBackupCodeCount = 10, fc_mfaTotpWindow = 1, fc_oauthStateTtlMs = 600000,
        fc_baseUrl = ''http://localhost:3000'', fc_google = sampleClient, fc_github = sampleClient,
        fc_microsoft = sampleClient, fc_microsoftTenantId = ''common'', fc_samlEntityId = ''urn:sp'',
        fc_samlAcsBaseUrl = ''http://localhost:3000/api/v1/sso'', fc_samlClockSkewMs = 300000,
        fc_samlReplayCacheTtlMs = 3600000\<rparr>,
      e_js = \<lparr>js_Number = (\<lambda>_. NaN), js_String = (\<lambda>v. case v of JStr s \<Rightarrow> s | _ \<Rightarrow> ''''), js_parseDate = (\<lambda>_. None),
        js_regexTest = (\<lambda>_ _. None), js_inherited = (\<lambda>_ _. None)\<rparr>,
      e_uuid = (\<lambda>n. ''id-'' @ show_nat n),
      e_randomBytes = (\<lambda>n len. [n]),
      e_sha256 = map of_char,
      e_bcryptHash = (\<lambda>n rounds p. ''$2b$'' @ p),
      e_bcryptCompare = (\<lambda>p h. h = ''$2b$'' @ p),
      e_gcmSeal = (\<lambda>k iv s. (map of_char s, [])),
      e_gcmOpen = (\<lambda>k iv tag ct. Some (map char_of ct)),
      e_jwtSign = (\<lambda>now p. jp_sub p @ ''.'' @ jp_sessionId p),
      e_toISOString = (\<lambda>_. ''1970-01-01T00:00:00.000Z''),
      e_encodeURIComponent = (\<lambda>s. s),
      e_urlOrigin = (\<lambda>s. if startsWith s ''http://localhost:3000'' then Some ''http://localhost:3000''
        else if startsWith s ''http://'' then Some ''other'' else None),
      e_urlSet = (\<lambda>s ps. if startsWith s ''http''
        then Some (s @ ''?'' @ js_join ''&'' (map (\<lambda>(k, v). k @ ''='' @ v) ps)) else None),
      e_totpSecret = (\<lambda>n len name issuer. (''SECRET'' @ show_nat n, Some (''otpauth://totp/'' @ name))),
      e_totpVerify = (\<lambda>now secret token window step digits. token = ''123456''),
      e_qrCode = (\<lambda>url. Some (''data:'' @ url)),
      e_fetch = (\<lambda>n r. None),
      e_samlOk = (\<lambda>c. sm_idpCert c \<noteq> []),
      e_samlLoginUrl = (\<lambda>c relay. Some (sm_entryPoint c @ ''?RelayState='' @ relay)),
      e_samlValidate = (\<lambda>now c response relay. if response = [] then Inl ''empty''
        else Inr (Some (JObj [(''ID'', JStr response), (''email'', JStr ''bob@example.com'')]))),
      e_nodeEnv = ''production''\<rparr>"

definition emptyDb :: database where
  "emptyDb =
     \<lparr>users = [], sessions = [], refreshTokens = [], emailVerificationTokens = [],
      passwordResetTokens = [], passwordHistory = [], organizations = [], memberships = [],
      roles = [], permissions = [], rolePermissions = [], userRoles = [], policies = [],
      policyConditions = [], policyAssignments = [], invitations = [], mfaSecrets = [],
      backupCodes = [], mfaChallenges = [], oauthAccounts = [], ssoConfigurations = []\<rparr>"

definition alice :: User where
  "alice = \<lparr>u_id = ''alice'', u_email = ''alice@example.com'', u_passwordHash = ''$2b$pw'',
      u_firstName = None, u_lastName = None, u_status = UserActive,
      u_isEmailVerified = True, u_tokenVersion = 0, u_failedLoginAttempts = 0,
      u_lockUntil = None, u_lastLoginAt = None, u_createdAt = 0, u_deletedAt = None\<rparr>"

definition bob :: User where
  "bob = alice\<lparr>u_id := ''bob'', u_email := ''bob@example.com''\<rparr>"

definition worldOf :: "database \<Rightarrow> world" where
  "worldOf d = \<lparr>w_now = 1000, w_draws = 0, w_db = d, w_cache = (\<lambda>_. None),
      w_redisUp = True, w_queueUp = True, w_jobs = [], w_ctx = None\<rparr>"

definition sampleWorld :: world where
  "sampleWorld = worldOf (emptyDb\<lparr>users := [alice, bob]\<rparr>)"

text \<open>Replacing the tables a witness is about.\<close>

definition withDb :: "(database \<Rightarrow> database) \<Rightarrow> world" where
  "withDb f = worldOf (f (emptyDb\<lparr>users := [alice, bob]\<rparr>))"

text \<open>From the computed result of a run to the run itself.\<close>

lemma run_fst: "fst p = x \<Longrightarrow> \<exists>w. p = (x, w)"
  by (cases p) simp

lemma run_Inr: "\<not> isl (fst p) \<Longrightarrow> \<exists>r w. p = (Inr r, w)"
  by (cases p; cases "fst p") auto

end
