(* ===== verification/SessionLaws.thy ===== *)
theory SessionLaws
  imports SessionInv Fixtures
begin

text \<open>
  What the session service guarantees: closed forms of the revocations, the session
  invariant in every state reachable through the service, a rotated refresh token is
  spent for good, and what reuse detection leaves behind.
\<close>

section \<open>Revocation\<close>

lemma revokeIn_comp:
  "refreshTokens_update (updateRows (\<lambda>t. S (rt_sessionId t) \<and> rt_revokedAt t = None)
       (rt_revokedAt_update (\<lambda>_. Some now))) \<circ>
   sessions_update (updateRows (\<lambda>s. S (s_id s)) (s_revokedAt_update (\<lambda>_. Some now))) =
   revokeIn S now"
  by (simp add: fun_eq_iff revokeIn_def)

lemma revokeSession_run:
  "revokeSession sid uid w =
     (case findFirst (\<lambda>s. s_id s = sid \<and> s_userId s = uid) (sessions (w_db w)) of
        None \<Rightarrow> (Inl sessionNotFound, w)
      | Some s \<Rightarrow> cacheDelete [sessionKey sid]
          (if s_revokedAt s = None then w_db_update (revokeIn (\<lambda>x. x = sid) (w_now w)) w else w))"
proof (cases "findFirst (\<lambda>s. s_id s = sid \<and> s_userId s = uid) (sessions (w_db w))")
  case None
  then show ?thesis
    by (simp add: revokeSession_def monad_simps transaction_run)
next
  case (Some s)
  then have "s \<in> set (sessions (w_db w))" "s_id s = sid" by (auto dest: findFirst_SomeD)
  then obtain s' where s': "findFirst (\<lambda>s. s_id s = sid) (sessions (w_db w)) = Some s'"
    using findFirst_ex [of s _ "\<lambda>s. s_id s = sid"] by auto
  show ?thesis
    by (cases "s_revokedAt s")
      (simp_all add: revokeSession_def monad_simps transaction_run Some s'
        revokeIn_comp [of "\<lambda>x. x = sid"])
qed

lemma revokeAll_run:
  "revokeAllSessionsForUser uid except w =
     (let rows = findMany (\<lambda>s. s_userId s = uid \<and> s_revokedAt s = None \<and>
              (truthy_str except \<longrightarrow> Some (s_id s) \<noteq> except)) (sessions (w_db w)) in
      if rows = [] then (Inr (), w)
      else cacheDelete (map (\<lambda>s. sessionKey (s_id s)) rows)
             (w_db_update (revokeIn (\<lambda>x. x \<in> s_id ` set rows) (w_now w)) w))"
  by (simp add: revokeAllSessionsForUser_def monad_simps transaction_run Let_def
      revokeIn_comp [of "\<lambda>x. x \<in> s_id ` A" for A])

lemma cacheDelete_db [simp]: "w_db (snd (cacheDelete ks w)) = w_db w"
  by (simp add: cacheDelete_run)

lemma revokeSession_keeps: "keeps (dbInv sessionInv) (revokeSession sid uid)"
  by (rule keepsI) (auto simp: revokeSession_run dbInv_def sessionInv_revokeIn split: option.split)

lemma revokeAll_keeps: "keeps (dbInv sessionInv) (revokeAllSessionsForUser uid except)"
  by (rule keepsI) (auto simp: revokeAll_run dbInv_def sessionInv_revokeIn Let_def)

lemmas session_keeps [keeps_intros] =
  createSession_keeps rotate_keeps revokeSession_keeps revokeAll_keeps

section \<open>Runs of the session service\<close>

text \<open>
  One step: a call of the service, the passing of time, or anything that leaves the two
  tables alone (every other request).
\<close>

inductive session_step :: "env \<Rightarrow> world \<Rightarrow> world \<Rightarrow> bool" for E where
  create: "session_step E w (snd (createSession E uid meta w))"
| rotate: "session_step E w (snd (rotateRefreshToken E raw meta w))"
| revoke: "session_step E w (snd (revokeSession sid uid w))"
| revoke_all: "session_step E w (snd (revokeAllSessionsForUser uid except w))"
| other: "sessions (w_db w') = sessions (w_db w) \<Longrightarrow>
    refreshTokens (w_db w') = refreshTokens (w_db w) \<Longrightarrow> session_step E w w'"

lemma session_step_inv:
  "session_step E w w' \<Longrightarrow> sessionInv (w_db w) \<Longrightarrow> sessionInv (w_db w')"
proof (induction rule: session_step.induct)
  case (other w' w)
  then show ?case using sessionInv_cong by blast
qed (use session_keeps [THEN keepsD] in \<open>auto simp: dbInv_def\<close>)

text \<open>A refresh token is spent when its row is revoked; no step un-revokes a row.\<close>

definition tokenSpent :: "string \<Rightarrow> database \<Rightarrow> bool" where
  "tokenSpent h d \<longleftrightarrow> (\<exists>t \<in> set (refreshTokens d). rt_tokenHash t = h \<and> rt_revokedAt t \<noteq> None)"

lemma tokenSpent_updateRows:
  assumes "tokenSpent h d"
    and "\<And>t. rt_tokenHash (g t) = rt_tokenHash t" "\<And>t. q t \<Longrightarrow> rt_revokedAt (g t) \<noteq> None"
    and "refreshTokens d' = updateRows q g (refreshTokens d) @ ts"
  shows "tokenSpent h d'"
proof -
  from assms(1) obtain t where t: "t \<in> set (refreshTokens d)" "rt_tokenHash t = h"
    "rt_revokedAt t \<noteq> None" by (auto simp: tokenSpent_def)
  let ?t = "if q t then g t else t"
  have "?t \<in> set (refreshTokens d')" using t(1) assms(4) by (simp add: set_updateRows)
  moreover have "rt_tokenHash ?t = h \<and> rt_revokedAt ?t \<noteq> None" using t assms(2,3) by simp
  ultimately show ?thesis unfolding tokenSpent_def by blast
qed

lemma tokenSpent_revokeIn: "tokenSpent h d \<Longrightarrow> tokenSpent h (revokeIn S now d)"
  by (rule tokenSpent_updateRows [where ts = "[]"]) (simp_all add: revokeIn_rows)

lemma tokenSpent_create: "tokenSpent h (w_db w) \<Longrightarrow> tokenSpent h (w_db (snd (createSession E uid meta w)))"
proof -
  assume *: "tokenSpent h (w_db w)"
  obtain r w' where run: "createSession E uid meta w = (r, w')" by fastforce
  show ?thesis
  proof (cases r)
    case (Inl e)
    with createSession_Inl_db [of E uid meta w e w'] run * show ?thesis
      by (auto simp: tokenSpent_def)
  next
    case (Inr c)
    with createSession_success [of E uid meta w c w'] run * show ?thesis
      by (auto simp: tokenSpent_def)
  qed
qed

lemma tokenSpent_rotate:
  "tokenSpent h (w_db w) \<Longrightarrow> tokenSpent h (w_db (snd (rotateRefreshToken E raw meta w)))"
proof -
  assume *: "tokenSpent h (w_db w)"
  obtain r w' where run: "rotateRefreshToken E raw meta w = (r, w')" by fastforce
  show ?thesis
  proof (cases r)
    case (Inl e)
    with run * show ?thesis by (simp add: rotateRefreshToken_def transaction_rollback)
  next
    case (Inr c)
    show ?thesis
      by (rule rotate_success [OF run [unfolded Inr]], rule tokenSpent_updateRows [OF *])
        (use run in simp_all)
  qed
qed

lemma session_step_spent:
  "session_step E w w' \<Longrightarrow> tokenSpent h (w_db w) \<Longrightarrow> tokenSpent h (w_db w')"
proof (induction rule: session_step.induct)
  case (revoke w sid uid)
  then show ?case by (auto simp: revokeSession_run tokenSpent_revokeIn split: option.split)
next
  case (revoke_all w uid except)
  then show ?case by (auto simp: revokeAll_run Let_def tokenSpent_revokeIn)
next
  case (other w' w)
  then show ?case by (simp add: tokenSpent_def)
qed (simp_all add: tokenSpent_create tokenSpent_rotate)

text \<open>Presenting a spent token: the reuse branch, whose writes the transaction undoes.\<close>

lemma rotateBody_reuse:
  assumes "findFirst (\<lambda>t. rt_tokenHash t = h) (refreshTokens (w_db w)) = Some t"
    and "findFirst (\<lambda>s. s_id s = rt_sessionId t) (sessions (w_db w)) = Some s"
    and "rt_revokedAt t \<noteq> None"
  shows "\<exists>w'. rotateBody E h meta w = (Inl reuseDetected, w') \<and> w'\<lparr>w_db := w_db w\<rparr> = w"
proof -
  obtain f where "revokeFamily (rt_familyId t) Reuse w = (Inr (), w_db_update f w)"
    by (simp add: revokeFamily_def monad_simps)
  then have "rotateBody E h meta w = (Inl reuseDetected, w_db_update f w)"
    by (simp add: rotateBody_def monad_simps assms(1,2) assms(3) [simplified])
  then show ?thesis by simp
qed

lemma rotate_spent:
  assumes "sessionInv (w_db w)" "tokenSpent (hashToken E raw) (w_db w)"
  shows "rotateRefreshToken E raw meta w = (Inl reuseDetected, w)"
proof -
  let ?h = "hashToken E raw" and ?d = "w_db w"
  from assms(2) obtain t where t: "t \<in> set (refreshTokens ?d)" "rt_tokenHash t = ?h"
    "rt_revokedAt t \<noteq> None" by (auto simp: tokenSpent_def)
  have f: "findFirst (\<lambda>t. rt_tokenHash t = ?h) (refreshTokens ?d) = Some t"
    using findFirst_key [of rt_tokenHash "refreshTokens ?d" t] assms(1) t
    by (simp add: sessionInv_def sessionKeys_def)
  from assms(1) t(1) obtain s where "s \<in> set (sessions ?d)" "s_id s = rt_sessionId t"
    by (auto simp: sessionInv_def tokensOwned_def tokenOf_def)
  then obtain s where s: "findFirst (\<lambda>s. s_id s = rt_sessionId t) (sessions ?d) = Some s"
    using findFirst_ex [of _ _ "\<lambda>s. s_id s = rt_sessionId t"] by blast
  have "\<exists>w'. rotateBody E ?h meta w = (Inl reuseDetected, w') \<and> w'\<lparr>w_db := ?d\<rparr> = w"
    using f s t(3) by (rule rotateBody_reuse)
  then show ?thesis by (auto simp: rotateRefreshToken_def transaction_run)
qed

lemma rotate_spends:
  assumes "rotateRefreshToken E raw meta w = (Inr c, w')"
  shows "tokenSpent (hashToken E raw) (w_db w')"
proof -
  obtain old f ts where
    old: "findFirst (\<lambda>t. rt_tokenHash t = hashToken E raw) (refreshTokens (w_db w)) = Some old"
    and f: "\<And>t. rt_tokenHash (f t) = rt_tokenHash t \<and> rt_revokedAt (f t) \<noteq> None"
    and ts: "refreshTokens (w_db w') =
       updateRows (\<lambda>t. rt_id t = rt_id old) f (refreshTokens (w_db w)) @ ts"
  proof (rule rotate_success [OF assms], goal_cases)
    case (1 old s)
    show ?case by (rule 1(1) [OF 1(2) _ 1(9)]) simp
  qed
  from old have "old \<in> set (refreshTokens (w_db w))" "rt_tokenHash old = hashToken E raw"
    by (auto dest: findFirst_SomeD)
  then have "f old \<in> set (refreshTokens (w_db w'))" "rt_tokenHash (f old) = hashToken E raw"
    using f by (auto simp: ts set_updateRows intro: image_eqI [of _ _ old])
  then show ?thesis using f unfolding tokenSpent_def by blast
qed

interpretation refresh: single_use
  "rotateRefreshToken E"
  "\<lambda>raw w. tokenSpent (hashToken E raw) (w_db w)"
  "\<lambda>w. sessionInv (w_db w)"
  "session_step E"
  for E :: env
proof (unfold_locales, goal_cases)
  case (1 w raw meta)
  then show ?case using rotate_keeps [THEN keepsD, of w] by (simp add: dbInv_def)
next
  case (2 w raw meta x w')
  then show ?case by (blast intro: rotate_spends)
next
  case (3 w raw meta)
  then show ?case by (simp add: rotate_spent)
next
  case (4 w w')
  then show ?case by (blast intro: session_step_inv)
next
  case (5 w w' raw)
  then show ?case by (blast intro: session_step_spent)
qed

section \<open>Properties\<close>

definition noMeta :: LoginMetadata where
  "noMeta = \<lparr>lm_ipAddress = None, lm_userAgent = None, lm_deviceName = None\<rparr>"

text \<open>One session of \<open>alice\<close>, created through the service, and the state after it.\<close>

definition afterLogin :: world where
  "afterLogin = snd (createSession sampleEnv ''alice'' noMeta sampleWorld)"

definition firstToken :: string where
  "firstToken = cs_refreshToken (projr (fst (createSession sampleEnv ''alice'' noMeta sampleWorld)))"

definition afterRefresh :: world where
  "afterRefresh = snd (rotateRefreshToken sampleEnv firstToken noMeta afterLogin)"

lemma sessionInv_empty: "sessions d = [] \<Longrightarrow> refreshTokens d = [] \<Longrightarrow> sessionInv d"
  by (simp add: sessionInv_defs)

lemma afterLogin_inv: "sessionInv (w_db afterLogin)"
proof -
  have "sessionInv (w_db sampleWorld)"
    by (rule sessionInv_empty) (simp_all add: sampleWorld_def worldOf_def emptyDb_def)
  then show ?thesis
    unfolding afterLogin_def by (rule createSession_keeps [THEN keepsD, unfolded dbInv_def])
qed

text \<open>What never changes about a session: its owner, its family, its expiry, and being revoked.\<close>

definition sessionsKept :: "database \<Rightarrow> database \<Rightarrow> bool" where
  "sessionsKept d d' \<longleftrightarrow> (\<forall>s \<in> set (sessions d). \<exists>s' \<in> set (sessions d').
     s_id s' = s_id s \<and> s_userId s' = s_userId s \<and> s_familyId s' = s_familyId s \<and>
     s_expiresAt s' = s_expiresAt s \<and> (s_revokedAt s \<noteq> None \<longrightarrow> s_revokedAt s' \<noteq> None))"

definition muchLater :: world where
  "muchLater = afterLogin\<lparr>w_now := 604801000\<rparr>"

lemma afterLogin_rotates:
  "rotateRefreshToken sampleEnv firstToken noMeta afterLogin =
     (Inr (projr (fst (rotateRefreshToken sampleEnv firstToken noMeta afterLogin))), afterRefresh)"
proof -
  have "\<not> isl (fst (rotateRefreshToken sampleEnv firstToken noMeta afterLogin))" by code_simp
  then show ?thesis
    unfolding afterRefresh_def by (metis prod.collapse sum.collapse(2))
qed

text \<open>
  C2: a refresh token works once.  After it was exchanged, whatever requests follow
  (logins, refreshes, revocations, anything that leaves the two tables alone, the passing
  of time), presenting it again is answered with \<open>REFRESH_TOKEN_REUSE_DETECTED\<close> and
  issues nothing.
\<close>

theorem refresh_token_works_once:
  assumes "sessionInv (w_db w)"
    and "rotateRefreshToken E raw meta w = (Inr c, w1)"
    and "(session_step E)\<^sup>*\<^sup>* w1 w2"
  shows "rotateRefreshToken E raw meta' w2 = (Inl reuseDetected, w2)"
  using refresh.used_stays_spent [OF assms] rotate_spent by blast

theorem refresh_token_works_once_witness:
  "rotateRefreshToken sampleEnv firstToken noMeta afterRefresh = (Inl reuseDetected, afterRefresh)"
  by (rule refresh_token_works_once [OF afterLogin_inv afterLogin_rotates]) simp

text \<open>
  C16: in every state reachable from empty tables, session and token keys are unique, every
  refresh token belongs to a session of the same user, family and expiry, a revoked session
  has no live refresh token and no session has two of them.
\<close>

theorem session_tables_consistent:
  assumes "sessions (w_db w0) = []" "refreshTokens (w_db w0) = []"
    and "(session_step E)\<^sup>*\<^sup>* w0 w"
  shows "sessionInv (w_db w)"
  using refresh.steps_good [OF assms(3)] sessionInv_empty assms(1,2) by blast

theorem session_tables_consistent_witness: "sessionInv (w_db afterRefresh)"
proof (rule session_tables_consistent [of sampleWorld sampleEnv])
  show "sessions (w_db sampleWorld) = []" "refreshTokens (w_db sampleWorld) = []"
    by (simp_all add: sampleWorld_def worldOf_def emptyDb_def)
  have "session_step sampleEnv sampleWorld afterLogin"
    unfolding afterLogin_def by (rule session_step.create)
  moreover have "session_step sampleEnv afterLogin afterRefresh"
    unfolding afterRefresh_def by (rule session_step.rotate)
  ultimately show "(session_step sampleEnv)\<^sup>*\<^sup>* sampleWorld afterRefresh" by simp
qed

text \<open>
  C37: presenting a rotated token trips the reuse detection, but the family it wants to
  revoke stays alive: the revocation is part of the transaction that the exception rolls
  back, so the whole state is as before and every token that could be exchanged before the
  replay can be exchanged after it.
\<close>

theorem reuse_detection_rolls_back:
  assumes "sessionInv (w_db w)" "t \<in> set (refreshTokens (w_db w))"
    and "rt_tokenHash t = hashToken E stolen" "rt_revokedAt t \<noteq> None"
  shows "rotateRefreshToken E stolen meta w = (Inl reuseDetected, w) \<and>
    rotateRefreshToken E live meta' (snd (rotateRefreshToken E stolen meta w)) =
    rotateRefreshToken E live meta' w"
proof -
  have "tokenSpent (hashToken E stolen) (w_db w)"
    using assms(2-4) unfolding tokenSpent_def by blast
  then have "rotateRefreshToken E stolen meta w = (Inl reuseDetected, w)"
    using assms(1) by (rule rotate_spent [rotated])
  then show ?thesis by simp
qed

lemma afterRefresh_inv: "sessionInv (w_db afterRefresh)"
  unfolding afterRefresh_def
  by (rule rotate_keeps [THEN keepsD, unfolded dbInv_def]) (rule afterLogin_inv)

lemma afterRefresh_spent:
  "\<exists>t \<in> set (refreshTokens (w_db afterRefresh)).
     rt_tokenHash t = hashToken sampleEnv firstToken \<and> rt_revokedAt t \<noteq> None"
  using rotate_spends [OF afterLogin_rotates] by (simp add: tokenSpent_def)

theorem reuse_detection_rolls_back_witness:
  "rotateRefreshToken sampleEnv firstToken noMeta afterRefresh = (Inl reuseDetected, afterRefresh)"
proof -
  obtain t where "t \<in> set (refreshTokens (w_db afterRefresh))"
    "rt_tokenHash t = hashToken sampleEnv firstToken" "rt_revokedAt t \<noteq> None"
    using afterRefresh_spent by blast
  from reuse_detection_rolls_back [OF afterRefresh_inv this] show ?thesis by blast
qed

lemma sessionsKept_refl [simp]: "sessionsKept d d"
  unfolding sessionsKept_def by blast

lemma sessionsKept_trans: "sessionsKept d d' \<Longrightarrow> sessionsKept d' d'' \<Longrightarrow> sessionsKept d d''"
  unfolding sessionsKept_def by metis

lemma sessionsKept_append: "sessions d' = sessions d @ ss \<Longrightarrow> sessionsKept d d'"
  unfolding sessionsKept_def by auto

lemma sessionsKept_updateRows:
  assumes "sessions d' = updateRows p f (sessions d)"
    and "\<And>s. s_id (f s) = s_id s \<and> s_userId (f s) = s_userId s \<and> s_familyId (f s) = s_familyId s \<and>
       s_expiresAt (f s) = s_expiresAt s \<and> (s_revokedAt s \<noteq> None \<longrightarrow> s_revokedAt (f s) \<noteq> None)"
  shows "sessionsKept d d'"
  unfolding sessionsKept_def
proof
  fix s assume "s \<in> set (sessions d)"
  then have "(if p s then f s else s) \<in> set (sessions d')" by (simp add: assms(1) set_updateRows)
  then show "\<exists>s' \<in> set (sessions d'). s_id s' = s_id s \<and> s_userId s' = s_userId s \<and>
     s_familyId s' = s_familyId s \<and> s_expiresAt s' = s_expiresAt s \<and>
     (s_revokedAt s \<noteq> None \<longrightarrow> s_revokedAt s' \<noteq> None)"
    by (rule rev_bexI) (use assms(2) in auto)
qed

lemma sessionsKept_revokeIn: "sessionsKept d (revokeIn S now d)"
  by (rule sessionsKept_updateRows [OF revokeIn_rows(1)]) simp

lemma session_step_kept: "session_step E w w' \<Longrightarrow> sessionsKept (w_db w) (w_db w')"
proof (induction rule: session_step.induct)
  case (create w uid meta)
  obtain r w' where run: "createSession E uid meta w = (r, w')" by fastforce
  then show ?case
    using createSession_success [of E uid meta w _ w'] createSession_Inl_db [of E uid meta w _ w']
    by (cases r) (auto simp: sessionsKept_append intro: sessionsKept_append)
next
  case (rotate w raw meta)
  obtain r w' where run: "rotateRefreshToken E raw meta w = (r, w')" by fastforce
  show ?case
  proof (cases r)
    case (Inl e)
    with run show ?thesis by (simp add: rotateRefreshToken_def transaction_rollback)
  next
    case (Inr c)
    have "sessionsKept (w_db w) (w_db w')"
    proof (rule rotate_success [OF run [unfolded Inr]], goal_cases)
      case (1 old s)
      show ?case by (rule sessionsKept_updateRows [OF 1(9)]) simp
    qed
    with run show ?thesis by simp
  qed
next
  case (revoke w sid uid)
  then show ?case by (auto simp: revokeSession_run sessionsKept_revokeIn split: option.split)
next
  case (revoke_all w uid except)
  then show ?case by (auto simp: revokeAll_run Let_def sessionsKept_revokeIn)
next
  case (other w' w)
  then show ?case by (intro sessionsKept_append [of _ _ "[]"]) simp
qed

lemma session_steps_kept: "(session_step E)\<^sup>*\<^sup>* w w' \<Longrightarrow> sessionsKept (w_db w) (w_db w')"
  by (induction rule: rtranclp_induct) (auto intro: sessionsKept_trans session_step_kept)

text \<open>Logging out everywhere spends every refresh token of the user.\<close>

lemma revokeAll_spends:
  assumes "sessionInv (w_db w)" "t \<in> set (refreshTokens (w_db w))" "rt_userId t = uid"
    and "rt_tokenHash t = h"
  shows "tokenSpent h (w_db (snd (revokeAllSessionsForUser uid None w)))"
proof -
  from assms(1,2) obtain s where s: "s \<in> set (sessions (w_db w))" "tokenOf s t"
    by (auto simp: sessionInv_def tokensOwned_def)
  let ?A = "s_id ` {s \<in> set (sessions (w_db w)). s_userId s = uid \<and> s_revokedAt s = None}"
  have in_A: "rt_sessionId t \<in> ?A" if "rt_revokedAt t = None"
    using that assms(1-3) s unfolding sessionInv_def revokedClosed_def tokenOf_def
    by (fastforce intro!: image_eqI [of _ _ s])
  have 1: "tokenSpent h (revokeIn (\<lambda>x. x \<in> ?A) (w_now w) (w_db w))"
  proof (cases "rt_revokedAt t")
    case None
    let ?t = "t\<lparr>rt_revokedAt := Some (w_now w)\<rparr>"
    have "?t \<in> set (refreshTokens (revokeIn (\<lambda>x. x \<in> ?A) (w_now w) (w_db w)))"
      using assms(2) None in_A [OF None] by (auto simp: revokeIn_rows set_updateRows intro!: image_eqI [of _ _ t])
    then show ?thesis using assms(4) unfolding tokenSpent_def by (intro bexI [of _ ?t]) simp_all
  next
    case (Some x)
    with assms(2,4) have "tokenSpent h (w_db w)" by (auto simp: tokenSpent_def)
    then show ?thesis by (rule tokenSpent_revokeIn)
  qed
  have 2: "tokenSpent h (w_db w)" if "?A = {}"
    using that in_A assms(2,4) unfolding tokenSpent_def by blast
  from 1 2 show ?thesis
    by (auto simp: revokeAll_run Let_def set_findMany findMany_def filter_empty_conv)
qed

text \<open>
  \<open>logoutAll\<close> (and a password change) ends every login of the user: no refresh token
  the user had can be exchanged afterwards, whatever happens in between.
\<close>

theorem revoke_all_ends_every_login:
  assumes "sessionInv (w_db w)"
    and "t \<in> set (refreshTokens (w_db w))" "rt_userId t = uid" "rt_tokenHash t = hashToken E raw"
    and "(session_step E)\<^sup>*\<^sup>* (snd (revokeAllSessionsForUser uid None w)) w2"
  shows "rotateRefreshToken E raw meta w2 = (Inl reuseDetected, w2)"
proof -
  let ?w1 = "snd (revokeAllSessionsForUser uid None w)"
  have "sessionInv (w_db ?w1)"
    using revokeAll_keeps [THEN keepsD, unfolded dbInv_def] assms(1) by blast
  moreover have "tokenSpent (hashToken E raw) (w_db ?w1)"
    by (rule revokeAll_spends [OF assms(1-4)])
  ultimately show ?thesis using refresh.spent_stays [OF assms(5)] rotate_spent by blast
qed

lemma afterLogin_token:
  "cs_refreshTokenRecord (projr (fst (createSession sampleEnv ''alice'' noMeta sampleWorld)))
     \<in> set (refreshTokens (w_db afterLogin))"
  "rt_userId (cs_refreshTokenRecord (projr (fst (createSession sampleEnv ''alice'' noMeta sampleWorld)))) = ''alice''"
  "rt_tokenHash (cs_refreshTokenRecord (projr (fst (createSession sampleEnv ''alice'' noMeta sampleWorld)))) =
     hashToken sampleEnv firstToken"
  by code_simp+

theorem revoke_all_ends_every_login_witness:
  "rotateRefreshToken sampleEnv firstToken noMeta
     (snd (revokeAllSessionsForUser ''alice'' None afterLogin)) =
   (Inl reuseDetected, snd (revokeAllSessionsForUser ''alice'' None afterLogin))"
  by (rule revoke_all_ends_every_login [OF afterLogin_inv afterLogin_token]) simp

text \<open>
  C36: refreshing never prolongs a login.  Once the expiry set at login has passed, no refresh
  token of the session is exchanged any more, however often it was refreshed before.
\<close>

theorem session_lifetime_is_absolute:
  assumes "sessionInv (w_db w)" "s \<in> set (sessions (w_db w))"
    and "(session_step E)\<^sup>*\<^sup>* w w2" and "s_expiresAt s \<le> w_now w2"
    and "t \<in> set (refreshTokens (w_db w2))" "rt_sessionId t = s_id s"
    and "rt_tokenHash t = hashToken E raw"
  shows "fst (rotateRefreshToken E raw meta w2) \<in> {Inl reuseDetected, Inl expiredRefresh}"
proof -
  have inv: "sessionInv (w_db w2)" using refresh.steps_good [OF assms(3,1)] .
  obtain s' where s': "s' \<in> set (sessions (w_db w2))" "s_id s' = s_id s" "s_expiresAt s' = s_expiresAt s"
    using session_steps_kept [OF assms(3)] assms(2) unfolding sessionsKept_def by metis
  then have "tokenOf s' t" using sessionInv_tokenOwner [OF inv assms(5)] assms(6) by simp
  then have exp: "rt_expiresAt t \<le> w_now w2" using assms(4) s' by (simp add: tokenOf_def)
  have f: "findFirst (\<lambda>t. rt_tokenHash t = hashToken E raw) (refreshTokens (w_db w2)) = Some t"
    using findFirst_key [of rt_tokenHash "refreshTokens (w_db w2)" t] inv assms(5,7)
    by (simp add: sessionInv_def sessionKeys_def)
  obtain s'' where g: "findFirst (\<lambda>s. s_id s = rt_sessionId t) (sessions (w_db w2)) = Some s''"
    using findFirst_ex [of s' _ "\<lambda>s. s_id s = rt_sessionId t"] s' assms(6) by auto
  show ?thesis
  proof (cases "rt_revokedAt t")
    case None
    then show ?thesis
      by (simp add: rotateRefreshToken_def transaction_run rotateBody_def monad_simps f g exp)
  next
    case (Some x)
    with assms(5,7) have "tokenSpent (hashToken E raw) (w_db w2)" by (auto simp: tokenSpent_def)
    with inv show ?thesis by (simp add: rotate_spent)
  qed
qed

theorem session_lifetime_is_absolute_witness:
  "fst (rotateRefreshToken sampleEnv firstToken noMeta muchLater)
     \<in> {Inl reuseDetected, Inl expiredRefresh}"
proof -
  let ?c = "projr (fst (createSession sampleEnv ''alice'' noMeta sampleWorld))"
  have 1: "cs_session ?c \<in> set (sessions (w_db afterLogin))"
    "s_expiresAt (cs_session ?c) \<le> w_now muchLater"
    "rt_sessionId (cs_refreshTokenRecord ?c) = s_id (cs_session ?c)" by code_simp+
  have "session_step sampleEnv afterLogin muchLater"
    by (rule session_step.other) (simp_all add: muchLater_def)
  then have 2: "(session_step sampleEnv)\<^sup>*\<^sup>* afterLogin muchLater" by simp
  have 3: "cs_refreshTokenRecord ?c \<in> set (refreshTokens (w_db muchLater))"
    using afterLogin_token(1) by (simp add: muchLater_def)
  show ?thesis
    by (rule session_lifetime_is_absolute [OF afterLogin_inv 1(1) 2 1(2) 3 1(3) afterLogin_token(3)])
qed

end
