(* ===== verification/Verification.thy ===== *)
theory Verification
  imports Fixtures
begin

text \<open>
  One-time tokens sent by email: \<open>modules/auth/services/verification.service.ts\<close>.  Email
  verification and password reset tokens are rows of the same shape in two tables.
\<close>

record IssuedToken =
  it_rawToken :: string
  it_expiresAt :: int

definition VERIFICATION_TOKEN_BYTES :: nat where
  "VERIFICATION_TOKEN_BYTES = 32"

definition RESET_TOKEN_BYTES :: nat where
  "RESET_TOKEN_BYTES = 32"

definition invalidVerificationToken :: exn where
  "invalidVerificationToken =
     appExn ''INVALID_VERIFICATION_TOKEN'' ''Invalid or expired verification token'' 400"

definition invalidResetToken :: exn where
  "invalidResetToken = appExn ''INVALID_RESET_TOKEN'' ''Invalid or expired reset token'' 400"

text \<open>The row of a new token, and what the two \<open>consume\<close> methods have in common.\<close>

definition storeToken ::
  "OneTimeToken table \<Rightarrow> env \<Rightarrow> string \<Rightarrow> string \<Rightarrow> int \<Rightarrow> OneTimeToken act" where
  "storeToken t E userId tokenHash expiresAt =
     bindM (newId E) (\<lambda>tid.
     dbCreate t [''tokenHash''] (\<lambda>r. ot_id r = tid \<or> ot_tokenHash r = tokenHash)
       (\<lambda>d. \<exists>u \<in> set (users d). u_id u = userId)
       \<lparr>ot_id = tid, ot_userId = userId, ot_tokenHash = tokenHash,
        ot_expiresAt = expiresAt, ot_usedAt = None\<rparr>)"

definition redeemToken :: "OneTimeToken table \<Rightarrow> env \<Rightarrow> string \<Rightarrow> exn \<Rightarrow> OneTimeToken act" where
  "redeemToken t E rawToken err =
     bindM (dbFind t (\<lambda>r. ot_tokenHash r = hashToken E rawToken)) (\<lambda>row.
     bindM (orThrow row err) (\<lambda>record.
     bindM nowM (\<lambda>now.
     thenM (throw_if (ot_usedAt record \<noteq> None \<or> ot_expiresAt record \<le> now) err)
     (thenM (dbUpdate t (\<lambda>r. ot_id r = ot_id record) (\<lambda>r. r\<lparr>ot_usedAt := Some now\<rparr>))
     (returnM record)))))"

definition issueEmailVerificationToken :: "env \<Rightarrow> string \<Rightarrow> IssuedToken act" where
  "issueEmailVerificationToken E userId =
     bindM (generateSecureToken E VERIFICATION_TOKEN_BYTES) (\<lambda>rawToken.
     bindM nowM (\<lambda>now.
     thenM (storeToken emailVerificationTokensT E userId (hashToken E rawToken)
              (now + ac_emailVerificationTokenTtlMs (e_auth E)))
     (returnM \<lparr>it_rawToken = rawToken,
               it_expiresAt = now + ac_emailVerificationTokenTtlMs (e_auth E)\<rparr>)))"

definition consumeEmailVerificationToken :: "env \<Rightarrow> string \<Rightarrow> string act" where
  "consumeEmailVerificationToken E rawToken = transaction
     (bindM (redeemToken emailVerificationTokensT E rawToken invalidVerificationToken) (\<lambda>record.
      thenM (dbUpdate usersT (\<lambda>u. u_id u = ot_userId record) (\<lambda>u. u\<lparr>u_isEmailVerified := True\<rparr>))
      (returnM (ot_userId record))))"

definition issuePasswordResetToken :: "env \<Rightarrow> string \<Rightarrow> IssuedToken act" where
  "issuePasswordResetToken E userId =
     bindM (generateSecureToken E RESET_TOKEN_BYTES) (\<lambda>rawToken.
     bindM nowM (\<lambda>now.
     thenM (transaction
       (thenM (dbUpdateMany passwordResetTokensT (\<lambda>r. ot_userId r = userId \<and> ot_usedAt r = None)
                 (\<lambda>r. r\<lparr>ot_usedAt := Some now\<rparr>))
        (storeToken passwordResetTokensT E userId (hashToken E rawToken)
           (now + ac_passwordResetTokenTtlMs (e_auth E)))))
     (returnM \<lparr>it_rawToken = rawToken,
               it_expiresAt = now + ac_passwordResetTokenTtlMs (e_auth E)\<rparr>)))"

definition consumePasswordResetToken :: "env \<Rightarrow> string \<Rightarrow> string act" where
  "consumePasswordResetToken E rawToken = transaction
     (bindM (redeemToken passwordResetTokensT E rawToken invalidResetToken) (\<lambda>record.
      returnM (ot_userId record)))"

section \<open>A table of one-time tokens\<close>

text \<open>
  The lifecycle of such a table: rows are added under a fresh id and hash, a used row stays
  used.
\<close>

definition tokensDistinct :: "OneTimeToken list \<Rightarrow> bool" where
  "tokensDistinct rows \<longleftrightarrow> distinct (map ot_id rows) \<and> distinct (map ot_tokenHash rows)"

definition tokenUsed :: "string \<Rightarrow> OneTimeToken list \<Rightarrow> bool" where
  "tokenUsed h rows \<longleftrightarrow> (\<exists>r \<in> set rows. ot_tokenHash r = h \<and> ot_usedAt r \<noteq> None)"

inductive tokens_evolve :: "OneTimeToken list \<Rightarrow> OneTimeToken list \<Rightarrow> bool" where
  same: "tokens_evolve rows rows"
| add: "\<forall>r' \<in> set rows. ot_id r' \<noteq> ot_id r \<and> ot_tokenHash r' \<noteq> ot_tokenHash r \<Longrightarrow>
    tokens_evolve rows (rows @ [r])"
| use: "tokens_evolve rows (updateRows p (\<lambda>r. r\<lparr>ot_usedAt := Some now\<rparr>) rows)"

lemma tokens_evolve_distinct:
  "tokens_evolve rows rows' \<Longrightarrow> tokensDistinct rows \<Longrightarrow> tokensDistinct rows'"
  by (induction rule: tokens_evolve.induct) (force simp: tokensDistinct_def map_updateRows_key)+

lemma tokens_evolve_used:
  "tokens_evolve rows rows' \<Longrightarrow> tokenUsed h rows \<Longrightarrow> tokenUsed h rows'"
proof (induction rule: tokens_evolve.induct)
  case (use rows p now)
  then obtain r where r: "r \<in> set rows" "ot_tokenHash r = h" "ot_usedAt r \<noteq> None"
    by (auto simp: tokenUsed_def)
  let ?r = "if p r then r\<lparr>ot_usedAt := Some now\<rparr> else r"
  have "?r \<in> set (updateRows p (\<lambda>r. r\<lparr>ot_usedAt := Some now\<rparr>) rows)"
    using r(1) by (simp add: set_updateRows)
  moreover have "ot_tokenHash ?r = h \<and> ot_usedAt ?r \<noteq> None" using r by simp
  ultimately show ?case unfolding tokenUsed_def by blast
qed (auto simp: tokenUsed_def)

lemma tokens_evolve_steps:
  assumes "tokens_evolve\<^sup>*\<^sup>* rows rows'"
  shows "tokensDistinct rows \<Longrightarrow> tokensDistinct rows'" "tokenUsed h rows \<Longrightarrow> tokenUsed h rows'"
  using assms
  by (induction rule: rtranclp_induct) (auto intro: tokens_evolve_distinct tokens_evolve_used)

locale token_table = table get upd
  for get :: "database \<Rightarrow> OneTimeToken list"
    and upd :: "(OneTimeToken list \<Rightarrow> OneTimeToken list) \<Rightarrow> database \<Rightarrow> database" +
  assumes users_upd: "users (upd f d) = users d"
begin

lemma redeem_Inr_iff:
  "redeemToken (get, upd) E raw err w = (Inr r, w') \<longleftrightarrow>
     findFirst (\<lambda>r. ot_tokenHash r = hashToken E raw) (get (w_db w)) = Some r \<and>
     ot_usedAt r = None \<and> w_now w < ot_expiresAt r \<and>
     w' = w_db_update (upd (updateRows (\<lambda>x. ot_id x = ot_id r)
            (\<lambda>x. x\<lparr>ot_usedAt := Some (w_now w)\<rparr>))) w"
proof
  assume "redeemToken (get, upd) E raw err w = (Inr r, w')"
  then show "findFirst (\<lambda>r. ot_tokenHash r = hashToken E raw) (get (w_db w)) = Some r \<and>
     ot_usedAt r = None \<and> w_now w < ot_expiresAt r \<and>
     w' = w_db_update (upd (updateRows (\<lambda>x. ot_id x = ot_id r)
            (\<lambda>x. x\<lparr>ot_usedAt := Some (w_now w)\<rparr>))) w"
    unfolding redeemToken_def
    by (auto simp: success_iffs dbFind_run update_Inr_iff)
next
  assume *: "findFirst (\<lambda>r. ot_tokenHash r = hashToken E raw) (get (w_db w)) = Some r \<and>
     ot_usedAt r = None \<and> w_now w < ot_expiresAt r \<and>
     w' = w_db_update (upd (updateRows (\<lambda>x. ot_id x = ot_id r)
            (\<lambda>x. x\<lparr>ot_usedAt := Some (w_now w)\<rparr>))) w"
  then obtain r' where "findFirst (\<lambda>x. ot_id x = ot_id r) (get (w_db w)) = Some r'"
    using findFirst_ex [of r "get (w_db w)" "\<lambda>x. ot_id x = ot_id r"] by (auto dest: findFirst_SomeD)
  with * show "redeemToken (get, upd) E raw err w = (Inr r, w')"
    by (simp add: redeemToken_def monad_simps)
qed

lemma redeem_used:
  assumes "tokensDistinct (get (w_db w))" "tokenUsed (hashToken E raw) (get (w_db w))"
  shows "redeemToken (get, upd) E raw err w = (Inl err, w)"
proof -
  obtain r where r: "r \<in> set (get (w_db w))" "ot_tokenHash r = hashToken E raw" "ot_usedAt r \<noteq> None"
    using assms(2) by (auto simp: tokenUsed_def)
  then have "findFirst (\<lambda>r. ot_tokenHash r = hashToken E raw) (get (w_db w)) = Some r"
    using findFirst_key [of ot_tokenHash "get (w_db w)" r] assms(1) by (simp add: tokensDistinct_def)
  with r(3) show ?thesis by (simp add: redeemToken_def monad_simps)
qed

lemma redeem_spends:
  assumes "redeemToken (get, upd) E raw err w = (Inr r, w')"
  shows "tokenUsed (hashToken E raw) (get (w_db w'))" "tokens_evolve (get (w_db w)) (get (w_db w'))"
proof -
  let ?r = "r\<lparr>ot_usedAt := Some (w_now w)\<rparr>"
  have r: "r \<in> set (get (w_db w))" "ot_tokenHash r = hashToken E raw"
    and w': "get (w_db w') = updateRows (\<lambda>x. ot_id x = ot_id r)
      (\<lambda>x. x\<lparr>ot_usedAt := Some (w_now w)\<rparr>) (get (w_db w))"
    using assms by (auto simp: redeem_Inr_iff get_upd dest: findFirst_SomeD)
  have "?r \<in> set (get (w_db w'))"
    using r(1) unfolding w' by (auto simp: set_updateRows intro!: image_eqI [of _ _ r])
  then show "tokenUsed (hashToken E raw) (get (w_db w'))"
    using r(2) unfolding tokenUsed_def by (intro bexI [of _ ?r]) simp_all
  show "tokens_evolve (get (w_db w)) (get (w_db w'))"
    unfolding w' by (rule tokens_evolve.use)
qed

lemma redeem_fails: "redeemToken (get, upd) E raw err w = (Inl e, w') \<Longrightarrow> w' = w"
  by (auto simp: redeemToken_def monad_simps split: option.splits if_splits)

lemma store_Inr_iff:
  "storeToken (get, upd) E uid h ex w = (Inr r, w') \<longleftrightarrow>
     r = \<lparr>ot_id = e_uuid E (w_draws w), ot_userId = uid, ot_tokenHash = h,
          ot_expiresAt = ex, ot_usedAt = None\<rparr> \<and>
     (\<forall>r' \<in> set (get (w_db w)). ot_id r' \<noteq> ot_id r \<and> ot_tokenHash r' \<noteq> h) \<and>
     (\<exists>u \<in> set (users (w_db w)). u_id u = uid) \<and>
     w' = w\<lparr>w_draws := Suc (w_draws w), w_db := upd (\<lambda>rows. rows @ [r]) (w_db w)\<rparr>"
  by (auto simp: storeToken_def monad_simps split: if_splits)

lemma store_evolve:
  "storeToken (get, upd) E uid h ex w = (r, w') \<Longrightarrow>
     tokens_evolve (get (w_db w)) (get (w_db w')) \<and> users (w_db w') = users (w_db w)"
  by (auto simp: storeToken_def monad_simps get_upd users_upd intro: tokens_evolve.same
      intro!: tokens_evolve.add split: if_splits)

end

interpretation emailTok: token_table emailVerificationTokens emailVerificationTokens_update
  by unfold_locales simp_all
interpretation resetTok: token_table passwordResetTokens passwordResetTokens_update
  by unfold_locales simp_all

section \<open>Runs of the verification service\<close>

inductive verification_step :: "env \<Rightarrow> world \<Rightarrow> world \<Rightarrow> bool" for E where
  issue_email: "verification_step E w (snd (issueEmailVerificationToken E uid w))"
| consume_email: "verification_step E w (snd (consumeEmailVerificationToken E raw w))"
| issue_reset: "verification_step E w (snd (issuePasswordResetToken E uid w))"
| consume_reset: "verification_step E w (snd (consumePasswordResetToken E raw w))"
| other: "emailVerificationTokens (w_db w') = emailVerificationTokens (w_db w) \<Longrightarrow>
    passwordResetTokens (w_db w') = passwordResetTokens (w_db w) \<Longrightarrow> verification_step E w w'"

definition verificationInv :: "database \<Rightarrow> bool" where
  "verificationInv d \<longleftrightarrow> tokensDistinct (emailVerificationTokens d) \<and>
     tokensDistinct (passwordResetTokens d)"

lemma consumeReset_run:
  "consumePasswordResetToken E raw w =
     (case redeemToken passwordResetTokensT E raw invalidResetToken w of
        (Inl e, w') \<Rightarrow> (Inl e, w) | (Inr r, w') \<Rightarrow> (Inr (ot_userId r), w'))"
  by (auto simp: consumePasswordResetToken_def transaction_run bindM_run
      dest: resetTok.redeem_fails split: prod.split sum.split)

text \<open>Both tables only evolve by adding fresh rows and marking rows used.\<close>

lemma issueReset_evolves:
  "tokens_evolve\<^sup>*\<^sup>* (passwordResetTokens (w_db w))
     (passwordResetTokens (w_db (snd (issuePasswordResetToken E uid w)))) \<and>
   emailVerificationTokens (w_db (snd (issuePasswordResetToken E uid w))) = emailVerificationTokens (w_db w)"
proof -
  let ?h = "hashToken E (to_hex (e_randomBytes E (w_draws w) RESET_TOKEN_BYTES))"
    and ?ex = "w_now w + ac_passwordResetTokenTtlMs (e_auth E)"
  let ?w1 = "w_db_update (passwordResetTokens_update
      (updateRows (\<lambda>r. ot_userId r = uid \<and> ot_usedAt r = None)
        (\<lambda>r. r\<lparr>ot_usedAt := Some (w_now w)\<rparr>))) (w\<lparr>w_draws := Suc (w_draws w)\<rparr>)"
  obtain r w2 where st: "storeToken passwordResetTokensT E uid ?h ?ex ?w1 = (r, w2)" by fastforce
  have 1: "tokens_evolve (passwordResetTokens (w_db w)) (passwordResetTokens (w_db ?w1))"
    using tokens_evolve.use by simp
  have 2: "tokens_evolve (passwordResetTokens (w_db ?w1)) (passwordResetTokens (w_db w2))"
    using resetTok.store_evolve [OF st] by blast
  have 3: "emailVerificationTokens (w_db w2) = emailVerificationTokens (w_db w)"
    using st by (auto simp: storeToken_def monad_simps split: if_splits)
  have "w_db (snd (issuePasswordResetToken E uid w)) = (case r of Inl _ \<Rightarrow> w_db w | Inr _ \<Rightarrow> w_db w2)"
    using st by (simp add: issuePasswordResetToken_def monad_simps transaction_run split: sum.split)
  with 1 2 3 show ?thesis by (cases r) (auto intro: converse_rtranclp_into_rtranclp)
qed

lemma verification_step_evolves:
  assumes "verification_step E w w'"
  shows "tokens_evolve\<^sup>*\<^sup>* (emailVerificationTokens (w_db w)) (emailVerificationTokens (w_db w')) \<and>
    tokens_evolve\<^sup>*\<^sup>* (passwordResetTokens (w_db w)) (passwordResetTokens (w_db w'))"
  using assms
proof (induction rule: verification_step.induct)
  case (issue_email w uid)
  let ?h = "hashToken E (to_hex (e_randomBytes E (w_draws w) VERIFICATION_TOKEN_BYTES))"
    and ?ex = "w_now w + ac_emailVerificationTokenTtlMs (e_auth E)"
  obtain r w2 where st: "storeToken emailVerificationTokensT E uid ?h ?ex
      (w\<lparr>w_draws := Suc (w_draws w)\<rparr>) = (r, w2)" by fastforce
  have 1: "tokens_evolve (emailVerificationTokens (w_db w)) (emailVerificationTokens (w_db w2))"
    using emailTok.store_evolve [OF st] by simp
  have 2: "passwordResetTokens (w_db w2) = passwordResetTokens (w_db w)"
    using st by (auto simp: storeToken_def monad_simps split: if_splits)
  have "w_db (snd (issueEmailVerificationToken E uid w)) = w_db w2"
    using st by (simp add: issueEmailVerificationToken_def monad_simps split: sum.split)
  with 1 2 show ?case by simp
next
  case (consume_email w raw)
  show ?case
  proof (cases "redeemToken emailVerificationTokensT E raw invalidVerificationToken w")
    case (Pair r w1)
    show ?thesis
    proof (cases r)
      case (Inl e)
      with Pair show ?thesis
        by (auto simp: consumeEmailVerificationToken_def transaction_run bindM_run
            dest: emailTok.redeem_fails)
    next
      case (Inr t)
      have "tokens_evolve (emailVerificationTokens (w_db w)) (emailVerificationTokens (w_db w1))"
        using emailTok.redeem_spends Pair Inr by blast
      moreover have "passwordResetTokens (w_db w1) = passwordResetTokens (w_db w)"
        using Pair Inr by (simp add: emailTok.redeem_Inr_iff)
      ultimately show ?thesis
        using Pair Inr by (auto simp: consumeEmailVerificationToken_def transaction_run monad_simps
            split: option.split)
    qed
  qed
next
  case (issue_reset w uid)
  then show ?case using issueReset_evolves by simp
next
  case (consume_reset w raw)
  show ?case
  proof (cases "redeemToken passwordResetTokensT E raw invalidResetToken w")
    case (Pair r w1)
    show ?thesis
    proof (cases r)
      case (Inl e)
      then show ?thesis by (simp add: consumeReset_run Pair)
    next
      case (Inr t)
      have "tokens_evolve (passwordResetTokens (w_db w)) (passwordResetTokens (w_db w1))"
        using resetTok.redeem_spends Pair Inr by blast
      moreover have "emailVerificationTokens (w_db w1) = emailVerificationTokens (w_db w)"
        using Pair Inr by (simp add: resetTok.redeem_Inr_iff)
      ultimately show ?thesis using Inr by (simp add: consumeReset_run Pair)
    qed
  qed
qed simp

lemma verification_step_inv:
  "verification_step E w w' \<Longrightarrow> verificationInv (w_db w) \<Longrightarrow> verificationInv (w_db w')"
  using verification_step_evolves tokens_evolve_steps(1) unfolding verificationInv_def by blast

interpretation resetOnce: single_use
  "\<lambda>raw (_::unit). consumePasswordResetToken E raw"
  "\<lambda>raw w. tokenUsed (hashToken E raw) (passwordResetTokens (w_db w))"
  "\<lambda>w. verificationInv (w_db w)"
  "verification_step E"
  for E :: env
proof (unfold_locales, goal_cases)
  case (1 w raw u)
  then show ?case using verification_step.consume_reset verification_step_inv by blast
next
  case (2 w raw u x w')
  then obtain r where "redeemToken passwordResetTokensT E raw invalidResetToken w = (Inr r, w')"
    by (auto simp: consumeReset_run split: prod.splits sum.splits)
  then show ?case by (rule resetTok.redeem_spends(1))
next
  case (3 w raw u)
  then show ?case by (simp add: consumeReset_run resetTok.redeem_used verificationInv_def)
next
  case (4 w w')
  then show ?case using verification_step_inv by blast
next
  case (5 w w' raw)
  then show ?case using verification_step_evolves tokens_evolve_steps(2) by blast
qed

interpretation emailOnce: single_use
  "\<lambda>raw (_::unit). consumeEmailVerificationToken E raw"
  "\<lambda>raw w. tokenUsed (hashToken E raw) (emailVerificationTokens (w_db w))"
  "\<lambda>w. verificationInv (w_db w)"
  "verification_step E"
  for E :: env
proof (unfold_locales, goal_cases)
  case (1 w raw u)
  then show ?case using verification_step.consume_email verification_step_inv by blast
next
  case (2 w raw u x w')
  then obtain r w1 where
    "redeemToken emailVerificationTokensT E raw invalidVerificationToken w = (Inr r, w1)"
    "emailVerificationTokens (w_db w') = emailVerificationTokens (w_db w1)"
    by (auto simp: consumeEmailVerificationToken_def transaction_Inr_iff success_iffs
        usersI.update_Inr_iff)
  then show ?case using emailTok.redeem_spends(1) by metis
next
  case (3 w raw u)
  then show ?case
    by (simp add: consumeEmailVerificationToken_def transaction_run bindM_run
        emailTok.redeem_used verificationInv_def)
next
  case (4 w w')
  then show ?case using verification_step_inv by blast
next
  case (5 w w' raw)
  then show ?case using verification_step_evolves tokens_evolve_steps(2) by blast
qed

section \<open>Properties\<close>

definition afterResetIssue :: world where
  "afterResetIssue = snd (issuePasswordResetToken sampleEnv ''alice'' sampleWorld)"

definition resetToken1 :: string where
  "resetToken1 = it_rawToken (projr (fst (issuePasswordResetToken sampleEnv ''alice'' sampleWorld)))"

definition afterResetUse :: world where
  "afterResetUse = snd (consumePasswordResetToken sampleEnv resetToken1 afterResetIssue)"

lemma verificationInv_samples: "verificationInv (w_db sampleWorld)" "verificationInv (w_db afterResetIssue)"
proof -
  show "verificationInv (w_db sampleWorld)"
    by (simp add: verificationInv_def tokensDistinct_def sampleWorld_def worldOf_def emptyDb_def)
  then show "verificationInv (w_db afterResetIssue)"
    unfolding afterResetIssue_def using verification_step_inv verification_step.issue_reset by blast
qed

text \<open>
  A password reset token works once: after it was accepted it is refused with
  \<open>INVALID_RESET_TOKEN\<close>, and nothing written, whatever the service does in between.
\<close>

theorem reset_token_works_once:
  assumes "verificationInv (w_db w)"
    and "consumePasswordResetToken E raw w = (Inr uid, w1)"
    and "(verification_step E)\<^sup>*\<^sup>* w1 w2"
  shows "consumePasswordResetToken E raw w2 = (Inl invalidResetToken, w2)"
proof -
  have "verificationInv (w_db w2) \<and> tokenUsed (hashToken E raw) (passwordResetTokens (w_db w2))"
    using resetOnce.used_stays_spent [OF assms] .
  then show ?thesis by (simp add: consumeReset_run resetTok.redeem_used verificationInv_def)
qed

theorem reset_token_works_once_witness:
  "consumePasswordResetToken sampleEnv resetToken1 afterResetUse =
     (Inl invalidResetToken, afterResetUse)"
proof (rule reset_token_works_once [OF verificationInv_samples(2)])
  have "fst (consumePasswordResetToken sampleEnv resetToken1 afterResetIssue) = Inr ''alice''"
    by code_simp
  then show "consumePasswordResetToken sampleEnv resetToken1 afterResetIssue = (Inr ''alice'', afterResetUse)"
    unfolding afterResetUse_def by (metis prod.collapse)
qed simp

lemma issueReset_uses_old:
  assumes "issuePasswordResetToken E uid w = (Inr it, w1)"
    and "r \<in> set (passwordResetTokens (w_db w))" "ot_userId r = uid"
  shows "tokenUsed (ot_tokenHash r) (passwordResetTokens (w_db w1))"
proof -
  let ?rows = "updateRows (\<lambda>r. ot_userId r = uid \<and> ot_usedAt r = None)
        (\<lambda>r. r\<lparr>ot_usedAt := Some (w_now w)\<rparr>) (passwordResetTokens (w_db w))"
  obtain t where "passwordResetTokens (w_db w1) = ?rows @ [t]"
    using assms(1) unfolding issuePasswordResetToken_def
    by (auto simp: success_iffs generateSecureToken_run transaction_Inr_iff dbUpdateMany_run
        resetTok.store_Inr_iff)
  moreover have "tokenUsed (ot_tokenHash r) ?rows"
  proof -
    let ?r = "if ot_userId r = uid \<and> ot_usedAt r = None then r\<lparr>ot_usedAt := Some (w_now w)\<rparr> else r"
    have "?r \<in> set ?rows" using assms(2) by (simp add: set_updateRows)
    moreover have "ot_tokenHash ?r = ot_tokenHash r \<and> ot_usedAt ?r \<noteq> None"
      using assms(3) by auto
    ultimately show ?thesis unfolding tokenUsed_def by blast
  qed
  ultimately show ?thesis by (auto simp: tokenUsed_def)
qed

text \<open>
  Asking for a new reset link kills every earlier link of the user: a token of the user
  that was stored before is refused in every later state.
\<close>

theorem new_reset_link_kills_old_ones:
  assumes "verificationInv (w_db w)"
    and "issuePasswordResetToken E uid w = (Inr it, w1)"
    and "r \<in> set (passwordResetTokens (w_db w))" "ot_userId r = uid"
    and "ot_tokenHash r = hashToken E raw"
    and "(verification_step E)\<^sup>*\<^sup>* w1 w2"
  shows "consumePasswordResetToken E raw w2 = (Inl invalidResetToken, w2)"
proof -
  have "verification_step E w w1"
    using verification_step.issue_reset [of E w uid] assms(2) by simp
  then have "verificationInv (w_db w1)" using assms(1) by (rule verification_step_inv)
  moreover have "tokenUsed (hashToken E raw) (passwordResetTokens (w_db w1))"
    using issueReset_uses_old [OF assms(2-4)] assms(5) by simp
  ultimately have "verificationInv (w_db w2) \<and> tokenUsed (hashToken E raw) (passwordResetTokens (w_db w2))"
    by (rule resetOnce.spent_stays [OF assms(6)])
  then show ?thesis by (simp add: consumeReset_run resetTok.redeem_used verificationInv_def)
qed

theorem new_reset_link_kills_old_ones_witness:
  "consumePasswordResetToken sampleEnv resetToken1
     (snd (issuePasswordResetToken sampleEnv ''alice'' afterResetIssue)) =
   (Inl invalidResetToken, snd (issuePasswordResetToken sampleEnv ''alice'' afterResetIssue))"
proof -
  let ?r = "hd (passwordResetTokens (w_db afterResetIssue))"
    and ?run = "issuePasswordResetToken sampleEnv ''alice'' afterResetIssue"
  have r: "?r \<in> set (passwordResetTokens (w_db afterResetIssue))" "ot_userId ?r = ''alice''"
    "ot_tokenHash ?r = hashToken sampleEnv resetToken1" by code_simp+
  have "\<not> isl (fst ?run)" by code_simp
  then have run: "?run = (Inr (projr (fst ?run)), snd ?run)" by (metis prod.collapse sum.collapse(2))
  show ?thesis by (rule new_reset_link_kills_old_ones [OF verificationInv_samples(2) run r]) simp
qed

end
