(* ===== verification/Passwords.thy ===== *)
theory Passwords
  imports Storage
begin

text \<open>
  Passwords: \<open>modules/auth/utils/password-policy.util.ts\<close> and
  \<open>modules/auth/services/password.service.ts\<close>.
\<close>

record PasswordPolicyResult =
  pr_valid :: bool
  pr_errors :: "string list"

text \<open>The character classes of the policy's regular expressions.\<close>

definition inRange :: "nat \<Rightarrow> nat \<Rightarrow> char \<Rightarrow> bool" where
  "inRange a b c \<longleftrightarrow> a \<le> of_char c \<and> (of_char c :: nat) \<le> b"

definition SPECIAL_CHARS :: "char list" where
  "SPECIAL_CHARS = ''!@#$%^&*()_-+=[]{};:,.<>/?|~'' @ [CHR 0x27, CHR 0x22, CHR 0x5C, CHR 0x60]"

definition evaluatePassword :: "string \<Rightarrow> PasswordPolicyConfig \<Rightarrow> PasswordPolicyResult" where
  "evaluatePassword password policy =
     (let errors =
        (if length password < pw_minLength policy
         then [''Password must be at least '' @ show_nat (pw_minLength policy) @ '' characters''] else []) @
        (if pw_requireUppercase policy \<and> \<not> list_ex (inRange 65 90) password
         then [''Password must contain at least one uppercase letter''] else []) @
        (if pw_requireLowercase policy \<and> \<not> list_ex (inRange 97 122) password
         then [''Password must contain at least one lowercase letter''] else []) @
        (if pw_requireNumber policy \<and> \<not> list_ex (inRange 48 57) password
         then [''Password must contain at least one number''] else []) @
        (if pw_requireSpecial policy \<and> \<not> list_ex (\<lambda>c. c \<in> set SPECIAL_CHARS) password
         then [''Password must contain at least one special character''] else [])
      in \<lparr>pr_valid = (errors = []), pr_errors = errors\<rparr>)"

definition hashPassword :: "env \<Rightarrow> string \<Rightarrow> string act" where
  "hashPassword E plain =
     bindM drawM (\<lambda>n. returnM (e_bcryptHash E n (ac_bcryptSaltRounds (e_auth E)) plain))"

definition comparePassword :: "env \<Rightarrow> string \<Rightarrow> string \<Rightarrow> bool act" where
  "comparePassword E plain hashed = returnM (e_bcryptCompare E plain hashed)"

definition weakPassword :: "env \<Rightarrow> string \<Rightarrow> exn" where
  "weakPassword E password = ValidationAppException
     (map (\<lambda>msg. \<lparr>ed_field = Some ''password'', ed_code = Some ''WEAK_PASSWORD'', ed_message = msg\<rparr>)
        (pr_errors (evaluatePassword password (ac_passwordPolicy (e_auth E)))))
     ''Password does not meet the security policy''"

definition enforcePolicy :: "env \<Rightarrow> string \<Rightarrow> unit act" where
  "enforcePolicy E password =
     throw_if (\<not> pr_valid (evaluatePassword password (ac_passwordPolicy (e_auth E))))
       (weakPassword E password)"

text \<open>What the policy means.\<close>

definition strongPassword :: "PasswordPolicyConfig \<Rightarrow> string \<Rightarrow> bool" where
  "strongPassword policy p \<longleftrightarrow> pw_minLength policy \<le> length p \<and>
     (pw_requireUppercase policy \<longrightarrow> (\<exists>c \<in> set p. inRange 65 90 c)) \<and>
     (pw_requireLowercase policy \<longrightarrow> (\<exists>c \<in> set p. inRange 97 122 c)) \<and>
     (pw_requireNumber policy \<longrightarrow> (\<exists>c \<in> set p. inRange 48 57 c)) \<and>
     (pw_requireSpecial policy \<longrightarrow> (\<exists>c \<in> set p. c \<in> set SPECIAL_CHARS))"

lemma evaluatePassword_valid_iff:
  "pr_valid (evaluatePassword p policy) \<longleftrightarrow> strongPassword policy p"
  by (auto simp: evaluatePassword_def strongPassword_def Let_def list_ex_iff not_less)

lemma evaluatePassword_errors_iff:
  "pr_errors (evaluatePassword p policy) = [] \<longleftrightarrow> pr_valid (evaluatePassword p policy)"
  by (simp add: evaluatePassword_def Let_def)

lemma enforcePolicy_run [monad_simps]:
  "enforcePolicy E p w = (if strongPassword (ac_passwordPolicy (e_auth E)) p
     then Inr () else Inl (weakPassword E p), w)"
  by (simp add: enforcePolicy_def throw_if_run evaluatePassword_valid_iff)

lemma hashPassword_run [monad_simps]:
  "hashPassword E p w = (Inr (e_bcryptHash E (w_draws w) (ac_bcryptSaltRounds (e_auth E)) p),
     w\<lparr>w_draws := Suc (w_draws w)\<rparr>)"
  by (simp add: hashPassword_def monad_simps)

lemma comparePassword_run [monad_simps]:
  "comparePassword E p h w = (Inr (e_bcryptCompare E p h), w)"
  by (simp add: comparePassword_def)

lemma keeps_passwords [keeps_intros]:
  "keeps I (enforcePolicy E p)" "keeps I (comparePassword E p h)"
  "keeps (dbInv J) (hashPassword E p)"
  by (simp_all add: keeps_def dbInv_def monad_simps)

text \<open>A longer password that contains an accepted one is accepted.\<close>

lemma strongPassword_extend: "strongPassword policy p \<Longrightarrow> strongPassword policy (a @ p @ b)"
  by (auto simp: strongPassword_def)

end
