(* ===== verification/ActiveContext.thy ===== *)
theory ActiveContext
  imports Storage
begin

text \<open>
  The organization a token speaks for:
  \<open>modules/auth/services/active-context.service.ts\<close>, with the joins of its queries.
\<close>

record ActiveOrgContext =
  cx_organizationId :: "string option"
  cx_membershipId :: "string option"
  cx_roles :: "string list"
  cx_permissionsVersion :: int
  cx_attributesVersion :: int

text \<open>\<open>organization: { deletedAt: null, status: ACTIVE }\<close>.\<close>

definition orgActive :: "database \<Rightarrow> string \<Rightarrow> bool" where
  "orgActive d oid \<longleftrightarrow> (\<exists>ob \<in> set (organizations d).
     o_id ob = oid \<and> o_deletedAt ob = None \<and> o_status ob = OrgActive)"

text \<open>\<open>include: { userRoles: { include: { role: true } } }\<close>.\<close>

definition rolesOfMembership :: "database \<Rightarrow> string \<Rightarrow> Role list" where
  "rolesOfMembership d mid =
     concat (map (\<lambda>ur. findMany (\<lambda>r. r_id r = ur_roleId ur) (roles d))
       (findMany (\<lambda>ur. ur_membershipId ur = mid) (userRoles d)))"

definition fromMembership :: "database \<Rightarrow> Membership \<Rightarrow> ActiveOrgContext" where
  "fromMembership d m =
     \<lparr>cx_organizationId = Some (m_organizationId m), cx_membershipId = Some (m_id m),
      cx_roles = map r_slug (filter (\<lambda>r. r_deletedAt r = None) (rolesOfMembership d (m_id m))),
      cx_permissionsVersion = m_permissionsVersion m,
      cx_attributesVersion = m_attributesVersion m\<rparr>"

definition emptyContext :: ActiveOrgContext where
  "emptyContext = \<lparr>cx_organizationId = None, cx_membershipId = None, cx_roles = [],
      cx_permissionsVersion = 0, cx_attributesVersion = 0\<rparr>"

definition usableMembership :: "database \<Rightarrow> string \<Rightarrow> Membership \<Rightarrow> bool" where
  "usableMembership d userId m \<longleftrightarrow> m_userId m = userId \<and> m_deletedAt m = None \<and>
     m_status m = MemberActive \<and> orgActive d (m_organizationId m)"

definition resolveDefault :: "string \<Rightarrow> ActiveOrgContext act" where
  "resolveDefault userId = getsM (\<lambda>w.
     case findFirst (usableMembership (w_db w) userId) (sort_key m_joinedAt (memberships (w_db w))) of
       None \<Rightarrow> emptyContext
     | Some m \<Rightarrow> fromMembership (w_db w) m)"

definition resolveForOrganization :: "string \<Rightarrow> string \<Rightarrow> (ActiveOrgContext option) act" where
  "resolveForOrganization userId organizationId = getsM (\<lambda>w.
     map_option (fromMembership (w_db w))
       (findFirst (\<lambda>m. usableMembership (w_db w) userId m \<and> m_organizationId m = organizationId)
          (memberships (w_db w))))"

lemma keeps_resolve [keeps_intros]:
  "keeps I (resolveDefault u)" "keeps I (resolveForOrganization u oid)"
  by (simp_all add: keeps_def resolveDefault_def resolveForOrganization_def)

text \<open>The default context is the oldest usable membership.\<close>

lemma findFirst_sort_key_least:
  assumes "findFirst p (sort_key f xs) = Some x" and "y \<in> set xs" and "p y"
  shows "f x \<le> (f y :: int)"
proof -
  obtain i where i: "i < length (sort_key f xs)" "p (sort_key f xs ! i)" "x = sort_key f xs ! i"
    and least: "\<forall>j < i. \<not> p (sort_key f xs ! j)"
    using assms(1) by (auto simp: findFirst_def find_Some_iff)
  from assms(2) obtain j where j: "j < length (sort_key f xs)" "y = sort_key f xs ! j"
    by (metis in_set_conv_nth set_sort)
  then have "i \<le> j" using least assms(3) by (metis not_le)
  then show ?thesis
    using i j sorted_sort_key [of f xs] by (simp add: sorted_iff_nth_mono)
qed

lemma resolveDefault_oldest:
  assumes "resolveDefault uid w = (Inr c, w')" and "cx_membershipId c = Some mid"
  obtains m where "m \<in> set (memberships (w_db w))" "m_id m = mid" "usableMembership (w_db w) uid m"
    "c = fromMembership (w_db w) m"
    "\<And>m'. m' \<in> set (memberships (w_db w)) \<Longrightarrow> usableMembership (w_db w) uid m' \<Longrightarrow>
       m_joinedAt m \<le> m_joinedAt m'"
proof -
  from assms obtain m where m:
    "findFirst (usableMembership (w_db w) uid) (sort_key m_joinedAt (memberships (w_db w))) = Some m"
    "c = fromMembership (w_db w) m"
    by (auto simp: resolveDefault_def emptyContext_def split: option.splits)
  have "m \<in> set (memberships (w_db w)) \<and> usableMembership (w_db w) uid m"
    using findFirst_SomeD [OF m(1)] by simp
  moreover have "m_id m = mid" using assms(2) m(2) by (simp add: fromMembership_def)
  moreover have "\<And>m'. m' \<in> set (memberships (w_db w)) \<Longrightarrow> usableMembership (w_db w) uid m' \<Longrightarrow>
       m_joinedAt m \<le> m_joinedAt m'"
    by (rule findFirst_sort_key_least [OF m(1)])
  ultimately show thesis using m(2) that by blast
qed

end
