(* ===== verification/Auth.thy ===== *)
theory Auth
  imports SessionLaws Verification Passwords ActiveContext
begin

text \<open>
  \<open>modules/auth/services/auth.service.ts\<close>, with the login hooks of
  \<open>modules/auth/services/login-hooks.service.ts\<close> and the token signing of
  \<open>modules/auth/services/token.service.ts\<close>.
\<close>

section \<open>Login hooks\<close>

record MfaChallengeRequired =
  mr_challengeToken :: string
  mr_challengeExpiresAt :: int
  mr_allowedMethods :: "string list"

record SsoCheck =
  so_blocked :: bool
  so_reason :: "string option"

record LoginHooks =
  lh_mfaHook :: "(User \<Rightarrow> LoginMetadata \<Rightarrow> (MfaChallengeRequired option) act) option"
  lh_ssoEnforcement :: "(User \<Rightarrow> SsoCheck act) option"

definition checkSsoEnforcement :: "LoginHooks \<Rightarrow> User \<Rightarrow> SsoCheck act" where
  "checkSsoEnforcement H user =
     (case lh_ssoEnforcement H of
        None \<Rightarrow> returnM \<lparr>so_blocked = False, so_reason = None\<rparr>
      | Some hook \<Rightarrow> hook user)"

definition checkMfa ::
  "LoginHooks \<Rightarrow> User \<Rightarrow> LoginMetadata \<Rightarrow> (MfaChallengeRequired option) act" where
  "checkMfa H user meta =
     (case lh_mfaHook H of None \<Rightarrow> returnM None | Some hook \<Rightarrow> hook user meta)"

section \<open>Types of the service\<close>

record SafeUser =
  su_id :: string
  su_email :: string
  su_firstName :: "string option"
  su_lastName :: "string option"
  su_status :: UserStatus
  su_isEmailVerified :: bool
  su_tokenVersion :: int
  su_failedLoginAttempts :: int
  su_lockUntil :: "int option"
  su_lastLoginAt :: "int option"
  su_createdAt :: int
  su_deletedAt :: "int option"

record TokenPair =
  tp_accessToken :: string
  tp_refreshToken :: string
  tp_accessTokenExpiresAt :: int
  tp_refreshTokenExpiresAt :: int

record RegisterInput =
  ri_email :: string
  ri_password :: string
  ri_firstName :: "string option"
  ri_lastName :: "string option"

record RegisterResult =
  rr_user :: SafeUser
  rr_emailVerificationToken :: string
  rr_emailVerificationExpiresAt :: int

record LoginResult =
  lr_user :: SafeUser
  lr_tokens :: TokenPair
  lr_sessionId :: string

datatype LoginOutcome = LoggedIn LoginResult | MfaRequired MfaChallengeRequired

record ChangePasswordInput =
  ci_userId :: string
  ci_currentPassword :: string
  ci_newPassword :: string
  ci_revokeOtherSessions :: bool
  ci_currentSessionId :: string

section \<open>Helpers\<close>

definition stripSecrets :: "User \<Rightarrow> SafeUser" where
  "stripSecrets u =
     \<lparr>su_id = u_id u, su_email = u_email u, su_firstName = u_firstName u,
      su_lastName = u_lastName u, su_status = u_status u,
      su_isEmailVerified = u_isEmailVerified u, su_tokenVersion = u_tokenVersion u,
      su_failedLoginAttempts = u_failedLoginAttempts u, su_lockUntil = u_lockUntil u,
      su_lastLoginAt = u_lastLoginAt u, su_createdAt = u_createdAt u,
      su_deletedAt = u_deletedAt u\<rparr>"

definition emailTaken :: exn where
  "emailTaken = appExn ''EMAIL_ALREADY_REGISTERED'' ''Email is already registered'' 409"

definition invalidCredentials :: exn where
  "invalidCredentials = appExn ''INVALID_CREDENTIALS'' ''Invalid email or password'' 401"

definition accountLocked :: exn where
  "accountLocked =
     appExn ''ACCOUNT_LOCKED'' ''Account is temporarily locked. Try again later.'' 423"

definition accountInactive :: exn where
  "accountInactive = appExn ''ACCOUNT_INACTIVE'' ''Account is not active'' 403"

definition ssoOnlyEnforced :: "string option \<Rightarrow> exn" where
  "ssoOnlyEnforced reason = appExn ''SSO_ONLY_ENFORCED''
     (orDefault reason
        ''Your organization requires SSO login. Please use the SSO portal to sign in.'') 403"

definition noActiveMembership :: exn where
  "noActiveMembership =
     appExn ''ORG_MEMBERSHIP_NOT_FOUND'' ''Active membership not found for organization'' 403"

definition recentlyUsed :: "int \<Rightarrow> exn" where
  "recentlyUsed limit = appExn ''PASSWORD_RECENTLY_USED''
     (''Password matches one of the last '' @ show_nat (nat limit) @ '' passwords'') 400"

definition isLocked :: "int \<Rightarrow> User \<Rightarrow> bool" where
  "isLocked now u = (case u_lockUntil u of None \<Rightarrow> False | Some t \<Rightarrow> now < t)"

definition buildAccessPayload :: "User \<Rightarrow> string \<Rightarrow> ActiveOrgContext \<Rightarrow> JwtAccessPayload" where
  "buildAccessPayload user sessionId ctx =
     \<lparr>jp_sub = u_id user, jp_email = u_email user, jp_sessionId = sessionId,
      jp_tokenVersion = u_tokenVersion user, jp_organizationId = cx_organizationId ctx,
      jp_membershipId = cx_membershipId ctx, jp_roles = cx_roles ctx,
      jp_permissionsVersion = cx_permissionsVersion ctx,
      jp_attributesVersion = cx_attributesVersion ctx\<rparr>"

definition signAccessToken :: "env \<Rightarrow> JwtAccessPayload \<Rightarrow> string act" where
  "signAccessToken E payload = bindM nowM (\<lambda>now. returnM (e_jwtSign E now payload))"

definition computeAccessTokenExpiry :: "int \<Rightarrow> int" where
  "computeAccessTokenExpiry now = now + 15 * 60 * 1000"

definition enqueueVerifyEmail :: "env \<Rightarrow> User \<Rightarrow> string \<Rightarrow> int \<Rightarrow> unit act" where
  "enqueueVerifyEmail E user rawToken expiresAt =
     enqueue (EmailJob (VerifyEmailJob (u_email user) (u_firstName user)
       (e_appUrl E @ ''/auth/verify-email?token='' @ e_encodeURIComponent E rawToken)
       (e_toISOString E expiresAt)))"

definition enqueueResetPassword :: "env \<Rightarrow> User \<Rightarrow> string \<Rightarrow> int \<Rightarrow> unit act" where
  "enqueueResetPassword E user rawToken expiresAt =
     enqueue (EmailJob (ResetPasswordJob (u_email user) (u_firstName user)
       (e_appUrl E @ ''/auth/reset-password?token='' @ e_encodeURIComponent E rawToken)
       (e_toISOString E expiresAt)))"

definition enqueuePasswordChanged :: "env \<Rightarrow> User \<Rightarrow> unit act" where
  "enqueuePasswordChanged E user =
     bindM (getsM w_ctx) (\<lambda>ctx.
     bindM nowM (\<lambda>now.
     enqueue (EmailJob (PasswordChangedJob (u_email user) (u_firstName user)
       (case ctx of None \<Rightarrow> None | Some c \<Rightarrow> rc_ip c)
       (case ctx of None \<Rightarrow> None | Some c \<Rightarrow> rc_userAgent c)
       (e_toISOString E now)))))"

text \<open>Findings in the password history: newest first.\<close>

definition historyOf :: "string \<Rightarrow> database \<Rightarrow> PasswordHistory list" where
  "historyOf userId d =
     sort_key (\<lambda>h. - ph_createdAt h) (findMany (\<lambda>h. ph_userId h = userId) (passwordHistory d))"

definition ensureNotRecentlyUsed :: "env \<Rightarrow> string \<Rightarrow> string \<Rightarrow> unit act" where
  "ensureNotRecentlyUsed E userId newPassword =
     (let limit = pw_historyLimit (ac_passwordPolicy (e_auth E)) in
      if limit \<le> 0 then returnM ()
      else bindM (getsM (\<lambda>w. take (nat limit) (historyOf userId (w_db w)))) (\<lambda>history.
           forM history (\<lambda>entry.
             bindM (comparePassword E newPassword (ph_passwordHash entry)) (\<lambda>m.
             throw_if m (recentlyUsed limit)))))"

definition trimPasswordHistory :: "env \<Rightarrow> string \<Rightarrow> unit act" where
  "trimPasswordHistory E userId =
     (let limit = pw_historyLimit (ac_passwordPolicy (e_auth E)) in
      if limit \<le> 0 then returnM ()
      else bindM (getsM (\<lambda>w. drop (nat limit) (historyOf userId (w_db w)))) (\<lambda>old.
           whenM (old \<noteq> [])
             (bindM (dbDeleteMany passwordHistoryT (\<lambda>h. ph_id h \<in> set (map ph_id old)))
                (\<lambda>_. returnM ()))))"

definition createHistoryEntry :: "env \<Rightarrow> string \<Rightarrow> string \<Rightarrow> unit act" where
  "createHistoryEntry E userId passwordHash =
     bindM (newId E) (\<lambda>hid.
     bindM nowM (\<lambda>now.
     thenM (dbCreate passwordHistoryT [] (\<lambda>h. ph_id h = hid)
              (\<lambda>d. \<exists>u \<in> set (users d). u_id u = userId)
              \<lparr>ph_id = hid, ph_userId = userId, ph_passwordHash = passwordHash,
               ph_createdAt = now\<rparr>)
     (returnM ())))"

definition handleFailedLogin :: "env \<Rightarrow> User \<Rightarrow> unit act" where
  "handleFailedLogin E user =
     (let attempts = u_failedLoginAttempts user + 1;
          shouldLock = (ac_maxLoginAttempts (e_auth E) \<le> attempts)
      in
      bindM nowM (\<lambda>now.
      thenM (dbUpdate usersT (\<lambda>u. u_id u = u_id user)
               (\<lambda>u. u\<lparr>u_failedLoginAttempts := attempts,
                      u_lockUntil := (if shouldLock then Some (now + ac_lockDurationMs (e_auth E)) else None),
                      u_status := (if shouldLock then UserLocked else u_status user)\<rparr>))
      (auditRecord E LOGIN_FAILURE AR_USER
         (auditFail (Some (u_id user)) (Some (u_id user)) (Some (u_email user))
            [(''attempts'', JNum (Fin (of_int attempts))), (''locked'', JBool shouldLock)]))))"

section \<open>Registration and login\<close>

definition registerUser :: "env \<Rightarrow> RegisterInput \<Rightarrow> RegisterResult act" where
  "registerUser E input =
     (let email = normalizeEmail (ri_email input) in
      thenM (enforcePolicy E (ri_password input))
      (bindM (dbFind usersT (\<lambda>u. u_email u = email)) (\<lambda>existing.
       thenM (throw_if (existing \<noteq> None) emailTaken)
       (bindM (hashPassword E (ri_password input)) (\<lambda>passwordHash.
        bindM (transaction
          (bindM (newId E) (\<lambda>uid.
           bindM nowM (\<lambda>now.
           bindM (dbCreate usersT [''email''] (\<lambda>u. u_id u = uid \<or> u_email u = email) (\<lambda>_. True)
                    \<lparr>u_id = uid, u_email = email, u_passwordHash = passwordHash,
                     u_firstName = ri_firstName input, u_lastName = ri_lastName input,
                     u_status = UserActive, u_isEmailVerified = False, u_tokenVersion = 0,
                     u_failedLoginAttempts = 0, u_lockUntil = None, u_lastLoginAt = None,
                     u_createdAt = now, u_deletedAt = None\<rparr>) (\<lambda>created.
           thenM (createHistoryEntry E (u_id created) passwordHash)
           (bindM (issueEmailVerificationToken E (u_id created)) (\<lambda>issued.
            returnM (created, issued)))))))) (\<lambda>(user, token).
        thenM (auditRecord E TOKEN_ISSUED AR_USER
                 (auditOk (Some (u_id user)) None None [(''kind'', JStr ''email_verification'')]))
        (thenM (enqueueVerifyEmail E user (it_rawToken token) (it_expiresAt token))
        (returnM \<lparr>rr_user = stripSecrets user, rr_emailVerificationToken = it_rawToken token,
                  rr_emailVerificationExpiresAt = it_expiresAt token\<rparr>))))))))"

definition verifyEmail :: "env \<Rightarrow> string \<Rightarrow> string act" where
  "verifyEmail E token = consumeEmailVerificationToken E token"

text \<open>The part of \<open>login\<close> after the password and the second factor were accepted.\<close>

definition completeLogin :: "env \<Rightarrow> User \<Rightarrow> LoginMetadata \<Rightarrow> LoginOutcome act" where
  "completeLogin E user meta =
     bindM (transaction
       (bindM nowM (\<lambda>now.
        thenM (dbUpdate usersT (\<lambda>u. u_id u = u_id user)
                 (\<lambda>u. u\<lparr>u_failedLoginAttempts := 0, u_lockUntil := None,
                        u_lastLoginAt := Some now\<rparr>))
        (createSession E (u_id user) meta)))) (\<lambda>created.
     bindM (resolveDefault (u_id user)) (\<lambda>orgCtx.
     bindM (signAccessToken E (buildAccessPayload user (s_id (cs_session created)) orgCtx)) (\<lambda>accessToken.
     thenM (auditRecord E LOGIN_SUCCESS AR_SESSION
              (auditOk (Some (s_id (cs_session created))) (Some (u_id user)) (Some (u_email user)) []))
     (bindM nowM (\<lambda>now.
     returnM (LoggedIn
       \<lparr>lr_user = stripSecrets user,
        lr_tokens = \<lparr>tp_accessToken = accessToken, tp_refreshToken = cs_refreshToken created,
          tp_accessTokenExpiresAt = computeAccessTokenExpiry now,
          tp_refreshTokenExpiresAt = cs_refreshTokenExpiresAt created\<rparr>,
        lr_sessionId = s_id (cs_session created)\<rparr>))))))"

definition login :: "env \<Rightarrow> LoginHooks \<Rightarrow> string \<Rightarrow> string \<Rightarrow> LoginMetadata \<Rightarrow> LoginOutcome act" where
  "login E H email password meta =
     bindM (dbFind usersT (\<lambda>u. u_email u = normalizeEmail email)) (\<lambda>row.
     bindM (orThrow row invalidCredentials) (\<lambda>user.
     thenM (throw_if (u_deletedAt user \<noteq> None) invalidCredentials)
     (bindM nowM (\<lambda>now.
     thenM (throw_if (u_status user = UserLocked \<or> isLocked now user) accountLocked)
     (thenM (throw_if (u_status user = UserInactive \<or> u_status user = UserSuspended) accountInactive)
     (bindM (checkSsoEnforcement H user) (\<lambda>ssoCheck.
     thenM (whenM (so_blocked ssoCheck)
       (thenM (auditRecord E LOGIN_FAILURE AR_USER
                 (auditFail (Some (u_id user)) (Some (u_id user)) (Some (u_email user))
                    [(''reason'', JStr (orDefault (so_reason ssoCheck) ''sso_only_enforced''))]))
        (throwM (ssoOnlyEnforced (so_reason ssoCheck)))))
     (bindM (comparePassword E password (u_passwordHash user)) (\<lambda>matches.
     thenM (whenM (\<not> matches) (thenM (handleFailedLogin E user) (throwM invalidCredentials)))
     (bindM (checkMfa H user meta) (\<lambda>mfaChallenge.
     case mfaChallenge of
       Some challenge \<Rightarrow>
         thenM (dbUpdate usersT (\<lambda>u. u_id u = u_id user)
                  (\<lambda>u. u\<lparr>u_failedLoginAttempts := 0, u_lockUntil := None\<rparr>))
         (returnM (MfaRequired challenge))
     | None \<Rightarrow> completeLogin E user meta)))))))))))"

section \<open>Refreshing, switching, logging out\<close>

definition refreshTokenPair :: "env \<Rightarrow> string \<Rightarrow> LoginMetadata \<Rightarrow> TokenPair act" where
  "refreshTokenPair E refreshToken meta =
     bindM (rotateRefreshToken E refreshToken meta) (\<lambda>rotated.
     bindM (dbFind usersT (\<lambda>u. u_id u = s_userId (cs_session rotated))) (\<lambda>row.
     bindM (orThrow row accountInactive) (\<lambda>user.
     thenM (throw_if (u_deletedAt user \<noteq> None \<or> u_status user \<noteq> UserActive) accountInactive)
     (bindM (resolveDefault (u_id user)) (\<lambda>orgCtx.
     bindM (signAccessToken E (buildAccessPayload user (s_id (cs_session rotated)) orgCtx)) (\<lambda>accessToken.
     bindM nowM (\<lambda>now.
     returnM \<lparr>tp_accessToken = accessToken, tp_refreshToken = cs_refreshToken rotated,
              tp_accessTokenExpiresAt = computeAccessTokenExpiry now,
              tp_refreshTokenExpiresAt = cs_refreshTokenExpiresAt rotated\<rparr>)))))))"

definition switchOrganization :: "env \<Rightarrow> string \<Rightarrow> string \<Rightarrow> string \<Rightarrow> (string \<times> int) act" where
  "switchOrganization E userId sessionId organizationId =
     bindM (dbFind usersT (\<lambda>u. u_id u = userId)) (\<lambda>row.
     bindM (orThrow row accountInactive) (\<lambda>user.
     thenM (throw_if (u_deletedAt user \<noteq> None \<or> u_status user \<noteq> UserActive) accountInactive)
     (bindM (resolveForOrganization userId organizationId) (\<lambda>orgCtx.
     bindM (orThrow orgCtx noActiveMembership) (\<lambda>ctx.
     bindM (signAccessToken E (buildAccessPayload user sessionId ctx)) (\<lambda>accessToken.
     bindM nowM (\<lambda>now.
     returnM (accessToken, computeAccessTokenExpiry now))))))))"

definition logout :: "env \<Rightarrow> string \<Rightarrow> string \<Rightarrow> unit act" where
  "logout E userId sessionId =
     thenM (revokeSession sessionId userId)
     (auditRecord E LOGOUT AR_SESSION (auditOk (Some sessionId) (Some userId) None []))"

definition logoutAll :: "env \<Rightarrow> string \<Rightarrow> string option \<Rightarrow> unit act" where
  "logoutAll E userId except =
     thenM (dbUpdate usersT (\<lambda>u. u_id u = userId) (\<lambda>u. u\<lparr>u_tokenVersion := u_tokenVersion u + 1\<rparr>))
     (thenM (revokeAllSessionsForUser userId except)
     (auditRecord E LOGOUT AR_SESSION
        (auditOk None (Some userId) None
           [(''scope'', JStr ''all''), (''exceptSessionId'', (case except of None \<Rightarrow> JUndefined | Some x \<Rightarrow> JStr x))])))"

section \<open>Passwords\<close>

definition changePassword :: "env \<Rightarrow> ChangePasswordInput \<Rightarrow> unit act" where
  "changePassword E input =
     bindM (dbFind usersT (\<lambda>u. u_id u = ci_userId input)) (\<lambda>row.
     bindM (orThrow row invalidCredentials) (\<lambda>user.
     bindM (comparePassword E (ci_currentPassword input) (u_passwordHash user)) (\<lambda>matches.
     thenM (throw_if (\<not> matches) invalidCredentials)
     (thenM (enforcePolicy E (ci_newPassword input))
     (thenM (ensureNotRecentlyUsed E (ci_userId input) (ci_newPassword input))
     (bindM (hashPassword E (ci_newPassword input)) (\<lambda>newHash.
     thenM (transaction
       (thenM (dbUpdate usersT (\<lambda>u. u_id u = u_id user) (\<lambda>u. u\<lparr>u_passwordHash := newHash\<rparr>))
       (thenM (createHistoryEntry E (u_id user) newHash)
        (trimPasswordHistory E (u_id user)))))
     (thenM (whenM (ci_revokeOtherSessions input)
               (revokeAllSessionsForUser (ci_userId input) (Some (ci_currentSessionId input))))
     (thenM (auditRecord E PASSWORD_CHANGED AR_USER
               (auditOk (Some (u_id user)) (Some (u_id user)) (Some (u_email user)) []))
     (enqueuePasswordChanged E user))))))))))"

definition requestPasswordReset :: "env \<Rightarrow> string \<Rightarrow> (IssuedToken option) act" where
  "requestPasswordReset E email =
     bindM (dbFind usersT (\<lambda>u. u_email u = normalizeEmail email)) (\<lambda>row.
     case row of
       None \<Rightarrow> returnM None
     | Some user \<Rightarrow>
         if u_deletedAt user \<noteq> None then returnM None
         else bindM (issuePasswordResetToken E (u_id user)) (\<lambda>issued.
              thenM (auditRecord E PASSWORD_RESET_REQUESTED AR_USER
                       (auditOk (Some (u_id user)) (Some (u_id user)) (Some (u_email user)) []))
              (thenM (enqueueResetPassword E user (it_rawToken issued) (it_expiresAt issued))
              (returnM (Some issued)))))"

definition resetPassword :: "env \<Rightarrow> string \<Rightarrow> string \<Rightarrow> unit act" where
  "resetPassword E token newPassword =
     thenM (enforcePolicy E newPassword)
     (bindM (consumePasswordResetToken E token) (\<lambda>userId.
      thenM (ensureNotRecentlyUsed E userId newPassword)
      (bindM (hashPassword E newPassword) (\<lambda>newHash.
       thenM (transaction
         (thenM (dbUpdate usersT (\<lambda>u. u_id u = userId)
                   (\<lambda>u. u\<lparr>u_passwordHash := newHash, u_tokenVersion := u_tokenVersion u + 1\<rparr>))
         (thenM (createHistoryEntry E userId newHash)
          (trimPasswordHistory E userId))))
       (thenM (revokeAllSessionsForUser userId None)
       (thenM (auditRecord E PASSWORD_RESET_COMPLETED AR_USER (auditOk (Some userId) None None []))
       (bindM (dbFind usersT (\<lambda>u. u_id u = userId)) (\<lambda>row.
        case row of None \<Rightarrow> returnM () | Some user \<Rightarrow> enqueuePasswordChanged E user))))))))"

definition findActiveUserById :: "string \<Rightarrow> (User option) act" where
  "findActiveUserById userId =
     dbFind usersT (\<lambda>u. u_id u = userId \<and> u_deletedAt u = None \<and> u_status u = UserActive)"

end
