(* ===== verification/Steps.thy ===== *)
theory Steps
  imports Storage
begin

text \<open>
  Methods as runs of smaller steps.  \<open>walks R m\<close>: whatever \<open>m\<close> does to the state, and
  whether it returns or throws, is a sequence of \<open>R\<close>-steps.  A service is proved safe for
  its own step relation once; a method of another service that only calls it, and otherwise
  works on other tables, then walks along the same relation, so that every theorem about
  runs of the small service holds for runs of the large one.
\<close>

named_theorems walks_intros \<open>methods as runs of smaller steps\<close>

definition walks :: "('s \<Rightarrow> 's \<Rightarrow> bool) \<Rightarrow> ('s, 'e, 'a) sem \<Rightarrow> bool" where
  "walks R m \<longleftrightarrow> (\<forall>s. R\<^sup>*\<^sup>* s (snd (m s)))"

lemma walksI: "(\<And>s. R\<^sup>*\<^sup>* s (snd (m s))) \<Longrightarrow> walks R m"
  by (simp add: walks_def)

lemma walksD: "walks R m \<Longrightarrow> R\<^sup>*\<^sup>* s (snd (m s))"
  by (simp add: walks_def)

lemma walksE: "walks R m \<Longrightarrow> m s = (r, t) \<Longrightarrow> R\<^sup>*\<^sup>* s t"
  by (metis walksD snd_conv)

lemma walks_step: "(\<And>s. R s (snd (m s))) \<Longrightarrow> walks R m"
  by (auto simp: walks_def)

lemma walks_silent: "(\<And>s. snd (m s) = s) \<Longrightarrow> walks R m"
  by (simp add: walks_def)

lemma walks_returnM [walks_intros]: "walks R (returnM x)"
  by (simp add: walks_def)

lemma walks_throwM [walks_intros]: "walks R (throwM e)"
  by (simp add: walks_def)

lemma walks_getsM [walks_intros]: "walks R (getsM f)"
  by (simp add: walks_def)

lemma walks_nowM [walks_intros]: "walks R nowM"
  by (simp add: walks_def)

lemma walks_throw_if [walks_intros]: "walks R (throw_if c e)"
  by (simp add: walks_def throw_if_run)

lemma walks_orThrow [walks_intros]: "walks R (orThrow x e)"
  by (simp add: walks_def orThrow_run)

lemma walks_dbFind [walks_intros]: "walks R (dbFind t p)"
  by (simp add: walks_def monad_simps)

lemma walks_dbFindMany [walks_intros]: "walks R (dbFindMany t p)"
  by (simp add: walks_def monad_simps)

lemma walks_dbCount [walks_intros]: "walks R (dbCount t p)"
  by (simp add: walks_def monad_simps)

lemma walks_cacheGet [walks_intros]: "walks R (cacheGet k)"
  by (simp add: walks_def monad_simps)

lemma walks_cacheExists [walks_intros]: "walks R (cacheExists k)"
  by (simp add: walks_def monad_simps)

lemma walks_bindM [walks_intros]:
  assumes "walks R m" and "\<And>x. walks R (f x)"
  shows "walks R (bindM m f)"
proof (rule walksI)
  fix s
  show "R\<^sup>*\<^sup>* s (snd (bindM m f s))"
  proof (cases "m s")
    case (Pair r t)
    have "R\<^sup>*\<^sup>* s t" by (rule walksE [OF assms(1) Pair])
    moreover have "R\<^sup>*\<^sup>* t (snd (f x t))" for x by (rule walksD [OF assms(2)])
    ultimately show ?thesis
      by (cases r) (auto simp: bindM_run Pair intro: rtranclp_trans)
  qed
qed

lemma walks_thenM [walks_intros]: "walks R m \<Longrightarrow> walks R k \<Longrightarrow> walks R (thenM m k)"
  by (simp add: thenM_def walks_bindM)

lemma walks_whenM [walks_intros]: "walks R m \<Longrightarrow> walks R (whenM c m)"
  by (simp add: whenM_def walks_returnM)

lemma walks_if [walks_intros]:
  "(c \<Longrightarrow> walks R m) \<Longrightarrow> (\<not> c \<Longrightarrow> walks R k) \<Longrightarrow> walks R (if c then m else k)"
  by simp

lemma walks_case_option [walks_intros]:
  "walks R m \<Longrightarrow> (\<And>y. walks R (f y)) \<Longrightarrow> walks R (case x of None \<Rightarrow> m | Some y \<Rightarrow> f y)"
  by (simp split: option.split)

lemma walks_case_prod [walks_intros]:
  "(\<And>a b. walks R (f a b)) \<Longrightarrow> walks R (case x of (a, b) \<Rightarrow> f a b)"
  by (simp split: prod.split)

lemma walks_case_list [walks_intros]:
  "walks R m \<Longrightarrow> (\<And>y ys. walks R (f y ys)) \<Longrightarrow> walks R (case x of [] \<Rightarrow> m | y # ys \<Rightarrow> f y ys)"
  by (simp split: list.split)

lemma walks_forM [walks_intros]: "(\<And>x. walks R (f x)) \<Longrightarrow> walks R (forM xs f)"
  by (induction xs) (auto intro: walks_intros)

text \<open>An invariant of the steps is an invariant of every method that walks along them.\<close>

lemma steps_keep:
  assumes "R\<^sup>*\<^sup>* s t" and "\<And>s t. R s t \<Longrightarrow> I s \<Longrightarrow> I t" and "I s"
  shows "I t"
  using assms(1,3) by (induction rule: rtranclp_induct) (auto intro: assms(2))

lemma walks_keeps:
  assumes "walks R m" and "\<And>s t. R s t \<Longrightarrow> I s \<Longrightarrow> I t"
  shows "keeps I m"
  by (rule keepsI) (rule steps_keep [OF walksD [OF assms(1)] assms(2)])

lemma walks_rtranclp:
  assumes "S\<^sup>*\<^sup>* s t" and "\<And>s t. S s t \<Longrightarrow> R\<^sup>*\<^sup>* s t"
  shows "R\<^sup>*\<^sup>* s t"
  using assms(1) by (induction rule: rtranclp_induct) (auto intro: rtranclp_trans assms(2))

text \<open>
  A service with its own tables: \<open>obs\<close> is what it sees of the database, and anything that
  leaves that alone is one of its steps.  Then only the operations on its own tables need a
  proof of their own; a transaction that rolls back is one idle step.
\<close>

locale observed_steps =
  fixes R :: "world \<Rightarrow> world \<Rightarrow> bool"
    and obs :: "database \<Rightarrow> 'o"
  assumes idle: "obs (w_db w') = obs (w_db w) \<Longrightarrow> R w w'"
begin

lemma walks_idle: "(\<And>w. obs (w_db (snd (m w))) = obs (w_db w)) \<Longrightarrow> walks R m"
  by (rule walks_step) (rule idle)

lemma walks_frame: "(\<And>w. w_db (snd (m w)) = w_db w) \<Longrightarrow> walks R m"
  by (rule walks_idle) simp

lemma walks_infra [walks_intros]:
  "walks R drawM" "walks R (newId E)" "walks R (randomBytes E n)"
  "walks R (generateSecureToken E n)" "walks R (cacheSet k v ttl)" "walks R (cacheDelete ks)"
  "walks R (enqueue j)" "walks R (auditRecord E a r opts)"
  by (rule walks_frame, simp add: monad_simps enqueue_run)+

lemma walks_cacheGetOrSet [walks_intros]:
  "walks R loader \<Longrightarrow> walks R (cacheGetOrSet k dec enc loader ttl)"
  unfolding cacheGetOrSet_def by (intro walks_intros)

lemma walks_transaction [walks_intros]:
  assumes "walks R m"
  shows "walks R (transaction m)"
proof (rule walksI)
  fix w
  show "R\<^sup>*\<^sup>* w (snd (transaction m w))"
  proof (cases "m w")
    case (Pair r w')
    then have "R\<^sup>*\<^sup>* w w'" by (rule walksE [OF assms])
    then show ?thesis
      using idle [of "w'\<lparr>w_db := w_db w\<rparr>" w] by (cases r) (auto simp: transaction_run Pair)
  qed
qed

lemma walks_dbUpdate [walks_intros]:
  "(\<And>d. obs (snd t (updateRows p f) d) = obs d) \<Longrightarrow> walks R (dbUpdate t p f)"
  by (rule walks_idle) (simp add: dbUpdate_run split: option.split)

lemma walks_dbUpdateMany [walks_intros]:
  "(\<And>d. obs (snd t (updateRows p f) d) = obs d) \<Longrightarrow> walks R (dbUpdateMany t p f)"
  by (rule walks_idle) (simp add: dbUpdateMany_run)

lemma walks_dbCreate [walks_intros]:
  "(\<And>d. obs (snd t (\<lambda>rows. rows @ [row]) d) = obs d) \<Longrightarrow> walks R (dbCreate t cols c par row)"
  by (rule walks_idle) (simp add: dbCreate_run)

lemma walks_dbDelete [walks_intros]:
  "(\<And>d. obs (snd t (deleteRows p) d) = obs d) \<Longrightarrow> walks R (dbDelete t p)"
  by (rule walks_idle) (simp add: dbDelete_run split: option.split)

lemma walks_dbDeleteMany [walks_intros]:
  "(\<And>d. obs (snd t (deleteRows p) d) = obs d) \<Longrightarrow> walks R (dbDeleteMany t p)"
  by (rule walks_idle) (simp add: dbDeleteMany_run)

end

end
