(* ===== verification/AuthLaws.thy ===== *)
theory AuthLaws
  imports Auth Steps
begin

text \<open>
  What the authentication service guarantees.
\<close>

section \<open>Every request is a run of the session and verification services\<close>

interpretation sessionSteps: observed_steps "session_step E" "\<lambda>d. (sessions d, refreshTokens d)"
  for E :: env
  by unfold_locales (simp add: session_step.other)

interpretation verificationSteps: observed_steps "verification_step E"
  "\<lambda>d. (emailVerificationTokens d, passwordResetTokens d)"
  for E :: env
  by unfold_locales (simp add: verification_step.other)

lemma session_ops_walk [walks_intros]:
  "walks (session_step E) (createSession E uid meta)"
  "walks (session_step E) (rotateRefreshToken E raw meta)"
  "walks (session_step E) (revokeSession sid uid)"
  "walks (session_step E) (revokeAllSessionsForUser uid except)"
  by (auto intro!: walks_step intro: session_step.intros)

lemma verification_ops_walk [walks_intros]:
  "walks (verification_step E) (issueEmailVerificationToken E uid)"
  "walks (verification_step E) (consumeEmailVerificationToken E raw)"
  "walks (verification_step E) (issuePasswordResetToken E uid)"
  "walks (verification_step E) (consumePasswordResetToken E raw)"
  by (auto intro!: walks_step intro: verification_step.intros)

text \<open>The services do not touch each other's tables.\<close>

lemma session_ops_idle [walks_intros]:
  "walks (verification_step E') (createSession E uid meta)"
  "walks (verification_step E') (rotateRefreshToken E raw meta)"
  "walks (verification_step E') (revokeSession sid uid)"
  "walks (verification_step E') (revokeAllSessionsForUser uid except)"
  unfolding createSession_def rotateRefreshToken_def rotateBody_def issueRefreshToken_def
    revokeFamily_def revokeSession_def revokeAllSessionsForUser_def
  by ((intro walks_intros verificationSteps.walks_infra); simp)+

lemma verification_ops_idle [walks_intros]:
  "walks (session_step E') (issueEmailVerificationToken E uid)"
  "walks (session_step E') (consumeEmailVerificationToken E raw)"
  "walks (session_step E') (issuePasswordResetToken E uid)"
  "walks (session_step E') (consumePasswordResetToken E raw)"
  unfolding issueEmailVerificationToken_def consumeEmailVerificationToken_def
    issuePasswordResetToken_def consumePasswordResetToken_def storeToken_def redeemToken_def
  by ((intro walks_intros); simp)+

text \<open>Now the methods of the authentication service, for both relations at once.\<close>

definition hooks_walk :: "(world \<Rightarrow> world \<Rightarrow> bool) \<Rightarrow> LoginHooks \<Rightarrow> bool" where
  "hooks_walk R H \<longleftrightarrow> (\<forall>u. walks R (checkSsoEnforcement H u)) \<and> (\<forall>u m. walks R (checkMfa H u m))"

lemma auth_helpers_walk [walks_intros]:
  "walks R (enforcePolicy E p)" "walks R (comparePassword E p h)" "walks R (resolveDefault uid)"
  "walks R (resolveForOrganization uid oid)" "walks R (signAccessToken E pl)"
  "walks R (ensureNotRecentlyUsed E uid p)" "walks R (findActiveUserById uid)"
  unfolding enforcePolicy_def comparePassword_def resolveDefault_def resolveForOrganization_def
    signAccessToken_def ensureNotRecentlyUsed_def findActiveUserById_def Let_def
  by (intro walks_intros)+

context observed_steps
begin

lemma hashPassword_walks [walks_intros]: "walks R (hashPassword E p)"
  by (rule walks_frame) (simp add: hashPassword_run)

lemma mail_walks [walks_intros]:
  "walks R (enqueueVerifyEmail E u t x)" "walks R (enqueueResetPassword E u t x)"
  "walks R (enqueuePasswordChanged E u)"
  unfolding enqueueVerifyEmail_def enqueueResetPassword_def enqueuePasswordChanged_def
  by (intro walks_intros)+

lemma history_walks [walks_intros]:
  assumes "\<And>f d. obs (passwordHistory_update f d) = obs d"
  shows "walks R (createHistoryEntry E uid h)" "walks R (trimPasswordHistory E uid)"
  unfolding createHistoryEntry_def trimPasswordHistory_def Let_def
  by ((intro walks_intros); simp add: assms)+

lemma handleFailedLogin_walks [walks_intros]:
  assumes "\<And>f d. obs (users_update f d) = obs d"
  shows "walks R (handleFailedLogin E u)"
  unfolding handleFailedLogin_def Let_def by (intro walks_intros) (simp_all add: assms)

end

lemma auth_ops_session_walk [walks_intros]:
  "walks (session_step E) (registerUser E inp)"
  "walks (session_step E) (verifyEmail E tok)"
  "walks (session_step E) (refreshTokenPair E rt meta)"
  "walks (session_step E) (switchOrganization E uid sid oid)"
  "walks (session_step E) (logout E uid sid)"
  "walks (session_step E) (logoutAll E uid ex)"
  "walks (session_step E) (changePassword E ci)"
  "walks (session_step E) (requestPasswordReset E email)"
  "walks (session_step E) (resetPassword E tok np)"
  "walks (session_step E) (completeLogin E u meta)"
  unfolding registerUser_def verifyEmail_def refreshTokenPair_def switchOrganization_def logout_def
    logoutAll_def changePassword_def requestPasswordReset_def resetPassword_def completeLogin_def Let_def
  by ((intro walks_intros); simp)+

lemma auth_ops_verification_walk [walks_intros]:
  "walks (verification_step E) (registerUser E inp)"
  "walks (verification_step E) (verifyEmail E tok)"
  "walks (verification_step E) (refreshTokenPair E rt meta)"
  "walks (verification_step E) (switchOrganization E uid sid oid)"
  "walks (verification_step E) (logout E uid sid)"
  "walks (verification_step E) (logoutAll E uid ex)"
  "walks (verification_step E) (changePassword E ci)"
  "walks (verification_step E) (requestPasswordReset E email)"
  "walks (verification_step E) (resetPassword E tok np)"
  "walks (verification_step E) (completeLogin E u meta)"
  unfolding registerUser_def verifyEmail_def refreshTokenPair_def switchOrganization_def logout_def
    logoutAll_def changePassword_def requestPasswordReset_def resetPassword_def completeLogin_def Let_def
  by ((intro walks_intros); simp)+

lemma login_walks:
  "hooks_walk (session_step E) H \<Longrightarrow> walks (session_step E) (login E H email pw meta)"
  "hooks_walk (verification_step E) H \<Longrightarrow> walks (verification_step E) (login E H email pw meta)"
  unfolding login_def hooks_walk_def by ((intro walks_intros); simp)+

section \<open>Requests\<close>

text \<open>
  A step of the system as the authentication service sees it: one of its methods, or
  anything else that leaves users, sessions and tokens alone, such as the passing of time.  The
  users that OAuth logins, SAML assertions and second factors write are not steps of this
  relation; \<open>Platform\<close> and \<open>LockLaws\<close> have the requests of all services.
\<close>

inductive auth_step :: "env \<Rightarrow> LoginHooks \<Rightarrow> world \<Rightarrow> world \<Rightarrow> bool" for E H where
  register: "auth_step E H w (snd (registerUser E inp w))"
| verify: "auth_step E H w (snd (verifyEmail E tok w))"
| login: "auth_step E H w (snd (login E H email pw meta w))"
| refresh: "auth_step E H w (snd (refreshTokenPair E rt meta w))"
| switch: "auth_step E H w (snd (switchOrganization E uid sid oid w))"
| logout: "auth_step E H w (snd (logout E uid sid w))"
| logout_all: "auth_step E H w (snd (logoutAll E uid ex w))"
| change_password: "auth_step E H w (snd (changePassword E ci w))"
| request_reset: "auth_step E H w (snd (requestPasswordReset E email w))"
| reset_password: "auth_step E H w (snd (resetPassword E tok np w))"
| other: "users (w_db w') = users (w_db w) \<Longrightarrow> sessions (w_db w') = sessions (w_db w) \<Longrightarrow>
    refreshTokens (w_db w') = refreshTokens (w_db w) \<Longrightarrow>
    emailVerificationTokens (w_db w') = emailVerificationTokens (w_db w) \<Longrightarrow>
    passwordResetTokens (w_db w') = passwordResetTokens (w_db w) \<Longrightarrow> auth_step E H w w'"

lemma auth_step_walks:
  assumes "auth_step E H w w'"
  shows "hooks_walk (session_step E) H \<Longrightarrow> (session_step E)\<^sup>*\<^sup>* w w'"
    and "hooks_walk (verification_step E) H \<Longrightarrow> (verification_step E)\<^sup>*\<^sup>* w w'"
  using assms
  by (cases; use auth_ops_session_walk auth_ops_verification_walk login_walks in
        \<open>auto intro: walksD session_step.other verification_step.other\<close>)+

definition noHooks :: LoginHooks where
  "noHooks = \<lparr>lh_mfaHook = None, lh_ssoEnforcement = None\<rparr>"

lemma noHooks_walk: "hooks_walk R noHooks"
  by (simp add: hooks_walk_def noHooks_def checkSsoEnforcement_def checkMfa_def walks_returnM)

text \<open>
  Whatever requests the authentication service serves, the session tables and the
  token tables only move along the steps of the session service and the verification
  service; so the theorems about runs of those two services (tokens that work once,
  sessions that end) hold for runs of the whole service.
\<close>

theorem auth_service_refines_services:
  assumes "hooks_walk (session_step E) H" and "hooks_walk (verification_step E) H"
    and "(auth_step E H)\<^sup>*\<^sup>* w w'"
  shows "(session_step E)\<^sup>*\<^sup>* w w' \<and> (verification_step E)\<^sup>*\<^sup>* w w'"
  using walks_rtranclp [OF assms(3), of "session_step E"]
    walks_rtranclp [OF assms(3), of "verification_step E"] auth_step_walks assms(1,2) by blast

theorem auth_service_refines_services_witness:
  "(session_step sampleEnv)\<^sup>*\<^sup>* sampleWorld
     (snd (login sampleEnv noHooks ''alice@example.com'' ''pw'' noMeta sampleWorld)) \<and>
   (verification_step sampleEnv)\<^sup>*\<^sup>* sampleWorld
     (snd (login sampleEnv noHooks ''alice@example.com'' ''pw'' noMeta sampleWorld))"
  by (rule auth_service_refines_services [OF noHooks_walk noHooks_walk])
    (blast intro: auth_step.login)

end
