(* ===== verification/Lockout.thy ===== *)
theory Lockout
  imports AuthLaws
begin

text \<open>
  Failed logins and the account lock of \<open>AuthService.login\<close> and \<open>handleFailedLogin\<close>.
\<close>

section \<open>What leaves the users alone\<close>

definition sameUsers :: "world \<Rightarrow> world \<Rightarrow> bool" where
  "sameUsers w w' \<longleftrightarrow> users (w_db w') = users (w_db w)"

interpretation userView: observed_steps sameUsers users
  by unfold_locales (simp add: sameUsers_def)

lemma users_untouched [walks_intros]:
  "walks sameUsers (createSession E uid meta)"
  "walks sameUsers (rotateRefreshToken E raw meta)"
  "walks sameUsers (revokeSession sid uid)"
  "walks sameUsers (revokeAllSessionsForUser uid except)"
  "walks sameUsers (issueEmailVerificationToken E uid)"
  "walks sameUsers (issuePasswordResetToken E uid)"
  "walks sameUsers (consumePasswordResetToken E raw)"
  unfolding createSession_def rotateRefreshToken_def rotateBody_def issueRefreshToken_def
    revokeFamily_def revokeSession_def revokeAllSessionsForUser_def
    issueEmailVerificationToken_def issuePasswordResetToken_def consumePasswordResetToken_def
    storeToken_def redeemToken_def
  by ((intro walks_intros); simp)+

section \<open>Rows that stay\<close>

definition usersDistinct :: "database \<Rightarrow> bool" where
  "usersDistinct d \<longleftrightarrow> distinct (map u_id (users d)) \<and> distinct (map u_email (users d))"

text \<open>
  One row that stays: the account \<open>uid\<close> exists and has property \<open>P\<close>.  Instances: it is
  locked, its token version is at least \<open>n\<close>.
\<close>

definition pinned :: "(User \<Rightarrow> bool) \<Rightarrow> string \<Rightarrow> database \<Rightarrow> bool" where
  "pinned P uid d \<longleftrightarrow> usersDistinct d \<and> (\<exists>u \<in> set (users d). u_id u = uid \<and> P u)"

lemma pinned_cong: "users d' = users d \<Longrightarrow> pinned P uid d' = pinned P uid d"
  by (simp add: pinned_def usersDistinct_def)

lemma sameUsers_keeps:
  "walks sameUsers m \<Longrightarrow> keeps (dbInv (pinned P uid)) m"
  by (rule walks_keeps [where R = sameUsers]) (auto simp: sameUsers_def dbInv_def dest: pinned_cong)

lemma pinned_update:
  assumes "\<And>u. u_id (f u) = u_id u \<and> u_email (f u) = u_email u"
    and "\<And>u. p u \<Longrightarrow> u_id u = uid \<Longrightarrow> P u \<Longrightarrow> P (f u)"
    and "pinned P uid d"
  shows "pinned P uid (users_update (updateRows p f) d)"
proof -
  obtain u where u: "u \<in> set (users d)" "u_id u = uid" "P u"
    using assms(3) by (auto simp: pinned_def)
  let ?u = "if p u then f u else u"
  have "?u \<in> set (updateRows p f (users d))" using u(1) by (simp add: set_updateRows)
  moreover have "u_id ?u = uid \<and> P ?u" using u assms(1,2) by simp
  ultimately show ?thesis
    using assms(1,3) unfolding pinned_def usersDistinct_def
    by (auto simp: map_updateRows_key)
qed

lemma keeps_pinned_update:
  assumes "\<And>u. u_id (f u) = u_id u \<and> u_email (f u) = u_email u"
    and "\<And>u. p u \<Longrightarrow> u_id u = uid \<Longrightarrow> P u \<Longrightarrow> P (f u)"
  shows "keeps (dbInv (pinned P uid)) (dbUpdate usersT p f)"
  using pinned_update [where f = f and p = p and P = P, OF assms] by (intro keeps_dbUpdate) simp

lemma keeps_pinned_create:
  "keeps (dbInv (pinned P uid))
     (dbCreate usersT cols (\<lambda>u. u_id u = u_id row \<or> u_email u = u_email row) par row)"
  by (rule keeps_dbCreate) (force simp: pinned_def usersDistinct_def)

lemma keeps_case_prod [keeps_intros]:
  "(\<And>a b. keeps I (f a b)) \<Longrightarrow> keeps I (case x of (a, b) \<Rightarrow> f a b)"
  by (simp split: prod.split)

text \<open>Properties no method other than \<open>login\<close> takes away.\<close>

definition profileStable :: "(User \<Rightarrow> bool) \<Rightarrow> bool" where
  "profileStable P \<longleftrightarrow> (\<forall>u h. P u \<longrightarrow> P (u\<lparr>u_isEmailVerified := True\<rparr>) \<and>
     P (u\<lparr>u_passwordHash := h\<rparr>) \<and> P (u\<lparr>u_tokenVersion := u_tokenVersion u + 1\<rparr>) \<and>
     P (u\<lparr>u_passwordHash := h, u_tokenVersion := u_tokenVersion u + 1\<rparr>))"

lemma auth_ops_keep_pinned:
  assumes "profileStable P"
  shows "keeps (dbInv (pinned P uid)) (registerUser E inp)"
  "keeps (dbInv (pinned P uid)) (verifyEmail E tok)"
  "keeps (dbInv (pinned P uid)) (refreshTokenPair E rt meta)"
  "keeps (dbInv (pinned P uid)) (switchOrganization E uid' sid oid)"
  "keeps (dbInv (pinned P uid)) (logout E uid' sid)"
  "keeps (dbInv (pinned P uid)) (logoutAll E uid' ex)"
  "keeps (dbInv (pinned P uid)) (changePassword E ci)"
  "keeps (dbInv (pinned P uid)) (requestPasswordReset E email)"
  "keeps (dbInv (pinned P uid)) (resetPassword E tok np)"
proof -
  let ?I = "dbInv (pinned P uid)"
  have create: "keeps ?I (dbCreate usersT cols (\<lambda>u. u_id u = uid' \<or> u_email u = em')
      (\<lambda>_. True) r)" if "u_id r = uid'" "u_email r = em'" for cols uid' em' r
    using keeps_pinned_create [of P uid cols r] that by simp
  note upd = assms [unfolded profileStable_def]
  show "keeps ?I (registerUser E inp)"
    unfolding registerUser_def Let_def
    by (intro keeps_bindM keeps_thenM keeps_transaction keeps_case_prod create)
      ((rule sameUsers_keeps, intro walks_intros; simp) | simp)+
  show "keeps ?I (verifyEmail E tok)"
    unfolding verifyEmail_def consumeEmailVerificationToken_def redeemToken_def
    by (intro keeps_transaction keeps_bindM keeps_thenM keeps_pinned_update)
      ((rule sameUsers_keeps, intro walks_intros; simp) | simp add: upd)+
  show "keeps ?I (refreshTokenPair E rt meta)" "keeps ?I (switchOrganization E uid' sid oid)"
    "keeps ?I (logout E uid' sid)" "keeps ?I (requestPasswordReset E email)"
    unfolding refreshTokenPair_def switchOrganization_def logout_def requestPasswordReset_def
    by (rule sameUsers_keeps, intro walks_intros; simp)+
  show "keeps ?I (logoutAll E uid' ex)"
    unfolding logoutAll_def
    by (intro keeps_thenM keeps_pinned_update)
      ((rule sameUsers_keeps, intro walks_intros; simp) | simp add: upd)+
  show "keeps ?I (changePassword E ci)"
    unfolding changePassword_def
    by (intro keeps_bindM keeps_thenM keeps_transaction keeps_pinned_update)
      ((rule sameUsers_keeps, intro walks_intros; simp) | simp add: upd)+
  show "keeps ?I (resetPassword E tok np)"
    unfolding resetPassword_def
    by (intro keeps_bindM keeps_thenM keeps_transaction keeps_pinned_update)
      ((rule sameUsers_keeps, intro walks_intros; simp) | simp add: upd)+
qed

lemma usersDistinct_unique:
  "usersDistinct d \<Longrightarrow> u \<in> set (users d) \<Longrightarrow> u' \<in> set (users d) \<Longrightarrow>
     u_id u = u_id u' \<or> u_email u = u_email u' \<Longrightarrow> u = u'"
  unfolding usersDistinct_def by (metis distinct_map_unique)

lemma login_refused:
  assumes "findFirst (\<lambda>u. u_email u = normalizeEmail email) (users (w_db w)) = Some u"
    and "u_deletedAt u = None" and "u_status u = UserLocked \<or> isLocked (w_now w) u"
  shows "login E H email pw meta w = (Inl accountLocked, w)"
  using assms by (simp add: login_def monad_simps)

text \<open>
  \<open>login\<close> writes to the row it found only, so a row keeps \<open>P\<close> unless it is the one that logs
  in; that one keeps \<open>P\<close> when \<open>P\<close> does not depend on the login fields.
\<close>

definition loginStable :: "(User \<Rightarrow> bool) \<Rightarrow> bool" where
  "loginStable P \<longleftrightarrow> (\<forall>u n l s t. P u \<longrightarrow>
     P (u\<lparr>u_failedLoginAttempts := n, u_lockUntil := l, u_status := s\<rparr>) \<and>
     P (u\<lparr>u_failedLoginAttempts := n, u_lockUntil := l, u_lastLoginAt := t\<rparr>) \<and>
     P (u\<lparr>u_failedLoginAttempts := n, u_lockUntil := l\<rparr>))"

lemma login_keeps_pinned:
  assumes "hooks_walk sameUsers H" and I: "dbInv (pinned P uid) w"
    and "\<And>u. findFirst (\<lambda>u. u_email u = normalizeEmail email) (users (w_db w)) = Some u \<Longrightarrow>
      u_id u = uid \<Longrightarrow> loginStable P"
  shows "dbInv (pinned P uid) (snd (login E H email pw meta w))"
proof (cases "findFirst (\<lambda>u. u_email u = normalizeEmail email) (users (w_db w))")
  case None
  with I show ?thesis by (simp add: login_def monad_simps)
next
  case (Some u)
  have H: "walks sameUsers (checkSsoEnforcement H u)" "walks sameUsers (checkMfa H u m)" for u m
    using assms(1) by (auto simp: hooks_walk_def)
  have P: "u_id u = uid \<Longrightarrow> loginStable P" by (rule assms(3) [OF Some])
  note upd = P [unfolded loginStable_def]
  show ?thesis
    unfolding login_def bindM_run [of "dbFind usersT P" for P] dbFind_run
    apply (simp add: Some orThrow_run bindM_run [of "orThrow x e" for x e])
    apply (rule keepsD [where I = "dbInv (pinned P uid)" and s = w, OF _ I])
    unfolding handleFailedLogin_def completeLogin_def Let_def
    by (intro keeps_bindM keeps_thenM keeps_transaction keeps_case_option keeps_whenM
         keeps_pinned_update)
       ((rule sameUsers_keeps, intro H walks_intros; simp) | simp add: upd)+
qed

lemma auth_step_keeps_pinned:
  assumes "auth_step E H w w'" "hooks_walk sameUsers H" "pinned P uid (w_db w)" "profileStable P"
    and "\<And>u email. findFirst (\<lambda>u. u_email u = normalizeEmail email) (users (w_db w)) = Some u \<Longrightarrow>
      u_id u = uid \<Longrightarrow> loginStable P \<or> u_status u = UserLocked \<and> u_deletedAt u = None"
  shows "pinned P uid (w_db w')"
  using assms(1)
proof cases
  case (login email pw meta)
  let ?row = "findFirst (\<lambda>u. u_email u = normalizeEmail email) (users (w_db w))"
  show ?thesis
  proof (cases "\<exists>u. ?row = Some u \<and> u_status u = UserLocked \<and> u_deletedAt u = None")
    case True
    then show ?thesis using login assms(3) by (auto simp: login_refused)
  next
    case False
    have "dbInv (pinned P uid) (snd (Auth.login E H email pw meta w))"
    proof (rule login_keeps_pinned [OF assms(2)])
      show "dbInv (pinned P uid) w" using assms(3) by (simp add: dbInv_def)
      show "loginStable P" if "?row = Some u" "u_id u = uid" for u
        using assms(5) [OF that] False that(1) by blast
    qed
    then show ?thesis using login by (simp add: dbInv_def)
  qed
next
  case other
  then show ?thesis using assms(3) pinned_cong by blast
qed (use auth_ops_keep_pinned [OF assms(4), THEN keepsD, unfolded dbInv_def] assms(3) in auto)

section \<open>A locked account\<close>

definition lockedAccount :: "string \<Rightarrow> string \<Rightarrow> database \<Rightarrow> bool" where
  "lockedAccount uid email = pinned
     (\<lambda>u. u_email u = email \<and> u_status u = UserLocked \<and> u_deletedAt u = None) uid"

lemma auth_step_keeps_lock:
  assumes "auth_step E H w w'" "hooks_walk sameUsers H" "lockedAccount uid em (w_db w)"
  shows "lockedAccount uid em (w_db w')"
  unfolding lockedAccount_def
proof (rule auth_step_keeps_pinned [OF assms(1,2)])
  let ?P = "\<lambda>u. u_email u = em \<and> u_status u = UserLocked \<and> u_deletedAt u = None"
  show I: "pinned ?P uid (w_db w)" using assms(3) by (simp add: lockedAccount_def)
  show "profileStable ?P" by (simp add: profileStable_def)
  fix u email
  assume "findFirst (\<lambda>u. u_email u = normalizeEmail email) (users (w_db w)) = Some u" "u_id u = uid"
  then have "u \<in> set (users (w_db w))" by (auto dest: findFirst_SomeD)
  with I \<open>u_id u = uid\<close> have "?P u"
    unfolding pinned_def using usersDistinct_unique by blast
  then show "loginStable ?P \<or> u_status u = UserLocked \<and> u_deletedAt u = None" by simp
qed

text \<open>Token versions only grow.\<close>

definition versionAtLeast :: "string \<Rightarrow> int \<Rightarrow> database \<Rightarrow> bool" where
  "versionAtLeast uid n = pinned (\<lambda>u. n \<le> u_tokenVersion u) uid"

lemma auth_step_keeps_version:
  "auth_step E H w w' \<Longrightarrow> hooks_walk sameUsers H \<Longrightarrow> versionAtLeast uid n (w_db w) \<Longrightarrow>
     versionAtLeast uid n (w_db w')"
  unfolding versionAtLeast_def
  by (rule auth_step_keeps_pinned) (simp_all add: profileStable_def loginStable_def)

text \<open>What a failed login does.\<close>

lemma login_failure_run:
  assumes "findFirst (\<lambda>u. u_email u = normalizeEmail email) (users (w_db w)) = Some u"
    and "u_deletedAt u = None" "u_status u = UserActive" "\<not> isLocked (w_now w) u"
    and "checkSsoEnforcement H u w = (Inr sso, w1)" "\<not> so_blocked sso"
    and "\<not> e_bcryptCompare E pw (u_passwordHash u)"
  shows "login E H email pw meta w =
     (case handleFailedLogin E u w1 of (Inl e, w2) \<Rightarrow> (Inl e, w2) | (Inr _, w2) \<Rightarrow> (Inl invalidCredentials, w2))"
  using assms by (simp add: login_def monad_simps split: prod.split sum.split)

lemma handleFailedLogin_users:
  assumes "u \<in> set (users (w_db w))"
  shows "fst (handleFailedLogin E u w) = Inr ()"
    and "users (w_db (snd (handleFailedLogin E u w))) =
     updateRows (\<lambda>v. u_id v = u_id u)
       (\<lambda>v. v\<lparr>u_failedLoginAttempts := u_failedLoginAttempts u + 1,
              u_lockUntil := (if ac_maxLoginAttempts (e_auth E) \<le> u_failedLoginAttempts u + 1
                then Some (w_now w + ac_lockDurationMs (e_auth E)) else None),
              u_status := (if ac_maxLoginAttempts (e_auth E) \<le> u_failedLoginAttempts u + 1
                then UserLocked else u_status u)\<rparr>) (users (w_db w))"
proof -
  obtain v where v: "findFirst (\<lambda>v. u_id v = u_id u) (users (w_db w)) = Some v"
    using findFirst_ex [OF assms, of "\<lambda>v. u_id v = u_id u"] by auto
  show "fst (handleFailedLogin E u w) = Inr ()"
    by (simp add: handleFailedLogin_def Let_def monad_simps v)
  show "users (w_db (snd (handleFailedLogin E u w))) =
     updateRows (\<lambda>v. u_id v = u_id u)
       (\<lambda>v. v\<lparr>u_failedLoginAttempts := u_failedLoginAttempts u + 1,
              u_lockUntil := (if ac_maxLoginAttempts (e_auth E) \<le> u_failedLoginAttempts u + 1
                then Some (w_now w + ac_lockDurationMs (e_auth E)) else None),
              u_status := (if ac_maxLoginAttempts (e_auth E) \<le> u_failedLoginAttempts u + 1
                then UserLocked else u_status u)\<rparr>) (users (w_db w))"
    by (simp add: handleFailedLogin_def Let_def monad_simps v)
qed

text \<open>
  A wrong password at a login that SSO enforcement lets through: the failure is counted on that
  account, which is locked when the count reaches the maximum.
\<close>

lemma wrong_password_run:
  assumes "usersDistinct (w_db w)" "u \<in> set (users (w_db w))" "u_email u = normalizeEmail email"
    and "u_deletedAt u = None" "u_status u = UserActive" "\<not> isLocked (w_now w) u"
    and "checkSsoEnforcement H u w = (Inr sso, w)" "\<not> so_blocked sso"
    and "\<not> e_bcryptCompare E pw (u_passwordHash u)"
  shows "\<exists>w'. login E H email pw meta w = (Inl invalidCredentials, w') \<and>
    users (w_db w') = map (\<lambda>v. if v = u
      then u\<lparr>u_failedLoginAttempts := u_failedLoginAttempts u + 1,
             u_lockUntil := (if ac_maxLoginAttempts (e_auth E) \<le> u_failedLoginAttempts u + 1
               then Some (w_now w + ac_lockDurationMs (e_auth E)) else None),
             u_status := (if ac_maxLoginAttempts (e_auth E) \<le> u_failedLoginAttempts u + 1
               then UserLocked else UserActive)\<rparr>
      else v) (users (w_db w))"
proof -
  have f: "findFirst (\<lambda>u. u_email u = normalizeEmail email) (users (w_db w)) = Some u"
    using findFirst_key [of u_email "users (w_db w)" u] assms(1-3) by (simp add: usersDistinct_def)
  let ?hf = "handleFailedLogin E u w"
  have 1: "login E H email pw meta w = (Inl invalidCredentials, snd ?hf)"
    using login_failure_run [OF f assms(4-9)] handleFailedLogin_users(1) [OF assms(2), of E]
    by (cases ?hf) simp
  have "u_id v = u_id u \<longleftrightarrow> v = u" if "v \<in> set (users (w_db w))" for v
    using usersDistinct_unique [OF assms(1) that assms(2)] by blast
  with 1 handleFailedLogin_users(2) [OF assms(2), of E] assms(5) show ?thesis
    by (auto simp: updateRows_def intro!: map_cong)
qed

lemma locked_login_refused:
  assumes "lockedAccount uid (normalizeEmail email) (w_db w)"
  shows "login E H email pw meta w = (Inl accountLocked, w)"
proof -
  from assms obtain u where u: "u \<in> set (users (w_db w))" "u_email u = normalizeEmail email"
    "u_status u = UserLocked" "u_deletedAt u = None" "usersDistinct (w_db w)"
    by (auto simp: lockedAccount_def pinned_def)
  then have "findFirst (\<lambda>u. u_email u = normalizeEmail email) (users (w_db w)) = Some u"
    using findFirst_key [of u_email "users (w_db w)" u] by (simp add: usersDistinct_def)
  with u show ?thesis by (simp add: login_refused)
qed

lemma alice_in: "alice \<in> set (users (w_db sampleWorld))"
  by (simp add: sampleWorld_def worldOf_def emptyDb_def)

lemma sampleWorld_distinct: "usersDistinct (w_db sampleWorld)"
  by (simp add: usersDistinct_def sampleWorld_def worldOf_def emptyDb_def alice_def bob_def)

end
