(* ===== verification/JwtStrategy.thy ===== *)
theory JwtStrategy
  imports Lockout
begin

text \<open>
  The check of every bearer token: \<open>modules/auth/strategies/jwt.strategy.ts\<close>.  The signature
  and the expiry of the token are checked by the passport library; \<open>validateToken\<close> is the
  \<open>validate\<close> method on the decoded payload.
\<close>

record AuthenticatedUser =
  au_id :: string
  au_email :: string
  au_sessionId :: string
  au_tokenVersion :: int
  au_organizationId :: "string option"
  au_membershipId :: "string option"
  au_roles :: "string list"
  au_permissionsVersion :: int
  au_attributesVersion :: int

definition unauthorized :: "string \<Rightarrow> exn" where
  "unauthorized code = UnauthorizedException code"

definition checkMembershipClaims :: "JwtAccessPayload \<Rightarrow> string \<Rightarrow> unit act" where
  "checkMembershipClaims payload userId =
     bindM (dbFind membershipsT (\<lambda>m. Some (m_id m) = jp_membershipId payload \<and>
              m_userId m = userId \<and> Some (m_organizationId m) = jp_organizationId payload \<and>
              m_deletedAt m = None)) (\<lambda>row.
     bindM (orThrow row (unauthorized ''MEMBERSHIP_INVALID'')) (\<lambda>membership.
     bindM (dbFind organizationsT (\<lambda>ob. o_id ob = m_organizationId membership)) (\<lambda>orow.
     bindM (orThrow orow (JsError ''missing organization'')) (\<lambda>organization.
     thenM (throw_if (m_status membership \<noteq> MemberActive) (unauthorized ''MEMBERSHIP_INVALID''))
     (thenM (throw_if (o_status organization \<noteq> OrgActive) (unauthorized ''ORG_INACTIVE''))
     (thenM (throw_if (m_permissionsVersion membership \<noteq> jp_permissionsVersion payload)
               (unauthorized ''PERMISSIONS_VERSION_MISMATCH''))
     (throw_if (m_attributesVersion membership \<noteq> jp_attributesVersion payload)
               (unauthorized ''ATTRIBUTES_VERSION_MISMATCH''))))))))"

definition validateToken :: "JwtAccessPayload \<Rightarrow> AuthenticatedUser act" where
  "validateToken payload =
     bindM (dbFind usersT (\<lambda>u. u_id u = jp_sub payload \<and> u_deletedAt u = None \<and>
              u_status u = UserActive)) (\<lambda>row.
     bindM (orThrow row (unauthorized ''ACCOUNT_INACTIVE'')) (\<lambda>user.
     thenM (throw_if (u_tokenVersion user \<noteq> jp_tokenVersion payload)
              (unauthorized ''TOKEN_VERSION_MISMATCH''))
     (bindM (findSessionById (jp_sessionId payload)) (\<lambda>srow.
     bindM (orThrow srow (unauthorized ''SESSION_REVOKED'')) (\<lambda>session.
     bindM nowM (\<lambda>now.
     thenM (throw_if (s_revokedAt session \<noteq> None \<or> s_expiresAt session \<le> now)
              (unauthorized ''SESSION_REVOKED''))
     (thenM (whenM (truthy_str (jp_membershipId payload) \<and> truthy_str (jp_organizationId payload))
               (checkMembershipClaims payload (u_id user)))
     (returnM \<lparr>au_id = u_id user, au_email = u_email user, au_sessionId = s_id session,
               au_tokenVersion = u_tokenVersion user,
               au_organizationId = jp_organizationId payload,
               au_membershipId = jp_membershipId payload, au_roles = jp_roles payload,
               au_permissionsVersion = jp_permissionsVersion payload,
               au_attributesVersion = jp_attributesVersion payload\<rparr>))))))))"

text \<open>What the token says and what the tables say agree.\<close>

definition membershipCurrent :: "database \<Rightarrow> JwtAccessPayload \<Rightarrow> bool" where
  "membershipCurrent d pl \<longleftrightarrow>
     (\<exists>m \<in> set (memberships d). \<exists>ob \<in> set (organizations d).
        Some (m_id m) = jp_membershipId pl \<and> m_userId m = jp_sub pl \<and>
        Some (m_organizationId m) = jp_organizationId pl \<and> m_deletedAt m = None \<and>
        m_status m = MemberActive \<and> o_id ob = m_organizationId m \<and> o_status ob = OrgActive \<and>
        m_permissionsVersion m = jp_permissionsVersion pl \<and>
        m_attributesVersion m = jp_attributesVersion pl)"

definition tokenCurrent :: "int \<Rightarrow> database \<Rightarrow> JwtAccessPayload \<Rightarrow> bool" where
  "tokenCurrent now d pl \<longleftrightarrow>
     (\<exists>u \<in> set (users d). u_id u = jp_sub pl \<and> u_deletedAt u = None \<and> u_status u = UserActive \<and>
        u_tokenVersion u = jp_tokenVersion pl) \<and>
     (\<exists>s \<in> set (sessions d). s_id s = jp_sessionId pl \<and> s_revokedAt s = None \<and> now < s_expiresAt s) \<and>
     (truthy_str (jp_membershipId pl) \<and> truthy_str (jp_organizationId pl) \<longrightarrow> membershipCurrent d pl)"

text \<open>The user a token is accepted for.\<close>

definition authenticatedAs :: "User \<Rightarrow> JwtAccessPayload \<Rightarrow> AuthenticatedUser" where
  "authenticatedAs u pl =
     \<lparr>au_id = jp_sub pl, au_email = u_email u, au_sessionId = jp_sessionId pl,
      au_tokenVersion = jp_tokenVersion pl, au_organizationId = jp_organizationId pl,
      au_membershipId = jp_membershipId pl, au_roles = jp_roles pl,
      au_permissionsVersion = jp_permissionsVersion pl,
      au_attributesVersion = jp_attributesVersion pl\<rparr>"

definition keysUnique :: "database \<Rightarrow> bool" where
  "keysUnique d \<longleftrightarrow> distinct (map u_id (users d)) \<and> distinct (map s_id (sessions d)) \<and>
     distinct (map m_id (memberships d)) \<and> distinct (map o_id (organizations d))"

lemma findFirst_unique:
  assumes "distinct (map key rows)" and "\<And>r. p r \<Longrightarrow> key r = k"
  shows "findFirst p rows = Some r \<longleftrightarrow> r \<in> set rows \<and> p r"
proof
  assume *: "r \<in> set rows \<and> p r"
  then obtain r' where r': "findFirst p rows = Some r'" using findFirst_ex [of r rows p] by blast
  then have "r' \<in> set rows" "p r'" by (auto dest: findFirst_SomeD)
  with * assms have "r' = r" by (metis distinct_map_unique)
  with r' show "findFirst p rows = Some r" by simp
qed (auto dest: findFirst_SomeD)

lemma checkMembershipClaims_iff:
  assumes "keysUnique (w_db w)"
  shows "checkMembershipClaims pl (jp_sub pl) w = (Inr (), w') \<longleftrightarrow>
    w' = w \<and> membershipCurrent (w_db w) pl"
proof -
  have m: "findFirst (\<lambda>m. Some (m_id m) = jp_membershipId pl \<and> m_userId m = jp_sub pl \<and>
      Some (m_organizationId m) = jp_organizationId pl \<and> m_deletedAt m = None)
      (memberships (w_db w)) = Some m \<longleftrightarrow> m \<in> set (memberships (w_db w)) \<and>
      Some (m_id m) = jp_membershipId pl \<and> m_userId m = jp_sub pl \<and>
      Some (m_organizationId m) = jp_organizationId pl \<and> m_deletedAt m = None" for m
    by (rule findFirst_unique [of m_id _ _ "the (jp_membershipId pl)"])
      (use assms in \<open>auto simp: keysUnique_def dest: sym\<close>)
  have ob: "findFirst (\<lambda>ob. o_id ob = i) (organizations (w_db w)) = Some ob \<longleftrightarrow>
      ob \<in> set (organizations (w_db w)) \<and> o_id ob = i" for i ob
    by (rule findFirst_unique [of o_id]) (use assms in \<open>auto simp: keysUnique_def\<close>)
  show ?thesis
    unfolding checkMembershipClaims_def membershipCurrent_def
    by (auto simp: success_iffs dbFind_run m ob)
qed

lemma whenM_unit_Inr_iff:
  "whenM c m w = (Inr (), w') \<longleftrightarrow> (if c then m w = (Inr (), w') else w' = w)"
  by (auto simp: whenM_run)

lemma validateToken_Inr_iff:
  assumes "keysUnique (w_db w)"
  shows "validateToken pl w = (Inr au, w') \<longleftrightarrow> w' = w \<and>
    (\<exists>u s. u \<in> set (users (w_db w)) \<and> u_id u = jp_sub pl \<and> u_deletedAt u = None \<and>
       u_status u = UserActive \<and> u_tokenVersion u = jp_tokenVersion pl \<and>
       s \<in> set (sessions (w_db w)) \<and> s_id s = jp_sessionId pl \<and> s_revokedAt s = None \<and>
       w_now w < s_expiresAt s \<and>
       (truthy_str (jp_membershipId pl) \<and> truthy_str (jp_organizationId pl) \<longrightarrow>
          membershipCurrent (w_db w) pl) \<and> au = authenticatedAs u pl)"
proof -
  have u: "findFirst (\<lambda>u. u_id u = jp_sub pl \<and> u_deletedAt u = None \<and> u_status u = UserActive)
      (users (w_db w)) = Some u \<longleftrightarrow> u \<in> set (users (w_db w)) \<and>
      u_id u = jp_sub pl \<and> u_deletedAt u = None \<and> u_status u = UserActive" for u
    by (rule findFirst_unique [of u_id]) (use assms in \<open>auto simp: keysUnique_def\<close>)
  have s: "findFirst (\<lambda>s. s_id s = i) (sessions (w_db w)) = Some s \<longleftrightarrow>
      s \<in> set (sessions (w_db w)) \<and> s_id s = i" for i s
    by (rule findFirst_unique [of s_id]) (use assms in \<open>auto simp: keysUnique_def\<close>)
  show ?thesis
    unfolding validateToken_def findSessionById_def authenticatedAs_def
    by (simp add: success_iffs dbFind_run u s whenM_unit_Inr_iff
        checkMembershipClaims_iff [OF assms] not_le cong: conj_cong) auto
qed

text \<open>
  C4: a bearer token is accepted exactly when it is current: its user is active and has the
  token version of the token, its session exists and is neither revoked nor expired, and,
  when it names an organization, the membership is active in an active organization with
  the permission and attribute versions of the token.  The check writes nothing.
\<close>

theorem bearer_token_accepted_iff_current:
  assumes "keysUnique (w_db w)"
  shows "(\<exists>au w'. validateToken pl w = (Inr au, w')) = tokenCurrent (w_now w) (w_db w) pl"
  by (auto simp: validateToken_Inr_iff [OF assms] tokenCurrent_def)

definition aliceToken :: JwtAccessPayload where
  "aliceToken = \<lparr>jp_sub = ''alice'', jp_email = ''alice@example.com'',
     jp_sessionId = s_id (hd (sessions (w_db afterLogin))), jp_tokenVersion = 0,
     jp_organizationId = None, jp_membershipId = None, jp_roles = [],
     jp_permissionsVersion = 0, jp_attributesVersion = 0\<rparr>"

theorem bearer_token_accepted_iff_current_witness:
  "\<exists>au w'. validateToken aliceToken afterLogin = (Inr au, w')"
proof -
  have "distinct (map u_id (users (w_db afterLogin)))" "distinct (map s_id (sessions (w_db afterLogin)))"
    "memberships (w_db afterLogin) = []" "organizations (w_db afterLogin) = []" by code_simp+
  then have k: "keysUnique (w_db afterLogin)" by (simp add: keysUnique_def)
  have u: "list_ex (\<lambda>u. u_id u = jp_sub aliceToken \<and> u_deletedAt u = None \<and> u_status u = UserActive \<and>
      u_tokenVersion u = jp_tokenVersion aliceToken) (users (w_db afterLogin))" by code_simp
  have s: "list_ex (\<lambda>s. s_id s = jp_sessionId aliceToken \<and> s_revokedAt s = None \<and>
      w_now afterLogin < s_expiresAt s) (sessions (w_db afterLogin))" by code_simp
  from u s have "tokenCurrent (w_now afterLogin) (w_db afterLogin) aliceToken"
    by (simp add: tokenCurrent_def list_ex_iff) (simp add: aliceToken_def)
  with bearer_token_accepted_iff_current [OF k] show ?thesis by blast
qed

end
