(* ===== verification/PasswordLaws.thy ===== *)
theory PasswordLaws
  imports JwtStrategy
begin

text \<open>
  Logging out everywhere, password resets and the password history.
\<close>

section \<open>Bearer tokens after logging out everywhere\<close>

lemma pinned_version_refuses:
  assumes "versionAtLeast uid n (w_db w)" "jp_sub pl = uid" "jp_tokenVersion pl < n"
  shows "fst (validateToken pl w) \<in>
    {Inl (unauthorized ''ACCOUNT_INACTIVE''), Inl (unauthorized ''TOKEN_VERSION_MISMATCH'')}"
proof (cases "findFirst (\<lambda>u. u_id u = jp_sub pl \<and> u_deletedAt u = None \<and> u_status u = UserActive)
    (users (w_db w))")
  case None
  then show ?thesis by (simp add: validateToken_def monad_simps)
next
  case (Some u)
  then have "u \<in> set (users (w_db w))" "u_id u = uid" using assms(2) by (auto dest: findFirst_SomeD)
  then have "n \<le> u_tokenVersion u"
    using assms(1) usersDistinct_unique unfolding versionAtLeast_def pinned_def by blast
  then show ?thesis using Some assms(3) by (simp add: validateToken_def monad_simps)
qed

lemma logoutAll_version:
  assumes "usersDistinct (w_db w)" "u \<in> set (users (w_db w))"
  shows "versionAtLeast (u_id u) (u_tokenVersion u + 1) (w_db (snd (logoutAll E (u_id u) ex w)))"
proof -
  let ?upd = "dbUpdate usersT (\<lambda>v. u_id v = u_id u) (\<lambda>u. u\<lparr>u_tokenVersion := u_tokenVersion u + 1\<rparr>)"
  let ?d = "users_update (updateRows (\<lambda>v. u_id v = u_id u)
      (\<lambda>u. u\<lparr>u_tokenVersion := u_tokenVersion u + 1\<rparr>)) (w_db w)"
  obtain v where "findFirst (\<lambda>v. u_id v = u_id u) (users (w_db w)) = Some v"
    using findFirst_ex [OF assms(2), of "\<lambda>v. u_id v = u_id u"] by auto
  then obtain r where r: "?upd w = (Inr r, w\<lparr>w_db := ?d\<rparr>)"
    by (simp add: dbUpdate_run)
  have "usersDistinct ?d" using assms(1) by (simp add: usersDistinct_def map_updateRows_key)
  moreover have "u\<lparr>u_tokenVersion := u_tokenVersion u + 1\<rparr> \<in> set (users ?d)"
    using assms(2) by (auto simp: set_updateRows intro!: image_eqI [of _ _ u])
  ultimately have I: "dbInv (versionAtLeast (u_id u) (u_tokenVersion u + 1)) (w\<lparr>w_db := ?d\<rparr>)"
    unfolding dbInv_def versionAtLeast_def pinned_def
    by (intro conjI bexI [of _ "u\<lparr>u_tokenVersion := u_tokenVersion u + 1\<rparr>"]) auto
  let ?rest = "thenM (revokeAllSessionsForUser (u_id u) ex) (auditRecord E LOGOUT AR_SESSION
        (auditOk None (Some (u_id u)) None
           [(''scope'', JStr ''all''), (''exceptSessionId'', (case ex of None \<Rightarrow> JUndefined | Some x \<Rightarrow> JStr x))]))"
  have "keeps (dbInv (versionAtLeast (u_id u) (u_tokenVersion u + 1))) ?rest"
    unfolding versionAtLeast_def by (rule sameUsers_keeps) (intro walks_intros)
  then have "dbInv (versionAtLeast (u_id u) (u_tokenVersion u + 1)) (snd (?rest (w\<lparr>w_db := ?d\<rparr>)))"
    using I by (rule keepsD)
  then show ?thesis by (simp add: dbInv_def logoutAll_def thenM_run [of ?upd] r)
qed

text \<open>
  C22: after a user logged out everywhere, no bearer token issued before is ever accepted
  again, whatever methods of the authentication service follow: token versions only grow (no
  other service writes them).
\<close>

theorem logout_all_kills_bearer_tokens:
  assumes "usersDistinct (w_db w)" "u \<in> set (users (w_db w))" "hooks_walk sameUsers H"
    and "(auth_step E H)\<^sup>*\<^sup>* (snd (logoutAll E (u_id u) ex w)) w2"
    and "jp_sub pl = u_id u" "jp_tokenVersion pl \<le> u_tokenVersion u"
  shows "fst (validateToken pl w2) \<in>
    {Inl (unauthorized ''ACCOUNT_INACTIVE''), Inl (unauthorized ''TOKEN_VERSION_MISMATCH'')}"
proof -
  have "versionAtLeast (u_id u) (u_tokenVersion u + 1) (w_db w2)"
    using steps_keep [OF assms(4), of "\<lambda>w. versionAtLeast (u_id u) (u_tokenVersion u + 1) (w_db w)"]
      auth_step_keeps_version assms(3) logoutAll_version [OF assms(1,2)] by blast
  then show ?thesis using pinned_version_refuses assms(5,6) by simp
qed

theorem logout_all_kills_bearer_tokens_witness:
  "fst (validateToken (aliceToken\<lparr>jp_sub := u_id alice, jp_tokenVersion := u_tokenVersion alice\<rparr>)
      (snd (logoutAll sampleEnv (u_id alice) None sampleWorld))) \<in>
    {Inl (unauthorized ''ACCOUNT_INACTIVE''), Inl (unauthorized ''TOKEN_VERSION_MISMATCH'')}"
  by (rule logout_all_kills_bearer_tokens
      [OF sampleWorld_distinct alice_in noHooks_walk rtranclp.rtrancl_refl]) simp_all

section \<open>Password history\<close>

definition historyLimit :: "env \<Rightarrow> int" where
  "historyLimit E = pw_historyLimit (ac_passwordPolicy (e_auth E))"

definition recentPassword :: "env \<Rightarrow> string \<Rightarrow> string \<Rightarrow> database \<Rightarrow> bool" where
  "recentPassword E uid p d \<longleftrightarrow> 0 < historyLimit E \<and>
     (\<exists>h \<in> set (take (nat (historyLimit E)) (historyOf uid d)). e_bcryptCompare E p (ph_passwordHash h))"

lemma history_loop_run:
  "forM hs (\<lambda>entry. bindM (comparePassword E p (ph_passwordHash entry)) (\<lambda>m. throw_if m e)) w =
     (if \<exists>h \<in> set hs. e_bcryptCompare E p (ph_passwordHash h) then Inl e else Inr (), w)"
  by (induction hs) (auto simp: monad_simps)

lemma ensureNotRecentlyUsed_run [monad_simps]:
  "ensureNotRecentlyUsed E uid p w =
     (if recentPassword E uid p (w_db w) then Inl (recentlyUsed (historyLimit E)) else Inr (), w)"
  by (simp add: ensureNotRecentlyUsed_def recentPassword_def historyLimit_def Let_def bindM_run
      history_loop_run)

lemma trim_rows:
  "trimPasswordHistory E uid w = (Inr (), if 0 < historyLimit E
     then w_db_update (passwordHistory_update
       (deleteRows (\<lambda>h. h \<in> {h. ph_id h \<in> ph_id ` set (drop (nat (historyLimit E)) (historyOf uid (w_db w)))}))) w
     else w)"
proof (cases "0 < historyLimit E \<and> drop (nat (historyLimit E)) (historyOf uid (w_db w)) \<noteq> []")
  case True
  then show ?thesis
    by (simp add: trimPasswordHistory_def historyLimit_def Let_def monad_simps)
next
  case False
  have "deleteRows (\<lambda>h. False) = (id :: PasswordHistory list \<Rightarrow> _)"
    by (simp add: deleteRows_def fun_eq_iff)
  with False show ?thesis
    by (auto simp: trimPasswordHistory_def historyLimit_def Let_def monad_simps not_less id_def)
qed

lemma set_historyOf: "set (historyOf uid d) = {h \<in> set (passwordHistory d). ph_userId h = uid}"
  by (auto simp: historyOf_def findMany_def)

text \<open>After trimming, the history of the user is its newest entries, at most the limit.\<close>

lemma trim_history:
  assumes "distinct (map ph_id (passwordHistory (w_db w)))" "0 < historyLimit E"
  shows "set (historyOf uid (w_db (snd (trimPasswordHistory E uid w)))) =
      set (take (nat (historyLimit E)) (historyOf uid (w_db w)))"
    and "length (historyOf uid (w_db (snd (trimPasswordHistory E uid w)))) \<le> nat (historyLimit E)"
proof -
  let ?hs = "historyOf uid (w_db w)" and ?n = "nat (historyLimit E)"
  let ?d = "w_db (snd (trimPasswordHistory E uid w))"
  have hist: "passwordHistory ?d =
      filter (\<lambda>h. ph_id h \<notin> ph_id ` set (drop ?n ?hs)) (passwordHistory (w_db w))"
    using assms(2) by (simp add: trim_rows deleteRows_def)
  have sub: "set ?hs \<subseteq> set (passwordHistory (w_db w))" by (auto simp: set_historyOf)
  have "distinct (map ph_id (findMany (\<lambda>h. ph_userId h = uid) (passwordHistory (w_db w))))"
    using assms(1) unfolding findMany_def by (rule distinct_map_filter)
  then have dist: "distinct (map ph_id ?hs)"
    by (simp add: historyOf_def distinct_map)
  have inj: "ph_id h = ph_id h' \<Longrightarrow> h \<in> set ?hs \<Longrightarrow> h' \<in> set ?hs \<Longrightarrow> h = h'" for h h'
    using dist by (metis distinct_map_unique)
  have split: "set ?hs = set (take ?n ?hs) \<union> set (drop ?n ?hs)" "set (take ?n ?hs) \<inter> set (drop ?n ?hs) = {}"
    using dist by (metis append_take_drop_id set_append,
        metis append_take_drop_id distinct_append distinct_map)
  show 1: "set (historyOf uid ?d) = set (take ?n ?hs)"
  proof -
    have "set (historyOf uid ?d) = {h \<in> set ?hs. ph_id h \<notin> ph_id ` set (drop ?n ?hs)}"
      by (auto simp: set_historyOf hist)
    also have "\<dots> = set (take ?n ?hs)" using split inj by blast
    finally show ?thesis .
  qed
  have "distinct (map ph_id (passwordHistory ?d))"
    unfolding hist using assms(1) by (rule distinct_map_filter)
  then have "distinct (historyOf uid ?d)"
    by (simp add: historyOf_def findMany_def distinct_map)
  then have "length (historyOf uid ?d) = card (set (historyOf uid ?d))"
    by (simp add: distinct_card)
  also have "\<dots> \<le> length (take ?n ?hs)" unfolding 1 by (rule card_length)
  also have "\<dots> \<le> ?n" by simp
  finally show "length (historyOf uid ?d) \<le> ?n" .
qed

section \<open>Storing a new password\<close>

definition historyKeys :: "database \<Rightarrow> bool" where
  "historyKeys d \<longleftrightarrow> distinct (map ph_id (passwordHistory d))"

lemma createHistoryEntry_Inr_iff:
  "createHistoryEntry E uid h w = (Inr (), w') \<longleftrightarrow>
     (\<forall>r \<in> set (passwordHistory (w_db w)). ph_id r \<noteq> e_uuid E (w_draws w)) \<and>
     (\<exists>u \<in> set (users (w_db w)). u_id u = uid) \<and>
     w' = w\<lparr>w_draws := Suc (w_draws w), w_db := passwordHistory_update (\<lambda>rows. rows @
       [\<lparr>ph_id = e_uuid E (w_draws w), ph_userId = uid, ph_passwordHash = h,
         ph_createdAt = w_now w\<rparr>]) (w_db w)\<rparr>"
  unfolding createHistoryEntry_def
  by (auto simp: success_iffs newId_run passwordHistoryI.create_Inr_iff)

text \<open>
  The transaction both password methods end in: the user row gets the new hash, one entry is
  added to the history, and the history is trimmed.
\<close>

lemma storePassword_Inr:
  assumes "transaction (thenM (dbUpdate usersT (\<lambda>u. u_id u = uid) f)
      (thenM (createHistoryEntry E uid h) (trimPasswordHistory E uid))) w = (Inr (), w')"
  shows "users (w_db w') = updateRows (\<lambda>u. u_id u = uid) f (users (w_db w))"
    and "sessions (w_db w') = sessions (w_db w)" "refreshTokens (w_db w') = refreshTokens (w_db w)"
    and "passwordResetTokens (w_db w') = passwordResetTokens (w_db w)"
    and "\<exists>u \<in> set (users (w_db w)). u_id u = uid"
    and "historyKeys (w_db w) \<Longrightarrow> 0 < historyLimit E \<Longrightarrow>
      length (historyOf uid (w_db w')) \<le> nat (historyLimit E)"
    and "w_now w' = w_now w"
proof -
  from assms obtain w1 w2 u0 where
    u0: "findFirst (\<lambda>u. u_id u = uid) (users (w_db w)) = Some u0" and
    1: "w1 = w_db_update (users_update (updateRows (\<lambda>u. u_id u = uid) f)) w" and
    2: "createHistoryEntry E uid h w1 = (Inr (), w2)" and
    3: "trimPasswordHistory E uid w2 = (Inr (), w')"
    by (auto simp: transaction_Inr_iff thenM_Inr_iff usersI.update_Inr_iff)
  have hist: "historyKeys (w_db w2)" if "historyKeys (w_db w)"
    using 2 that by (auto simp: createHistoryEntry_Inr_iff historyKeys_def 1)
  have w': "w' = snd (trimPasswordHistory E uid w2)" using 3 by simp
  show "users (w_db w') = updateRows (\<lambda>u. u_id u = uid) f (users (w_db w))"
    "sessions (w_db w') = sessions (w_db w)" "refreshTokens (w_db w') = refreshTokens (w_db w)"
    "passwordResetTokens (w_db w') = passwordResetTokens (w_db w)" "w_now w' = w_now w"
    using 2 unfolding w' trim_rows by (auto simp: createHistoryEntry_Inr_iff 1)
  show "\<exists>u \<in> set (users (w_db w)). u_id u = uid" using u0 by (auto dest: findFirst_SomeD)
  show "length (historyOf uid (w_db w')) \<le> nat (historyLimit E)"
    if "historyKeys (w_db w)" "0 < historyLimit E"
    using trim_history(2) [OF hist [OF that(1), unfolded historyKeys_def] that(2)] by (simp add: w')
qed

lemma revokeAll_Inr: "fst (revokeAllSessionsForUser uid ex w) = Inr ()"
  by (simp add: revokeAll_run Let_def cacheDelete_run)

lemma revokeAll_users: "users (w_db (snd (revokeAllSessionsForUser uid ex w))) = users (w_db w)"
  by (simp add: revokeAll_run Let_def cacheDelete_run revokeIn_def)

lemma revokeAll_history:
  "passwordHistory (w_db (snd (revokeAllSessionsForUser uid ex w))) = passwordHistory (w_db w)"
  by (simp add: revokeAll_run Let_def cacheDelete_run revokeIn_def)

text \<open>Mail jobs and audit records do not touch the database.\<close>

lemma enqueue_db: "w_db (snd (enqueue j w)) = w_db w"
  by (simp add: enqueue_run)

lemma enqueuePasswordChanged_db: "w_db (snd (enqueuePasswordChanged E u w)) = w_db w"
  by (simp add: enqueuePasswordChanged_def bindM_run enqueue_db)

text \<open>Revoking all sessions, or all but one.\<close>

lemma revokeAll_sessions:
  defines "live uid ex w \<equiv> findMany (\<lambda>s. s_userId s = uid \<and> s_revokedAt s = None \<and>
      (truthy_str ex \<longrightarrow> Some (s_id s) \<noteq> ex)) (sessions (w_db w))"
  shows "sessions (w_db (snd (revokeAllSessionsForUser uid ex w))) =
    updateRows (\<lambda>s. s_id s \<in> s_id ` set (live uid ex w)) (\<lambda>s. s\<lparr>s_revokedAt := Some (w_now w)\<rparr>)
      (sessions (w_db w))"
proof (cases "live uid ex w = []")
  case True
  then show ?thesis by (simp add: revokeAll_run live_def [symmetric] updateRows_none)
next
  case False
  then show ?thesis
    by (simp add: revokeAll_run live_def [symmetric] Let_def cacheDelete_run revokeIn_rows)
qed

lemma revokeAll_resetTokens:
  "passwordResetTokens (w_db (snd (revokeAllSessionsForUser uid ex w))) = passwordResetTokens (w_db w)"
  by (simp add: revokeAll_run Let_def cacheDelete_run revokeIn_def)

lemma revokeAll_ids:
  "map s_id (sessions (w_db (snd (revokeAllSessionsForUser uid ex w)))) = map s_id (sessions (w_db w))"
  by (simp add: revokeAll_sessions updateRows_def)

lemma revokeAll_revokes:
  assumes "s \<in> set (sessions (w_db (snd (revokeAllSessionsForUser uid ex w))))"
    and "s_userId s = uid" "truthy_str ex \<Longrightarrow> Some (s_id s) \<noteq> ex"
  shows "s_revokedAt s \<noteq> None"
proof -
  let ?A = "s_id ` set (findMany (\<lambda>s. s_userId s = uid \<and> s_revokedAt s = None \<and>
      (truthy_str ex \<longrightarrow> Some (s_id s) \<noteq> ex)) (sessions (w_db w)))"
  from assms(1) obtain s0 where s0: "s0 \<in> set (sessions (w_db w))"
    "s = (if s_id s0 \<in> ?A then s0\<lparr>s_revokedAt := Some (w_now w)\<rparr> else s0)"
    unfolding revokeAll_sessions by (auto simp: set_updateRows)
  show ?thesis
  proof (cases "s_id s0 \<in> ?A")
    case True
    then show ?thesis using s0(2) by simp
  next
    case False
    then have "s = s0" using s0(2) by simp
    with False s0(1) assms(2,3) show ?thesis by (auto simp: set_findMany)
  qed
qed

section \<open>Resetting a password\<close>

lemma resetPassword_stages:
  assumes "resetPassword E tok np w = (Inr (), w')"
  obtains uid w1 w2 w3 where
    "strongPassword (ac_passwordPolicy (e_auth E)) np"
    "consumePasswordResetToken E tok w = (Inr uid, w1)"
    "\<not> recentPassword E uid np (w_db w1)"
    "hashPassword E np w1 = (Inr (e_bcryptHash E (w_draws w1) (ac_bcryptSaltRounds (e_auth E)) np), w2)"
    "transaction (thenM (dbUpdate usersT (\<lambda>u. u_id u = uid)
        (\<lambda>u. u\<lparr>u_passwordHash := e_bcryptHash E (w_draws w1) (ac_bcryptSaltRounds (e_auth E)) np,
               u_tokenVersion := u_tokenVersion u + 1\<rparr>))
      (thenM (createHistoryEntry E uid (e_bcryptHash E (w_draws w1) (ac_bcryptSaltRounds (e_auth E)) np))
             (trimPasswordHistory E uid))) w2 = (Inr (), w3)"
    "w_db w' = w_db (snd (revokeAllSessionsForUser uid None w3))"
proof -
  from assms have strong: "strongPassword (ac_passwordPolicy (e_auth E)) np"
    by (auto simp: resetPassword_def thenM_Inr_iff enforcePolicy_run split: if_splits)
  from assms obtain uid w1 where c: "consumePasswordResetToken E tok w = (Inr uid, w1)"
    by (auto simp: resetPassword_def success_iffs enforcePolicy_run split: if_splits)
  let ?h = "e_bcryptHash E (w_draws w1) (ac_bcryptSaltRounds (e_auth E)) np"
  let ?w2 = "w1\<lparr>w_draws := Suc (w_draws w1)\<rparr>"
  have hp: "hashPassword E np w1 = (Inr ?h, ?w2)" by (simp add: hashPassword_run)
  from assms c have nr: "\<not> recentPassword E uid np (w_db w1)"
    by (auto simp: resetPassword_def success_iffs enforcePolicy_run ensureNotRecentlyUsed_run
        split: if_splits)
  let ?tx = "transaction (thenM (dbUpdate usersT (\<lambda>u. u_id u = uid)
        (\<lambda>u. u\<lparr>u_passwordHash := ?h, u_tokenVersion := u_tokenVersion u + 1\<rparr>))
      (thenM (createHistoryEntry E uid ?h) (trimPasswordHistory E uid)))"
  let ?tail = "\<lambda>w. thenM (auditRecord E PASSWORD_RESET_COMPLETED AR_USER (auditOk (Some uid) None None []))
       (bindM (dbFind usersT (\<lambda>u. u_id u = uid)) (\<lambda>row.
        case row of None \<Rightarrow> returnM () | Some user \<Rightarrow> enqueuePasswordChanged E user)) w"
  have tail_db: "w_db (snd (?tail w)) = w_db w" for w
    by (simp add: thenM_run bindM_run auditRecord_run dbFind_run enqueuePasswordChanged_db
        split: option.split)
  from assms c hp nr strong obtain w3 where tx: "?tx ?w2 = (Inr (), w3)"
    and rest: "?tail (snd (revokeAllSessionsForUser uid None w3)) = (Inr (), w')"
    using revokeAll_Inr [of uid None]
    by (fastforce simp: resetPassword_def success_iffs enforcePolicy_run ensureNotRecentlyUsed_run
        thenM_Inr_iff [of "revokeAllSessionsForUser uid None"])
  have "w_db w' = w_db (snd (revokeAllSessionsForUser uid None w3))"
    using rest tail_db by (metis snd_conv)
  with strong c nr hp tx that show thesis by blast
qed

lemma consumeReset_frame:
  assumes "consumePasswordResetToken E tok w = (Inr uid, w1)"
  shows "users (w_db w1) = users (w_db w)" "sessions (w_db w1) = sessions (w_db w)"
    "refreshTokens (w_db w1) = refreshTokens (w_db w)"
    "passwordHistory (w_db w1) = passwordHistory (w_db w)"
    "\<exists>r \<in> set (passwordResetTokens (w_db w)). ot_tokenHash r = hashToken E tok \<and> ot_userId r = uid \<and>
       ot_usedAt r = None \<and> w_now w < ot_expiresAt r \<and>
       r\<lparr>ot_usedAt := Some (w_now w)\<rparr> \<in> set (passwordResetTokens (w_db w1))"
proof -
  from assms obtain r where "redeemToken passwordResetTokensT E tok invalidResetToken w = (Inr r, w1)"
    "uid = ot_userId r"
    by (auto simp: consumeReset_run split: prod.splits sum.splits)
  then show "users (w_db w1) = users (w_db w)" "sessions (w_db w1) = sessions (w_db w)"
    "refreshTokens (w_db w1) = refreshTokens (w_db w)"
    "passwordHistory (w_db w1) = passwordHistory (w_db w)"
    "\<exists>r \<in> set (passwordResetTokens (w_db w)). ot_tokenHash r = hashToken E tok \<and> ot_userId r = uid \<and>
       ot_usedAt r = None \<and> w_now w < ot_expiresAt r \<and>
       r\<lparr>ot_usedAt := Some (w_now w)\<rparr> \<in> set (passwordResetTokens (w_db w1))"
    by (auto simp: resetTok.redeem_Inr_iff set_updateRows dest!: findFirst_SomeD)
qed

text \<open>
  C19: what a successful password reset leaves behind.  The link belonged to one user, was
  unused and not expired, and its row is marked used now; the new password meets the policy and
  is none of the remembered ones; the user's row holds a hash of it and a token version one
  higher (so no bearer token issued before is valid); no session is deleted and every session of
  the user is revoked, every refresh token of the user is spent, and the history is within its
  limit.
\<close>

theorem password_reset_guarantees:
  assumes "resetPassword E tok np w = (Inr (), w')"
    and "sessionInv (w_db w)" "usersDistinct (w_db w)" "historyKeys (w_db w)"
  shows "strongPassword (ac_passwordPolicy (e_auth E)) np \<and>
    (\<exists>r \<in> set (passwordResetTokens (w_db w)). \<exists>u \<in> set (users (w_db w)). \<exists>n.
       ot_tokenHash r = hashToken E tok \<and> ot_usedAt r = None \<and> w_now w < ot_expiresAt r \<and>
       r\<lparr>ot_usedAt := Some (w_now w)\<rparr> \<in> set (passwordResetTokens (w_db w')) \<and>
       u_id u = ot_userId r \<and> \<not> recentPassword E (u_id u) np (w_db w) \<and>
       u\<lparr>u_passwordHash := e_bcryptHash E n (ac_bcryptSaltRounds (e_auth E)) np,
         u_tokenVersion := u_tokenVersion u + 1\<rparr> \<in> set (users (w_db w')) \<and>
       map s_id (sessions (w_db w')) = map s_id (sessions (w_db w)) \<and>
       (\<forall>s \<in> set (sessions (w_db w')). s_userId s = u_id u \<longrightarrow> s_revokedAt s \<noteq> None) \<and>
       (\<forall>t \<in> set (refreshTokens (w_db w)). rt_userId t = u_id u \<longrightarrow>
          tokenSpent (rt_tokenHash t) (w_db w')) \<and>
       (0 < historyLimit E \<longrightarrow>
          length (historyOf (u_id u) (w_db w')) \<le> nat (historyLimit E)))"
  using assms(1)
proof (rule resetPassword_stages)
  fix uid and w1 w2 w3 :: world
  let ?h = "e_bcryptHash E (w_draws w1) (ac_bcryptSaltRounds (e_auth E)) np"
  assume strong: "strongPassword (ac_passwordPolicy (e_auth E)) np"
    and c: "consumePasswordResetToken E tok w = (Inr uid, w1)"
    and nr: "\<not> recentPassword E uid np (w_db w1)"
    and hp: "hashPassword E np w1 = (Inr ?h, w2)"
    and tx: "transaction (thenM (dbUpdate usersT (\<lambda>u. u_id u = uid)
        (\<lambda>u. u\<lparr>u_passwordHash := ?h, u_tokenVersion := u_tokenVersion u + 1\<rparr>))
      (thenM (createHistoryEntry E uid ?h) (trimPasswordHistory E uid))) w2 = (Inr (), w3)"
    and w': "w_db w' = w_db (snd (revokeAllSessionsForUser uid None w3))"
  note tx = storePassword_Inr [OF tx]
  have w2: "w_db w2 = w_db w1" using hp by (simp add: hashPassword_run) auto
  obtain u where u: "u \<in> set (users (w_db w))" "u_id u = uid"
    using tx(5) consumeReset_frame(1) [OF c] by (auto simp: w2)
  obtain r where r: "r \<in> set (passwordResetTokens (w_db w))" "ot_tokenHash r = hashToken E tok"
    "ot_userId r = uid" "ot_usedAt r = None" "w_now w < ot_expiresAt r"
    "r\<lparr>ot_usedAt := Some (w_now w)\<rparr> \<in> set (passwordResetTokens (w_db w1))"
    using consumeReset_frame(5) [OF c] by blast
  let ?u = "u\<lparr>u_passwordHash := ?h, u_tokenVersion := u_tokenVersion u + 1\<rparr>"
  have "?u \<in> set (users (w_db w'))"
    using u consumeReset_frame(1) [OF c] unfolding w'
    by (auto simp: revokeAll_users tx(1) w2 set_updateRows intro!: image_eqI [of _ _ u])
  moreover have "r\<lparr>ot_usedAt := Some (w_now w)\<rparr> \<in> set (passwordResetTokens (w_db w'))"
    using r(6) by (simp add: w' revokeAll_resetTokens tx(4) w2)
  moreover have "map s_id (sessions (w_db w')) = map s_id (sessions (w_db w))"
    using tx(2) consumeReset_frame(2) [OF c] by (simp add: w' revokeAll_ids w2)
  moreover have "s_revokedAt s \<noteq> None" if "s \<in> set (sessions (w_db w'))" "s_userId s = uid" for s
    using revokeAll_revokes [of s uid None w3] that by (simp add: w' truthy_str_def)
  moreover have "tokenSpent (rt_tokenHash t) (w_db w')"
    if "t \<in> set (refreshTokens (w_db w))" "rt_userId t = uid" for t
  proof -
    have eqs: "sessions (w_db w3) = sessions (w_db w)" "refreshTokens (w_db w3) = refreshTokens (w_db w)"
      using tx(2,3) consumeReset_frame(2,3) [OF c] by (simp_all add: w2)
    then have "sessionInv (w_db w3)" using assms(2) sessionInv_cong by blast
    then show ?thesis unfolding w' by (rule revokeAll_spends) (use that eqs in simp_all)
  qed
  moreover have "length (historyOf uid (w_db w')) \<le> nat (historyLimit E)" if "0 < historyLimit E"
    using tx(6) that assms(4) consumeReset_frame(4) [OF c] unfolding w'
    by (simp add: historyOf_def revokeAll_history historyKeys_def w2)
  moreover have "\<not> recentPassword E uid np (w_db w)"
    using nr consumeReset_frame(4) [OF c] by (simp add: recentPassword_def historyOf_def)
  ultimately show ?thesis using strong u r
    by (intro conjI bexI [of _ r] bexI [of _ u] exI [of _ "w_draws w1"]) auto
qed

text \<open>A world in which the password is in the history of the user.\<close>

definition reusedWorld :: world where
  "reusedWorld = snd (issuePasswordResetToken sampleEnv ''alice''
     (withDb (\<lambda>d. d\<lparr>passwordHistory := [\<lparr>ph_id = ''h1'', ph_userId = ''alice'',
        ph_passwordHash = ''$2b$Correct-Horse-7'', ph_createdAt = 0\<rparr>]\<rparr>)))"

definition changeInput :: ChangePasswordInput where
  "changeInput = \<lparr>ci_userId = ''alice'', ci_currentPassword = ''pw'',
     ci_newPassword = ''Correct-Horse-7'', ci_revokeOtherSessions = True,
     ci_currentSessionId = ''other''\<rparr>"

theorem password_reset_guarantees_witness:
  "\<exists>u n. u\<lparr>u_passwordHash := e_bcryptHash sampleEnv n 12 ''Correct-Horse-7'', u_tokenVersion := u_tokenVersion u + 1\<rparr>
     \<in> set (users (w_db (snd (resetPassword sampleEnv resetToken1 ''Correct-Horse-7'' afterResetIssue))))"
proof -
  let ?run = "resetPassword sampleEnv resetToken1 ''Correct-Horse-7'' afterResetIssue"
  have "fst ?run = Inr ()" by code_simp
  then have run: "?run = (Inr (), snd ?run)" by (metis prod.collapse)
  have "sessions (w_db afterResetIssue) = []" "refreshTokens (w_db afterResetIssue) = []"
    "passwordHistory (w_db afterResetIssue) = []" "map u_id (users (w_db afterResetIssue)) = [''alice'', ''bob'']"
    "map u_email (users (w_db afterResetIssue)) = [''alice@example.com'', ''bob@example.com'']"
    by code_simp+
  then have "sessionInv (w_db afterResetIssue)" "usersDistinct (w_db afterResetIssue)"
    "historyKeys (w_db afterResetIssue)"
    by (simp_all add: sessionInv_empty usersDistinct_def historyKeys_def)
  from password_reset_guarantees [OF run this]
  have "\<exists>u n. u\<lparr>u_passwordHash := e_bcryptHash sampleEnv n (ac_bcryptSaltRounds (e_auth sampleEnv)) ''Correct-Horse-7'',
      u_tokenVersion := u_tokenVersion u + 1\<rparr> \<in> set (users (w_db (snd ?run)))" by blast
  moreover have "ac_bcryptSaltRounds (e_auth sampleEnv) = 12" by (simp add: sampleEnv_def)
  ultimately show ?thesis by simp
qed

text \<open>
  Choosing a remembered password burns the reset link.  The token is consumed in its own
  transaction before the history is checked, so a request that is answered with
  \<open>PASSWORD_RECENTLY_USED\<close> changes no password, and the same link is refused from then on.
\<close>

theorem rejected_reset_burns_link:
  assumes "verificationInv (w_db w)"
    and "consumePasswordResetToken E tok w = (Inr uid, w1)" "recentPassword E uid np (w_db w)"
    and "strongPassword (ac_passwordPolicy (e_auth E)) np"
    and "strongPassword (ac_passwordPolicy (e_auth E)) np'"
    and "(verification_step E)\<^sup>*\<^sup>* w1 w2"
  shows "resetPassword E tok np w = (Inl (recentlyUsed (historyLimit E)), w1) \<and>
    users (w_db w1) = users (w_db w) \<and>
    resetPassword E tok np' w2 = (Inl invalidResetToken, w2)"
proof -
  have "recentPassword E uid np (w_db w1)"
    using assms(3) consumeReset_frame(4) [OF assms(2)] by (simp add: recentPassword_def historyOf_def)
  then have 1: "resetPassword E tok np w = (Inl (recentlyUsed (historyLimit E)), w1)"
    using assms(2,4) by (simp add: resetPassword_def monad_simps)
  have "verificationInv (w_db w2) \<and> tokenUsed (hashToken E tok) (passwordResetTokens (w_db w2))"
    using resetOnce.used_stays_spent [OF assms(1,2)] assms(6) by blast
  then have "consumePasswordResetToken E tok w2 = (Inl invalidResetToken, w2)"
    by (simp add: consumeReset_run resetTok.redeem_used verificationInv_def)
  then show ?thesis
    using 1 assms(5) consumeReset_frame(1) [OF assms(2)]
    by (simp add: resetPassword_def thenM_run bindM_run enforcePolicy_run)
qed

theorem rejected_reset_burns_link_witness:
  "resetPassword sampleEnv resetToken1 ''Another-Horse-8''
     (snd (resetPassword sampleEnv resetToken1 ''Correct-Horse-7'' reusedWorld)) =
   (Inl invalidResetToken, snd (resetPassword sampleEnv resetToken1 ''Correct-Horse-7'' reusedWorld))"
proof -
  let ?w1 = "snd (consumePasswordResetToken sampleEnv resetToken1 reusedWorld)"
  have inv: "verificationInv (w_db reusedWorld)"
    unfolding reusedWorld_def
    by (rule verification_step_inv [OF verification_step.issue_reset])
      (simp add: withDb_def worldOf_def emptyDb_def verificationInv_def tokensDistinct_def)
  have "fst (consumePasswordResetToken sampleEnv resetToken1 reusedWorld) = Inr ''alice''" by code_simp
  then have c: "consumePasswordResetToken sampleEnv resetToken1 reusedWorld = (Inr ''alice'', ?w1)"
    by (metis prod.collapse)
  have hist: "historyOf ''alice'' (w_db reusedWorld) = [\<lparr>ph_id = ''h1'', ph_userId = ''alice'',
        ph_passwordHash = ''$2b$Correct-Horse-7'', ph_createdAt = 0\<rparr>]" by code_simp
  have rec: "recentPassword sampleEnv ''alice'' ''Correct-Horse-7'' (w_db reusedWorld)"
    unfolding recentPassword_def hist by (simp add: historyLimit_def sampleEnv_def)
  have strong: "strongPassword (ac_passwordPolicy (e_auth sampleEnv)) ''Correct-Horse-7''"
    "strongPassword (ac_passwordPolicy (e_auth sampleEnv)) ''Another-Horse-8''"
    unfolding evaluatePassword_valid_iff [symmetric] by code_simp+
  from rejected_reset_burns_link [OF inv c rec strong rtranclp.rtrancl_refl] show ?thesis by simp
qed

lemma changePassword_stages:
  assumes "changePassword E ci w = (Inr (), w')"
  obtains u w1 w2 where
    "findFirst (\<lambda>u. u_id u = ci_userId ci) (users (w_db w)) = Some u"
    "e_bcryptCompare E (ci_currentPassword ci) (u_passwordHash u)"
    "strongPassword (ac_passwordPolicy (e_auth E)) (ci_newPassword ci)"
    "\<not> recentPassword E (ci_userId ci) (ci_newPassword ci) (w_db w)"
    "w1 = w\<lparr>w_draws := Suc (w_draws w)\<rparr>"
    "transaction (thenM (dbUpdate usersT (\<lambda>v. u_id v = u_id u)
        (\<lambda>v. v\<lparr>u_passwordHash := e_bcryptHash E (w_draws w) (ac_bcryptSaltRounds (e_auth E)) (ci_newPassword ci)\<rparr>))
      (thenM (createHistoryEntry E (u_id u)
          (e_bcryptHash E (w_draws w) (ac_bcryptSaltRounds (e_auth E)) (ci_newPassword ci)))
        (trimPasswordHistory E (u_id u)))) w1 = (Inr (), w2)"
    "w_db w' = w_db (if ci_revokeOtherSessions ci
       then snd (revokeAllSessionsForUser (ci_userId ci) (Some (ci_currentSessionId ci)) w2) else w2)"
proof -
  from assms obtain u where u:
    "findFirst (\<lambda>u. u_id u = ci_userId ci) (users (w_db w)) = Some u"
    "e_bcryptCompare E (ci_currentPassword ci) (u_passwordHash u)"
    "strongPassword (ac_passwordPolicy (e_auth E)) (ci_newPassword ci)"
    "\<not> recentPassword E (ci_userId ci) (ci_newPassword ci) (w_db w)"
    by (auto simp: changePassword_def success_iffs dbFind_run comparePassword_run enforcePolicy_run
        ensureNotRecentlyUsed_run split: if_splits)
  let ?h = "e_bcryptHash E (w_draws w) (ac_bcryptSaltRounds (e_auth E)) (ci_newPassword ci)"
  let ?w1 = "w\<lparr>w_draws := Suc (w_draws w)\<rparr>"
  let ?tail = "\<lambda>w. thenM (auditRecord E PASSWORD_CHANGED AR_USER
               (auditOk (Some (u_id u)) (Some (u_id u)) (Some (u_email u)) []))
     (enqueuePasswordChanged E u) w"
  have tail_db: "w_db (snd (?tail w)) = w_db w" for w
    by (simp add: thenM_run auditRecord_run enqueuePasswordChanged_db)
  let ?rev = "whenM (ci_revokeOtherSessions ci)
      (revokeAllSessionsForUser (ci_userId ci) (Some (ci_currentSessionId ci)))"
  have rev: "fst (?rev w) = Inr ()" for w by (simp add: whenM_run revokeAll_Inr)
  from assms u obtain w2 where tx: "transaction (thenM (dbUpdate usersT (\<lambda>v. u_id v = u_id u)
        (\<lambda>v. v\<lparr>u_passwordHash := ?h\<rparr>))
      (thenM (createHistoryEntry E (u_id u) ?h) (trimPasswordHistory E (u_id u)))) ?w1 = (Inr (), w2)"
    and rest: "?tail (snd (?rev w2)) = (Inr (), w')"
    using rev
    by (fastforce simp: changePassword_def success_iffs dbFind_run comparePassword_run hashPassword_run
        enforcePolicy_run ensureNotRecentlyUsed_run thenM_Inr_iff [of ?rev])
  have "w_db w' = w_db (snd (?rev w2))" using rest tail_db by (metis snd_conv)
  then show thesis
    by (intro that [OF u refl tx]) (simp add: whenM_run)
qed

text \<open>
  C20: what a successful password change guarantees: the current password was right, the new
  one meets the policy and is none of the remembered ones, the row holds a hash of it, the
  history is within its limit, and, when asked for, every other session of the user is
  revoked.
\<close>

theorem password_change_guarantees:
  assumes "changePassword E ci w = (Inr (), w')"
    and "historyKeys (w_db w)"
    and "ci_currentSessionId ci \<noteq> []"
  shows "strongPassword (ac_passwordPolicy (e_auth E)) (ci_newPassword ci) \<and>
    \<not> recentPassword E (ci_userId ci) (ci_newPassword ci) (w_db w) \<and>
    (\<exists>u \<in> set (users (w_db w)). u_id u = ci_userId ci \<and>
       e_bcryptCompare E (ci_currentPassword ci) (u_passwordHash u) \<and>
       u\<lparr>u_passwordHash := e_bcryptHash E (w_draws w) (ac_bcryptSaltRounds (e_auth E)) (ci_newPassword ci)\<rparr>
         \<in> set (users (w_db w'))) \<and>
    (0 < historyLimit E \<longrightarrow>
       length (historyOf (ci_userId ci) (w_db w')) \<le> nat (historyLimit E)) \<and>
    (ci_revokeOtherSessions ci \<longrightarrow> (\<forall>s \<in> set (sessions (w_db w')).
       s_userId s = ci_userId ci \<and> s_id s \<noteq> ci_currentSessionId ci \<longrightarrow> s_revokedAt s \<noteq> None))"
  using assms(1)
proof (rule changePassword_stages)
  fix u and w1 w2 :: world
  let ?h = "e_bcryptHash E (w_draws w) (ac_bcryptSaltRounds (e_auth E)) (ci_newPassword ci)"
  let ?rev = "revokeAllSessionsForUser (ci_userId ci) (Some (ci_currentSessionId ci))"
  assume f: "findFirst (\<lambda>u. u_id u = ci_userId ci) (users (w_db w)) = Some u"
    and cmp: "e_bcryptCompare E (ci_currentPassword ci) (u_passwordHash u)"
    and ok: "strongPassword (ac_passwordPolicy (e_auth E)) (ci_newPassword ci)"
      "\<not> recentPassword E (ci_userId ci) (ci_newPassword ci) (w_db w)"
    and w1: "w1 = w\<lparr>w_draws := Suc (w_draws w)\<rparr>"
    and tx: "transaction (thenM (dbUpdate usersT (\<lambda>v. u_id v = u_id u) (\<lambda>v. v\<lparr>u_passwordHash := ?h\<rparr>))
      (thenM (createHistoryEntry E (u_id u) ?h) (trimPasswordHistory E (u_id u)))) w1 = (Inr (), w2)"
    and w': "w_db w' = w_db (if ci_revokeOtherSessions ci then snd (?rev w2) else w2)"
  note tx = storePassword_Inr [OF tx]
  have u: "u \<in> set (users (w_db w))" "u_id u = ci_userId ci" using f by (auto dest: findFirst_SomeD)
  have users: "users (w_db w') = users (w_db w2)" by (simp add: w' revokeAll_users)
  have "u\<lparr>u_passwordHash := ?h\<rparr> \<in> set (users (w_db w'))"
    using u unfolding users tx(1) by (auto simp: w1 set_updateRows intro!: image_eqI [of _ _ u])
  moreover have "historyOf (ci_userId ci) (w_db w') = historyOf (ci_userId ci) (w_db w2)"
    by (simp add: historyOf_def w' revokeAll_history)
  then have "length (historyOf (ci_userId ci) (w_db w')) \<le> nat (historyLimit E)" if "0 < historyLimit E"
    using tx(6) that assms(2) u(2) by (simp add: w1 historyKeys_def)
  moreover have "s_revokedAt s \<noteq> None" if "ci_revokeOtherSessions ci" "s \<in> set (sessions (w_db w'))"
    "s_userId s = ci_userId ci" "s_id s \<noteq> ci_currentSessionId ci" for s
  proof (rule revokeAll_revokes)
    show "s \<in> set (sessions (w_db (snd (?rev w2))))" using that(1,2) by (simp add: w')
  qed (use that assms(3) in auto)
  ultimately show ?thesis using ok u cmp
    by (intro conjI bexI [of _ u] ballI impI) auto
qed

theorem password_change_guarantees_witness:
  "\<not> (\<exists>s \<in> set (sessions (w_db (snd (changePassword sampleEnv changeInput afterLogin)))).
     s_userId s = ''alice'' \<and> s_id s \<noteq> ''other'' \<and> s_revokedAt s = None)"
proof -
  let ?run = "changePassword sampleEnv changeInput afterLogin"
  have "fst ?run = Inr ()" by code_simp
  then have run: "?run = (Inr (), snd ?run)" by (metis prod.collapse)
  have "passwordHistory (w_db afterLogin) = []" by code_simp
  then have k: "historyKeys (w_db afterLogin)" by (simp add: historyKeys_def)
  have "ci_currentSessionId changeInput \<noteq> []" by (simp add: changeInput_def)
  from password_change_guarantees [OF run k this] show ?thesis
    by (auto simp: changeInput_def)
qed

end
