(* ===== verification/Memberships.thy ===== *)
theory Memberships
  imports ActiveContext Steps Fixtures
begin

text \<open>
  Members of organizations: \<open>organizations/services/membership.service.ts\<close> and
  \<open>organizations/services/organization.service.ts\<close>.
\<close>

section \<open>Joins\<close>

text \<open>\<open>userRoles: { some: { roleId } }\<close> and the roles reached through a user-role row.\<close>

definition hasUserRole :: "database \<Rightarrow> string \<Rightarrow> string \<Rightarrow> bool" where
  "hasUserRole d mid rid \<longleftrightarrow> (\<exists>ur \<in> set (userRoles d). ur_membershipId ur = mid \<and> ur_roleId ur = rid)"

definition membershipExists :: "database \<Rightarrow> (Membership \<Rightarrow> bool) \<Rightarrow> string \<Rightarrow> bool" where
  "membershipExists d p mid \<longleftrightarrow> (\<exists>m \<in> set (memberships d). m_id m = mid \<and> p m)"

definition roleExists :: "database \<Rightarrow> (Role \<Rightarrow> bool) \<Rightarrow> string \<Rightarrow> bool" where
  "roleExists d p rid \<longleftrightarrow> (\<exists>r \<in> set (roles d). r_id r = rid \<and> p r)"

text \<open>\<open>userRole.upsert\<close> with an empty update.\<close>

definition upsertUserRole :: "string \<Rightarrow> string \<Rightarrow> unit act" where
  "upsertUserRole mid rid =
     bindM (dbFind userRolesT (\<lambda>ur. ur_membershipId ur = mid \<and> ur_roleId ur = rid)) (\<lambda>row.
     whenM (row = None)
       (thenM (dbCreate userRolesT [''membershipId'', ''roleId'']
                 (\<lambda>ur. ur_membershipId ur = mid \<and> ur_roleId ur = rid)
                 (\<lambda>d. membershipExists d (\<lambda>_. True) mid \<and> roleExists d (\<lambda>_. True) rid)
                 \<lparr>ur_membershipId = mid, ur_roleId = rid\<rparr>)
        (returnM ())))"

section \<open>MembershipService\<close>

definition ADMIN :: string where
  "ADMIN = ''admin''"

text \<open>
  A field of the body may be missing or \<open>null\<close>, which \<open>@IsOptional\<close> admits: \<open>None\<close> is
  \<open>undefined\<close> and \<open>Some None\<close> is \<open>null\<close>.  The status is only read through \<open>??\<close>, which merges them.
\<close>

record UpdateMemberDto =
  um_status :: "MembershipStatus option"
  um_department :: "(string option) option"
  um_region :: "(string option) option"
  um_jobTitle :: "(string option) option"
  um_clearanceLevel :: "(int option) option"

text \<open>\<open>x ?? undefined\<close>.\<close>

definition orUndefined :: "('a option) option \<Rightarrow> 'a option" where
  "orUndefined x = (case x of None \<Rightarrow> None | Some v \<Rightarrow> v)"

definition membershipNotFound :: exn where
  "membershipNotFound = appExn ''MEMBERSHIP_NOT_FOUND'' ''Membership not found'' 404"

definition lastAdminRemoval :: exn where
  "lastAdminRemoval =
     appExn ''LAST_ADMIN_REMOVAL'' ''Cannot remove the last admin from an organization'' 409"

definition findMembershipById :: "string \<Rightarrow> string \<Rightarrow> Membership act" where
  "findMembershipById mid oid =
     bindM (dbFind membershipsT (\<lambda>m. m_id m = mid \<and> m_organizationId m = oid \<and> m_deletedAt m = None)) (\<lambda>row.
     orThrow row (NotFoundAppException ''Membership not found''))"

definition findByUserAndOrg :: "string \<Rightarrow> string \<Rightarrow> (Membership option) act" where
  "findByUserAndOrg uid oid =
     dbFind membershipsT (\<lambda>m. m_userId m = uid \<and> m_organizationId m = oid \<and> m_deletedAt m = None)"

definition findByUserAndOrgOrThrow :: "string \<Rightarrow> string \<Rightarrow> Membership act" where
  "findByUserAndOrgOrThrow uid oid =
     bindM (findByUserAndOrg uid oid) (\<lambda>row. orThrow row membershipNotFound)"

definition listMembers :: "string \<Rightarrow> ((Membership \<times> User option) list) act" where
  "listMembers oid = getsM (\<lambda>w.
     map (\<lambda>m. (m, findFirst (\<lambda>u. u_id u = m_userId m) (users (w_db w))))
       (sort_key m_joinedAt (findMany (\<lambda>m. m_organizationId m = oid \<and> m_deletedAt m = None)
          (memberships (w_db w)))))"

definition updateAttributes ::
  "env \<Rightarrow> string \<Rightarrow> string \<Rightarrow> UpdateMemberDto \<Rightarrow> string \<Rightarrow> Membership act" where
  "updateAttributes E oid targetUserId dto actorUserId =
     bindM (findByUserAndOrgOrThrow targetUserId oid) (\<lambda>membership.
     let attributeChanged = (um_department dto \<noteq> None \<or> um_region dto \<noteq> None \<or>
           um_jobTitle dto \<noteq> None \<or> um_clearanceLevel dto \<noteq> None) in
     bindM (dbUpdate membershipsT (\<lambda>m. m_id m = m_id membership)
        (\<lambda>m. (if attributeChanged then m_attributesVersion_update (\<lambda>v. v + 1) else (\<lambda>m. m))
          (setIf (um_status dto) (\<lambda>x m. m\<lparr>m_status := x\<rparr>)
          (setIf (orUndefined (um_department dto)) (\<lambda>x m. m\<lparr>m_department := Some x\<rparr>)
          (setIf (orUndefined (um_region dto)) (\<lambda>x m. m\<lparr>m_region := Some x\<rparr>)
          (setIf (orUndefined (um_jobTitle dto)) (\<lambda>x m. m\<lparr>m_jobTitle := Some x\<rparr>)
          (setIf (orUndefined (um_clearanceLevel dto)) (\<lambda>x m. m\<lparr>m_clearanceLevel := x\<rparr>) m))))))) (\<lambda>updated.
     thenM (auditRecord E ORG_MEMBER_UPDATED AR_MEMBERSHIP
              (auditOk (Some (m_id updated)) (Some actorUserId) None
                 [(''organizationId'', JStr oid), (''targetUserId'', JStr targetUserId)]))
     (returnM updated)))"

definition adminRows :: "database \<Rightarrow> string \<Rightarrow> UserRole list" where
  "adminRows d oid = findMany (\<lambda>ur.
     membershipExists d (\<lambda>m. m_organizationId m = oid \<and> m_deletedAt m = None \<and> m_status m = MemberActive)
       (ur_membershipId ur) \<and>
     roleExists d (\<lambda>r. r_slug r = ADMIN \<and> r_deletedAt r = None) (ur_roleId ur)) (userRoles d)"

definition ensureNotLastAdmin :: "string \<Rightarrow> string \<Rightarrow> unit act" where
  "ensureNotLastAdmin oid mid =
     bindM (getsM (\<lambda>w. length (adminRows (w_db w) oid))) (\<lambda>adminCount.
     whenM (adminCount \<le> 1)
       (bindM (getsM (\<lambda>w. findFirst (\<lambda>ur. ur_membershipId ur = mid \<and>
                 roleExists (w_db w) (\<lambda>r. r_slug r = ADMIN) (ur_roleId ur)) (userRoles (w_db w)))) (\<lambda>isAdmin.
        throw_if (isAdmin \<noteq> None) lastAdminRemoval)))"

definition removeMember :: "env \<Rightarrow> string \<Rightarrow> string \<Rightarrow> string \<Rightarrow> unit act" where
  "removeMember E oid targetUserId actorUserId =
     bindM (findByUserAndOrgOrThrow targetUserId oid) (\<lambda>membership.
     thenM (ensureNotLastAdmin oid (m_id membership))
     (bindM nowM (\<lambda>now.
     thenM (dbUpdate membershipsT (\<lambda>m. m_id m = m_id membership)
              (\<lambda>m. m\<lparr>m_status := MemberRemoved, m_deletedAt := Some now\<rparr>))
     (auditRecord E ORG_MEMBER_REMOVED AR_MEMBERSHIP
        (auditOk (Some (m_id membership)) (Some actorUserId) None
           [(''organizationId'', JStr oid), (''targetUserId'', JStr targetUserId)])))))"

definition bumpPermissionsVersion :: "string \<Rightarrow> unit act" where
  "bumpPermissionsVersion mid =
     thenM (dbUpdate membershipsT (\<lambda>m. m_id m = mid) (m_permissionsVersion_update (\<lambda>v. v + 1)))
     (returnM ())"

definition bumpPermissionsVersionForRole :: "string \<Rightarrow> unit act" where
  "bumpPermissionsVersionForRole rid =
     bindM (getsM (\<lambda>w. findMany (\<lambda>m. hasUserRole (w_db w) (m_id m) rid \<and> m_deletedAt m = None)
              (memberships (w_db w)))) (\<lambda>rows.
     whenM (rows \<noteq> [])
       (dbUpdateMany membershipsT (\<lambda>m. m_id m \<in> set (map m_id rows))
          (m_permissionsVersion_update (\<lambda>v. v + 1))))"

definition bumpAllVersionsForOrg :: "string \<Rightarrow> unit act" where
  "bumpAllVersionsForOrg oid =
     dbUpdateMany membershipsT (\<lambda>m. m_organizationId m = oid \<and> m_deletedAt m = None)
       (\<lambda>m. m\<lparr>m_permissionsVersion := m_permissionsVersion m + 1,
              m_attributesVersion := m_attributesVersion m + 1\<rparr>)"

section \<open>OrganizationService\<close>

record CreateOrganizationDto =
  co_name :: string
  co_slug :: string
  co_status :: "OrganizationStatus option"
  co_plan :: "OrganizationPlan option"
  co_settings :: "jsval option"

record UpdateOrganizationDto =
  uo_name :: "string option"
  uo_status :: "OrganizationStatus option"
  uo_plan :: "OrganizationPlan option"
  uo_settings :: "jsval option"

definition orgSlugTaken :: exn where
  "orgSlugTaken = appExn ''ORG_SLUG_TAKEN'' ''Slug is already taken'' 409"

definition planName :: "OrganizationPlan \<Rightarrow> string" where
  "planName p = (case p of PlanFree \<Rightarrow> ''FREE'' | PlanPro \<Rightarrow> ''PRO'' | PlanEnterprise \<Rightarrow> ''ENTERPRISE'')"

text \<open>The row of a new membership; \<open>@@unique([userId, organizationId])\<close>.\<close>

definition createMembership :: "env \<Rightarrow> string \<Rightarrow> string \<Rightarrow> (Membership \<Rightarrow> Membership) \<Rightarrow> Membership act" where
  "createMembership E uid oid attrs =
     bindM (newId E) (\<lambda>mid.
     bindM nowM (\<lambda>now.
     dbCreate membershipsT [''userId'', ''organizationId'']
       (\<lambda>m. m_id m = mid \<or> (m_userId m = uid \<and> m_organizationId m = oid))
       (\<lambda>d. (\<exists>u \<in> set (users d). u_id u = uid) \<and> (\<exists>ob \<in> set (organizations d). o_id ob = oid))
       (attrs \<lparr>m_id = mid, m_userId = uid, m_organizationId = oid, m_status = MemberActive,
         m_department = None, m_region = None, m_jobTitle = None, m_clearanceLevel = 0,
         m_permissionsVersion = 1, m_attributesVersion = 1, m_joinedAt = now,
         m_deletedAt = None\<rparr>)))"

definition createOrganization :: "env \<Rightarrow> string \<Rightarrow> CreateOrganizationDto \<Rightarrow> Organization act" where
  "createOrganization E ownerUserId dto =
     (let slug = toLowerCase (co_slug dto) in
      bindM (dbFind organizationsT (\<lambda>ob. o_slug ob = slug)) (\<lambda>existing.
      thenM (throw_if (existing \<noteq> None) orgSlugTaken)
      (bindM (transaction
         (bindM (newId E) (\<lambda>oid.
          bindM nowM (\<lambda>now.
          bindM (dbCreate organizationsT [''slug''] (\<lambda>ob. o_id ob = oid \<or> o_slug ob = slug) (\<lambda>_. True)
                   \<lparr>o_id = oid, o_name = co_name dto, o_slug = slug,
                    o_status = orDefault (co_status dto) OrgActive,
                    o_plan = orDefault (co_plan dto) PlanFree,
                    o_settings = orDefault (co_settings dto) (JObj []), o_createdAt = now,
                    o_deletedAt = None\<rparr>) (\<lambda>created.
          bindM (dbFind rolesT (\<lambda>r. r_slug r = ADMIN \<and> r_organizationId r = None \<and> r_deletedAt r = None)) (\<lambda>adminRole.
          bindM (createMembership E ownerUserId (o_id created) (\<lambda>m. m)) (\<lambda>membership.
          thenM (case adminRole of
                   None \<Rightarrow> returnM ()
                 | Some r \<Rightarrow>
                     thenM (dbCreate userRolesT [''membershipId'', ''roleId'']
                              (\<lambda>ur. ur_membershipId ur = m_id membership \<and> ur_roleId ur = r_id r)
                              (\<lambda>d. membershipExists d (\<lambda>_. True) (m_id membership) \<and>
                                   roleExists d (\<lambda>_. True) (r_id r))
                              \<lparr>ur_membershipId = m_id membership, ur_roleId = r_id r\<rparr>)
                     (returnM ()))
          (returnM created)))))))) (\<lambda>org.
       thenM (auditRecord E ORG_CREATED AR_ORGANIZATION
                (auditOk (Some (o_id org)) (Some ownerUserId) None
                   [(''slug'', JStr (o_slug org)), (''plan'', JStr (planName (o_plan org)))]))
       (returnM org)))))"

definition findAllForUser :: "string \<Rightarrow> (Organization list) act" where
  "findAllForUser uid = getsM (\<lambda>w.
     sort_key o_createdAt (findMany (\<lambda>ob. o_deletedAt ob = None \<and>
       (\<exists>m \<in> set (memberships (w_db w)). m_organizationId m = o_id ob \<and> m_userId m = uid \<and>
          m_deletedAt m = None)) (organizations (w_db w))))"

definition findOrganizationById :: "string \<Rightarrow> Organization act" where
  "findOrganizationById oid =
     bindM (dbFind organizationsT (\<lambda>ob. o_id ob = oid \<and> o_deletedAt ob = None)) (\<lambda>row.
     orThrow row (NotFoundAppException ''Organization not found''))"

definition updateOrganization :: "string \<Rightarrow> UpdateOrganizationDto \<Rightarrow> Organization act" where
  "updateOrganization oid dto =
     thenM (findOrganizationById oid)
     (dbUpdate organizationsT (\<lambda>ob. o_id ob = oid)
        (\<lambda>ob. setIf (uo_name dto) (\<lambda>x ob. ob\<lparr>o_name := x\<rparr>)
          (setIf (uo_status dto) (\<lambda>x ob. ob\<lparr>o_status := x\<rparr>)
          (setIf (uo_plan dto) (\<lambda>x ob. ob\<lparr>o_plan := x\<rparr>)
          (setIf (uo_settings dto) (\<lambda>x ob. ob\<lparr>o_settings := x\<rparr>) ob)))))"

definition softDeleteOrganization :: "env \<Rightarrow> string \<Rightarrow> string \<Rightarrow> unit act" where
  "softDeleteOrganization E oid actorUserId =
     thenM (findOrganizationById oid)
     (bindM nowM (\<lambda>now.
     thenM (dbUpdate organizationsT (\<lambda>ob. o_id ob = oid) (\<lambda>ob. ob\<lparr>o_deletedAt := Some now\<rparr>))
     (auditRecord E ORG_DELETED AR_ORGANIZATION (auditOk (Some oid) (Some actorUserId) None []))))"

end
