(* ===== verification/Invitations.thy ===== *)
theory Invitations
  imports Memberships
begin

text \<open>
  Invitations to an organization: \<open>organizations/services/invitation.service.ts\<close>, and what
  membership changes guarantee.
\<close>

record CreateInvitationDto =
  iv_email :: string
  iv_roleId :: "string option"
  iv_department :: "string option"
  iv_region :: "string option"
  iv_jobTitle :: "string option"
  iv_clearanceLevel :: "int option"

definition INVITATION_TTL_MS :: int where
  "INVITATION_TTL_MS = 7 * 24 * 60 * 60 * 1000"

definition roleNotInScope :: exn where
  "roleNotInScope = appExn ''ROLE_NOT_FOUND'' ''Role not found in organization scope'' 404"

definition invitationNotFound :: exn where
  "invitationNotFound = appExn ''INVITATION_NOT_FOUND'' ''Invitation not found'' 404"

definition invitationInvalid :: exn where
  "invitationInvalid = appExn ''INVITATION_INVALID_TOKEN'' ''Invalid invitation token'' 400"

definition invitationUsed :: exn where
  "invitationUsed = appExn ''INVITATION_ALREADY_ACCEPTED'' ''Invitation already accepted'' 409"

definition invitationRevoked :: exn where
  "invitationRevoked = appExn ''INVITATION_REVOKED'' ''Invitation has been revoked'' 410"

definition invitationExpired :: exn where
  "invitationExpired = appExn ''INVITATION_EXPIRED'' ''Invitation has expired'' 410"

definition invitationMismatch :: exn where
  "invitationMismatch = appExn ''INVITATION_EMAIL_MISMATCH''
     ''Invitation email does not match the authenticated user'' 403"

definition enqueueInvitationEmail :: "env \<Rightarrow> Invitation \<Rightarrow> string \<Rightarrow> unit act" where
  "enqueueInvitationEmail E invitation rawToken =
     bindM (dbFind organizationsT (\<lambda>ob. o_id ob = inv_organizationId invitation)) (\<lambda>org.
     enqueue (EmailJob (OrgInvitationJob (inv_email invitation)
       (case org of None \<Rightarrow> ''Organization'' | Some ob \<Rightarrow> o_name ob)
       (e_appUrl E @ ''/organizations/invitations/accept?token='' @ e_encodeURIComponent E rawToken)
       (e_toISOString E (inv_expiresAt invitation)))))"

definition createInvitation ::
  "env \<Rightarrow> string \<Rightarrow> CreateInvitationDto \<Rightarrow> string \<Rightarrow> (Invitation \<times> string) act" where
  "createInvitation E oid dto actorUserId =
     (let email = normalizeEmail (iv_email dto) in
      thenM (whenM (truthy_str (iv_roleId dto))
        (bindM (dbFind rolesT (\<lambda>r. Some (r_id r) = iv_roleId dto \<and> r_deletedAt r = None \<and>
                  (r_organizationId r = Some oid \<or> r_organizationId r = None))) (\<lambda>role.
         throw_if (role = None) roleNotInScope)))
      (bindM (generateSecureToken E 32) (\<lambda>rawToken.
       bindM nowM (\<lambda>now.
       bindM (newId E) (\<lambda>iid.
       bindM (dbCreate invitationsT [''tokenHash'']
                (\<lambda>i. inv_id i = iid \<or> inv_tokenHash i = hashToken E rawToken)
                (\<lambda>d. (\<exists>ob \<in> set (organizations d). o_id ob = oid) \<and>
                     pred_option (roleExists d (\<lambda>_. True)) (iv_roleId dto))
                \<lparr>inv_id = iid, inv_organizationId = oid, inv_email = email,
                 inv_roleId = iv_roleId dto, inv_department = iv_department dto,
                 inv_region = iv_region dto, inv_jobTitle = iv_jobTitle dto,
                 inv_clearanceLevel = orDefault (iv_clearanceLevel dto) 0,
                 inv_tokenHash = hashToken E rawToken, inv_status = InvPending,
                 inv_expiresAt = now + INVITATION_TTL_MS, inv_acceptedAt = None,
                 inv_createdAt = now\<rparr>) (\<lambda>invitation.
       thenM (auditRecord E ORG_INVITATION_CREATED AR_INVITATION
                (auditOk (Some (inv_id invitation)) (Some actorUserId) None
                   [(''organizationId'', JStr oid), (''email'', JStr email)]))
       (thenM (enqueueInvitationEmail E invitation rawToken)
       (returnM (invitation, rawToken)))))))))"

definition listInvitations :: "string \<Rightarrow> (Invitation list) act" where
  "listInvitations oid =
     bindM (dbFindMany invitationsT (\<lambda>i. inv_organizationId i = oid)) (\<lambda>rows.
     returnM (sort_key (\<lambda>i. - inv_createdAt i) rows))"

definition revokeInvitation :: "env \<Rightarrow> string \<Rightarrow> string \<Rightarrow> string \<Rightarrow> unit act" where
  "revokeInvitation E iid oid actorUserId =
     bindM (dbFind invitationsT (\<lambda>i. inv_id i = iid \<and> inv_organizationId i = oid)) (\<lambda>row.
     bindM (orThrow row invitationNotFound) (\<lambda>invitation.
     if inv_status invitation \<noteq> InvPending then returnM ()
     else thenM (dbUpdate invitationsT (\<lambda>i. inv_id i = iid) (\<lambda>i. i\<lparr>inv_status := InvRevoked\<rparr>))
          (auditRecord E ORG_INVITATION_REVOKED AR_INVITATION
             (auditOk (Some iid) (Some actorUserId) None []))))"

text \<open>Joining: an old membership of the user is reactivated, otherwise one is created.\<close>

definition joinOrganization :: "env \<Rightarrow> Invitation \<Rightarrow> string \<Rightarrow> Membership act" where
  "joinOrganization E invitation uid =
     bindM (dbFind membershipsT (\<lambda>m. m_userId m = uid \<and>
              m_organizationId m = inv_organizationId invitation)) (\<lambda>existing.
     case existing of
       Some m0 \<Rightarrow> dbUpdate membershipsT (\<lambda>m. m_id m = m_id m0)
         (\<lambda>m. m\<lparr>m_status := MemberActive, m_department := inv_department invitation,
                m_region := inv_region invitation, m_jobTitle := inv_jobTitle invitation,
                m_clearanceLevel := inv_clearanceLevel invitation, m_deletedAt := None,
                m_attributesVersion := m_attributesVersion m + 1\<rparr>)
     | None \<Rightarrow> createMembership E uid (inv_organizationId invitation)
         (\<lambda>m. m\<lparr>m_department := inv_department invitation, m_region := inv_region invitation,
                m_jobTitle := inv_jobTitle invitation,
                m_clearanceLevel := inv_clearanceLevel invitation\<rparr>))"

definition grantInvitedRole :: "string \<Rightarrow> string option \<Rightarrow> unit act" where
  "grantInvitedRole mid roleId =
     (case roleId of
        None \<Rightarrow> returnM ()
      | Some rid \<Rightarrow> whenM (rid \<noteq> [])
          (thenM (upsertUserRole mid rid) (bumpPermissionsVersion mid)))"

definition acceptInvitation :: "env \<Rightarrow> string \<Rightarrow> string \<Rightarrow> string \<Rightarrow> (string \<times> string) act" where
  "acceptInvitation E rawToken acceptingUserId acceptingEmail = transaction
     (bindM (dbFind invitationsT (\<lambda>i. inv_tokenHash i = hashToken E rawToken)) (\<lambda>row.
      bindM (orThrow row invitationInvalid) (\<lambda>invitation.
      thenM (throw_if (inv_status invitation = InvAccepted) invitationUsed)
      (thenM (throw_if (inv_status invitation = InvRevoked) invitationRevoked)
      (bindM nowM (\<lambda>now.
      thenM (whenM (inv_expiresAt invitation \<le> now \<or> inv_status invitation = InvExpired)
        (thenM (dbUpdate invitationsT (\<lambda>i. inv_id i = inv_id invitation) (\<lambda>i. i\<lparr>inv_status := InvExpired\<rparr>))
         (throwM invitationExpired)))
      (thenM (throw_if (inv_email invitation \<noteq> toLowerCase acceptingEmail) invitationMismatch)
      (bindM (joinOrganization E invitation acceptingUserId) (\<lambda>membership.
      thenM (grantInvitedRole (m_id membership) (inv_roleId invitation))
      (thenM (dbUpdate invitationsT (\<lambda>i. inv_id i = inv_id invitation)
                (\<lambda>i. i\<lparr>inv_status := InvAccepted, inv_acceptedAt := Some now\<rparr>))
      (thenM (auditRecord E ORG_INVITATION_ACCEPTED AR_INVITATION
                (auditOk (Some (inv_id invitation)) (Some acceptingUserId) None
                   [(''organizationId'', JStr (inv_organizationId invitation))]))
      (returnM (inv_organizationId invitation, m_id membership)))))))))))))"

section \<open>The last administrator\<close>

definition activeAdmin :: "database \<Rightarrow> string \<Rightarrow> Membership \<Rightarrow> bool" where
  "activeAdmin d oid m \<longleftrightarrow> m \<in> set (memberships d) \<and> m_organizationId m = oid \<and>
     m_deletedAt m = None \<and> m_status m = MemberActive \<and>
     (\<exists>ur \<in> set (userRoles d). ur_membershipId ur = m_id m \<and>
        roleExists d (\<lambda>r. r_slug r = ADMIN \<and> r_deletedAt r = None) (ur_roleId ur))"

text \<open>No member of the organization holds two user-role rows for administrator roles.\<close>

definition oneAdminRowEach :: "database \<Rightarrow> string \<Rightarrow> bool" where
  "oneAdminRowEach d oid \<longleftrightarrow> distinct (map ur_membershipId (adminRows d oid))"

lemma adminRows_iff:
  "ur \<in> set (adminRows d oid) \<longleftrightarrow> ur \<in> set (userRoles d) \<and>
     membershipExists d (\<lambda>m. m_organizationId m = oid \<and> m_deletedAt m = None \<and> m_status m = MemberActive)
       (ur_membershipId ur) \<and>
     roleExists d (\<lambda>r. r_slug r = ADMIN \<and> r_deletedAt r = None) (ur_roleId ur)"
  by (auto simp: adminRows_def set_findMany)

lemma ensureNotLastAdmin_run:
  "ensureNotLastAdmin oid mid w =
     (if length (adminRows (w_db w) oid) \<le> 1 \<and> (\<exists>ur \<in> set (userRoles (w_db w)).
         ur_membershipId ur = mid \<and> roleExists (w_db w) (\<lambda>r. r_slug r = ADMIN) (ur_roleId ur))
      then Inl lastAdminRemoval else Inr (), w)"
  by (auto simp: ensureNotLastAdmin_def monad_simps findFirst_None_iff
      simp del: not_None_eq split: if_splits)

lemma removeMember_Inr:
  assumes "removeMember E oid uid actor w = (Inr (), w')"
  obtains m where "findFirst (\<lambda>m. m_userId m = uid \<and> m_organizationId m = oid \<and> m_deletedAt m = None)
      (memberships (w_db w)) = Some m"
    "fst (ensureNotLastAdmin oid (m_id m) w) = Inr ()"
    "w_db w' = memberships_update (updateRows (\<lambda>x. m_id x = m_id m)
      (\<lambda>x. x\<lparr>m_status := MemberRemoved, m_deletedAt := Some (w_now w)\<rparr>)) (w_db w)"
  using assms
  by (auto simp: removeMember_def findByUserAndOrgOrThrow_def findByUserAndOrg_def success_iffs
      dbFind_run ensureNotLastAdmin_run membershipsI.update_Inr_iff auditRecord_run split: if_splits)

end
