(* ===== verification/InvitationLaws.thy ===== *)
theory InvitationLaws
  imports Invitations
begin

text \<open>
  What invitations and the removal of members guarantee, and where the guard of the last
  administrator ends.
\<close>

section \<open>The last administrator\<close>

lemma activeAdmin_iff:
  "(\<exists>m. activeAdmin d oid m) \<longleftrightarrow> adminRows d oid \<noteq> []"
proof
  assume "\<exists>m. activeAdmin d oid m"
  then obtain m ur where "m \<in> set (memberships d)" "m_organizationId m = oid" "m_deletedAt m = None"
    "m_status m = MemberActive" "ur \<in> set (userRoles d)" "ur_membershipId ur = m_id m"
    "roleExists d (\<lambda>r. r_slug r = ADMIN \<and> r_deletedAt r = None) (ur_roleId ur)"
    by (auto simp: activeAdmin_def)
  then have "ur \<in> set (adminRows d oid)"
    unfolding adminRows_iff membershipExists_def by auto
  then show "adminRows d oid \<noteq> []" by auto
next
  assume "adminRows d oid \<noteq> []"
  then obtain ur where "ur \<in> set (adminRows d oid)" by (cases "adminRows d oid") auto
  then obtain m where "m \<in> set (memberships d)" "m_id m = ur_membershipId ur"
    "m_organizationId m = oid" "m_deletedAt m = None" "m_status m = MemberActive"
    "ur \<in> set (userRoles d)" "roleExists d (\<lambda>r. r_slug r = ADMIN \<and> r_deletedAt r = None) (ur_roleId ur)"
    unfolding adminRows_iff membershipExists_def by blast
  then have "activeAdmin d oid m" unfolding activeAdmin_def by metis
  then show "\<exists>m. activeAdmin d oid m" ..
qed

text \<open>Two rows of different members: one of them is not the member being removed.\<close>

lemma other_adminRow:
  assumes "1 < length (adminRows d oid)" and "oneAdminRowEach d oid"
  obtains ur where "ur \<in> set (adminRows d oid)" "ur_membershipId ur \<noteq> mid"
proof -
  obtain x y zs where xy: "adminRows d oid = x # y # zs"
    using assms(1) by (cases "adminRows d oid") (auto simp: Suc_length_conv neq_Nil_conv)
  with assms(2) have "ur_membershipId x \<noteq> ur_membershipId y" by (simp add: oneAdminRowEach_def)
  then have "ur_membershipId x \<noteq> mid \<or> ur_membershipId y \<noteq> mid" by auto
  then show thesis using that xy by auto
qed

lemma adminRow_survives:
  assumes "ur \<in> set (adminRows d oid)" and "ur_membershipId ur \<noteq> mid"
  shows "ur \<in> set (adminRows (memberships_update (updateRows (\<lambda>x. m_id x = mid) f) d) oid)"
proof -
  let ?f = "\<lambda>x. if m_id x = mid then f x else x"
  obtain m where m: "m \<in> set (memberships d)" "m_id m = ur_membershipId ur"
    "m_organizationId m = oid" "m_deletedAt m = None" "m_status m = MemberActive"
    using assms(1) unfolding adminRows_iff membershipExists_def by blast
  with assms(2) have "m \<in> ?f ` set (memberships d)" by (intro image_eqI [of _ _ m]) simp_all
  with m have member: "membershipExists (memberships_update (updateRows (\<lambda>x. m_id x = mid) f) d)
      (\<lambda>m. m_organizationId m = oid \<and> m_deletedAt m = None \<and> m_status m = MemberActive)
      (ur_membershipId ur)"
    unfolding membershipExists_def by (intro bexI [of _ m]) (simp_all add: set_updateRows)
  have same: "roleExists (memberships_update g d) q rid = roleExists d q rid"
    "userRoles (memberships_update g d) = userRoles d" for g q rid
    by (simp_all add: roleExists_def)
  from assms(1) show ?thesis unfolding adminRows_iff same using member by (elim conjE) (intro conjI)
qed

text \<open>
  C14: removing a member never takes the last administrator away: when a removal succeeds and
  the organization had an active member with the administrator role, it still has one.  The
  guard counts user-role rows, so this is proved where no member holds the role twice.
\<close>

theorem last_admin_cannot_be_removed:
  assumes "removeMember E oid uid actor w = (Inr (), w')"
    and "oneAdminRowEach (w_db w) oid" and "activeAdmin (w_db w) oid a"
  shows "\<exists>b. activeAdmin (w_db w') oid b"
proof -
  from assms(3) have rows: "adminRows (w_db w) oid \<noteq> []" using activeAdmin_iff by blast
  obtain m where "findFirst (\<lambda>m. m_userId m = uid \<and> m_organizationId m = oid \<and>
      m_deletedAt m = None) (memberships (w_db w)) = Some m"
    and m: "fst (ensureNotLastAdmin oid (m_id m) w) = Inr ()"
    "w_db w' = memberships_update (updateRows (\<lambda>x. m_id x = m_id m)
      (\<lambda>x. x\<lparr>m_status := MemberRemoved, m_deletedAt := Some (w_now w)\<rparr>)) (w_db w)"
    by (rule removeMember_Inr [OF assms(1)])
  have "\<exists>ur \<in> set (adminRows (w_db w) oid). ur_membershipId ur \<noteq> m_id m"
  proof (cases "length (adminRows (w_db w) oid) \<le> 1")
    case True
    with m(1) have no: "\<forall>ur \<in> set (userRoles (w_db w)). ur_membershipId ur = m_id m \<longrightarrow>
        \<not> roleExists (w_db w) (\<lambda>r. r_slug r = ADMIN) (ur_roleId ur)"
      by (auto simp: ensureNotLastAdmin_run split: if_splits)
    obtain ur where ur: "ur \<in> set (adminRows (w_db w) oid)"
      using rows by (cases "adminRows (w_db w) oid") auto
    then have "roleExists (w_db w) (\<lambda>r. r_slug r = ADMIN) (ur_roleId ur)" "ur \<in> set (userRoles (w_db w))"
      by (auto simp: adminRows_iff roleExists_def)
    with no ur show ?thesis by blast
  next
    case False
    then have "1 < length (adminRows (w_db w) oid)" by simp
    then show ?thesis using assms(2) by (rule other_adminRow) blast
  qed
  then have "adminRows (w_db w') oid \<noteq> []"
    using adminRow_survives [of _ "w_db w" oid "m_id m"] unfolding m(2) by (metis empty_iff empty_set)
  then show ?thesis using activeAdmin_iff by blast
qed

definition acme :: Organization where
  "acme = \<lparr>o_id = ''acme'', o_name = ''Acme'', o_slug = ''acme'', o_status = OrgActive,
     o_plan = PlanFree, o_settings = JObj [], o_createdAt = 0, o_deletedAt = None\<rparr>"

definition memberOf :: "string \<Rightarrow> string \<Rightarrow> Membership" where
  "memberOf mid uid = \<lparr>m_id = mid, m_userId = uid, m_organizationId = ''acme'',
     m_status = MemberActive, m_department = None, m_region = None, m_jobTitle = None,
     m_clearanceLevel = 0, m_permissionsVersion = 1, m_attributesVersion = 1,
     m_joinedAt = 0, m_deletedAt = None\<rparr>"

definition adminRole :: "string \<Rightarrow> string option \<Rightarrow> Role" where
  "adminRole rid scope = \<lparr>r_id = rid, r_organizationId = scope, r_name = ''Admin'',
     r_slug = ADMIN, r_description = None, r_isSystem = (scope = None), r_deletedAt = None\<rparr>"

definition acmeDb :: "UserRole list \<Rightarrow> database" where
  "acmeDb rows = emptyDb\<lparr>users := [alice, bob], organizations := [acme],
     memberships := [memberOf ''ma'' ''alice'', memberOf ''mb'' ''bob''],
     roles := [adminRole ''ra'' None, adminRole ''rx'' (Some ''acme'')], userRoles := rows\<rparr>"

definition invitationsGood :: "database \<Rightarrow> bool" where
  "invitationsGood d \<longleftrightarrow> distinct (map inv_id (invitations d)) \<and>
     distinct (map inv_tokenHash (invitations d))"

definition invitationSpent :: "env \<Rightarrow> string \<Rightarrow> world \<Rightarrow> bool" where
  "invitationSpent E tok w \<longleftrightarrow> (\<exists>i \<in> set (invitations (w_db w)).
     inv_tokenHash i = hashToken E tok \<and> inv_status i = InvAccepted)"

definition spentIn :: "string \<Rightarrow> database \<Rightarrow> bool" where
  "spentIn h d \<longleftrightarrow> invitationsGood d \<and>
     (\<exists>i \<in> set (invitations d). inv_tokenHash i = h \<and> inv_status i = InvAccepted)"

definition acmeInvitation :: Invitation where
  "acmeInvitation = \<lparr>inv_id = ''inv1'', inv_organizationId = ''acme'',
     inv_email = ''bob@example.com'', inv_roleId = Some ''ra'', inv_department = Some ''IT'',
     inv_region = None, inv_jobTitle = None, inv_clearanceLevel = 3,
     inv_tokenHash = hashToken sampleEnv ''secret'', inv_status = InvPending,
     inv_expiresAt = 5000, inv_acceptedAt = None, inv_createdAt = 0\<rparr>"

definition invitedWorld :: world where
  "invitedWorld = worldOf (acmeDb [\<lparr>ur_membershipId = ''ma'', ur_roleId = ''ra''\<rparr>]
     \<lparr>memberships := [memberOf ''ma'' ''alice''], invitations := [acmeInvitation]\<rparr>)"

definition afterAccept :: world where
  "afterAccept = snd (acceptInvitation sampleEnv ''secret'' ''bob'' ''Bob@example.com'' invitedWorld)"

definition joinedAs :: "Invitation \<Rightarrow> string \<Rightarrow> string \<Rightarrow> Membership \<Rightarrow> bool" where
  "joinedAs i uid mid m \<longleftrightarrow> m_id m = mid \<and> m_userId m = uid \<and>
     m_organizationId m = inv_organizationId i \<and> m_status m = MemberActive \<and>
     m_deletedAt m = None \<and> m_department m = inv_department i \<and> m_region m = inv_region i \<and>
     m_jobTitle m = inv_jobTitle i \<and> m_clearanceLevel m = inv_clearanceLevel i"

theorem last_admin_cannot_be_removed_witness:
  "\<exists>b. activeAdmin (w_db (snd (removeMember sampleEnv ''acme'' ''bob'' ''alice''
     (worldOf (acmeDb [\<lparr>ur_membershipId = ''ma'', ur_roleId = ''ra''\<rparr>,
                        \<lparr>ur_membershipId = ''mb'', ur_roleId = ''ra''\<rparr>]))))) ''acme'' b"
proof -
  let ?w = "worldOf (acmeDb [\<lparr>ur_membershipId = ''ma'', ur_roleId = ''ra''\<rparr>,
                              \<lparr>ur_membershipId = ''mb'', ur_roleId = ''ra''\<rparr>])"
  have r: "fst (removeMember sampleEnv ''acme'' ''bob'' ''alice'' ?w) = Inr ()" by code_simp
  have one: "oneAdminRowEach (w_db ?w) ''acme''" by code_simp
  have "adminRows (w_db ?w) ''acme'' \<noteq> []" by code_simp
  then obtain a where a: "activeAdmin (w_db ?w) ''acme'' a" using activeAdmin_iff by blast
  from r have "removeMember sampleEnv ''acme'' ''bob'' ''alice'' ?w =
      (Inr (), snd (removeMember sampleEnv ''acme'' ''bob'' ''alice'' ?w))"
    by (metis prod.collapse)
  from last_admin_cannot_be_removed [OF this one a] show ?thesis .
qed

text \<open>
  The guard is not enough on its own: a sole administrator who holds two administrator
  roles (the global one and one of the organization) is removed without an error, and a sole
  administrator with a single role loses it all the same when an update of the member's
  attributes suspends the membership.
\<close>

theorem last_admin_guard_has_gaps:
  "(let w = worldOf (acmeDb [\<lparr>ur_membershipId = ''ma'', ur_roleId = ''ra''\<rparr>,
                              \<lparr>ur_membershipId = ''ma'', ur_roleId = ''rx''\<rparr>]);
        (r, w') = removeMember sampleEnv ''acme'' ''alice'' ''bob'' w
    in adminRows (w_db w) ''acme'' \<noteq> [] \<and> r = Inr () \<and> adminRows (w_db w') ''acme'' = []) \<and>
   (let w = worldOf (acmeDb [\<lparr>ur_membershipId = ''ma'', ur_roleId = ''ra''\<rparr>]);
        (r, w') = updateAttributes sampleEnv ''acme'' ''alice''
          \<lparr>um_status = Some MemberSuspended, um_department = None, um_region = None,
           um_jobTitle = None, um_clearanceLevel = None\<rparr> ''bob'' w
    in adminRows (w_db w) ''acme'' \<noteq> [] \<and> (case r of Inr _ \<Rightarrow> True | Inl _ \<Rightarrow> False) \<and>
       adminRows (w_db w') ''acme'' = [])"
  by (intro conjI) code_simp+

section \<open>Accepting an invitation\<close>

lemma keeps_joinOrganization:
  assumes "\<And>d f. J d \<Longrightarrow> J (memberships_update f d)"
  shows "keeps (dbInv J) (joinOrganization E i uid)"
  unfolding joinOrganization_def createMembership_def
  by (intro keeps_intros keeps_dbUpdate keeps_dbCreate) (simp_all add: assms)

lemma keeps_grantInvitedRole:
  assumes "\<And>d f. J d \<Longrightarrow> J (memberships_update f d)" and "\<And>d f. J d \<Longrightarrow> J (userRoles_update f d)"
  shows "keeps (dbInv J) (grantInvitedRole mid rid)"
  unfolding grantInvitedRole_def upsertUserRole_def bumpPermissionsVersion_def
  by (intro keeps_intros keeps_dbUpdate keeps_dbCreate) (simp_all add: assms)

lemma acceptInvitation_Inr:
  assumes "acceptInvitation E tok uid email w = (Inr (oid, mid), w')"
  obtains i m w1 w2 where
    "findFirst (\<lambda>i. inv_tokenHash i = hashToken E tok) (invitations (w_db w)) = Some i"
    "inv_status i = InvPending" "w_now w < inv_expiresAt i" "inv_email i = toLowerCase email"
    "joinOrganization E i uid w = (Inr m, w1)"
    "grantInvitedRole (m_id m) (inv_roleId i) w1 = (Inr (), w2)"
    "w_db w' = invitations_update (updateRows (\<lambda>x. inv_id x = inv_id i)
       (\<lambda>x. x\<lparr>inv_status := InvAccepted, inv_acceptedAt := Some (w_now w)\<rparr>)) (w_db w2)"
    "oid = inv_organizationId i" "mid = m_id m"
proof -
  from assms obtain i m w1 w2 where i:
    "findFirst (\<lambda>i. inv_tokenHash i = hashToken E tok) (invitations (w_db w)) = Some i"
    "inv_status i \<noteq> InvAccepted" "inv_status i \<noteq> InvRevoked" "inv_status i \<noteq> InvExpired"
    "\<not> inv_expiresAt i \<le> w_now w" "inv_email i = toLowerCase email"
    "joinOrganization E i uid w = (Inr m, w1)"
    "grantInvitedRole (m_id m) (inv_roleId i) w1 = (Inr (), w2)"
    "w_db w' = invitations_update (updateRows (\<lambda>x. inv_id x = inv_id i)
       (\<lambda>x. x\<lparr>inv_status := InvAccepted, inv_acceptedAt := Some (w_now w)\<rparr>)) (w_db w2)"
    "oid = inv_organizationId i" "mid = m_id m"
    unfolding acceptInvitation_def transaction_Inr_iff
    by (auto simp: success_iffs dbFind_run invitationsI.update_Inr_iff auditRecord_run)
  then have "inv_status i = InvPending" by (cases "inv_status i") auto
  with i that show thesis by simp
qed

lemma acceptInvitation_Inl: "acceptInvitation E tok uid email w = (Inl e, w') \<Longrightarrow> w_db w' = w_db w"
  unfolding acceptInvitation_def by (rule transaction_rollback)

lemma invitations_after_join:
  assumes "joinOrganization E i uid w = (Inr m, w1)" and "grantInvitedRole (m_id m) rid w1 = (Inr (), w2)"
  shows "invitations (w_db w2) = invitations (w_db w)"
proof -
  let ?I = "dbInv (\<lambda>d. invitations d = invitations (w_db w))"
  have "?I w1" by (rule keepsE [OF keeps_joinOrganization assms(1)]) (simp_all add: dbInv_def)
  then have "?I w2" by (rule keepsE [OF keeps_grantInvitedRole assms(2), rotated 2]) simp_all
  then show ?thesis by (simp add: dbInv_def)
qed

section \<open>Invitations work once\<close>

text \<open>
  The operations on invitations, and everything else that leaves that table alone.
\<close>

inductive invitationStep :: "env \<Rightarrow> world \<Rightarrow> world \<Rightarrow> bool" for E where
  accept: "invitationStep E w (snd (acceptInvitation E tok uid email w))"
| revoke: "invitationStep E w (snd (revokeInvitation E iid oid actor w))"
| create: "invitationStep E w (snd (createInvitation E oid dto actor w))"
| other: "invitations (w_db w') = invitations (w_db w) \<Longrightarrow> invitationStep E w w'"

lemma enqueueInvitationEmail_db [simp]: "w_db (snd (enqueueInvitationEmail E i tok w)) = w_db w"
  by (simp add: enqueueInvitationEmail_def monad_simps enqueue_run)

lemma keeps_createInvitation:
  assumes "\<And>d row. J d \<Longrightarrow> \<forall>r \<in> set (invitations d). inv_id r \<noteq> inv_id row \<and>
           inv_tokenHash r \<noteq> inv_tokenHash row \<Longrightarrow> J (invitations_update (\<lambda>rows. rows @ [row]) d)"
  shows "keeps (dbInv J) (createInvitation E oid dto actor)"
proof -
  have "keeps (dbInv J) (enqueueInvitationEmail E i tok)" for i tok
    by (rule keeps_dbInv_frame) simp
  then show ?thesis
    unfolding createInvitation_def Let_def
    by (intro keeps_intros keeps_dbCreate) (auto intro!: assms)
qed

lemma good_cong: "invitations d' = invitations d \<Longrightarrow> invitationsGood d' = invitationsGood d"
  "invitations d' = invitations d \<Longrightarrow> spentIn h d' = spentIn h d"
  by (simp_all add: invitationsGood_def spentIn_def)

lemma invitationsGood_status:
  assumes "\<And>i. inv_id (f i) = inv_id i" and "\<And>i. inv_tokenHash (f i) = inv_tokenHash i"
  shows "invitationsGood (invitations_update (updateRows p f) d) = invitationsGood d"
  using assms by (simp add: invitationsGood_def map_updateRows_key)

lemma append_good:
  assumes "\<forall>r \<in> set (invitations d). inv_id r \<noteq> inv_id row \<and> inv_tokenHash r \<noteq> inv_tokenHash row"
  shows "invitationsGood d \<Longrightarrow> invitationsGood (invitations_update (\<lambda>rows. rows @ [row]) d)"
    and "spentIn h d \<Longrightarrow> spentIn h (invitations_update (\<lambda>rows. rows @ [row]) d)"
  using assms by (force simp: invitationsGood_def spentIn_def)+

text \<open>An accepted invitation is accepted after any update that touches only other rows or accepts.\<close>

lemma update_spent:
  assumes "spentIn h d" and "\<And>i. inv_id (f i) = inv_id i" and "\<And>i. inv_tokenHash (f i) = inv_tokenHash i"
    and "\<And>i. i \<in> set (invitations d) \<Longrightarrow> p i \<Longrightarrow> inv_status i = InvAccepted \<Longrightarrow>
      inv_status (f i) = InvAccepted"
  shows "spentIn h (invitations_update (updateRows p f) d)"
proof -
  obtain i where i: "i \<in> set (invitations d)" "inv_tokenHash i = h" "inv_status i = InvAccepted"
    and "invitationsGood d" using assms(1) by (auto simp: spentIn_def)
  then have "(if p i then f i else i) \<in> set (updateRows p f (invitations d))"
    by (auto simp: set_updateRows)
  moreover have "inv_tokenHash (if p i then f i else i) = h" "inv_status (if p i then f i else i) = InvAccepted"
    using i assms by auto
  ultimately show ?thesis
    using \<open>invitationsGood d\<close> assms(2,3)
    by (auto simp: spentIn_def invitationsGood_status simp del: set_updateRows)
qed

lemma revokeInvitation_invitations:
  obtains "w_db (snd (revokeInvitation E iid oid actor w)) = w_db w"
  | i where "i \<in> set (invitations (w_db w))" "inv_id i = iid" "inv_status i = InvPending"
    "w_db (snd (revokeInvitation E iid oid actor w)) =
       invitations_update (updateRows (\<lambda>i. inv_id i = iid) (\<lambda>i. i\<lparr>inv_status := InvRevoked\<rparr>)) (w_db w)"
proof (cases "findFirst (\<lambda>i. inv_id i = iid \<and> inv_organizationId i = oid) (invitations (w_db w))")
  case None
  then show thesis by (intro that(1)) (simp add: revokeInvitation_def monad_simps)
next
  case (Some i)
  then have i: "i \<in> set (invitations (w_db w))" "inv_id i = iid" by (auto dest: findFirst_SomeD)
  obtain j where j: "findFirst (\<lambda>i. inv_id i = iid) (invitations (w_db w)) = Some j"
    using findFirst_ex [of i "invitations (w_db w)" "\<lambda>i. inv_id i = iid"] i by auto
  show thesis
  proof (cases "inv_status i = InvPending")
    case True
    then show thesis
      by (intro that(2) [OF i]) (simp_all add: revokeInvitation_def monad_simps Some j)
  next
    case False
    then show thesis by (intro that(1)) (simp add: revokeInvitation_def monad_simps Some)
  qed
qed

lemma acceptInvitation_invitations:
  obtains "w_db (snd (acceptInvitation E tok uid email w)) = w_db w"
  | iid where "invitations (w_db (snd (acceptInvitation E tok uid email w))) =
       updateRows (\<lambda>i. inv_id i = iid)
         (\<lambda>x. x\<lparr>inv_status := InvAccepted, inv_acceptedAt := Some (w_now w)\<rparr>) (invitations (w_db w))"
proof (cases "acceptInvitation E tok uid email w")
  case (Pair r w')
  show thesis
  proof (cases r)
    case (Inl e)
    with Pair show thesis by (intro that(1)) (auto dest: acceptInvitation_Inl)
  next
    case (Inr x)
    with Pair obtain oid mid where "acceptInvitation E tok uid email w = (Inr (oid, mid), w')"
      by (cases x) auto
    then show thesis
    proof (rule acceptInvitation_Inr, goal_cases)
      case (1 i m w1 w2)
      then have "invitations (w_db w') = updateRows (\<lambda>x. inv_id x = inv_id i)
         (\<lambda>x. x\<lparr>inv_status := InvAccepted, inv_acceptedAt := Some (w_now w)\<rparr>) (invitations (w_db w))"
        using invitations_after_join [OF 1(5,6)] by simp
      with Pair show ?thesis by (intro that(2)) simp
    qed
  qed
qed

lemma invitationStep_good:
  assumes "invitationStep E w w'" and "invitationsGood (w_db w)"
  shows "invitationsGood (w_db w') \<and> (spentIn h (w_db w) \<longrightarrow> spentIn h (w_db w'))"
  using assms
proof (induction rule: invitationStep.induct)
  case (accept w tok uid email)
  show ?case
  proof (rule acceptInvitation_invitations [of E tok uid email w], goal_cases)
    case 1
    with accept show ?case by simp
  next
    case (2 iid)
    let ?d = "invitations_update (updateRows (\<lambda>i. inv_id i = iid)
         (\<lambda>x. x\<lparr>inv_status := InvAccepted, inv_acceptedAt := Some (w_now w)\<rparr>)) (w_db w)"
    have "invitationsGood ?d" using accept by (subst invitationsGood_status) simp_all
    moreover have "spentIn h (w_db w) \<longrightarrow> spentIn h ?d" by (intro impI update_spent) simp_all
    moreover from 2 have "invitations (w_db (snd (acceptInvitation E tok uid email w))) = invitations ?d"
      by simp
    ultimately show ?case using good_cong by blast
  qed
next
  case (revoke w iid oid actor)
  show ?case
  proof (rule revokeInvitation_invitations [of E iid oid actor w], goal_cases)
    case 1
    with revoke show ?case by simp
  next
    case (2 i)
    have other: "inv_status j \<noteq> InvAccepted" if "j \<in> set (invitations (w_db w))" "inv_id j = iid" for j
      using that 2(1,2,3) revoke distinct_map_unique [of inv_id "invitations (w_db w)" j i]
      by (auto simp: invitationsGood_def)
    have "spentIn h (w_db w) \<longrightarrow> spentIn h (w_db (snd (revokeInvitation E iid oid actor w)))"
      unfolding 2(4) by (intro impI update_spent) (simp_all add: other)
    with revoke show ?case unfolding 2(4) by (subst invitationsGood_status) simp_all
  qed
next
  case (create w oid dto actor)
  have "keeps (dbInv invitationsGood) (createInvitation E oid dto actor)"
    "keeps (dbInv (spentIn h)) (createInvitation E oid dto actor)"
    by (rule keeps_createInvitation; auto intro: append_good)+
  with create show ?case unfolding dbInv_def by (auto dest: keepsD simp: keeps_def)
next
  case (other w' w)
  then show ?case using good_cong by blast
qed

interpretation invitationOnce: single_use
  "\<lambda>tok p. acceptInvitation E tok (fst p) (snd p)" "\<lambda>tok w. spentIn (hashToken E tok) (w_db w)"
  "\<lambda>w. invitationsGood (w_db w)" "invitationStep E"
proof (unfold_locales, goal_cases)
  case (1 s k p)
  then show ?case using invitationStep_good [OF invitationStep.accept] by blast
next
  case (2 s k p x t)
  obtain oid mid where "acceptInvitation E k (fst p) (snd p) s = (Inr (oid, mid), t)"
    using 2(2) by (cases x) auto
  then show ?case
  proof (rule acceptInvitation_Inr, goal_cases)
    case (1 i m w1 w2)
    have i: "i \<in> set (invitations (w_db s))" "inv_tokenHash i = hashToken E k"
      using 1(1) by (auto dest: findFirst_SomeD)
    have "invitationsGood (w_db t)"
      using invitationStep_good [OF invitationStep.accept [of E s k "fst p" "snd p"]] 2 by simp
    moreover have "\<exists>j \<in> set (invitations (w_db t)). inv_tokenHash j = hashToken E k \<and> inv_status j = InvAccepted"
      unfolding 1(7) using i invitations_after_join [OF 1(5,6)] by (intro bexI [of _ "i\<lparr>inv_status := InvAccepted, inv_acceptedAt := Some (w_now s)\<rparr>"])
        (auto simp: set_updateRows)
    ultimately show ?case by (simp add: spentIn_def)
  qed
next
  case (3 s k p)
  then obtain i where i: "i \<in> set (invitations (w_db s))" "inv_tokenHash i = hashToken E k"
    "inv_status i = InvAccepted" "distinct (map inv_tokenHash (invitations (w_db s)))"
    by (auto simp: spentIn_def invitationsGood_def)
  then have "findFirst (\<lambda>x. inv_tokenHash x = hashToken E k) (invitations (w_db s)) = Some i"
    using findFirst_key [of inv_tokenHash _ i] by simp
  with i show ?case by (auto simp: acceptInvitation_def transaction_run monad_simps)
next
  case (4 s t)
  then show ?case using invitationStep_good by blast
next
  case (5 s t k)
  then show ?case using invitationStep_good by blast
qed

text \<open>
  C33: an invitation is accepted at most once: after a successful acceptance, and whatever the
  invitation service and the rest of the system do afterwards, presenting the same link again
  fails, for any user.
\<close>

theorem invitation_works_once:
  assumes "invitationsGood (w_db w)"
    and "acceptInvitation E tok uid email w = (Inr x, w1)"
    and "(invitationStep E)\<^sup>*\<^sup>* w1 w2"
  shows "\<exists>e. fst (acceptInvitation E tok uid' email' w2) = Inl e"
  using invitationOnce.used_once [of w E tok "(uid, email)" x w1 w2 "(uid', email')"] assms by simp

lemma acceptInvitation_sample:
  "\<exists>x. acceptInvitation sampleEnv ''secret'' ''bob'' ''Bob@example.com'' invitedWorld = (Inr x, afterAccept)"
proof -
  have "(case fst (acceptInvitation sampleEnv ''secret'' ''bob'' ''Bob@example.com'' invitedWorld) of
      Inr x \<Rightarrow> True | Inl e \<Rightarrow> False)" by code_simp
  then show ?thesis
    unfolding afterAccept_def
    by (cases "acceptInvitation sampleEnv ''secret'' ''bob'' ''Bob@example.com'' invitedWorld")
      (auto split: sum.splits)
qed

theorem invitation_works_once_witness:
  "\<exists>e. fst (acceptInvitation sampleEnv ''secret'' ''alice'' ''alice@example.com'' afterAccept) = Inl e"
proof -
  have good: "invitationsGood (w_db invitedWorld)" by code_simp
  obtain x where "acceptInvitation sampleEnv ''secret'' ''bob'' ''Bob@example.com'' invitedWorld = (Inr x, afterAccept)"
    using acceptInvitation_sample by blast
  from invitation_works_once [OF good this, of afterAccept "''alice''" "''alice@example.com''"]
  show ?thesis by simp
qed

section \<open>What an acceptance does\<close>

text \<open>The membership an acceptance is about: the user's row in the organization, or a new one.\<close>

definition ownRow :: "Membership list \<Rightarrow> string \<Rightarrow> string \<Rightarrow> string \<Rightarrow> bool" where
  "ownRow before uid oid mid \<longleftrightarrow>
     (case findFirst (\<lambda>m. m_userId m = uid \<and> m_organizationId m = oid) before of
        Some old \<Rightarrow> mid = m_id old
      | None \<Rightarrow> \<forall>m \<in> set before. m_id m \<noteq> mid)"

lemma joinOrganization_Inr:
  assumes "joinOrganization E i uid w = (Inr m, w1)" and "distinct (map m_id (memberships (w_db w)))"
  shows "m \<in> set (memberships (w_db w1)) \<and> joinedAs i uid (m_id m) m \<and>
    (\<forall>x. m_id x \<noteq> m_id m \<longrightarrow> x \<in> set (memberships (w_db w1)) \<longleftrightarrow> x \<in> set (memberships (w_db w))) \<and>
    ownRow (memberships (w_db w)) uid (inv_organizationId i) (m_id m) \<and>
    userRoles (w_db w1) = userRoles (w_db w)"
proof (cases "findFirst (\<lambda>m. m_userId m = uid \<and> m_organizationId m = inv_organizationId i)
    (memberships (w_db w))")
  case None
  with assms(1) show ?thesis
    by (auto simp: joinOrganization_def createMembership_def success_iffs dbFind_run newId_run
        membershipsI.create_Inr_iff joinedAs_def ownRow_def)
next
  case (Some m0)
  let ?f = "\<lambda>m. m\<lparr>m_status := MemberActive, m_department := inv_department i,
      m_region := inv_region i, m_jobTitle := inv_jobTitle i,
      m_clearanceLevel := inv_clearanceLevel i, m_deletedAt := None,
      m_attributesVersion := m_attributesVersion m + 1\<rparr>"
  have m0: "m0 \<in> set (memberships (w_db w))" "m_userId m0 = uid"
    "m_organizationId m0 = inv_organizationId i" using findFirst_SomeD [OF Some] by auto
  have m1: "findFirst (\<lambda>m. m_id m = m_id m0) (memberships (w_db w)) = Some m0"
    using assms(2) m0(1) by (rule findFirst_key)
  from assms(1) Some m1 have w1: "m = ?f m0" 
      "w1 = w_db_update (memberships_update (updateRows (\<lambda>m. m_id m = m_id m0) ?f)) w"
    by (auto simp: joinOrganization_def success_iffs dbFind_run membershipsI.update_Inr_iff)
  from m0(1) have "?f m0 \<in> set (memberships (w_db w1))" by (simp add: w1 set_updateRows)
  with m0 Some show ?thesis by (auto simp: w1 joinedAs_def set_updateRows ownRow_def image_iff)
qed

lemma upsertUserRole_Inr:
  assumes "upsertUserRole mid x w1 = (Inr (), w2)"
  shows "memberships (w_db w2) = memberships (w_db w1) \<and>
    set (userRoles (w_db w2)) = insert \<lparr>ur_membershipId = mid, ur_roleId = x\<rparr> (set (userRoles (w_db w1)))"
proof (cases "findFirst (\<lambda>ur. ur_membershipId ur = mid \<and> ur_roleId ur = x) (userRoles (w_db w1))")
  case None
  with assms show ?thesis
    by (auto simp: upsertUserRole_def success_iffs dbFind_run whenM_run userRolesI.create_Inr_iff)
next
  case (Some ur)
  with assms have "w2 = w1" by (simp add: upsertUserRole_def success_iffs dbFind_run whenM_run)
  moreover have "ur = \<lparr>ur_membershipId = mid, ur_roleId = x\<rparr>" "ur \<in> set (userRoles (w_db w1))"
    using findFirst_SomeD [OF Some] by (cases ur; simp)+
  ultimately show ?thesis by auto
qed

lemma bumpPermissionsVersion_Inr:
  assumes "bumpPermissionsVersion mid w1 = (Inr (), w2)"
  shows "memberships (w_db w2) = updateRows (\<lambda>m. m_id m = mid) (m_permissionsVersion_update (\<lambda>v. v + 1))
      (memberships (w_db w1)) \<and> userRoles (w_db w2) = userRoles (w_db w1)"
  using assms by (auto simp: bumpPermissionsVersion_def success_iffs membershipsI.update_Inr_iff)

lemma grantInvitedRole_Inr:
  assumes "grantInvitedRole mid rid w1 = (Inr (), w2)"
  shows "joinedAs i uid mid m \<and> m \<in> set (memberships (w_db w1)) \<Longrightarrow>
      \<exists>m' \<in> set (memberships (w_db w2)). joinedAs i uid mid m'"
    and "m_id x \<noteq> mid \<Longrightarrow> x \<in> set (memberships (w_db w2)) \<longleftrightarrow> x \<in> set (memberships (w_db w1))"
    and "set (userRoles (w_db w2)) = set (userRoles (w_db w1)) \<union>
      (if truthy_str rid then {\<lparr>ur_membershipId = mid, ur_roleId = the rid\<rparr>} else {})"
proof -
  consider (none) "w2 = w1" "\<not> truthy_str rid"
    | (some) q w where "rid = Some q" "truthy_str rid" "upsertUserRole mid q w1 = (Inr (), w)"
        "bumpPermissionsVersion mid w = (Inr (), w2)"
    using assms by (auto simp: grantInvitedRole_def whenM_run success_iffs truthy_str_def
        split: option.splits if_splits)
  then have "(joinedAs i uid mid m \<and> m \<in> set (memberships (w_db w1)) \<longrightarrow>
      (\<exists>m' \<in> set (memberships (w_db w2)). joinedAs i uid mid m')) \<and>
    (m_id x \<noteq> mid \<longrightarrow> x \<in> set (memberships (w_db w2)) \<longleftrightarrow> x \<in> set (memberships (w_db w1))) \<and>
    set (userRoles (w_db w2)) = set (userRoles (w_db w1)) \<union>
      (if truthy_str rid then {\<lparr>ur_membershipId = mid, ur_roleId = the rid\<rparr>} else {})" for x m
  proof cases
    case none
    then show ?thesis by auto
  next
    case some
    have rows: "memberships (w_db w2) = updateRows (\<lambda>m. m_id m = mid) (m_permissionsVersion_update (\<lambda>v. v + 1))
        (memberships (w_db w1))"
      using upsertUserRole_Inr [OF some(3)] bumpPermissionsVersion_Inr [OF some(4)] by simp
    have "\<exists>m' \<in> set (memberships (w_db w2)). joinedAs i uid mid m'"
      if "joinedAs i uid mid m" "m \<in> set (memberships (w_db w1))"
    proof
      show "m_permissionsVersion_update (\<lambda>v. v + 1) m \<in> set (memberships (w_db w2))"
        using that by (auto simp: rows joinedAs_def set_updateRows)
      show "joinedAs i uid mid (m_permissionsVersion_update (\<lambda>v. v + 1) m)"
        using that by (simp add: joinedAs_def)
    qed
    moreover have "x \<in> set (memberships (w_db w2)) \<longleftrightarrow> x \<in> set (memberships (w_db w1))" if "m_id x \<noteq> mid"
      using that by (auto simp: rows set_updateRows image_iff)
    moreover have "set (userRoles (w_db w2)) = insert \<lparr>ur_membershipId = mid, ur_roleId = q\<rparr> (set (userRoles (w_db w1)))"
      using upsertUserRole_Inr [OF some(3)] bumpPermissionsVersion_Inr [OF some(4)] by simp
    ultimately show ?thesis using some(1,2) by auto
  qed
  then show "joinedAs i uid mid m \<and> m \<in> set (memberships (w_db w1)) \<Longrightarrow>
      \<exists>m' \<in> set (memberships (w_db w2)). joinedAs i uid mid m'"
    and "m_id x \<noteq> mid \<Longrightarrow> x \<in> set (memberships (w_db w2)) \<longleftrightarrow> x \<in> set (memberships (w_db w1))"
    and "set (userRoles (w_db w2)) = set (userRoles (w_db w1)) \<union>
      (if truthy_str rid then {\<lparr>ur_membershipId = mid, ur_roleId = the rid\<rparr>} else {})"
    by blast+
qed

text \<open>
  C15: an acceptance that returns was allowed and did what the invitation says: the link is of
  a pending invitation that has not expired, addressed to the email of the caller.  The caller's
  row in its organization, or a new one where there was none, is then an active membership, not
  deleted, with the department, region, title and clearance of the invitation; the role of the
  invitation, if it names one, is added to the roles the row had before (those of an earlier
  membership come back, see \<open>rejoining_restores_old_roles\<close>); no other membership and no other
  role assignment is added, changed or lost, and the invitation is marked accepted.
\<close>

theorem accepted_invitation_guarantees:
  assumes "acceptInvitation E tok uid email w = (Inr (oid, mid), w')"
    and "distinct (map m_id (memberships (w_db w)))"
  shows "\<exists>i \<in> set (invitations (w_db w)). inv_tokenHash i = hashToken E tok \<and>
      inv_status i = InvPending \<and> w_now w < inv_expiresAt i \<and> inv_email i = toLowerCase email \<and>
      inv_organizationId i = oid \<and>
      ownRow (memberships (w_db w)) uid oid mid \<and>
      (\<exists>m \<in> set (memberships (w_db w')). joinedAs i uid mid m) \<and>
      set (userRoles (w_db w')) = set (userRoles (w_db w)) \<union>
        (if truthy_str (inv_roleId i)
         then {\<lparr>ur_membershipId = mid, ur_roleId = the (inv_roleId i)\<rparr>} else {}) \<and>
      (\<forall>m. m_id m \<noteq> mid \<longrightarrow> m \<in> set (memberships (w_db w')) \<longleftrightarrow> m \<in> set (memberships (w_db w))) \<and>
      (\<exists>j \<in> set (invitations (w_db w')). inv_id j = inv_id i \<and> inv_status j = InvAccepted)"
  using assms(1)
proof (rule acceptInvitation_Inr, goal_cases)
  case (1 i m w1 w2)
  note join = joinOrganization_Inr [OF 1(5) assms(2)]
  note grant = grantInvitedRole_Inr [OF 1(6)]
  have i: "i \<in> set (invitations (w_db w))" "inv_tokenHash i = hashToken E tok"
    using 1(1) by (auto dest: findFirst_SomeD)
  have same: "memberships (w_db w') = memberships (w_db w2)" "userRoles (w_db w') = userRoles (w_db w2)"
    by (simp_all add: 1(7))
  have "\<exists>j \<in> set (invitations (w_db w')). inv_id j = inv_id i \<and> inv_status j = InvAccepted"
    unfolding 1(7) using i invitations_after_join [OF 1(5,6)]
    by (intro bexI [of _ "i\<lparr>inv_status := InvAccepted, inv_acceptedAt := Some (w_now w)\<rparr>"])
      (auto simp: set_updateRows)
  moreover have "\<exists>m \<in> set (memberships (w_db w2)). joinedAs i uid mid m"
    using join grant(1) by (auto simp: 1(9))
  moreover have "\<forall>x. m_id x \<noteq> mid \<longrightarrow> x \<in> set (memberships (w_db w2)) \<longleftrightarrow> x \<in> set (memberships (w_db w))"
    using join grant(2) by (simp add: 1(9))
  ultimately show ?case using i 1(2,3,4,8) join grant(3) unfolding same by (auto simp: 1(9))
qed

theorem accepted_invitation_guarantees_witness:
  "\<exists>m \<in> set (memberships (w_db afterAccept)). joinedAs acmeInvitation ''bob'' (m_id m) m \<and>
     hasUserRole (w_db afterAccept) (m_id m) ''ra''"
proof -
  obtain oid mid where a: "acceptInvitation sampleEnv ''secret'' ''bob'' ''Bob@example.com'' invitedWorld =
      (Inr (oid, mid), afterAccept)"
    using acceptInvitation_sample by auto
  have d: "distinct (map m_id (memberships (w_db invitedWorld)))" by code_simp
  have i: "invitations (w_db invitedWorld) = [acmeInvitation]" by code_simp
  have r: "inv_roleId acmeInvitation = Some ''ra''" by code_simp
  from accepted_invitation_guarantees [OF a d] show ?thesis
    by (auto simp: i r joinedAs_def hasUserRole_def truthy_str_def)
qed

text \<open>
  Accepting an expired invitation is refused, and the code means to mark the row as
  expired on the way; the mark is written inside the transaction that the refusal rolls
  back, so no table changes and the invitation stays pending.
\<close>

theorem expired_mark_is_rolled_back:
  assumes "findFirst (\<lambda>i. inv_tokenHash i = hashToken E tok) (invitations (w_db w)) = Some i"
    and "inv_status i = InvPending" and "inv_expiresAt i \<le> w_now w"
  shows "\<exists>w'. acceptInvitation E tok uid email w = (Inl invitationExpired, w') \<and> w_db w' = w_db w"
proof -
  have "i \<in> set (invitations (w_db w))" using assms(1) by (auto dest: findFirst_SomeD)
  then obtain j where "findFirst (\<lambda>x. inv_id x = inv_id i) (invitations (w_db w)) = Some j"
    using findFirst_ex [of i "invitations (w_db w)" "\<lambda>x. inv_id x = inv_id i"] by auto
  with assms show ?thesis
    by (simp add: acceptInvitation_def transaction_run monad_simps)
qed

theorem expired_mark_is_rolled_back_witness:
  "w_db (snd (acceptInvitation sampleEnv ''secret'' ''bob'' ''bob@example.com''
     (invitedWorld\<lparr>w_now := 6000\<rparr>))) = w_db invitedWorld"
proof -
  let ?w = "invitedWorld\<lparr>w_now := 6000\<rparr>"
  have i: "findFirst (\<lambda>i. inv_tokenHash i = hashToken sampleEnv ''secret'') (invitations (w_db ?w)) =
      Some acmeInvitation" by code_simp
  have "inv_status acmeInvitation = InvPending" "inv_expiresAt acmeInvitation \<le> w_now ?w" by code_simp+
  from expired_mark_is_rolled_back [OF i this, of "''bob''" "''bob@example.com''"]
  show ?thesis by (elim exE conjE) simp
qed

text \<open>
  Removing a member leaves the member's role rows in place: when the former
  administrator is invited back without any role, accepting makes an administrator again.
\<close>

theorem rejoining_restores_old_roles:
  "(let w = worldOf (acmeDb [\<lparr>ur_membershipId = ''ma'', ur_roleId = ''ra''\<rparr>,
                              \<lparr>ur_membershipId = ''mb'', ur_roleId = ''ra''\<rparr>]
               \<lparr>invitations := [acmeInvitation\<lparr>inv_roleId := None\<rparr>]\<rparr>);
        (r1, w1) = removeMember sampleEnv ''acme'' ''bob'' ''alice'' w;
        (r2, w2) = acceptInvitation sampleEnv ''secret'' ''bob'' ''bob@example.com'' w1
    in r1 = Inr () \<and> map ur_membershipId (adminRows (w_db w1) ''acme'') = [''ma''] \<and>
       r2 = Inr (''acme'', ''mb'') \<and> map ur_membershipId (adminRows (w_db w2) ''acme'') = [''ma'', ''mb''])"
  by code_simp

end
