(* ===== verification/Permissions.thy ===== *)
theory Permissions
  imports Memberships "HOL-Library.List_Lexorder" "HOL-Library.Char_ord"
begin

text \<open>
  Role-based access control: \<open>authorization/services/permission.service.ts\<close> and
  \<open>authorization/services/role.service.ts\<close>.  Names are sorted in byte order, the C
  collation of the database.
\<close>

section \<open>Cache keys\<close>

definition permissionsKey :: "string \<Rightarrow> string \<Rightarrow> string" where
  "permissionsKey uid oid = ''permissions:user:'' @ uid @ '':org:'' @ oid"

definition policiesKey :: "string \<Rightarrow> string \<Rightarrow> string" where
  "policiesKey uid oid = ''policies:user:'' @ uid @ '':org:'' @ oid"

definition attributesKey :: "string \<Rightarrow> string \<Rightarrow> string" where
  "attributesKey uid oid = ''attributes:user:'' @ uid @ '':org:'' @ oid"

definition AUTHZ_CACHE_TTL_SECONDS :: int where
  "AUTHZ_CACHE_TTL_SECONDS = 300"

section \<open>PermissionService\<close>

record CreatePermissionDto =
  cp_resource :: string
  cp_action :: string
  cp_description :: "string option"

definition createPermission :: "env \<Rightarrow> CreatePermissionDto \<Rightarrow> Permission act" where
  "createPermission E dto =
     bindM (dbFind permissionsT (\<lambda>p. p_resource p = cp_resource dto \<and> p_action p = cp_action dto)) (\<lambda>existing.
     case existing of
       Some p \<Rightarrow> returnM p
     | None \<Rightarrow>
         bindM (newId E) (\<lambda>pid.
         dbCreate permissionsT [''resource'', ''action'']
           (\<lambda>p. p_id p = pid \<or> (p_resource p = cp_resource dto \<and> p_action p = cp_action dto)) (\<lambda>_. True)
           \<lparr>p_id = pid, p_resource = cp_resource dto, p_action = cp_action dto,
            p_description = cp_description dto\<rparr>))"

definition listPermissions :: "(Permission list) act" where
  "listPermissions =
     bindM (dbFindMany permissionsT (\<lambda>_. True)) (\<lambda>rows.
     returnM (sort_key p_resource (sort_key p_action rows)))"

definition findPermissionById :: "string \<Rightarrow> Permission act" where
  "findPermissionById pid =
     bindM (dbFind permissionsT (\<lambda>p. p_id p = pid)) (\<lambda>row.
     orThrow row (NotFoundAppException ''Permission not found''))"

definition permissionInUse :: exn where
  "permissionInUse =
     appExn ''PERMISSION_DENIED'' ''Permission is in use by one or more roles'' 409"

definition removePermission :: "string \<Rightarrow> unit act" where
  "removePermission pid =
     bindM (dbCount rolePermissionsT (\<lambda>rp. rp_permissionId rp = pid)) (\<lambda>usage.
     thenM (throw_if (0 < usage) permissionInUse)
     (dbDelete permissionsT (\<lambda>p. p_id p = pid)))"

text \<open>
  The query of \<open>resolveForMembership\<close>: the permissions of the roles, not deleted, that the
  membership has.
\<close>

definition grantedRows :: "database \<Rightarrow> string \<Rightarrow> Permission list" where
  "grantedRows d mid =
     concat (map (\<lambda>rp. findMany (\<lambda>p. p_id p = rp_permissionId rp) (permissions d))
       (findMany (\<lambda>rp. roleExists d (\<lambda>r. r_deletedAt r = None) (rp_roleId rp) \<and>
                       hasUserRole d mid (rp_roleId rp)) (rolePermissions d)))"

text \<open>The loop over the rows: \<open>seen\<close> holds the texts \<open>resource:action\<close> met so far.\<close>

fun dedupe :: "string list \<Rightarrow> Permission list \<Rightarrow> ResolvedPermission list" where
  "dedupe seen [] = []"
| "dedupe seen (p # ps) =
     (let key = p_resource p @ '':'' @ p_action p in
      if key \<in> set seen then dedupe seen ps
      else \<lparr>perm_resource = p_resource p, perm_action = p_action p\<rparr> # dedupe (key # seen) ps)"

definition loadPermissions :: "string \<Rightarrow> (ResolvedPermission list) act" where
  "loadPermissions mid = getsM (\<lambda>w. dedupe [] (grantedRows (w_db w) mid))"

definition asPermissions :: "cached \<Rightarrow> (ResolvedPermission list) option" where
  "asPermissions c = (case c of CPermissions ps \<Rightarrow> Some ps | _ \<Rightarrow> None)"

definition resolvePermissions :: "string \<Rightarrow> string \<Rightarrow> string \<Rightarrow> (ResolvedPermission list) act" where
  "resolvePermissions uid oid mid =
     cacheGetOrSet (permissionsKey uid oid) asPermissions CPermissions (loadPermissions mid)
       AUTHZ_CACHE_TTL_SECONDS"

definition invalidateForUser :: "string \<Rightarrow> string \<Rightarrow> unit act" where
  "invalidateForUser uid oid = cacheDelete [permissionsKey uid oid, policiesKey uid oid]"

definition invalidateForRole :: "string \<Rightarrow> unit act" where
  "invalidateForRole rid =
     bindM (getsM (\<lambda>w. findMany (\<lambda>m. hasUserRole (w_db w) (m_id m) rid \<and> m_deletedAt m = None)
              (memberships (w_db w)))) (\<lambda>ms.
     whenM (ms \<noteq> [])
       (cacheDelete (concat (map (\<lambda>m. [permissionsKey (m_userId m) (m_organizationId m),
                                      policiesKey (m_userId m) (m_organizationId m)]) ms))))"

definition invalidateForOrganization :: "string \<Rightarrow> unit act" where
  "invalidateForOrganization oid =
     bindM (dbFindMany membershipsT (\<lambda>m. m_organizationId m = oid \<and> m_deletedAt m = None)) (\<lambda>ms.
     whenM (ms \<noteq> [])
       (cacheDelete (concat (map (\<lambda>m. [permissionsKey (m_userId m) oid, policiesKey (m_userId m) oid,
                                      attributesKey (m_userId m) oid]) ms))))"

definition hasPermission :: "ResolvedPermission list \<Rightarrow> string \<Rightarrow> string \<Rightarrow> bool" where
  "hasPermission ps resource action \<longleftrightarrow>
     list_ex (\<lambda>p. (perm_resource p = resource \<or> perm_resource p = ''*'') \<and>
                  (perm_action p = action \<or> perm_action p = ''*'')) ps"

section \<open>RoleService\<close>

record CreateRoleDto =
  cr_name :: string
  cr_slug :: string
  cr_description :: "string option"
  cr_permissionIds :: "(string list) option"

record UpdateRoleDto =
  ur_name :: "string option"
  ur_description :: "string option"

definition roleSlugTaken :: exn where
  "roleSlugTaken = appExn ''ROLE_SLUG_TAKEN'' ''Role slug already exists in this scope'' 409"

definition systemRoleFixed :: "string \<Rightarrow> exn" where
  "systemRoleFixed what = appExn ''PERMISSION_DENIED'' (''System roles cannot be '' @ what) 403"

definition foreignRole :: exn where
  "foreignRole = appExn ''ROLE_NOT_FOUND'' ''Role belongs to a different organization'' 404"

text \<open>\<open>rolePermission.createMany\<close> with \<open>skipDuplicates\<close>.\<close>

definition createRolePermissions :: "string \<Rightarrow> string list \<Rightarrow> unit act" where
  "createRolePermissions rid pids = (\<lambda>w.
     if \<exists>pid \<in> set pids. \<not> (\<exists>p \<in> set (permissions (w_db w)). p_id p = pid)
     then (Inl (PrismaKnownError ''P2003'' NoTarget), w)
     else (Inr (), w_db_update (rolePermissions_update (\<lambda>rows. rows @
       map (\<lambda>pid. \<lparr>rp_roleId = rid, rp_permissionId = pid\<rparr>)
         (filter (\<lambda>pid. \<not> (\<exists>rp \<in> set rows. rp_roleId rp = rid \<and> rp_permissionId rp = pid))
           (remdups pids)))) w))"

definition createRole ::
  "env \<Rightarrow> string option \<Rightarrow> CreateRoleDto \<Rightarrow> string \<Rightarrow> Role act" where
  "createRole E oid dto actorUserId =
     bindM (dbFind rolesT (\<lambda>r. r_organizationId r = oid \<and> r_slug r = cr_slug dto \<and> r_deletedAt r = None)) (\<lambda>existing.
     thenM (throw_if (existing \<noteq> None) roleSlugTaken)
     (bindM (transaction
        (bindM (newId E) (\<lambda>rid.
         bindM (dbCreate rolesT [''organizationId'', ''slug'']
                  (\<lambda>r. r_id r = rid \<or> (oid \<noteq> None \<and> r_organizationId r = oid \<and> r_slug r = cr_slug dto))
                  (\<lambda>d. pred_option (\<lambda>x. \<exists>ob \<in> set (organizations d). o_id ob = x) oid)
                  \<lparr>r_id = rid, r_organizationId = oid, r_name = cr_name dto, r_slug = cr_slug dto,
                   r_description = cr_description dto, r_isSystem = False, r_deletedAt = None\<rparr>) (\<lambda>created.
         thenM (case cr_permissionIds dto of
                  None \<Rightarrow> returnM ()
                | Some pids \<Rightarrow> whenM (pids \<noteq> []) (createRolePermissions (r_id created) pids))
         (returnM created))))) (\<lambda>role.
      thenM (auditRecord E ROLE_CREATED AR_ROLE
               (auditOk (Some (r_id role)) (Some actorUserId) None
                  [(''organizationId'', js_of_opt oid), (''slug'', JStr (r_slug role))]))
      (returnM role))))"

definition listRoles :: "string option \<Rightarrow> (Role list) act" where
  "listRoles oid =
     bindM (dbFindMany rolesT (\<lambda>r. r_deletedAt r = None \<and>
        (if truthy_str oid then r_organizationId r = oid \<or> r_organizationId r = None
         else r_organizationId r = None))) (\<lambda>rows.
     returnM (sort_key (\<lambda>r. \<not> r_isSystem r) (sort_key r_name rows)))"

definition findRoleById :: "string \<Rightarrow> Role act" where
  "findRoleById rid =
     bindM (dbFind rolesT (\<lambda>r. r_id r = rid \<and> r_deletedAt r = None)) (\<lambda>row.
     orThrow row (NotFoundAppException ''Role not found''))"

definition updateRole :: "env \<Rightarrow> string \<Rightarrow> UpdateRoleDto \<Rightarrow> string \<Rightarrow> Role act" where
  "updateRole E rid dto actorUserId =
     bindM (findRoleById rid) (\<lambda>existing.
     thenM (throw_if (r_isSystem existing) (systemRoleFixed ''updated''))
     (bindM (dbUpdate rolesT (\<lambda>r. r_id r = rid)
        (\<lambda>r. setIf (ur_name dto) (\<lambda>x r. r\<lparr>r_name := x\<rparr>)
          (setIf (ur_description dto) (\<lambda>x r. r\<lparr>r_description := Some x\<rparr>) r))) (\<lambda>updated.
      thenM (auditRecord E ROLE_UPDATED AR_ROLE (auditOk (Some rid) (Some actorUserId) None []))
      (returnM updated))))"

definition removeRole :: "env \<Rightarrow> string \<Rightarrow> string \<Rightarrow> unit act" where
  "removeRole E rid actorUserId =
     bindM (findRoleById rid) (\<lambda>role.
     thenM (throw_if (r_isSystem role) (systemRoleFixed ''deleted''))
     (bindM nowM (\<lambda>now.
      thenM (dbUpdate rolesT (\<lambda>r. r_id r = rid) (\<lambda>r. r\<lparr>r_deletedAt := Some now\<rparr>))
      (thenM (bumpPermissionsVersionForRole rid)
      (thenM (invalidateForRole rid)
      (auditRecord E ROLE_DELETED AR_ROLE (auditOk (Some rid) (Some actorUserId) None [])))))))"

definition setPermissions :: "env \<Rightarrow> string \<Rightarrow> string list \<Rightarrow> string \<Rightarrow> unit act" where
  "setPermissions E rid pids actorUserId =
     thenM (findRoleById rid)
     (thenM (transaction
        (thenM (dbDeleteMany rolePermissionsT (\<lambda>rp. rp_roleId rp = rid))
        (whenM (pids \<noteq> []) (createRolePermissions rid pids))))
     (thenM (bumpPermissionsVersionForRole rid)
     (thenM (invalidateForRole rid)
     (auditRecord E ROLE_UPDATED AR_ROLE
        (auditOk (Some rid) (Some actorUserId) None
           [(''permissionsCount'', JNum (Fin (of_nat (length pids))))])))))"

definition afterAssignment :: "string \<Rightarrow> string \<Rightarrow> unit act" where
  "afterAssignment mid oid =
     bindM (dbFind membershipsT (\<lambda>m. m_id m = mid)) (\<lambda>membership.
     case membership of None \<Rightarrow> returnM () | Some m \<Rightarrow> invalidateForUser (m_userId m) oid)"

definition roleMetadata :: "string \<Rightarrow> string \<Rightarrow> (string \<times> jsval) list" where
  "roleMetadata mid oid = [(''membershipId'', JStr mid), (''organizationId'', JStr oid)]"

definition assignToMembership ::
  "env \<Rightarrow> string \<Rightarrow> string \<Rightarrow> string \<Rightarrow> string \<Rightarrow> unit act" where
  "assignToMembership E oid mid rid actorUserId =
     bindM (findRoleById rid) (\<lambda>role.
     thenM (throw_if (truthy_str (r_organizationId role) \<and> r_organizationId role \<noteq> Some oid) foreignRole)
     (thenM (transaction (thenM (upsertUserRole mid rid) (bumpPermissionsVersion mid)))
     (thenM (afterAssignment mid oid)
     (auditRecord E ROLE_ASSIGNED AR_ROLE
        (auditOk (Some rid) (Some actorUserId) None (roleMetadata mid oid))))))"

definition revokeFromMembership ::
  "env \<Rightarrow> string \<Rightarrow> string \<Rightarrow> string \<Rightarrow> string \<Rightarrow> unit act" where
  "revokeFromMembership E oid mid rid actorUserId =
     thenM (transaction
        (thenM (dbDeleteMany userRolesT (\<lambda>ur. ur_membershipId ur = mid \<and> ur_roleId ur = rid))
               (bumpPermissionsVersion mid)))
     (thenM (afterAssignment mid oid)
     (auditRecord E ROLE_REVOKED AR_ROLE
        (auditOk (Some rid) (Some actorUserId) None (roleMetadata mid oid))))"

end
