(* ===== verification/Conditions.thy ===== *)
theory Conditions
  imports JwtStrategy
begin

text \<open>
  Attribute-based access control, the pure part:
  \<open>authorization/services/attribute-resolver.service.ts\<close>,
  \<open>authorization/services/condition-evaluator.service.ts\<close> and the types of
  \<open>authorization/interfaces/authorization.interfaces.ts\<close>.
\<close>

section \<open>The authorization context\<close>

record RequestSnapshot =
  rq_ip :: "string option"
  rq_userAgent :: "string option"
  rq_method :: "string option"
  rq_path :: "string option"
  rq_headers :: "(string \<times> jsval) list"

record SerializedPolicyCondition =
  spc_id :: string
  spc_attributeSource :: AttributeSource
  spc_attributePath :: string
  spc_operator :: PolicyOperator
  spc_value :: jsval
  spc_valueType :: AttributeValueType

record SerializedPolicy =
  sp_id :: string
  sp_name :: string
  sp_slug :: string
  sp_description :: "string option"
  sp_effect :: PolicyEffect
  sp_resource :: string
  sp_action :: string
  sp_priority :: int
  sp_isEnabled :: bool
  sp_isSystem :: bool
  sp_conditions :: "SerializedPolicyCondition list"

record AuthorizationContext =
  ax_user :: AuthenticatedUser
  ax_resource :: string
  ax_action :: string
  ax_organizationId :: "string option"
  ax_resourceData :: jsval
  ax_resourceId :: "string option"
  ax_request :: RequestSnapshot
  ax_attributes :: ResolvedAttributes
  ax_permissions :: "ResolvedPermission list"
  ax_policies :: "SerializedPolicy list"

section \<open>AttributeResolverService\<close>

definition sourceOfName :: "string \<Rightarrow> AttributeSource option" where
  "sourceOfName s = map_of
     [(''USER'', USER), (''MEMBERSHIP'', MEMBERSHIP), (''RESOURCE'', RESOURCE),
      (''ORGANIZATION'', ORGANIZATION), (''REQUEST'', REQUEST), (''ENVIRONMENT'', ENVIRONMENT)] s"

definition snapshotValue :: "RequestSnapshot \<Rightarrow> jsval" where
  "snapshotValue rq = JObj [(''ip'', js_of_opt (rq_ip rq)), (''userAgent'', js_of_opt (rq_userAgent rq)),
     (''method'', js_of_opt (rq_method rq)), (''path'', js_of_opt (rq_path rq)),
     (''headers'', JObj (rq_headers rq))]"

definition rootFor :: "env \<Rightarrow> int \<Rightarrow> AuthorizationContext \<Rightarrow> AttributeSource \<Rightarrow> jsval" where
  "rootFor E now ctx source =
     (case source of
        USER \<Rightarrow> JObj (js_spread [(''id'', JStr (au_id (ax_user ctx))),
                                 (''email'', JStr (au_email (ax_user ctx)))]
                       (at_user (ax_attributes ctx)))
      | MEMBERSHIP \<Rightarrow> JObj (at_membership (ax_attributes ctx))
      | ORGANIZATION \<Rightarrow> JObj (at_organization (ax_attributes ctx))
      | RESOURCE \<Rightarrow> (if js_nullish (ax_resourceData ctx) then JObj [] else ax_resourceData ctx)
      | REQUEST \<Rightarrow> snapshotValue (ax_request ctx)
      | ENVIRONMENT \<Rightarrow> JObj [(''nodeEnv'', JStr (e_nodeEnv E)), (''now'', JStr (e_toISOString E now))])"

text \<open>The loop of \<open>readPath\<close>: only objects (arrays and dates included) are entered.\<close>

fun walkPath :: "js_runtime \<Rightarrow> jsval \<Rightarrow> string list \<Rightarrow> jsval" where
  "walkPath R cursor [] = cursor"
| "walkPath R cursor (part # parts) =
     (if js_nullish cursor \<or> js_typeof cursor \<noteq> TObject then JUndefined
      else walkPath R (js_get R cursor part) parts)"

definition readPath :: "js_runtime \<Rightarrow> jsval \<Rightarrow> string \<Rightarrow> jsval" where
  "readPath R base path =
     (if js_nullish base then JUndefined else walkPath R base (js_split (CHR ''.'') path))"

definition resolveAttribute ::
  "env \<Rightarrow> int \<Rightarrow> AuthorizationContext \<Rightarrow> AttributeSource \<Rightarrow> string \<Rightarrow> jsval" where
  "resolveAttribute E now ctx source path = readPath (e_js E) (rootFor E now ctx source) path"

text \<open>
  \<open>/^([A-Z]+)\.(.+)$/\<close>: the capital letters before the first other character, which is
  a dot, and a rest that is not empty and has no line terminator.
\<close>

definition isCapital :: "char \<Rightarrow> bool" where
  "isCapital c \<longleftrightarrow> (65::nat) \<le> of_char c \<and> (of_char c :: nat) \<le> 90"

definition splitReference :: "string \<Rightarrow> (string \<times> string) option" where
  "splitReference expr =
     (let name = takeWhile isCapital expr; rest = dropWhile isCapital expr in
      (case rest of
         [] \<Rightarrow> None
       | c # path \<Rightarrow>
           if name \<noteq> [] \<and> c = CHR ''.'' \<and> path \<noteq> [] \<and>
              list_all (\<lambda>x. x \<noteq> CHR 0x0A \<and> x \<noteq> CHR 0x0D) path
           then Some (name, path) else None))"

definition resolveCompareTarget :: "env \<Rightarrow> int \<Rightarrow> AuthorizationContext \<Rightarrow> string \<Rightarrow> jsval" where
  "resolveCompareTarget E now ctx expr =
     (case splitReference expr of
        None \<Rightarrow> JStr expr
      | Some (name, path) \<Rightarrow>
          (case sourceOfName name of
             None \<Rightarrow> JStr expr
           | Some source \<Rightarrow> resolveAttribute E now ctx source path))"

section \<open>ConditionEvaluatorService\<close>

definition coerceValue :: "js_runtime \<Rightarrow> jsval \<Rightarrow> AttributeValueType \<Rightarrow> jsval" where
  "coerceValue R v t =
     (if js_nullish v then v
      else (case t of
        VT_NUMBER \<Rightarrow> (case v of JNum n \<Rightarrow> JNum n | _ \<Rightarrow> JNum (js_Number R v))
      | VT_BOOLEAN \<Rightarrow> (case v of JBool b \<Rightarrow> JBool b | _ \<Rightarrow>
          if v = JStr ''true'' then JBool True
          else if v = JStr ''false'' then JBool False
          else JBool (js_truthy v))
      | VT_DATE \<Rightarrow> (case v of JDate d \<Rightarrow> JDate d | _ \<Rightarrow> JDate (js_parseDate R (js_String R v)))
      | VT_STRING \<Rightarrow> (case v of JStr s \<Rightarrow> JStr s | _ \<Rightarrow> JStr (js_String R v))
      | VT_ARRAY \<Rightarrow> v
      | VT_JSON \<Rightarrow> v))"

text \<open>
  Two dates are compared by \<open>getTime()\<close>, which is \<open>NaN\<close>, unequal to itself, for an
  invalid one.
\<close>

fun js_isDate :: "jsval \<Rightarrow> bool" where
  "js_isDate (JDate _) = True"
| "js_isDate _ = False"

fun js_getTime :: "jsval \<Rightarrow> int option" where
  "js_getTime (JDate d) = d"
| "js_getTime _ = None"

fun js_elems :: "jsval \<Rightarrow> jsval list" where
  "js_elems (JArr xs) = xs"
| "js_elems _ = []"

function deepEqual :: "js_runtime \<Rightarrow> jsval \<Rightarrow> jsval \<Rightarrow> bool" where
  "deepEqual R a b =
     (if js_strictEq a b then True
      else if js_isDate a \<and> js_isDate b then js_getTime a \<noteq> None \<and> js_getTime a = js_getTime b
      else if js_typeof a \<noteq> js_typeof b then False
      else if js_typeof a \<noteq> TObject \<or> a = JNull \<or> b = JNull then False
      else if js_isArray a \<and> js_isArray b then
        length (js_elems a) = length (js_elems b) \<and>
        list_all (\<lambda>(x, y). deepEqual R x y) (zip (js_elems a) (js_elems b))
      else list_all (\<lambda>k. deepEqual R (js_get R a k) (js_get R b k)) (js_keys a @ js_keys b))"
  by pat_completeness auto

lemma jsize_get_pair:
  "k \<in> set (js_keys a) \<or> k \<in> set (js_keys b) \<Longrightarrow>
     jsize (js_get R a k) + jsize (js_get R b k) < jsize a + jsize b"
  using jsize_get_less [of k a R] jsize_get_less [of k b R] jsize_get_le [of R a k]
    jsize_get_le [of R b k] by linarith

lemma jsize_elem: "x \<in> set (js_elems v) \<Longrightarrow> jsize x < jsize v"
  by (cases v) (simp_all add: le_imp_less_Suc member_le_sum_list)

lemma jsize_elem_pair:
  "(x, y) \<in> set (zip (js_elems a) (js_elems b)) \<Longrightarrow> jsize x + jsize y < jsize a + jsize b"
  using jsize_elem [of x a] jsize_elem [of y b]
  by (meson add_strict_mono set_zip_leftD set_zip_rightD)

termination deepEqual
  by (relation "measure (\<lambda>(R, a, b). jsize a + jsize b)")
    (auto dest: jsize_elem_pair intro: jsize_get_pair)

declare deepEqual.simps [simp del]

definition numericCompare ::
  "js_runtime \<Rightarrow> jsval \<Rightarrow> jsval \<Rightarrow> (jsnum \<Rightarrow> jsnum \<Rightarrow> bool) \<Rightarrow> bool" where
  "numericCompare R actual expected cmp =
     (let a = (case actual of JNum n \<Rightarrow> n | _ \<Rightarrow> js_Number R actual);
          b = (case expected of JNum n \<Rightarrow> n | _ \<Rightarrow> js_Number R expected)
      in if a = NaN \<or> b = NaN then False else cmp a b)"

text \<open>\<open><\<close> on doubles that are not \<open>NaN\<close>.\<close>

fun js_less :: "jsnum \<Rightarrow> jsnum \<Rightarrow> bool" where
  "js_less NaN b = False"
| "js_less a NaN = False"
| "js_less a NegInf = False"
| "js_less NegInf b = True"
| "js_less PosInf b = False"
| "js_less a PosInf = True"
| "js_less (Fin x) (Fin y) = (x < y)"

fun applyOperator :: "js_runtime \<Rightarrow> PolicyOperator \<Rightarrow> jsval \<Rightarrow> jsval \<Rightarrow> bool" where
  "applyOperator R EQUALS actual expected = deepEqual R actual expected"
| "applyOperator R NOT_EQUALS actual expected = (\<not> deepEqual R actual expected)"
| "applyOperator R IN_OP actual expected =
     (js_isArray expected \<and> list_ex (\<lambda>v. deepEqual R v actual) (js_elems expected))"
| "applyOperator R NOT_IN_OP actual expected =
     (js_isArray expected \<and> \<not> list_ex (\<lambda>v. deepEqual R v actual) (js_elems expected))"
| "applyOperator R GREATER_THAN actual expected =
     numericCompare R actual expected (\<lambda>a b. js_less b a)"
| "applyOperator R GREATER_THAN_OR_EQUAL actual expected =
     numericCompare R actual expected (\<lambda>a b. js_less b a \<or> a = b)"
| "applyOperator R LESS_THAN actual expected =
     numericCompare R actual expected (\<lambda>a b. js_less a b)"
| "applyOperator R LESS_THAN_OR_EQUAL actual expected =
     numericCompare R actual expected (\<lambda>a b. js_less a b \<or> a = b)"
| "applyOperator R CONTAINS actual expected =
     (case (actual, expected) of
        (JStr s, JStr p) \<Rightarrow> js_includes s p
      | _ \<Rightarrow> js_isArray actual \<and> list_ex (\<lambda>v. deepEqual R v expected) (js_elems actual))"
| "applyOperator R STARTS_WITH actual expected =
     (case (actual, expected) of (JStr s, JStr p) \<Rightarrow> startsWith s p | _ \<Rightarrow> False)"
| "applyOperator R ENDS_WITH actual expected =
     (case (actual, expected) of (JStr s, JStr p) \<Rightarrow> endsWith s p | _ \<Rightarrow> False)"
| "applyOperator R EXISTS_OP actual expected = (\<not> js_nullish actual)"
| "applyOperator R REGEX_MATCH actual expected =
     (case (actual, expected) of
        (JStr s, JStr p) \<Rightarrow> (case js_regexTest R p s of None \<Rightarrow> False | Some m \<Rightarrow> m)
      | _ \<Rightarrow> False)"

record ConditionEvaluation =
  ce_passed :: bool
  ce_actual :: jsval
  ce_expected :: jsval

definition expectedValue ::
  "env \<Rightarrow> int \<Rightarrow> SerializedPolicyCondition \<Rightarrow> AuthorizationContext \<Rightarrow> jsval" where
  "expectedValue E now c ctx =
     (case spc_value c of JStr s \<Rightarrow> resolveCompareTarget E now ctx s | v \<Rightarrow> v)"

definition evaluateCondition ::
  "env \<Rightarrow> int \<Rightarrow> SerializedPolicyCondition \<Rightarrow> AuthorizationContext \<Rightarrow> ConditionEvaluation" where
  "evaluateCondition E now c ctx =
     (let actual = resolveAttribute E now ctx (spc_attributeSource c) (spc_attributePath c);
          expected = expectedValue E now c ctx;
          isCollectionOp = (spc_operator c = IN_OP \<or> spc_operator c = NOT_IN_OP);
          coercedActual = coerceValue (e_js E) actual (spc_valueType c);
          coercedExpected =
            (if isCollectionOp \<and> js_isArray expected then expected
             else coerceValue (e_js E) expected (spc_valueType c))
      in \<lparr>ce_passed = applyOperator (e_js E) (spc_operator c) coercedActual coercedExpected,
          ce_actual = coercedActual, ce_expected = coercedExpected\<rparr>)"

section \<open>Laws of the comparison\<close>

lemma list_all_zip_sym:
  "(\<And>x y. (x, y) \<in> set (zip xs ys) \<Longrightarrow> P x y = P y x) \<Longrightarrow>
     list_all (\<lambda>(x, y). P x y) (zip xs ys) = list_all (\<lambda>(x, y). P x y) (zip ys xs)"
proof (induction xs arbitrary: ys)
  case (Cons x xs)
  then show ?case by (cases ys) auto
qed simp

lemma deepEqual_sym: "deepEqual R a b = deepEqual R b a"
proof (induction R a b rule: deepEqual.induct)
  case (1 R a b)
  show ?case
  proof (cases "js_strictEq a b \<or> js_isDate a \<and> js_isDate b \<or> js_typeof a \<noteq> js_typeof b \<or>
      js_typeof a \<noteq> TObject \<or> a = JNull \<or> b = JNull")
    case True
    then show ?thesis
      unfolding deepEqual.simps [of R a b] deepEqual.simps [of R b a] js_strictEq_sym [of b a]
      by (simp only: conj_commute eq_commute) auto
  next
    case False
    show ?thesis
    proof (cases "js_isArray a \<and> js_isArray b")
      case True
      have "deepEqual R x y = deepEqual R y x" if "(x, y) \<in> set (zip (js_elems a) (js_elems b))" for x y
        using 1(1) False True that by blast
      then have "list_all (\<lambda>(x, y). deepEqual R x y) (zip (js_elems a) (js_elems b)) =
          list_all (\<lambda>(x, y). deepEqual R x y) (zip (js_elems b) (js_elems a))"
        by (rule list_all_zip_sym)
      with False True show ?thesis
        unfolding deepEqual.simps [of R a b] deepEqual.simps [of R b a] js_strictEq_sym [of b a]
        by simp argo
    next
      case False2: False
      have "deepEqual R (js_get R a k) (js_get R b k) = deepEqual R (js_get R b k) (js_get R a k)"
        if "k \<in> set (js_keys a @ js_keys b)" for k
        using 1(2) False False2 that by blast
      then have "list_all (\<lambda>k. deepEqual R (js_get R a k) (js_get R b k)) (js_keys a @ js_keys b) =
          list_all (\<lambda>k. deepEqual R (js_get R b k) (js_get R a k)) (js_keys b @ js_keys a)"
        by (auto simp: list_all_iff)
      with False False2 show ?thesis
        unfolding deepEqual.simps [of R a b] deepEqual.simps [of R b a] js_strictEq_sym [of b a]
        by simp argo
    qed
  qed
qed

end
