(* ===== verification/PolicyEvaluator.thy ===== *)
theory PolicyEvaluator
  imports Conditions
begin

text \<open>
  \<open>authorization/services/policy-evaluator.service.ts\<close>: which policies of a context apply,
  and the decision they make together.
\<close>

record MatchedPolicy =
  mp_id :: string
  mp_name :: string
  mp_effect :: PolicyEffect

record FailedCondition =
  fc_policyId :: string
  fc_conditionId :: string
  fc_attributeSource :: AttributeSource
  fc_attributePath :: string
  fc_operator :: PolicyOperator
  fc_actualValue :: jsval
  fc_expectedValue :: jsval

record AuthorizationDecision =
  ad_allowed :: bool
  ad_reason :: string
  ad_matchedPolicies :: "MatchedPolicy list"
  ad_failedConditions :: "FailedCondition list"

definition matchesResource :: "SerializedPolicy \<Rightarrow> string \<Rightarrow> string \<Rightarrow> bool" where
  "matchesResource policy resource action \<longleftrightarrow>
     (sp_resource policy = ''*'' \<or> sp_resource policy = resource) \<and>
     (sp_action policy = ''*'' \<or> sp_action policy = action)"

definition failedEntry ::
  "string \<Rightarrow> SerializedPolicyCondition \<Rightarrow> ConditionEvaluation \<Rightarrow> FailedCondition" where
  "failedEntry policyId c result =
     \<lparr>fc_policyId = policyId, fc_conditionId = spc_id c,
      fc_attributeSource = spc_attributeSource c, fc_attributePath = spc_attributePath c,
      fc_operator = spc_operator c, fc_actualValue = ce_actual result,
      fc_expectedValue = ce_expected result\<rparr>"

text \<open>The loop of \<open>allConditionsPass\<close>: it stops at the first failure and records it.\<close>

fun conditionLoop ::
  "env \<Rightarrow> int \<Rightarrow> AuthorizationContext \<Rightarrow> string \<Rightarrow> SerializedPolicyCondition list \<Rightarrow>
   FailedCondition list \<Rightarrow> bool \<times> FailedCondition list" where
  "conditionLoop E now ctx pid [] failed = (True, failed)"
| "conditionLoop E now ctx pid (c # cs) failed =
     (let result = evaluateCondition E now c ctx in
      if ce_passed result then conditionLoop E now ctx pid cs failed
      else (False, failed @ [failedEntry pid c result]))"

definition allConditionsPass ::
  "env \<Rightarrow> int \<Rightarrow> SerializedPolicy \<Rightarrow> AuthorizationContext \<Rightarrow>
   FailedCondition list \<Rightarrow> bool \<times> FailedCondition list" where
  "allConditionsPass E now policy ctx failed =
     (if sp_conditions policy = [] then (True, failed)
      else conditionLoop E now ctx (sp_id policy) (sp_conditions policy) failed)"

record EvalState =
  es_matched :: "MatchedPolicy list"
  es_failed :: "FailedCondition list"
  es_allowMatched :: bool
  es_denyMatched :: "SerializedPolicy option"

text \<open>The loop over the candidates: it stops at the first matching DENY.\<close>

fun policyLoop ::
  "env \<Rightarrow> int \<Rightarrow> AuthorizationContext \<Rightarrow> SerializedPolicy list \<Rightarrow> EvalState \<Rightarrow> EvalState" where
  "policyLoop E now ctx [] st = st"
| "policyLoop E now ctx (p # ps) st =
     (case allConditionsPass E now p ctx (es_failed st) of
        (False, failed) \<Rightarrow> policyLoop E now ctx ps (st\<lparr>es_failed := failed\<rparr>)
      | (True, failed) \<Rightarrow>
          (let st' = st\<lparr>es_failed := failed,
               es_matched := es_matched st @ [\<lparr>mp_id = sp_id p, mp_name = sp_name p, mp_effect = sp_effect p\<rparr>]\<rparr>
           in if sp_effect p = DENY then st'\<lparr>es_denyMatched := Some p\<rparr>
              else policyLoop E now ctx ps (st'\<lparr>es_allowMatched := True\<rparr>)))"

definition candidatePolicies :: "AuthorizationContext \<Rightarrow> SerializedPolicy list" where
  "candidatePolicies ctx = sort_key (\<lambda>p. - sp_priority p)
     (filter (\<lambda>p. matchesResource p (ax_resource ctx) (ax_action ctx))
       (filter sp_isEnabled (ax_policies ctx)))"

definition evaluatePolicies :: "env \<Rightarrow> int \<Rightarrow> AuthorizationContext \<Rightarrow> AuthorizationDecision" where
  "evaluatePolicies E now ctx =
     (let st = policyLoop E now ctx (candidatePolicies ctx)
        \<lparr>es_matched = [], es_failed = [], es_allowMatched = False, es_denyMatched = None\<rparr>
      in case es_denyMatched st of
        Some p \<Rightarrow>
          \<lparr>ad_allowed = False, ad_reason = ''Access denied by policy '' @ [CHR 0x22] @ sp_name p @ [CHR 0x22],
           ad_matchedPolicies = es_matched st, ad_failedConditions = es_failed st\<rparr>
      | None \<Rightarrow>
          if es_allowMatched st then
            \<lparr>ad_allowed = True, ad_reason = ''Access granted by policy'',
             ad_matchedPolicies = es_matched st, ad_failedConditions = es_failed st\<rparr>
          else
            \<lparr>ad_allowed = False, ad_reason = ''No matching ALLOW policy'',
             ad_matchedPolicies = es_matched st, ad_failedConditions = es_failed st\<rparr>)"

section \<open>Specification\<close>

definition policyHolds :: "env \<Rightarrow> int \<Rightarrow> AuthorizationContext \<Rightarrow> SerializedPolicy \<Rightarrow> bool" where
  "policyHolds E now ctx p \<longleftrightarrow>
     (\<forall>c \<in> set (sp_conditions p). ce_passed (evaluateCondition E now c ctx))"

definition policyApplies :: "env \<Rightarrow> int \<Rightarrow> AuthorizationContext \<Rightarrow> SerializedPolicy \<Rightarrow> bool" where
  "policyApplies E now ctx p \<longleftrightarrow> sp_isEnabled p \<and>
     matchesResource p (ax_resource ctx) (ax_action ctx) \<and> policyHolds E now ctx p"

lemma conditionLoop_fst:
  "fst (conditionLoop E now ctx pid cs failed) \<longleftrightarrow>
     (\<forall>c \<in> set cs. ce_passed (evaluateCondition E now c ctx))"
  by (induction cs) (simp_all add: Let_def)

lemma allConditionsPass_fst: "fst (allConditionsPass E now p ctx failed) = policyHolds E now ctx p"
  by (simp add: allConditionsPass_def policyHolds_def conditionLoop_fst)

lemma policyLoop_deny:
  "es_denyMatched st = None \<Longrightarrow>
     es_denyMatched (policyLoop E now ctx ps st) = None \<longleftrightarrow>
     (\<forall>p \<in> set ps. policyHolds E now ctx p \<longrightarrow> sp_effect p \<noteq> DENY)"
proof (induction ps arbitrary: st)
  case (Cons p ps)
  then show ?case
    using allConditionsPass_fst [of E now p ctx "es_failed st"]
    by (auto simp: Let_def split: prod.split bool.split)
qed simp

lemma policyLoop_allow:
  "es_denyMatched st = None \<Longrightarrow> es_denyMatched (policyLoop E now ctx ps st) = None \<Longrightarrow>
     es_allowMatched (policyLoop E now ctx ps st) \<longleftrightarrow>
     es_allowMatched st \<or> (\<exists>p \<in> set ps. policyHolds E now ctx p)"
proof (induction ps arbitrary: st)
  case (Cons p ps)
  then show ?case
    using allConditionsPass_fst [of E now p ctx "es_failed st"]
    by (auto simp: Let_def split: prod.splits bool.splits if_splits)
qed simp

lemma set_candidatePolicies:
  "set (candidatePolicies ctx) = {p \<in> set (ax_policies ctx). sp_isEnabled p \<and>
     matchesResource p (ax_resource ctx) (ax_action ctx)}"
  by (auto simp: candidatePolicies_def)

text \<open>The loops, run from their initial state: which policies decide.\<close>

abbreviation decisionState :: "env \<Rightarrow> int \<Rightarrow> AuthorizationContext \<Rightarrow> EvalState" where
  "decisionState E now ctx \<equiv> policyLoop E now ctx (candidatePolicies ctx)
     \<lparr>es_matched = [], es_failed = [], es_allowMatched = False, es_denyMatched = None\<rparr>"

definition someApplies :: "env \<Rightarrow> int \<Rightarrow> AuthorizationContext \<Rightarrow> PolicyEffect \<Rightarrow> bool" where
  "someApplies E now ctx eff \<longleftrightarrow> (\<exists>p \<in> set (ax_policies ctx). sp_effect p = eff \<and> policyApplies E now ctx p)"

lemma deny_iff: "es_denyMatched (decisionState E now ctx) \<noteq> None \<longleftrightarrow> someApplies E now ctx DENY"
  using policyLoop_deny [of "\<lparr>es_matched = [], es_failed = [], es_allowMatched = False, es_denyMatched = None\<rparr>"
      E now ctx "candidatePolicies ctx"]
  by (auto simp: set_candidatePolicies policyApplies_def someApplies_def)

lemma allow_iff:
  assumes "es_denyMatched (decisionState E now ctx) = None"
  shows "es_allowMatched (decisionState E now ctx) \<longleftrightarrow> someApplies E now ctx ALLOW"
proof -
  have "es_allowMatched (decisionState E now ctx) \<longleftrightarrow> (\<exists>p \<in> set (ax_policies ctx). policyApplies E now ctx p)"
    using policyLoop_allow [of "\<lparr>es_matched = [], es_failed = [], es_allowMatched = False, es_denyMatched = None\<rparr>"
      E now ctx "candidatePolicies ctx"] assms
    by (auto simp: set_candidatePolicies policyApplies_def)
  moreover have "\<not> someApplies E now ctx DENY" using deny_iff [of E now ctx] assms by simp
  then have "sp_effect p = ALLOW" if "p \<in> set (ax_policies ctx)" "policyApplies E now ctx p" for p
    using that by (cases "sp_effect p") (auto simp: someApplies_def)
  ultimately show ?thesis unfolding someApplies_def by blast
qed

lemma evaluatePolicies_allowed:
  "ad_allowed (evaluatePolicies E now ctx) \<longleftrightarrow> someApplies E now ctx ALLOW \<and> \<not> someApplies E now ctx DENY"
  using deny_iff [of E now ctx] allow_iff [of E now ctx]
  by (cases "es_denyMatched (decisionState E now ctx)") (simp_all add: evaluatePolicies_def Let_def)

text \<open>A matched DENY policy is among the matched policies the decision names.\<close>

lemma policyLoop_matched_deny:
  "es_denyMatched st = None \<Longrightarrow> \<not> list_ex (\<lambda>p. mp_effect p = DENY) (es_matched st) \<Longrightarrow>
     list_ex (\<lambda>p. mp_effect p = DENY) (es_matched (policyLoop E now ctx ps st)) \<longleftrightarrow>
     es_denyMatched (policyLoop E now ctx ps st) \<noteq> None"
proof (induction ps arbitrary: st)
  case (Cons p ps)
  obtain b f where "allConditionsPass E now p ctx (es_failed st) = (b, f)" by fastforce
  with Cons show ?case by (cases b; cases "sp_effect p") (simp_all add: Let_def)
qed simp

lemma evaluatePolicies_matched_deny:
  "list_ex (\<lambda>p. mp_effect p = DENY) (ad_matchedPolicies (evaluatePolicies E now ctx)) \<longleftrightarrow>
     someApplies E now ctx DENY"
  using policyLoop_matched_deny [of "\<lparr>es_matched = [], es_failed = [], es_allowMatched = False, es_denyMatched = None\<rparr>"
      E now ctx "candidatePolicies ctx"] deny_iff [of E now ctx]
  by (cases "es_denyMatched (decisionState E now ctx)") (simp_all add: evaluatePolicies_def Let_def)

text \<open>
  C3: the decision is deny-overrides.  A request is allowed exactly when some enabled policy
  for its resource and action with effect ALLOW has all its conditions satisfied, and no such
  policy with effect DENY has; neither priorities nor the order of the policies matter, and
  the early exits of the two loops change nothing.
\<close>

theorem decision_is_deny_overrides:
  "ad_allowed (evaluatePolicies E now ctx) =
    ((\<exists>p \<in> set (ax_policies ctx). sp_effect p = ALLOW \<and> policyApplies E now ctx p) \<and>
    \<not> (\<exists>p \<in> set (ax_policies ctx). sp_effect p = DENY \<and> policyApplies E now ctx p))"
  using evaluatePolicies_allowed [of E now ctx] by (simp add: someApplies_def)

text \<open>Explanations: what a refused request is told.\<close>

lemma conditionLoop_snd:
  "snd (conditionLoop E now ctx pid cs failed) = failed \<and> (\<forall>c \<in> set cs. ce_passed (evaluateCondition E now c ctx)) \<or>
   (\<exists>c \<in> set cs. \<not> ce_passed (evaluateCondition E now c ctx) \<and>
      snd (conditionLoop E now ctx pid cs failed) = failed @ [failedEntry pid c (evaluateCondition E now c ctx)])"
  by (induction cs) (auto simp: Let_def)

lemma allConditionsPass_snd:
  "snd (allConditionsPass E now p ctx failed) = failed \<and> policyHolds E now ctx p \<or>
   (\<exists>c \<in> set (sp_conditions p). \<not> ce_passed (evaluateCondition E now c ctx) \<and>
      snd (allConditionsPass E now p ctx failed) =
        failed @ [failedEntry (sp_id p) c (evaluateCondition E now c ctx)])"
  using conditionLoop_snd [of E now ctx "sp_id p" "sp_conditions p" failed]
  by (auto simp: allConditionsPass_def policyHolds_def)

lemma policyLoop_failed_mono:
  "set (es_failed st) \<subseteq> set (es_failed (policyLoop E now ctx ps st))"
proof (induction ps arbitrary: st)
  case (Cons p ps)
  obtain b f where bf: "allConditionsPass E now p ctx (es_failed st) = (b, f)" by fastforce
  then have "set (es_failed st) \<subseteq> set f"
    using allConditionsPass_snd [of E now p ctx "es_failed st"] by auto
  then show ?case
    using Cons.IH [of "st\<lparr>es_failed := f\<rparr>"]
      Cons.IH [of "st\<lparr>es_failed := f, es_matched := es_matched st @
        [\<lparr>mp_id = sp_id p, mp_name = sp_name p, mp_effect = sp_effect p\<rparr>], es_allowMatched := True\<rparr>"]
    by (cases b) (auto simp: bf Let_def)
qed simp

lemma policyLoop_explains:
  assumes "es_denyMatched (policyLoop E now ctx ps st) = None" "p \<in> set ps" "\<not> policyHolds E now ctx p"
  shows "\<exists>c \<in> set (sp_conditions p). \<not> ce_passed (evaluateCondition E now c ctx) \<and>
    failedEntry (sp_id p) c (evaluateCondition E now c ctx) \<in> set (es_failed (policyLoop E now ctx ps st))"
  using assms
proof (induction ps arbitrary: st)
  case (Cons q qs)
  obtain b f where bf: "allConditionsPass E now q ctx (es_failed st) = (b, f)" by fastforce
  then have b: "b = policyHolds E now ctx q"
    using allConditionsPass_fst [of E now q ctx "es_failed st"] by simp
  show ?case
  proof (cases "p = q")
    case True
    then obtain c where c: "c \<in> set (sp_conditions p)" "\<not> ce_passed (evaluateCondition E now c ctx)"
      "failedEntry (sp_id p) c (evaluateCondition E now c ctx) \<in> set f"
      using allConditionsPass_snd [of E now q ctx "es_failed st"] bf Cons.prems(3) by auto
    moreover have "set f \<subseteq> set (es_failed (policyLoop E now ctx (q # qs) st))"
      using True b Cons.prems(3) policyLoop_failed_mono [of "st\<lparr>es_failed := f\<rparr>" E now ctx qs]
      by (simp add: bf)
    ultimately show ?thesis by blast
  next
    case False
    then have "p \<in> set qs" using Cons.prems(2) by simp
    then show ?thesis
      using Cons.prems(1,3) Cons.IH [of "st\<lparr>es_failed := f\<rparr>"]
        Cons.IH [of "st\<lparr>es_failed := f, es_matched := es_matched st @
        [\<lparr>mp_id = sp_id q, mp_name = sp_name q, mp_effect = sp_effect q\<rparr>], es_allowMatched := True\<rparr>"]
      by (cases b) (auto simp: bf Let_def split: if_splits)
  qed
qed simp

text \<open>
  A request refused for want of an ALLOW policy is told why: every enabled policy for its
  resource and action appears among the failed conditions, with a condition of it that is
  really not satisfied and the two values that were compared.
\<close>

theorem refusal_is_explained:
  assumes "ad_reason (evaluatePolicies E now ctx) = ''No matching ALLOW policy''"
    and "p \<in> set (ax_policies ctx)" "sp_isEnabled p"
    and "matchesResource p (ax_resource ctx) (ax_action ctx)"
  shows "\<exists>c \<in> set (sp_conditions p). \<not> ce_passed (evaluateCondition E now c ctx) \<and>
    failedEntry (sp_id p) c (evaluateCondition E now c ctx)
      \<in> set (ad_failedConditions (evaluatePolicies E now ctx))"
proof -
  let ?ini = "\<lparr>es_matched = [], es_failed = [], es_allowMatched = False, es_denyMatched = None\<rparr>"
  let ?st = "policyLoop E now ctx (candidatePolicies ctx) ?ini"
  have none: "es_denyMatched ?st = None" "\<not> es_allowMatched ?st"
    using assms(1) by (auto simp: evaluatePolicies_def Let_def split: option.splits if_splits)
  have p: "p \<in> set (candidatePolicies ctx)" using assms(2-4) by (simp add: set_candidatePolicies)
  then have "\<not> policyHolds E now ctx p"
    using policyLoop_allow [of ?ini E now ctx "candidatePolicies ctx"] none by auto
  from policyLoop_explains [OF none(1) p this] show ?thesis
    using none by (simp add: evaluatePolicies_def Let_def)
qed

section \<open>A sample request\<close>

definition sampleUser :: AuthenticatedUser where
  "sampleUser = \<lparr>au_id = ''alice'', au_email = ''alice@example.com'', au_sessionId = ''s1'',
     au_tokenVersion = 0, au_organizationId = Some ''acme'', au_membershipId = Some ''m1'',
     au_roles = [], au_permissionsVersion = 0, au_attributesVersion = 0\<rparr>"

definition ownOnly :: SerializedPolicyCondition where
  "ownOnly = \<lparr>spc_id = ''c1'', spc_attributeSource = RESOURCE, spc_attributePath = ''ownerId'',
     spc_operator = EQUALS, spc_value = JStr ''USER.id'', spc_valueType = VT_STRING\<rparr>"

definition samplePolicy :: SerializedPolicy where
  "samplePolicy = \<lparr>sp_id = ''p1'', sp_name = ''own documents'', sp_slug = ''own'',
     sp_description = None, sp_effect = ALLOW, sp_resource = ''document'', sp_action = ''*'',
     sp_priority = 10, sp_isEnabled = True, sp_isSystem = False, sp_conditions = [ownOnly]\<rparr>"

definition requestFor :: "string \<Rightarrow> AuthorizationContext" where
  "requestFor owner = \<lparr>ax_user = sampleUser, ax_resource = ''document'', ax_action = ''read'',
     ax_organizationId = Some ''acme'', ax_resourceData = JObj [(''ownerId'', JStr owner)],
     ax_resourceId = Some ''d1'',
     ax_request = \<lparr>rq_ip = None, rq_userAgent = None, rq_method = None, rq_path = None, rq_headers = []\<rparr>,
     ax_attributes = \<lparr>at_user = [], at_membership = [], at_organization = []\<rparr>,
     ax_permissions = [], ax_policies = [samplePolicy]\<rparr>"

lemma sample_decisions:
  "ad_allowed (evaluatePolicies sampleEnv 0 (requestFor ''alice''))"
  "ad_reason (evaluatePolicies sampleEnv 0 (requestFor ''bob'')) = ''No matching ALLOW policy''"
  by code_simp+

theorem refusal_is_explained_witness:
  "\<exists>c \<in> set (sp_conditions samplePolicy).
     failedEntry (sp_id samplePolicy) c (evaluateCondition sampleEnv 0 c (requestFor ''bob''))
       \<in> set (ad_failedConditions (evaluatePolicies sampleEnv 0 (requestFor ''bob'')))"
proof -
  have "samplePolicy \<in> set (ax_policies (requestFor ''bob''))" "sp_isEnabled samplePolicy"
    "matchesResource samplePolicy (ax_resource (requestFor ''bob'')) (ax_action (requestFor ''bob''))"
    by (simp_all add: requestFor_def samplePolicy_def matchesResource_def)
  from refusal_is_explained [OF sample_decisions(2) this] show ?thesis by blast
qed

section \<open>How the operators treat odd values\<close>

lemma deepEqual_undefined [simp]:
  "deepEqual R JUndefined v = (v = JUndefined)" "deepEqual R v JUndefined = (v = JUndefined)"
  by (cases v; simp add: deepEqual.simps)+

text \<open>
  A missing attribute fails closed.  When the attribute does not exist, no operator other
  than the two negated ones is satisfied, as long as the comparison value is itself defined
  (and, for a list, has no undefined element); the negated ones are satisfied.
\<close>

theorem missing_attribute_fails_closed:
  assumes "js_Number R JUndefined = NaN" and "expected \<noteq> JUndefined"
    and "list_all (\<lambda>v. v \<noteq> JUndefined) (js_elems expected)"
  shows "applyOperator R op JUndefined expected =
    (op = NOT_EQUALS \<or> op = NOT_IN_OP \<and> js_isArray expected)"
  using assms
  by (cases op; cases expected) (auto simp: numericCompare_def list_all_iff list_ex_iff js_nullish_def)

theorem missing_attribute_fails_closed_witness:
  "applyOperator (e_js sampleEnv) LESS_THAN JUndefined (JNum (Fin 5)) = False"
  using missing_attribute_fails_closed [of "e_js sampleEnv" "JNum (Fin 5)" LESS_THAN]
  by (simp add: sampleEnv_def)

text \<open>
  Equality of attribute values is symmetric but not transitive.  An empty object equals
  every value without keys of its own: an empty list, and every date; so two different dates
  both equal it.
\<close>

theorem equality_is_not_transitive:
  "deepEqual R a b = deepEqual R b a \<and>
   deepEqual R (JDate (Some 1)) (JObj []) \<and> deepEqual R (JObj []) (JDate (Some 2)) \<and>
   \<not> deepEqual R (JDate (Some 1)) (JDate (Some 2)) \<and> deepEqual R (JArr []) (JObj [])"
proof (intro conjI)
  show "deepEqual R a b = deepEqual R b a" by (rule deepEqual_sym)
qed (simp_all add: deepEqual.simps js_keys_def)

end
