(* ===== verification/Policies.thy ===== *)
theory Policies
  imports Permissions PolicyEvaluator
begin

text \<open>
  Attribute-based policies as stored: \<open>authorization/services/policy.service.ts\<close> with the
  request types of \<open>authorization/dto/policy.dto.ts\<close>.
\<close>

record CreatePolicyConditionDto =
  cpc_attributeSource :: AttributeSource
  cpc_attributePath :: string
  cpc_operator :: PolicyOperator
  cpc_value :: jsval
  cpc_valueType :: "AttributeValueType option"

record CreatePolicyDto =
  cpd_name :: string
  cpd_slug :: string
  cpd_description :: "string option"
  cpd_effect :: PolicyEffect
  cpd_resource :: string
  cpd_action :: string
  cpd_priority :: "int option"
  cpd_isEnabled :: "bool option"
  cpd_conditions :: "(CreatePolicyConditionDto list) option"
  cpd_organizationId :: "string option"

record UpdatePolicyDto =
  upd_name :: "string option"
  upd_description :: "string option"
  upd_effect :: "PolicyEffect option"
  upd_priority :: "int option"
  upd_isEnabled :: "bool option"

record UpdatePolicyConditionDto =
  upc_attributeSource :: "AttributeSource option"
  upc_attributePath :: "string option"
  upc_operator :: "PolicyOperator option"
  upc_value :: jsval
  upc_valueType :: "AttributeValueType option"

record CreatePolicyAssignmentDto =
  cpa_roleId :: "string option"
  cpa_userId :: "string option"
  cpa_organizationId :: "string option"

definition policyInvalid :: "string \<Rightarrow> nat \<Rightarrow> exn" where
  "policyInvalid msg status = appExn ''POLICY_VALIDATION_FAILED'' msg status"

definition invalidateAfterPolicyChange :: "string option \<Rightarrow> unit act" where
  "invalidateAfterPolicyChange oid =
     (case oid of
        None \<Rightarrow>
          bindM (dbFindMany organizationsT (\<lambda>ob. o_deletedAt ob = None)) (\<lambda>orgs.
          forM orgs (\<lambda>org. thenM (bumpAllVersionsForOrg (o_id org)) (invalidateForOrganization (o_id org))))
      | Some x \<Rightarrow> thenM (bumpAllVersionsForOrg x) (invalidateForOrganization x))"

text \<open>
  A required JSON column: the Prisma client refuses \<open>null\<close> and \<open>undefined\<close>.
\<close>

definition conditionData :: "string \<Rightarrow> string \<Rightarrow> CreatePolicyConditionDto \<Rightarrow> PolicyCondition" where
  "conditionData cid policyId dto =
     \<lparr>pc_id = cid, pc_policyId = policyId, pc_attributeSource = cpc_attributeSource dto,
      pc_attributePath = cpc_attributePath dto, pc_operator = cpc_operator dto,
      pc_value = cpc_value dto, pc_valueType = orDefault (cpc_valueType dto) VT_STRING\<rparr>"

definition createCondition :: "env \<Rightarrow> string \<Rightarrow> CreatePolicyConditionDto \<Rightarrow> PolicyCondition act" where
  "createCondition E policyId dto =
     thenM (throw_if (js_nullish (cpc_value dto)) PrismaValidationError)
     (bindM (newId E) (\<lambda>cid.
      dbCreate policyConditionsT [] (\<lambda>c. pc_id c = cid) (\<lambda>d. \<exists>p \<in> set (policies d). pol_id p = policyId)
        (conditionData cid policyId dto)))"

text \<open>\<open>policyCondition.createMany\<close>: refused as a whole, or all rows in order.\<close>

definition createConditions :: "env \<Rightarrow> string \<Rightarrow> CreatePolicyConditionDto list \<Rightarrow> unit act" where
  "createConditions E policyId dtos =
     thenM (throw_if (list_ex (\<lambda>c. js_nullish (cpc_value c)) dtos) PrismaValidationError)
     (forM dtos (\<lambda>c. bindM (createCondition E policyId c) (\<lambda>_. returnM ())))"

definition createPolicy :: "env \<Rightarrow> CreatePolicyDto \<Rightarrow> string \<Rightarrow> Policy act" where
  "createPolicy E dto actorUserId =
     (let oid = cpd_organizationId dto in
      bindM (dbFind policiesT (\<lambda>p. pol_organizationId p = oid \<and> pol_slug p = cpd_slug dto \<and> pol_deletedAt p = None)) (\<lambda>existing.
      thenM (throw_if (existing \<noteq> None) (policyInvalid ''Policy slug already exists in this scope'' 409))
      (bindM (transaction
         (bindM (newId E) (\<lambda>pid.
          bindM (dbCreate policiesT [''organizationId'', ''slug'']
                   (\<lambda>p. pol_id p = pid \<or> (oid \<noteq> None \<and> pol_organizationId p = oid \<and> pol_slug p = cpd_slug dto))
                   (\<lambda>d. pred_option (\<lambda>x. \<exists>ob \<in> set (organizations d). o_id ob = x) oid)
                   \<lparr>pol_id = pid, pol_organizationId = oid, pol_name = cpd_name dto,
                    pol_slug = cpd_slug dto, pol_description = cpd_description dto,
                    pol_effect = cpd_effect dto, pol_resource = cpd_resource dto,
                    pol_action = cpd_action dto, pol_priority = orDefault (cpd_priority dto) 100,
                    pol_isSystem = False, pol_isEnabled = orDefault (cpd_isEnabled dto) True,
                    pol_deletedAt = None\<rparr>) (\<lambda>created.
          thenM (case cpd_conditions dto of
                   None \<Rightarrow> returnM ()
                 | Some cs \<Rightarrow> whenM (cs \<noteq> []) (createConditions E (pol_id created) cs))
          (returnM created))))) (\<lambda>policy.
       thenM (invalidateAfterPolicyChange (pol_organizationId policy))
       (thenM (auditRecord E POLICY_CREATED AR_POLICY
                 (auditOk (Some (pol_id policy)) (Some actorUserId) None
                    [(''organizationId'', js_of_opt (pol_organizationId policy)),
                     (''slug'', JStr (pol_slug policy))]))
       (returnM policy))))))"

definition conditionsOf :: "database \<Rightarrow> string \<Rightarrow> PolicyCondition list" where
  "conditionsOf d pid = findMany (\<lambda>c. pc_policyId c = pid) (policyConditions d)"

definition listPolicies :: "string option \<Rightarrow> ((Policy \<times> PolicyCondition list) list) act" where
  "listPolicies oid = getsM (\<lambda>w.
     map (\<lambda>p. (p, conditionsOf (w_db w) (pol_id p)))
       (sort_key (\<lambda>p. - pol_priority p) (sort_key pol_name
         (findMany (\<lambda>p. pol_deletedAt p = None \<and>
            (if truthy_str oid then pol_organizationId p = oid \<or> pol_organizationId p = None
             else pol_organizationId p = None)) (policies (w_db w))))))"

definition findPolicyById :: "string \<Rightarrow> (Policy \<times> PolicyCondition list) act" where
  "findPolicyById pid =
     bindM (dbFind policiesT (\<lambda>p. pol_id p = pid \<and> pol_deletedAt p = None)) (\<lambda>row.
     bindM (orThrow row (NotFoundAppException ''Policy not found'')) (\<lambda>p.
     getsM (\<lambda>w. (p, conditionsOf (w_db w) (pol_id p)))))"

definition updatePolicy :: "env \<Rightarrow> string \<Rightarrow> UpdatePolicyDto \<Rightarrow> string \<Rightarrow> Policy act" where
  "updatePolicy E pid dto actorUserId =
     bindM (findPolicyById pid) (\<lambda>(policy, _).
     thenM (throw_if (pol_isSystem policy) (policyInvalid ''System policies cannot be modified'' 403))
     (bindM (dbUpdate policiesT (\<lambda>p. pol_id p = pid)
        (\<lambda>p. setIf (upd_name dto) (\<lambda>x p. p\<lparr>pol_name := x\<rparr>)
          (setIf (upd_description dto) (\<lambda>x p. p\<lparr>pol_description := Some x\<rparr>)
          (setIf (upd_effect dto) (\<lambda>x p. p\<lparr>pol_effect := x\<rparr>)
          (setIf (upd_priority dto) (\<lambda>x p. p\<lparr>pol_priority := x\<rparr>)
          (setIf (upd_isEnabled dto) (\<lambda>x p. p\<lparr>pol_isEnabled := x\<rparr>) p)))))) (\<lambda>updated.
      thenM (invalidateAfterPolicyChange (pol_organizationId updated))
      (thenM (auditRecord E POLICY_UPDATED AR_POLICY (auditOk (Some pid) (Some actorUserId) None []))
      (returnM updated)))))"

definition removePolicy :: "env \<Rightarrow> string \<Rightarrow> string \<Rightarrow> unit act" where
  "removePolicy E pid actorUserId =
     bindM (findPolicyById pid) (\<lambda>(policy, _).
     thenM (throw_if (pol_isSystem policy) (policyInvalid ''System policies cannot be deleted'' 403))
     (bindM nowM (\<lambda>now.
      thenM (dbUpdate policiesT (\<lambda>p. pol_id p = pid) (\<lambda>p. p\<lparr>pol_deletedAt := Some now\<rparr>))
      (thenM (invalidateAfterPolicyChange (pol_organizationId policy))
      (auditRecord E POLICY_DELETED AR_POLICY (auditOk (Some pid) (Some actorUserId) None []))))))"

definition auditPolicyUpdate :: "env \<Rightarrow> string \<Rightarrow> string \<Rightarrow> (string \<times> jsval) list \<Rightarrow> unit act" where
  "auditPolicyUpdate E pid actorUserId meta =
     auditRecord E POLICY_UPDATED AR_POLICY (auditOk (Some pid) (Some actorUserId) None meta)"

definition addCondition ::
  "env \<Rightarrow> string \<Rightarrow> CreatePolicyConditionDto \<Rightarrow> string \<Rightarrow> PolicyCondition act" where
  "addCondition E pid dto actorUserId =
     bindM (findPolicyById pid) (\<lambda>(policy, _).
     bindM (createCondition E pid dto) (\<lambda>created.
     thenM (invalidateAfterPolicyChange (pol_organizationId policy))
     (thenM (auditPolicyUpdate E pid actorUserId [(''addedConditionId'', JStr (pc_id created))])
     (returnM created))))"

definition conditionNotFound :: exn where
  "conditionNotFound = NotFoundAppException ''Condition not found on policy''"

definition updateCondition ::
  "env \<Rightarrow> string \<Rightarrow> string \<Rightarrow> UpdatePolicyConditionDto \<Rightarrow> string \<Rightarrow> PolicyCondition act" where
  "updateCondition E pid cid dto actorUserId =
     bindM (findPolicyById pid) (\<lambda>(policy, _).
     bindM (dbFind policyConditionsT (\<lambda>c. pc_id c = cid \<and> pc_policyId c = pid)) (\<lambda>row.
     thenM (throw_if (row = None) conditionNotFound)
     (thenM (throw_if (upc_value dto = JNull) PrismaValidationError)
     (bindM (dbUpdate policyConditionsT (\<lambda>c. pc_id c = cid)
        (\<lambda>c. setIf (upc_attributeSource dto) (\<lambda>x c. c\<lparr>pc_attributeSource := x\<rparr>)
          (setIf (upc_attributePath dto) (\<lambda>x c. c\<lparr>pc_attributePath := x\<rparr>)
          (setIf (upc_operator dto) (\<lambda>x c. c\<lparr>pc_operator := x\<rparr>)
          (setIf (if upc_value dto = JUndefined then None else Some (upc_value dto)) (\<lambda>x c. c\<lparr>pc_value := x\<rparr>)
          (setIf (upc_valueType dto) (\<lambda>x c. c\<lparr>pc_valueType := x\<rparr>) c)))))) (\<lambda>updated.
      thenM (invalidateAfterPolicyChange (pol_organizationId policy))
      (thenM (auditPolicyUpdate E pid actorUserId [(''conditionId'', JStr cid)])
      (returnM updated)))))))"

definition removeCondition :: "env \<Rightarrow> string \<Rightarrow> string \<Rightarrow> string \<Rightarrow> unit act" where
  "removeCondition E pid cid actorUserId =
     bindM (findPolicyById pid) (\<lambda>(policy, _).
     bindM (dbDeleteMany policyConditionsT (\<lambda>c. pc_id c = cid \<and> pc_policyId c = pid)) (\<lambda>n.
     thenM (throw_if (n = 0) conditionNotFound)
     (thenM (invalidateAfterPolicyChange (pol_organizationId policy))
     (auditPolicyUpdate E pid actorUserId [(''removedConditionId'', JStr cid)]))))"

definition targetObject :: "CreatePolicyAssignmentDto \<Rightarrow> jsval" where
  "targetObject dto = JObj (concat (map (\<lambda>(k, v). case v of None \<Rightarrow> [] | Some x \<Rightarrow> [(k, JStr x)])
     [(''roleId'', cpa_roleId dto), (''userId'', cpa_userId dto),
      (''organizationId'', cpa_organizationId dto)]))"

definition assignPolicy ::
  "env \<Rightarrow> string \<Rightarrow> CreatePolicyAssignmentDto \<Rightarrow> string \<Rightarrow> PolicyAssignment act" where
  "assignPolicy E pid dto actorUserId =
     bindM (findPolicyById pid) (\<lambda>(policy, _).
     thenM (throw_if (\<not> truthy_str (cpa_roleId dto) \<and> \<not> truthy_str (cpa_userId dto) \<and>
                      \<not> truthy_str (cpa_organizationId dto))
              (policyInvalid ''Policy assignment must target a role, user, or organization'' 400))
     (bindM (newId E) (\<lambda>aid.
      bindM (dbCreate policyAssignmentsT [] (\<lambda>a. pa_id a = aid)
               (\<lambda>d. (\<exists>p \<in> set (policies d). pol_id p = pid) \<and>
                    pred_option (roleExists d (\<lambda>_. True)) (cpa_roleId dto) \<and>
                    pred_option (\<lambda>x. \<exists>u \<in> set (users d). u_id u = x) (cpa_userId dto) \<and>
                    pred_option (\<lambda>x. \<exists>ob \<in> set (organizations d). o_id ob = x) (cpa_organizationId dto))
               \<lparr>pa_id = aid, pa_policyId = pid, pa_roleId = cpa_roleId dto,
                pa_userId = cpa_userId dto, pa_organizationId = cpa_organizationId dto\<rparr>) (\<lambda>assignment.
      thenM (invalidateAfterPolicyChange (pol_organizationId policy))
      (thenM (auditRecord E POLICY_ASSIGNED AR_POLICY
                (auditOk (Some pid) (Some actorUserId) None
                   [(''assignmentId'', JStr (pa_id assignment)), (''target'', targetObject dto)]))
      (returnM assignment))))))"

definition unassignPolicy :: "env \<Rightarrow> string \<Rightarrow> string \<Rightarrow> string \<Rightarrow> unit act" where
  "unassignPolicy E pid aid actorUserId =
     bindM (findPolicyById pid) (\<lambda>(policy, _).
     bindM (dbDeleteMany policyAssignmentsT (\<lambda>a. pa_id a = aid \<and> pa_policyId a = pid)) (\<lambda>n.
     thenM (throw_if (n = 0) (NotFoundAppException ''Policy assignment not found''))
     (thenM (invalidateAfterPolicyChange (pol_organizationId policy))
     (auditRecord E POLICY_UNASSIGNED AR_POLICY
        (auditOk (Some pid) (Some actorUserId) None [(''assignmentId'', JStr aid)])))))"

section \<open>Policies in force for a member\<close>

definition policyAssigned :: "database \<Rightarrow> string \<Rightarrow> string \<Rightarrow> string \<Rightarrow> string \<Rightarrow> bool" where
  "policyAssigned d uid oid mid pid \<longleftrightarrow> (\<exists>a \<in> set (policyAssignments d). pa_policyId a = pid \<and>
     (pa_userId a = Some uid \<or> pa_organizationId a = Some oid \<or>
      (case pa_roleId a of None \<Rightarrow> False
       | Some rid \<Rightarrow> roleExists d (\<lambda>_. True) rid \<and> hasUserRole d mid rid)))"

definition policyInForce :: "database \<Rightarrow> string \<Rightarrow> string \<Rightarrow> string \<Rightarrow> Policy \<Rightarrow> bool" where
  "policyInForce d uid oid mid p \<longleftrightarrow> pol_deletedAt p = None \<and> pol_isEnabled p \<and>
     (pol_isSystem p \<or> pol_organizationId p = None \<or> pol_organizationId p = Some oid \<or>
      policyAssigned d uid oid mid (pol_id p))"

definition serializeCondition :: "PolicyCondition \<Rightarrow> SerializedPolicyCondition" where
  "serializeCondition c = \<lparr>spc_id = pc_id c, spc_attributeSource = pc_attributeSource c,
     spc_attributePath = pc_attributePath c, spc_operator = pc_operator c, spc_value = pc_value c,
     spc_valueType = pc_valueType c\<rparr>"

definition serializePolicy :: "database \<Rightarrow> Policy \<Rightarrow> SerializedPolicy" where
  "serializePolicy d p = \<lparr>sp_id = pol_id p, sp_name = pol_name p, sp_slug = pol_slug p,
     sp_description = pol_description p, sp_effect = pol_effect p, sp_resource = pol_resource p,
     sp_action = pol_action p, sp_priority = pol_priority p, sp_isEnabled = pol_isEnabled p,
     sp_isSystem = pol_isSystem p,
     sp_conditions = map serializeCondition (conditionsOf d (pol_id p))\<rparr>"

definition policiesInForce :: "database \<Rightarrow> string \<Rightarrow> string \<Rightarrow> string \<Rightarrow> SerializedPolicy list" where
  "policiesInForce d uid oid mid =
     map (serializePolicy d) (sort_key (\<lambda>p. - pol_priority p)
       (findMany (policyInForce d uid oid mid) (policies d)))"

definition resolvePolicies :: "string \<Rightarrow> string \<Rightarrow> string \<Rightarrow> (SerializedPolicy list) act" where
  "resolvePolicies uid oid mid = getsM (\<lambda>w. policiesInForce (w_db w) uid oid mid)"

end
