(* ===== verification/Authorization.thy ===== *)
theory Authorization
  imports Policies
begin

text \<open>
  The decision on a request: \<open>authorization/services/authorization.service.ts\<close>,
  \<open>authorization/services/resource-loader.registry.ts\<close> and
  \<open>authorization/loaders/default-loaders.ts\<close>.
\<close>

section \<open>Texts of the enums\<close>

fun userStatusName :: "UserStatus \<Rightarrow> string" where
  "userStatusName UserActive = ''ACTIVE''"
| "userStatusName UserInactive = ''INACTIVE''"
| "userStatusName UserSuspended = ''SUSPENDED''"
| "userStatusName UserLocked = ''LOCKED''"

fun memberStatusName :: "MembershipStatus \<Rightarrow> string" where
  "memberStatusName MemberActive = ''ACTIVE''"
| "memberStatusName MemberInvited = ''INVITED''"
| "memberStatusName MemberSuspended = ''SUSPENDED''"
| "memberStatusName MemberRemoved = ''REMOVED''"

fun orgStatusName :: "OrganizationStatus \<Rightarrow> string" where
  "orgStatusName OrgActive = ''ACTIVE''"
| "orgStatusName OrgInactive = ''INACTIVE''"
| "orgStatusName OrgSuspended = ''SUSPENDED''"

fun effectName :: "PolicyEffect \<Rightarrow> string" where
  "effectName ALLOW = ''ALLOW''"
| "effectName DENY = ''DENY''"

definition js_int :: "int \<Rightarrow> jsval" where
  "js_int n = JNum (Fin (of_int n))"

section \<open>JSON\<close>

text \<open>
  \<open>JSON.parse(JSON.stringify(v))\<close>; \<open>None\<close> where \<open>stringify\<close> leaves a property out: a date
  comes back as its text, a number that is not finite as \<open>null\<close>.
\<close>

function jsonCopy :: "env \<Rightarrow> jsval \<Rightarrow> jsval option" where
  "jsonCopy E JUndefined = None"
| "jsonCopy E (JFun f) = None"
| "jsonCopy E JNull = Some JNull"
| "jsonCopy E (JBool b) = Some (JBool b)"
| "jsonCopy E (JNum n) = Some (case n of Fin x \<Rightarrow> JNum (Fin x) | _ \<Rightarrow> JNull)"
| "jsonCopy E (JStr s) = Some (JStr s)"
| "jsonCopy E (JDate d) = Some (case d of None \<Rightarrow> JNull | Some t \<Rightarrow> JStr (e_toISOString E t))"
| "jsonCopy E (JArr xs) =
     Some (JArr (map (\<lambda>x. case jsonCopy E x of None \<Rightarrow> JNull | Some y \<Rightarrow> y) xs))"
| "jsonCopy E (JObj kvs) =
     Some (JObj (concat (map (\<lambda>kv. case jsonCopy E (snd kv) of None \<Rightarrow> [] | Some y \<Rightarrow> [(fst kv, y)]) kvs)))"
  by pat_completeness auto

termination jsonCopy
proof (relation "measure (\<lambda>(E, v). jsize v)", goal_cases)
  case (2 E xs x)
  then show ?case by (simp add: le_imp_less_Suc member_le_sum_list)
next
  case (3 E kvs kv)
  then have "jsize (snd kv) \<in> set (map (\<lambda>kv. jsize (snd kv)) kvs)" by force
  then show ?case by (simp add: le_imp_less_Suc member_le_sum_list)
qed simp

definition jsonProps :: "env \<Rightarrow> (string \<times> jsval) list \<Rightarrow> (string \<times> jsval) list" where
  "jsonProps E kvs =
     concat (map (\<lambda>kv. case jsonCopy E (snd kv) of None \<Rightarrow> [] | Some y \<Rightarrow> [(fst kv, y)]) kvs)"

definition encodeAttributes :: "env \<Rightarrow> ResolvedAttributes \<Rightarrow> cached" where
  "encodeAttributes E a = CAttributes
     \<lparr>at_user = jsonProps E (at_user a), at_membership = jsonProps E (at_membership a),
      at_organization = jsonProps E (at_organization a)\<rparr>"

definition asAttributes :: "cached \<Rightarrow> ResolvedAttributes option" where
  "asAttributes c = (case c of CAttributes a \<Rightarrow> Some a | _ \<Rightarrow> None)"

section \<open>AuthorizationService\<close>

record EvaluateInput =
  ei_user :: AuthenticatedUser
  ei_resource :: string
  ei_action :: string
  ei_resourceId :: "string option"
  ei_resourceData :: jsval
  ei_request :: RequestSnapshot

definition noAttributes :: ResolvedAttributes where
  "noAttributes = \<lparr>at_user = [], at_membership = [], at_organization = []\<rparr>"

definition attributesOf :: "User \<Rightarrow> Membership \<Rightarrow> Organization \<Rightarrow> string list \<Rightarrow> ResolvedAttributes" where
  "attributesOf u m ob roleSlugs =
     \<lparr>at_user = [(''id'', JStr (u_id u)), (''email'', JStr (u_email u)),
        (''firstName'', js_of_opt (u_firstName u)), (''lastName'', js_of_opt (u_lastName u)),
        (''status'', JStr (userStatusName (u_status u))),
        (''isEmailVerified'', JBool (u_isEmailVerified u))],
      at_membership = [(''id'', JStr (m_id m)), (''status'', JStr (memberStatusName (m_status m))),
        (''department'', js_of_opt (m_department m)), (''region'', js_of_opt (m_region m)),
        (''jobTitle'', js_of_opt (m_jobTitle m)), (''clearanceLevel'', js_int (m_clearanceLevel m)),
        (''joinedAt'', JDate (Some (m_joinedAt m))), (''roles'', JArr (map JStr roleSlugs))],
      at_organization = [(''id'', JStr (o_id ob)), (''name'', JStr (o_name ob)),
        (''slug'', JStr (o_slug ob)), (''status'', JStr (orgStatusName (o_status ob))),
        (''plan'', JStr (planName (o_plan ob))), (''settings'', o_settings ob)]\<rparr>"

definition loadAttributes :: "AuthenticatedUser \<Rightarrow> ResolvedAttributes act" where
  "loadAttributes user =
     bindM (dbFind membershipsT (\<lambda>m. Some (m_id m) = au_membershipId user \<and> m_deletedAt m = None)) (\<lambda>row.
     case row of
       None \<Rightarrow> returnM noAttributes
     | Some m \<Rightarrow>
         bindM (dbFind usersT (\<lambda>u. u_id u = m_userId m)) (\<lambda>urow.
         bindM (orThrow urow (JsError ''missing user'')) (\<lambda>u.
         bindM (dbFind organizationsT (\<lambda>ob. o_id ob = m_organizationId m)) (\<lambda>orow.
         bindM (orThrow orow (JsError ''missing organization'')) (\<lambda>ob.
         returnM (attributesOf u m ob (au_roles user)))))))"

definition resolveAttributes :: "env \<Rightarrow> AuthenticatedUser \<Rightarrow> ResolvedAttributes act" where
  "resolveAttributes E user =
     (if \<not> truthy_str (au_organizationId user) \<or> \<not> truthy_str (au_membershipId user)
      then returnM noAttributes
      else cacheGetOrSet (attributesKey (au_id user) (orDefault (au_organizationId user) []))
             asAttributes (encodeAttributes E) (loadAttributes user) AUTHZ_CACHE_TTL_SECONDS)"

definition sanitize :: "env \<Rightarrow> AuthorizationDecision \<Rightarrow> AuthorizationDecision" where
  "sanitize E decision =
     (if e_nodeEnv E = ''development'' then decision
      else \<lparr>ad_allowed = ad_allowed decision,
            ad_reason = (if ad_allowed decision then ad_reason decision else ''Access denied''),
            ad_matchedPolicies = [], ad_failedConditions = []\<rparr>)"

definition noContextDecision :: AuthorizationDecision where
  "noContextDecision = \<lparr>ad_allowed = False, ad_reason = ''No active organization context'',
     ad_matchedPolicies = [], ad_failedConditions = []\<rparr>"

text \<open>The context of a decision, and the combination of both models.\<close>

definition contextFor ::
  "EvaluateInput \<Rightarrow> ResolvedPermission list \<Rightarrow> SerializedPolicy list \<Rightarrow> ResolvedAttributes \<Rightarrow>
   AuthorizationContext" where
  "contextFor input perms pols attrs =
     \<lparr>ax_user = ei_user input, ax_resource = ei_resource input, ax_action = ei_action input,
      ax_organizationId = au_organizationId (ei_user input),
      ax_resourceData = (if js_nullish (ei_resourceData input) then JNull else ei_resourceData input),
      ax_resourceId = ei_resourceId input, ax_request = ei_request input,
      ax_attributes = attrs, ax_permissions = perms, ax_policies = pols\<rparr>"

definition combineDecision :: "env \<Rightarrow> int \<Rightarrow> AuthorizationContext \<Rightarrow> AuthorizationDecision" where
  "combineDecision E now ctx =
     (let rbacAllow = hasPermission (ax_permissions ctx) (ax_resource ctx) (ax_action ctx);
          abac = evaluatePolicies E now ctx
      in if list_ex (\<lambda>p. mp_effect p = DENY) (ad_matchedPolicies abac) then sanitize E abac
         else if rbacAllow then sanitize E
           \<lparr>ad_allowed = True, ad_reason = ''Granted by RBAC permission'',
            ad_matchedPolicies = ad_matchedPolicies abac,
            ad_failedConditions = ad_failedConditions abac\<rparr>
         else sanitize E abac)"

definition evaluateRequest :: "env \<Rightarrow> EvaluateInput \<Rightarrow> AuthorizationDecision act" where
  "evaluateRequest E input =
     (let user = ei_user input in
      if \<not> truthy_str (au_organizationId user) \<or> \<not> truthy_str (au_membershipId user)
      then returnM noContextDecision
      else
        (let oid = orDefault (au_organizationId user) []; mid = orDefault (au_membershipId user) [] in
         bindM (resolvePermissions (au_id user) oid mid) (\<lambda>perms.
         bindM (resolvePolicies (au_id user) oid mid) (\<lambda>pols.
         bindM (resolveAttributes E user) (\<lambda>attrs.
         bindM nowM (\<lambda>now.
         returnM (combineDecision E now (contextFor input perms pols attrs))))))))"

section \<open>Resource loaders\<close>

text \<open>A loader gets the id and the organization of the caller; \<open>JNull\<close> when there is no resource.\<close>

type_synonym resource_loader = "string \<Rightarrow> string option \<Rightarrow> jsval act"

definition registerLoader ::
  "string \<Rightarrow> resource_loader \<Rightarrow> (string \<rightharpoonup> resource_loader) \<Rightarrow> (string \<rightharpoonup> resource_loader)" where
  "registerLoader t loader reg = reg(t \<mapsto> loader)"

definition loadResourceBy ::
  "(string \<rightharpoonup> resource_loader) \<Rightarrow> string \<Rightarrow> string \<Rightarrow> string option \<Rightarrow> jsval act" where
  "loadResourceBy reg t rid oid = (case reg t of None \<Rightarrow> returnM JNull | Some l \<Rightarrow> l rid oid)"

definition userLoader :: resource_loader where
  "userLoader rid oid =
     bindM (dbFind usersT (\<lambda>u. u_id u = rid \<and> u_deletedAt u = None)) (\<lambda>row.
     case row of
       None \<Rightarrow> returnM JNull
     | Some u \<Rightarrow>
         bindM (dbFind membershipsT (\<lambda>m. m_userId m = u_id u \<and> m_deletedAt m = None \<and>
                  (truthy_str oid \<longrightarrow> Some (m_organizationId m) = oid))) (\<lambda>m.
         if truthy_str oid \<and> m = None then returnM JNull
         else returnM (JObj
           [(''id'', JStr (u_id u)), (''email'', JStr (u_email u)),
            (''firstName'', js_of_opt (u_firstName u)), (''lastName'', js_of_opt (u_lastName u)),
            (''status'', JStr (userStatusName (u_status u))), (''ownerId'', JStr (u_id u)),
            (''organizationId'', js_of_opt (map_option m_organizationId m)),
            (''department'', js_of_opt (case m of None \<Rightarrow> None | Some x \<Rightarrow> m_department x)),
            (''region'', js_of_opt (case m of None \<Rightarrow> None | Some x \<Rightarrow> m_region x)),
            (''clearanceLevel'', js_int (case m of None \<Rightarrow> 0 | Some x \<Rightarrow> m_clearanceLevel x))])))"

text \<open>The spread of \<open>{ id: ctx.organizationId }\<close> replaces the \<open>id\<close> of the request.\<close>

definition organizationLoader :: resource_loader where
  "organizationLoader rid oid =
     bindM (dbFind organizationsT (\<lambda>ob. o_deletedAt ob = None \<and>
        (if truthy_str oid then Some (o_id ob) = oid else o_id ob = rid))) (\<lambda>row.
     case row of
       None \<Rightarrow> returnM JNull
     | Some ob \<Rightarrow> returnM (JObj
         [(''id'', JStr (o_id ob)), (''name'', JStr (o_name ob)), (''slug'', JStr (o_slug ob)),
          (''status'', JStr (orgStatusName (o_status ob))), (''plan'', JStr (planName (o_plan ob))),
          (''settings'', o_settings ob), (''organizationId'', JStr (o_id ob))]))"

definition membershipLoader :: resource_loader where
  "membershipLoader rid oid =
     bindM (dbFind membershipsT (\<lambda>m. m_id m = rid \<and> m_deletedAt m = None \<and>
        (truthy_str oid \<longrightarrow> Some (m_organizationId m) = oid))) (\<lambda>row.
     case row of
       None \<Rightarrow> returnM JNull
     | Some m \<Rightarrow> returnM (JObj
         [(''id'', JStr (m_id m)), (''userId'', JStr (m_userId m)), (''ownerId'', JStr (m_userId m)),
          (''organizationId'', JStr (m_organizationId m)),
          (''status'', JStr (memberStatusName (m_status m))),
          (''department'', js_of_opt (m_department m)), (''region'', js_of_opt (m_region m)),
          (''jobTitle'', js_of_opt (m_jobTitle m)),
          (''clearanceLevel'', js_int (m_clearanceLevel m))]))"

definition policyLoader :: resource_loader where
  "policyLoader rid oid =
     bindM (dbFind policiesT (\<lambda>p. pol_id p = rid \<and> pol_deletedAt p = None \<and>
        (if truthy_str oid then pol_organizationId p = oid \<or> pol_organizationId p = None
         else pol_organizationId p = None))) (\<lambda>row.
     case row of
       None \<Rightarrow> returnM JNull
     | Some p \<Rightarrow> returnM (JObj
         [(''id'', JStr (pol_id p)), (''name'', JStr (pol_name p)), (''slug'', JStr (pol_slug p)),
          (''organizationId'', js_of_opt (pol_organizationId p)),
          (''effect'', JStr (effectName (pol_effect p))), (''resource'', JStr (pol_resource p)),
          (''action'', JStr (pol_action p))]))"

definition defaultLoaders :: "string \<rightharpoonup> resource_loader" where
  "defaultLoaders =
     registerLoader ''policy'' policyLoader
       (registerLoader ''membership'' membershipLoader
         (registerLoader ''organization'' organizationLoader
           (registerLoader ''user'' userLoader Map.empty)))"

end
