(* ===== verification/Guards.thy ===== *)
theory Guards
  imports Authorization
begin

text \<open>
  What stands before a controller method: \<open>common/guards/tenant.guard.ts\<close>,
  \<open>authorization/guards/permissions.guard.ts\<close>, \<open>authorization/guards/authorization.guard.ts\<close>
  with the metadata of \<open>authorization/decorators\<close>, and the request reading of
  \<open>common/utils/request-context/request-info.ts\<close>.  A guard that lets the request through
  returns; the code returns \<open>true\<close>.
\<close>

section \<open>The request\<close>

text \<open>
  A header is a text, or several (Node gives only \<open>set-cookie\<close> as a list, which no code
  reads as a text).
\<close>

datatype header = OneValue string | ManyValues "string list" | NoValue

record HttpRequest =
  hr_user :: "AuthenticatedUser option"
  hr_params :: "(string \<times> string) list"
  hr_headers :: "(string \<times> header) list"
  hr_method :: string
  hr_path :: string
  hr_ip :: "string option"
  hr_remoteAddress :: "string option"

definition requestHeader :: "HttpRequest \<Rightarrow> string \<Rightarrow> string option" where
  "requestHeader req name = (case map_of (hr_headers req) name of Some (OneValue s) \<Rightarrow> Some s | _ \<Rightarrow> None)"

definition extractClientIp :: "HttpRequest \<Rightarrow> string option" where
  "extractClientIp req =
     (let first = (case requestHeader req ''x-forwarded-for'' of
                     None \<Rightarrow> [] | Some s \<Rightarrow> js_trim (hd (js_split (CHR '','') s)));
          realIp = requestHeader req ''x-real-ip''
      in if first \<noteq> [] then Some first
         else if truthy_str realIp then realIp
         else orElse (hr_ip req) (hr_remoteAddress req))"

definition extractUserAgent :: "HttpRequest \<Rightarrow> string option" where
  "extractUserAgent req =
     (let ua = requestHeader req ''user-agent'' in if truthy_str ua then ua else None)"

definition normalizeHeaders :: "(string \<times> header) list \<Rightarrow> (string \<times> jsval) list" where
  "normalizeHeaders hs = foldl (\<lambda>out (k, v). js_spread out
     [(toLowerCase k, case v of OneValue s \<Rightarrow> JStr s | ManyValues ss \<Rightarrow> JStr (js_join '','' ss)
        | NoValue \<Rightarrow> JUndefined)]) [] hs"

definition requestSnapshot :: "HttpRequest \<Rightarrow> RequestSnapshot" where
  "requestSnapshot req =
     \<lparr>rq_ip = extractClientIp req, rq_userAgent = extractUserAgent req,
      rq_method = Some (hr_method req), rq_path = Some (hr_path req),
      rq_headers = normalizeHeaders (hr_headers req)\<rparr>"

section \<open>TenantGuard and PermissionsGuard\<close>

definition forbidden :: "string \<Rightarrow> exn" where
  "forbidden msg = ForbiddenAppException msg"

definition tenantGuard :: "HttpRequest \<Rightarrow> unit act" where
  "tenantGuard req =
     bindM (orThrow (hr_user req) (forbidden ''Authentication required'')) (\<lambda>user.
     let paramOrgId = orElse (map_of (hr_params req) ''orgId'') (map_of (hr_params req) ''organizationId'') in
     throw_if (truthy_str paramOrgId \<and> paramOrgId \<noteq> au_organizationId user)
       (forbidden ''Cross-tenant access denied''))"

record PermissionRequirement =
  rq_resource :: string
  rq_action :: string

definition permissionsGuard :: "(PermissionRequirement list) option \<Rightarrow> HttpRequest \<Rightarrow> unit act" where
  "permissionsGuard required req =
     (case required of
        None \<Rightarrow> returnM ()
      | Some reqs \<Rightarrow>
          if reqs = [] then returnM ()
          else (case hr_user req of
            None \<Rightarrow> throwM (forbidden ''Authentication and active organization required'')
          | Some user \<Rightarrow>
              if \<not> truthy_str (au_organizationId user) \<or> \<not> truthy_str (au_membershipId user)
              then throwM (forbidden ''Authentication and active organization required'')
              else bindM (resolvePermissions (au_id user) (orDefault (au_organizationId user) [])
                       (orDefault (au_membershipId user) [])) (\<lambda>perms.
                   throw_if (\<not> list_all (\<lambda>r. hasPermission perms (rq_resource r) (rq_action r)) reqs)
                     (forbidden ''Missing required permission''))))"

section \<open>AuthorizationGuard\<close>

record InlineAttributeRequirement =
  ia_source :: AttributeSource
  ia_path :: string
  ia_operator :: PolicyOperator
  ia_value :: jsval
  ia_compareWith :: "string option"

text \<open>\<open>ResourceMetadata\<close> and the part of \<open>OwnershipRequirement\<close> it shares.\<close>

record ResourceMetadata =
  rm_resourceType :: string
  rm_paramName :: "string option"

record OwnershipRequirement =
  ow_resourceType :: string
  ow_paramName :: "string option"
  ow_ownerField :: "string option"

datatype AuthorizationMode = ModeAll | ModeAny

record AuthorizationRequirement =
  ar_permissions :: "(string list) option"
  ar_policies :: "(string list) option"
  ar_mode :: "AuthorizationMode option"

record GuardMetadata =
  gm_permissions :: "(PermissionRequirement list) option"
  gm_policies :: "(string list) option"
  gm_attributes :: "(InlineAttributeRequirement list) option"
  gm_ownership :: "OwnershipRequirement option"
  gm_authorization :: "AuthorizationRequirement option"
  gm_resource :: "ResourceMetadata option"

text \<open>\<open>resourceMeta ?? ownershipMeta\<close>.\<close>

definition resourceRef :: "GuardMetadata \<Rightarrow> ResourceMetadata option" where
  "resourceRef meta = orElse (gm_resource meta)
     (map_option (\<lambda>ow. \<lparr>rm_resourceType = ow_resourceType ow, rm_paramName = ow_paramName ow\<rparr>)
        (gm_ownership meta))"

definition extractResourceId :: "HttpRequest \<Rightarrow> ResourceMetadata option \<Rightarrow> string option" where
  "extractResourceId req ref =
     (case ref of None \<Rightarrow> None
      | Some m \<Rightarrow> map_of (hr_params req)
          (if truthy_str (rm_paramName m) then orDefault (rm_paramName m) [] else ''id''))"

definition loadResource ::
  "(string \<rightharpoonup> resource_loader) \<Rightarrow> HttpRequest \<Rightarrow> ResourceMetadata option \<Rightarrow> AuthenticatedUser \<Rightarrow> jsval act" where
  "loadResource reg req ref user =
     (case ref of None \<Rightarrow> returnM JNull
      | Some m \<Rightarrow>
          (let rid = extractResourceId req ref in
           if \<not> truthy_str rid then returnM JNull
           else loadResourceBy reg (rm_resourceType m) (orDefault rid []) (au_organizationId user)))"

definition buildContext ::
  "env \<Rightarrow> HttpRequest \<Rightarrow> AuthenticatedUser \<Rightarrow> ResourceMetadata option \<Rightarrow> jsval \<Rightarrow> AuthorizationContext act" where
  "buildContext E req user resourceMeta resourceData =
     (let active = truthy_str (au_organizationId user) \<and> truthy_str (au_membershipId user);
          oid = orDefault (au_organizationId user) []; mid = orDefault (au_membershipId user) [] in
      bindM (resolveAttributes E user) (\<lambda>attrs.
      bindM (if active then resolvePermissions (au_id user) oid mid else returnM []) (\<lambda>perms.
      bindM (if active then resolvePolicies (au_id user) oid mid else returnM []) (\<lambda>pols.
      returnM \<lparr>ax_user = user,
        ax_resource = (case resourceMeta of None \<Rightarrow> ''unknown'' | Some m \<Rightarrow> rm_resourceType m),
        ax_action = ''access'', ax_organizationId = au_organizationId user,
        ax_resourceData = resourceData, ax_resourceId = None, ax_request = requestSnapshot req,
        ax_attributes = attrs, ax_permissions = perms, ax_policies = pols\<rparr>))))"

definition quoted :: "string \<Rightarrow> string" where
  "quoted s = [CHR 0x22] @ s @ [CHR 0x22]"

definition evaluatePolicyBySlug :: "env \<Rightarrow> int \<Rightarrow> string \<Rightarrow> AuthorizationContext \<Rightarrow> AuthorizationDecision" where
  "evaluatePolicyBySlug E now slug ctx =
     (case findFirst (\<lambda>p. sp_slug p = slug \<and> sp_isEnabled p) (ax_policies ctx) of
        None \<Rightarrow> \<lparr>ad_allowed = False,
          ad_reason = ''Required policy '' @ quoted slug @ '' not found or disabled'',
          ad_matchedPolicies = [], ad_failedConditions = []\<rparr>
      | Some policy \<Rightarrow>
          (case conditionLoop E now ctx (sp_id policy) (sp_conditions policy) [] of
             (False, failed) \<Rightarrow> \<lparr>ad_allowed = False,
               ad_reason = ''Policy '' @ quoted slug @ '' condition failed'',
               ad_matchedPolicies = [], ad_failedConditions = failed\<rparr>
           | (True, failed) \<Rightarrow> \<lparr>ad_allowed = (sp_effect policy = ALLOW),
               ad_reason = ''Policy '' @ quoted slug @ '' matched'',
               ad_matchedPolicies = [\<lparr>mp_id = sp_id policy, mp_name = sp_name policy,
                 mp_effect = sp_effect policy\<rparr>],
               ad_failedConditions = failed\<rparr>))"

definition inlineCondition :: "InlineAttributeRequirement \<Rightarrow> SerializedPolicyCondition" where
  "inlineCondition r = \<lparr>spc_id = ''inline'', spc_attributeSource = ia_source r,
     spc_attributePath = ia_path r, spc_operator = ia_operator r,
     spc_value = (case ia_compareWith r of None \<Rightarrow> ia_value r | Some s \<Rightarrow> JStr s),
     spc_valueType = VT_STRING\<rparr>"

definition evaluateInlineAttributes ::
  "env \<Rightarrow> int \<Rightarrow> InlineAttributeRequirement list \<Rightarrow> AuthorizationContext \<Rightarrow> AuthorizationDecision" where
  "evaluateInlineAttributes E now reqs ctx =
     (case conditionLoop E now ctx ''inline'' (map inlineCondition reqs) [] of
        (False, failed) \<Rightarrow> \<lparr>ad_allowed = False, ad_reason = ''Inline attribute requirement failed'',
          ad_matchedPolicies = [], ad_failedConditions = failed\<rparr>
      | (True, _) \<Rightarrow> \<lparr>ad_allowed = True, ad_reason = ''Inline attribute requirements satisfied'',
          ad_matchedPolicies = [], ad_failedConditions = []\<rparr>)"

definition evaluateOwnership ::
  "env \<Rightarrow> OwnershipRequirement \<Rightarrow> AuthenticatedUser \<Rightarrow> jsval \<Rightarrow> AuthorizationDecision" where
  "evaluateOwnership E requirement user resourceData =
     (if js_nullish resourceData then
        \<lparr>ad_allowed = False, ad_reason = ''Resource could not be loaded for ownership check'',
         ad_matchedPolicies = [], ad_failedConditions = []\<rparr>
      else
        (let field = orDefault (ow_ownerField requirement) ''ownerId'';
             ownerId = js_get (e_js E) resourceData field;
             allowed = js_strictEq ownerId (JStr (au_id user))
         in \<lparr>ad_allowed = allowed,
             ad_reason = (if allowed then ''Caller owns the resource'' else ''Caller does not own the resource''),
             ad_matchedPolicies = [],
             ad_failedConditions = (if allowed then [] else
               [\<lparr>fc_policyId = ''ownership'', fc_conditionId = ''ownership'',
                 fc_attributeSource = RESOURCE, fc_attributePath = field, fc_operator = EQUALS,
                 fc_actualValue = ownerId, fc_expectedValue = JStr (au_id user)\<rparr>])\<rparr>))"

text \<open>\<open>for (const x of xs) out.push(await f(x))\<close>.\<close>

primrec mapM :: "('a \<Rightarrow> 'b act) \<Rightarrow> 'a list \<Rightarrow> ('b list) act" where
  "mapM f [] = returnM []"
| "mapM f (x # xs) = bindM (f x) (\<lambda>y. bindM (mapM f xs) (\<lambda>ys. returnM (y # ys)))"

definition permissionInput ::
  "AuthenticatedUser \<Rightarrow> AuthorizationContext \<Rightarrow> string option \<Rightarrow> PermissionRequirement \<Rightarrow> EvaluateInput" where
  "permissionInput user ctx rid r =
     \<lparr>ei_user = user, ei_resource = rq_resource r, ei_action = rq_action r, ei_resourceId = rid,
      ei_resourceData = ax_resourceData ctx, ei_request = ax_request ctx\<rparr>"

definition optList :: "('a list) option \<Rightarrow> 'a list" where
  "optList x = orDefault x []"

definition collectDecisions ::
  "env \<Rightarrow> GuardMetadata \<Rightarrow> HttpRequest \<Rightarrow> AuthenticatedUser \<Rightarrow> AuthorizationContext \<Rightarrow>
   (AuthorizationDecision list) act" where
  "collectDecisions E meta req user ctx =
     bindM (mapM (\<lambda>r. evaluateRequest E
              (permissionInput user ctx (extractResourceId req (resourceRef meta)) r))
              (optList (gm_permissions meta))) (\<lambda>ds.
     bindM nowM (\<lambda>now.
     returnM (ds @ map (\<lambda>slug. evaluatePolicyBySlug E now slug ctx) (optList (gm_policies meta)) @
       (if optList (gm_attributes meta) = [] then []
        else [evaluateInlineAttributes E now (optList (gm_attributes meta)) ctx]) @
       (case gm_ownership meta of None \<Rightarrow> []
        | Some ow \<Rightarrow> [evaluateOwnership E ow user (ax_resourceData ctx)]))))"

definition authorizationMode :: "GuardMetadata \<Rightarrow> AuthorizationMode" where
  "authorizationMode meta =
     (case gm_authorization meta of None \<Rightarrow> ModeAll | Some r \<Rightarrow> orDefault (ar_mode r) ModeAll)"

definition decisionsAllow :: "AuthorizationMode \<Rightarrow> AuthorizationDecision list \<Rightarrow> bool" where
  "decisionsAllow mode ds = (if mode = ModeAll then list_all ad_allowed ds else list_ex ad_allowed ds)"

definition noRequirement :: "GuardMetadata \<Rightarrow> bool" where
  "noRequirement meta \<longleftrightarrow> gm_permissions meta = None \<and> gm_policies meta = None \<and>
     gm_attributes meta = None \<and> gm_ownership meta = None \<and> gm_authorization meta = None"

definition authorizationGuard ::
  "env \<Rightarrow> (string \<rightharpoonup> resource_loader) \<Rightarrow> GuardMetadata \<Rightarrow> HttpRequest \<Rightarrow> unit act" where
  "authorizationGuard E reg meta req =
     (if noRequirement meta then returnM ()
      else
        bindM (orThrow (hr_user req) (forbidden ''Authentication required'')) (\<lambda>user.
        bindM (loadResource reg req (resourceRef meta) user) (\<lambda>resourceData.
        bindM (buildContext E req user (gm_resource meta) resourceData) (\<lambda>ctx.
        bindM (collectDecisions E meta req user ctx) (\<lambda>decisions.
        let failed = findFirst (\<lambda>d. \<not> ad_allowed d) decisions in
        whenM (\<not> decisionsAllow (authorizationMode meta) decisions)
          (thenM (auditRecord E POLICY_DENIED AR_POLICY
                    (auditFail None (Some (au_id user)) (Some (au_email user))
                       [(''resource'', JStr (ax_resource ctx)), (''action'', JStr (ax_action ctx)),
                        (''reason'', (case failed of None \<Rightarrow> JUndefined | Some d \<Rightarrow> JStr (ad_reason d)))]))
          (throwM (forbidden (case failed of None \<Rightarrow> ''Authorization failed'' | Some d \<Rightarrow> ad_reason d)))))))))"

end
