(* ===== verification/PermissionLaws.thy ===== *)
theory PermissionLaws
  imports Permissions
begin

text \<open>
  The permission cache agrees with the tables: after any sequence of role operations, what
  \<open>resolveForMembership\<close> answers is what the roles of the membership grant now, however old
  the cached entry is.
\<close>

section \<open>How the invalidations run\<close>

definition roleKeys :: "database \<Rightarrow> string \<Rightarrow> string list" where
  "roleKeys d rid = concat (map (\<lambda>m. [permissionsKey (m_userId m) (m_organizationId m),
       policiesKey (m_userId m) (m_organizationId m)])
     (findMany (\<lambda>m. hasUserRole d (m_id m) rid \<and> m_deletedAt m = None) (memberships d)))"

abbreviation dropKeys :: "string list \<Rightarrow> world \<Rightarrow> world" where
  "dropKeys ks \<equiv> w_cache_update (\<lambda>c k. if k \<in> set ks then None else c k)"

lemma invalidateForRole_run:
  "w_redisUp w \<Longrightarrow> invalidateForRole rid w = (Inr (), dropKeys (roleKeys (w_db w) rid) w)"
  by (auto simp: invalidateForRole_def roleKeys_def monad_simps)

lemma memberships_update_none:
  "(\<And>m. m \<in> set (memberships d) \<Longrightarrow> \<not> p m) \<Longrightarrow> memberships_update (updateRows p f) d = d"
  by (simp add: updateRows_none)

lemma bumpPermissionsVersionForRole_run:
  "bumpPermissionsVersionForRole rid w = (Inr (), w_db_update (memberships_update
     (updateRows (\<lambda>m. m_id m \<in> set (map m_id (findMany (\<lambda>m. hasUserRole (w_db w) (m_id m) rid \<and>
        m_deletedAt m = None) (memberships (w_db w))))) (m_permissionsVersion_update (\<lambda>v. v + 1)))) w)"
  by (auto simp: bumpPermissionsVersionForRole_def monad_simps updateRows_def)

lemma invalidateForUser_run:
  "w_redisUp w \<Longrightarrow> invalidateForUser uid oid w = (Inr (), dropKeys [permissionsKey uid oid, policiesKey uid oid] w)"
  by (simp add: invalidateForUser_def monad_simps)

section \<open>What the cache may hold\<close>

definition memKeys :: "database \<Rightarrow> (string \<times> string \<times> string \<times> int option) list" where
  "memKeys d = map (\<lambda>m. (m_id m, m_userId m, m_organizationId m, m_deletedAt m)) (memberships d)"

definition grantTablesOk :: "database \<Rightarrow> bool" where
  "grantTablesOk d \<longleftrightarrow>
     distinct (map (\<lambda>(mid, uid, oid, del). permissionsKey uid oid) (memKeys d)) \<and>
     distinct (map fst (memKeys d)) \<and>
     set (map ur_roleId (userRoles d)) \<subseteq> set (map r_id (roles d)) \<and>
     set (map rp_permissionId (rolePermissions d)) \<subseteq> set (map p_id (permissions d))"

definition cacheCoherent :: "database \<Rightarrow> (string \<Rightarrow> (cached \<times> int option) option) \<Rightarrow> bool" where
  "cacheCoherent d c \<longleftrightarrow> (\<forall>mid uid oid ps t. (mid, uid, oid, None) \<in> set (memKeys d) \<longrightarrow>
     c (permissionsKey uid oid) = Some (CPermissions ps, t) \<longrightarrow> ps = dedupe [] (grantedRows d mid))"

text \<open>
  Redis answers, the keys are unique and the cached lists are those of the tables.  This is an
  invariant of the role and permission services, not of the platform: \<open>RoleLaws\<close> shows what breaks it.
\<close>

definition permInv :: "world \<Rightarrow> bool" where
  "permInv w \<longleftrightarrow> w_redisUp w \<and> grantTablesOk (w_db w) \<and> cacheCoherent (w_db w) (w_cache w)"

lemma permInv_change:
  assumes "permInv w" and "w_redisUp w'" and "memKeys (w_db w') = memKeys (w_db w)"
    and "grantTablesOk (w_db w')"
    and "\<And>mid uid oid. (mid, uid, oid, None) \<in> set (memKeys (w_db w)) \<Longrightarrow>
      w_cache w' (permissionsKey uid oid) = None \<or>
      w_cache w' (permissionsKey uid oid) = w_cache w (permissionsKey uid oid) \<and>
      grantedRows (w_db w') mid = grantedRows (w_db w) mid"
  shows "permInv w'"
  using assms unfolding permInv_def cacheCoherent_def by (metis option.distinct(1))

lemma memKeys_bump [simp]:
  "memKeys (memberships_update (updateRows p (m_permissionsVersion_update f)) d) = memKeys d"
  by (simp add: memKeys_def map_updateRows_key)

lemma memKeys_frame [simp]:
  "memKeys (roles_update g1 d) = memKeys d" "memKeys (userRoles_update g2 d) = memKeys d"
  "memKeys (rolePermissions_update g3 d) = memKeys d" "memKeys (permissions_update g4 d) = memKeys d"
  by (simp_all add: memKeys_def)

lemma grantedRows_memberships [simp]: "grantedRows (memberships_update g d) mid = grantedRows d mid"
  by (simp add: grantedRows_def roleExists_def hasUserRole_def)

lemma grantTablesOk_memberships:
  "memKeys (memberships_update g d) = memKeys d \<Longrightarrow>
   grantTablesOk (memberships_update g d) = grantTablesOk d"
  by (simp add: grantTablesOk_def)

text \<open>
  The rows a membership is granted depend on its own roles only: on their being there, and on
  the role permissions of those roles.
\<close>

lemma grantedRows_cong:
  assumes "\<And>rid. hasUserRole d' mid rid = hasUserRole d mid rid"
    and "\<And>rid. hasUserRole d mid rid \<Longrightarrow>
      roleExists d' (\<lambda>r. r_deletedAt r = None) rid = roleExists d (\<lambda>r. r_deletedAt r = None) rid"
    and "filter (\<lambda>rp. hasUserRole d mid (rp_roleId rp)) (rolePermissions d') =
      filter (\<lambda>rp. hasUserRole d mid (rp_roleId rp)) (rolePermissions d)"
    and "\<And>rp. rp \<in> set (rolePermissions d) \<Longrightarrow>
      findMany (\<lambda>p. p_id p = rp_permissionId rp) (permissions d') =
      findMany (\<lambda>p. p_id p = rp_permissionId rp) (permissions d)"
  shows "grantedRows d' mid = grantedRows d mid"
proof -
  have split: "findMany (\<lambda>rp. roleExists x q (rp_roleId rp) \<and> hasUserRole x mid (rp_roleId rp)) rows =
      filter (\<lambda>rp. roleExists x q (rp_roleId rp)) (filter (\<lambda>rp. hasUserRole x mid (rp_roleId rp)) rows)"
    for x q rows by (simp add: findMany_def conj_commute)
  let ?own = "filter (\<lambda>rp. hasUserRole d mid (rp_roleId rp)) (rolePermissions d)"
  have "filter (\<lambda>rp. roleExists d' (\<lambda>r. r_deletedAt r = None) (rp_roleId rp)) ?own =
      filter (\<lambda>rp. roleExists d (\<lambda>r. r_deletedAt r = None) (rp_roleId rp)) ?own"
    by (rule filter_cong) (auto simp: assms(2))
  then show ?thesis
    unfolding grantedRows_def split
    by (simp add: assms(1,3)) (intro arg_cong [where f = concat] map_cong; auto simp: assms(4))
qed

section \<open>Every operation keeps it\<close>

lemma set_roleKeys:
  assumes "(mid, uid, oid, None) \<in> set (memKeys d)" and "hasUserRole d mid rid"
  shows "permissionsKey uid oid \<in> set (roleKeys d rid)"
  using assms by (auto simp: memKeys_def roleKeys_def set_findMany)

text \<open>
  The shape every role operation has: it writes the grant tables, bumps versions, and drops
  the keys of the memberships of the role.
\<close>

lemma permInv_role_changed:
  assumes "permInv w" and "w_redisUp w'" and "memKeys (w_db w') = memKeys (w_db w)"
    and "grantTablesOk (w_db w')"
    and "w_cache w' = (\<lambda>k. if k \<in> set (roleKeys d rid) then None else w_cache w k)"
    and "memKeys d = memKeys (w_db w)" and "\<And>mid. hasUserRole d mid rid = hasUserRole (w_db w) mid rid"
    and "\<And>mid. \<not> hasUserRole (w_db w) mid rid \<Longrightarrow> grantedRows (w_db w') mid = grantedRows (w_db w) mid"
  shows "permInv w'"
proof (rule permInv_change [OF assms(1-4)])
  fix mid uid oid
  assume m: "(mid, uid, oid, None) \<in> set (memKeys (w_db w))"
  show "w_cache w' (permissionsKey uid oid) = None \<or>
    w_cache w' (permissionsKey uid oid) = w_cache w (permissionsKey uid oid) \<and>
    grantedRows (w_db w') mid = grantedRows (w_db w) mid"
    using set_roleKeys [of mid uid oid d rid] m assms(5-8) by auto
qed

lemma permInv_same:
  assumes "permInv w" and "w_db w' = w_db w" and "w_cache w' = w_cache w" and "w_redisUp w' = w_redisUp w"
  shows "permInv w'"
  using assms by (simp add: permInv_def)

lemma roleExists_update:
  "roleExists (roles_update (updateRows p f) d) q rid \<longleftrightarrow>
     (\<exists>x \<in> set (roles d). r_id (if p x then f x else x) = rid \<and> q (if p x then f x else x))"
proof -
  have "set (roles (roles_update (updateRows p f) d)) = (\<lambda>r. if p r then f r else r) ` set (roles d)"
    by (simp add: updateRows_def)
  then show ?thesis unfolding roleExists_def by (simp only: bex_simps)
qed

lemma roleExists_update_other:
  assumes "rid' \<noteq> rid" and "\<And>r. r_id (f r) = r_id r"
  shows "roleExists (roles_update (updateRows (\<lambda>r. r_id r = rid) f) d) q rid' = roleExists d q rid'"
proof
  assume "roleExists d q rid'"
  then obtain r where "r \<in> set (roles d)" "r_id r = rid'" "q r" by (auto simp: roleExists_def)
  then show "roleExists (roles_update (updateRows (\<lambda>r. r_id r = rid) f) d) q rid'"
    using assms(1) unfolding roleExists_def by (intro bexI [of _ r]) (auto simp: set_updateRows)
qed (use assms in \<open>auto simp: roleExists_def set_updateRows\<close>)

lemma removeRole_keeps:
  assumes "permInv w"
  shows "permInv (snd (removeRole E rid actor w))"
proof (cases "findFirst (\<lambda>r. r_id r = rid \<and> r_deletedAt r = None) (roles (w_db w))")
  case None
  then show ?thesis by (intro permInv_same [OF assms]) (simp_all add: removeRole_def findRoleById_def monad_simps)
next
  case (Some r)
  then have r: "r \<in> set (roles (w_db w))" "r_id r = rid" by (auto dest: findFirst_SomeD)
  obtain r' where r': "findFirst (\<lambda>r. r_id r = rid) (roles (w_db w)) = Some r'"
    using findFirst_ex [of r "roles (w_db w)" "\<lambda>r. r_id r = rid"] r by auto
  show ?thesis
  proof (cases "r_isSystem r")
    case True
    then show ?thesis
      by (intro permInv_same [OF assms]) (simp_all add: removeRole_def findRoleById_def monad_simps Some)
  next
    case False
    have up: "w_redisUp w" "grantTablesOk (w_db w)" using assms by (simp_all add: permInv_def)
    let ?d = "roles_update (updateRows (\<lambda>r. r_id r = rid) (\<lambda>r. r\<lparr>r_deletedAt := Some (w_now w)\<rparr>)) (w_db w)"
    let ?b = "memberships_update (updateRows (\<lambda>m. m_id m \<in> set (map m_id (findMany (\<lambda>m.
        hasUserRole ?d (m_id m) rid \<and> m_deletedAt m = None) (memberships ?d))))
        (m_permissionsVersion_update (\<lambda>v. v + 1)))"
    have run: "w_db (snd (removeRole E rid actor w)) = ?b ?d"
      "w_cache (snd (removeRole E rid actor w)) =
         (\<lambda>k. if k \<in> set (roleKeys (?b ?d) rid) then None else w_cache w k)"
      "w_redisUp (snd (removeRole E rid actor w))"
      using False up(1)
      by (simp_all add: removeRole_def findRoleById_def monad_simps Some r'
          bumpPermissionsVersionForRole_run invalidateForRole_run)
    show ?thesis
    proof (rule permInv_role_changed [OF assms run(3) _ _ run(2)])
      show "grantTablesOk (w_db (snd (removeRole E rid actor w)))"
        unfolding run(1) using up(2)
        by (subst grantTablesOk_memberships) (simp_all add: grantTablesOk_def map_updateRows_key del: set_map)
    next
      fix mid assume no: "\<not> hasUserRole (w_db w) mid rid"
      show "grantedRows (w_db (snd (removeRole E rid actor w))) mid = grantedRows (w_db w) mid"
        unfolding run(1) grantedRows_memberships
      proof (rule grantedRows_cong)
        fix rid' assume "hasUserRole (w_db w) mid rid'"
        with no have "rid' \<noteq> rid" by auto
        then show "roleExists ?d (\<lambda>r. r_deletedAt r = None) rid' = roleExists (w_db w) (\<lambda>r. r_deletedAt r = None) rid'"
          by (rule roleExists_update_other) simp
      qed (simp_all add: hasUserRole_def)
    qed (simp_all add: run(1) hasUserRole_def)
  qed
qed

lemma updateRole_keeps:
  assumes "permInv w"
  shows "permInv (snd (updateRole E rid dto actor w))"
proof -
  let ?f = "\<lambda>r. setIf (ur_name dto) (\<lambda>x r. r\<lparr>r_name := x\<rparr>)
          (setIf (ur_description dto) (\<lambda>x r. r\<lparr>r_description := Some x\<rparr>) r)"
  let ?d = "roles_update (updateRows (\<lambda>r. r_id r = rid) ?f) (w_db w)"
  have f: "r_id (?f r) = r_id r" "r_deletedAt (?f r) = r_deletedAt r" for r :: Role
    by (cases "ur_name dto"; cases "ur_description dto"; simp)+
  have run: "(w_db (snd (updateRole E rid dto actor w)) = w_db w \<or>
        w_db (snd (updateRole E rid dto actor w)) = ?d) \<and>
      w_cache (snd (updateRole E rid dto actor w)) = w_cache w \<and>
      w_redisUp (snd (updateRole E rid dto actor w)) = w_redisUp w"
    by (simp add: updateRole_def findRoleById_def monad_simps split: option.split)
  have "grantedRows ?d mid = grantedRows (w_db w) mid" for mid
  proof (rule grantedRows_cong)
    fix rid'
    have "r_id (if r_id x = rid then ?f x else x) = r_id x"
      "r_deletedAt (if r_id x = rid then ?f x else x) = r_deletedAt x" for x :: Role using f by simp_all
    then show "roleExists ?d (\<lambda>r. r_deletedAt r = None) rid' = roleExists (w_db w) (\<lambda>r. r_deletedAt r = None) rid'"
      unfolding roleExists_update by (simp only: roleExists_def)
  qed (simp_all add: hasUserRole_def)
  moreover have "grantTablesOk ?d = grantTablesOk (w_db w)"
    by (simp add: grantTablesOk_def map_updateRows_key f del: set_map)
  ultimately show ?thesis
    using run assms by (intro permInv_change [OF assms]) (auto simp: permInv_def)
qed

lemma createRolePermissions_run:
  "createRolePermissions rid pids w = (Inl e, w') \<Longrightarrow> w' = w"
  "createRolePermissions rid pids w = (Inr u, w') \<Longrightarrow> \<exists>new. w' = w_db_update
     (rolePermissions_update (\<lambda>rows. rows @ new)) w \<and> (\<forall>rp \<in> set new. rp_roleId rp = rid) \<and>
     rp_permissionId ` set new \<subseteq> set (map p_id (permissions (w_db w)))"
proof -
  show "createRolePermissions rid pids w = (Inl e, w') \<Longrightarrow> w' = w"
    by (auto simp: createRolePermissions_def split: if_splits)
  assume *: "createRolePermissions rid pids w = (Inr u, w')"
  let ?new = "map (\<lambda>pid. \<lparr>rp_roleId = rid, rp_permissionId = pid\<rparr>)
      (filter (\<lambda>pid. \<not> (\<exists>rp \<in> set (rolePermissions (w_db w)). rp_roleId rp = rid \<and> rp_permissionId rp = pid))
         (remdups pids))"
  from * have ids: "\<forall>pid \<in> set pids. \<exists>p \<in> set (permissions (w_db w)). p_id p = pid"
    and w': "w' = w_db_update (rolePermissions_update (\<lambda>rows. rows @ ?new)) w"
    by (auto simp: createRolePermissions_def split: if_splits)
  from ids have "rp_permissionId ` set ?new \<subseteq> set (map p_id (permissions (w_db w)))" by force
  with w' show "\<exists>new. w' = w_db_update
     (rolePermissions_update (\<lambda>rows. rows @ new)) w \<and> (\<forall>rp \<in> set new. rp_roleId rp = rid) \<and>
     rp_permissionId ` set new \<subseteq> set (map p_id (permissions (w_db w)))"
    by (intro exI [of _ ?new]) auto
qed

lemma append_rolePermissions:
  assumes "\<forall>rp \<in> set new. rp_roleId rp = rid" and "\<not> hasUserRole d mid rid"
  shows "filter (\<lambda>rp. hasUserRole d mid (rp_roleId rp)) (rows @ new) =
    filter (\<lambda>rp. hasUserRole d mid (rp_roleId rp)) rows"
    and "filter (\<lambda>rp. hasUserRole d mid (rp_roleId rp)) (deleteRows (\<lambda>rp. rp_roleId rp = rid) rows @ new) =
    filter (\<lambda>rp. hasUserRole d mid (rp_roleId rp)) rows"
proof -
  have new: "filter (\<lambda>rp. hasUserRole d mid (rp_roleId rp)) new = []"
    using assms by (auto simp: filter_empty_conv)
  then show "filter (\<lambda>rp. hasUserRole d mid (rp_roleId rp)) (rows @ new) =
    filter (\<lambda>rp. hasUserRole d mid (rp_roleId rp)) rows" by simp
  have "filter (\<lambda>rp. hasUserRole d mid (rp_roleId rp)) (deleteRows (\<lambda>rp. rp_roleId rp = rid) rows) =
      filter (\<lambda>rp. hasUserRole d mid (rp_roleId rp)) rows"
    unfolding deleteRows_def filter_filter using assms(2) by (intro filter_cong) auto
  with new show "filter (\<lambda>rp. hasUserRole d mid (rp_roleId rp)) (deleteRows (\<lambda>rp. rp_roleId rp = rid) rows @ new) =
    filter (\<lambda>rp. hasUserRole d mid (rp_roleId rp)) rows" by simp
qed

lemma setPermissions_keeps:
  assumes "permInv w"
  shows "permInv (snd (setPermissions E rid pids actor w))"
proof -
  let ?tx = "transaction (thenM (dbDeleteMany rolePermissionsT (\<lambda>rp. rp_roleId rp = rid))
        (whenM (pids \<noteq> []) (createRolePermissions rid pids)))"
  let ?del = "w_db_update (rolePermissions_update (deleteRows (\<lambda>rp. rp_roleId rp = rid))) w"
  have up: "w_redisUp w" "grantTablesOk (w_db w)" using assms by (simp_all add: permInv_def)
  have tx: "(\<exists>e. ?tx w = (Inl e, w)) \<or> (\<exists>new. ?tx w = (Inr (), w_db_update
      (rolePermissions_update (\<lambda>rows. deleteRows (\<lambda>rp. rp_roleId rp = rid) rows @ new)) w) \<and>
      (\<forall>rp \<in> set new. rp_roleId rp = rid) \<and> rp_permissionId ` set new \<subseteq> set (map p_id (permissions (w_db w))))"
  proof (cases "whenM (pids \<noteq> []) (createRolePermissions rid pids) ?del")
    case (Pair r w')
    show ?thesis
    proof (cases "pids = []")
      case True
      then show ?thesis by (intro disjI2 exI [of _ "[]"]) (simp add: transaction_run monad_simps)
    next
      case False
      with Pair have c: "createRolePermissions rid pids ?del = (r, w')" by (simp add: monad_simps)
      show ?thesis
      proof (cases r)
        case (Inl e)
        with c have "w' = ?del" by (auto dest: createRolePermissions_run(1))
        with c False Inl show ?thesis by (simp add: transaction_run monad_simps)
      next
        case (Inr u)
        with createRolePermissions_run(2) [of rid pids ?del u w'] c show ?thesis
          by (intro disjI2) (auto simp: transaction_run monad_simps False o_def)
      qed
    qed
  qed
  show ?thesis
  proof (cases "findFirst (\<lambda>r. r_id r = rid \<and> r_deletedAt r = None) (roles (w_db w))")
    case None
    then show ?thesis
      by (intro permInv_same [OF assms]) (simp_all add: setPermissions_def findRoleById_def monad_simps)
  next
    case (Some r)
    from tx show ?thesis
    proof (elim disjE exE conjE)
      fix e assume "?tx w = (Inl e, w)"
      then show ?thesis
        by (intro permInv_same [OF assms]) (simp_all add: setPermissions_def findRoleById_def monad_simps Some)
    next
      fix new
      let ?d = "rolePermissions_update (\<lambda>rows. deleteRows (\<lambda>rp. rp_roleId rp = rid) rows @ new) (w_db w)"
      assume "?tx w = (Inr (), w_db_update
        (rolePermissions_update (\<lambda>rows. deleteRows (\<lambda>rp. rp_roleId rp = rid) rows @ new)) w)"
      and new: "\<forall>rp \<in> set new. rp_roleId rp = rid"
        "rp_permissionId ` set new \<subseteq> set (map p_id (permissions (w_db w)))"
      let ?b = "memberships_update (updateRows (\<lambda>m. m_id m \<in> set (map m_id (findMany (\<lambda>m.
        hasUserRole ?d (m_id m) rid \<and> m_deletedAt m = None) (memberships ?d))))
        (m_permissionsVersion_update (\<lambda>v. v + 1)))"
      have run: "w_db (snd (setPermissions E rid pids actor w)) = ?b ?d"
        "w_cache (snd (setPermissions E rid pids actor w)) =
           (\<lambda>k. if k \<in> set (roleKeys (?b ?d) rid) then None else w_cache w k)"
        "w_redisUp (snd (setPermissions E rid pids actor w))"
        using up(1) \<open>?tx w = _\<close>
        by (simp_all add: setPermissions_def findRoleById_def monad_simps Some
            bumpPermissionsVersionForRole_run invalidateForRole_run)
      show ?thesis
      proof (rule permInv_role_changed [OF assms run(3) _ _ run(2)])
        have "grantTablesOk ?d"
          using up(2) new(2) unfolding grantTablesOk_def by (auto simp: set_deleteRows)
        then show "grantTablesOk (w_db (snd (setPermissions E rid pids actor w)))"
          unfolding run(1) by (subst grantTablesOk_memberships) simp_all
      next
        fix mid assume no: "\<not> hasUserRole (w_db w) mid rid"
        show "grantedRows (w_db (snd (setPermissions E rid pids actor w))) mid = grantedRows (w_db w) mid"
          unfolding run(1) grantedRows_memberships
          by (rule grantedRows_cong)
            (simp_all add: hasUserRole_def roleExists_def, use append_rolePermissions(2) [OF new(1) no] in \<open>simp add: hasUserRole_def\<close>)
      qed (simp_all add: run(1) hasUserRole_def)
    qed
  qed
qed

text \<open>Giving a membership a role or taking one away, in the organization it belongs to.\<close>

definition memberIn :: "database \<Rightarrow> string \<Rightarrow> string \<Rightarrow> bool" where
  "memberIn d mid oid \<longleftrightarrow> (\<forall>m \<in> set (memberships d). m_id m = mid \<longrightarrow> m_organizationId m = oid)"

lemma memberIn_keys: "memberIn d mid oid \<Longrightarrow> (mid, uid, x, del) \<in> set (memKeys d) \<Longrightarrow> x = oid"
  by (auto simp: memberIn_def memKeys_def)

lemma memKeys_unique:
  "distinct (map fst (memKeys d)) \<Longrightarrow> (mid, x) \<in> set (memKeys d) \<Longrightarrow> (mid, y) \<in> set (memKeys d) \<Longrightarrow> x = y"
  by (meson eq_key_imp_eq_value)

lemma afterAssignment_keeps:
  assumes "permInv w" and "w_cache w1 = w_cache w" and "w_redisUp w1" and "memKeys (w_db w1) = memKeys (w_db w)"
    and "grantTablesOk (w_db w1)" and "memberIn (w_db w) mid oid"
    and "\<And>mid'. mid' \<noteq> mid \<Longrightarrow> grantedRows (w_db w1) mid' = grantedRows (w_db w) mid'"
  shows "permInv (snd (afterAssignment mid oid w1))"
proof (cases "findFirst (\<lambda>m. m_id m = mid) (memberships (w_db w1))")
  case None
  then have "mid' \<noteq> mid" if "(mid', x) \<in> set (memKeys (w_db w))" for mid' x
    using that unfolding assms(4) [symmetric] by (auto simp: memKeys_def findFirst_None_iff)
  with None assms(2,7) show ?thesis
    by (intro permInv_change [OF assms(1)]) (auto simp: afterAssignment_def monad_simps assms(3-5))
next
  case (Some m)
  then have m: "(mid, m_userId m, m_organizationId m, m_deletedAt m) \<in> set (memKeys (w_db w))"
    unfolding assms(4) [symmetric] by (auto simp: memKeys_def dest!: findFirst_SomeD)
  have d: "distinct (map fst (memKeys (w_db w)))" using assms(1) by (simp add: permInv_def grantTablesOk_def)
  have run: "snd (afterAssignment mid oid w1) =
      dropKeys [permissionsKey (m_userId m) oid, policiesKey (m_userId m) oid] w1"
    by (simp add: afterAssignment_def monad_simps Some invalidateForUser_run assms(3))
  show ?thesis
  proof (rule permInv_change [OF assms(1)])
    fix mid' uid' oid' assume k: "(mid', uid', oid', None) \<in> set (memKeys (w_db w))"
    show "w_cache (snd (afterAssignment mid oid w1)) (permissionsKey uid' oid') = None \<or>
      w_cache (snd (afterAssignment mid oid w1)) (permissionsKey uid' oid') = w_cache w (permissionsKey uid' oid') \<and>
      grantedRows (w_db (snd (afterAssignment mid oid w1))) mid' = grantedRows (w_db w) mid'"
    proof (cases "mid' = mid")
      case True
      with memKeys_unique [OF d m, of "(uid', oid', None)"] k memberIn_keys [OF assms(6), of uid' oid' None]
      have "m_userId m = uid'" "oid' = oid" by auto
      then show ?thesis by (simp add: run)
    qed (simp add: run assms(2,7))
  qed (simp_all add: run assms(3-5))
qed

lemma audit_permInv [simp]: "permInv (snd (auditRecord E a r opts w)) = permInv w"
  by (simp add: permInv_def auditRecord_run)

lemma then_audit_permInv:
  assumes "m w = (Inr (), w')" and "permInv (snd (k w'))" and "\<And>w e w'. k w \<noteq> (Inl e, w')"
  shows "permInv (snd (thenM m (thenM k (auditRecord E a r opts)) w))"
  using assms by (cases "k w'") (auto simp: monad_simps permInv_def split: sum.split)

lemma afterAssignment_total: "afterAssignment mid oid w \<noteq> (Inl e, w')"
  by (simp add: afterAssignment_def invalidateForUser_def monad_simps split: option.split)

lemma grantedRows_other:
  assumes "\<And>rid. hasUserRole (userRoles_update g d) mid rid = hasUserRole d mid rid"
  shows "grantedRows (userRoles_update g d) mid = grantedRows d mid"
  by (rule grantedRows_cong) (simp_all add: assms roleExists_def)

lemma bumpPermissionsVersion_cases:
  obtains e where "bumpPermissionsVersion mid w = (Inl e, w)"
  | "bumpPermissionsVersion mid w = (Inr (), w_db_update (memberships_update
       (updateRows (\<lambda>m. m_id m = mid) (m_permissionsVersion_update (\<lambda>v. v + 1)))) w)"
  by (cases "findFirst (\<lambda>m. m_id m = mid) (memberships (w_db w))")
    (auto simp: bumpPermissionsVersion_def monad_simps)

lemma upsertUserRole_cases:
  obtains e where "upsertUserRole mid rid w = (Inl e, w)"
  | "upsertUserRole mid rid w = (Inr (), w)"
  | "upsertUserRole mid rid w = (Inr (), w_db_update (userRoles_update
       (\<lambda>rows. rows @ [\<lparr>ur_membershipId = mid, ur_roleId = rid\<rparr>])) w)"
    "rid \<in> set (map r_id (roles (w_db w)))"
proof -
  let ?f = "findFirst (\<lambda>ur. ur_membershipId ur = mid \<and> ur_roleId ur = rid) (userRoles (w_db w))"
  let ?row = "\<lparr>ur_membershipId = mid, ur_roleId = rid\<rparr>"
  consider "?f = None" "\<not> (membershipExists (w_db w) (\<lambda>_. True) mid \<and> roleExists (w_db w) (\<lambda>_. True) rid)"
    | "?f = None" "membershipExists (w_db w) (\<lambda>_. True) mid" "roleExists (w_db w) (\<lambda>_. True) rid"
    | ur where "?f = Some ur" by (cases ?f) auto
  then show thesis
  proof cases
    case 1
    then show thesis
      by (intro that(1) [of "PrismaKnownError ''P2003'' NoTarget"])
        (auto simp: upsertUserRole_def monad_simps findFirst_None_iff)
  next
    case 2
    then have "rid \<in> set (map r_id (roles (w_db w)))" by (auto simp: roleExists_def)
    with 2 show thesis
      by (intro that(3)) (auto simp: upsertUserRole_def monad_simps findFirst_None_iff)
  next
    case (3 ur)
    then show thesis by (intro that(2)) (simp add: upsertUserRole_def monad_simps)
  qed
qed

text \<open>
  Whatever a transaction does to the role rows of one membership before it bumps the version
  of that membership, dropping its cache keys afterwards keeps the cache right.
\<close>

lemma roleRows_transaction_keeps:
  assumes "permInv w" and "memberIn (w_db w) mid oid"
    and "(\<exists>e. m w = (Inl e, w)) \<or> (\<exists>u g. m w = (Inr u, w_db_update (userRoles_update g) w) \<and>
      grantTablesOk (userRoles_update g (w_db w)) \<and>
      (\<forall>mid'. mid' \<noteq> mid \<longrightarrow> (\<forall>r. hasUserRole (userRoles_update g (w_db w)) mid' r = hasUserRole (w_db w) mid' r)))"
  shows "permInv (snd (thenM (transaction (thenM m (bumpPermissionsVersion mid)))
    (thenM (afterAssignment mid oid) (auditRecord E a res opts)) w))"
  using assms(3)
proof (elim disjE exE conjE)
  fix e assume "m w = (Inl e, w)"
  then show ?thesis by (intro permInv_same [OF assms(1)]) (simp_all add: transaction_run monad_simps)
next
  fix u g assume m: "m w = (Inr u, w_db_update (userRoles_update g) w)"
    and ok: "grantTablesOk (userRoles_update g (w_db w))"
    and other: "\<forall>mid'. mid' \<noteq> mid \<longrightarrow> (\<forall>r. hasUserRole (userRoles_update g (w_db w)) mid' r = hasUserRole (w_db w) mid' r)"
  let ?w1 = "w_db_update (userRoles_update g) w"
  show ?thesis
  proof (rule bumpPermissionsVersion_cases [of mid ?w1])
    fix e assume "bumpPermissionsVersion mid ?w1 = (Inl e, ?w1)"
    then show ?thesis
      by (intro permInv_same [OF assms(1)]) (simp_all add: transaction_run monad_simps m)
  next
    let ?bump = "memberships_update (updateRows (\<lambda>m. m_id m = mid) (m_permissionsVersion_update (\<lambda>v. v + 1)))"
    assume b: "bumpPermissionsVersion mid ?w1 = (Inr (), w_db_update ?bump ?w1)"
    have "grantTablesOk (?bump (userRoles_update g (w_db w)))"
      using ok by (subst grantTablesOk_memberships) simp_all
    moreover have "grantedRows (?bump (userRoles_update g (w_db w))) mid' = grantedRows (w_db w) mid'"
      if "mid' \<noteq> mid" for mid'
      unfolding grantedRows_memberships by (rule grantedRows_other) (use other that in blast)
    ultimately have keep: "permInv (snd (afterAssignment mid oid (w_db_update ?bump ?w1)))"
      using assms(1,2) by (intro afterAssignment_keeps [OF assms(1)]) (auto simp: permInv_def)
    have "transaction (thenM m (bumpPermissionsVersion mid)) w = (Inr (), w_db_update ?bump ?w1)"
      by (simp add: transaction_run thenM_run m b)
    then show ?thesis using keep afterAssignment_total by (rule then_audit_permInv)
  qed
qed

lemma assignToMembership_keeps:
  assumes "permInv w" and "memberIn (w_db w) mid oid"
  shows "permInv (snd (assignToMembership E oid mid rid actor w))"
proof -
  have tables: "grantTablesOk (w_db w)" using assms(1) by (simp add: permInv_def)
  let ?add = "\<lambda>rows. rows @ [\<lparr>ur_membershipId = mid, ur_roleId = rid\<rparr>]"
  have "(\<exists>e. upsertUserRole mid rid w = (Inl e, w)) \<or> (\<exists>u g. upsertUserRole mid rid w =
        (Inr u, w_db_update (userRoles_update g) w) \<and> grantTablesOk (userRoles_update g (w_db w)) \<and>
      (\<forall>mid'. mid' \<noteq> mid \<longrightarrow> (\<forall>r. hasUserRole (userRoles_update g (w_db w)) mid' r = hasUserRole (w_db w) mid' r)))"
  proof (rule upsertUserRole_cases [of mid rid w])
    assume "upsertUserRole mid rid w = (Inr (), w)"
    then show ?thesis using tables by (intro disjI2 exI [of _ "()"] exI [of _ "\<lambda>rows. rows"])
      (simp add: grantTablesOk_def hasUserRole_def memKeys_def)
  next
    assume "upsertUserRole mid rid w = (Inr (), w_db_update (userRoles_update ?add) w)"
      "rid \<in> set (map r_id (roles (w_db w)))"
    then show ?thesis
      using tables
      by (intro disjI2 exI [of _ "()"] exI [of _ ?add]) (auto simp: grantTablesOk_def hasUserRole_def)
  qed blast
  note tx = roleRows_transaction_keeps [where m = "upsertUserRole mid rid", OF assms this]
  show ?thesis
  proof (cases "findFirst (\<lambda>r. r_id r = rid \<and> r_deletedAt r = None) (roles (w_db w))")
    case None
    then show ?thesis
      by (intro permInv_same [OF assms(1)]) (simp_all add: assignToMembership_def findRoleById_def monad_simps)
  next
    case (Some r)
    show ?thesis
    proof (cases "truthy_str (r_organizationId r) \<and> r_organizationId r \<noteq> Some oid")
      case True
      then show ?thesis
        by (intro permInv_same [OF assms(1)])
          (simp_all add: assignToMembership_def findRoleById_def bindM_run dbFind_run Some orThrow_run thenM_run throw_if_run)
    next
      case False
      then have "assignToMembership E oid mid rid actor w =
        thenM (transaction (thenM (upsertUserRole mid rid) (bumpPermissionsVersion mid)))
          (thenM (afterAssignment mid oid) (auditRecord E ROLE_ASSIGNED AR_ROLE
            (auditOk (Some rid) (Some actor) None (roleMetadata mid oid)))) w"
        by (auto simp: assignToMembership_def findRoleById_def bindM_run dbFind_run Some orThrow_run
            thenM_run [of "throw_if _ _"] throw_if_run)
      then show ?thesis using tx by simp
    qed
  qed
qed

lemma revokeFromMembership_keeps:
  assumes "permInv w" and "memberIn (w_db w) mid oid"
  shows "permInv (snd (revokeFromMembership E oid mid rid actor w))"
proof -
  let ?del = "deleteRows (\<lambda>ur. ur_membershipId ur = mid \<and> ur_roleId ur = rid)"
  have "grantTablesOk (userRoles_update ?del (w_db w))"
    using assms(1) by (auto simp: permInv_def grantTablesOk_def set_deleteRows)
  then show ?thesis
    unfolding revokeFromMembership_def
    by (intro roleRows_transaction_keeps [OF assms] disjI2 exI [of _ "countRows _ _"] exI [of _ ?del])
      (auto simp: dbDeleteMany_run hasUserRole_def set_deleteRows)
qed

section \<open>New roles and permissions\<close>

lemma createRole_tables:
  assumes "r_id created \<notin> set (map r_id (roles d))" and "permInv w" "w_db w = d"
    and "\<forall>rp \<in> set new. rp_roleId rp = r_id created"
    and "rp_permissionId ` set new \<subseteq> set (map p_id (permissions d))"
    and "w_db w' = rolePermissions_update (\<lambda>rows. rows @ new) (roles_update (\<lambda>rows. rows @ [created]) d)"
    and "w_cache w' = w_cache w" and "w_redisUp w'"
  shows "permInv w'"
proof (rule permInv_change [OF assms(2)])
  have ok: "grantTablesOk d" using assms(2,3) by (simp add: permInv_def)
  then show "grantTablesOk (w_db w')"
    using assms(5) unfolding assms(6) by (auto simp: grantTablesOk_def)
  fix mid uid oid
  have "ur_roleId ur \<in> set (map r_id (roles d))" if "ur \<in> set (userRoles d)" for ur
    using ok that unfolding grantTablesOk_def by auto
  with assms(1) have no: "\<not> hasUserRole d mid (r_id created)" unfolding hasUserRole_def by metis
  have "grantedRows (w_db w') mid = grantedRows d mid"
    unfolding assms(6)
  proof (rule grantedRows_cong)
    fix rid assume "hasUserRole d mid rid"
    with no have "rid \<noteq> r_id created" by auto
    then show "roleExists (rolePermissions_update (\<lambda>rows. rows @ new) (roles_update (\<lambda>rows. rows @ [created]) d))
        (\<lambda>r. r_deletedAt r = None) rid = roleExists d (\<lambda>r. r_deletedAt r = None) rid"
      by (auto simp: roleExists_def)
  qed (use append_rolePermissions(1) [OF assms(4) no] in \<open>simp_all add: hasUserRole_def\<close>)
  then show "w_cache w' (permissionsKey uid oid) = None \<or>
    w_cache w' (permissionsKey uid oid) = w_cache w (permissionsKey uid oid) \<and>
    grantedRows (w_db w') mid = grantedRows (w_db w) mid"
    by (simp add: assms(3,7))
qed (simp_all add: assms(3,6,8))

lemma createRole_keeps:
  assumes "permInv w"
  shows "permInv (snd (createRole E oid dto actor w))"
proof -
  let ?rid = "e_uuid E (w_draws w)"
  let ?row = "\<lparr>r_id = ?rid, r_organizationId = oid, r_name = cr_name dto, r_slug = cr_slug dto,
      r_description = cr_description dto, r_isSystem = False, r_deletedAt = None\<rparr>"
  let ?w1 = "w\<lparr>w_draws := Suc (w_draws w)\<rparr>"
  let ?w2 = "w_db_update (roles_update (\<lambda>rows. rows @ [?row])) ?w1"
  let ?perms = "case cr_permissionIds dto of None \<Rightarrow> returnM ()
      | Some pids \<Rightarrow> whenM (pids \<noteq> []) (createRolePermissions ?rid pids)"
  have up: "w_redisUp w" using assms by (simp add: permInv_def)
  have perms: "(\<exists>e. ?perms v = (Inl e, v)) \<or> (\<exists>new. ?perms v = (Inr (), w_db_update
      (rolePermissions_update (\<lambda>rows. rows @ new)) v) \<and> (\<forall>rp \<in> set new. rp_roleId rp = ?rid) \<and>
      rp_permissionId ` set new \<subseteq> set (map p_id (permissions (w_db v))))" for v :: world
  proof (cases "cr_permissionIds dto")
    case None
    then show ?thesis by (intro disjI2 exI [of _ "[]"]) simp
  next
    case (Some pids)
    show ?thesis
    proof (cases "pids = []")
      case True
      with Some show ?thesis by (intro disjI2 exI [of _ "[]"]) (simp add: whenM_run)
    next
      case False
      then have run: "?perms v = createRolePermissions ?rid pids v" by (simp add: Some whenM_run)
      show ?thesis
        unfolding run
      proof (cases "createRolePermissions ?rid pids v")
        case (Pair r v')
        show "(\<exists>e. createRolePermissions ?rid pids v = (Inl e, v)) \<or>
          (\<exists>new. createRolePermissions ?rid pids v = (Inr (), w_db_update
            (rolePermissions_update (\<lambda>rows. rows @ new)) v) \<and> (\<forall>rp \<in> set new. rp_roleId rp = ?rid) \<and>
            rp_permissionId ` set new \<subseteq> set (map p_id (permissions (w_db v))))"
        proof (cases r)
          case (Inl e)
          with Pair createRolePermissions_run(1) [of ?rid pids v e v'] show ?thesis by blast
        next
          case (Inr u)
          with Pair createRolePermissions_run(2) [of ?rid pids v u v'] show ?thesis by auto
        qed
      qed
    qed
  qed
  show ?thesis
  proof (cases "findFirst (\<lambda>r. r_organizationId r = oid \<and> r_slug r = cr_slug dto \<and> r_deletedAt r = None)
      (roles (w_db w)) = None \<and> (\<forall>r \<in> set (roles (w_db w)). \<not> (r_id r = ?rid \<or>
         (oid \<noteq> None \<and> r_organizationId r = oid \<and> r_slug r = cr_slug dto))) \<and>
      (pred_option (\<lambda>x. \<exists>ob \<in> set (organizations (w_db w)). o_id ob = x) oid)")
    case False
    then have "w_db (snd (createRole E oid dto actor w)) = w_db w \<and>
        w_cache (snd (createRole E oid dto actor w)) = w_cache w \<and>
        w_redisUp (snd (createRole E oid dto actor w)) = w_redisUp w"
      by (auto simp: createRole_def transaction_run monad_simps)
    then show ?thesis by (intro permInv_same [OF assms]) auto
  next
    case True
    then have found: "findFirst (\<lambda>r. r_organizationId r = oid \<and> r_slug r = cr_slug dto \<and> r_deletedAt r = None)
        (roles (w_db w)) = None"
      and fresh: "?rid \<notin> set (map r_id (roles (w_db w)))"
      and create: "dbCreate rolesT [''organizationId'', ''slug'']
        (\<lambda>r. r_id r = ?rid \<or> (oid \<noteq> None \<and> r_organizationId r = oid \<and> r_slug r = cr_slug dto))
        (\<lambda>d. pred_option (\<lambda>x. \<exists>ob \<in> set (organizations d). o_id ob = x) oid) ?row ?w1 = (Inr ?row, ?w2)"
      by (auto simp: dbCreate_run)
    from perms [of ?w2] show ?thesis
    proof (elim disjE exE conjE)
      fix e assume "?perms ?w2 = (Inl e, ?w2)"
      with found create show ?thesis
        by (intro permInv_same [OF assms])
          (simp_all add: createRole_def transaction_run bindM_run thenM_run dbFind_run throw_if_run newId_run
            cong: option.case_cong)
    next
      fix new
      assume p: "?perms ?w2 = (Inr (), w_db_update (rolePermissions_update (\<lambda>rows. rows @ new)) ?w2)"
        and new: "\<forall>rp \<in> set new. rp_roleId rp = ?rid"
          "rp_permissionId ` set new \<subseteq> set (map p_id (permissions (w_db ?w2)))"
      from found create p have run:
        "w_db (snd (createRole E oid dto actor w)) =
          rolePermissions_update (\<lambda>rows. rows @ new) (roles_update (\<lambda>rows. rows @ [?row]) (w_db w))"
        "w_cache (snd (createRole E oid dto actor w)) = w_cache w"
        "w_redisUp (snd (createRole E oid dto actor w))"
        using up
        by (simp_all add: createRole_def transaction_run bindM_run thenM_run dbFind_run throw_if_run
            newId_run auditRecord_run cong: option.case_cong)
      show ?thesis
        by (rule createRole_tables [OF _ assms refl _ _ run]) (use fresh new in simp_all)
    qed
  qed
qed

lemma createPermission_keeps:
  assumes "permInv w"
  shows "permInv (snd (createPermission E dto w))"
proof -
  have up: "w_redisUp w" "grantTablesOk (w_db w)" using assms by (simp_all add: permInv_def)
  let ?w' = "snd (createPermission E dto w)"
  let ?p = "\<lparr>p_id = e_uuid E (w_draws w), p_resource = cp_resource dto, p_action = cp_action dto,
      p_description = cp_description dto\<rparr>"
  have "w_cache ?w' = w_cache w \<and> w_redisUp ?w' \<and> (w_db ?w' = w_db w \<or>
      p_id ?p \<notin> set (map p_id (permissions (w_db w))) \<and>
      w_db ?w' = permissions_update (\<lambda>rows. rows @ [?p]) (w_db w))"
    using up(1) by (auto simp: createPermission_def monad_simps split: option.split if_splits)
  then have "w_cache ?w' = w_cache w \<and> w_redisUp ?w' \<and> (w_db ?w' = w_db w \<or> (\<exists>p.
      p_id p \<notin> set (map p_id (permissions (w_db w))) \<and>
      w_db ?w' = permissions_update (\<lambda>rows. rows @ [p]) (w_db w)))"
    by blast
  then show ?thesis
  proof (elim conjE disjE exE)
    assume "w_cache ?w' = w_cache w" "w_redisUp ?w'" "w_db ?w' = w_db w"
    then show ?thesis by (intro permInv_same [OF assms]) (simp_all add: up)
  next
    fix p assume c: "w_cache ?w' = w_cache w" "w_redisUp ?w'"
      and p: "p_id p \<notin> set (map p_id (permissions (w_db w)))"
      and d: "w_db ?w' = permissions_update (\<lambda>rows. rows @ [p]) (w_db w)"
    have "grantTablesOk (w_db ?w')" using up(2) by (auto simp: d grantTablesOk_def)
    moreover have "grantedRows (w_db ?w') mid = grantedRows (w_db w) mid" for mid
      unfolding d
    proof (rule grantedRows_cong)
      fix rp assume "rp \<in> set (rolePermissions (w_db w))"
      then have "rp_permissionId rp \<in> set (map p_id (permissions (w_db w)))"
        using up(2) unfolding grantTablesOk_def by auto
      with p have "p_id p \<noteq> rp_permissionId rp" by metis
      then show "findMany (\<lambda>p. p_id p = rp_permissionId rp) (permissions (permissions_update (\<lambda>rows. rows @ [p]) (w_db w))) =
          findMany (\<lambda>p. p_id p = rp_permissionId rp) (permissions (w_db w))"
        by (simp add: findMany_def)
    qed (simp_all add: hasUserRole_def roleExists_def)
    ultimately show ?thesis
      by (intro permInv_change [OF assms]) (simp_all add: c d)
  qed
qed

lemma removePermission_keeps:
  assumes "permInv w"
  shows "permInv (snd (removePermission pid w))"
proof -
  have up: "w_redisUp w" "grantTablesOk (w_db w)" using assms by (simp_all add: permInv_def)
  let ?w' = "snd (removePermission pid w)"
  have run: "w_cache ?w' = w_cache w \<and> w_redisUp ?w' \<and> (w_db ?w' = w_db w \<or>
      (\<forall>rp \<in> set (rolePermissions (w_db w)). rp_permissionId rp \<noteq> pid) \<and>
      w_db ?w' = permissions_update (deleteRows (\<lambda>p. p_id p = pid)) (w_db w))"
    using up(1) by (auto simp: removePermission_def monad_simps countRows_zero_iff split: option.split)
  then show ?thesis
  proof (elim conjE disjE)
    assume "w_cache ?w' = w_cache w" "w_redisUp ?w'" "w_db ?w' = w_db w"
    then show ?thesis by (intro permInv_same [OF assms]) (simp_all add: up)
  next
    assume c: "w_cache ?w' = w_cache w" "w_redisUp ?w'"
      and unused: "\<forall>rp \<in> set (rolePermissions (w_db w)). rp_permissionId rp \<noteq> pid"
      and d: "w_db ?w' = permissions_update (deleteRows (\<lambda>p. p_id p = pid)) (w_db w)"
    have "rp_permissionId rp \<in> set (map p_id (deleteRows (\<lambda>p. p_id p = pid) (permissions (w_db w))))"
      if "rp \<in> set (rolePermissions (w_db w))" for rp
    proof -
      have "rp_permissionId rp \<in> set (map p_id (permissions (w_db w)))"
        using up(2) that unfolding grantTablesOk_def by auto
      then obtain p where "p \<in> set (permissions (w_db w))" "p_id p = rp_permissionId rp" by auto
      with unused that show ?thesis by (auto simp: set_deleteRows intro!: image_eqI [of _ _ p])
    qed
    then have "grantTablesOk (w_db ?w')" using up(2) by (auto simp: d grantTablesOk_def)
    moreover have "grantedRows (w_db ?w') mid = grantedRows (w_db w) mid" for mid
      unfolding d
    proof (rule grantedRows_cong)
      fix rp assume "rp \<in> set (rolePermissions (w_db w))"
      with unused have "rp_permissionId rp \<noteq> pid" by blast
      then show "findMany (\<lambda>p. p_id p = rp_permissionId rp) (permissions (permissions_update (deleteRows (\<lambda>p. p_id p = pid)) (w_db w))) =
          findMany (\<lambda>p. p_id p = rp_permissionId rp) (permissions (w_db w))"
        by (auto simp: findMany_def deleteRows_def intro!: filter_cong)
    qed (simp_all add: hasUserRole_def roleExists_def)
    ultimately show ?thesis
      by (intro permInv_change [OF assms]) (simp_all add: c d)
  qed
qed

section \<open>Answers are current\<close>

lemma asPermissions_CPermissions [simp]: "asPermissions (CPermissions ps) = Some ps"
  by (simp add: asPermissions_def)

lemma resolvePermissions_answer:
  assumes "permInv w" and "(mid, uid, oid, None) \<in> set (memKeys (w_db w))"
  shows "fst (resolvePermissions uid oid mid w) = Inr (dedupe [] (grantedRows (w_db w) mid))"
proof -
  have up: "w_redisUp w" using assms(1) by (simp add: permInv_def)
  have hit: "ps = dedupe [] (grantedRows (w_db w) mid)"
    if "cacheLive w (permissionsKey uid oid) = Some (CPermissions ps)" for ps
  proof -
    from that obtain t where "w_cache w (permissionsKey uid oid) = Some (CPermissions ps, t)"
      by (auto simp: cacheLive_def split: option.splits if_splits)
    with assms show ?thesis by (auto simp: permInv_def cacheCoherent_def)
  qed
  show ?thesis
  proof (cases "cacheLive w (permissionsKey uid oid)")
    case None
    then show ?thesis
      by (simp add: resolvePermissions_def cacheGetOrSet_def loadPermissions_def monad_simps up)
  next
    case (Some c)
    then show ?thesis
      using hit by (cases c)
        (simp_all add: resolvePermissions_def cacheGetOrSet_def loadPermissions_def monad_simps up asPermissions_def)
  qed
qed

lemma resolvePermissions_world:
  assumes "w_redisUp w"
  shows "snd (resolvePermissions uid oid mid w) = w \<or> (\<exists>t. snd (resolvePermissions uid oid mid w) =
    w_cache_update (\<lambda>c. c(permissionsKey uid oid \<mapsto>
      (CPermissions (dedupe [] (grantedRows (w_db w) mid)), t))) w)"
proof (cases "case cacheLive w (permissionsKey uid oid) of None \<Rightarrow> None | Some c \<Rightarrow> asPermissions c")
  case None
  with assms have "snd (resolvePermissions uid oid mid w) =
    w_cache_update (\<lambda>c. c(permissionsKey uid oid \<mapsto> (CPermissions (dedupe [] (grantedRows (w_db w) mid)),
      Some (w_now w + AUTHZ_CACHE_TTL_SECONDS * 1000)))) w"
    by (simp add: resolvePermissions_def cacheGetOrSet_def loadPermissions_def monad_simps
        AUTHZ_CACHE_TTL_SECONDS_def)
  then show ?thesis by blast
next
  case (Some ps)
  with assms show ?thesis
    by (intro disjI1) (simp add: resolvePermissions_def cacheGetOrSet_def monad_simps)
qed

lemma resolvePermissions_keeps:
  assumes "permInv w" and "(mid, uid, oid, None) \<in> set (memKeys (w_db w))"
  shows "permInv (snd (resolvePermissions uid oid mid w))"
proof -
  have up: "w_redisUp w" and d: "distinct (map (\<lambda>(mid, uid, oid, del). permissionsKey uid oid) (memKeys (w_db w)))"
    using assms(1) by (simp_all add: permInv_def grantTablesOk_def)
  have one: "mid' = mid" if "(mid', uid', oid', None) \<in> set (memKeys (w_db w))"
    "permissionsKey uid' oid' = permissionsKey uid oid" for mid' uid' oid'
    using distinct_map_unique [OF d that(1) assms(2)] that(2) by simp
  from resolvePermissions_world [OF up, of uid oid mid] show ?thesis
  proof (elim disjE exE)
    assume "snd (resolvePermissions uid oid mid w) = w"
    with assms(1) show ?thesis by simp
  next
    fix t assume w': "snd (resolvePermissions uid oid mid w) =
      w_cache_update (\<lambda>c. c(permissionsKey uid oid \<mapsto>
        (CPermissions (dedupe [] (grantedRows (w_db w) mid)), t))) w"
    show ?thesis
      using assms(1) one unfolding w' by (auto simp: permInv_def cacheCoherent_def)
  qed
qed

text \<open>
  One operation of the role and permission services, a lookup for a member, or anything that
  touches neither the grant tables nor the cached permissions but by dropping them.  Assigning
  and revoking go through the organization of the membership (\<open>memberIn\<close>); the service itself
  checks the organization of the role only, so this is an assumption on its callers.
\<close>

definition grantView :: "database \<Rightarrow> (string \<times> string \<times> string \<times> int option) list \<times>
  UserRole list \<times> Role list \<times> RolePermission list \<times> Permission list" where
  "grantView d = (memKeys d, userRoles d, roles d, rolePermissions d, permissions d)"

inductive role_step :: "env \<Rightarrow> world \<Rightarrow> world \<Rightarrow> bool" for E where
  create: "role_step E w (snd (createRole E oid dto actor w))"
| update: "role_step E w (snd (updateRole E rid upd actor w))"
| remove: "role_step E w (snd (removeRole E rid actor w))"
| setPermissions: "role_step E w (snd (setPermissions E rid pids actor w))"
| assign: "memberIn (w_db w) mid oid' \<Longrightarrow> role_step E w (snd (assignToMembership E oid' mid rid actor w))"
| revoke: "memberIn (w_db w) mid oid' \<Longrightarrow> role_step E w (snd (revokeFromMembership E oid' mid rid actor w))"
| createPermission: "role_step E w (snd (createPermission E pdto w))"
| removePermission: "role_step E w (snd (removePermission pid w))"
| resolve: "(mid, uid, oid', None) \<in> set (memKeys (w_db w)) \<Longrightarrow>
    role_step E w (snd (resolvePermissions uid oid' mid w))"
| other: "grantView (w_db w') = grantView (w_db w) \<Longrightarrow> w_redisUp w' = w_redisUp w \<Longrightarrow>
    (\<And>uid oid. w_cache w' (permissionsKey uid oid) \<in> {w_cache w (permissionsKey uid oid), None}) \<Longrightarrow>
    role_step E w w'"

lemma grantView_rows: "grantView d' = grantView d \<Longrightarrow> grantedRows d' mid = grantedRows d mid"
  by (simp add: grantView_def grantedRows_def roleExists_def hasUserRole_def)

lemma role_step_keeps: "role_step E w w' \<Longrightarrow> permInv w \<Longrightarrow> permInv w'"
proof (induction rule: role_step.induct)
  case (other w' w)
  then have "grantTablesOk (w_db w') = grantTablesOk (w_db w)"
    by (simp add: grantTablesOk_def grantView_def)
  moreover have "memKeys (w_db w') = memKeys (w_db w)" using other(1) by (simp add: grantView_def)
  moreover have "grantedRows (w_db w') mid = grantedRows (w_db w) mid" for mid
    by (rule grantView_rows [OF other(1)])
  ultimately show ?case
    using other(2-4) by (intro permInv_change [OF other(4)]) (auto simp: permInv_def)
qed (intro createRole_keeps updateRole_keeps removeRole_keeps setPermissions_keeps
    assignToMembership_keeps revokeFromMembership_keeps createPermission_keeps
    removePermission_keeps resolvePermissions_keeps; assumption)+

text \<open>
  C21: within the role and permission services cached permissions are never stale.  From tables
  with proper keys and a cache that agrees with them, as long as Redis answers, and whatever roles
  and permissions are created, changed, assigned, revoked and removed, a lookup for a member
  answers with exactly the permissions that the member's roles grant in the tables at that moment.
  Two things are left out of these runs, because they break it: a role assigned or revoked in the
  name of an organization that is not the membership's (\<open>RoleService\<close> does not compare them, see
  \<open>role_assignment_crosses_tenants\<close>), and writes of the grant tables by other services, such as an
  accepted invitation with a role (see \<open>invitation_leaves_permissions_stale\<close>).
\<close>

theorem permission_lookup_is_current:
  assumes "permInv w" and "(role_step E)\<^sup>*\<^sup>* w w'"
    and "m \<in> set (memberships (w_db w'))" and "m_deletedAt m = None"
  shows "fst (resolvePermissions (m_userId m) (m_organizationId m) (m_id m) w') =
    Inr (dedupe [] (grantedRows (w_db w') (m_id m)))"
proof -
  have "permInv w'" by (rule steps_keep [where I = permInv, OF assms(2) role_step_keeps assms(1)])
  moreover have "(m_id m, m_userId m, m_organizationId m, None) \<in> set (memKeys (w_db w'))"
    using assms(3,4) by (force simp: memKeys_def)
  ultimately show ?thesis by (rule resolvePermissions_answer)
qed

end
