(* ===== verification/RoleLaws.thy ===== *)
theory RoleLaws
  imports PermissionLaws InvitationLaws
begin

text \<open>
  Witnesses for the permission cache, and the two ways around it: an accepted invitation gives
  a role without dropping the cached permissions, and a role is assigned to a membership of
  another organization.
\<close>

definition readUsers :: Permission where
  "readUsers = \<lparr>p_id = ''p1'', p_resource = ''users'', p_action = ''read'', p_description = None\<rparr>"

definition manageRoles :: Permission where
  "manageRoles = \<lparr>p_id = ''p2'', p_resource = ''roles'', p_action = ''manage'', p_description = None\<rparr>"

definition rolesDb :: database where
  "rolesDb = (acmeDb [\<lparr>ur_membershipId = ''ma'', ur_roleId = ''ra''\<rparr>])
     \<lparr>permissions := [readUsers, manageRoles],
      rolePermissions := [\<lparr>rp_roleId = ''ra'', rp_permissionId = ''p2''\<rparr>]\<rparr>"

definition rolesWorld :: world where
  "rolesWorld = worldOf rolesDb"

definition afterGrant :: world where
  "afterGrant = snd (setPermissions sampleEnv ''ra'' [''p1''] ''alice''
     (snd (resolvePermissions ''alice'' ''acme'' ''ma'' rolesWorld)))"

lemma permInv_empty_cache:
  "grantTablesOk d \<Longrightarrow> permInv (worldOf d)"
  by (simp add: permInv_def worldOf_def cacheCoherent_def)

lemma rolesWorld_inv: "permInv rolesWorld"
proof -
  have "grantTablesOk rolesDb" by code_simp
  then show ?thesis unfolding rolesWorld_def by (rule permInv_empty_cache)
qed

theorem permission_lookup_is_current_witness:
  "fst (resolvePermissions ''alice'' ''acme'' ''ma'' afterGrant) =
     Inr [\<lparr>perm_resource = ''users'', perm_action = ''read''\<rparr>]"
proof -
  let ?w1 = "snd (resolvePermissions ''alice'' ''acme'' ''ma'' rolesWorld)"
  have "(''ma'', ''alice'', ''acme'', None) \<in> set (memKeys (w_db rolesWorld))" by code_simp
  then have "role_step sampleEnv rolesWorld ?w1" by (rule role_step.resolve)
  moreover have "role_step sampleEnv ?w1 afterGrant"
    unfolding afterGrant_def by (rule role_step.setPermissions)
  ultimately have steps: "(role_step sampleEnv)\<^sup>*\<^sup>* rolesWorld afterGrant" by auto
  have m: "\<exists>m \<in> set (memberships (w_db afterGrant)). m_deletedAt m = None \<and> m_userId m = ''alice'' \<and>
      m_organizationId m = ''acme'' \<and> m_id m = ''ma''" by code_simp
  have "dedupe [] (grantedRows (w_db afterGrant) ''ma'') = [\<lparr>perm_resource = ''users'', perm_action = ''read''\<rparr>]"
    by code_simp
  with m permission_lookup_is_current [OF rolesWorld_inv steps] show ?thesis by force
qed

text \<open>
  Accepting an invitation that carries a role does not drop the cached permissions of a
  member: the member whose permissions were looked up before the acceptance is still answered
  with the old ones, although the tables grant the new role's.
\<close>

theorem invitation_leaves_permissions_stale:
  "(let w = worldOf (rolesDb\<lparr>invitations := [acmeInvitation]\<rparr>);
        (r0, w0) = resolvePermissions ''bob'' ''acme'' ''mb'' w;
        (r1, w1) = acceptInvitation sampleEnv ''secret'' ''bob'' ''bob@example.com'' w0;
        (r2, w2) = resolvePermissions ''bob'' ''acme'' ''mb'' w1
    in r0 = Inr [] \<and> r1 = Inr (''acme'', ''mb'') \<and> r2 = Inr [] \<and>
       dedupe [] (grantedRows (w_db w1) ''mb'') = [\<lparr>perm_resource = ''roles'', perm_action = ''manage''\<rparr>])"
  by code_simp

text \<open>
  The organization of the request is checked against the role only: for a global role,
  assigning it in the name of one organization succeeds for a membership of any other.
\<close>

theorem role_assignment_crosses_tenants:
  assumes "r \<in> set (roles (w_db w))" "r_id r = rid" "r_organizationId r = None" "r_deletedAt r = None"
    and "distinct (map r_id (roles (w_db w)))"
    and "m \<in> set (memberships (w_db w))" "m_id m = mid" "m_organizationId m \<noteq> oid"
  shows "\<exists>w'. assignToMembership E oid mid rid actor w = (Inr (), w') \<and> hasUserRole (w_db w') mid rid"
proof -
  obtain r' where r': "findFirst (\<lambda>r. r_id r = rid \<and> r_deletedAt r = None) (roles (w_db w)) = Some r'"
    using findFirst_ex [of r "roles (w_db w)" "\<lambda>r. r_id r = rid \<and> r_deletedAt r = None"] assms(1,2,4) by auto
  then have "r' \<in> set (roles (w_db w))" "r_id r' = rid" by (auto dest: findFirst_SomeD)
  with assms(1,2,5) have "r' = r" by (metis distinct_map_unique)
  with r' assms(3) have found: "findRoleById rid v = (Inr r, v)" "r_organizationId r = None"
    if "w_db v = w_db w" for v using that by (simp_all add: findRoleById_def monad_simps)
  obtain m' where m': "findFirst (\<lambda>m. m_id m = mid) (memberships (w_db w)) = Some m'"
    using findFirst_ex [of m "memberships (w_db w)" "\<lambda>m. m_id m = mid"] assms(6,7) by auto
  have "membershipExists (w_db w) (\<lambda>_. True) mid" "roleExists (w_db w) (\<lambda>_. True) rid"
    using assms(1,2,6,7) by (auto simp: membershipExists_def roleExists_def)
  then have "\<exists>v. upsertUserRole mid rid w = (Inr (), v)"
    by (cases "findFirst (\<lambda>ur. ur_membershipId ur = mid \<and> ur_roleId ur = rid) (userRoles (w_db w))")
      (auto simp: upsertUserRole_def monad_simps findFirst_None_iff)
  then obtain v where v: "upsertUserRole mid rid w = (Inr (), v)" by blast
  have v': "memberships (w_db v) = memberships (w_db w)" "hasUserRole (w_db v) mid rid"
    using upsertUserRole_Inr [OF v] by (simp_all add: hasUserRole_def)
  let ?v2 = "w_db_update (memberships_update (updateRows (\<lambda>m. m_id m = mid)
    (m_permissionsVersion_update (\<lambda>x. x + 1)))) v"
  have tx: "transaction (thenM (upsertUserRole mid rid) (bumpPermissionsVersion mid)) w = (Inr (), ?v2)"
    by (simp add: transaction_run thenM_run v bumpPermissionsVersion_def dbUpdate_run v'(1) m')
  obtain v3 where v3: "afterAssignment mid oid ?v2 = (Inr (), v3)" and d3: "w_db v3 = w_db ?v2"
  proof (cases "afterAssignment mid oid ?v2")
    case (Pair x y)
    have "w_db (snd (afterAssignment mid oid ?v2)) = w_db ?v2"
      by (simp add: afterAssignment_def invalidateForUser_def monad_simps split: option.split)
    with Pair afterAssignment_total [of mid oid ?v2] that show thesis by (cases x) auto
  qed
  have "fst (assignToMembership E oid mid rid actor w) = Inr ()"
    "w_db (snd (assignToMembership E oid mid rid actor w)) = w_db ?v2"
    unfolding assignToMembership_def
    by (simp_all add: bindM_run thenM_run throw_if_run found tx v3 d3 auditRecord_run)
  moreover have "hasUserRole (w_db ?v2) mid rid" using v'(2) by (simp add: hasUserRole_def)
  ultimately show ?thesis
    by (intro exI [of _ "snd (assignToMembership E oid mid rid actor w)"]) (simp add: prod_eq_iff)
qed

theorem role_assignment_crosses_tenants_witness:
  "\<exists>w'. assignToMembership sampleEnv ''globex'' ''mb'' ''ra'' ''mallory'' rolesWorld = (Inr (), w') \<and>
     hasUserRole (w_db w') ''mb'' ''ra''"
proof -
  have r: "adminRole ''ra'' None \<in> set (roles (w_db rolesWorld))" by code_simp
  have f: "r_id (adminRole ''ra'' None) = ''ra''" "r_organizationId (adminRole ''ra'' None) = None"
    "r_deletedAt (adminRole ''ra'' None) = None" by code_simp+
  have d: "distinct (map r_id (roles (w_db rolesWorld)))" by code_simp
  have m: "memberOf ''mb'' ''bob'' \<in> set (memberships (w_db rolesWorld))" by code_simp
  have g: "m_id (memberOf ''mb'' ''bob'') = ''mb''" "m_organizationId (memberOf ''mb'' ''bob'') \<noteq> ''globex''"
    by code_simp+
  show ?thesis by (rule role_assignment_crosses_tenants [OF r f d m g])
qed

end
