(* ===== verification/AuthorizationLaws.thy ===== *)
theory AuthorizationLaws
  imports Guards RoleLaws
begin

text \<open>
  What a decision and the guards guarantee, in terms of the tables: role-based grants,
  policies in force, deny-overrides; and where requirements are not enforced.
\<close>

section \<open>Resolved permissions are the granted ones\<close>

lemma key_inj:
  "c \<notin> set r \<Longrightarrow> c \<notin> set r' \<Longrightarrow> r @ c # a = r' @ c # a' \<Longrightarrow> r = r' \<and> a = a'"
  by (induction r arbitrary: r') (auto simp: Cons_eq_append_conv append_eq_Cons_conv)

definition plainResources :: "database \<Rightarrow> bool" where
  "plainResources d \<longleftrightarrow> (\<forall>p \<in> set (permissions d). CHR '':'' \<notin> set (p_resource p))"

lemma set_dedupe:
  assumes "\<forall>p \<in> set ps. CHR '':'' \<notin> set (p_resource p)"
  shows "set (dedupe seen ps) = (\<lambda>p. \<lparr>perm_resource = p_resource p, perm_action = p_action p\<rparr>) `
    {p \<in> set ps. p_resource p @ '':'' @ p_action p \<notin> set seen}"
  using assms
proof (induction ps arbitrary: seen)
  case (Cons p ps)
  let ?key = "\<lambda>p. p_resource p @ '':'' @ p_action p"
  let ?out = "\<lambda>p. \<lparr>perm_resource = p_resource p, perm_action = p_action p\<rparr>"
  have same: "?out q = ?out p" if "q \<in> set ps" "?key q = ?key p" for q
    using key_inj [of "CHR '':''" "p_resource q" "p_resource p" "p_action q" "p_action p"] that Cons.prems by auto
  show ?case
  proof (cases "?key p \<in> set seen")
    case True
    with Cons show ?thesis by (auto simp: Let_def)
  next
    case False
    have "set (dedupe (?key p # seen) ps) = ?out ` {q \<in> set ps. ?key q \<notin> set (?key p # seen)}"
      using Cons by simp
    then have "set (dedupe seen (p # ps)) = insert (?out p) (?out ` {q \<in> set ps. ?key q \<notin> set (?key p # seen)})"
      using False by (simp add: Let_def)
    also have "\<dots> = ?out ` {q \<in> set (p # ps). ?key q \<notin> set seen}"
      using False same by (auto simp: image_iff)
    finally show ?thesis .
  qed
qed simp

lemma set_grantedRows:
  "p \<in> set (grantedRows d mid) \<longleftrightarrow> p \<in> set (permissions d) \<and>
     (\<exists>rp \<in> set (rolePermissions d). rp_permissionId rp = p_id p \<and> hasUserRole d mid (rp_roleId rp) \<and>
        (\<exists>r \<in> set (roles d). r_id r = rp_roleId rp \<and> r_deletedAt r = None))"
  by (auto simp: grantedRows_def set_findMany roleExists_def)

definition roleGrants :: "database \<Rightarrow> string \<Rightarrow> string \<Rightarrow> string \<Rightarrow> bool" where
  "roleGrants d mid resource action \<longleftrightarrow> (\<exists>r \<in> set (roles d). \<exists>rp \<in> set (rolePermissions d). \<exists>p \<in> set (permissions d).
     r_deletedAt r = None \<and> hasUserRole d mid (r_id r) \<and> rp_roleId rp = r_id r \<and>
     rp_permissionId rp = p_id p \<and> (p_resource p = resource \<or> p_resource p = ''*'') \<and>
     (p_action p = action \<or> p_action p = ''*''))"

lemma hasPermission_granted:
  assumes "plainResources d"
  shows "hasPermission (dedupe [] (grantedRows d mid)) resource action \<longleftrightarrow> roleGrants d mid resource action"
proof -
  have "\<forall>p \<in> set (grantedRows d mid). CHR '':'' \<notin> set (p_resource p)"
    using assms by (auto simp: plainResources_def set_grantedRows)
  then have "hasPermission (dedupe [] (grantedRows d mid)) resource action \<longleftrightarrow>
      (\<exists>p \<in> set (grantedRows d mid). (p_resource p = resource \<or> p_resource p = ''*'') \<and>
         (p_action p = action \<or> p_action p = ''*''))" (is "_ \<longleftrightarrow> ?granted")
    by (auto simp: hasPermission_def list_ex_iff set_dedupe)
  also have "\<dots> \<longleftrightarrow> roleGrants d mid resource action"
  proof
    assume "?granted"
    then obtain p where "p \<in> set (grantedRows d mid)"
      "p_resource p = resource \<or> p_resource p = ''*''" "p_action p = action \<or> p_action p = ''*''"
      by (elim bexE conjE)
    moreover from this(1) obtain rp r where "p \<in> set (permissions d)" "rp \<in> set (rolePermissions d)"
      "r \<in> set (roles d)" "rp_permissionId rp = p_id p" "hasUserRole d mid (rp_roleId rp)"
      "r_id r = rp_roleId rp" "r_deletedAt r = None"
      unfolding set_grantedRows by (elim bexE conjE)
    ultimately show "roleGrants d mid resource action"
      unfolding roleGrants_def by fastforce
  next
    assume "roleGrants d mid resource action"
    then obtain p rp r where "p \<in> set (permissions d)" "rp \<in> set (rolePermissions d)" "r \<in> set (roles d)"
      "rp_permissionId rp = p_id p" "hasUserRole d mid (rp_roleId rp)" "r_id r = rp_roleId rp" "r_deletedAt r = None"
      and ok: "p_resource p = resource \<or> p_resource p = ''*''" "p_action p = action \<or> p_action p = ''*''"
      unfolding roleGrants_def by auto
    then have "p \<in> set (grantedRows d mid)"
      unfolding set_grantedRows by (intro conjI bexI)
    with ok show "?granted" by (intro bexI conjI)
  qed
  finally show ?thesis .
qed

section \<open>The decision\<close>

lemma combineDecision_allowed:
  "ad_allowed (combineDecision E now ctx) \<longleftrightarrow> \<not> someApplies E now ctx DENY \<and>
     (hasPermission (ax_permissions ctx) (ax_resource ctx) (ax_action ctx) \<or> someApplies E now ctx ALLOW)"
  by (auto simp: combineDecision_def Let_def evaluatePolicies_matched_deny evaluatePolicies_allowed sanitize_def)

lemma resolvePermissions_frame [simp]:
  "w_db (snd (resolvePermissions uid oid mid w)) = w_db w"
  "w_now (snd (resolvePermissions uid oid mid w)) = w_now w"
  "w_redisUp (snd (resolvePermissions uid oid mid w)) = w_redisUp w"
  by (auto simp: resolvePermissions_def cacheGetOrSet_def loadPermissions_def monad_simps split: option.splits)

lemma resolvePermissions_total: "\<exists>ps. fst (resolvePermissions uid oid mid w) = Inr ps"
  by (auto simp: resolvePermissions_def cacheGetOrSet_def loadPermissions_def monad_simps split: option.splits)

lemma keys_differ: "attributesKey u o1 \<noteq> permissionsKey v o2" "permissionsKey v o2 \<noteq> attributesKey u o1"
  by (simp_all add: attributesKey_def permissionsKey_def)

lemma resolvePermissions_attributes:
  "w_cache (snd (resolvePermissions uid oid mid w)) (attributesKey u o1) = w_cache w (attributesKey u o1)"
  by (auto simp: resolvePermissions_def cacheGetOrSet_def loadPermissions_def monad_simps keys_differ
      split: option.splits)

lemma resolveAttributes_cong:
  assumes "w_db w' = w_db w" "w_now w' = w_now w" "w_redisUp w' = w_redisUp w"
    and "\<And>u oid. w_cache w' (attributesKey u oid) = w_cache w (attributesKey u oid)"
  shows "fst (resolveAttributes E user w') = fst (resolveAttributes E user w)"
  using assms
  by (simp add: resolveAttributes_def cacheGetOrSet_def loadAttributes_def monad_simps cacheLive_def
      split: option.split)

lemma resolveAttributes_frame:
  "w_db (snd (resolveAttributes E user w)) = w_db w"
  "w_now (snd (resolveAttributes E user w)) = w_now w"
  "w_redisUp (snd (resolveAttributes E user w)) = w_redisUp w"
  "w_cache (snd (resolveAttributes E user w)) (permissionsKey u oid) = w_cache w (permissionsKey u oid)"
  by (auto simp: resolveAttributes_def cacheGetOrSet_def loadAttributes_def monad_simps keys_differ
      split: option.split)

text \<open>The policies of the tables that decide: those in force for the member that apply.\<close>

definition policyDecides :: "env \<Rightarrow> world \<Rightarrow> AuthorizationContext \<Rightarrow> string \<Rightarrow> PolicyEffect \<Rightarrow> bool" where
  "policyDecides E w ctx mid eff \<longleftrightarrow> (\<exists>p \<in> set (policies (w_db w)).
     policyInForce (w_db w) (au_id (ax_user ctx)) (orDefault (ax_organizationId ctx) []) mid p \<and>
     pol_effect p = eff \<and> policyApplies E (w_now w) ctx (serializePolicy (w_db w) p))"

lemma someApplies_decides:
  assumes "ax_policies ctx = policiesInForce (w_db w) (au_id (ax_user ctx)) (orDefault (ax_organizationId ctx) []) mid"
  shows "someApplies E (w_now w) ctx eff \<longleftrightarrow> policyDecides E w ctx mid eff"
  unfolding someApplies_def policyDecides_def assms policiesInForce_def
  by (auto simp: set_findMany serializePolicy_def)

text \<open>
  What \<open>resolveForMembership\<close> answers: the cached list while Redis answers and the entry lives,
  otherwise what the tables grant the membership.
\<close>

definition permissionsSeen :: "world \<Rightarrow> string \<Rightarrow> string \<Rightarrow> string \<Rightarrow> ResolvedPermission list" where
  "permissionsSeen w uid oid mid =
     (case (if w_redisUp w then cacheLive w (permissionsKey uid oid) else None) of
        Some (CPermissions ps) \<Rightarrow> ps
      | _ \<Rightarrow> dedupe [] (grantedRows (w_db w) mid))"

lemma resolvePermissions_seen: "fst (resolvePermissions uid oid mid w) = Inr (permissionsSeen w uid oid mid)"
  by (auto simp: resolvePermissions_def cacheGetOrSet_def loadPermissions_def monad_simps permissionsSeen_def
      asPermissions_def split: option.split cached.split)

lemma permissionsSeen_kept:
  "permissionsSeen (snd (resolvePermissions uid oid mid w)) uid oid mid = permissionsSeen w uid oid mid"
  by (auto simp: resolvePermissions_def cacheGetOrSet_def loadPermissions_def monad_simps permissionsSeen_def
      asPermissions_def cacheLive_def AUTHZ_CACHE_TTL_SECONDS_def split: option.split cached.split)

lemma permissionsSeen_cong:
  assumes "w_db w' = w_db w" "w_now w' = w_now w" "w_redisUp w' = w_redisUp w"
    and "w_cache w' (permissionsKey uid oid) = w_cache w (permissionsKey uid oid)"
  shows "permissionsSeen w' uid oid mid = permissionsSeen w uid oid mid"
  by (simp only: permissionsSeen_def cacheLive_def assms)

text \<open>The organization and the membership that a token acts for.\<close>

abbreviation actingOrg :: "AuthenticatedUser \<Rightarrow> string" where
  "actingOrg user \<equiv> orDefault (au_organizationId user) []"

abbreviation actingMember :: "AuthenticatedUser \<Rightarrow> string" where
  "actingMember user \<equiv> orDefault (au_membershipId user) []"

definition actsInOrganization :: "AuthenticatedUser \<Rightarrow> bool" where
  "actsInOrganization user \<longleftrightarrow> truthy_str (au_organizationId user) \<and> truthy_str (au_membershipId user)"

abbreviation seenBy :: "world \<Rightarrow> AuthenticatedUser \<Rightarrow> ResolvedPermission list" where
  "seenBy w user \<equiv> permissionsSeen w (au_id user) (actingOrg user) (actingMember user)"

definition decisionContext :: "EvaluateInput \<Rightarrow> world \<Rightarrow> ResolvedAttributes \<Rightarrow> AuthorizationContext" where
  "decisionContext input w attrs = contextFor input (seenBy w (ei_user input))
     (policiesInForce (w_db w) (au_id (ei_user input)) (actingOrg (ei_user input)) (actingMember (ei_user input)))
     attrs"

lemma evaluateRequest_fst:
  assumes "actsInOrganization (ei_user input)"
  shows "fst (evaluateRequest E input w) = (case fst (resolveAttributes E (ei_user input) w) of
     Inl e \<Rightarrow> Inl e
   | Inr attrs \<Rightarrow> Inr (combineDecision E (w_now w) (decisionContext input w attrs)))"
proof -
  let ?user = "ei_user input"
  obtain p w1 where p: "resolvePermissions (au_id ?user) (actingOrg ?user) (actingMember ?user) w = (p, w1)"
    by (cases "resolvePermissions (au_id ?user) (actingOrg ?user) (actingMember ?user) w")
  then have ps: "resolvePermissions (au_id ?user) (actingOrg ?user) (actingMember ?user) w =
      (Inr (seenBy w ?user), w1)"
    using resolvePermissions_seen [of "au_id ?user" "actingOrg ?user" "actingMember ?user" w] by simp
  then have w1: "w1 = snd (resolvePermissions (au_id ?user) (actingOrg ?user) (actingMember ?user) w)" by simp
  have same: "fst (resolveAttributes E ?user w1) = fst (resolveAttributes E ?user w)"
    by (rule resolveAttributes_cong) (simp_all only: w1 resolvePermissions_frame resolvePermissions_attributes)
  have frame: "w_db w1 = w_db w" "w_now w1 = w_now w"
    by (simp_all only: w1 resolvePermissions_frame)
  obtain r w2 where r: "resolveAttributes E ?user w1 = (r, w2)"
    by (cases "resolveAttributes E ?user w1")
  then have now: "w_now w2 = w_now w"
    using resolveAttributes_frame(2) [of E ?user w1] frame by simp
  have "fst (evaluateRequest E input w) = (case r of
     Inl e \<Rightarrow> Inl e
   | Inr attrs \<Rightarrow> Inr (combineDecision E (w_now w) (decisionContext input w attrs)))"
    using now frame assms by (simp add: evaluateRequest_def actsInOrganization_def Let_def bindM_run ps
        resolvePolicies_def decisionContext_def r split: sum.split)
  with same r show ?thesis by simp
qed

lemma evaluateRequest_outside:
  "\<not> actsInOrganization (ei_user input) \<Longrightarrow> evaluateRequest E input w = (Inr noContextDecision, w)"
  by (auto simp: evaluateRequest_def actsInOrganization_def)

lemma decision_allows:
  "ad_allowed (combineDecision E (w_now w) (decisionContext input w attrs)) \<longleftrightarrow>
     \<not> policyDecides E w (decisionContext input w attrs) (actingMember (ei_user input)) DENY \<and>
     (hasPermission (seenBy w (ei_user input)) (ei_resource input) (ei_action input) \<or>
      policyDecides E w (decisionContext input w attrs) (actingMember (ei_user input)) ALLOW)"
proof -
  let ?ctx = "decisionContext input w attrs"
  have "someApplies E (w_now w) ?ctx eff \<longleftrightarrow> policyDecides E w ?ctx (actingMember (ei_user input)) eff" for eff
    by (rule someApplies_decides) (simp add: decisionContext_def contextFor_def)
  then show ?thesis
    by (simp add: combineDecision_allowed) (simp add: decisionContext_def contextFor_def)
qed

text \<open>
  C6: what \<open>AuthorizationService.evaluate\<close> answers.  Without an active organization it refuses;
  when the attributes cannot be loaded it fails with that error; otherwise the request is allowed
  exactly when no DENY policy in force for the member applies, and either the permissions seen
  carry it or an ALLOW policy in force applies.  The policies are those of the tables; the
  permissions seen are the cached list while Redis answers and the entry lives, and what the
  tables grant otherwise.  Where the list seen is the one the tables grant, and no resource has a
  colon in its name (\<open>CreatePermissionDto\<close> admits none), carrying the permission means that a
  role of the membership which is not deleted grants it, wildcards included.
\<close>

theorem access_decision:
  shows "(if \<not> actsInOrganization (ei_user input) then fst (evaluateRequest E input w) = Inr noContextDecision
     else case fst (resolveAttributes E (ei_user input) w) of
       Inl e \<Rightarrow> fst (evaluateRequest E input w) = Inl e
     | Inr attrs \<Rightarrow> (\<exists>d. fst (evaluateRequest E input w) = Inr d \<and>
         (let ctx = decisionContext input w attrs; mid = actingMember (ei_user input) in
          ad_allowed d \<longleftrightarrow> \<not> policyDecides E w ctx mid DENY \<and>
            (hasPermission (seenBy w (ei_user input)) (ei_resource input) (ei_action input) \<or>
             policyDecides E w ctx mid ALLOW)))) \<and>
    (plainResources (w_db w) \<and>
       seenBy w (ei_user input) = dedupe [] (grantedRows (w_db w) (actingMember (ei_user input))) \<longrightarrow>
     hasPermission (seenBy w (ei_user input)) (ei_resource input) (ei_action input) =
       roleGrants (w_db w) (actingMember (ei_user input)) (ei_resource input) (ei_action input))"
proof (intro conjI impI)
  show "if \<not> actsInOrganization (ei_user input) then fst (evaluateRequest E input w) = Inr noContextDecision
     else case fst (resolveAttributes E (ei_user input) w) of
       Inl e \<Rightarrow> fst (evaluateRequest E input w) = Inl e
     | Inr attrs \<Rightarrow> (\<exists>d. fst (evaluateRequest E input w) = Inr d \<and>
         (let ctx = decisionContext input w attrs; mid = actingMember (ei_user input) in
          ad_allowed d \<longleftrightarrow> \<not> policyDecides E w ctx mid DENY \<and>
            (hasPermission (seenBy w (ei_user input)) (ei_resource input) (ei_action input) \<or>
             policyDecides E w ctx mid ALLOW)))"
    by (simp add: evaluateRequest_outside evaluateRequest_fst decision_allows Let_def split: sum.split)
qed (simp add: hasPermission_granted)

section \<open>The guard\<close>

text \<open>What the reads of the guard leave as it is: the tables, the clock, and the permissions seen.\<close>

abbreviation viewIs :: "database \<Rightarrow> int \<Rightarrow> ResolvedPermission list \<Rightarrow> AuthenticatedUser \<Rightarrow> world \<Rightarrow> bool" where
  "viewIs d t ps user w \<equiv> w_db w = d \<and> w_now w = t \<and> seenBy w user = ps"

lemma keeps_resolveAttributes: "keeps (viewIs d t ps user) (resolveAttributes E u)"
proof (rule keepsI)
  fix w assume "viewIs d t ps user w"
  moreover have "seenBy (snd (resolveAttributes E u w)) user = seenBy w user"
    by (rule permissionsSeen_cong) (simp_all only: resolveAttributes_frame)
  ultimately show "viewIs d t ps user (snd (resolveAttributes E u w))" by (simp add: resolveAttributes_frame)
qed

lemma keeps_resolvePolicies: "keeps I (resolvePolicies uid oid mid)"
  unfolding resolvePolicies_def by (rule keeps_getsM)

lemma keeps_resolvePermissions:
  "keeps (viewIs d t ps user) (resolvePermissions (au_id user) (actingOrg user) (actingMember user))"
  by (rule keepsI) (simp add: permissionsSeen_kept)

lemma keeps_now_any: "keeps I nowM"
  unfolding nowM_def by (rule keeps_getsM)

lemma keeps_evaluateRequest: "keeps (viewIs d t ps (ei_user input)) (evaluateRequest E input)"
  by (auto simp: evaluateRequest_def Let_def
      intro!: keeps_intros keeps_resolveAttributes keeps_resolvePolicies keeps_resolvePermissions keeps_now_any)

lemma keeps_buildContext: "keeps (viewIs d t ps user) (buildContext E req user rm rd)"
  by (auto simp: buildContext_def Let_def
      intro!: keeps_intros keeps_resolveAttributes keeps_resolvePolicies keeps_resolvePermissions)

lemma loader_reads:
  "snd (userLoader rid oid w) = w" "snd (organizationLoader rid oid w) = w"
  "snd (membershipLoader rid oid w) = w" "snd (policyLoader rid oid w) = w"
  by (simp_all add: userLoader_def organizationLoader_def membershipLoader_def policyLoader_def bindM_run dbFind_run
      split: option.split)

lemma default_loader_reads: "snd (loadResourceBy defaultLoaders t rid oid w) = w"
  by (simp add: loadResourceBy_def defaultLoaders_def registerLoader_def loader_reads)

lemma loadResource_reads: "snd (loadResource defaultLoaders req ref user w) = w"
  by (simp add: loadResource_def default_loader_reads Let_def split: option.split)

lemma mapM_all:
  assumes "\<And>x. x \<in> set xs \<Longrightarrow> keeps I (f x)"
    and "\<And>x w y w'. x \<in> set xs \<Longrightarrow> I w \<Longrightarrow> f x w = (Inr y, w') \<Longrightarrow> P x y"
    and "mapM f xs w = (Inr ys, w')" and "I w"
  shows "list_all2 P xs ys \<and> I w'"
  using assms
proof (induction xs arbitrary: w ys)
  case (Cons x xs)
  from Cons.prems(3) obtain y zs v where *: "f x w = (Inr y, v)" "mapM f xs v = (Inr zs, w')" "ys = y # zs"
    by (auto simp: success_iffs)
  have "I v" using keepsE [OF Cons.prems(1) *(1)] Cons.prems(4) by simp
  with Cons.IH [OF Cons.prems(1,2) *(2)] have "list_all2 P xs zs \<and> I w'" by simp
  with Cons.prems(2,4) * show ?case by simp
qed simp

lemma list_all2_left:
  "list_all2 P xs ys \<Longrightarrow> (\<And>x y. P x y \<Longrightarrow> y \<in> set ys \<Longrightarrow> Q x) \<Longrightarrow> \<forall>x \<in> set xs. Q x"
  by (induction rule: list_all2_induct) auto

lemma list_all2_right:
  "list_all2 P xs ys \<Longrightarrow> y \<in> set ys \<Longrightarrow> \<exists>x \<in> set xs. P x y"
  by (induction rule: list_all2_induct) auto

text \<open>
  A required permission is met, whatever the attributes are: the caller acts in an organization,
  the permissions seen carry it or an ALLOW policy in force covers it, and no unconditional DENY
  policy in force does.
\<close>

definition policyTargets :: "Policy \<Rightarrow> PermissionRequirement \<Rightarrow> bool" where
  "policyTargets p r \<longleftrightarrow> (pol_resource p = ''*'' \<or> pol_resource p = rq_resource r) \<and>
     (pol_action p = ''*'' \<or> pol_action p = rq_action r)"

definition requirementMet :: "database \<Rightarrow> ResolvedPermission list \<Rightarrow> AuthenticatedUser \<Rightarrow> PermissionRequirement \<Rightarrow> bool" where
  "requirementMet d ps user r \<longleftrightarrow> actsInOrganization user \<and>
     (let inForce = filter (\<lambda>p. policyInForce d (au_id user) (actingOrg user) (actingMember user) p \<and> policyTargets p r)
            (policies d) in
      (hasPermission ps (rq_resource r) (rq_action r) \<or> (\<exists>p \<in> set inForce. pol_effect p = ALLOW)) \<and>
      \<not> (\<exists>p \<in> set inForce. pol_effect p = DENY \<and> conditionsOf d (pol_id p) = []))"

lemma allowed_requirement:
  assumes "evaluateRequest E (permissionInput user ctx rid r) w = (Inr d, w')" "ad_allowed d"
  shows "requirementMet (w_db w) (seenBy w user) user r"
proof -
  let ?input = "permissionInput user ctx rid r"
  have input: "ei_user ?input = user" "ei_resource ?input = rq_resource r" "ei_action ?input = rq_action r"
    by (simp_all add: permissionInput_def)
  have acts: "actsInOrganization user"
  proof (rule ccontr)
    assume "\<not> actsInOrganization user"
    with evaluateRequest_outside [of ?input E w] assms show False by (simp add: input noContextDecision_def)
  qed
  obtain attrs where "d = combineDecision E (w_now w) (decisionContext ?input w attrs)"
    using evaluateRequest_fst [of ?input E w] assms(1) acts by (auto simp: input split: sum.splits)
  with assms(2) decision_allows [of E w ?input attrs]
  have no_deny: "\<not> policyDecides E w (decisionContext ?input w attrs) (actingMember user) DENY"
    and ok: "hasPermission (seenBy w user) (rq_resource r) (rq_action r) \<or>
      policyDecides E w (decisionContext ?input w attrs) (actingMember user) ALLOW"
    by (simp_all add: input)
  let ?ctx = "decisionContext ?input w attrs"
  have ctx: "ax_user ?ctx = user" "ax_organizationId ?ctx = au_organizationId user"
    "ax_resource ?ctx = rq_resource r" "ax_action ?ctx = rq_action r"
    by (simp_all add: decisionContext_def contextFor_def permissionInput_def)
  have applies: "policyApplies E (w_now w) ?ctx (serializePolicy (w_db w) p) \<longleftrightarrow>
      pol_isEnabled p \<and> policyTargets p r \<and> policyHolds E (w_now w) ?ctx (serializePolicy (w_db w) p)" for p
    by (auto simp: policyApplies_def policyTargets_def matchesResource_def serializePolicy_def ctx)
  have "\<not> (pol_effect p = DENY \<and> conditionsOf (w_db w) (pol_id p) = [])"
    if "p \<in> set (policies (w_db w))" "policyInForce (w_db w) (au_id user) (actingOrg user) (actingMember user) p"
      "policyTargets p r" for p
  proof
    assume deny: "pol_effect p = DENY \<and> conditionsOf (w_db w) (pol_id p) = []"
    then have "policyHolds E (w_now w) ?ctx (serializePolicy (w_db w) p)"
      by (simp add: policyHolds_def serializePolicy_def)
    moreover have "pol_isEnabled p" using that(2) by (simp add: policyInForce_def)
    ultimately have "policyDecides E w ?ctx (actingMember user) DENY"
      unfolding policyDecides_def ctx applies using that deny by blast
    with no_deny show False by simp
  qed
  moreover have "hasPermission (seenBy w user) (rq_resource r) (rq_action r) \<or>
      (\<exists>p \<in> set (policies (w_db w)). policyInForce (w_db w) (au_id user) (actingOrg user) (actingMember user) p \<and>
         policyTargets p r \<and> pol_effect p = ALLOW)"
    using ok unfolding policyDecides_def ctx applies by blast
  ultimately show ?thesis using acts by (auto simp: requirementMet_def Let_def)
qed

text \<open>A policy required by its slug is met: one in force with that slug has the effect ALLOW.\<close>

definition namedPolicyMet :: "database \<Rightarrow> AuthenticatedUser \<Rightarrow> string \<Rightarrow> bool" where
  "namedPolicyMet d user slug \<longleftrightarrow> actsInOrganization user \<and>
     (\<exists>p \<in> set (policies d). policyInForce d (au_id user) (actingOrg user) (actingMember user) p \<and>
        pol_slug p = slug \<and> pol_effect p = ALLOW)"

lemma buildContext_run:
  assumes "buildContext E req user rm rd w = (Inr ctx, w')"
  shows "ax_resourceData ctx = rd \<and> ax_policies ctx = (if actsInOrganization user
     then policiesInForce (w_db w) (au_id user) (actingOrg user) (actingMember user) else [])"
proof (cases "actsInOrganization user")
  case True
  with assms obtain attrs w1 perms w2 where
    1: "resolveAttributes E user w = (Inr attrs, w1)" and
    2: "resolvePermissions (au_id user) (actingOrg user) (actingMember user) w1 = (Inr perms, w2)" and
    3: "ax_resourceData ctx = rd"
      "ax_policies ctx = policiesInForce (w_db w2) (au_id user) (actingOrg user) (actingMember user)"
    by (auto simp: buildContext_def Let_def success_iffs actsInOrganization_def resolvePolicies_def)
  have "w_db w2 = w_db w"
    using resolveAttributes_frame(1) [of E user w] 1
      resolvePermissions_frame(1) [of "au_id user" "actingOrg user" "actingMember user" w1] 2 by simp
  with 3 True show ?thesis by simp
next
  case False
  with assms show ?thesis
    by (auto simp: buildContext_def Let_def success_iffs actsInOrganization_def)
qed

lemma allowed_slug:
  assumes "ax_policies ctx = (if actsInOrganization user
      then policiesInForce d (au_id user) (actingOrg user) (actingMember user) else [])"
    and "ad_allowed (evaluatePolicyBySlug E now slug ctx)"
  shows "namedPolicyMet d user slug"
proof -
  from assms(2) obtain sp where "findFirst (\<lambda>p. sp_slug p = slug \<and> sp_isEnabled p) (ax_policies ctx) = Some sp"
    and allow: "sp_effect sp = ALLOW"
    by (auto simp: evaluatePolicyBySlug_def split: option.splits prod.splits bool.splits)
  then have sp: "sp \<in> set (ax_policies ctx)" "sp_slug sp = slug" by (auto dest: findFirst_SomeD)
  with assms(1) have acts: "actsInOrganization user" by (auto split: if_splits)
  with sp assms(1) obtain p where "p \<in> set (policies d)"
    "policyInForce d (au_id user) (actingOrg user) (actingMember user) p" "sp = serializePolicy d p"
    by (auto simp: policiesInForce_def set_findMany)
  with acts allow sp show ?thesis by (auto simp: namedPolicyMet_def serializePolicy_def)
qed

text \<open>
  What the guard demands, as one truth value for each decision it collects: the permissions,
  the named policies, the inline attributes (evaluated on the context the guard built) and the
  ownership of the loaded resource.
\<close>

definition attributesMet :: "env \<Rightarrow> HttpRequest \<Rightarrow> AuthenticatedUser \<Rightarrow> GuardMetadata \<Rightarrow> world \<Rightarrow> bool" where
  "attributesMet E req user meta w \<longleftrightarrow> (\<exists>rd ctx.
     fst (loadResource defaultLoaders req (resourceRef meta) user w) = Inr rd \<and>
     fst (buildContext E req user (gm_resource meta) rd w) = Inr ctx \<and>
     ad_allowed (evaluateInlineAttributes E (w_now w) (optList (gm_attributes meta)) ctx))"

definition ownershipMet :: "env \<Rightarrow> HttpRequest \<Rightarrow> AuthenticatedUser \<Rightarrow> GuardMetadata \<Rightarrow> world \<Rightarrow> OwnershipRequirement \<Rightarrow> bool" where
  "ownershipMet E req user meta w ow \<longleftrightarrow> (\<exists>rd.
     fst (loadResource defaultLoaders req (resourceRef meta) user w) = Inr rd \<and>
     \<not> js_nullish rd \<and> js_get (e_js E) rd (orDefault (ow_ownerField ow) ''ownerId'') = JStr (au_id user))"

definition demandsMet :: "env \<Rightarrow> HttpRequest \<Rightarrow> AuthenticatedUser \<Rightarrow> GuardMetadata \<Rightarrow> world \<Rightarrow> bool list" where
  "demandsMet E req user meta w =
     map (requirementMet (w_db w) (seenBy w user) user) (optList (gm_permissions meta)) @
     map (namedPolicyMet (w_db w) user) (optList (gm_policies meta)) @
     (if optList (gm_attributes meta) = [] then [] else [attributesMet E req user meta w]) @
     (case gm_ownership meta of None \<Rightarrow> [] | Some ow \<Rightarrow> [ownershipMet E req user meta w ow])"

lemma ownership_strict: "js_strictEq v (JStr s) \<longleftrightarrow> v = JStr s"
  by (cases v) simp_all

lemma collectDecisions_demands:
  assumes 1: "loadResource defaultLoaders req (resourceRef meta) user w = (Inr rd, w)"
    and 2: "buildContext E req user (gm_resource meta) rd w = (Inr ctx, w2)"
    and 3: "collectDecisions E meta req user ctx w2 = (Inr ds, w3)"
  shows "list_all2 (\<lambda>met e. ad_allowed e \<longrightarrow> met) (demandsMet E req user meta w) ds"
proof -
  let ?f = "\<lambda>r. evaluateRequest E (permissionInput user ctx (extractResourceId req (resourceRef meta)) r)"
  let ?view = "viewIs (w_db w) (w_now w) (seenBy w user) user"
  have view: "?view w2" using keepsE [OF keeps_buildContext 2] by simp
  from 3 obtain es v where run: "mapM ?f (optList (gm_permissions meta)) w2 = (Inr es, v)"
    and ds: "ds = es @ map (\<lambda>slug. evaluatePolicyBySlug E (w_now v) slug ctx) (optList (gm_policies meta)) @
       (if optList (gm_attributes meta) = [] then []
        else [evaluateInlineAttributes E (w_now v) (optList (gm_attributes meta)) ctx]) @
       (case gm_ownership meta of None \<Rightarrow> [] | Some ow \<Rightarrow> [evaluateOwnership E ow user (ax_resourceData ctx)])"
    by (auto simp: collectDecisions_def success_iffs nowM_def)
  have "list_all2 (\<lambda>r e. ad_allowed e \<longrightarrow> requirementMet (w_db w) (seenBy w user) user r)
      (optList (gm_permissions meta)) es \<and> ?view v"
  proof (rule mapM_all [where I = ?view, OF _ _ run])
    show "keeps ?view (?f r)" for r
      using keeps_evaluateRequest [where input = "permissionInput user ctx (extractResourceId req (resourceRef meta)) r"]
      by (simp add: permissionInput_def)
    show "ad_allowed y \<longrightarrow> requirementMet (w_db w) (seenBy w user) user r"
      if "?view u" "?f r u = (Inr y, u')" for r u y u'
      using allowed_requirement [OF that(2)] that(1) by simp
  qed (use view in simp)
  moreover have slugs: "ad_allowed (evaluatePolicyBySlug E now slug ctx) \<longrightarrow> namedPolicyMet (w_db w) user slug" for now slug
    using allowed_slug buildContext_run [OF 2] by blast
  moreover have "ad_allowed (evaluateOwnership E ow user (ax_resourceData ctx)) \<longrightarrow> ownershipMet E req user meta w ow" for ow
    using 1 buildContext_run [OF 2]
    by (auto simp: evaluateOwnership_def ownershipMet_def Let_def ownership_strict split: if_splits)
  moreover have "ad_allowed (evaluateInlineAttributes E (w_now w) (optList (gm_attributes meta)) ctx) \<longrightarrow>
      attributesMet E req user meta w"
    using 1 2 by (auto simp: attributesMet_def)
  ultimately show ?thesis
    unfolding ds demandsMet_def
    by (auto simp: list_all2_map1 list_all2_map2 list_all2_same intro!: list_all2_appendI split: option.split)
qed

text \<open>
  C9: what \<open>AuthorizationGuard\<close> demands is enforced.  When it lets the request of a user through
  in the default mode, every demand is met: each required permission is carried by the permissions
  seen (the cached list or the tables, see C6) or opened by an ALLOW policy in force, with no
  unconditional DENY policy in force on it; each named policy is in force with the effect ALLOW;
  the inline attributes hold; the caller owns the loaded resource.  In mode ANY one of these
  demands is met, and there is at least one.
\<close>

theorem guard_enforces_permissions:
  assumes "hr_user req = Some user"
    and "authorizationGuard E defaultLoaders meta req w = (Inr (), w')"
  shows "case authorizationMode meta of
      ModeAll \<Rightarrow> list_all (\<lambda>met. met) (demandsMet E req user meta w)
    | ModeAny \<Rightarrow> list_ex (\<lambda>met. met) (demandsMet E req user meta w)"
proof (cases "noRequirement meta")
  case True
  then show ?thesis by (simp add: noRequirement_def optList_def demandsMet_def authorizationMode_def)
next
  case False
  with assms obtain rd w1 ctx w2 ds w3 where
    1: "loadResource defaultLoaders req (resourceRef meta) user w = (Inr rd, w1)" and
    2: "buildContext E req user (gm_resource meta) rd w1 = (Inr ctx, w2)" and
    3: "collectDecisions E meta req user ctx w2 = (Inr ds, w3)" "decisionsAllow (authorizationMode meta) ds"
    by (auto simp: authorizationGuard_def success_iffs Let_def)
  have "w1 = w" using loadResource_reads [of req "resourceRef meta" user w] 1 by simp
  with collectDecisions_demands 1 2 3(1)
  have all: "list_all2 (\<lambda>met e. ad_allowed e \<longrightarrow> met) (demandsMet E req user meta w) ds" by simp
  show ?thesis
  proof (cases "authorizationMode meta")
    case ModeAll
    then have "\<forall>e \<in> set ds. ad_allowed e" using 3(2) by (simp add: decisionsAllow_def list_all_iff)
    then have "\<forall>met \<in> set (demandsMet E req user meta w). met"
      by (intro list_all2_left [OF all]) blast
    with ModeAll show ?thesis by (simp add: list_all_iff)
  next
    case ModeAny
    then obtain e where "e \<in> set ds" "ad_allowed e" using 3(2) by (auto simp: decisionsAllow_def list_ex_iff)
    with list_all2_right [OF all] have "\<exists>met \<in> set (demandsMet E req user meta w). met" by blast
    with ModeAny show ?thesis by (simp add: list_ex_iff)
  qed
qed

section \<open>What a refusal reveals\<close>

text \<open>
  Outside development a refusal of \<open>AuthorizationService.evaluate\<close> names no policy, no
  condition and no value: it says that access is denied or that no organization is active.
\<close>

theorem refusal_reveals_nothing:
  assumes "e_nodeEnv E \<noteq> ''development''" and "fst (evaluateRequest E input w) = Inr d" and "\<not> ad_allowed d"
  shows "ad_matchedPolicies d = [] \<and> ad_failedConditions d = [] \<and>
    ad_reason d \<in> {''Access denied'', ''No active organization context''}"
proof -
  have sanitized: "ad_matchedPolicies (combineDecision E now ctx) = []"
    "ad_failedConditions (combineDecision E now ctx) = []"
    "\<not> ad_allowed (combineDecision E now ctx) \<Longrightarrow> ad_reason (combineDecision E now ctx) = ''Access denied''" for now ctx
    using assms(1) by (simp_all add: combineDecision_def sanitize_def Let_def split: if_splits)
  from assms(2) have "d = noContextDecision \<or> (\<exists>now ctx. d = combineDecision E now ctx)"
    by (auto simp: evaluateRequest_def Let_def bindM_def split: if_splits sum.splits prod.splits)
  then show ?thesis using assms(3) sanitized by (auto simp: noContextDecision_def)
qed

section \<open>Concrete requests\<close>

definition aliceClaims :: AuthenticatedUser where
  "aliceClaims = \<lparr>au_id = ''alice'', au_email = ''alice@example.com'', au_sessionId = ''s1'',
     au_tokenVersion = 0, au_organizationId = Some ''acme'', au_membershipId = Some ''ma'',
     au_roles = [''admin''], au_permissionsVersion = 1, au_attributesVersion = 1\<rparr>"

definition plainRequest :: RequestSnapshot where
  "plainRequest = \<lparr>rq_ip = None, rq_userAgent = None, rq_method = None, rq_path = None, rq_headers = []\<rparr>"

definition aliceAsks :: "string \<Rightarrow> string \<Rightarrow> EvaluateInput" where
  "aliceAsks resource action = \<lparr>ei_user = aliceClaims, ei_resource = resource, ei_action = action,
     ei_resourceId = None, ei_resourceData = JUndefined, ei_request = plainRequest\<rparr>"

definition aliceAttributes :: ResolvedAttributes where
  "aliceAttributes = attributesOf alice (memberOf ''ma'' ''alice'') acme [''admin'']"

definition aliceRequest :: HttpRequest where
  "aliceRequest = \<lparr>hr_user = Some aliceClaims, hr_params = [], hr_headers = [], hr_method = ''GET'',
     hr_path = ''/roles'', hr_ip = None, hr_remoteAddress = None\<rparr>"

definition noMetadata :: GuardMetadata where
  "noMetadata = \<lparr>gm_permissions = None, gm_policies = None, gm_attributes = None, gm_ownership = None,
     gm_authorization = None, gm_resource = None\<rparr>"

definition manageRolesRequired :: GuardMetadata where
  "manageRolesRequired = noMetadata\<lparr>gm_permissions := Some [\<lparr>rq_resource = ''roles'', rq_action = ''manage''\<rparr>]\<rparr>"

theorem guard_enforces_permissions_witness:
  "requirementMet (w_db rolesWorld) (seenBy rolesWorld aliceClaims) aliceClaims \<lparr>rq_resource = ''roles'', rq_action = ''manage''\<rparr>"
proof -
  have "fst (authorizationGuard sampleEnv defaultLoaders manageRolesRequired aliceRequest rolesWorld) = Inr ()"
    by code_simp
  then have run: "authorizationGuard sampleEnv defaultLoaders manageRolesRequired aliceRequest rolesWorld =
      (Inr (), snd (authorizationGuard sampleEnv defaultLoaders manageRolesRequired aliceRequest rolesWorld))"
    by (metis prod.collapse)
  have "hr_user aliceRequest = Some aliceClaims" "authorizationMode manageRolesRequired = ModeAll"
    "gm_permissions manageRolesRequired = Some [\<lparr>rq_resource = ''roles'', rq_action = ''manage''\<rparr>]"
    by (simp_all add: aliceRequest_def authorizationMode_def manageRolesRequired_def noMetadata_def)
  with guard_enforces_permissions [OF _ run]
  show ?thesis by (simp add: optList_def demandsMet_def)
qed

theorem access_decision_witness:
  "(\<exists>d. fst (evaluateRequest sampleEnv (aliceAsks ''roles'' ''manage'') rolesWorld) = Inr d \<and> ad_allowed d) \<and>
   hasPermission (seenBy rolesWorld aliceClaims) ''roles'' ''manage'' =
     roleGrants (w_db rolesWorld) ''ma'' ''roles'' ''manage''"
proof -
  let ?input = "aliceAsks ''roles'' ''manage''"
  have attrs: "fst (resolveAttributes sampleEnv aliceClaims rolesWorld) = Inr aliceAttributes"
    by code_simp
  have none: "\<not> policyDecides sampleEnv rolesWorld ctx mid DENY" for ctx mid
    by (simp add: policyDecides_def rolesWorld_def worldOf_def rolesDb_def acmeDb_def emptyDb_def)
  have "plainResources (w_db rolesWorld)" "actsInOrganization aliceClaims"
    "seenBy rolesWorld aliceClaims = dedupe [] (grantedRows (w_db rolesWorld) (actingMember aliceClaims))"
    "hasPermission (seenBy rolesWorld aliceClaims) ''roles'' ''manage''"
    by code_simp+
  moreover have "ei_user ?input = aliceClaims" "ei_resource ?input = ''roles''"
    "ei_action ?input = ''manage''" "actingMember aliceClaims = ''ma''"
    by (simp_all add: aliceAsks_def aliceClaims_def)
  ultimately show ?thesis
    using access_decision [of ?input sampleEnv rolesWorld] attrs by (simp add: Let_def none)
qed

theorem refusal_reveals_nothing_witness:
  "ad_reason (combineDecision sampleEnv 1000 (decisionContext (aliceAsks ''users'' ''read'') rolesWorld aliceAttributes)) = ''Access denied''"
proof -
  let ?d = "combineDecision sampleEnv 1000 (decisionContext (aliceAsks ''users'' ''read'') rolesWorld aliceAttributes)"
  have run: "fst (evaluateRequest sampleEnv (aliceAsks ''users'' ''read'') rolesWorld) = Inr ?d" by code_simp
  have no: "\<not> ad_allowed ?d" by code_simp
  have other: "ad_reason ?d \<noteq> ''No active organization context''" by code_simp
  have "e_nodeEnv sampleEnv \<noteq> ''development''" by code_simp
  from refusal_reveals_nothing [OF this run no] other show ?thesis by blast
qed

section \<open>What the guard does not enforce\<close>

text \<open>
  The permissions and policies named in \<open>@Authorization\<close> are never read: whatever names it
  lists, the guard answers the same; alone, it lets every authenticated member through in mode
  ALL and nobody in mode ANY.
\<close>

theorem authorization_names_not_enforced:
  "authorizationGuard E reg (meta\<lparr>gm_authorization := Some \<lparr>ar_permissions = ps, ar_policies = qs, ar_mode = mode\<rparr>\<rparr>) =
   authorizationGuard E reg (meta\<lparr>gm_authorization := Some \<lparr>ar_permissions = None, ar_policies = None, ar_mode = mode\<rparr>\<rparr>) \<and>
   fst (authorizationGuard sampleEnv defaultLoaders (noMetadata\<lparr>gm_authorization := Some
     \<lparr>ar_permissions = Some [''users:delete''], ar_policies = None, ar_mode = Some ModeAll\<rparr>\<rparr>) aliceRequest rolesWorld) = Inr () \<and>
   fst (authorizationGuard sampleEnv defaultLoaders (noMetadata\<lparr>gm_authorization := Some
     \<lparr>ar_permissions = Some [''roles:manage''], ar_policies = None, ar_mode = Some ModeAny\<rparr>\<rparr>) aliceRequest rolesWorld) =
     Inl (forbidden ''Authorization failed'')"
proof (intro conjI)
  show "authorizationGuard E reg (meta\<lparr>gm_authorization := Some \<lparr>ar_permissions = ps, ar_policies = qs, ar_mode = mode\<rparr>\<rparr>) =
   authorizationGuard E reg (meta\<lparr>gm_authorization := Some \<lparr>ar_permissions = None, ar_policies = None, ar_mode = mode\<rparr>\<rparr>)"
    (is "authorizationGuard E reg ?named = authorizationGuard E reg ?bare")
  proof -
    have "resourceRef ?named = resourceRef ?bare" by (simp add: resourceRef_def)
    moreover from this have "collectDecisions E ?named = collectDecisions E ?bare"
      by (intro ext) (simp add: collectDecisions_def cong: if_cong)
    moreover have "authorizationMode ?named = authorizationMode ?bare" by (simp add: authorizationMode_def)
    moreover have "noRequirement ?named = noRequirement ?bare" by (simp add: noRequirement_def)
    ultimately show ?thesis by (intro ext) (simp add: authorizationGuard_def cong: if_cong)
  qed
qed code_simp+

text \<open>
  Raising a member's clearance bumps the attributes version but leaves the cached
  attributes: the next decision for the member still reads the old clearance level.
\<close>

theorem attributes_stay_stale:
  "(let (r0, w0) = resolveAttributes sampleEnv aliceClaims rolesWorld;
        (r1, w1) = updateAttributes sampleEnv ''acme'' ''alice'' \<lparr>um_status = None, um_department = None,
          um_region = None, um_jobTitle = None, um_clearanceLevel = Some (Some 7)\<rparr> ''bob'' w0;
        (r2, w2) = resolveAttributes sampleEnv aliceClaims w1
    in map m_clearanceLevel (findMany (\<lambda>m. m_id m = ''ma'') (memberships (w_db w2))) = [7] \<and>
       map m_attributesVersion (findMany (\<lambda>m. m_id m = ''ma'') (memberships (w_db w2))) = [2] \<and>
       (case r2 of Inr a \<Rightarrow> map_of (at_membership a) ''clearanceLevel'' = Some (js_int 0) | Inl _ \<Rightarrow> False))"
  by code_simp

end
