(* ===== verification/Secrets.thy ===== *)
theory Secrets
  imports Fixtures
begin

text \<open>
  The texts of secrets: base64 of byte buffers (\<open>Buffer.toString('base64')\<close>,
  \<open>Buffer.from(s, 'base64')\<close>), the base64url of \<open>oauth/utils/pkce.util.ts\<close>, and the
  encryption of stored secrets (\<open>mfa/utils/crypto.util.ts\<close>,
  \<open>mfa/services/secrets-crypto.service.ts\<close>).
\<close>

section \<open>Encodings\<close>

text \<open>A pair of functions of which the second undoes the first on the values it is used for.\<close>

locale codec =
  fixes encode :: "'a \<Rightarrow> string" and decode :: "string \<Rightarrow> 'a" and valid :: "'a \<Rightarrow> bool"
  assumes decode_encode: "valid x \<Longrightarrow> decode (encode x) = x"
begin

lemma encode_eq_iff: "valid x \<Longrightarrow> valid y \<Longrightarrow> encode x = encode y \<longleftrightarrow> x = y"
  by (metis decode_encode)

lemma encode_inj_on: "inj_on encode (Collect valid)"
  by (rule inj_onI) (simp add: encode_eq_iff)

lemma distinct_encoded: "distinct xs \<Longrightarrow> (\<And>x. x \<in> set xs \<Longrightarrow> valid x) \<Longrightarrow> distinct (map encode xs)"
  by (simp add: distinct_map inj_on_subset [OF encode_inj_on] subset_eq)

end

section \<open>Base64\<close>

definition b64char :: "nat \<Rightarrow> char" where
  "b64char n = (if n < 26 then char_of (65 + n) else if n < 52 then char_of (97 + (n - 26))
     else if n < 62 then char_of (48 + (n - 52)) else if n = 62 then CHR ''+'' else CHR ''/'')"

text \<open>The decoder takes both alphabets.\<close>

definition b64val :: "char \<Rightarrow> nat option" where
  "b64val c = (let n = of_char c in
     if 65 \<le> n \<and> n \<le> 90 then Some (n - 65) else if 97 \<le> n \<and> n \<le> 122 then Some (n - 97 + 26)
     else if 48 \<le> n \<and> n \<le> 57 then Some (n - 48 + 52) else if c = CHR ''+'' \<or> c = CHR ''-'' then Some 62
     else if c = CHR ''/'' \<or> c = CHR ''_'' then Some 63 else None)"

fun toBase64 :: "nat list \<Rightarrow> string" where
  "toBase64 [] = []"
| "toBase64 [a] = [b64char (a div 4), b64char (a mod 4 * 16), CHR ''='', CHR ''='']"
| "toBase64 [a, b] = [b64char (a div 4), b64char (a mod 4 * 16 + b div 16), b64char (b mod 16 * 4), CHR ''='']"
| "toBase64 (a # b # c # r) =
     b64char (a div 4) # b64char (a mod 4 * 16 + b div 16) # b64char (b mod 16 * 4 + c div 64) #
     b64char (c mod 64) # toBase64 r"

fun packSextets :: "nat list \<Rightarrow> nat list" where
  "packSextets (x # y # z # t # r) =
     (x * 4 + y div 16) # (y mod 16 * 16 + z div 4) # (z mod 4 * 64 + t) # packSextets r"
| "packSextets [x, y, z] = [x * 4 + y div 16, y mod 16 * 16 + z div 4]"
| "packSextets [x, y] = [x * 4 + y div 16]"
| "packSextets [x] = []"
| "packSextets [] = []"

text \<open>
  Characters outside the alphabet are skipped, a padding among them; so this is the decoder of
  Node for texts whose paddings, if any, are at the end.
\<close>

definition fromBase64 :: "string \<Rightarrow> nat list" where
  "fromBase64 s = packSextets (List.map_filter b64val s)"

definition byteString :: "nat list \<Rightarrow> bool" where
  "byteString bs \<longleftrightarrow> list_all (\<lambda>b. b < 256) bs"

lemma b64val_b64char:
  assumes "n < 64"
  shows "b64val (b64char n) = Some n"
proof (cases "n < 62")
  case True
  show ?thesis
  proof (cases "n < 52")
    case False
    with True have "48 \<le> n - 4" "n - 4 \<le> 57" by simp_all
    with True False show ?thesis by (simp add: b64val_def b64char_def Let_def)
  qed (simp add: b64val_def b64char_def Let_def)
next
  case False
  with assms have "n = 62 \<or> n = 63" by linarith
  then show ?thesis by (auto simp: b64val_def b64char_def)
qed

lemma b64val_pad: "b64val (CHR ''='') = None"
  by (simp add: b64val_def)

lemma packed: "y < k \<Longrightarrow> (x * k + y) div k = (x::nat)" "y < k \<Longrightarrow> (x * k + y) mod k = (y::nat)"
  by simp_all

lemma small_parts:
  "a < 256 \<Longrightarrow> a div 4 < (64::nat)" "b < 256 \<Longrightarrow> b div 16 < (16::nat)" "c < 256 \<Longrightarrow> c div 64 < (4::nat)"
  by (simp_all add: less_mult_imp_div_less)

lemma small_sum: "x < n \<Longrightarrow> y < k \<Longrightarrow> x * k + y < n * (k::nat)"
proof -
  assume "x < n" "y < k"
  then have "x * k + y < Suc x * k" "Suc x * k \<le> n * k" by (simp, intro mult_le_mono1) simp
  then show ?thesis by simp
qed

lemma sextet_bounds:
  "a mod 4 * 16 < (64::nat)" "b < 256 \<Longrightarrow> a mod 4 * 16 + b div 16 < (64::nat)"
  "b mod 16 * 4 < (64::nat)" "c < 256 \<Longrightarrow> b mod 16 * 4 + c div 64 < (64::nat)" "c mod 64 < (64::nat)"
  using small_sum [of "a mod 4" 4 0 16] small_sum [of "a mod 4" 4 "b div 16" 16]
    small_sum [of "b mod 16" 16 0 4] small_sum [of "b mod 16" 16 "c div 64" 4]
  by (simp_all add: small_parts)

lemma sextet_bytes:
  "a div 4 * 4 + (a mod 4 * 16) div 16 = (a::nat)"
  "b < 256 \<Longrightarrow> a div 4 * 4 + (a mod 4 * 16 + b div 16) div 16 = (a::nat)"
  "b < 256 \<Longrightarrow> (a mod 4 * 16 + b div 16) mod 16 * 16 + (b mod 16 * 4) div 4 = (b::nat)"
  "b < 256 \<Longrightarrow> c < 256 \<Longrightarrow> (a mod 4 * 16 + b div 16) mod 16 * 16 + (b mod 16 * 4 + c div 64) div 4 = (b::nat)"
  "c < 256 \<Longrightarrow> (b mod 16 * 4 + c div 64) mod 4 * 64 + c mod 64 = (c::nat)"
  by (simp_all only: small_parts packed nonzero_mult_div_cancel_right zero_neq_numeral not_False_eq_True
      div_mult_mod_eq neq_commute [of _ "0::nat"])

lemma fromBase64_toBase64: "byteString bs \<Longrightarrow> fromBase64 (toBase64 bs) = bs"
  unfolding fromBase64_def
proof (induction bs rule: toBase64.induct)
  case (4 a b c r)
  then have "a < 256" "b < 256" "c < 256" "byteString r" by (simp_all add: byteString_def)
  with 4 show ?case by (simp add: map_filter_simps b64val_b64char small_parts(1) sextet_bounds
        sextet_bytes)
qed (simp_all add: byteString_def map_filter_simps b64val_b64char b64val_pad small_parts sextet_bounds
    sextet_bytes)

interpretation base64: codec toBase64 fromBase64 byteString
  by unfold_locales (rule fromBase64_toBase64)

text \<open>\<open>base64Url\<close>: the URL-safe alphabet, without padding.\<close>

definition base64Url :: "nat list \<Rightarrow> string" where
  "base64Url bs = rev (dropWhile (\<lambda>c. c = CHR ''='')
     (rev (map (\<lambda>c. if c = CHR ''/'' then CHR ''_'' else c)
            (map (\<lambda>c. if c = CHR ''+'' then CHR ''-'' else c) (toBase64 bs)))))"

section \<open>Encrypted secrets\<close>

definition IV_LENGTH :: nat where "IV_LENGTH = 12"
definition AUTH_TAG_LENGTH :: nat where "AUTH_TAG_LENGTH = 16"

definition deriveKey :: "env \<Rightarrow> string \<Rightarrow> (nat list) act" where
  "deriveKey E rawKey =
     thenM (throw_if (rawKey = []) (JsError ''Federation encryption key is not configured''))
     (returnM (e_sha256 E rawKey))"

definition encryptAesGcm :: "env \<Rightarrow> string \<Rightarrow> string \<Rightarrow> string act" where
  "encryptAesGcm E plaintext encryptionKey =
     bindM (deriveKey E encryptionKey) (\<lambda>key.
     bindM (randomBytes E IV_LENGTH) (\<lambda>iv.
     case e_gcmSeal E key iv plaintext of (encrypted, tag) \<Rightarrow>
       returnM (toBase64 (iv @ tag @ encrypted))))"

definition decryptAesGcm :: "env \<Rightarrow> string \<Rightarrow> string \<Rightarrow> string act" where
  "decryptAesGcm E ciphertext encryptionKey =
     bindM (deriveKey E encryptionKey) (\<lambda>key.
     let data = fromBase64 ciphertext in
     thenM (throw_if (length data < IV_LENGTH + AUTH_TAG_LENGTH) (JsError ''Ciphertext is malformed''))
     (orThrow (e_gcmOpen E key (take IV_LENGTH data) (take AUTH_TAG_LENGTH (drop IV_LENGTH data))
                (drop (IV_LENGTH + AUTH_TAG_LENGTH) data))
        (JsError ''Unsupported state or unable to authenticate data'')))"

text \<open>\<open>SecretsCryptoService\<close>.\<close>

definition encryptSecret :: "env \<Rightarrow> string \<Rightarrow> string act" where
  "encryptSecret E plaintext = encryptAesGcm E plaintext (fc_encryptionKey (e_fed E))"

definition decryptSecret :: "env \<Rightarrow> string \<Rightarrow> string act" where
  "decryptSecret E ciphertext = decryptAesGcm E ciphertext (fc_encryptionKey (e_fed E))"

text \<open>
  What \<open>node:crypto\<close> promises: as many random bytes as asked for, ciphers and tags made of
  bytes, a tag of 16, and a cipher that opens to what was sealed.
\<close>

definition cryptoOk :: "env \<Rightarrow> bool" where
  "cryptoOk E \<longleftrightarrow>
     (\<forall>n len. length (e_randomBytes E n len) = len \<and> byteString (e_randomBytes E n len)) \<and>
     (\<forall>k iv s. byteString (fst (e_gcmSeal E k iv s)) \<and> byteString (snd (e_gcmSeal E k iv s)) \<and>
        length (snd (e_gcmSeal E k iv s)) = AUTH_TAG_LENGTH \<and>
        e_gcmOpen E k iv (snd (e_gcmSeal E k iv s)) (fst (e_gcmSeal E k iv s)) = Some s)"

lemma encryptSecret_opens:
  assumes "cryptoOk E" and "encryptSecret E s w = (Inr c, w')"
  shows "decryptSecret E c v = (Inr s, v)"
proof -
  let ?iv = "e_randomBytes E (w_draws w) IV_LENGTH" and ?k = "e_sha256 E (fc_encryptionKey (e_fed E))"
  obtain ct tag where seal: "e_gcmSeal E ?k ?iv s = (ct, tag)" by (cases "e_gcmSeal E ?k ?iv s")
  have seal_ok: "byteString (fst (e_gcmSeal E ?k ?iv s))" "byteString (snd (e_gcmSeal E ?k ?iv s))"
    "length (snd (e_gcmSeal E ?k ?iv s)) = AUTH_TAG_LENGTH"
    "e_gcmOpen E ?k ?iv (snd (e_gcmSeal E ?k ?iv s)) (fst (e_gcmSeal E ?k ?iv s)) = Some s"
    using assms(1) unfolding cryptoOk_def by blast+
  have iv: "length ?iv = IV_LENGTH" "byteString ?iv" using assms(1) by (auto simp: cryptoOk_def)
  have tag: "byteString ct" "byteString tag" "length tag = AUTH_TAG_LENGTH" "e_gcmOpen E ?k ?iv tag ct = Some s"
    using seal_ok by (simp_all add: seal)
  from assms(2) have key: "fc_encryptionKey (e_fed E) \<noteq> []" and c: "c = toBase64 (?iv @ tag @ ct)"
    by (auto simp: encryptSecret_def encryptAesGcm_def deriveKey_def monad_simps seal split: if_splits)
  have "fromBase64 c = ?iv @ tag @ ct"
    unfolding c using iv tag by (intro base64.decode_encode) (simp add: byteString_def)
  with iv tag key show ?thesis
    by (simp add: decryptSecret_def decryptAesGcm_def deriveKey_def monad_simps Let_def)
qed

lemma encryptSecret_total:
  "fc_encryptionKey (e_fed E) \<noteq> [] \<Longrightarrow> \<exists>c. fst (encryptSecret E s w) = Inr c"
  by (simp add: encryptSecret_def encryptAesGcm_def deriveKey_def monad_simps split: prod.split)

text \<open>
  C32: a stored secret reads back: whatever text the platform encrypts, a TOTP secret, an OAuth
  token or a SAML certificate, decrypting the stored text later gives it back; and with no key
  configured nothing is encrypted or decrypted at all.
\<close>

theorem secrets_read_back:
  assumes "cryptoOk E"
  shows "(fc_encryptionKey (e_fed E) \<noteq> [] \<longrightarrow>
      (\<exists>c. fst (encryptSecret E s w) = Inr c \<and> decryptSecret E c v = (Inr s, v))) \<and>
    (fc_encryptionKey (e_fed E) = [] \<longrightarrow>
      (\<exists>e. encryptSecret E s w = (Inl e, w)) \<and> (\<exists>e. decryptSecret E c v = (Inl e, v)))"
proof (intro conjI impI)
  assume "fc_encryptionKey (e_fed E) \<noteq> []"
  then obtain c where c: "fst (encryptSecret E s w) = Inr c" using encryptSecret_total by blast
  then have "encryptSecret E s w = (Inr c, snd (encryptSecret E s w))" by (simp add: prod_eq_iff)
  from encryptSecret_opens [OF assms this] c
  show "\<exists>c. fst (encryptSecret E s w) = Inr c \<and> decryptSecret E c v = (Inr s, v)" by blast
qed (simp_all add: encryptSecret_def decryptSecret_def encryptAesGcm_def decryptAesGcm_def deriveKey_def monad_simps)

definition cryptoEnv :: env where
  "cryptoEnv = sampleEnv\<lparr>e_fed := (e_fed sampleEnv)\<lparr>fc_encryptionKey := ''key''\<rparr>,
     e_randomBytes := (\<lambda>n len. replicate len (n mod 256)),
     e_gcmSeal := (\<lambda>k iv s. (map of_char s, replicate 16 0)),
     e_gcmOpen := (\<lambda>k iv tag ct. Some (map char_of ct))\<rparr>"

lemma cryptoEnv_ok: "cryptoOk cryptoEnv"
proof -
  have "map char_of (map of_char s :: nat list) = s" for s :: string
    by (simp add: map_idI)
  moreover have "byteString (map of_char s)" for s :: string
    by (auto simp: byteString_def list_all_iff)
  ultimately show ?thesis
    by (auto simp: cryptoOk_def cryptoEnv_def byteString_def AUTH_TAG_LENGTH_def list_all_iff)
qed

theorem secrets_read_back_witness:
  "\<exists>c. fst (encryptSecret cryptoEnv ''JBSWY3DPEHPK3PXP'' sampleWorld) = Inr c \<and>
     decryptSecret cryptoEnv c sampleWorld = (Inr ''JBSWY3DPEHPK3PXP'', sampleWorld)"
proof -
  have "fc_encryptionKey (e_fed cryptoEnv) \<noteq> []" by code_simp
  with secrets_read_back [OF cryptoEnv_ok] show ?thesis by blast
qed

end
