(* ===== verification/OAuth.thy ===== *)
theory OAuth
  imports Secrets Auth Guards
begin

text \<open>
  Signing in with Google, GitHub or Microsoft (\<open>modules/oauth\<close>) up to the point where the
  identity provider has answered: constants, redirect targets, PKCE pairs, states, and the
  three provider strategies.  A provider is a value of the enum (\<open>Inr\<close>) or, where the code
  does not rule it out, some other value, of which the text is kept (\<open>Inl\<close>).
\<close>

section \<open>Constants and errors\<close>

definition oauthStateKey :: "string \<Rightarrow> string" where
  "oauthStateKey st = ''oauth:state:'' @ st"

definition OAUTH_STATE_BYTES :: nat where "OAUTH_STATE_BYTES = 32"
definition OAUTH_PKCE_VERIFIER_BYTES :: nat where "OAUTH_PKCE_VERIFIER_BYTES = 32"

definition stateInvalid :: "string \<Rightarrow> nat \<Rightarrow> exn" where
  "stateInvalid msg status = appExn ''OAUTH_STATE_INVALID'' msg status"

definition notConfigured :: "string \<Rightarrow> nat \<Rightarrow> exn" where
  "notConfigured msg status = appExn ''OAUTH_PROVIDER_NOT_CONFIGURED'' msg status"

fun providerName :: "OAuthProvider \<Rightarrow> string" where
  "providerName GOOGLE = ''GOOGLE''"
| "providerName GITHUB = ''GITHUB''"
| "providerName MICROSOFT = ''MICROSOFT''"

section \<open>Redirect targets: \<open>oauth/utils/redirect.util.ts\<close>\<close>

definition isSafeRedirect :: "env \<Rightarrow> string \<Rightarrow> string \<Rightarrow> bool" where
  "isSafeRedirect E target allowedBaseUrl \<longleftrightarrow>
     (if target = [] then False
      else if startsWith target ''/'' \<and> \<not> startsWith target ''//'' then True
      else (case (e_urlOrigin E target, e_urlOrigin E allowedBaseUrl) of
              (Some t, Some b) \<Rightarrow> t = b | _ \<Rightarrow> False))"

definition sanitizeRedirect :: "env \<Rightarrow> string option \<Rightarrow> string \<Rightarrow> string \<Rightarrow> string" where
  "sanitizeRedirect E target allowedBaseUrl fallback =
     (case target of
        Some t \<Rightarrow> (if t \<noteq> [] \<and> isSafeRedirect E t allowedBaseUrl then t else fallback)
      | None \<Rightarrow> fallback)"

section \<open>PKCE: \<open>oauth/utils/pkce.util.ts\<close>\<close>

record PkcePair =
  pk_codeVerifier :: string
  pk_codeChallenge :: string
  pk_codeChallengeMethod :: string

definition generatePkcePair :: "env \<Rightarrow> nat \<Rightarrow> PkcePair act" where
  "generatePkcePair E verifierBytes =
     bindM (randomBytes E verifierBytes) (\<lambda>bytes.
     let codeVerifier = base64Url bytes in
     returnM \<lparr>pk_codeVerifier = codeVerifier, pk_codeChallenge = base64Url (e_sha256 E codeVerifier),
              pk_codeChallengeMethod = ''S256''\<rparr>)"

definition generateState :: "env \<Rightarrow> nat \<Rightarrow> string act" where
  "generateState E n = bindM (randomBytes E n) (\<lambda>bytes. returnM (base64Url bytes))"

section \<open>OAuthStateService\<close>

record CreatedState =
  ct_state :: string
  ct_codeChallenge :: string
  ct_codeChallengeMethod :: string

definition createState ::
  "env \<Rightarrow> OAuthProvider \<Rightarrow> oauth_mode \<Rightarrow> string option \<Rightarrow> string option \<Rightarrow> CreatedState act" where
  "createState E provider mode linkUserId redirectTo =
     bindM (generateState E OAUTH_STATE_BYTES) (\<lambda>st.
     bindM (generatePkcePair E OAUTH_PKCE_VERIFIER_BYTES) (\<lambda>pkce.
     bindM nowM (\<lambda>now.
     thenM (cacheSet (oauthStateKey st)
              (COAuthState \<lparr>os_provider = provider, os_codeVerifier = pk_codeVerifier pkce, os_mode = mode,
                 os_linkUserId = linkUserId, os_redirectTo = redirectTo, os_createdAt = now\<rparr>)
              (fc_oauthStateTtlMs (e_fed E) div 1000))
     (returnM \<lparr>ct_state = st, ct_codeChallenge = pk_codeChallenge pkce,
               ct_codeChallengeMethod = pk_codeChallengeMethod pkce\<rparr>))))"

text \<open>The cast \<open>cache.get<OAuthStateData>\<close>: only \<open>createState\<close> writes under these keys.\<close>

definition asOAuthState :: "cached option \<Rightarrow> OAuthStateData option" where
  "asOAuthState c = (case c of Some (COAuthState d) \<Rightarrow> Some d | _ \<Rightarrow> None)"

definition consumeState :: "string \<Rightarrow> string + OAuthProvider \<Rightarrow> OAuthStateData act" where
  "consumeState st provider =
     thenM (throw_if (st = []) (stateInvalid ''Missing OAuth state'' 400))
     (bindM (cacheGet (oauthStateKey st)) (\<lambda>hit.
      bindM (orThrow (asOAuthState hit) (stateInvalid ''Invalid or expired OAuth state'' 400)) (\<lambda>data.
      thenM (cacheDelete [oauthStateKey st])
      (thenM (throw_if (Inr (os_provider data) \<noteq> provider)
                (stateInvalid ''OAuth state provider mismatch'' 400))
      (returnM data)))))"

section \<open>Requests to the providers\<close>

text \<open>\<open>await fetch(url, init)\<close> and \<open>await response.json()\<close>.\<close>

definition fetchM :: "env \<Rightarrow> FetchRequest \<Rightarrow> FetchResponse act" where
  "fetchM E req = bindM drawM (\<lambda>n. orThrow (e_fetch E n req) (JsError ''fetch failed''))"

definition jsonOf :: "FetchResponse \<Rightarrow> jsval act" where
  "jsonOf r = orThrow (fs_json r) (JsError ''Unexpected token in JSON'')"

text \<open>\<open>v.k\<close> on a value that may be null or undefined, \<open>a ?? b\<close>, and \<open>x.find((e) => e.k)\<close>.\<close>

definition propM :: "env \<Rightarrow> jsval \<Rightarrow> string \<Rightarrow> jsval act" where
  "propM E v k = (if js_nullish v then throwM (JsError ''TypeError'') else returnM (js_get (e_js E) v k))"

definition js_coalesce :: "jsval \<Rightarrow> jsval \<Rightarrow> jsval" where
  "js_coalesce a b = (if js_nullish a then b else a)"

fun findProp :: "env \<Rightarrow> jsval list \<Rightarrow> string \<Rightarrow> jsval act" where
  "findProp E [] k = returnM JUndefined"
| "findProp E (x # xs) k =
     bindM (propM E x k) (\<lambda>v. if js_truthy v then returnM x else findProp E xs k)"

text \<open>\<open>URLSearchParams.toString()\<close>: the form encoding of the URL standard, over UTF-8.\<close>

definition utf8_char :: "char \<Rightarrow> nat list" where
  "utf8_char c = (let n = of_char c in if n < 128 then [n] else [192 + n div 64, 128 + n mod 64])"

definition upper_hex_digit :: "nat \<Rightarrow> char" where
  "upper_hex_digit n = (if n < 10 then char_of (48 + n) else char_of (55 + n))"

definition formPlain :: "nat \<Rightarrow> bool" where
  "formPlain n \<longleftrightarrow> (48 \<le> n \<and> n \<le> 57) \<or> (65 \<le> n \<and> n \<le> 90) \<or> (97 \<le> n \<and> n \<le> 122) \<or> n \<in> {42, 45, 46, 95}"

definition formByte :: "nat \<Rightarrow> string" where
  "formByte n = (if formPlain n then [char_of n] else if n = 32 then ''+''
     else [CHR ''%'', upper_hex_digit (n div 16), upper_hex_digit (n mod 16)])"

definition formText :: "string \<Rightarrow> string" where
  "formText s = concat (map formByte (concat (map utf8_char s)))"

definition formEncode :: "(string \<times> string) list \<Rightarrow> string" where
  "formEncode ps = js_join ''&'' (map (\<lambda>(k, v). formText k @ ''='' @ formText v) ps)"

section \<open>Strategies\<close>

text \<open>
  A strategy object: the fields of \<open>BaseOAuthStrategy\<close> and what its \<open>decorateAuthorizationUrl\<close>
  adds.
\<close>

record OAuthStrategy =
  st_provider :: OAuthProvider
  st_credentials :: OAuthProviderClientConfig
  st_authorizationUrl :: string
  st_tokenUrl :: string
  st_scope :: string
  st_decoration :: "(string \<times> string) list"

definition googleStrategy :: "env \<Rightarrow> OAuthStrategy" where
  "googleStrategy E = \<lparr>st_provider = GOOGLE, st_credentials = fc_google (e_fed E),
     st_authorizationUrl = ''https://accounts.google.com/o/oauth2/v2/auth'',
     st_tokenUrl = ''https://oauth2.googleapis.com/token'', st_scope = ''openid email profile'',
     st_decoration = [(''access_type'', ''offline''), (''prompt'', ''consent'')]\<rparr>"

definition githubStrategy :: "env \<Rightarrow> OAuthStrategy" where
  "githubStrategy E = \<lparr>st_provider = GITHUB, st_credentials = fc_github (e_fed E),
     st_authorizationUrl = ''https://github.com/login/oauth/authorize'',
     st_tokenUrl = ''https://github.com/login/oauth/access_token'', st_scope = ''read:user user:email'',
     st_decoration = []\<rparr>"

definition microsoftStrategy :: "env \<Rightarrow> OAuthStrategy" where
  "microsoftStrategy E =
     (let tenant = (if fc_microsoftTenantId (e_fed E) = [] then ''common'' else fc_microsoftTenantId (e_fed E))
      in \<lparr>st_provider = MICROSOFT, st_credentials = fc_microsoft (e_fed E),
          st_authorizationUrl = ''https://login.microsoftonline.com/'' @ tenant @ ''/oauth2/v2.0/authorize'',
          st_tokenUrl = ''https://login.microsoftonline.com/'' @ tenant @ ''/oauth2/v2.0/token'',
          st_scope = ''openid email profile User.Read offline_access'', st_decoration = []\<rparr>)"

text \<open>\<open>OAuthProviderRegistry.get\<close>.\<close>

definition strategies :: "env \<Rightarrow> (OAuthProvider \<times> OAuthStrategy) list" where
  "strategies E = map (\<lambda>s. (st_provider s, s)) [googleStrategy E, githubStrategy E, microsoftStrategy E]"

definition registryGet :: "env \<Rightarrow> string + OAuthProvider \<Rightarrow> OAuthStrategy act" where
  "registryGet E provider = orThrow
     (case provider of Inl _ \<Rightarrow> None | Inr p \<Rightarrow> map_of (strategies E) p)
     (notConfigured (''Unknown OAuth provider: '' @ (case provider of Inl s \<Rightarrow> s | Inr p \<Rightarrow> providerName p)) 404)"

definition isConfigured :: "OAuthStrategy \<Rightarrow> bool" where
  "isConfigured s \<longleftrightarrow> cc_clientId (st_credentials s) \<noteq> [] \<and> cc_clientSecret (st_credentials s) \<noteq> []"

definition ensureConfigured :: "OAuthStrategy \<Rightarrow> unit act" where
  "ensureConfigured s = throw_if (\<not> isConfigured s)
     (notConfigured (''OAuth provider '' @ providerName (st_provider s) @ '' is not configured'') 503)"

definition authorizationParams :: "OAuthStrategy \<Rightarrow> CreatedState \<Rightarrow> (string \<times> string) list" where
  "authorizationParams s c =
     [(''client_id'', cc_clientId (st_credentials s)),
      (''redirect_uri'', cc_callbackUrl (st_credentials s)),
      (''response_type'', ''code''),
      (''scope'', st_scope s),
      (''state'', ct_state c),
      (''code_challenge'', ct_codeChallenge c),
      (''code_challenge_method'', ct_codeChallengeMethod c)] @ st_decoration s"

definition buildAuthorizationUrl :: "env \<Rightarrow> OAuthStrategy \<Rightarrow> CreatedState \<Rightarrow> string act" where
  "buildAuthorizationUrl E s c =
     thenM (ensureConfigured s)
     (orThrow (e_urlSet E (st_authorizationUrl s) (authorizationParams s c)) (JsError ''Invalid URL''))"

section \<open>Profiles\<close>

text \<open>
  The fields are what the JSON of the provider held, of whatever type; \<open>JNull\<close> for null.
\<close>

record NormalizedOAuthProfile =
  np_provider :: OAuthProvider
  np_providerUserId :: jsval
  np_email :: jsval
  np_emailVerified :: jsval
  np_firstName :: jsval
  np_lastName :: jsval
  np_displayName :: jsval
  np_avatarUrl :: jsval
  np_raw :: jsval

record OAuthTokenSet =
  ts_accessToken :: jsval
  ts_refreshToken :: jsval

text \<open>The pieces between the runs of white space of \<open>s\<close>: \<open>s.split(/\s+/)\<close>.\<close>

function splitSpace :: "string \<Rightarrow> string list" where
  "splitSpace [] = [[]]"
| "splitSpace (c # s) =
     (if js_space c then [] # splitSpace (dropWhile js_space s)
      else (case splitSpace s of [] \<Rightarrow> [[c]] | p # ps \<Rightarrow> (c # p) # ps))"
  by pat_completeness auto
termination
  by (relation "measure length") (auto simp: le_imp_less_Suc length_dropWhile_le)

definition bearerHeader :: "env \<Rightarrow> jsval \<Rightarrow> string \<times> string" where
  "bearerHeader E accessToken = (''Authorization'', ''Bearer '' @ js_String (e_js E) accessToken)"

definition getRequest :: "string \<Rightarrow> (string \<times> string) list \<Rightarrow> FetchRequest" where
  "getRequest url headers = \<lparr>fq_method = ''GET'', fq_url = url, fq_headers = headers, fq_body = None\<rparr>"

definition okOrError :: "FetchResponse \<Rightarrow> string \<Rightarrow> unit act" where
  "okOrError r what = throw_if (\<not> fs_ok r) (JsError (what @ '' request failed: '' @ show_nat (fs_status r)))"

definition googleProfile :: "env \<Rightarrow> jsval \<Rightarrow> NormalizedOAuthProfile act" where
  "googleProfile E accessToken =
     bindM (fetchM E (getRequest ''https://openidconnect.googleapis.com/v1/userinfo''
              [bearerHeader E accessToken])) (\<lambda>response.
     thenM (okOrError response ''Google userinfo'')
     (bindM (jsonOf response) (\<lambda>info.
      bindM (propM E info ''sub'') (\<lambda>sub.
      let get = js_get (e_js E) info in
      returnM \<lparr>np_provider = GOOGLE, np_providerUserId = sub, np_email = js_coalesce (get ''email'') JNull,
        np_emailVerified = JBool (js_truthy (get ''email_verified'')),
        np_firstName = js_coalesce (get ''given_name'') JNull,
        np_lastName = js_coalesce (get ''family_name'') JNull,
        np_displayName = js_coalesce (get ''name'') JNull,
        np_avatarUrl = js_coalesce (get ''picture'') JNull, np_raw = info\<rparr>))))"

definition microsoftProfile :: "env \<Rightarrow> jsval \<Rightarrow> NormalizedOAuthProfile act" where
  "microsoftProfile E accessToken =
     bindM (fetchM E (getRequest ''https://graph.microsoft.com/v1.0/me'' [bearerHeader E accessToken])) (\<lambda>response.
     thenM (okOrError response ''Microsoft Graph'')
     (bindM (jsonOf response) (\<lambda>user.
      bindM (propM E user ''mail'') (\<lambda>mail.
      let get = js_get (e_js E) user;
          email = js_coalesce (js_coalesce mail (get ''userPrincipalName'')) JNull
      in returnM \<lparr>np_provider = MICROSOFT, np_providerUserId = get ''id'', np_email = email,
        np_emailVerified = JBool (js_truthy email),
        np_firstName = js_coalesce (get ''givenName'') JNull,
        np_lastName = js_coalesce (get ''surname'') JNull,
        np_displayName = js_coalesce (get ''displayName'') JNull,
        np_avatarUrl = JNull, np_raw = user\<rparr>))))"

text \<open>The email of the GitHub account: the primary one of the list, else the first verified one.\<close>

definition githubEmail :: "env \<Rightarrow> jsval \<Rightarrow> FetchResponse \<Rightarrow> (jsval \<times> jsval) act" where
  "githubEmail E email emailResponse =
     (if \<not> fs_ok emailResponse then returnM (email, JBool False)
      else bindM (jsonOf emailResponse) (\<lambda>emails.
        case emails of
          JArr xs \<Rightarrow>
            bindM (findProp E xs ''primary'') (\<lambda>first.
            bindM (if js_nullish first then findProp E xs ''verified'' else returnM first) (\<lambda>primary.
            if js_truthy primary then
              returnM (js_get (e_js E) primary ''email'', js_get (e_js E) primary ''verified'')
            else returnM (email, JBool False)))
        | _ \<Rightarrow> throwM (JsError ''emails.find is not a function'')))"

definition githubNames :: "env \<Rightarrow> jsval \<Rightarrow> (jsval \<times> jsval) act" where
  "githubNames E name =
     (case js_coalesce name (JStr []) of
        JStr s \<Rightarrow>
          (let parts = splitSpace (js_trim s);
               firstName = hd parts; rest = tl parts
           in returnM (if firstName = [] then JNull else JStr firstName,
                       if rest = [] then JNull else JStr (js_join '' '' rest)))
      | _ \<Rightarrow> throwM (JsError ''trim is not a function''))"

definition githubProfile :: "env \<Rightarrow> jsval \<Rightarrow> NormalizedOAuthProfile act" where
  "githubProfile E accessToken =
     (let headers = [bearerHeader E accessToken, (''Accept'', ''application/vnd.github+json''),
                     (''User-Agent'', ''enterprise-auth-platform'')] in
      bindM (fetchM E (getRequest ''https://api.github.com/user'' headers)) (\<lambda>userResponse.
      thenM (okOrError userResponse ''GitHub user'')
      (bindM (jsonOf userResponse) (\<lambda>user.
       bindM (propM E user ''email'') (\<lambda>email0.
       bindM (fetchM E (getRequest ''https://api.github.com/user/emails'' headers)) (\<lambda>emailResponse.
       bindM (githubEmail E (js_coalesce email0 JNull) emailResponse) (\<lambda>(email, emailVerified).
       let get = js_get (e_js E) user in
       bindM (githubNames E (get ''name'')) (\<lambda>(firstName, lastName).
       returnM \<lparr>np_provider = GITHUB, np_providerUserId = JStr (js_String (e_js E) (get ''id'')),
         np_email = email, np_emailVerified = emailVerified, np_firstName = firstName, np_lastName = lastName,
         np_displayName = js_coalesce (get ''name'') (get ''login''),
         np_avatarUrl = js_coalesce (get ''avatar_url'') JNull, np_raw = user\<rparr>))))))))"

definition fetchProfile :: "env \<Rightarrow> OAuthStrategy \<Rightarrow> jsval \<Rightarrow> NormalizedOAuthProfile act" where
  "fetchProfile E s accessToken = (case st_provider s of
     GOOGLE \<Rightarrow> googleProfile E accessToken
   | GITHUB \<Rightarrow> githubProfile E accessToken
   | MICROSOFT \<Rightarrow> microsoftProfile E accessToken)"

definition tokenParams :: "OAuthStrategy \<Rightarrow> string \<Rightarrow> string \<Rightarrow> (string \<times> string) list" where
  "tokenParams s code codeVerifier =
     [(''grant_type'', ''authorization_code''), (''code'', code),
      (''redirect_uri'', cc_callbackUrl (st_credentials s)),
      (''client_id'', cc_clientId (st_credentials s)),
      (''client_secret'', cc_clientSecret (st_credentials s)),
      (''code_verifier'', codeVerifier)]"

definition tokenRequest :: "OAuthStrategy \<Rightarrow> string \<Rightarrow> string \<Rightarrow> FetchRequest" where
  "tokenRequest s code codeVerifier =
     \<lparr>fq_method = ''POST'', fq_url = st_tokenUrl s,
      fq_headers = [(''Content-Type'', ''application/x-www-form-urlencoded''), (''Accept'', ''application/json'')],
      fq_body = Some (formEncode (tokenParams s code codeVerifier))\<rparr>"

definition exchangeCode ::
  "env \<Rightarrow> OAuthStrategy \<Rightarrow> string \<Rightarrow> string \<Rightarrow> (OAuthTokenSet \<times> NormalizedOAuthProfile) act" where
  "exchangeCode E s code codeVerifier =
     thenM (ensureConfigured s)
     (bindM (fetchM E (tokenRequest s code codeVerifier)) (\<lambda>response.
      thenM (throw_if (\<not> fs_ok response)
               (stateInvalid ''Failed to exchange OAuth authorization code'' 401))
      (bindM (jsonOf response) (\<lambda>tokenJson.
       bindM (propM E tokenJson ''access_token'') (\<lambda>accessToken.
       let tokens = \<lparr>ts_accessToken = accessToken,
                     ts_refreshToken = js_get (e_js E) tokenJson ''refresh_token''\<rparr> in
       thenM (throw_if (\<not> js_truthy accessToken)
                (stateInvalid ''OAuth provider did not return an access token'' 401))
       (bindM (fetchProfile E s accessToken) (\<lambda>profile.
        returnM (tokens, profile))))))))"

end
