(* ===== verification/OAuthAccounts.thy ===== *)
theory OAuthAccounts
  imports OAuth
begin

text \<open>
  What a provider's answer leads to: \<open>oauth/services/oauth.service.ts\<close> (login, sign-up,
  linking), \<open>oauth/services/oauth-flow.service.ts\<close> and \<open>oauth/controllers/oauth.controller.ts\<close>.
\<close>

section \<open>Values of the profile as arguments of Prisma\<close>

text \<open>Prisma refuses a value of another type than the column's; undefined is an absent argument.\<close>

definition textArg :: "jsval \<Rightarrow> string act" where
  "textArg v = (case v of JStr s \<Rightarrow> returnM s | _ \<Rightarrow> throwM PrismaValidationError)"

definition optTextArg :: "jsval \<Rightarrow> (string option) act" where
  "optTextArg v = (case v of JStr s \<Rightarrow> returnM (Some s) | JNull \<Rightarrow> returnM None | JUndefined \<Rightarrow> returnM None
     | _ \<Rightarrow> throwM PrismaValidationError)"

definition boolArg :: "jsval \<Rightarrow> bool \<Rightarrow> bool act" where
  "boolArg v dflt = (case v of JBool b \<Rightarrow> returnM b | JUndefined \<Rightarrow> returnM dflt
     | _ \<Rightarrow> throwM PrismaValidationError)"

section \<open>OAuthService\<close>

record OAuthLoginResult =
  ol_user :: SafeUser
  ol_tokens :: TokenPair
  ol_sessionId :: string
  ol_isNewUser :: bool

definition encryptToken :: "env \<Rightarrow> jsval \<Rightarrow> (string option) act" where
  "encryptToken E token =
     (if \<not> js_truthy token then returnM None
      else (case token of
              JStr s \<Rightarrow> bindM (encryptSecret E s) (\<lambda>c. returnM (Some c))
            | _ \<Rightarrow> bindM (deriveKey E (fc_encryptionKey (e_fed E))) (\<lambda>_.
                   bindM (randomBytes E IV_LENGTH) (\<lambda>_.
                   throwM (JsError ''The data argument must be of type string'')))))"

definition buildMetadata :: "NormalizedOAuthProfile \<Rightarrow> jsval" where
  "buildMetadata profile = JObj [(''displayName'', np_displayName profile),
     (''avatarUrl'', np_avatarUrl profile), (''emailVerified'', np_emailVerified profile)]"

definition providerKey :: "OAuthProvider \<Rightarrow> string \<Rightarrow> OAuthAccount \<Rightarrow> bool" where
  "providerKey p pid a \<longleftrightarrow> oa_provider a = p \<and> oa_providerUserId a = pid"

definition userKey :: "string \<Rightarrow> OAuthProvider \<Rightarrow> OAuthAccount \<Rightarrow> bool" where
  "userKey uid p a \<longleftrightarrow> oa_userId a = uid \<and> oa_provider a = p"

definition createLinkedAccount ::
  "env \<Rightarrow> string \<Rightarrow> NormalizedOAuthProfile \<Rightarrow> OAuthTokenSet \<Rightarrow> unit act" where
  "createLinkedAccount E uid profile tokens =
     bindM (encryptToken E (ts_accessToken tokens)) (\<lambda>access.
     bindM (encryptToken E (ts_refreshToken tokens)) (\<lambda>refresh.
     bindM (textArg (np_providerUserId profile)) (\<lambda>pid.
     bindM (optTextArg (np_email profile)) (\<lambda>email.
     bindM (newId E) (\<lambda>aid.
     bindM nowM (\<lambda>now.
     bindM (getsM (\<lambda>w. \<exists>a \<in> set (oauthAccounts (w_db w)). providerKey (np_provider profile) pid a)) (\<lambda>taken.
     thenM (dbCreate oauthAccountsT
              (if taken then [''provider'', ''providerUserId''] else [''userId'', ''provider''])
              (\<lambda>a. oa_id a = aid \<or> providerKey (np_provider profile) pid a \<or> userKey uid (np_provider profile) a)
              (\<lambda>d. \<exists>u \<in> set (users d). u_id u = uid)
              \<lparr>oa_id = aid, oa_userId = uid, oa_provider = np_provider profile, oa_providerUserId = pid,
               oa_email = email, oa_accessTokenEncrypted = access, oa_refreshTokenEncrypted = refresh,
               oa_metadata = buildMetadata profile, oa_createdAt = now\<rparr>)
     (returnM ()))))))))"

definition persistTokens ::
  "env \<Rightarrow> string \<Rightarrow> OAuthTokenSet \<Rightarrow> NormalizedOAuthProfile \<Rightarrow> unit act" where
  "persistTokens E accountId tokens profile =
     bindM (encryptToken E (ts_accessToken tokens)) (\<lambda>access.
     bindM (encryptToken E (ts_refreshToken tokens)) (\<lambda>refresh.
     bindM (optTextArg (np_email profile)) (\<lambda>email.
     thenM (dbUpdate oauthAccountsT (\<lambda>a. oa_id a = accountId)
              (\<lambda>a. a\<lparr>oa_email := (if np_email profile = JUndefined then oa_email a else email),
                     oa_accessTokenEncrypted := access, oa_refreshTokenEncrypted := refresh,
                     oa_metadata := buildMetadata profile\<rparr>))
     (returnM ()))))"

definition createUserFromProfile :: "env \<Rightarrow> NormalizedOAuthProfile \<Rightarrow> string \<Rightarrow> User act" where
  "createUserFromProfile E profile email =
     bindM (generateSecureToken E 24) (\<lambda>hex.
     bindM (hashPassword E (''!oauth:'' @ hex)) (\<lambda>passwordHash.
     bindM (optTextArg (np_firstName profile)) (\<lambda>firstName.
     bindM (optTextArg (np_lastName profile)) (\<lambda>lastName.
     bindM (boolArg (np_emailVerified profile) False) (\<lambda>emailVerified.
     bindM (newId E) (\<lambda>uid.
     bindM nowM (\<lambda>now.
     dbCreate usersT [''email''] (\<lambda>u. u_id u = uid \<or> u_email u = email) (\<lambda>_. True)
       \<lparr>u_id = uid, u_email = email, u_passwordHash = passwordHash,
        u_firstName = firstName, u_lastName = lastName, u_status = UserActive,
        u_isEmailVerified = emailVerified, u_tokenVersion = 0, u_failedLoginAttempts = 0,
        u_lockUntil = None, u_lastLoginAt = None, u_createdAt = now, u_deletedAt = None\<rparr>)))))))"

definition profileIncomplete :: exn where
  "profileIncomplete = appExn ''OAUTH_PROFILE_INCOMPLETE'' ''OAuth provider did not return an email address'' 400"

text \<open>The user a profile stands for: linked, merged by email, or created.\<close>

definition resolveUser ::
  "env \<Rightarrow> NormalizedOAuthProfile \<Rightarrow> OAuthTokenSet \<Rightarrow> string \<Rightarrow> (User \<times> bool) act" where
  "resolveUser E profile tokens email =
     bindM (textArg (np_providerUserId profile)) (\<lambda>pid.
     bindM (dbFind oauthAccountsT (providerKey (np_provider profile) pid)) (\<lambda>existingAccount.
     case existingAccount of
       Some account \<Rightarrow>
         bindM (dbFind usersT (\<lambda>u. u_id u = oa_userId account)) (\<lambda>urow.
         bindM (orThrow urow (JsError ''missing user'')) (\<lambda>user.
         thenM (persistTokens E (oa_id account) tokens profile)
         (returnM (user, False))))
     | None \<Rightarrow>
         bindM (dbFind usersT (\<lambda>u. u_email u = email)) (\<lambda>existingUser.
         case existingUser of
           Some user \<Rightarrow>
             thenM (createLinkedAccount E (u_id user) profile tokens) (returnM (user, False))
         | None \<Rightarrow>
             bindM (createUserFromProfile E profile email) (\<lambda>user.
             thenM (createLinkedAccount E (u_id user) profile tokens) (returnM (user, True))))))"

definition openOAuthSession ::
  "env \<Rightarrow> OAuthProvider \<Rightarrow> User \<Rightarrow> bool \<Rightarrow> LoginMetadata \<Rightarrow> OAuthLoginResult act" where
  "openOAuthSession E provider user isNewUser meta =
     bindM (transaction
       (bindM nowM (\<lambda>now.
        thenM (dbUpdate usersT (\<lambda>u. u_id u = u_id user)
                 (\<lambda>u. u\<lparr>u_lastLoginAt := Some now, u_failedLoginAttempts := 0, u_lockUntil := None\<rparr>))
        (createSession E (u_id user) meta)))) (\<lambda>created.
     bindM (resolveDefault (u_id user)) (\<lambda>orgCtx.
     bindM (signAccessToken E (buildAccessPayload user (s_id (cs_session created)) orgCtx)) (\<lambda>accessToken.
     thenM (auditRecord E OAUTH_LOGIN_SUCCESS AR_OAUTH_ACCOUNT
              (auditOk (Some (u_id user)) (Some (u_id user)) (Some (u_email user))
                 [(''provider'', JStr (providerName provider)), (''isNewUser'', JBool isNewUser)]))
     (bindM nowM (\<lambda>now.
      returnM
        \<lparr>ol_user = stripSecrets user,
         ol_tokens = \<lparr>tp_accessToken = accessToken, tp_refreshToken = cs_refreshToken created,
           tp_accessTokenExpiresAt = now + 15 * 60 * 1000,
           tp_refreshTokenExpiresAt = cs_refreshTokenExpiresAt created\<rparr>,
         ol_sessionId = s_id (cs_session created), ol_isNewUser = isNewUser\<rparr>)))))"

definition loginOrSignup ::
  "env \<Rightarrow> NormalizedOAuthProfile \<Rightarrow> OAuthTokenSet \<Rightarrow> LoginMetadata \<Rightarrow> OAuthLoginResult act" where
  "loginOrSignup E profile tokens meta =
     thenM (throw_if (\<not> js_truthy (np_email profile)) profileIncomplete)
     (case np_email profile of
        JStr rawEmail \<Rightarrow>
          bindM (resolveUser E profile tokens (normalizeEmail rawEmail)) (\<lambda>(user, isNewUser).
          thenM (whenM (u_deletedAt user \<noteq> None \<or> u_status user = UserSuspended \<or> u_status user = UserInactive)
            (thenM (auditRecord E OAUTH_LOGIN_FAILURE AR_OAUTH_ACCOUNT
                      (auditFail (Some (u_id user)) (Some (u_id user)) (Some (u_email user))
                         [(''provider'', JStr (providerName (np_provider profile))),
                          (''reason'', JStr ''account_inactive'')]))
             (throwM accountInactive)))
          (openOAuthSession E (np_provider profile) user isNewUser meta))
      | _ \<Rightarrow> throwM (JsError ''trim is not a function''))"

definition alreadyLinked :: "string \<Rightarrow> exn" where
  "alreadyLinked msg = appExn ''OAUTH_ACCOUNT_ALREADY_LINKED'' msg 409"

definition linkAccount ::
  "env \<Rightarrow> string \<Rightarrow> NormalizedOAuthProfile \<Rightarrow> OAuthTokenSet \<Rightarrow> unit act" where
  "linkAccount E uid profile tokens =
     bindM (dbFind usersT (\<lambda>u. u_id u = uid)) (\<lambda>urow.
     bindM (orThrow urow (NotFoundAppException ''User not found'')) (\<lambda>user.
     bindM (textArg (np_providerUserId profile)) (\<lambda>pid.
     bindM (dbFind oauthAccountsT (providerKey (np_provider profile) pid)) (\<lambda>existing.
     thenM (throw_if (\<exists>a \<in> set_option existing. oa_userId a \<noteq> uid)
              (alreadyLinked ''This provider account is already linked to another user''))
     (bindM (dbFind oauthAccountsT (userKey uid (np_provider profile))) (\<lambda>same.
      thenM (throw_if (same \<noteq> None)
               (alreadyLinked (''A '' @ providerName (np_provider profile) @ '' account is already linked'')))
      (thenM (createLinkedAccount E uid profile tokens)
      (auditRecord E OAUTH_ACCOUNT_LINKED AR_OAUTH_ACCOUNT
         (auditOk (Some uid) (Some uid) (Some (u_email user))
            [(''provider'', JStr (providerName (np_provider profile)))])))))))))"

definition lastAuthMethod :: exn where
  "lastAuthMethod =
     appExn ''OAUTH_LAST_AUTH_METHOD'' ''Cannot unlink the last remaining authentication method'' 400"

definition ensureNotLastAuthMethod :: "string \<Rightarrow> OAuthProvider \<Rightarrow> unit act" where
  "ensureNotLastAuthMethod uid provider =
     bindM (dbFind usersT (\<lambda>u. u_id u = uid)) (\<lambda>urow.
     bindM (orThrow urow (PrismaKnownError ''P2025'' NoTarget)) (\<lambda>user.
     let hasUsablePassword = (u_passwordHash user \<noteq> [] \<and> \<not> startsWith (u_passwordHash user) ''!oauth:'') in
     bindM (dbCount oauthAccountsT (\<lambda>a. oa_userId a = uid \<and> oa_provider a \<noteq> provider)) (\<lambda>otherProviders.
     throw_if (\<not> hasUsablePassword \<and> otherProviders = 0) lastAuthMethod)))"

definition unlinkAccount :: "env \<Rightarrow> string \<Rightarrow> string + OAuthProvider \<Rightarrow> unit act" where
  "unlinkAccount E uid provider =
     (case provider of
        Inl _ \<Rightarrow> throwM PrismaValidationError
      | Inr p \<Rightarrow>
          bindM (dbFind oauthAccountsT (userKey uid p)) (\<lambda>row.
          bindM (orThrow row (NotFoundAppException ''Linked account not found'')) (\<lambda>account.
          thenM (ensureNotLastAuthMethod uid p)
          (thenM (dbDelete oauthAccountsT (\<lambda>a. oa_id a = oa_id account))
          (auditRecord E OAUTH_ACCOUNT_UNLINKED AR_OAUTH_ACCOUNT
             (auditOk (Some uid) (Some uid) None [(''provider'', JStr (providerName p))]))))))"

record OAuthAccountDto =
  ad_provider :: OAuthProvider
  ad_email :: "string option"
  ad_linkedAt :: int

definition listAccounts :: "string \<Rightarrow> (OAuthAccountDto list) act" where
  "listAccounts uid =
     bindM (dbFindMany oauthAccountsT (\<lambda>a. oa_userId a = uid)) (\<lambda>accounts.
     returnM (map (\<lambda>a. \<lparr>ad_provider = oa_provider a, ad_email = oa_email a, ad_linkedAt = oa_createdAt a\<rparr>)
       (sort_key oa_createdAt accounts)))"

section \<open>OAuthFlowService\<close>

text \<open>Both begin methods look up the strategy before a state is created.\<close>

definition beginLogin :: "env \<Rightarrow> string + OAuthProvider \<Rightarrow> string option \<Rightarrow> string act" where
  "beginLogin E provider redirectTo =
     bindM (registryGet E provider) (\<lambda>s.
     bindM (createState E (st_provider s) LoginMode None redirectTo) (\<lambda>c.
     buildAuthorizationUrl E s c))"

definition beginLink :: "env \<Rightarrow> string + OAuthProvider \<Rightarrow> string \<Rightarrow> string option \<Rightarrow> string act" where
  "beginLink E provider uid redirectTo =
     bindM (registryGet E provider) (\<lambda>s.
     bindM (createState E (st_provider s) LinkMode (Some uid) redirectTo) (\<lambda>c.
     buildAuthorizationUrl E s c))"

record CallbackOutcome =
  cb_result :: "OAuthLoginResult option"
  cb_mode :: oauth_mode
  cb_redirectTo :: "string option"

definition handleCallback ::
  "env \<Rightarrow> string + OAuthProvider \<Rightarrow> string \<Rightarrow> string \<Rightarrow> LoginMetadata \<Rightarrow> CallbackOutcome act" where
  "handleCallback E provider code st meta =
     bindM (consumeState st provider) (\<lambda>stateData.
     bindM (registryGet E provider) (\<lambda>strategy.
     bindM (exchangeCode E strategy code (os_codeVerifier stateData)) (\<lambda>(tokens, profile).
     if os_mode stateData = LinkMode \<and> truthy_str (os_linkUserId stateData) then
       thenM (linkAccount E (orDefault (os_linkUserId stateData) []) profile tokens)
       (returnM \<lparr>cb_result = None, cb_mode = LinkMode, cb_redirectTo = os_redirectTo stateData\<rparr>)
     else
       bindM (loginOrSignup E profile tokens meta) (\<lambda>result.
       returnM \<lparr>cb_result = Some result, cb_mode = LoginMode, cb_redirectTo = os_redirectTo stateData\<rparr>))))"

section \<open>OAuthController\<close>

definition PROVIDER_SLUGS :: "(string \<times> OAuthProvider) list" where
  "PROVIDER_SLUGS = [(''google'', GOOGLE), (''github'', GITHUB), (''microsoft'', MICROSOFT)]"

text \<open>
  \<open>PROVIDER_SLUGS[slug.toLowerCase()]\<close>, which also finds the members every object inherits.
\<close>

definition resolveProvider :: "env \<Rightarrow> string \<Rightarrow> (string + OAuthProvider) act" where
  "resolveProvider E slug =
     orThrow (case map_of PROVIDER_SLUGS (toLowerCase slug) of
         Some p \<Rightarrow> Some (Inr p)
       | None \<Rightarrow> map_option Inl (js_inherited (e_js E) (JObj []) (toLowerCase slug)))
       (notConfigured (''Unsupported OAuth provider: '' @ slug) 404)"

text \<open>What the controller sends: a redirection, or the tokens as JSON.\<close>

record OAuthLoginResultDto =
  od_accessToken :: string
  od_refreshToken :: string
  od_sessionId :: string
  od_isNewUser :: bool

datatype oauth_reply = RedirectTo string | LoginReply OAuthLoginResultDto

definition oauthAccountsOf :: "AuthenticatedUser \<Rightarrow> (OAuthAccountDto list) act" where
  "oauthAccountsOf user = listAccounts (au_id user)"

definition oauthLink :: "env \<Rightarrow> AuthenticatedUser \<Rightarrow> string \<Rightarrow> string option \<Rightarrow> string act" where
  "oauthLink E user slug redirectTo =
     bindM (resolveProvider E slug) (\<lambda>provider. beginLink E provider (au_id user) redirectTo)"

definition oauthUnlink :: "env \<Rightarrow> AuthenticatedUser \<Rightarrow> string \<Rightarrow> unit act" where
  "oauthUnlink E user slug =
     bindM (resolveProvider E slug) (\<lambda>provider. unlinkAccount E (au_id user) provider)"

definition oauthStartLogin :: "env \<Rightarrow> string \<Rightarrow> string option \<Rightarrow> oauth_reply act" where
  "oauthStartLogin E slug redirectTo =
     bindM (resolveProvider E slug) (\<lambda>provider.
     bindM (beginLogin E provider redirectTo) (\<lambda>url. returnM (RedirectTo url)))"

text \<open>The reply to a callback whose flow has succeeded.\<close>

definition callbackReply :: "env \<Rightarrow> string + OAuthProvider \<Rightarrow> CallbackOutcome \<Rightarrow> oauth_reply act" where
  "callbackReply E provider outcome =
     (let base = fc_baseUrl (e_fed E);
          target = sanitizeRedirect E (cb_redirectTo outcome) base (base @ ''/auth/oauth/complete'')
      in if cb_mode outcome = LinkMode then
           returnM (RedirectTo (target @ ''?linked='' @
             toLowerCase (case provider of Inl s \<Rightarrow> s | Inr p \<Rightarrow> providerName p)))
         else
           bindM (orThrow (cb_result outcome) (stateInvalid ''OAuth login failed'' 401)) (\<lambda>result.
           if truthy_str (cb_redirectTo outcome) then
             bindM (orThrow (e_urlSet E target
                 [(''accessToken'', tp_accessToken (ol_tokens result)),
                  (''refreshToken'', tp_refreshToken (ol_tokens result))])
               (JsError ''Invalid URL'')) (\<lambda>url. returnM (RedirectTo url))
           else returnM (LoginReply
             \<lparr>od_accessToken = tp_accessToken (ol_tokens result),
              od_refreshToken = tp_refreshToken (ol_tokens result),
              od_sessionId = ol_sessionId result, od_isNewUser = ol_isNewUser result\<rparr>)))"

definition oauthCallback ::
  "env \<Rightarrow> string \<Rightarrow> HttpRequest \<Rightarrow> string option \<Rightarrow> string option \<Rightarrow> string option \<Rightarrow> oauth_reply act" where
  "oauthCallback E slug req code st error =
     bindM (resolveProvider E slug) (\<lambda>provider.
     thenM (throw_if (truthy_str error \<or> \<not> truthy_str code \<or> \<not> truthy_str st)
              (stateInvalid (if truthy_str error then ''OAuth provider error: '' @ orDefault error []
                             else ''Missing code or state'') 400))
     (bindM (handleCallback E provider (orDefault code []) (orDefault st [])
              \<lparr>lm_ipAddress = extractClientIp req, lm_userAgent = extractUserAgent req, lm_deviceName = None\<rparr>)
        (\<lambda>outcome. callbackReply E provider outcome)))"

end
