(* ===== verification/CacheSteps.thy ===== *)
theory CacheSteps
  imports AuthLaws Secrets
begin

text \<open>
  Runs of methods as seen by the cache: a relation that takes every step which leaves a set
  of watched keys alone and does not take random draws back.  It is the counterpart of
  \<open>observed_steps\<close> for values that live in Redis (OAuth and relay states, replay marks).
\<close>

locale cache_steps =
  fixes R :: "world \<Rightarrow> world \<Rightarrow> bool"
    and watched :: "string \<Rightarrow> bool"
  assumes quiet: "(\<And>k. watched k \<Longrightarrow> w_cache w' k = w_cache w k) \<Longrightarrow> w_draws w \<le> w_draws w' \<Longrightarrow>
    w_redisUp w' = w_redisUp w \<Longrightarrow> w_now w' = w_now w \<Longrightarrow> R w w'"
begin

lemma walks_quiet:
  "(\<And>w k. watched k \<Longrightarrow> w_cache (snd (m w)) k = w_cache w k) \<Longrightarrow> (\<And>w. w_draws w \<le> w_draws (snd (m w))) \<Longrightarrow>
   (\<And>w. w_redisUp (snd (m w)) = w_redisUp w) \<Longrightarrow> (\<And>w. w_now (snd (m w)) = w_now w) \<Longrightarrow> walks R m"
  by (rule walks_step) (rule quiet)

lemma walks_cache_infra [walks_intros]:
  "walks R drawM" "walks R (newId E)" "walks R (randomBytes E n)" "walks R (generateSecureToken E n)"
  "walks R (enqueue j)" "walks R (auditRecord E a r opts)" "walks R (hashPassword E p)"
  by (rule walks_quiet; simp add: monad_simps enqueue_run)+

lemma walks_cache_tables [walks_intros]:
  "walks R (dbUpdate t p f)" "walks R (dbUpdateMany t' p' f')" "walks R (dbCreate t1 cols c par row)"
  "walks R (dbDelete t2 p2)" "walks R (dbDeleteMany t3 p3)"
  by (rule walks_quiet; simp add: monad_simps split: option.split)+

lemma walks_cacheSet [walks_intros]: "\<not> watched k \<Longrightarrow> walks R (cacheSet k v ttl)"
  by (rule walks_quiet) (auto simp: cacheSet_run)

lemma walks_cacheDelete: "\<not> watched k \<Longrightarrow> walks R (cacheDelete [k])"
  by (rule walks_quiet) (auto simp: cacheDelete_run)

lemma walks_cache_transaction [walks_intros]:
  assumes "walks R m"
  shows "walks R (transaction m)"
proof (rule walksI)
  fix w
  show "R\<^sup>*\<^sup>* w (snd (transaction m w))"
  proof (cases "m w")
    case (Pair r w')
    then have "R\<^sup>*\<^sup>* w w'" by (rule walksE [OF assms])
    then show ?thesis
      using quiet [of "w'\<lparr>w_db := w_db w\<rparr>" w'] by (cases r) (auto simp: transaction_run Pair)
  qed
qed

text \<open>A session is stored under a key of its own.\<close>

lemma walks_cache_createSession:
  "(\<And>sid. \<not> watched (sessionKey sid)) \<Longrightarrow> walks R (createSession E uid meta)"
  unfolding createSession_def issueRefreshToken_def by (intro walks_intros)

lemma walks_secrets [walks_intros]:
  "walks R (deriveKey E key)" "walks R (encryptSecret E s)" "walks R (decryptSecret E c)"
  unfolding encryptSecret_def decryptSecret_def encryptAesGcm_def decryptAesGcm_def deriveKey_def Let_def
  by (intro walks_intros)+

end

end
