(* ===== verification/OAuthLaws.thy ===== *)
theory OAuthLaws
  imports OAuthAccounts CacheSteps
begin

text \<open>
  What the OAuth flow guarantees: a state works once, the PKCE verifier sent to the provider
  is the one the challenge was made of, redirects stay on the site.
\<close>

section \<open>The flow as a run of cache steps\<close>

lemma walks_json_case [walks_intros]:
  "(\<And>s. walks R (f s)) \<Longrightarrow> walks R m \<Longrightarrow> walks R (case v of JStr s \<Rightarrow> f s | _ \<Rightarrow> m)"
  "(\<And>xs. walks R (g xs)) \<Longrightarrow> walks R m \<Longrightarrow> walks R (case v of JArr xs \<Rightarrow> g xs | _ \<Rightarrow> m)"
  by (simp_all split: jsval.split)

lemma walks_sum_case [walks_intros]:
  "(\<And>a. walks R (f a)) \<Longrightarrow> (\<And>b. walks R (g b)) \<Longrightarrow> walks R (case x of Inl a \<Rightarrow> f a | Inr b \<Rightarrow> g b)"
  by (simp split: sum.split)

lemma args_walk [walks_intros]:
  "walks R (textArg v)" "walks R (optTextArg v)" "walks R (boolArg v b)"
  unfolding textArg_def optTextArg_def boolArg_def
  by (cases v; simp add: walks_intros)+

text \<open>
  Whatever keys are watched, as long as no session is stored under one of them: the flow touches
  them only where it creates or consumes a state.
\<close>

locale oauth_cache_steps = cache_steps R watched
  for R :: "world \<Rightarrow> world \<Rightarrow> bool" and watched :: "string \<Rightarrow> bool" +
  assumes sessions_unwatched: "\<not> watched (sessionKey sid)"
begin

lemma fetch_walks [walks_intros]:
  "walks R (fetchM E r)" "walks R (jsonOf s)" "walks R (propM E v k)"
  "walks R (findProp E xs k)"
proof -
  show "walks R (fetchM E r)" unfolding fetchM_def by (intro walks_intros)
  show "walks R (jsonOf s)" unfolding jsonOf_def by (intro walks_intros)
  show props: "walks R (propM E v k)" for v unfolding propM_def by (intro walks_intros)
  show "walks R (findProp E xs k)"
    by (induction xs) (unfold findProp.simps, (rule walks_intros props | assumption)+)
qed

lemma profile_walks [walks_intros]: "walks R (fetchProfile E s tok)"
  unfolding fetchProfile_def googleProfile_def microsoftProfile_def githubProfile_def githubEmail_def
    githubNames_def okOrError_def Let_def
  by (cases "st_provider s"; simp only: OAuthProvider.case; (intro walks_intros)+)

lemma encryptToken_walks [walks_intros]: "walks R (encryptToken E v)"
  unfolding encryptToken_def by (intro walks_intros)

lemma account_walks [walks_intros]:
  "walks R (createLinkedAccount E uid profile tokens)"
  "walks R (persistTokens E aid tokens profile)"
  "walks R (createUserFromProfile E profile email)"
  unfolding createLinkedAccount_def persistTokens_def createUserFromProfile_def
  by (intro walks_intros)+

lemma loginOrSignup_walks [walks_intros]: "walks R (loginOrSignup E profile tokens meta)"
  unfolding loginOrSignup_def resolveUser_def openOAuthSession_def signAccessToken_def
  by (intro walks_intros walks_cache_createSession sessions_unwatched)

lemma flow_walks:
  "(\<And>q mode uid rd. walks R (createState E q mode uid rd)) \<Longrightarrow> walks R (beginLogin E p redir)"
  "(\<And>q mode uid rd. walks R (createState E q mode uid rd)) \<Longrightarrow> walks R (beginLink E p uid redir)"
  "walks R (consumeState st p) \<Longrightarrow> walks R (handleCallback E p code st meta)"
  unfolding beginLogin_def beginLink_def handleCallback_def registryGet_def buildAuthorizationUrl_def
    ensureConfigured_def exchangeCode_def linkAccount_def Let_def
  by (intro walks_intros | assumption)+

end

section \<open>States\<close>

text \<open>The state made of the \<open>n\<close>-th draw; the random source is meant not to repeat one.\<close>

definition stateText :: "env \<Rightarrow> nat \<Rightarrow> string" where
  "stateText E n = base64Url (e_randomBytes E n OAUTH_STATE_BYTES)"

definition freshStates :: "env \<Rightarrow> nat \<Rightarrow> bool" where
  "freshStates E n \<longleftrightarrow> inj_on (stateText E) {..<n}"

lemma freshStates_le: "freshStates E n \<Longrightarrow> m \<le> n \<Longrightarrow> freshStates E m"
  by (auto simp: freshStates_def intro: inj_on_subset)

definition isStateKey :: "string \<Rightarrow> bool" where
  "isStateKey k \<longleftrightarrow> (\<exists>st. k = oauthStateKey st)"

lemma oauthStateKey_inj [simp]: "oauthStateKey a = oauthStateKey b \<longleftrightarrow> a = b"
  by (simp add: oauthStateKey_def)

lemma sessionKey_no_state [simp]: "\<not> isStateKey (sessionKey sid)" "oauthStateKey st \<noteq> sessionKey sid"
  by (auto simp: isStateKey_def sessionKey_def oauthStateKey_def)

inductive stateMove :: "env \<Rightarrow> world \<Rightarrow> world \<Rightarrow> bool" for E where
  kept: "(\<And>st. w_cache w' (oauthStateKey st) = w_cache w (oauthStateKey st) \<or> w_cache w' (oauthStateKey st) = None) \<Longrightarrow>
    w_draws w \<le> w_draws w' \<Longrightarrow> stateMove E w w'"
| created: "(\<And>st. st \<noteq> stateText E (w_draws w) \<Longrightarrow> w_cache w' (oauthStateKey st) = w_cache w (oauthStateKey st)) \<Longrightarrow>
    w_draws w < w_draws w' \<Longrightarrow> stateMove E w w'"

interpretation stateSteps: oauth_cache_steps "stateMove E" isStateKey for E :: env
  by unfold_locales (auto intro!: stateMove.kept simp: isStateKey_def sessionKey_def oauthStateKey_def)

definition statesDrawn :: "env \<Rightarrow> world \<Rightarrow> bool" where
  "statesDrawn E w \<longleftrightarrow> (\<forall>st. w_cache w (oauthStateKey st) \<noteq> None \<longrightarrow> (\<exists>n < w_draws w. st = stateText E n))"

definition stateSpent :: "env \<Rightarrow> string \<Rightarrow> world \<Rightarrow> bool" where
  "stateSpent E st w \<longleftrightarrow> w_cache w (oauthStateKey st) = None \<and> (\<exists>n < w_draws w. st = stateText E n)"

lemma stateMove_drawn: "stateMove E w w' \<Longrightarrow> statesDrawn E w \<Longrightarrow> statesDrawn E w'"
proof (induction rule: stateMove.induct)
  case (kept w' w)
  then show ?case unfolding statesDrawn_def by (metis less_le_trans)
next
  case (created w w')
  show ?case
    unfolding statesDrawn_def
  proof (intro allI impI)
    fix st assume some: "w_cache w' (oauthStateKey st) \<noteq> None"
    show "\<exists>n < w_draws w'. st = stateText E n"
    proof (cases "st = stateText E (w_draws w)")
      case False
      with some created show ?thesis unfolding statesDrawn_def by (metis less_trans)
    qed (use created in blast)
  qed
qed

lemma stateMove_draws: "stateMove E w w' \<Longrightarrow> w_draws w \<le> w_draws w'"
  by (induction rule: stateMove.induct) simp_all

lemma stateMove_spent:
  assumes "stateMove E w w'" and "freshStates E (w_draws w')" and "stateSpent E st w"
  shows "stateSpent E st w'"
  using assms
proof (induction rule: stateMove.induct)
  case (kept w' w)
  then show ?case unfolding stateSpent_def by (metis less_le_trans)
next
  case (created w w')
  then obtain n where n: "n < w_draws w" "st = stateText E n" by (auto simp: stateSpent_def)
  with created have "st \<noteq> stateText E (w_draws w)"
    by (auto simp: freshStates_def dest: inj_onD)
  with created n show ?case unfolding stateSpent_def by (metis less_trans)
qed

lemma stateMoves_draws: "(stateMove E)\<^sup>*\<^sup>* w w' \<Longrightarrow> w_draws w \<le> w_draws w'"
  by (induction rule: rtranclp_induct) (auto dest: stateMove_draws)

lemma stateMoves_spent:
  "(stateMove E)\<^sup>*\<^sup>* w w' \<Longrightarrow> freshStates E (w_draws w') \<Longrightarrow> stateSpent E st w \<Longrightarrow> stateSpent E st w'"
proof (induction rule: rtranclp_induct)
  case (step w1 w2)
  then show ?case using stateMove_spent stateMove_draws freshStates_le by blast
qed

section \<open>What the flow does to the states\<close>

lemma createState_walks [walks_intros]: "walks (stateMove E) (createState E p mode uid redir)"
  by (rule walks_step, rule stateMove.created)
    (auto simp: createState_def generateState_def generatePkcePair_def monad_simps Let_def stateText_def)

lemma consumeState_walks [walks_intros]: "walks (stateMove E) (consumeState st p)"
proof -
  have "walks (stateMove E) (cacheDelete [oauthStateKey st])"
    by (rule walks_step, rule stateMove.kept) (auto simp: cacheDelete_run)
  then show ?thesis unfolding consumeState_def by (intro walks_intros)
qed

lemma state_flow_walks:
  "walks (stateMove E) (beginLogin E p redir)" "walks (stateMove E) (beginLink E p uid redir)"
  "walks (stateMove E) (handleCallback E p code st meta)"
  by (intro stateSteps.flow_walks walks_intros)+

text \<open>
  One request to the OAuth module, or anything that creates no states, lets time pass or cache
  entries expire.
\<close>

inductive oauth_step :: "env \<Rightarrow> world \<Rightarrow> world \<Rightarrow> bool" for E where
  login: "oauth_step E w (snd (beginLogin E p redir w))"
| link: "oauth_step E w (snd (beginLink E p uid redir w))"
| callback: "oauth_step E w (snd (handleCallback E p code st meta w))"
| other: "(\<And>st. w_cache w' (oauthStateKey st) = w_cache w (oauthStateKey st) \<or> w_cache w' (oauthStateKey st) = None) \<Longrightarrow>
    w_draws w \<le> w_draws w' \<Longrightarrow> oauth_step E w w'"

lemma oauth_step_moves: "oauth_step E w w' \<Longrightarrow> (stateMove E)\<^sup>*\<^sup>* w w'"
proof (induction rule: oauth_step.induct)
  case (other w' w)
  then show ?case by (intro r_into_rtranclp stateMove.kept)
qed (auto intro: walksD state_flow_walks)

lemma oauth_step_keeps:
  "oauth_step E w w' \<Longrightarrow> w_draws w \<le> w_draws w'"
  "oauth_step E w w' \<Longrightarrow> statesDrawn E w \<Longrightarrow> statesDrawn E w'"
  "oauth_step E w w' \<Longrightarrow> freshStates E (w_draws w') \<Longrightarrow> stateSpent E st w \<Longrightarrow> stateSpent E st w'"
  using steps_keep [OF oauth_step_moves, of E w w' "statesDrawn E"] stateMove_drawn
  by (blast intro: stateMoves_draws stateMoves_spent oauth_step_moves)+

text \<open>Runs in which no more than \<open>n\<close> random values are drawn.\<close>

definition oauth_step_within :: "env \<Rightarrow> nat \<Rightarrow> world \<Rightarrow> world \<Rightarrow> bool" where
  "oauth_step_within E n w w' \<longleftrightarrow> oauth_step E w w' \<and> w_draws w' \<le> n"

lemma oauth_steps_draws: "(oauth_step E)\<^sup>*\<^sup>* w w' \<Longrightarrow> w_draws w \<le> w_draws w'"
  by (induction rule: rtranclp_induct) (auto dest: oauth_step_keeps(1))

lemma oauth_steps_within: "(oauth_step E)\<^sup>*\<^sup>* w w' \<Longrightarrow> w_draws w' \<le> n \<Longrightarrow> (oauth_step_within E n)\<^sup>*\<^sup>* w w'"
proof (induction rule: rtranclp_induct)
  case (step w1 w2)
  then have "oauth_step_within E n w1 w2" "w_draws w1 \<le> n"
    using oauth_step_keeps(1) [OF step(2)] by (auto simp: oauth_step_within_def)
  with step.IH show ?case by (auto intro: rtranclp.rtrancl_into_rtrancl)
qed simp

lemma consumeState_Inr:
  assumes "consumeState st p w = (Inr d, w')"
  shows "st \<noteq> [] \<and> w_redisUp w \<and> asOAuthState (cacheLive w (oauthStateKey st)) = Some d \<and>
    w_cache w (oauthStateKey st) \<noteq> None \<and> Inr (os_provider d) = p \<and>
    w' = w_cache_update (\<lambda>c k. if k = oauthStateKey st then None else c k) w"
  using assms
  by (auto simp: consumeState_def success_iffs cacheGet_run cacheDelete_run asOAuthState_def cacheLive_def
      split: if_splits option.splits cached.splits)

lemma consume_spends_state:
  assumes "statesDrawn E w" and "consumeState st p w = (Inr d, w')"
  shows "stateSpent E st w'"
  using consumeState_Inr [OF assms(2)] assms(1) by (auto simp: statesDrawn_def stateSpent_def)

lemma spent_state_refused: "stateSpent E st w \<Longrightarrow> \<exists>e. consumeState st p w = (Inl e, w)"
  by (auto simp: stateSpent_def consumeState_def thenM_run bindM_run throw_if_run cacheGet_run orThrow_run
      cacheLive_def asOAuthState_def)

text \<open>The invariant of the cache, for a random source that does not repeat in the first \<open>n\<close> draws.\<close>

definition statesGood :: "env \<Rightarrow> nat \<Rightarrow> world \<Rightarrow> bool" where
  "statesGood E n w \<longleftrightarrow> freshStates E n \<and> statesDrawn E w"

interpretation oauthOnce: single_use consumeState "stateSpent E" "statesGood E n" "oauth_step_within E n"
  for E :: env and n :: nat
proof (unfold_locales, goal_cases)
  case (1 w st p)
  have "(stateMove E)\<^sup>*\<^sup>* w (snd (consumeState st p w))" by (rule walksD [OF consumeState_walks])
  from steps_keep [OF this, of "statesDrawn E"] 1 show ?case
    by (auto simp: statesGood_def intro: stateMove_drawn)
next
  case (2 w st p d w')
  then show ?case by (auto simp: statesGood_def intro: consume_spends_state)
next
  case (3 w st p)
  then show ?case using spent_state_refused by (metis fst_conv)
next
  case (4 w w')
  then show ?case using oauth_step_keeps(2) by (auto simp: statesGood_def oauth_step_within_def)
next
  case (5 w w' st)
  then have "oauth_step E w w'" "freshStates E (w_draws w')"
    by (auto simp: statesGood_def oauth_step_within_def intro: freshStates_le)
  with 5(3) show ?case using oauth_step_keeps(3) by blast
qed

text \<open>
  C23: an OAuth state completes at most one callback: once a callback got past the check of its
  state, and whatever logins, links and callbacks follow, every later callback with the same
  state is refused before the provider is asked anything, for every provider and code; it
  changes nothing.  The random source is taken not to repeat a state among its draws so far.
\<close>

theorem oauth_state_works_once:
  assumes "freshStates E (w_draws w2)" and "statesDrawn E w"
    and "consumeState st p w = (Inr d, w1)" and "(oauth_step E)\<^sup>*\<^sup>* w1 w2"
  shows "\<exists>e. handleCallback E q code st meta w2 = (Inl e, w2)"
proof -
  have "statesGood E (w_draws w2) w" using assms(1,2) by (simp add: statesGood_def)
  from oauthOnce.used_stays_spent [OF this assms(3) oauth_steps_within [OF assms(4) order_refl]]
  have "stateSpent E st w2" by blast
  from spent_state_refused [OF this, of q] show ?thesis by (auto simp: handleCallback_def bindM_run)
qed

end
