(* ===== verification/Mfa.thy ===== *)
theory Mfa
  imports Secrets Auth Guards
begin

text \<open>
  Multi-factor authentication (\<open>modules/mfa\<close>): backup codes, TOTP codes, enrolment, login
  challenges, the organization's MFA policy and its guard.
\<close>

section \<open>Methods that may not return\<close>

text \<open>
  A loop of the source without a bound is a partial function: \<open>None\<close> is a call that does not
  return.
\<close>

type_synonym 'a loop = "world \<Rightarrow> ((exn + 'a) \<times> world) option"

definition runL :: "'a act \<Rightarrow> 'a loop" where
  "runL m = (\<lambda>w. Some (m w))"

definition bindL :: "'a loop \<Rightarrow> ('a \<Rightarrow> 'b loop) \<Rightarrow> 'b loop" where
  "bindL m f = (\<lambda>w. case m w of
     None \<Rightarrow> None
   | Some (Inl e, w') \<Rightarrow> Some (Inl e, w')
   | Some (Inr x, w') \<Rightarrow> f x w')"

section \<open>Constants and errors\<close>

definition TOTP_SECRET_BYTES :: nat where "TOTP_SECRET_BYTES = 20"
definition TOTP_DIGITS :: int where "TOTP_DIGITS = 6"
definition TOTP_STEP_SECONDS :: int where "TOTP_STEP_SECONDS = 30"
definition BACKUP_CODE_BYTES :: nat where "BACKUP_CODE_BYTES = 6"
definition BACKUP_CODE_GROUP_SIZE :: nat where "BACKUP_CODE_GROUP_SIZE = 4"
definition MAX_CHALLENGE_ATTEMPTS :: int where "MAX_CHALLENGE_ATTEMPTS = 5"

definition mfaAlreadyEnabled :: exn where
  "mfaAlreadyEnabled = appExn ''MFA_ALREADY_ENABLED'' ''MFA is already enabled'' 409"

definition mfaNotEnabled :: exn where
  "mfaNotEnabled = appExn ''MFA_NOT_ENABLED'' ''MFA is not enabled'' 400"

definition invalidMfaCode :: exn where
  "invalidMfaCode = appExn ''INVALID_MFA_CODE'' ''Invalid MFA code'' 400"

definition badCredentials :: exn where
  "badCredentials = appExn ''INVALID_CREDENTIALS'' ''Invalid credentials'' 401"

section \<open>Backup codes: \<open>mfa/utils/backup-codes.util.ts\<close>\<close>

definition isAlnum :: "char \<Rightarrow> bool" where
  "isAlnum c \<longleftrightarrow> (let n = of_char c :: nat in (48 \<le> n \<and> n \<le> 57) \<or> (65 \<le> n \<and> n \<le> 90) \<or> (97 \<le> n \<and> n \<le> 122))"

definition formatBackupCode :: "nat list \<Rightarrow> string" where
  "formatBackupCode bytes =
     (let raw = take 8 (toUpperCase (filter isAlnum (toBase64 bytes)));
          padded = padEnd 8 (CHR ''0'') raw
      in take BACKUP_CODE_GROUP_SIZE padded @ ''-'' @ drop BACKUP_CODE_GROUP_SIZE padded)"

definition generateBackupCode :: "env \<Rightarrow> string act" where
  "generateBackupCode E = bindM (randomBytes E BACKUP_CODE_BYTES) (\<lambda>bs. returnM (formatBackupCode bs))"

text \<open>The loop of \<open>generateBackupCodes\<close>; the set is kept in the order of insertion.\<close>

partial_function (option) backupCodeLoop ::
  "env \<Rightarrow> nat \<Rightarrow> string list \<Rightarrow> world \<Rightarrow> ((exn + string list) \<times> world) option" where
  "backupCodeLoop E count codes w =
     (if count \<le> length codes then Some (Inr codes, w)
      else case generateBackupCode E w of
        (Inl e, w') \<Rightarrow> Some (Inl e, w')
      | (Inr c, w') \<Rightarrow> backupCodeLoop E count (if c \<in> set codes then codes else codes @ [c]) w')"

definition generateBackupCodes :: "env \<Rightarrow> nat \<Rightarrow> (string list) loop" where
  "generateBackupCodes E count = backupCodeLoop E count []"

definition normalizeBackupCode :: "string \<Rightarrow> string" where
  "normalizeBackupCode code = toUpperCase (js_trim code)"

definition hashBackupCode :: "env \<Rightarrow> string \<Rightarrow> string" where
  "hashBackupCode E code = to_hex (e_sha256 E (toUpperCase (js_trim code)))"

section \<open>TotpService\<close>

definition generateSecret :: "env \<Rightarrow> string \<Rightarrow> (string \<times> string) act" where
  "generateSecret E accountLabel =
     bindM drawM (\<lambda>n.
     let (base32, url) = e_totpSecret E n TOTP_SECRET_BYTES (fc_mfaIssuer (e_fed E) @ '':'' @ accountLabel)
           (fc_mfaIssuer (e_fed E))
     in returnM (base32, orDefault url []))"

definition sixDigits :: "string \<Rightarrow> bool" where
  "sixDigits s \<longleftrightarrow> length s = 6 \<and> list_all (\<lambda>c. (48::nat) \<le> of_char c \<and> (of_char c :: nat) \<le> 57) s"

definition verifyCode :: "env \<Rightarrow> int \<Rightarrow> string \<Rightarrow> string \<Rightarrow> bool" where
  "verifyCode E now secretBase32 code \<longleftrightarrow> sixDigits (js_trim code) \<and>
     e_totpVerify E now secretBase32 (js_trim code) (fc_mfaTotpWindow (e_fed E)) TOTP_STEP_SECONDS TOTP_DIGITS"

definition toQrCodeDataUrl :: "env \<Rightarrow> string \<Rightarrow> string act" where
  "toQrCodeDataUrl E otpauthUrl = orThrow (e_qrCode E otpauthUrl) (JsError ''qrcode'')"

section \<open>MfaService\<close>

record MfaSetupResponse =
  sr_secret :: string
  sr_otpauthUrl :: string
  sr_qrCodeDataUrl :: string

definition upsertMfaSecret :: "string \<Rightarrow> string \<Rightarrow> unit act" where
  "upsertMfaSecret uid encrypted =
     bindM (dbFind mfaSecretsT (\<lambda>s. ms_userId s = uid)) (\<lambda>row.
     if row = None then
       thenM (dbCreate mfaSecretsT [''userId''] (\<lambda>s. ms_userId s = uid)
                (\<lambda>d. \<exists>u \<in> set (users d). u_id u = uid)
                \<lparr>ms_userId = uid, ms_secretEncrypted = encrypted, ms_isEnabled = False, ms_lastUsedAt = None\<rparr>)
       (returnM ())
     else
       thenM (dbUpdate mfaSecretsT (\<lambda>s. ms_userId s = uid)
                (\<lambda>s. s\<lparr>ms_secretEncrypted := encrypted, ms_isEnabled := False\<rparr>))
       (returnM ()))"

definition setupMfa :: "env \<Rightarrow> string \<Rightarrow> MfaSetupResponse act" where
  "setupMfa E uid =
     bindM (dbFind usersT (\<lambda>u. u_id u = uid)) (\<lambda>urow.
     bindM (orThrow urow (NotFoundAppException ''User not found'')) (\<lambda>user.
     bindM (dbFind mfaSecretsT (\<lambda>s. ms_userId s = uid)) (\<lambda>existing.
     thenM (throw_if (\<exists>s \<in> set_option existing. ms_isEnabled s) mfaAlreadyEnabled)
     (bindM (generateSecret E (u_email user)) (\<lambda>(base32, otpauthUrl).
     bindM (encryptSecret E base32) (\<lambda>encrypted.
     thenM (upsertMfaSecret uid encrypted)
     (bindM (toQrCodeDataUrl E otpauthUrl) (\<lambda>qr.
     thenM (auditRecord E MFA_SETUP_INITIATED AR_MFA_FACTOR
              (auditOk (Some uid) (Some uid) (Some (u_email user)) []))
     (returnM \<lparr>sr_secret = base32, sr_otpauthUrl = otpauthUrl, sr_qrCodeDataUrl = qr\<rparr>)))))))))"

definition createBackupRows :: "env \<Rightarrow> string \<Rightarrow> string list \<Rightarrow> unit act" where
  "createBackupRows E uid codes = forM codes (\<lambda>c.
     bindM (newId E) (\<lambda>bid.
     thenM (dbCreate backupCodesT [''codeHash''] (\<lambda>b. bc_id b = bid \<or> bc_codeHash b = hashBackupCode E c)
              (\<lambda>d. \<exists>u \<in> set (users d). u_id u = uid)
              \<lparr>bc_id = bid, bc_userId = uid, bc_codeHash = hashBackupCode E c, bc_usedAt = None\<rparr>)
     (returnM ())))"

definition storeBackupCodes :: "env \<Rightarrow> string \<Rightarrow> string list \<Rightarrow> (string list \<times> int) act" where
  "storeBackupCodes E uid codes =
     thenM (transaction
       (thenM (dbDeleteMany backupCodesT (\<lambda>b. bc_userId b = uid)) (createBackupRows E uid codes)))
     (bindM nowM (\<lambda>now. returnM (codes, now)))"

definition replaceBackupCodes :: "env \<Rightarrow> string \<Rightarrow> (string list \<times> int) loop" where
  "replaceBackupCodes E uid =
     bindL (generateBackupCodes E (fc_mfaBackupCodeCount (e_fed E))) (\<lambda>codes.
     runL (storeBackupCodes E uid codes))"

definition checkSetupCode :: "env \<Rightarrow> string \<Rightarrow> string \<Rightarrow> unit act" where
  "checkSetupCode E uid code =
     bindM (dbFind mfaSecretsT (\<lambda>s. ms_userId s = uid)) (\<lambda>row.
     bindM (orThrow row (appExn ''MFA_SETUP_NOT_INITIATED'' ''MFA setup has not been initiated'' 400)) (\<lambda>secret.
     thenM (throw_if (ms_isEnabled secret) mfaAlreadyEnabled)
     (bindM (decryptSecret E (ms_secretEncrypted secret)) (\<lambda>plain.
     bindM nowM (\<lambda>now.
     whenM (\<not> verifyCode E now plain code)
       (thenM (auditRecord E MFA_FAILED AR_MFA_FACTOR
                 (auditFail (Some uid) (Some uid) None [(''stage'', JStr ''setup'')]))
       (throwM invalidMfaCode)))))))"

definition enableMfa :: "env \<Rightarrow> string \<Rightarrow> unit act" where
  "enableMfa E uid =
     bindM nowM (\<lambda>now.
     thenM (dbUpdate mfaSecretsT (\<lambda>s. ms_userId s = uid)
              (\<lambda>s. s\<lparr>ms_isEnabled := True, ms_lastUsedAt := Some now\<rparr>))
     (auditRecord E MFA_ENABLED AR_MFA_FACTOR (auditOk (Some uid) (Some uid) None [])))"

definition verifySetup :: "env \<Rightarrow> string \<Rightarrow> string \<Rightarrow> (string list \<times> int) loop" where
  "verifySetup E uid code =
     bindL (runL (checkSetupCode E uid code)) (\<lambda>_.
     bindL (replaceBackupCodes E uid) (\<lambda>result.
     runL (thenM (enableMfa E uid) (returnM result))))"

text \<open>Password check shared by \<open>disable\<close> and \<open>regenerateBackupCodes\<close>, and their secret.\<close>

definition reauthenticate :: "env \<Rightarrow> string \<Rightarrow> string \<Rightarrow> User act" where
  "reauthenticate E uid password =
     bindM (dbFind usersT (\<lambda>u. u_id u = uid)) (\<lambda>urow.
     bindM (orThrow urow (NotFoundAppException ''User not found'')) (\<lambda>user.
     bindM (comparePassword E password (u_passwordHash user)) (\<lambda>ok.
     thenM (throw_if (\<not> ok) badCredentials) (returnM user))))"

definition enabledSecret :: "string \<Rightarrow> MfaSecret act" where
  "enabledSecret uid =
     bindM (dbFind mfaSecretsT (\<lambda>s. ms_userId s = uid)) (\<lambda>row.
     bindM (orThrow row mfaNotEnabled) (\<lambda>secret.
     thenM (throw_if (\<not> ms_isEnabled secret) mfaNotEnabled) (returnM secret)))"

definition disableMfa :: "env \<Rightarrow> string \<Rightarrow> string \<Rightarrow> string \<Rightarrow> unit act" where
  "disableMfa E uid password code =
     bindM (reauthenticate E uid password) (\<lambda>user.
     bindM (enabledSecret uid) (\<lambda>secret.
     bindM (decryptSecret E (ms_secretEncrypted secret)) (\<lambda>plain.
     bindM nowM (\<lambda>now.
     thenM (throw_if (\<not> verifyCode E now plain code) invalidMfaCode)
     (thenM (transaction
       (thenM (dbDeleteMany backupCodesT (\<lambda>b. bc_userId b = uid))
              (dbDelete mfaSecretsT (\<lambda>s. ms_userId s = uid))))
     (auditRecord E MFA_DISABLED AR_MFA_FACTOR
        (auditOk (Some uid) (Some uid) (Some (u_email user)) [])))))))"

definition listBackupCodeStatus :: "string \<Rightarrow> (nat \<times> nat) act" where
  "listBackupCodeStatus uid =
     bindM (dbFindMany backupCodesT (\<lambda>b. bc_userId b = uid)) (\<lambda>all.
     returnM (length all, length (filter (\<lambda>b. bc_usedAt b = None) all)))"

definition regenerateBackupCodes :: "env \<Rightarrow> string \<Rightarrow> string \<Rightarrow> (string list \<times> int) loop" where
  "regenerateBackupCodes E uid password =
     bindL (runL (bindM (reauthenticate E uid password) (\<lambda>user.
                  thenM (enabledSecret uid) (returnM user)))) (\<lambda>user.
     bindL (replaceBackupCodes E uid) (\<lambda>result.
     runL (thenM (auditRecord E MFA_BACKUP_CODES_REGENERATED AR_MFA_FACTOR
                    (auditOk (Some uid) (Some uid) (Some (u_email user)) []))
           (returnM result))))"

definition verifyTotp :: "env \<Rightarrow> string \<Rightarrow> string \<Rightarrow> bool act" where
  "verifyTotp E uid code =
     bindM (dbFind mfaSecretsT (\<lambda>s. ms_userId s = uid)) (\<lambda>row.
     case row of
       None \<Rightarrow> returnM False
     | Some secret \<Rightarrow>
         if \<not> ms_isEnabled secret then returnM False
         else
           bindM (decryptSecret E (ms_secretEncrypted secret)) (\<lambda>plain.
           bindM nowM (\<lambda>now.
           let ok = verifyCode E now plain code in
           thenM (whenM ok
             (thenM (dbUpdate mfaSecretsT (\<lambda>s. ms_userId s = uid) (\<lambda>s. s\<lparr>ms_lastUsedAt := Some now\<rparr>))
              (returnM ())))
           (returnM ok))))"

definition consumeBackupCode :: "env \<Rightarrow> string \<Rightarrow> string \<Rightarrow> bool act" where
  "consumeBackupCode E uid rawCode =
     (let hash = hashBackupCode E (normalizeBackupCode rawCode) in
      bindM (dbFind backupCodesT (\<lambda>b. bc_codeHash b = hash)) (\<lambda>row.
      case row of
        None \<Rightarrow> returnM False
      | Some entry \<Rightarrow>
          if bc_userId entry \<noteq> uid \<or> bc_usedAt entry \<noteq> None then returnM False
          else
            bindM nowM (\<lambda>now.
            thenM (dbUpdate backupCodesT (\<lambda>b. bc_id b = bc_id entry) (\<lambda>b. b\<lparr>bc_usedAt := Some now\<rparr>))
            (thenM (auditRecord E MFA_BACKUP_CODE_USED AR_MFA_FACTOR
                      (auditOk (Some uid) (Some uid) None []))
            (returnM True)))))"

definition isMfaEnabled :: "string \<Rightarrow> bool act" where
  "isMfaEnabled uid =
     bindM (dbFind mfaSecretsT (\<lambda>s. ms_userId s = uid)) (\<lambda>row.
     returnM (case row of None \<Rightarrow> False | Some s \<Rightarrow> ms_isEnabled s))"

end
