(* ===== verification/OAuthLoginLaws.thy ===== *)
theory OAuthLoginLaws
  imports OAuthLaws Mfa
begin

text \<open>
  From the redirection to the provider to the session: the PKCE exchange, whose session a
  login opens, unlinking, and the redirection at the end.
\<close>

section \<open>The PKCE exchange\<close>

lemma toBase64_hd: "bs \<noteq> [] \<Longrightarrow> \<exists>n s. toBase64 bs = b64char n # s"
  by (induction bs rule: toBase64.induct) auto

lemma b64char_no_pad: "b64char n \<noteq> CHR ''=''"
proof
  assume pad: "b64char n = CHR ''=''"
  then have "n < 62" by (auto simp: b64char_def split: if_splits)
  with b64val_b64char [of n] pad b64val_pad show False by simp
qed

lemma dropWhile_keeps_last: "\<not> p x \<Longrightarrow> dropWhile p (xs @ [x]) \<noteq> []"
  by (induction xs) auto

lemma base64Url_nonempty:
  assumes "bs \<noteq> []"
  shows "base64Url bs \<noteq> []"
proof -
  let ?safe = "\<lambda>c. if (if c = CHR ''+'' then CHR ''-'' else c) = CHR ''/'' then CHR ''_''
      else (if c = CHR ''+'' then CHR ''-'' else c)"
  obtain n s where s: "toBase64 bs = b64char n # s" using toBase64_hd [OF assms] by blast
  have "?safe (b64char n) \<noteq> CHR ''=''" using b64char_no_pad [of n] by auto
  then show ?thesis
    unfolding base64Url_def s by (simp add: dropWhile_keeps_last)
qed

lemma createState_run:
  "createState E p mode uid redir w =
     (Inr \<lparr>ct_state = stateText E (w_draws w),
           ct_codeChallenge = base64Url (e_sha256 E (base64Url (e_randomBytes E (Suc (w_draws w)) OAUTH_PKCE_VERIFIER_BYTES))),
           ct_codeChallengeMethod = ''S256''\<rparr>,
      snd (cacheSet (oauthStateKey (stateText E (w_draws w)))
        (COAuthState \<lparr>os_provider = p, os_codeVerifier = base64Url (e_randomBytes E (Suc (w_draws w)) OAUTH_PKCE_VERIFIER_BYTES),
           os_mode = mode, os_linkUserId = uid, os_redirectTo = redir, os_createdAt = w_now w\<rparr>)
        (fc_oauthStateTtlMs (e_fed E) div 1000) (w\<lparr>w_draws := Suc (Suc (w_draws w))\<rparr>)))"
  by (simp add: createState_def generateState_def generatePkcePair_def monad_simps Let_def stateText_def)

text \<open>A state that was stored is found again, by its provider only, until it expires.\<close>

lemma consume_created:
  assumes "createState E p mode uid redir w = (Inr c, w1)" and "w_redisUp w" "w_redisUp w2"
    and "w_cache w2 (oauthStateKey (ct_state c)) = w_cache w1 (oauthStateKey (ct_state c))"
    and "w_now w2 < w_now w + fc_oauthStateTtlMs (e_fed E) div 1000 * 1000"
    and "e_randomBytes E (w_draws w) OAUTH_STATE_BYTES \<noteq> []"
  shows "\<exists>d w3. consumeState (ct_state c) (Inr q) w2 =
      (if q = p then Inr d else Inl (stateInvalid ''OAuth state provider mismatch'' 400), w3) \<and>
    os_provider d = p \<and> os_mode d = mode \<and> os_linkUserId d = uid \<and> os_redirectTo d = redir \<and>
    ct_codeChallenge c = base64Url (e_sha256 E (os_codeVerifier d))"
proof -
  have "stateText E (w_draws w) \<noteq> []" using base64Url_nonempty [OF assms(6)] by (simp add: stateText_def)
  with assms show ?thesis
    by (auto simp: createState_run consumeState_def bindM_run thenM_run throw_if_run cacheGet_run
        cacheLive_def asOAuthState_def orThrow_run cacheSet_run cacheDelete_run split: if_splits)
qed

lemma registryGet_run: "\<exists>s. registryGet E (Inr p) w = (Inr s, w) \<and> st_provider s = p"
  by (cases p) (simp_all add: registryGet_def orThrow_run strategies_def googleStrategy_def githubStrategy_def
      microsoftStrategy_def Let_def)

text \<open>The rest of the callback once the state was accepted.\<close>

definition finishLogin ::
  "env \<Rightarrow> OAuthStrategy \<Rightarrow> string \<Rightarrow> string \<Rightarrow> string option \<Rightarrow> LoginMetadata \<Rightarrow> CallbackOutcome act" where
  "finishLogin E s code codeVerifier redirectTo meta =
     bindM (exchangeCode E s code codeVerifier) (\<lambda>(tokens, profile).
     bindM (loginOrSignup E profile tokens meta) (\<lambda>result.
     returnM \<lparr>cb_result = Some result, cb_mode = LoginMode, cb_redirectTo = redirectTo\<rparr>))"

text \<open>
  A login is pending while its state waits in the cache.  Meanwhile other logins and links may be
  begun, callbacks may arrive with other states, and anything may happen that leaves this one
  entry alone: the rest of the platform, and the clock.
\<close>

inductive pending_step :: "env \<Rightarrow> string \<Rightarrow> world \<Rightarrow> world \<Rightarrow> bool" for E st where
  login: "pending_step E st w (snd (beginLogin E p redir w))"
| link: "pending_step E st w (snd (beginLink E p uid redir w))"
| callback: "st' \<noteq> st \<Longrightarrow> pending_step E st w (snd (handleCallback E p code st' meta w))"
| other: "w_cache w' (oauthStateKey st) = w_cache w (oauthStateKey st) \<Longrightarrow> w_draws w \<le> w_draws w' \<Longrightarrow>
    pending_step E st w w'"

inductive spareMove :: "env \<Rightarrow> string \<Rightarrow> world \<Rightarrow> world \<Rightarrow> bool" for E st where
  spareMove: "(st \<noteq> stateText E (w_draws w) \<Longrightarrow> w_cache w' (oauthStateKey st) = w_cache w (oauthStateKey st)) \<Longrightarrow>
    w_draws w < w_draws w' \<Longrightarrow> spareMove E st w w'"
| still: "w_cache w' (oauthStateKey st) = w_cache w (oauthStateKey st) \<Longrightarrow> w_draws w \<le> w_draws w' \<Longrightarrow>
    spareMove E st w w'"

interpretation spareSteps: oauth_cache_steps "spareMove E st" "\<lambda>k. k = oauthStateKey st" for E :: env and st :: string
  by unfold_locales (auto intro: spareMove.still simp: sessionKey_def oauthStateKey_def)

lemma spare_createState: "walks (spareMove E st) (createState E p mode uid redir)"
  by (rule walks_step, rule spareMove.spareMove) (auto simp: createState_run cacheSet_run)

lemma spare_consumeState: "st' \<noteq> st \<Longrightarrow> walks (spareMove E st) (consumeState st' p)"
  unfolding consumeState_def by (intro walks_intros spareSteps.walks_cacheDelete) simp

lemma pending_moves: "pending_step E st w w' \<Longrightarrow> (spareMove E st)\<^sup>*\<^sup>* w w'"
proof (induction rule: pending_step.induct)
  case (other w' w)
  then show ?case by (intro r_into_rtranclp spareMove.still)
qed (intro walksD spareSteps.flow_walks spare_createState spare_consumeState; assumption)+

lemma pendings_move: "(pending_step E st)\<^sup>*\<^sup>* w w' \<Longrightarrow> (spareMove E st)\<^sup>*\<^sup>* w w'"
  by (induction rule: rtranclp_induct) (auto dest: pending_moves intro: rtranclp_trans)

text \<open>A state that was drawn before keeps its entry, as long as no draw repeats it.\<close>

lemma spareMoves_keep:
  assumes "(spareMove E (stateText E n))\<^sup>*\<^sup>* w w'" and "n < w_draws w"
  shows "w_draws w \<le> w_draws w' \<and> (freshStates E (w_draws w') \<longrightarrow>
    w_cache w' (oauthStateKey (stateText E n)) = w_cache w (oauthStateKey (stateText E n)))"
  using assms
proof (induction rule: rtranclp_induct)
  case (step w1 w2)
  then have draws: "w_draws w \<le> w_draws w1" "w_draws w1 \<le> w_draws w2"
    by (auto elim: spareMove.cases)
  have "w_cache w2 (oauthStateKey (stateText E n)) = w_cache w1 (oauthStateKey (stateText E n))"
    if "freshStates E (w_draws w2)"
    using step(2)
  proof cases
    case spareMove
    have "stateText E n \<noteq> stateText E (w_draws w1)"
    proof
      assume "stateText E n = stateText E (w_draws w1)"
      with that spareMove(2) draws(1) step.prems have "n = w_draws w1"
        unfolding freshStates_def by (auto dest: inj_onD)
      with draws(1) step.prems show False by simp
    qed
    with spareMove(1) show ?thesis by simp
  qed
  with step draws freshStates_le show ?case by (metis le_trans)
qed simp

text \<open>
  C24: the code verifier reaches the provider.  When a login was begun, the address the browser
  is sent to carries a state and a challenge, and a callback with that state, before it expires,
  exchanges the code with a verifier whose SHA-256 is that challenge, for the same provider and
  the same redirect target, whatever other logins and links were begun and whatever callbacks
  with other states and other requests were answered in between.  Redis answers at the beginning
  and at the end, and the random source does not repeat a state among its draws so far.
\<close>

theorem pkce_verifier_matches_challenge:
  assumes "beginLogin E (Inr p) redirectTo w = (Inr url, w1)" and "w_redisUp w" "w_redisUp w2"
    and "(pending_step E (stateText E (w_draws w)))\<^sup>*\<^sup>* w1 w2" and "freshStates E (w_draws w2)"
    and "w_now w2 < w_now w + fc_oauthStateTtlMs (e_fed E) div 1000 * 1000"
    and "e_randomBytes E (w_draws w) OAUTH_STATE_BYTES \<noteq> []"
  shows "\<exists>s c v w3. st_provider s = p \<and> ct_state c = stateText E (w_draws w) \<and>
    e_urlSet E (st_authorizationUrl s) (authorizationParams s c) = Some url \<and>
    ct_codeChallenge c = base64Url (e_sha256 E v) \<and>
    handleCallback E (Inr p) code (ct_state c) meta w2 = finishLogin E s code v redirectTo meta w3"
proof -
  obtain s where s: "\<And>w. registryGet E (Inr p) w = (Inr s, w)" "st_provider s = p"
    using registryGet_run [of E p] by (auto simp: registryGet_def orThrow_run split: option.splits)
  obtain c w0 where created: "createState E p LoginMode None redirectTo w = (Inr c, w0)"
    and url: "buildAuthorizationUrl E s c w0 = (Inr url, w1)"
    using assms(1) by (auto simp: beginLogin_def success_iffs s)
  have "w1 = w0" and sent: "e_urlSet E (st_authorizationUrl s) (authorizationParams s c) = Some url"
    using url by (auto simp: buildAuthorizationUrl_def ensureConfigured_def success_iffs)
  have st: "ct_state c = stateText E (w_draws w)" "w_draws w < w_draws w1"
    using created by (auto simp: \<open>w1 = w0\<close> createState_run cacheSet_run)
  have "w_cache w2 (oauthStateKey (ct_state c)) = w_cache w0 (oauthStateKey (ct_state c))"
    using spareMoves_keep [OF pendings_move [OF assms(4)] st(2)] assms(5) by (simp add: st(1) \<open>w1 = w0\<close>)
  from consume_created [OF created assms(2,3) this assms(6,7), of p]
  obtain d w3 where d: "consumeState (ct_state c) (Inr p) w2 = (Inr d, w3)" "os_mode d = LoginMode"
    "os_redirectTo d = redirectTo" "ct_codeChallenge c = base64Url (e_sha256 E (os_codeVerifier d))" by auto
  from d(1-3) s(1) have "handleCallback E (Inr p) code (ct_state c) meta w2 =
      finishLogin E s code (os_codeVerifier d) redirectTo meta w3"
    by (simp add: handleCallback_def finishLogin_def bindM_run [of "consumeState (ct_state c) (Inr p)"]
        bindM_run [of "registryGet E (Inr p)"])
  with s(2) d(4) st(1) sent show ?thesis by blast
qed

section \<open>Whose session a login opens\<close>

lemma encrypt_frame:
  "encryptToken E v w = (r, w') \<Longrightarrow> w_db w' = w_db w \<and> w_now w' = w_now w"
  by (auto simp: encryptToken_def encryptSecret_def encryptAesGcm_def deriveKey_def monad_simps
      split: if_splits jsval.splits prod.splits)

lemma args_Inr:
  "textArg v w = (Inr s, w') \<longleftrightarrow> v = JStr s \<and> w' = w"
  "optTextArg v w = (Inr x, w') \<Longrightarrow> w' = w"
  "boolArg v b w = (Inr y, w') \<Longrightarrow> w' = w"
  by (auto simp: textArg_def optTextArg_def boolArg_def split: jsval.splits)

lemma createLinkedAccount_Inr:
  assumes "createLinkedAccount E uid profile tokens w = (Inr u, w')"
  shows "\<exists>a pid. np_providerUserId profile = JStr pid \<and> oa_userId a = uid \<and> providerKey (np_provider profile) pid a \<and>
    w_db w' = oauthAccounts_update (\<lambda>rows. rows @ [a]) (w_db w) \<and> w_now w' = w_now w"
proof -
  let ?row = "\<lambda>pid email access refresh w2. \<lparr>oa_id = e_uuid E (w_draws w2), oa_userId = uid,
      oa_provider = np_provider profile, oa_providerUserId = pid, oa_email = email,
      oa_accessTokenEncrypted = access, oa_refreshTokenEncrypted = refresh,
      oa_metadata = buildMetadata profile, oa_createdAt = w_now w2\<rparr>"
  obtain access refresh pid email and w1 w2 :: world where
    e1: "encryptToken E (ts_accessToken tokens) w = (Inr access, w1)" and
    e2: "encryptToken E (ts_refreshToken tokens) w1 = (Inr refresh, w2)"
    and pid: "np_providerUserId profile = JStr pid"
    and row: "w' = w_db_update (oauthAccounts_update (\<lambda>rows. rows @ [?row pid email access refresh w2]))
      (w2\<lparr>w_draws := Suc (w_draws w2)\<rparr>)"
    using assms
    by (auto simp: createLinkedAccount_def success_iffs args_Inr newId_run dbCreate_run
        dest!: args_Inr(2) split: if_splits)
  from encrypt_frame [OF e1] encrypt_frame [OF e2] pid row show ?thesis
    by (intro exI [of _ "?row pid email access refresh w2"] exI [of _ pid]) (simp add: providerKey_def)
qed

lemma persistTokens_Inr:
  assumes "persistTokens E i tokens profile w = (Inr u, w')"
  shows "\<exists>f. (\<forall>a. oa_userId (f a) = oa_userId a \<and> oa_provider (f a) = oa_provider a \<and> oa_providerUserId (f a) = oa_providerUserId a) \<and>
    w_db w' = oauthAccounts_update (updateRows (\<lambda>a. oa_id a = i) f) (w_db w) \<and> w_now w' = w_now w"
proof -
  let ?f = "\<lambda>email access refresh a. a\<lparr>oa_email := (if np_email profile = JUndefined then oa_email a else email),
      oa_accessTokenEncrypted := access, oa_refreshTokenEncrypted := refresh, oa_metadata := buildMetadata profile\<rparr>"
  obtain access refresh email and w1 w2 :: world where
    e1: "encryptToken E (ts_accessToken tokens) w = (Inr access, w1)" and
    e2: "encryptToken E (ts_refreshToken tokens) w1 = (Inr refresh, w2)"
    and row: "w' = w_db_update (oauthAccounts_update (updateRows (\<lambda>a. oa_id a = i) (?f email access refresh))) w2"
    using assms
    by (auto simp: persistTokens_def success_iffs dbUpdate_run dest!: args_Inr(2) split: option.splits)
  from encrypt_frame [OF e1] encrypt_frame [OF e2] row show ?thesis
    by (intro exI [of _ "?f email access refresh"]) simp
qed

lemma createUserFromProfile_Inr:
  assumes "createUserFromProfile E profile email w = (Inr u, w')"
  shows "u_email u = email \<and> u_status u = UserActive \<and> u_deletedAt u = None \<and>
    (\<forall>x \<in> set (users (w_db w)). u_id x \<noteq> u_id u) \<and> w_db w' = users_update (\<lambda>rows. rows @ [u]) (w_db w) \<and>
    w_now w' = w_now w"
  using assms
  by (auto simp: createUserFromProfile_def success_iffs generateSecureToken_run hashPassword_run newId_run
      dbCreate_run dest!: args_Inr(2,3) split: if_splits)

text \<open>Who a profile stands for, by the tables before the login.\<close>

definition profileUser :: "database \<Rightarrow> OAuthProvider \<Rightarrow> string \<Rightarrow> string \<Rightarrow> User option" where
  "profileUser d p pid email =
     (case findFirst (providerKey p pid) (oauthAccounts d) of
        Some a \<Rightarrow> findFirst (\<lambda>u. u_id u = oa_userId a) (users d)
      | None \<Rightarrow> findFirst (\<lambda>u. u_email u = email) (users d))"

lemma resolveUser_Inr:
  assumes "resolveUser E profile tokens email w = (Inr (u, isNew), w')"
  shows "\<exists>pid. np_providerUserId profile = JStr pid \<and>
    (if isNew then profileUser (w_db w) (np_provider profile) pid email = None \<and> u_email u = email \<and>
         (\<forall>x \<in> set (users (w_db w)). u_id x \<noteq> u_id u)
     else profileUser (w_db w) (np_provider profile) pid email = Some u) \<and>
    (\<exists>a \<in> set (oauthAccounts (w_db w')). providerKey (np_provider profile) pid a \<and> oa_userId a = u_id u) \<and>
    u \<in> set (users (w_db w')) \<and> sessions (w_db w') = sessions (w_db w) \<and> w_now w' = w_now w"
proof -
  obtain pid where pid: "np_providerUserId profile = JStr pid"
    and rest: "(case findFirst (providerKey (np_provider profile) pid) (oauthAccounts (w_db w)) of
       Some account \<Rightarrow>
         bindM (dbFind usersT (\<lambda>u. u_id u = oa_userId account)) (\<lambda>urow.
         bindM (orThrow urow (JsError ''missing user'')) (\<lambda>user.
         thenM (persistTokens E (oa_id account) tokens profile) (returnM (user, False))))
     | None \<Rightarrow>
         bindM (dbFind usersT (\<lambda>u. u_email u = email)) (\<lambda>existingUser.
         case existingUser of
           Some user \<Rightarrow> thenM (createLinkedAccount E (u_id user) profile tokens) (returnM (user, False))
         | None \<Rightarrow> bindM (createUserFromProfile E profile email) (\<lambda>user.
             thenM (createLinkedAccount E (u_id user) profile tokens) (returnM (user, True))))) w = (Inr (u, isNew), w')"
    using assms unfolding resolveUser_def success_iffs args_Inr dbFind_run by auto
  show ?thesis
  proof (cases "findFirst (providerKey (np_provider profile) pid) (oauthAccounts (w_db w))")
    case (Some a)
    with rest have u: "findFirst (\<lambda>u. u_id u = oa_userId a) (users (w_db w)) = Some u" "\<not> isNew"
      and run: "persistTokens E (oa_id a) tokens profile w = (Inr (), w')"
      by (auto simp: success_iffs dbFind_run)
    from persistTokens_Inr [OF run] obtain f where
      f: "\<And>a. oa_userId (f a) = oa_userId a \<and> oa_provider (f a) = oa_provider a \<and> oa_providerUserId (f a) = oa_providerUserId a"
      and db: "w_db w' = oauthAccounts_update (updateRows (\<lambda>x. oa_id x = oa_id a) f) (w_db w)" "w_now w' = w_now w" by blast
    from Some have "a \<in> set (oauthAccounts (w_db w))" "providerKey (np_provider profile) pid a"
      by (auto dest: findFirst_SomeD)
    moreover from this(1) have "f a \<in> set (oauthAccounts (w_db w'))" by (auto simp: db set_updateRows)
    moreover have "u_id u = oa_userId a" "u \<in> set (users (w_db w))" using u(1) by (auto dest: findFirst_SomeD)
    ultimately show ?thesis
      using u Some pid db f by (auto simp: profileUser_def providerKey_def intro!: bexI [of _ "f a"])
  next
    case None
    show ?thesis
    proof (cases "findFirst (\<lambda>u. u_email u = email) (users (w_db w))")
      case found: (Some user)
      with rest None have "u = user" "\<not> isNew" and run: "createLinkedAccount E (u_id user) profile tokens w = (Inr (), w')"
        by (auto simp: success_iffs dbFind_run)
      with createLinkedAccount_Inr [OF run] found None pid findFirst_SomeD [OF found] show ?thesis
        by (auto simp: profileUser_def)
    next
      case missing: None
      with rest None obtain w1 where new: "isNew" "createUserFromProfile E profile email w = (Inr u, w1)"
        and run: "createLinkedAccount E (u_id u) profile tokens w1 = (Inr (), w')"
        by (auto simp: success_iffs dbFind_run)
      with createUserFromProfile_Inr [OF new(2)] createLinkedAccount_Inr [OF run] missing None pid show ?thesis
        by (auto simp: profileUser_def)
    qed
  qed
qed

lemma openOAuthSession_Inr:
  assumes "openOAuthSession E p user isNew meta w = (Inr r, w')"
  shows "\<exists>s. s_userId s = u_id user \<and> s_id s = ol_sessionId r \<and> s_revokedAt s = None \<and>
    s_expiresAt s = w_now w + ac_sessionTtlMs (e_auth E) \<and> sessions (w_db w') = sessions (w_db w) @ [s] \<and>
    oauthAccounts (w_db w') = oauthAccounts (w_db w) \<and> ol_isNewUser r = isNew \<and> ol_user r = stripSecrets user"
proof -
  let ?seen = "\<lambda>u. u\<lparr>u_lastLoginAt := Some (w_now w), u_failedLoginAttempts := 0, u_lockUntil := None\<rparr>"
  let ?w = "w_db_update (users_update (updateRows (\<lambda>u. u_id u = u_id user) ?seen)) w"
  obtain c w1 where c: "createSession E (u_id user) meta ?w = (Inr c, w1)"
    and r: "ol_sessionId r = s_id (cs_session c)" "ol_isNewUser r = isNew" "ol_user r = stripSecrets user"
    and db: "w_db w' = w_db w1"
    using assms
    by (auto simp: openOAuthSession_def success_iffs transaction_Inr_iff dbUpdate_run resolveDefault_def
        signAccessToken_def auditRecord_run split: option.splits)
  from createSession_success [OF c] show ?thesis
    by (intro exI [of _ "cs_session c"]) (simp add: r db)
qed

text \<open>
  C25: an OAuth login opens one session, of the right user: the one the provider account is
  linked to if it is linked, otherwise the one with the email of the profile, otherwise a new
  one with that email.  That user is neither deleted, suspended nor deactivated, the provider
  account is linked to it from then on, and the session is open and is the only one added.
\<close>

theorem oauth_login_opens_session_of_profile_user:
  assumes "loginOrSignup E profile tokens meta w = (Inr r, w')"
  shows "\<exists>pid email u s. np_providerUserId profile = JStr pid \<and> np_email profile = JStr email \<and>
    (if ol_isNewUser r
     then profileUser (w_db w) (np_provider profile) pid (normalizeEmail email) = None \<and> u_email u = normalizeEmail email
     else profileUser (w_db w) (np_provider profile) pid (normalizeEmail email) = Some u) \<and>
    u_deletedAt u = None \<and> u_status u \<notin> {UserSuspended, UserInactive} \<and> ol_user r = stripSecrets u \<and>
    (\<exists>a \<in> set (oauthAccounts (w_db w')). providerKey (np_provider profile) pid a \<and> oa_userId a = u_id u) \<and>
    s_userId s = u_id u \<and> s_id s = ol_sessionId r \<and> s_revokedAt s = None \<and>
    s_expiresAt s = w_now w + ac_sessionTtlMs (e_auth E) \<and> sessions (w_db w') = sessions (w_db w) @ [s]"
proof -
  obtain email u isNew w1 where email: "np_email profile = JStr email"
    and u: "resolveUser E profile tokens (normalizeEmail email) w = (Inr (u, isNew), w1)"
    and active: "u_deletedAt u = None" "u_status u \<noteq> UserSuspended" "u_status u \<noteq> UserInactive"
    and session: "openOAuthSession E (np_provider profile) u isNew meta w1 = (Inr r, w')"
    using assms by (auto simp: loginOrSignup_def success_iffs split: jsval.splits)
  from resolveUser_Inr [OF u] openOAuthSession_Inr [OF session] email active show ?thesis
    by (auto split: if_splits)
qed

section \<open>Unlinking and the final redirection\<close>

text \<open>
  A user who signed up through a provider has the bcrypt hash of a marker as password; the
  guard looks for the marker itself at the front of the hash.  So the only way to sign in can
  be removed.
\<close>

theorem last_sign_in_method_can_be_removed:
  assumes "\<And>n rounds pw. startsWith (e_bcryptHash E n rounds pw) ''$2''"
    and "findFirst (\<lambda>u. u_id u = uid) (users (w_db w)) = Some u"
    and "u_passwordHash u = e_bcryptHash E n rounds (''!oauth:'' @ hex)"
    and "findFirst (userKey uid p) (oauthAccounts (w_db w)) = Some a"
  shows "\<exists>w'. unlinkAccount E uid (Inr p) w = (Inr (), w') \<and> a \<notin> set (oauthAccounts (w_db w'))"
proof -
  have "startsWith (u_passwordHash u) ''$2''" using assms(1,3) by simp
  then have "u_passwordHash u \<noteq> []" "\<not> startsWith (u_passwordHash u) ''!oauth:''"
    by (cases "u_passwordHash u"; simp add: startsWith_def)+
  moreover obtain b where "findFirst (\<lambda>x. oa_id x = oa_id a) (oauthAccounts (w_db w)) = Some b"
    using findFirst_ex [of a "oauthAccounts (w_db w)" "\<lambda>x. oa_id x = oa_id a"] assms(4) by (auto dest: findFirst_SomeD)
  ultimately show ?thesis
    using assms(2,4)
    by (simp add: unlinkAccount_def ensureNotLastAuthMethod_def bindM_run thenM_run dbFind_run orThrow_run
        dbCount_run throw_if_run dbDelete_run auditRecord_run Let_def set_deleteRows)
qed

text \<open>
  A login that was begun with a relative redirect target is lost: the callback opens the
  session and then fails with an internal error, because the target is parsed as an absolute
  address.  (\<open>new URL\<close> takes no relative reference.)
\<close>

theorem relative_redirect_loses_login:
  assumes "startsWith target ''/''" and "\<not> startsWith target ''//''" and "\<And>ps. e_urlSet E target ps = None"
    and "resolveProvider E slug w = (Inr p, w)"
    and "handleCallback E p (c # code) (x # st)
      \<lparr>lm_ipAddress = extractClientIp req, lm_userAgent = extractUserAgent req, lm_deviceName = None\<rparr> w =
        (Inr \<lparr>cb_result = Some r, cb_mode = LoginMode, cb_redirectTo = Some target\<rparr>, w')"
  shows "oauthCallback E slug req (Some (c # code)) (Some (x # st)) None w = (Inl (JsError ''Invalid URL''), w')"
proof -
  have "target \<noteq> []" using assms(1) by (auto simp: startsWith_def)
  then have "sanitizeRedirect E (Some target) base fb = target" "truthy_str (Some target)" for base fb
    using assms(1,2) by (simp_all add: sanitizeRedirect_def isSafeRedirect_def truthy_str_def)
  with assms(3-5) show ?thesis
    by (simp add: oauthCallback_def bindM_run thenM_run throw_if_run orThrow_run callbackReply_def Let_def)
qed

text \<open>Every other target a callback redirects to is the fallback, or on the origin of the site.\<close>

lemma sanitizeRedirect_cases:
  "sanitizeRedirect E target base fallback = fallback \<or>
   (\<exists>t. target = Some t \<and> sanitizeRedirect E target base fallback = t \<and>
      (startsWith t ''/'' \<and> \<not> startsWith t ''//'' \<or> e_urlOrigin E t \<noteq> None \<and> e_urlOrigin E t = e_urlOrigin E base))"
  by (auto simp: sanitizeRedirect_def isSafeRedirect_def split: option.split)

section \<open>Witnesses\<close>

definition oauthEnv :: env where
  "oauthEnv = cryptoEnv\<lparr>e_randomBytes := (\<lambda>n len. if len = IV_LENGTH then replicate IV_LENGTH (n mod 256) else [n]),
     e_urlSet := (\<lambda>s ps. if startsWith s ''http'' then Some s else None),
     e_fetch := (\<lambda>n r. Some \<lparr>fs_ok = True, fs_status = 200, fs_json = Some (JObj (if fq_method r = ''POST''
       then [(''access_token'', JStr ''at'')]
       else [(''sub'', JStr ''g1''), (''email'', JStr ''alice@example.com''), (''email_verified'', JBool False)]))\<rparr>)\<rparr>"

definition anyDevice :: LoginMetadata where
  "anyDevice = \<lparr>lm_ipAddress = None, lm_userAgent = None, lm_deviceName = None\<rparr>"

text \<open>Alice's account is locked and has a second factor; Google has not verified the email.\<close>

definition lockedWorld :: world where
  "lockedWorld = withDb (\<lambda>d. d\<lparr>users := [alice\<lparr>u_status := UserLocked\<rparr>],
     mfaSecrets := [\<lparr>ms_userId = ''alice'', ms_secretEncrypted = [], ms_isEnabled = True, ms_lastUsedAt = None\<rparr>]\<rparr>)"

definition unverifiedProfile :: NormalizedOAuthProfile where
  "unverifiedProfile = \<lparr>np_provider = GOOGLE, np_providerUserId = JStr ''g1'',
     np_email = JStr '' Alice@example.com'', np_emailVerified = JBool False, np_firstName = JNull,
     np_lastName = JNull, np_displayName = JNull, np_avatarUrl = JNull, np_raw = JNull\<rparr>"

definition oneToken :: OAuthTokenSet where
  "oneToken = \<lparr>ts_accessToken = JStr ''at'', ts_refreshToken = JUndefined\<rparr>"

lemma unverified_login: "map_sum (\<lambda>_. ()) (\<lambda>r. su_id (ol_user r))
    (fst (loginOrSignup oauthEnv unverifiedProfile oneToken anyDevice lockedWorld)) = Inr ''alice''"
  by code_simp

text \<open>
  An OAuth login asks for no second factor, lets a locked account in, and merges by an email
  the provider has not verified.
\<close>

theorem oauth_skips_lock_and_second_factor:
  "\<exists>r w'. loginOrSignup oauthEnv unverifiedProfile oneToken anyDevice lockedWorld = (Inr r, w') \<and>
     su_id (ol_user r) = ''alice'' \<and> np_emailVerified unverifiedProfile = JBool False \<and>
     fst (isMfaEnabled ''alice'' lockedWorld) = Inr True \<and> u_status (hd (users (w_db lockedWorld))) = UserLocked"
proof -
  have "np_emailVerified unverifiedProfile = JBool False" "fst (isMfaEnabled ''alice'' lockedWorld) = Inr True"
    "u_status (hd (users (w_db lockedWorld))) = UserLocked" by code_simp+
  with unverified_login show ?thesis
    by (cases "loginOrSignup oauthEnv unverifiedProfile oneToken anyDevice lockedWorld"; cases "fst (loginOrSignup oauthEnv unverifiedProfile oneToken anyDevice lockedWorld)") auto
qed

end
