(* ===== verification/OAuthWitnesses.thy ===== *)
theory OAuthWitnesses
  imports OAuthLoginLaws
begin

text \<open>
  A login with Google, begun by a browser that wants to end at \<open>/home\<close>.
\<close>

definition begun :: world where
  "begun = snd (beginLogin oauthEnv (Inr GOOGLE) (Some ''/home'') sampleWorld)"

text \<open>Between the two halves of the login, someone else begins one with GitHub.\<close>

definition interleaved :: world where
  "interleaved = snd (beginLogin oauthEnv (Inr GITHUB) None begun)"

lemma begun_drawn: "statesDrawn oauthEnv begun"
proof -
  have "statesDrawn oauthEnv sampleWorld"
    by (simp add: statesDrawn_def sampleWorld_def worldOf_def)
  moreover have "(stateMove oauthEnv)\<^sup>*\<^sup>* sampleWorld begun"
    unfolding begun_def by (rule walksD [OF state_flow_walks(1)])
  ultimately show ?thesis
    using steps_keep [where I = "statesDrawn oauthEnv"] stateMove_drawn by blast
qed

theorem oauth_state_works_once_witness:
  "\<exists>d w1 e. consumeState (stateText oauthEnv 0) (Inr GOOGLE) begun = (Inr d, w1) \<and>
     handleCallback oauthEnv (Inr GITHUB) ''code'' (stateText oauthEnv 0) anyDevice w1 = (Inl e, w1)"
proof -
  have "\<not> isl (fst (consumeState (stateText oauthEnv 0) (Inr GOOGLE) begun))" by code_simp
  from run_Inr [OF this] obtain d w1
    where run: "consumeState (stateText oauthEnv 0) (Inr GOOGLE) begun = (Inr d, w1)" by blast
  have "w_draws (snd (consumeState (stateText oauthEnv 0) (Inr GOOGLE) begun)) = 2" by code_simp
  then have draws: "w_draws w1 = 2" unfolding run snd_conv .
  have "distinct (map (stateText oauthEnv) [0..<2])" by code_simp
  then have "freshStates oauthEnv (w_draws w1)"
    unfolding draws freshStates_def by (simp only: distinct_map set_upt atLeast0LessThan)
  from oauth_state_works_once [OF this begun_drawn run rtranclp.rtrancl_refl] run show ?thesis by blast
qed

theorem pkce_verifier_matches_challenge_witness:
  "\<exists>url s c v w3. fst (beginLogin oauthEnv (Inr GOOGLE) (Some ''/home'') sampleWorld) = Inr url \<and>
     st_provider s = GOOGLE \<and>
     e_urlSet oauthEnv (st_authorizationUrl s) (authorizationParams s c) = Some url \<and>
     ct_codeChallenge c = base64Url (e_sha256 oauthEnv v) \<and>
     handleCallback oauthEnv (Inr GOOGLE) ''code'' (ct_state c) anyDevice interleaved =
       finishLogin oauthEnv s ''code'' v (Some ''/home'') anyDevice w3"
proof -
  have "\<not> isl (fst (beginLogin oauthEnv (Inr GOOGLE) (Some ''/home'') sampleWorld))" by code_simp
  from run_Inr [OF this] obtain url
    where run: "beginLogin oauthEnv (Inr GOOGLE) (Some ''/home'') sampleWorld = (Inr url, begun)"
    unfolding begun_def by auto
  have between: "(pending_step oauthEnv (stateText oauthEnv (w_draws sampleWorld)))\<^sup>*\<^sup>* begun interleaved"
    unfolding interleaved_def by (intro r_into_rtranclp pending_step.login)
  have draws: "w_draws interleaved = 4" by code_simp
  have "distinct (map (stateText oauthEnv) [0..<4])" by code_simp
  then have fresh: "freshStates oauthEnv (w_draws interleaved)"
    unfolding draws freshStates_def by (simp only: distinct_map set_upt atLeast0LessThan)
  have h: "w_redisUp sampleWorld" "w_redisUp interleaved"
    "w_now interleaved < w_now sampleWorld + fc_oauthStateTtlMs (e_fed oauthEnv) div 1000 * 1000"
    "e_randomBytes oauthEnv (w_draws sampleWorld) OAUTH_STATE_BYTES \<noteq> []" by code_simp+
  from pkce_verifier_matches_challenge [OF run h(1,2) between fresh h(3,4), of "''code''" anyDevice] run
  show ?thesis by (metis fst_conv)
qed

theorem oauth_login_opens_session_of_profile_user_witness:
  "\<exists>r w' s. loginOrSignup oauthEnv unverifiedProfile oneToken anyDevice lockedWorld = (Inr r, w') \<and>
     s_id s = ol_sessionId r \<and> s_revokedAt s = None \<and> sessions (w_db w') = sessions (w_db lockedWorld) @ [s]"
proof -
  obtain r w' where run: "loginOrSignup oauthEnv unverifiedProfile oneToken anyDevice lockedWorld = (Inr r, w')"
    using oauth_skips_lock_and_second_factor by blast
  from oauth_login_opens_session_of_profile_user [OF run] run show ?thesis by blast
qed

theorem relative_redirect_loses_login_witness:
  "\<exists>w'. oauthCallback oauthEnv ''google''
     \<lparr>hr_user = None, hr_params = [], hr_headers = [], hr_method = ''GET'', hr_path = [], hr_ip = None,
       hr_remoteAddress = None\<rparr> (Some ''code'') (Some (stateText oauthEnv 0)) None begun = (Inl (JsError ''Invalid URL''), w')"
proof -
  let ?req = "\<lparr>hr_user = None, hr_params = [], hr_headers = [], hr_method = ''GET'', hr_path = [], hr_ip = None,
       hr_remoteAddress = None\<rparr>"
  let ?meta = "\<lparr>lm_ipAddress = extractClientIp ?req, lm_userAgent = extractUserAgent ?req, lm_deviceName = None\<rparr>"
  let ?run = "handleCallback oauthEnv (Inr GOOGLE) ''code'' (stateText oauthEnv 0) ?meta begun"
  have "case fst ?run of Inr c \<Rightarrow> \<not> Option.is_none (cb_result c) \<and> cb_mode c = LoginMode \<and> cb_redirectTo c = Some ''/home''
      | Inl _ \<Rightarrow> False" by code_simp
  then obtain o1 w' r where out: "?run = (Inr o1, w')" "cb_result o1 = Some r" "cb_mode o1 = LoginMode"
    "cb_redirectTo o1 = Some ''/home''"
    by (cases ?run) (auto split: sum.splits simp: Option.is_none_def)
  have "o1 = \<lparr>cb_result = Some r, cb_mode = LoginMode, cb_redirectTo = Some ''/home''\<rparr>"
    using out(2-4) by (cases o1) simp
  note run = out(1) [unfolded this]
  have target: "startsWith ''/home'' ''/''" "\<not> startsWith ''/home'' ''//''" by code_simp+
  have url: "e_urlSet oauthEnv ''/home'' ps = None" for ps by (simp add: oauthEnv_def startsWith_def)
  have slug: "resolveProvider oauthEnv ''google'' begun = (Inr (Inr GOOGLE), begun)"
  proof -
    have "map_of PROVIDER_SLUGS (toLowerCase ''google'') = Some GOOGLE" by code_simp
    then show ?thesis by (simp add: resolveProvider_def orThrow_run)
  qed
  obtain x st where st: "stateText oauthEnv 0 = x # st"
  proof -
    have "stateText oauthEnv 0 \<noteq> []" by code_simp
    with that show thesis by (cases "stateText oauthEnv 0") auto
  qed
  from relative_redirect_loses_login [OF target url slug, of "CHR ''c''" "''ode''" x st ?req r w'] run st
  show ?thesis by auto
qed

end
