(* ===== verification/Sso.thy ===== *)
theory Sso
  imports Secrets Auth Memberships
begin

text \<open>
  Single sign-on with SAML (\<open>modules/sso\<close>), first part: reading the claims of an assertion
  (\<open>utils/attribute-mapper.util.ts\<close>), the configurations of organizations
  (\<open>services/sso-configuration.service.ts\<close>), the SAML client
  (\<open>services/saml-provider.service.ts\<close>) and the SSO-only rule for password logins
  (\<open>services/sso-enforcement.service.ts\<close>).
\<close>

section \<open>Constants and errors\<close>

definition relayKey :: "string \<Rightarrow> string" where
  "relayKey st = ''sso:relay:'' @ st"

definition replayKey :: "string \<Rightarrow> string" where
  "replayKey assertionId = ''sso:assertion:'' @ assertionId"

definition SSO_RELAY_STATE_BYTES :: nat where "SSO_RELAY_STATE_BYTES = 32"

definition DEFAULT_ATTRIBUTE_MAPPING :: "(string \<times> string) list" where
  "DEFAULT_ATTRIBUTE_MAPPING =
     [(''email'', ''http://schemas.xmlsoap.org/ws/2005/05/identity/claims/emailaddress''),
      (''firstName'', ''http://schemas.xmlsoap.org/ws/2005/05/identity/claims/givenname''),
      (''lastName'', ''http://schemas.xmlsoap.org/ws/2005/05/identity/claims/surname''),
      (''department'', ''department''),
      (''jobTitle'', ''jobTitle''),
      (''groups'', ''http://schemas.xmlsoap.org/claims/Group'')]"

definition ssoOrgNotFound :: exn where
  "ssoOrgNotFound = appExn ''SSO_ORG_NOT_FOUND'' ''Organization not found'' 404"

definition ssoNotConfigured :: exn where
  "ssoNotConfigured =
     appExn ''SSO_NOT_CONFIGURED'' ''SSO is not configured or enabled for this organization'' 404"

definition invalidAssertion :: "string \<Rightarrow> exn" where
  "invalidAssertion msg = appExn ''SSO_INVALID_ASSERTION'' msg 401"

definition ssoConfigMissing :: exn where
  "ssoConfigMissing = NotFoundAppException ''SSO configuration not found''"

section \<open>Claims: \<open>sso/utils/attribute-mapper.util.ts\<close>\<close>

record MappedSamlAttributes =
  ma_email :: string
  ma_firstName :: "string option"
  ma_lastName :: "string option"
  ma_department :: "string option"
  ma_jobTitle :: "string option"
  ma_groups :: "string list"

text \<open>\<open>key in v\<close>, a TypeError on a value that is no object.\<close>

definition inM :: "env \<Rightarrow> string \<Rightarrow> jsval \<Rightarrow> bool act" where
  "inM E k v = (if v \<noteq> JNull \<and> js_typeof v \<in> {TObject, TFunction}
     then returnM (k \<in> set (js_keys v) \<or> js_builtin (e_js E) v k \<noteq> JUndefined)
     else throwM (JsError ''Cannot use in operator''))"

definition readClaim :: "env \<Rightarrow> jsval \<Rightarrow> string \<Rightarrow> jsval act" where
  "readClaim E profile key =
     bindM (inM E key profile) (\<lambda>own.
     if own then returnM (js_get (e_js E) profile key)
     else
       (let attributes = js_get (e_js E) profile ''attributes'' in
        if \<not> js_truthy attributes then returnM JUndefined
        else bindM (inM E key attributes) (\<lambda>there.
          returnM (if there then js_get (e_js E) attributes key else JUndefined))))"

definition toStringValue :: "env \<Rightarrow> jsval \<Rightarrow> string option" where
  "toStringValue E v =
     (if js_nullish v then None
      else (case v of
              JArr [] \<Rightarrow> None
            | JArr (x # xs) \<Rightarrow> Some (js_String (e_js E) x)
            | _ \<Rightarrow> Some (js_String (e_js E) v)))"

definition toStringArray :: "env \<Rightarrow> jsval \<Rightarrow> string list" where
  "toStringArray E v =
     (if js_nullish v then []
      else (case v of JArr xs \<Rightarrow> map (js_String (e_js E)) xs | _ \<Rightarrow> [js_String (e_js E) v]))"

text \<open>The name of a claim: the mapping of the organization over the default one.\<close>

definition claimName :: "(string \<times> string) list \<Rightarrow> string \<Rightarrow> string" where
  "claimName mapping name =
     orDefault (orElse (map_of mapping name) (map_of DEFAULT_ATTRIBUTE_MAPPING name)) name"

definition nameIdEmail :: "env \<Rightarrow> jsval \<Rightarrow> jsval" where
  "nameIdEmail E profile = (case js_get (e_js E) profile ''nameID'' of
     JStr s \<Rightarrow> (if js_includes s ''@'' then JStr s else JNull) | _ \<Rightarrow> JNull)"

text \<open>\<open>(email ?? '').trim().toLowerCase()\<close> for the first claim that is there.\<close>

definition mappedEmail :: "env \<Rightarrow> jsval \<Rightarrow> string option \<Rightarrow> string act" where
  "mappedEmail E profile claim =
     (let get = js_get (e_js E) profile;
          other = (if \<not> js_nullish (get ''email'') then get ''email''
                   else if \<not> js_nullish (get ''mail'') then get ''mail'' else nameIdEmail E profile)
      in case claim of
           Some s \<Rightarrow> returnM (normalizeEmail s)
         | None \<Rightarrow> (if js_nullish other then returnM []
                    else (case other of JStr s \<Rightarrow> returnM (normalizeEmail s)
                          | _ \<Rightarrow> throwM (JsError ''trim is not a function''))))"

definition mapSamlAttributes ::
  "env \<Rightarrow> jsval \<Rightarrow> (string \<times> string) list \<Rightarrow> MappedSamlAttributes act" where
  "mapSamlAttributes E profile mapping =
     (let claim = (\<lambda>name. readClaim E profile (claimName mapping name)) in
      bindM (claim ''email'') (\<lambda>emailClaim.
      bindM (mappedEmail E profile (toStringValue E emailClaim)) (\<lambda>email.
      bindM (claim ''firstName'') (\<lambda>firstName.
      bindM (claim ''lastName'') (\<lambda>lastName.
      bindM (claim ''department'') (\<lambda>department.
      bindM (claim ''jobTitle'') (\<lambda>jobTitle.
      bindM (claim ''groups'') (\<lambda>groups.
      returnM \<lparr>ma_email = email, ma_firstName = toStringValue E firstName,
        ma_lastName = toStringValue E lastName, ma_department = toStringValue E department,
        ma_jobTitle = toStringValue E jobTitle, ma_groups = toStringArray E groups\<rparr>))))))))"

section \<open>SsoConfigurationService\<close>

record CreateSsoConfigurationDto =
  cd_organizationId :: string
  cd_providerName :: string
  cd_entryPoint :: string
  cd_issuer :: string
  cd_certificate :: string
  cd_metadataUrl :: "string option"
  cd_isEnabled :: "bool option"
  cd_allowIdpInitiated :: "bool option"
  cd_ssoOnlyMode :: "bool option"
  cd_attributeMapping :: "((string \<times> string) list) option"
  cd_defaultRoleSlug :: "string option"

record UpdateSsoConfigurationDto =
  ud_providerName :: "string option"
  ud_entryPoint :: "string option"
  ud_issuer :: "string option"
  ud_certificate :: "string option"
  ud_metadataUrl :: "string option"
  ud_isEnabled :: "bool option"
  ud_allowIdpInitiated :: "bool option"
  ud_ssoOnlyMode :: "bool option"
  ud_attributeMapping :: "((string \<times> string) list) option"
  ud_defaultRoleSlug :: "string option"

record SsoConfigurationResponseDto =
  sd_id :: string
  sd_organizationId :: string
  sd_providerName :: string
  sd_entryPoint :: string
  sd_issuer :: string
  sd_metadataUrl :: "string option"
  sd_isEnabled :: bool
  sd_allowIdpInitiated :: bool
  sd_ssoOnlyMode :: bool
  sd_attributeMapping :: "(string \<times> string) list"
  sd_defaultRoleSlug :: "string option"
  sd_createdAt :: int

definition ssoResponse :: "SsoConfiguration \<Rightarrow> SsoConfigurationResponseDto" where
  "ssoResponse c =
     \<lparr>sd_id = sc_id c, sd_organizationId = sc_organizationId c, sd_providerName = sc_providerName c,
      sd_entryPoint = sc_entryPoint c, sd_issuer = sc_issuer c, sd_metadataUrl = sc_metadataUrl c,
      sd_isEnabled = sc_isEnabled c, sd_allowIdpInitiated = sc_allowIdpInitiated c,
      sd_ssoOnlyMode = sc_ssoOnlyMode c, sd_attributeMapping = sc_attributeMapping c,
      sd_defaultRoleSlug = sc_defaultRoleSlug c, sd_createdAt = sc_createdAt c\<rparr>"

definition validateCertificate :: "string \<Rightarrow> unit act" where
  "validateCertificate certificate = throw_if (length (js_trim certificate) < 64)
     (appExn ''SSO_INVALID_METADATA'' ''Certificate appears invalid (too short)'' 400)"

definition sameProvider :: "string \<Rightarrow> string \<Rightarrow> SsoConfiguration \<Rightarrow> bool" where
  "sameProvider oid name c \<longleftrightarrow> sc_organizationId c = oid \<and> sc_providerName c = name"

definition createSsoConfiguration ::
  "env \<Rightarrow> CreateSsoConfigurationDto \<Rightarrow> string \<Rightarrow> SsoConfigurationResponseDto act" where
  "createSsoConfiguration E dto actorUserId =
     bindM (dbFind organizationsT (\<lambda>ob. o_id ob = cd_organizationId dto \<and> o_deletedAt ob = None)) (\<lambda>org.
     thenM (throw_if (org = None) ssoOrgNotFound)
     (thenM (validateCertificate (cd_certificate dto))
     (bindM (encryptSecret E (cd_certificate dto)) (\<lambda>encrypted.
      bindM (newId E) (\<lambda>cid.
      bindM nowM (\<lambda>now.
      bindM (dbCreate ssoConfigurationsT [''organizationId'', ''providerName'']
               (\<lambda>c. sc_id c = cid \<or> sameProvider (cd_organizationId dto) (cd_providerName dto) c)
               (\<lambda>d. \<exists>ob \<in> set (organizations d). o_id ob = cd_organizationId dto)
               \<lparr>sc_id = cid, sc_organizationId = cd_organizationId dto,
                sc_providerName = cd_providerName dto, sc_entryPoint = cd_entryPoint dto,
                sc_issuer = cd_issuer dto, sc_certificate = encrypted,
                sc_metadataUrl = cd_metadataUrl dto,
                sc_isEnabled = orDefault (cd_isEnabled dto) False,
                sc_allowIdpInitiated = orDefault (cd_allowIdpInitiated dto) False,
                sc_ssoOnlyMode = orDefault (cd_ssoOnlyMode dto) False,
                sc_attributeMapping = orDefault (cd_attributeMapping dto) DEFAULT_ATTRIBUTE_MAPPING,
                sc_defaultRoleSlug = cd_defaultRoleSlug dto, sc_createdAt = now\<rparr>) (\<lambda>created.
      thenM (auditRecord E SSO_CONFIG_CREATED AR_SSO_CONFIGURATION
               (auditOk (Some (sc_id created)) (Some actorUserId) None
                  [(''organizationId'', JStr (cd_organizationId dto)),
                   (''providerName'', JStr (cd_providerName dto))]))
      (returnM (ssoResponse created)))))))))"

definition findAllSsoForOrganization :: "string \<Rightarrow> (SsoConfigurationResponseDto list) act" where
  "findAllSsoForOrganization oid =
     bindM (dbFindMany ssoConfigurationsT (\<lambda>c. sc_organizationId c = oid)) (\<lambda>configs.
     returnM (map ssoResponse (sort_key sc_createdAt configs)))"

text \<open>The \<open>data\<close> clause of \<open>update\<close>; \<open>encrypted\<close> is the new certificate.\<close>

definition patchSso :: "UpdateSsoConfigurationDto \<Rightarrow> string option \<Rightarrow> SsoConfiguration \<Rightarrow> SsoConfiguration" where
  "patchSso dto encrypted c =
     setIf (ud_providerName dto) (\<lambda>x c. c\<lparr>sc_providerName := x\<rparr>)
     (setIf (ud_entryPoint dto) (\<lambda>x c. c\<lparr>sc_entryPoint := x\<rparr>)
     (setIf (ud_issuer dto) (\<lambda>x c. c\<lparr>sc_issuer := x\<rparr>)
     (setIf encrypted (\<lambda>x c. c\<lparr>sc_certificate := x\<rparr>)
     (setIf (ud_metadataUrl dto) (\<lambda>x c. c\<lparr>sc_metadataUrl := Some x\<rparr>)
     (setIf (ud_isEnabled dto) (\<lambda>x c. c\<lparr>sc_isEnabled := x\<rparr>)
     (setIf (ud_allowIdpInitiated dto) (\<lambda>x c. c\<lparr>sc_allowIdpInitiated := x\<rparr>)
     (setIf (ud_ssoOnlyMode dto) (\<lambda>x c. c\<lparr>sc_ssoOnlyMode := x\<rparr>)
     (setIf (ud_attributeMapping dto) (\<lambda>x c. c\<lparr>sc_attributeMapping := x\<rparr>)
     (setIf (ud_defaultRoleSlug dto) (\<lambda>x c. c\<lparr>sc_defaultRoleSlug := Some x\<rparr>) c)))))))))"

definition updateSsoConfiguration ::
  "env \<Rightarrow> string \<Rightarrow> UpdateSsoConfigurationDto \<Rightarrow> string \<Rightarrow> SsoConfigurationResponseDto act" where
  "updateSsoConfiguration E cid dto actorUserId =
     bindM (dbFind ssoConfigurationsT (\<lambda>c. sc_id c = cid)) (\<lambda>row.
     bindM (orThrow row ssoConfigMissing) (\<lambda>existing.
     thenM (whenM (truthy_str (ud_certificate dto))
              (validateCertificate (orDefault (ud_certificate dto) [])))
     (bindM (if truthy_str (ud_certificate dto)
             then bindM (encryptSecret E (orDefault (ud_certificate dto) [])) (\<lambda>c. returnM (Some c))
             else returnM None) (\<lambda>encrypted.
      bindM (getsM (\<lambda>w. \<exists>c \<in> set (ssoConfigurations (w_db w)). sc_id c \<noteq> cid \<and>
               sameProvider (sc_organizationId existing)
                 (orDefault (ud_providerName dto) (sc_providerName existing)) c)) (\<lambda>clash.
      thenM (throw_if clash (PrismaKnownError ''P2002'' (TargetFields [''organizationId'', ''providerName''])))
      (bindM (dbUpdate ssoConfigurationsT (\<lambda>c. sc_id c = cid) (patchSso dto encrypted)) (\<lambda>updated.
       thenM (auditRecord E SSO_CONFIG_UPDATED AR_SSO_CONFIGURATION
                (auditOk (Some cid) (Some actorUserId) None []))
       (returnM (ssoResponse updated)))))))))"

definition removeSsoConfiguration :: "env \<Rightarrow> string \<Rightarrow> string \<Rightarrow> unit act" where
  "removeSsoConfiguration E cid actorUserId =
     bindM (dbFind ssoConfigurationsT (\<lambda>c. sc_id c = cid)) (\<lambda>row.
     thenM (throw_if (row = None) ssoConfigMissing)
     (thenM (dbDelete ssoConfigurationsT (\<lambda>c. sc_id c = cid))
     (auditRecord E SSO_CONFIG_DELETED AR_SSO_CONFIGURATION
        (auditOk (Some cid) (Some actorUserId) None []))))"

text \<open>The oldest enabled configuration of the organization, with its certificate in the clear.\<close>

definition enabledConfig :: "string \<Rightarrow> database \<Rightarrow> SsoConfiguration option" where
  "enabledConfig oid d = findFirst (\<lambda>_. True) (sort_key sc_createdAt
     (findMany (\<lambda>c. sc_organizationId c = oid \<and> sc_isEnabled c) (ssoConfigurations d)))"

definition getEnabledConfigForOrgSlug :: "env \<Rightarrow> string \<Rightarrow> (SsoConfiguration \<times> string) act" where
  "getEnabledConfigForOrgSlug E slug =
     bindM (dbFind organizationsT (\<lambda>ob. o_slug ob = toLowerCase slug \<and> o_deletedAt ob = None)) (\<lambda>orow.
     bindM (orThrow orow ssoOrgNotFound) (\<lambda>org.
     bindM (getsM (\<lambda>w. enabledConfig (o_id org) (w_db w))) (\<lambda>crow.
     bindM (orThrow crow ssoNotConfigured) (\<lambda>config.
     bindM (decryptSecret E (sc_certificate config)) (\<lambda>certificate.
     returnM (config\<lparr>sc_certificate := certificate\<rparr>, o_id org))))))"

definition isSsoOnlyForUser :: "string \<Rightarrow> bool act" where
  "isSsoOnlyForUser uid =
     bindM (dbFindMany membershipsT (\<lambda>m. m_userId m = uid \<and> m_deletedAt m = None)) (\<lambda>ms.
     if ms = [] then returnM False
     else bindM (dbCount ssoConfigurationsT (\<lambda>c. sc_organizationId c \<in> set (map m_organizationId ms) \<and>
                   sc_isEnabled c \<and> sc_ssoOnlyMode c)) (\<lambda>n. returnM (0 < n)))"

section \<open>SamlProviderService\<close>

text \<open>\<open>s.replace(p, '')\<close> with a global pattern without operators.\<close>

function removeText :: "string \<Rightarrow> string \<Rightarrow> string" where
  "removeText p [] = []"
| "removeText p (c # s) = (if p \<noteq> [] \<and> startsWith (c # s) p then removeText p (drop (length p) (c # s))
     else c # removeText p s)"
  by pat_completeness auto
termination
  by (relation "measure (\<lambda>(p, s). length s)") (auto simp: neq_Nil_conv)

definition normalizeCert :: "string \<Rightarrow> string" where
  "normalizeCert certificate =
     (let trimmed = js_trim certificate in
      if js_includes trimmed ''BEGIN CERTIFICATE''
      then filter (\<lambda>c. \<not> js_space c) (removeText ''-----END CERTIFICATE-----''
             (removeText ''-----BEGIN CERTIFICATE-----'' trimmed))
      else filter (\<lambda>c. \<not> js_space c) trimmed)"

definition samlConfigOf :: "env \<Rightarrow> SsoConfiguration \<Rightarrow> string \<Rightarrow> SamlConfig" where
  "samlConfigOf E config organizationSlug =
     \<lparr>sm_entryPoint = sc_entryPoint config, sm_idpCert = normalizeCert (sc_certificate config),
      sm_idpIssuer = sc_issuer config, sm_issuer = fc_samlEntityId (e_fed E),
      sm_callbackUrl = fc_samlAcsBaseUrl (e_fed E) @ ''/'' @ organizationSlug @ ''/acs'',
      sm_audience = fc_samlEntityId (e_fed E), sm_wantAssertionsSigned = True,
      sm_wantAuthnResponseSigned = False, sm_acceptedClockSkewMs = fc_samlClockSkewMs (e_fed E),
      sm_validateInResponseTo = ''never'', sm_disableRequestedAuthnContext = True\<rparr>"

definition buildClient :: "env \<Rightarrow> SsoConfiguration \<Rightarrow> string \<Rightarrow> SamlConfig act" where
  "buildClient E config organizationSlug =
     (let c = samlConfigOf E config organizationSlug in
      thenM (throw_if (\<not> e_samlOk E c) (JsError ''SAML options'')) (returnM c))"

definition buildLoginUrl :: "env \<Rightarrow> SsoConfiguration \<Rightarrow> string \<Rightarrow> string \<Rightarrow> string act" where
  "buildLoginUrl E config organizationSlug relayState =
     bindM (buildClient E config organizationSlug) (\<lambda>client.
     orThrow (e_samlLoginUrl E client relayState) (JsError ''getAuthorizeUrlAsync''))"

definition extractAssertionId :: "env \<Rightarrow> jsval \<Rightarrow> string option" where
  "extractAssertionId E profile =
     (let i = js_get (e_js E) profile ''ID'' in
      case (if js_nullish i then js_get (e_js E) profile ''assertionId'' else i) of
        JStr s \<Rightarrow> Some s | _ \<Rightarrow> None)"

definition validateResponse ::
  "env \<Rightarrow> SsoConfiguration \<Rightarrow> string \<Rightarrow> string \<Rightarrow> string option \<Rightarrow> (jsval \<times> string option) act" where
  "validateResponse E config organizationSlug samlResponse relayState =
     bindM (buildClient E config organizationSlug) (\<lambda>client.
     bindM nowM (\<lambda>now.
     case e_samlValidate E now client samlResponse (if truthy_str relayState then relayState else None) of
       Inl msg \<Rightarrow> throwM (invalidAssertion (''SAML assertion validation failed: '' @ msg))
     | Inr None \<Rightarrow> throwM (invalidAssertion ''SAML response did not contain a valid assertion'')
     | Inr (Some profile) \<Rightarrow> returnM (profile, extractAssertionId E profile)))"

section \<open>SsoEnforcementService\<close>

definition SUPER_ADMIN_SLUGS :: "string list" where
  "SUPER_ADMIN_SLUGS = [''super-admin'', ''superadmin'']"

definition isSuperAdmin :: "string \<Rightarrow> bool act" where
  "isSuperAdmin uid = getsM (\<lambda>w. 0 < countRows (\<lambda>ur.
     membershipExists (w_db w) (\<lambda>m. m_userId m = uid \<and> m_deletedAt m = None) (ur_membershipId ur) \<and>
     roleExists (w_db w) (\<lambda>r. r_slug r \<in> set SUPER_ADMIN_SLUGS \<and> r_deletedAt r = None) (ur_roleId ur))
     (userRoles (w_db w)))"

text \<open>The hook registered by \<open>onModuleInit\<close>.\<close>

definition ssoEvaluate :: "User \<Rightarrow> SsoCheck act" where
  "ssoEvaluate user =
     bindM (isSsoOnlyForUser (u_id user)) (\<lambda>ssoOnly.
     if \<not> ssoOnly then returnM \<lparr>so_blocked = False, so_reason = None\<rparr>
     else bindM (isSuperAdmin (u_id user)) (\<lambda>super.
       if super then returnM \<lparr>so_blocked = False, so_reason = None\<rparr>
       else returnM \<lparr>so_blocked = True,
         so_reason = Some ''Your organization enforces SSO-only login. Use the SSO portal to sign in.''\<rparr>))"

end
