(* ===== verification/SsoLogin.thy ===== *)
theory SsoLogin
  imports Sso
begin

text \<open>
  Single sign-on, second part: just-in-time provisioning
  (\<open>sso/services/jit-provisioning.service.ts\<close>) and the login itself
  (\<open>sso/services/sso-login.service.ts\<close>).
\<close>

section \<open>JitProvisioningService\<close>

text \<open>\<open>group.trim().toLowerCase().replace(/\s+/g, '-')\<close>.\<close>

function dashSpaces :: "string \<Rightarrow> string" where
  "dashSpaces [] = []"
| "dashSpaces (c # s) = (if js_space c then CHR ''-'' # dashSpaces (dropWhile js_space s) else c # dashSpaces s)"
  by pat_completeness auto
termination
  by (relation "measure length") (auto simp: le_imp_less_Suc length_dropWhile_le)

definition groupSlug :: "string \<Rightarrow> string" where
  "groupSlug g = dashSpaces (toLowerCase (js_trim g))"

definition wantedSlugs :: "string option \<Rightarrow> string list \<Rightarrow> string list" where
  "wantedSlugs defaultRoleSlug groups =
     remdups ((if truthy_str defaultRoleSlug then [orDefault defaultRoleSlug []] else []) @ map groupSlug groups)"

definition assignJitRoles :: "string \<Rightarrow> string \<Rightarrow> string option \<Rightarrow> string list \<Rightarrow> unit act" where
  "assignJitRoles mid oid defaultRoleSlug groups =
     (let slugs = wantedSlugs defaultRoleSlug groups in
      whenM (slugs \<noteq> [])
        (bindM (dbFindMany rolesT (\<lambda>r. r_slug r \<in> set slugs \<and> r_deletedAt r = None \<and>
                  (r_organizationId r = Some oid \<or> r_organizationId r = None))) (\<lambda>found.
         forM found (\<lambda>r. upsertUserRole mid (r_id r)))))"

text \<open>\<open>membership.upsert\<close> on the unique pair of user and organization.\<close>

definition upsertMembership :: "env \<Rightarrow> string \<Rightarrow> string \<Rightarrow> MappedSamlAttributes \<Rightarrow> Membership act" where
  "upsertMembership E uid oid attrs =
     bindM (dbFind membershipsT (\<lambda>m. m_userId m = uid \<and> m_organizationId m = oid)) (\<lambda>row.
     case row of
       None \<Rightarrow> createMembership E uid oid (\<lambda>m. m\<lparr>m_department := ma_department attrs, m_jobTitle := ma_jobTitle attrs\<rparr>)
     | Some _ \<Rightarrow> dbUpdate membershipsT (\<lambda>m. m_userId m = uid \<and> m_organizationId m = oid)
         (\<lambda>m. setIf (ma_department attrs) (\<lambda>x m. m\<lparr>m_department := Some x\<rparr>)
              (setIf (ma_jobTitle attrs) (\<lambda>x m. m\<lparr>m_jobTitle := Some x\<rparr>) (m\<lparr>m_status := MemberActive\<rparr>))))"

definition createSsoUser :: "env \<Rightarrow> MappedSamlAttributes \<Rightarrow> string \<Rightarrow> User act" where
  "createSsoUser E attrs email =
     bindM (generateSecureToken E 24) (\<lambda>hex.
     bindM (hashPassword E (''!sso:'' @ hex)) (\<lambda>passwordHash.
     bindM (newId E) (\<lambda>uid.
     bindM nowM (\<lambda>now.
     dbCreate usersT [''email''] (\<lambda>u. u_id u = uid \<or> u_email u = email) (\<lambda>_. True)
       \<lparr>u_id = uid, u_email = email, u_passwordHash = passwordHash,
        u_firstName = ma_firstName attrs, u_lastName = ma_lastName attrs, u_status = UserActive,
        u_isEmailVerified = True, u_tokenVersion = 0, u_failedLoginAttempts = 0,
        u_lockUntil = None, u_lastLoginAt = None, u_createdAt = now, u_deletedAt = None\<rparr>))))"

definition provisionUser :: "env \<Rightarrow> MappedSamlAttributes \<Rightarrow> string \<Rightarrow> (User \<times> bool) act" where
  "provisionUser E attrs email =
     bindM (dbFind usersT (\<lambda>u. u_email u = email)) (\<lambda>row.
     case row of
       None \<Rightarrow> bindM (createSsoUser E attrs email) (\<lambda>user. returnM (user, True))
     | Some user \<Rightarrow>
         if u_status user \<noteq> UserActive \<and> u_deletedAt user = None then
           bindM (dbUpdate usersT (\<lambda>u. u_id u = u_id user) (\<lambda>u. u\<lparr>u_status := UserActive\<rparr>)) (\<lambda>updated.
           returnM (updated, False))
         else returnM (user, False))"

definition provision :: "env \<Rightarrow> string \<Rightarrow> MappedSamlAttributes \<Rightarrow> string option \<Rightarrow> User act" where
  "provision E oid attrs defaultRoleSlug =
     transaction
     (bindM (provisionUser E attrs (normalizeEmail (ma_email attrs))) (\<lambda>(user, isNewUser).
      bindM (upsertMembership E (u_id user) oid attrs) (\<lambda>membership.
      thenM (assignJitRoles (m_id membership) oid defaultRoleSlug (ma_groups attrs))
      (thenM (auditRecord E SSO_JIT_PROVISIONED AR_MEMBERSHIP
                (auditOk (Some (m_id membership)) (Some (u_id user)) (Some (u_email user))
                   [(''organizationId'', JStr oid), (''isNewUser'', JBool isNewUser),
                    (''department'', js_of_opt (ma_department attrs)),
                    (''jobTitle'', js_of_opt (ma_jobTitle attrs)),
                    (''groups'', JArr (map JStr (ma_groups attrs)))]))
      (returnM user)))))"

section \<open>SsoLoginService\<close>

record SsoLoginResult =
  sl_user :: SafeUser
  sl_tokens :: TokenPair
  sl_sessionId :: string

definition ssoIdpInitiatedDisabled :: exn where
  "ssoIdpInitiatedDisabled = appExn ''SSO_IDP_INITIATED_DISABLED''
     ''IdP-initiated SSO is not allowed for this organization'' 403"

definition ssoReplayDetected :: exn where
  "ssoReplayDetected = appExn ''SSO_REPLAY_DETECTED'' ''SAML assertion replay detected'' 401"

definition ssoEmailMissing :: exn where
  "ssoEmailMissing =
     appExn ''SSO_EMAIL_MISSING'' ''SAML assertion did not include an email address'' 400"

definition recordSsoFailure :: "env \<Rightarrow> string \<Rightarrow> string \<Rightarrow> string \<Rightarrow> unit act" where
  "recordSsoFailure E oid organizationSlug reason =
     auditRecord E SSO_LOGIN_FAILURE AR_SSO_CONFIGURATION
       (auditFail None None None [(''organizationId'', JStr oid),
          (''organizationSlug'', JStr organizationSlug), (''reason'', JStr reason)])"

definition isKnownRelayState :: "string \<Rightarrow> bool act" where
  "isKnownRelayState relayState = cacheExists (relayKey relayState)"

definition guardReplay :: "env \<Rightarrow> string option \<Rightarrow> string \<Rightarrow> string \<Rightarrow> unit act" where
  "guardReplay E assertionId organizationSlug oid =
     (if \<not> truthy_str assertionId then returnM ()
      else
        (let key = replayKey (orDefault assertionId []) in
         bindM (cacheExists key) (\<lambda>seen.
         thenM (whenM seen (thenM (recordSsoFailure E oid organizationSlug ''replay_detected'')
                             (throwM ssoReplayDetected)))
         (bindM nowM (\<lambda>now.
          cacheSet key (CReplay now) (fc_samlReplayCacheTtlMs (e_fed E) div 1000))))))"

definition beginSpInitiatedLogin :: "env \<Rightarrow> string \<Rightarrow> string act" where
  "beginSpInitiatedLogin E organizationSlug =
     bindM (getEnabledConfigForOrgSlug E organizationSlug) (\<lambda>(config, _).
     bindM (generateSecureToken E SSO_RELAY_STATE_BYTES) (\<lambda>relayState.
     thenM (cacheSet (relayKey relayState) (CRelayState organizationSlug)
              (fc_oauthStateTtlMs (e_fed E) div 1000))
     (buildLoginUrl E config organizationSlug relayState)))"

text \<open>From the first line of \<open>handleAssertion\<close> to the check that the login may be IdP-initiated.\<close>

definition admitAssertion ::
  "env \<Rightarrow> SsoConfiguration \<Rightarrow> string \<Rightarrow> string \<Rightarrow> string option \<Rightarrow> bool act" where
  "admitAssertion E config oid organizationSlug relayState =
     bindM (if truthy_str relayState then isKnownRelayState (orDefault relayState []) else returnM False) (\<lambda>known.
     let isIdpInitiated = (\<not> truthy_str relayState \<or> \<not> known) in
     thenM (whenM (isIdpInitiated \<and> \<not> sc_allowIdpInitiated config)
              (thenM (recordSsoFailure E oid organizationSlug ''idp_initiated_disabled'')
               (throwM ssoIdpInitiatedDisabled)))
     (thenM (whenM (truthy_str relayState) (cacheDelete [relayKey (orDefault relayState [])]))
      (returnM isIdpInitiated)))"

definition openSsoSession ::
  "env \<Rightarrow> SsoConfiguration \<Rightarrow> string \<Rightarrow> User \<Rightarrow> bool \<Rightarrow> LoginMetadata \<Rightarrow> SsoLoginResult act" where
  "openSsoSession E config oid user isIdpInitiated meta =
     bindM (createSession E (u_id user) meta) (\<lambda>created.
     bindM (resolveForOrganization (u_id user) oid) (\<lambda>orgCtx.
     bindM (case orgCtx of None \<Rightarrow> resolveDefault (u_id user) | Some ctx \<Rightarrow> returnM ctx) (\<lambda>resolved.
     bindM (signAccessToken E (buildAccessPayload user (s_id (cs_session created)) resolved)) (\<lambda>accessToken.
     thenM (auditRecord E SSO_LOGIN_SUCCESS AR_SSO_CONFIGURATION
              (auditOk (Some (sc_id config)) (Some (u_id user)) (Some (u_email user))
                 [(''organizationId'', JStr oid), (''idpInitiated'', JBool isIdpInitiated)]))
     (bindM nowM (\<lambda>now.
      returnM
        \<lparr>sl_user = stripSecrets user,
         sl_tokens = \<lparr>tp_accessToken = accessToken, tp_refreshToken = cs_refreshToken created,
           tp_accessTokenExpiresAt = now + 15 * 60 * 1000,
           tp_refreshTokenExpiresAt = cs_refreshTokenExpiresAt created\<rparr>,
         sl_sessionId = s_id (cs_session created)\<rparr>))))))"

definition handleAssertion ::
  "env \<Rightarrow> string \<Rightarrow> string \<Rightarrow> string option \<Rightarrow> LoginMetadata \<Rightarrow> SsoLoginResult act" where
  "handleAssertion E organizationSlug samlResponse relayState meta =
     bindM (getEnabledConfigForOrgSlug E organizationSlug) (\<lambda>(config, oid).
     bindM (admitAssertion E config oid organizationSlug relayState) (\<lambda>isIdpInitiated.
     bindM (validateResponse E config organizationSlug samlResponse relayState) (\<lambda>(profile, assertionId).
     thenM (guardReplay E assertionId organizationSlug oid)
     (bindM (mapSamlAttributes E profile (sc_attributeMapping config)) (\<lambda>attrs.
      thenM (whenM (ma_email attrs = [])
               (thenM (recordSsoFailure E oid organizationSlug ''email_missing'') (throwM ssoEmailMissing)))
      (bindM (provision E oid attrs (sc_defaultRoleSlug config)) (\<lambda>user.
       openSsoSession E config oid user isIdpInitiated meta)))))))"

end
