(* ===== verification/MfaLogin.thy ===== *)
theory MfaLogin
  imports Mfa
begin

text \<open>
  The second step of a login (\<open>mfa/services/mfa-challenge.service.ts\<close>,
  \<open>mfa/services/mfa-login.service.ts\<close>) and the MFA policy of organizations
  (\<open>mfa/services/mfa-policy.service.ts\<close>, \<open>mfa/guards/mfa-required.guard.ts\<close>).
\<close>

section \<open>Data\<close>

datatype MfaChallengeMethod = TOTP | BACKUP_CODE

fun methodName :: "MfaChallengeMethod \<Rightarrow> string" where
  "methodName TOTP = ''totp''"
| "methodName BACKUP_CODE = ''backup_code''"

definition methodOf :: "string \<Rightarrow> MfaChallengeMethod option" where
  "methodOf s = (if s = ''totp'' then Some TOTP else if s = ''backup_code'' then Some BACKUP_CODE else None)"

record VerifyMfaChallengeDto =
  vc_challengeToken :: string
  vc_method :: MfaChallengeMethod
  vc_code :: string

section \<open>MfaChallengeService\<close>

definition issueMfaChallenge :: "env \<Rightarrow> string \<Rightarrow> LoginMetadata \<Rightarrow> (string \<times> int \<times> MfaChallenge) act" where
  "issueMfaChallenge E uid meta =
     bindM (generateSecureToken E (fc_mfaChallengeTokenBytes (e_fed E))) (\<lambda>challengeToken.
     let tokenHash = hashToken E challengeToken in
     bindM nowM (\<lambda>now.
     let expiresAt = now + fc_mfaChallengeTtlMs (e_fed E) in
     bindM (newId E) (\<lambda>cid.
     bindM (dbCreate mfaChallengesT [''tokenHash''] (\<lambda>c. mc_id c = cid \<or> mc_tokenHash c = tokenHash)
              (\<lambda>d. \<exists>u \<in> set (users d). u_id u = uid)
              \<lparr>mc_id = cid, mc_userId = uid, mc_tokenHash = tokenHash, mc_expiresAt = expiresAt,
               mc_consumedAt = None, mc_ipAddress = lm_ipAddress meta, mc_userAgent = lm_userAgent meta,
               mc_deviceName = lm_deviceName meta, mc_attempts = 0\<rparr>) (\<lambda>challenge.
     returnM (challengeToken, expiresAt, challenge)))))"

definition challengeNotFound :: exn where
  "challengeNotFound = appExn ''MFA_CHALLENGE_NOT_FOUND'' ''MFA challenge not found'' 401"
definition challengeUsed :: exn where
  "challengeUsed = appExn ''MFA_CHALLENGE_USED'' ''MFA challenge already used'' 401"
definition challengeExpired :: exn where
  "challengeExpired = appExn ''MFA_CHALLENGE_EXPIRED'' ''MFA challenge expired'' 401"
definition tooManyAttempts :: exn where
  "tooManyAttempts = appExn ''MFA_TOO_MANY_ATTEMPTS'' ''Too many failed attempts; please re-authenticate'' 429"

text \<open>\<open>consume\<close>; despite its name it changes nothing.\<close>

definition consumeMfaChallenge :: "env \<Rightarrow> string \<Rightarrow> MfaChallenge act" where
  "consumeMfaChallenge E rawToken = transaction
     (bindM (dbFind mfaChallengesT (\<lambda>c. mc_tokenHash c = hashToken E rawToken)) (\<lambda>row.
      bindM (orThrow row challengeNotFound) (\<lambda>challenge.
      thenM (throw_if (mc_consumedAt challenge \<noteq> None) challengeUsed)
      (bindM nowM (\<lambda>now.
      thenM (throw_if (mc_expiresAt challenge \<le> now) challengeExpired)
      (thenM (throw_if (MAX_CHALLENGE_ATTEMPTS \<le> mc_attempts challenge) tooManyAttempts)
      (returnM challenge)))))))"

definition markAttempt :: "int \<Rightarrow> bool \<Rightarrow> MfaChallenge \<Rightarrow> MfaChallenge" where
  "markAttempt now success c =
     (if success then c\<lparr>mc_consumedAt := Some now, mc_attempts := mc_attempts c + 1\<rparr>
      else c\<lparr>mc_attempts := mc_attempts c + 1\<rparr>)"

definition recordAttempt :: "string \<Rightarrow> bool \<Rightarrow> unit act" where
  "recordAttempt challengeId success =
     bindM nowM (\<lambda>now.
     thenM (dbUpdate mfaChallengesT (\<lambda>c. mc_id c = challengeId) (markAttempt now success))
     (returnM ()))"

section \<open>MfaLoginService\<close>

definition issueChallenge :: "env \<Rightarrow> string \<Rightarrow> LoginMetadata \<Rightarrow> MfaChallengeRequired act" where
  "issueChallenge E uid meta =
     bindM (issueMfaChallenge E uid meta) (\<lambda>(challengeToken, expiresAt, _).
     thenM (auditRecord E MFA_CHALLENGED AR_MFA_FACTOR (auditOk (Some uid) (Some uid) None []))
     (returnM \<lparr>mr_challengeToken = challengeToken, mr_challengeExpiresAt = expiresAt,
               mr_allowedMethods = [methodName TOTP, methodName BACKUP_CODE]\<rparr>))"

text \<open>The hook of \<open>onModuleInit\<close>.\<close>

definition mfaHook :: "env \<Rightarrow> User \<Rightarrow> LoginMetadata \<Rightarrow> (MfaChallengeRequired option) act" where
  "mfaHook E user meta =
     bindM (isMfaEnabled (u_id user)) (\<lambda>enabled.
     if \<not> enabled then returnM None
     else bindM (issueChallenge E (u_id user) meta) (\<lambda>c. returnM (Some c)))"

definition accountNotActive :: exn where
  "accountNotActive = appExn ''ACCOUNT_INACTIVE'' ''Account is not active'' 403"

definition wrongFactor :: "MfaChallengeMethod \<Rightarrow> exn" where
  "wrongFactor m = appExn (if m = TOTP then ''INVALID_MFA_CODE'' else ''INVALID_BACKUP_CODE'')
     ''Invalid MFA code'' 401"

definition checkFactor :: "env \<Rightarrow> string \<Rightarrow> VerifyMfaChallengeDto \<Rightarrow> bool act" where
  "checkFactor E uid dto = (if vc_method dto = TOTP then verifyTotp E uid (vc_code dto)
                            else consumeBackupCode E uid (vc_code dto))"

definition refuseFactor :: "env \<Rightarrow> User \<Rightarrow> MfaChallenge \<Rightarrow> MfaChallengeMethod \<Rightarrow> unit act" where
  "refuseFactor E user challenge m =
     thenM (recordAttempt (mc_id challenge) False)
     (thenM (auditRecord E MFA_FAILED AR_MFA_FACTOR
               (auditFail (Some (u_id user)) (Some (u_id user)) (Some (u_email user))
                  [(''method'', JStr (methodName m))]))
     (throwM (wrongFactor m)))"

definition completeMfaLogin ::
  "env \<Rightarrow> User \<Rightarrow> MfaChallenge \<Rightarrow> MfaChallengeMethod \<Rightarrow> LoginMetadata \<Rightarrow> LoginResult act" where
  "completeMfaLogin E user challenge m meta =
     thenM (recordAttempt (mc_id challenge) True)
     (bindM (transaction
       (bindM nowM (\<lambda>now.
        thenM (dbUpdate usersT (\<lambda>u. u_id u = u_id user)
                 (\<lambda>u. u\<lparr>u_failedLoginAttempts := 0, u_lockUntil := None, u_lastLoginAt := Some now\<rparr>))
        (createSession E (u_id user) meta)))) (\<lambda>created.
     bindM (resolveDefault (u_id user)) (\<lambda>orgCtx.
     bindM (signAccessToken E (buildAccessPayload user (s_id (cs_session created)) orgCtx)) (\<lambda>accessToken.
     thenM (auditRecord E MFA_VERIFIED AR_MFA_FACTOR
              (auditOk (Some (u_id user)) (Some (u_id user)) (Some (u_email user))
                 [(''method'', JStr (methodName m))]))
     (thenM (auditRecord E LOGIN_SUCCESS AR_SESSION
              (auditOk (Some (s_id (cs_session created))) (Some (u_id user)) (Some (u_email user))
                 [(''mfa'', JBool True)]))
     (bindM nowM (\<lambda>now.
     returnM
       \<lparr>lr_user = stripSecrets user,
        lr_tokens = \<lparr>tp_accessToken = accessToken, tp_refreshToken = cs_refreshToken created,
          tp_accessTokenExpiresAt = now + 15 * 60 * 1000,
          tp_refreshTokenExpiresAt = cs_refreshTokenExpiresAt created\<rparr>,
        lr_sessionId = s_id (cs_session created)\<rparr>)))))))"

definition verifyAndCompleteLogin :: "env \<Rightarrow> VerifyMfaChallengeDto \<Rightarrow> LoginMetadata \<Rightarrow> LoginResult act" where
  "verifyAndCompleteLogin E dto meta =
     bindM (consumeMfaChallenge E (vc_challengeToken dto)) (\<lambda>challenge.
     bindM (dbFind usersT (\<lambda>u. u_id u = mc_userId challenge)) (\<lambda>urow.
     bindM (orThrow urow accountNotActive) (\<lambda>user.
     thenM (throw_if (u_deletedAt user \<noteq> None \<or> u_status user \<noteq> UserActive) accountNotActive)
     (bindM (checkFactor E (u_id user) dto) (\<lambda>ok.
     thenM (whenM (\<not> ok) (refuseFactor E user challenge (vc_method dto)))
     (completeMfaLogin E user challenge (vc_method dto) meta))))))"

definition invalidLogin :: exn where
  "invalidLogin = appExn ''INVALID_CREDENTIALS'' ''Invalid email or password'' 401"

definition reissueChallenge :: "env \<Rightarrow> string \<Rightarrow> string \<Rightarrow> LoginMetadata \<Rightarrow> MfaChallengeRequired act" where
  "reissueChallenge E email password meta =
     bindM (dbFind usersT (\<lambda>u. u_email u = normalizeEmail email)) (\<lambda>row.
     bindM (orThrow row invalidLogin) (\<lambda>user.
     thenM (throw_if (u_deletedAt user \<noteq> None \<or> u_status user \<noteq> UserActive) invalidLogin)
     (bindM (comparePassword E password (u_passwordHash user)) (\<lambda>ok.
     thenM (throw_if (\<not> ok) invalidLogin)
     (bindM (isMfaEnabled (u_id user)) (\<lambda>enabled.
     thenM (throw_if (\<not> enabled)
              (appExn ''MFA_NOT_ENABLED'' ''MFA is not enabled on this account'' 400))
     (issueChallenge E (u_id user) meta)))))))"

section \<open>MfaPolicyService\<close>

record OrganizationMfaSettings =
  om_requireMfa :: bool
  om_allowBackupCodes :: bool
  om_allowedMfaMethods :: "MfaChallengeMethod list"

definition DEFAULT_ORG_MFA_SETTINGS :: OrganizationMfaSettings where
  "DEFAULT_ORG_MFA_SETTINGS =
     \<lparr>om_requireMfa = False, om_allowBackupCodes = True, om_allowedMfaMethods = [TOTP, BACKUP_CODE]\<rparr>"

definition isPlainObject :: "jsval \<Rightarrow> bool" where
  "isPlainObject v \<longleftrightarrow> js_truthy v \<and> js_typeof v = TObject \<and> \<not> js_isArray v"

definition methodValues :: "jsval \<Rightarrow> MfaChallengeMethod list" where
  "methodValues v = List.map_filter (\<lambda>x. case x of JStr s \<Rightarrow> methodOf s | _ \<Rightarrow> None)
     (case v of JArr xs \<Rightarrow> xs | _ \<Rightarrow> [])"

definition booleanOr :: "jsval \<Rightarrow> bool \<Rightarrow> bool" where
  "booleanOr v d = (if js_nullish v then d else js_truthy v)"

definition extractFromSettings :: "env \<Rightarrow> jsval \<Rightarrow> OrganizationMfaSettings" where
  "extractFromSettings E raw =
     (if \<not> isPlainObject raw then DEFAULT_ORG_MFA_SETTINGS
      else
        (let mfa = js_get (e_js E) raw ''mfa'' in
         if \<not> js_truthy mfa \<or> js_typeof mfa \<noteq> TObject then DEFAULT_ORG_MFA_SETTINGS
         else
           (let allowed = js_get (e_js E) mfa ''allowedMfaMethods'';
                allowedRaw = (if js_isArray allowed then methodValues allowed
                              else om_allowedMfaMethods DEFAULT_ORG_MFA_SETTINGS)
            in \<lparr>om_requireMfa = booleanOr (js_get (e_js E) mfa ''requireMfa'')
                   (om_requireMfa DEFAULT_ORG_MFA_SETTINGS),
                om_allowBackupCodes = booleanOr (js_get (e_js E) mfa ''allowBackupCodes'')
                   (om_allowBackupCodes DEFAULT_ORG_MFA_SETTINGS),
                om_allowedMfaMethods = (if 0 < length allowedRaw then allowedRaw
                   else om_allowedMfaMethods DEFAULT_ORG_MFA_SETTINGS)\<rparr>)))"

definition intersectMethods :: "OrganizationMfaSettings list \<Rightarrow> MfaChallengeMethod list" where
  "intersectMethods ps =
     (if ps = [] then om_allowedMfaMethods DEFAULT_ORG_MFA_SETTINGS
      else foldl (\<lambda>acc p. if acc = [] then om_allowedMfaMethods p
                          else filter (\<lambda>m. m \<in> set (om_allowedMfaMethods p)) acc) [] ps)"

definition combinePolicies :: "OrganizationMfaSettings list \<Rightarrow> OrganizationMfaSettings" where
  "combinePolicies ps =
     (if ps = [] then DEFAULT_ORG_MFA_SETTINGS
      else \<lparr>om_requireMfa = list_ex om_requireMfa ps,
            om_allowBackupCodes = list_all om_allowBackupCodes ps,
            om_allowedMfaMethods = intersectMethods ps\<rparr>)"

definition organizationOf :: "Membership \<Rightarrow> Organization act" where
  "organizationOf m =
     bindM (dbFind organizationsT (\<lambda>ob. o_id ob = m_organizationId m)) (\<lambda>row.
     orThrow row (JsError ''missing organization''))"

definition getEffectivePolicyForUser :: "env \<Rightarrow> string \<Rightarrow> OrganizationMfaSettings act" where
  "getEffectivePolicyForUser E uid =
     bindM (dbFindMany membershipsT (\<lambda>m. m_userId m = uid \<and> m_deletedAt m = None \<and>
              m_status m = MemberActive)) (\<lambda>ms.
     bindM (mapM organizationOf ms) (\<lambda>orgs.
     returnM (combinePolicies (map (\<lambda>ob. extractFromSettings E (o_settings ob)) orgs))))"

definition getPolicyForOrganization :: "env \<Rightarrow> string \<Rightarrow> OrganizationMfaSettings act" where
  "getPolicyForOrganization E oid =
     bindM (dbFind organizationsT (\<lambda>ob. o_id ob = oid)) (\<lambda>row.
     returnM (case row of None \<Rightarrow> DEFAULT_ORG_MFA_SETTINGS | Some ob \<Rightarrow> extractFromSettings E (o_settings ob)))"

record UpdateOrgMfaPolicyDto =
  up_requireMfa :: "bool option"
  up_allowBackupCodes :: "bool option"
  up_allowedMfaMethods :: "(MfaChallengeMethod list) option"

definition settingsValue :: "OrganizationMfaSettings \<Rightarrow> jsval" where
  "settingsValue p = JObj [(''requireMfa'', JBool (om_requireMfa p)),
     (''allowBackupCodes'', JBool (om_allowBackupCodes p)),
     (''allowedMfaMethods'', JArr (map (\<lambda>m. JStr (methodName m)) (om_allowedMfaMethods p)))]"

definition updateOrganizationPolicy ::
  "env \<Rightarrow> string \<Rightarrow> UpdateOrgMfaPolicyDto \<Rightarrow> OrganizationMfaSettings act" where
  "updateOrganizationPolicy E oid patch =
     bindM (dbFind organizationsT (\<lambda>ob. o_id ob = oid)) (\<lambda>row.
     bindM (orThrow row (PrismaKnownError ''P2025'' NoTarget)) (\<lambda>org.
     let current = extractFromSettings E (o_settings org);
         nxt = \<lparr>om_requireMfa = orDefault (up_requireMfa patch) (om_requireMfa current),
           om_allowBackupCodes = orDefault (up_allowBackupCodes patch) (om_allowBackupCodes current),
           om_allowedMfaMethods = orDefault (up_allowedMfaMethods patch) (om_allowedMfaMethods current)\<rparr>;
         existing = (if isPlainObject (o_settings org) then js_own (o_settings org) else [])
     in thenM (dbUpdate organizationsT (\<lambda>ob. o_id ob = oid)
                 (\<lambda>ob. ob\<lparr>o_settings := JObj (js_spread existing [(''mfa'', settingsValue nxt)])\<rparr>))
        (returnM nxt)))"

definition mfaRequiredGuard :: "env \<Rightarrow> HttpRequest \<Rightarrow> unit act" where
  "mfaRequiredGuard E req =
     bindM (orThrow (hr_user req) (ForbiddenException ''Authenticated user required'')) (\<lambda>user.
     bindM (getEffectivePolicyForUser E (au_id user)) (\<lambda>policy.
     if \<not> om_requireMfa policy then returnM ()
     else bindM (isMfaEnabled (au_id user)) (\<lambda>enabled.
       throw_if (\<not> enabled) (HttpException 403 (ObjectBody
         (OneMessage ''MFA is required by your organization. Enroll in MFA to continue.'')
         (Some ''MFA_REQUIRED_BY_ORG'') None)
         ''MFA is required by your organization. Enroll in MFA to continue.''))))"

end
