(* ===== verification/Throws.thy ===== *)
theory Throws
  imports Storage
begin

text \<open>
  Which errors a method can throw: a calculus like that of \<open>keeps\<close> and \<open>walks\<close>.
\<close>

text \<open>\<open>avoids X m\<close>: \<open>m\<close> never throws an error of \<open>X\<close>.\<close>

definition avoids :: "exn set \<Rightarrow> 'a act \<Rightarrow> bool" where
  "avoids X m \<longleftrightarrow> (\<forall>w e. fst (m w) = Inl e \<longrightarrow> e \<notin> X)"

named_theorems avoids_intros

lemma avoidsI: "(\<And>w e. fst (m w) = Inl e \<Longrightarrow> e \<notin> X) \<Longrightarrow> avoids X m"
  by (simp add: avoids_def)

lemma avoids_silent:
  "(\<And>w. \<exists>x. fst (m w) = Inr x) \<Longrightarrow> avoids X m"
  unfolding avoids_def by (metis Inl_Inr_False)

lemma avoids_basic [avoids_intros]:
  "avoids X (returnM x)" "avoids X (getsM obs)" "avoids X nowM" "avoids X drawM" "avoids X (newId E)"
  "avoids X (randomBytes E n)" "avoids X (generateSecureToken E len)" "avoids X (auditRecord E a r opts)"
  "avoids X (dbFind t1 p1)" "avoids X (dbFindMany t2 p2)" "avoids X (dbCount t3 p3)"
  "avoids X (dbDeleteMany t4 p4)" "avoids X (dbUpdateMany t5 p5 f)" "avoids X (cacheGet k)" "avoids X (cacheExists k)" "avoids X (cacheSet k v ttl)"
  "avoids X (cacheDelete ks)"
  by (rule avoids_silent, simp add: monad_simps)+

lemma avoids_throw [avoids_intros]:
  "e \<notin> X \<Longrightarrow> avoids X (throwM e)" "e \<notin> X \<Longrightarrow> avoids X (throw_if c e)" "e \<notin> X \<Longrightarrow> avoids X (orThrow x e)"
  by (auto simp: avoids_def throw_if_run orThrow_run split: option.split if_splits)

lemma avoids_bindM [avoids_intros]:
  "avoids X m \<Longrightarrow> (\<And>x. avoids X (f x)) \<Longrightarrow> avoids X (bindM m f)"
  by (auto simp: avoids_def bindM_run split: prod.splits sum.splits) (metis fst_conv)

lemma avoids_thenM [avoids_intros]: "avoids X m \<Longrightarrow> avoids X k \<Longrightarrow> avoids X (thenM m k)"
  by (simp add: thenM_def avoids_bindM)

lemma avoids_whenM [avoids_intros]: "avoids X m \<Longrightarrow> avoids X (whenM c m)"
  by (simp add: whenM_def avoids_basic)

lemma avoids_cases [avoids_intros]:
  "avoids X m \<Longrightarrow> (\<And>y. avoids X (f y)) \<Longrightarrow> avoids X (case x of None \<Rightarrow> m | Some y \<Rightarrow> f y)"
  "(\<And>a b. avoids X (g a b)) \<Longrightarrow> avoids X (case p of (a, b) \<Rightarrow> g a b)"
  "avoids X m \<Longrightarrow> (\<And>y ys. avoids X (h y ys)) \<Longrightarrow> avoids X (case zs of [] \<Rightarrow> m | y # ys \<Rightarrow> h y ys)"
  "avoids X m \<Longrightarrow> avoids X k \<Longrightarrow> avoids X (if c then m else k)"
  by (simp_all split: option.split prod.split list.split)

lemma avoids_transaction [avoids_intros]: "avoids X m \<Longrightarrow> avoids X (transaction m)"
  by (auto simp: avoids_def transaction_run split: prod.splits sum.splits) (metis fst_conv)

lemma avoids_db [avoids_intros]:
  "PrismaKnownError ''P2025'' NoTarget \<notin> X \<Longrightarrow> avoids X (dbUpdate t p f)"
  "PrismaKnownError ''P2025'' NoTarget \<notin> X \<Longrightarrow> avoids X (dbDelete t p)"
  "PrismaKnownError ''P2002'' (TargetFields cols) \<notin> X \<Longrightarrow> PrismaKnownError ''P2003'' NoTarget \<notin> X \<Longrightarrow>
   avoids X (dbCreate t cols c par row)"
  by (auto simp: avoids_def monad_simps split: option.splits if_splits)

end
