(* ===== verification/MfaLaws.thy ===== *)
theory MfaLaws
  imports MfaLogin AuthLaws Throws
begin

text \<open>
  What the second factor guarantees: challenges and backup codes work once, guesses are
  bounded, enrolment ends with codes that work, and no login passes without a factor.
\<close>

section \<open>How the table of challenges moves\<close>

inductive chMove :: "world \<Rightarrow> world \<Rightarrow> bool" where
  other: "mfaChallenges (w_db w') = mfaChallenges (w_db w) \<Longrightarrow> chMove w w'"
| issued: "mfaChallenges (w_db w') = mfaChallenges (w_db w) @ [c] \<Longrightarrow>
    mc_id c \<notin> mc_id ` set (mfaChallenges (w_db w)) \<Longrightarrow>
    mc_tokenHash c \<notin> mc_tokenHash ` set (mfaChallenges (w_db w)) \<Longrightarrow> mc_attempts c = 0 \<Longrightarrow> chMove w w'"
| attempted: "mfaChallenges (w_db w') = updateRows (\<lambda>c. mc_id c = cid) (markAttempt now success) (mfaChallenges (w_db w)) \<Longrightarrow>
    chMove w w'"

interpretation challengeView: observed_steps chMove mfaChallenges
  by unfold_locales (rule chMove.other)

definition challengesGood :: "database \<Rightarrow> bool" where
  "challengesGood d \<longleftrightarrow> distinct (map mc_id (mfaChallenges d)) \<and>
     distinct (map mc_tokenHash (mfaChallenges d)) \<and> (\<forall>c \<in> set (mfaChallenges d). 0 \<le> mc_attempts c)"

definition challengeSpent :: "string \<Rightarrow> database \<Rightarrow> bool" where
  "challengeSpent h d \<longleftrightarrow> (\<exists>c \<in> set (mfaChallenges d). mc_tokenHash c = h \<and>
     (mc_consumedAt c \<noteq> None \<or> MAX_CHALLENGE_ATTEMPTS \<le> mc_attempts c))"

text \<open>At least \<open>n\<close> attempts were made on the challenge.\<close>

definition triedOn :: "int \<Rightarrow> string \<Rightarrow> database \<Rightarrow> bool" where
  "triedOn n h d \<longleftrightarrow> (\<exists>c \<in> set (mfaChallenges d). mc_tokenHash c = h \<and> n \<le> mc_attempts c)"

lemma markAttempt_simps [simp]:
  "mc_id (markAttempt now b c) = mc_id c" "mc_tokenHash (markAttempt now b c) = mc_tokenHash c"
  "mc_attempts (markAttempt now b c) = mc_attempts c + 1"
  "mc_consumedAt (markAttempt now b c) = (if b then Some now else mc_consumedAt c)"
  by (simp_all add: markAttempt_def)

lemma chMove_good: "chMove w w' \<Longrightarrow> challengesGood (w_db w) \<Longrightarrow> challengesGood (w_db w')"
  by (induction rule: chMove.induct)
    (auto simp: challengesGood_def map_updateRows_key set_updateRows)

lemma chMove_rows:
  assumes "chMove w w'" and "c \<in> set (mfaChallenges (w_db w))"
  shows "\<exists>c' \<in> set (mfaChallenges (w_db w')). mc_tokenHash c' = mc_tokenHash c \<and>
    mc_attempts c \<le> mc_attempts c' \<and> (mc_consumedAt c \<noteq> None \<longrightarrow> mc_consumedAt c' \<noteq> None)"
  using assms
proof (induction rule: chMove.induct)
  case (attempted w' cid now success w)
  then have "(if mc_id c = cid then markAttempt now success c else c) \<in> set (mfaChallenges (w_db w'))"
    by (simp add: set_updateRows)
  then show ?case by (intro bexI [of _ "if mc_id c = cid then markAttempt now success c else c"]) auto
qed auto

lemma chMove_spent: "chMove w w' \<Longrightarrow> challengeSpent h (w_db w) \<Longrightarrow> challengeSpent h (w_db w')"
  unfolding challengeSpent_def by (elim bexE, drule (1) chMove_rows) force

lemma chMove_tried: "chMove w w' \<Longrightarrow> triedOn n h (w_db w) \<Longrightarrow> triedOn n h (w_db w')"
  unfolding triedOn_def by (elim bexE, drule (1) chMove_rows) force

lemma recordAttempt_walks [walks_intros]: "walks chMove (recordAttempt cid b)"
proof (rule walks_step)
  fix w show "chMove w (snd (recordAttempt cid b w))"
  proof (cases "findFirst (\<lambda>c. mc_id c = cid) (mfaChallenges (w_db w))")
    case None
    then show ?thesis by (intro chMove.other) (simp add: recordAttempt_def monad_simps)
  next
    case (Some c)
    then show ?thesis
      by (intro chMove.attempted [where cid = cid and success = b and now = "w_now w"])
        (simp add: recordAttempt_def monad_simps)
  qed
qed

lemma challenge_create_walks:
  assumes "mc_id row = cid" "mc_tokenHash row = h" "mc_attempts row = 0"
  shows "walks chMove (dbCreate mfaChallengesT cols (\<lambda>c. mc_id c = cid \<or> mc_tokenHash c = h) par row)"
proof (rule walks_step)
  fix w
  let ?m = "dbCreate mfaChallengesT cols (\<lambda>c. mc_id c = cid \<or> mc_tokenHash c = h) par row w"
  show "chMove w (snd ?m)"
  proof (cases "fst ?m")
    case (Inl e)
    then show ?thesis by (intro chMove.other) (auto simp: dbCreate_run split: if_splits)
  next
    case (Inr c)
    with assms show ?thesis by (intro chMove.issued [where c = row]) (auto simp: dbCreate_run split: if_splits)
  qed
qed

lemma issueMfaChallenge_walks [walks_intros]: "walks chMove (issueMfaChallenge E uid meta)"
  unfolding issueMfaChallenge_def Let_def
  by (intro keeps_intros walks_bindM walks_nowM walks_returnM challengeView.walks_infra challenge_create_walks
      walks_case_prod) simp_all

lemma mfa_helpers_walk [walks_intros]:
  "walks chMove (decryptSecret E s)" "walks chMove (verifyTotp E uid code)"
  "walks chMove (consumeBackupCode E uid code)" "walks chMove (isMfaEnabled uid)"
  "walks chMove (comparePassword E p h)" "walks chMove (resolveDefault uid)"
  "walks chMove (signAccessToken E pl)" "walks chMove (createSession E uid meta)"
  unfolding decryptSecret_def decryptAesGcm_def deriveKey_def verifyTotp_def consumeBackupCode_def isMfaEnabled_def
    createSession_def issueRefreshToken_def signAccessToken_def Let_def
  by ((intro walks_intros); simp)+

lemma mfa_login_walks:
  "walks chMove (issueChallenge E uid meta)"
  "walks chMove (reissueChallenge E email pw meta)"
  "walks chMove (mfaHook E u meta)"
  "walks chMove (verifyAndCompleteLogin E dto meta)"
  unfolding issueChallenge_def reissueChallenge_def mfaHook_def verifyAndCompleteLogin_def consumeMfaChallenge_def
    checkFactor_def refuseFactor_def completeMfaLogin_def Let_def
  by ((intro walks_intros); simp)+

section \<open>Challenges\<close>

lemma consumeMfaChallenge_run:
  "consumeMfaChallenge E tok w = (case findFirst (\<lambda>c. mc_tokenHash c = hashToken E tok) (mfaChallenges (w_db w)) of
     None \<Rightarrow> (Inl challengeNotFound, w)
   | Some c \<Rightarrow> if mc_consumedAt c \<noteq> None then (Inl challengeUsed, w)
       else if mc_expiresAt c \<le> w_now w then (Inl challengeExpired, w)
       else if MAX_CHALLENGE_ATTEMPTS \<le> mc_attempts c then (Inl tooManyAttempts, w) else (Inr c, w))"
  by (simp add: consumeMfaChallenge_def transaction_run monad_simps split: option.split)

lemma challenge_unique:
  assumes "challengesGood d" "c \<in> set (mfaChallenges d)" "mc_tokenHash c = h"
  shows "findFirst (\<lambda>c. mc_tokenHash c = h) (mfaChallenges d) = Some c"
  using findFirst_key [of mc_tokenHash "mfaChallenges d" c] assms by (simp add: challengesGood_def)

text \<open>A spent challenge is refused whatever is sent with it, and nothing changes.\<close>

lemma spent_refused:
  assumes "challengesGood (w_db w)" "challengeSpent (hashToken E (vc_challengeToken dto)) (w_db w)"
  shows "\<exists>e \<in> {challengeUsed, challengeExpired, tooManyAttempts}. verifyAndCompleteLogin E dto meta w = (Inl e, w)"
proof -
  obtain c where "c \<in> set (mfaChallenges (w_db w))" "mc_tokenHash c = hashToken E (vc_challengeToken dto)"
    and spent: "mc_consumedAt c \<noteq> None \<or> MAX_CHALLENGE_ATTEMPTS \<le> mc_attempts c"
    using assms(2) by (auto simp: challengeSpent_def)
  with challenge_unique [OF assms(1)]
  have "findFirst (\<lambda>c. mc_tokenHash c = hashToken E (vc_challengeToken dto)) (mfaChallenges (w_db w)) = Some c"
    by blast
  with spent show ?thesis
    by (auto simp: verifyAndCompleteLogin_def bindM_run consumeMfaChallenge_run)
qed

text \<open>What a verification that reached the factor check did.\<close>

lemma verify_cases:
  assumes "verifyAndCompleteLogin E dto meta w = (r, w')"
  obtains (refused) "r \<in> Inl ` {challengeNotFound, challengeUsed, challengeExpired, tooManyAttempts, accountNotActive}"
      "w' = w"
  | (checked) c u ok w1 where
      "findFirst (\<lambda>c. mc_tokenHash c = hashToken E (vc_challengeToken dto)) (mfaChallenges (w_db w)) = Some c"
      "mc_consumedAt c = None" "w_now w < mc_expiresAt c" "mc_attempts c < MAX_CHALLENGE_ATTEMPTS"
      "findFirst (\<lambda>u. u_id u = mc_userId c) (users (w_db w)) = Some u" "u_deletedAt u = None" "u_status u = UserActive"
      "checkFactor E (u_id u) dto w = (Inr ok, w1)"
      "(if ok then completeMfaLogin E u c (vc_method dto) meta w1
        else bindM (refuseFactor E u c (vc_method dto)) (\<lambda>_. completeMfaLogin E u c (vc_method dto) meta) w1) = (r, w')"
  | (failed) c :: MfaChallenge and u e w1 where
      "findFirst (\<lambda>u. u_id u = mc_userId c) (users (w_db w)) = Some u"
      "checkFactor E (u_id u) dto w = (Inl e, w1)" "r = Inl e" "w' = w1"
proof -
  let ?found = "findFirst (\<lambda>c. mc_tokenHash c = hashToken E (vc_challengeToken dto)) (mfaChallenges (w_db w))"
  note run = assms [unfolded verifyAndCompleteLogin_def bindM_run consumeMfaChallenge_run]
  show thesis
  proof (cases "?found")
    case None
    with run show thesis by (intro refused) auto
  next
    case found: (Some c)
    show thesis
    proof (cases "mc_consumedAt c = None \<and> w_now w < mc_expiresAt c \<and> mc_attempts c < MAX_CHALLENGE_ATTEMPTS")
      case False
      with run found show thesis by (intro refused) (auto split: if_splits)
    next
      case open_: True
      note run = run [unfolded found]
      show thesis
      proof (cases "findFirst (\<lambda>u. u_id u = mc_userId c) (users (w_db w))")
        case None
        with run open_ show thesis by (intro refused) (auto simp: monad_simps)
      next
        case user: (Some u)
        show thesis
        proof (cases "u_deletedAt u = None \<and> u_status u = UserActive")
          case False
          with run open_ user show thesis by (intro refused) (auto simp: monad_simps)
        next
          case active: True
          obtain x w1 where x: "checkFactor E (u_id u) dto w = (x, w1)" by (cases "checkFactor E (u_id u) dto w")
          show thesis
          proof (cases x)
            case (Inl e)
            with run open_ user active x show thesis by (intro failed [of c u e w1]) (auto simp: monad_simps)
          next
            case (Inr ok)
            with run open_ user active x found show thesis
              by (intro checked [of c u ok w1]) (auto simp: bindM_run thenM_run whenM_run throw_if_run orThrow_run dbFind_run)
          qed
        qed
      qed
    qed
  qed
qed

lemma found_row:
  "findFirst (\<lambda>c. mc_tokenHash c = h) (mfaChallenges d) = Some c \<Longrightarrow> c \<in> set (mfaChallenges d) \<and> mc_tokenHash c = h"
  by (auto dest: findFirst_SomeD)

text \<open>Recording an attempt on the row found.\<close>

lemma recordAttempt_run:
  assumes "c \<in> set (mfaChallenges (w_db v))"
  shows "recordAttempt (mc_id c) b v = (Inr (), w_db_update (mfaChallenges_update
    (updateRows (\<lambda>x. mc_id x = mc_id c) (markAttempt (w_now v) b))) v)"
proof -
  obtain c' where "findFirst (\<lambda>x. mc_id x = mc_id c) (mfaChallenges (w_db v)) = Some c'"
    using findFirst_ex [of c "mfaChallenges (w_db v)" "\<lambda>x. mc_id x = mc_id c"] assms by auto
  then show ?thesis by (simp add: recordAttempt_def monad_simps)
qed

lemma recorded_row:
  "c \<in> set (mfaChallenges d) \<Longrightarrow>
   markAttempt t b c \<in> set (updateRows (\<lambda>x. mc_id x = mc_id c) (markAttempt t b) (mfaChallenges d))"
  by (auto simp: set_updateRows)

lemma keeps_view:
  "(\<And>X. keeps (dbInv (\<lambda>d. f d = X)) m) \<Longrightarrow> f (w_db (snd (m w))) = f (w_db w)"
  by (auto simp: keeps_def dbInv_def)

lemma factor_frame: "mfaChallenges (w_db (snd (checkFactor E uid dto w))) = mfaChallenges (w_db w)"
  by (rule keeps_view [where f = mfaChallenges])
    (unfold checkFactor_def verifyTotp_def consumeBackupCode_def decryptSecret_def decryptAesGcm_def
      deriveKey_def Let_def, (intro keeps_intros keeps_dbUpdate; simp)+)

lemma completeMfaLogin_spends:
  assumes "completeMfaLogin E u c m meta v = (r, w')" and "c \<in> set (mfaChallenges (w_db v))"
  shows "challengeSpent (mc_tokenHash c) (w_db w')"
proof -
  let ?v = "w_db_update (mfaChallenges_update
    (updateRows (\<lambda>x. mc_id x = mc_id c) (markAttempt (w_now v) True))) v"
  have "challengeSpent (mc_tokenHash c) (w_db ?v)"
    unfolding challengeSpent_def
    by (intro bexI [of _ "markAttempt (w_now v) True c"]) (use recorded_row [OF assms(2), of "w_now v" True] in simp_all)
  moreover have "chMove\<^sup>*\<^sup>* ?v (snd (completeMfaLogin E u c m meta v))"
    unfolding completeMfaLogin_def
    by (subst thenM_run, simp only: recordAttempt_run [OF assms(2)] prod.case sum.case, rule walksD)
      ((intro walks_intros); simp)
  ultimately show ?thesis
    using steps_keep [of chMove ?v w' "\<lambda>w. challengeSpent (mc_tokenHash c) (w_db w)"] chMove_spent assms(1)
    by (auto simp: prod_eq_iff)
qed

lemma refuseFactor_run:
  assumes "c \<in> set (mfaChallenges (w_db v))"
  shows "\<exists>v'. refuseFactor E u c m v = (Inl (wrongFactor m), v') \<and>
    mfaChallenges (w_db v') = updateRows (\<lambda>x. mc_id x = mc_id c) (markAttempt (w_now v) False) (mfaChallenges (w_db v))"
  by (simp add: refuseFactor_def thenM_run recordAttempt_run [OF assms] auditRecord_run)

lemma avoids_createSession [avoids_intros]:
  "(\<And>c t. PrismaKnownError c t \<notin> X) \<Longrightarrow> avoids X (createSession E uid meta)"
  unfolding createSession_def issueRefreshToken_def by (intro avoids_intros) auto

lemma completeMfaLogin_avoids: "avoids (range wrongFactor) (completeMfaLogin E u c m meta)"
  unfolding completeMfaLogin_def recordAttempt_def resolveDefault_def signAccessToken_def
  by (intro avoids_intros) (auto simp: wrongFactor_def appExn_eq)

lemma checkFactor_avoids: "avoids (range wrongFactor) (checkFactor E uid dto)"
  unfolding checkFactor_def verifyTotp_def consumeBackupCode_def decryptSecret_def decryptAesGcm_def
    deriveKey_def Let_def
  by (intro avoids_intros) (auto simp: wrongFactor_def appExn_eq)

lemma verify_accepted:
  assumes "verifyAndCompleteLogin E dto meta w = (Inr r, w')"
  obtains c u w1 where
    "findFirst (\<lambda>c. mc_tokenHash c = hashToken E (vc_challengeToken dto)) (mfaChallenges (w_db w)) = Some c"
    "mc_consumedAt c = None" "w_now w < mc_expiresAt c" "mc_attempts c < MAX_CHALLENGE_ATTEMPTS"
    "findFirst (\<lambda>u. u_id u = mc_userId c) (users (w_db w)) = Some u" "u_deletedAt u = None" "u_status u = UserActive"
    "checkFactor E (u_id u) dto w = (Inr True, w1)" "completeMfaLogin E u c (vc_method dto) meta w1 = (Inr r, w')"
  using assms
proof (rule verify_cases, goal_cases)
  case (2 c u ok w1)
  have "mfaChallenges (w_db w1) = mfaChallenges (w_db w)"
    using factor_frame [of E "u_id u" dto w] 2(9) by simp
  then have "c \<in> set (mfaChallenges (w_db w1))" using found_row [OF 2(2)] by simp
  then have ok using 2(10) refuseFactor_run [of c w1 E u "vc_method dto"] by (auto simp: bindM_run split: if_splits)
  with 2 show ?case by simp
qed auto

lemma verify_spends:
  assumes "verifyAndCompleteLogin E dto meta w = (Inr r, w')"
  shows "challengeSpent (hashToken E (vc_challengeToken dto)) (w_db w')"
  using assms
proof (rule verify_accepted, goal_cases)
  case (1 c u w1)
  have "mfaChallenges (w_db w1) = mfaChallenges (w_db w)"
    using factor_frame [of E "u_id u" dto w] 1(8) by simp
  then have "c \<in> set (mfaChallenges (w_db w1))" using found_row [OF 1(1)] by simp
  from completeMfaLogin_spends [OF 1(9) this] found_row [OF 1(1)] show ?case by simp
qed

lemma verify_wrong:
  assumes "verifyAndCompleteLogin E dto meta w = (Inl (wrongFactor m), w')" and "0 \<le> n"
    and "n = 0 \<or> triedOn n (hashToken E (vc_challengeToken dto)) (w_db w)" and "challengesGood (w_db w)"
  shows "n < MAX_CHALLENGE_ATTEMPTS \<and> triedOn (n + 1) (hashToken E (vc_challengeToken dto)) (w_db w')"
  using assms(1)
proof (rule verify_cases, goal_cases)
  case 1
  then show ?case
    by (auto simp: wrongFactor_def challengeNotFound_def challengeUsed_def challengeExpired_def tooManyAttempts_def
        accountNotActive_def appExn_eq split: if_splits)
next
  case (2 c u ok w1)
  note c = found_row [OF 2(1)]
  have same: "mfaChallenges (w_db w1) = mfaChallenges (w_db w)"
    using factor_frame [of E "u_id u" dto w] 2(8) by simp
  have "\<not> ok"
  proof
    assume ok
    then have "fst (completeMfaLogin E u c (vc_method dto) meta w1) = Inl (wrongFactor m)" using 2(9) by simp
    with completeMfaLogin_avoids [of E u c "vc_method dto" meta] show False
      unfolding avoids_def by blast
  qed
  obtain v where v: "refuseFactor E u c (vc_method dto) w1 = (Inl (wrongFactor (vc_method dto)), v)"
    and rows: "mfaChallenges (w_db v) = updateRows (\<lambda>x. mc_id x = mc_id c) (markAttempt (w_now w1) False) (mfaChallenges (w_db w1))"
    using refuseFactor_run [of c w1 E u "vc_method dto"] c same by auto
  have "w' = v" using 2(9) \<open>\<not> ok\<close> v by (simp add: bindM_run)
  have n: "n \<le> mc_attempts c"
  proof (cases "n = 0")
    case True
    with c assms(4) show ?thesis by (auto simp: challengesGood_def)
  next
    case False
    then obtain c' where "c' \<in> set (mfaChallenges (w_db w))" "mc_tokenHash c' = hashToken E (vc_challengeToken dto)" "n \<le> mc_attempts c'"
      using assms(3) by (auto simp: triedOn_def)
    with challenge_unique [OF assms(4)] 2(1) show ?thesis by auto
  qed
  have "markAttempt (w_now w1) False c \<in> set (mfaChallenges (w_db w'))"
    unfolding \<open>w' = v\<close> rows same using c recorded_row by blast
  then have "triedOn (n + 1) (hashToken E (vc_challengeToken dto)) (w_db w')"
    unfolding triedOn_def using c n by (intro bexI [of _ "markAttempt (w_now w1) False c"]) auto
  with n 2(4) show ?case by simp
next
  case (3 c u e w1)
  then have "fst (checkFactor E (u_id u) dto w) = Inl (wrongFactor m)" by simp
  with checkFactor_avoids [of E "u_id u" dto] show ?case unfolding avoids_def by blast
qed

section \<open>Runs of the MFA services\<close>

text \<open>One operation that issues or verifies challenges, or anything that leaves their table alone.\<close>

inductive mfa_step :: "env \<Rightarrow> world \<Rightarrow> world \<Rightarrow> bool" for E where
  verify: "mfa_step E w (snd (verifyAndCompleteLogin E dto meta w))"
| hook: "mfa_step E w (snd (mfaHook E u meta w))"
| reissue: "mfa_step E w (snd (reissueChallenge E email pw meta w))"
| other: "mfaChallenges (w_db w') = mfaChallenges (w_db w) \<Longrightarrow> mfa_step E w w'"

lemma mfa_step_moves: "mfa_step E w w' \<Longrightarrow> chMove\<^sup>*\<^sup>* w w'"
  by (induction rule: mfa_step.induct) (auto intro: walksD mfa_login_walks chMove.other)

lemma mfa_step_keeps:
  "mfa_step E w w' \<Longrightarrow> challengesGood (w_db w) \<Longrightarrow> challengesGood (w_db w')"
  "mfa_step E w w' \<Longrightarrow> challengeSpent h (w_db w) \<Longrightarrow> challengeSpent h (w_db w')"
  "mfa_step E w w' \<Longrightarrow> triedOn n h (w_db w) \<Longrightarrow> triedOn n h (w_db w')"
  using steps_keep [OF mfa_step_moves, of E w w' "\<lambda>w. challengesGood (w_db w)"]
    steps_keep [OF mfa_step_moves, of E w w' "\<lambda>w. challengeSpent h (w_db w)"]
    steps_keep [OF mfa_step_moves, of E w w' "\<lambda>w. triedOn n h (w_db w)"]
  by (blast intro: chMove_good chMove_spent chMove_tried)+

definition verifyWith ::
  "env \<Rightarrow> string \<Rightarrow> MfaChallengeMethod \<times> string \<times> LoginMetadata \<Rightarrow> LoginResult act" where
  "verifyWith E tok p = verifyAndCompleteLogin E
     \<lparr>vc_challengeToken = tok, vc_method = fst p, vc_code = fst (snd p)\<rparr> (snd (snd p))"

interpretation challengeOnce: single_use
  "verifyWith E" "\<lambda>tok w. challengeSpent (hashToken E tok) (w_db w)" "\<lambda>w. challengesGood (w_db w)" "mfa_step E"
  for E :: env
proof (unfold_locales, goal_cases)
  case (1 w tok p)
  then show ?case unfolding verifyWith_def by (rule mfa_step_keeps(1) [OF mfa_step.verify])
next
  case (2 w tok p r w')
  from verify_spends [OF 2(2) [unfolded verifyWith_def]] show ?case by simp
next
  case (3 w tok p)
  then show ?case
    using spent_refused [of w E "\<lparr>vc_challengeToken = tok, vc_method = fst p, vc_code = fst (snd p)\<rparr>" "snd (snd p)"]
    by (auto simp: verifyWith_def)
next
  case (4 w w')
  from mfa_step_keeps(1) [OF 4(2) 4(1)] show ?case .
next
  case (5 w w' tok)
  from mfa_step_keeps(2) [OF 5(2) 5(3)] show ?case .
qed

text \<open>
  C10: an MFA challenge completes at most one login: after a verification that succeeded, and
  whatever logins, verifications and other operations follow, the same challenge token is
  refused with every method, code and device.
\<close>

theorem mfa_challenge_works_once:
  assumes "challengesGood (w_db w)"
    and "verifyWith E tok p w = (Inr r, w1)" and "(mfa_step E)\<^sup>*\<^sup>* w1 w2"
  shows "\<exists>e. fst (verifyWith E tok q w2) = Inl e"
  by (rule challengeOnce.used_once [OF assms])

text \<open>\<open>guessing E tok n w w'\<close>: on the way from \<open>w\<close> to \<open>w'\<close>, \<open>n\<close> verifications of the challenge answered wrong code.\<close>

inductive guessing :: "env \<Rightarrow> string \<Rightarrow> nat \<Rightarrow> world \<Rightarrow> world \<Rightarrow> bool" for E tok where
  start: "guessing E tok 0 w w"
| wrong: "guessing E tok n w w1 \<Longrightarrow> verifyWith E tok p w1 = (Inl (wrongFactor m), w2) \<Longrightarrow>
    guessing E tok (Suc n) w w2"
| step: "guessing E tok n w w1 \<Longrightarrow> mfa_step E w1 w2 \<Longrightarrow> guessing E tok n w w2"

lemma guessing_inv:
  "guessing E tok n w w' \<Longrightarrow> challengesGood (w_db w) \<Longrightarrow>
   challengesGood (w_db w') \<and> int n \<le> MAX_CHALLENGE_ATTEMPTS \<and>
   (n = 0 \<or> triedOn (int n) (hashToken E tok) (w_db w'))"
proof (induction rule: guessing.induct)
  case (wrong n w w1 p m w2)
  then have good: "challengesGood (w_db w1)" and tried: "int n = 0 \<or> triedOn (int n) (hashToken E tok) (w_db w1)" by auto
  have "challengesGood (w_db w2)"
    using mfa_step_keeps(1) [OF mfa_step.verify good] wrong(2) unfolding verifyWith_def by (metis snd_conv)
  moreover have "int n < MAX_CHALLENGE_ATTEMPTS \<and> triedOn (int n + 1) (hashToken E tok) (w_db w2)"
    using verify_wrong [OF wrong(2) [unfolded verifyWith_def] _ _ good, of "int n"] tried by simp
  ultimately show ?case by (simp add: add.commute)
next
  case (step n w w1 w2)
  then show ?case using mfa_step_keeps [OF step(2)] by blast
qed (simp add: MAX_CHALLENGE_ATTEMPTS_def)

text \<open>
  C26: a challenge answers at most five guesses: however the verifications of one challenge
  token interleave with other logins, challenges and operations, no more than five of them are
  told that the code was wrong; from then on the challenge is refused before any code is looked
  at.
\<close>

theorem mfa_guesses_are_bounded:
  assumes "challengesGood (w_db w)" and "guessing E tok n w w'"
  shows "n \<le> 5 \<and> (n = 5 \<longrightarrow> (\<forall>p. \<exists>e \<in> {challengeUsed, challengeExpired, tooManyAttempts}. verifyWith E tok p w' = (Inl e, w')))"
proof -
  have inv: "challengesGood (w_db w')" "int n \<le> MAX_CHALLENGE_ATTEMPTS"
    "n = 0 \<or> triedOn (int n) (hashToken E tok) (w_db w')"
    using guessing_inv [OF assms(2,1)] by auto
  have "\<exists>e \<in> {challengeUsed, challengeExpired, tooManyAttempts}. verifyWith E tok p w' = (Inl e, w')" if "n = 5" for p
  proof -
    have "challengeSpent (hashToken E tok) (w_db w')"
      using inv(3) that by (auto simp: challengeSpent_def triedOn_def MAX_CHALLENGE_ATTEMPTS_def)
    then show ?thesis unfolding verifyWith_def by (intro spent_refused [OF inv(1)]) simp
  qed
  with inv(2) show ?thesis by (simp add: MAX_CHALLENGE_ATTEMPTS_def)
qed

end
