(* ===== verification/SsoLaws.thy ===== *)
theory SsoLaws
  imports SsoLogin CacheSteps MfaLaws
begin

text \<open>
  What single sign-on guarantees: who is logged in by an assertion and what was checked before,
  and that an assertion is good for one login.
\<close>

section \<open>Each step of \<open>handleAssertion\<close>\<close>

lemma decryptSecret_world: "snd (decryptSecret E c w) = w"
  by (auto simp: decryptSecret_def decryptAesGcm_def deriveKey_def monad_simps Let_def split: option.split)

text \<open>The configuration an assertion for \<open>slug\<close> is checked against, and its organization.\<close>

definition ssoConfigFor :: "env \<Rightarrow> string \<Rightarrow> world \<Rightarrow> SsoConfiguration \<Rightarrow> string \<Rightarrow> bool" where
  "ssoConfigFor E slug w config oid \<longleftrightarrow>
     (\<exists>org stored cert. findFirst (\<lambda>ob. o_slug ob = toLowerCase slug \<and> o_deletedAt ob = None) (organizations (w_db w)) = Some org \<and>
        oid = o_id org \<and> enabledConfig oid (w_db w) = Some stored \<and>
        fst (decryptSecret E (sc_certificate stored) w) = Inr cert \<and> config = stored\<lparr>sc_certificate := cert\<rparr>)"

lemma getEnabledConfig_Inr:
  assumes "getEnabledConfigForOrgSlug E slug w = (Inr (config, oid), w')"
  shows "w' = w \<and> ssoConfigFor E slug w config oid"
proof -
  from assms obtain org stored cert where
    "findFirst (\<lambda>ob. o_slug ob = toLowerCase slug \<and> o_deletedAt ob = None) (organizations (w_db w)) = Some org"
    "oid = o_id org" "enabledConfig oid (w_db w) = Some stored"
    and cert: "decryptSecret E (sc_certificate stored) w = (Inr cert, w')" and "config = stored\<lparr>sc_certificate := cert\<rparr>"
    by (auto simp: getEnabledConfigForOrgSlug_def success_iffs dbFind_run)
  moreover have "w' = w" "fst (decryptSecret E (sc_certificate stored) w) = Inr cert"
    using decryptSecret_world [of E "sc_certificate stored" w] cert by simp_all
  ultimately show ?thesis by (auto simp: ssoConfigFor_def)
qed

lemma enabledConfig_SomeD:
  "enabledConfig oid d = Some c \<Longrightarrow> c \<in> set (ssoConfigurations d) \<and> sc_organizationId c = oid \<and> sc_isEnabled c"
  by (auto simp: enabledConfig_def findMany_def dest!: findFirst_SomeD)

lemma replayKey_simps [simp]:
  "replayKey a = replayKey b \<longleftrightarrow> a = b" "replayKey a \<noteq> relayKey st" "replayKey a \<noteq> sessionKey sid"
  "relayKey st \<noteq> replayKey a" "sessionKey sid \<noteq> replayKey a"
  by (simp_all add: replayKey_def relayKey_def sessionKey_def)

lemma admitAssertion_Inr:
  assumes "admitAssertion E config oid slug relay w = (Inr idp, w')"
  shows "w_db w' = w_db w \<and> w_now w' = w_now w \<and> w_redisUp w' = w_redisUp w \<and>
    (\<forall>a. w_cache w' (replayKey a) = w_cache w (replayKey a)) \<and>
    (if idp then sc_allowIdpInitiated config
     else \<exists>st. relay = Some st \<and> st \<noteq> [] \<and> w_redisUp w \<and> cacheLive w (relayKey st) \<noteq> None)"
  using assms
  by (auto simp: admitAssertion_def success_iffs isKnownRelayState_def cacheExists_run cacheDelete_run
      whenM_run truthy_str_def recordSsoFailure_def auditRecord_run Let_def split: if_splits)

lemma validateResponse_Inr:
  assumes "validateResponse E config slug response relay w = (Inr (profile, aid), w')"
  shows "w' = w \<and> aid = extractAssertionId E profile \<and>
    e_samlValidate E (w_now w) (samlConfigOf E config slug) response (if truthy_str relay then relay else None) =
      Inr (Some profile)"
  using assms
  by (auto simp: validateResponse_def buildClient_def success_iffs Let_def split: sum.splits option.splits)

lemma guardReplay_Inr:
  assumes "guardReplay E aid slug oid w = (Inr u, w')"
  shows "w_db w' = w_db w \<and> w_now w' = w_now w \<and> w_redisUp w' = w_redisUp w \<and>
    (\<forall>a. aid = Some a \<longrightarrow> a \<noteq> [] \<longrightarrow> w_redisUp w \<longrightarrow> cacheLive w (replayKey a) = None)"
  using assms
  by (auto simp: guardReplay_def truthy_str_def success_iffs cacheExists_run cacheSet_run Let_def
      split: if_splits option.splits)

lemma keeps_claims [keeps_intros]:
  "keeps I (inM E k v)" "keeps I (readClaim E p k)" "keeps I (mappedEmail E p c)" "keeps I (mapSamlAttributes E p mp)"
proof -
  show inM: "keeps I (inM E k v)" for k v
    unfolding inM_def by (intro keeps_intros)
  show claim: "keeps I (readClaim E p k)" for k
    unfolding readClaim_def Let_def by (intro keeps_intros inM)
  show email: "keeps I (mappedEmail E p c)" for c
    unfolding mappedEmail_def Let_def by (auto simp: keeps_def split: option.split jsval.split)
  show "keeps I (mapSamlAttributes E p mp)"
    unfolding mapSamlAttributes_def Let_def by (intro keeps_intros claim email)
qed

lemma mapSaml_world: "mapSamlAttributes E profile mapping w = (r, w') \<Longrightarrow> w' = w"
  using keepsE [OF keeps_claims(4) [where I = "\<lambda>v. v = w"], of E profile mapping w r w'] by simp

section \<open>Provisioning\<close>

lemma roles_frame:
  "(users (w_db (snd (assignJitRoles mid oid d gs w))), memberships (w_db (snd (assignJitRoles mid oid d gs w))),
    sessions (w_db (snd (assignJitRoles mid oid d gs w)))) = (users (w_db w), memberships (w_db w), sessions (w_db w))"
proof (rule keeps_view [where f = "\<lambda>d. (users d, memberships d, sessions d)"])
  fix X
  show "keeps (dbInv (\<lambda>d. (users d, memberships d, sessions d) = X)) (assignJitRoles mid oid d gs)"
    unfolding assignJitRoles_def upsertUserRole_def Let_def
    by (intro keeps_intros keeps_dbCreate) simp_all
qed

lemma createSsoUser_Inr:
  assumes "createSsoUser E attrs email w = (Inr u, w')"
  shows "u_email u = email \<and> u_status u = UserActive \<and> u_deletedAt u = None \<and>
    (\<forall>x \<in> set (users (w_db w)). u_id x \<noteq> u_id u) \<and> w_db w' = users_update (\<lambda>rows. rows @ [u]) (w_db w) \<and>
    w_now w' = w_now w"
  using assms
  by (auto simp: createSsoUser_def success_iffs generateSecureToken_run hashPassword_run newId_run dbCreate_run
      split: if_splits)

text \<open>Who an email stands for: the user with it, active again unless deleted, or a new one.\<close>

lemma provisionUser_Inr:
  assumes "provisionUser E attrs email w = (Inr (u, isNew), w')" and "distinct (map u_id (users (w_db w)))"
  shows "u_email u = email \<and> u \<in> set (users (w_db w')) \<and> (u_status u = UserActive \<or> u_deletedAt u \<noteq> None) \<and>
    (case findFirst (\<lambda>x. u_email x = email) (users (w_db w)) of
       None \<Rightarrow> isNew \<and> (\<forall>x \<in> set (users (w_db w)). u_id x \<noteq> u_id u)
     | Some old \<Rightarrow> \<not> isNew \<and> u = (if u_deletedAt old = None then old\<lparr>u_status := UserActive\<rparr> else old)) \<and>
    memberships (w_db w') = memberships (w_db w) \<and> sessions (w_db w') = sessions (w_db w) \<and> w_now w' = w_now w"
proof (cases "findFirst (\<lambda>x. u_email x = email) (users (w_db w))")
  case None
  with assms(1) have "isNew" "createSsoUser E attrs email w = (Inr u, w')"
    by (auto simp: provisionUser_def success_iffs dbFind_run)
  with createSsoUser_Inr [OF this(2)] None show ?thesis by simp
next
  case (Some old)
  then have old: "old \<in> set (users (w_db w))" "u_email old = email" by (auto dest: findFirst_SomeD)
  have "findFirst (\<lambda>x. u_id x = u_id old) (users (w_db w)) = Some old"
    using findFirst_key [OF assms(2) old(1)] .
  show ?thesis
  proof (cases "u_status old \<noteq> UserActive \<and> u_deletedAt old = None")
    case True
    with assms(1) Some \<open>findFirst (\<lambda>x. u_id x = u_id old) (users (w_db w)) = Some old\<close>
    have u: "u = old\<lparr>u_status := UserActive\<rparr>" "\<not> isNew"
      "w' = w_db_update (users_update (updateRows (\<lambda>x. u_id x = u_id old) (\<lambda>x. x\<lparr>u_status := UserActive\<rparr>))) w"
      by (auto simp: provisionUser_def success_iffs dbFind_run dbUpdate_run)
    then have "u \<in> set (users (w_db w'))" using old(1) by (auto simp: set_updateRows)
    with u Some old True show ?thesis by simp
  next
    case False
    with assms(1) Some have "u = old" "\<not> isNew" "w' = w"
      by (auto simp: provisionUser_def success_iffs dbFind_run)
    moreover from False have "u_deletedAt old = None \<Longrightarrow> old\<lparr>u_status := UserActive\<rparr> = old" by (cases old) simp
    ultimately show ?thesis using Some old False by auto
  qed
qed

text \<open>
  What the upsert makes of the row of a user and an organization: a new row is not deleted, an
  old one keeps its id and stays deleted if it was.
\<close>

definition joinsAs :: "Membership list \<Rightarrow> string \<Rightarrow> string \<Rightarrow> Membership \<Rightarrow> bool" where
  "joinsAs before uid oid m \<longleftrightarrow> m_userId m = uid \<and> m_organizationId m = oid \<and> m_status m = MemberActive \<and>
     (case findFirst (\<lambda>x. m_userId x = uid \<and> m_organizationId x = oid) before of
        None \<Rightarrow> m_deletedAt m = None
      | Some old \<Rightarrow> m_id m = m_id old \<and> m_deletedAt m = m_deletedAt old)"

lemma upsertMembership_Inr:
  assumes "upsertMembership E uid oid attrs w = (Inr m, w')"
  shows "m \<in> set (memberships (w_db w')) \<and> joinsAs (memberships (w_db w)) uid oid m \<and>
    users (w_db w') = users (w_db w) \<and> sessions (w_db w') = sessions (w_db w) \<and> w_now w' = w_now w"
proof (cases "findFirst (\<lambda>m. m_userId m = uid \<and> m_organizationId m = oid) (memberships (w_db w))")
  case None
  with assms show ?thesis
    by (auto simp: upsertMembership_def createMembership_def success_iffs dbFind_run newId_run dbCreate_run
        joinsAs_def split: if_splits)
next
  case (Some old)
  let ?f = "\<lambda>m. setIf (ma_department attrs) (\<lambda>x m. m\<lparr>m_department := Some x\<rparr>)
    (setIf (ma_jobTitle attrs) (\<lambda>x m. m\<lparr>m_jobTitle := Some x\<rparr>) (m\<lparr>m_status := MemberActive\<rparr>))"
  have f: "m_userId (?f m) = m_userId m" "m_organizationId (?f m) = m_organizationId m"
    "m_status (?f m) = MemberActive" "m_deletedAt (?f m) = m_deletedAt m" "m_id (?f m) = m_id m" for m :: Membership
    by (simp_all add: setIf_def split: option.split)
  from Some assms have m: "m = ?f old"
    and w': "w' = w_db_update (memberships_update (updateRows (\<lambda>m. m_userId m = uid \<and> m_organizationId m = oid) ?f)) w"
    by (auto simp: upsertMembership_def success_iffs dbFind_run dbUpdate_run)
  have old: "old \<in> set (memberships (w_db w))" "m_userId old = uid" "m_organizationId old = oid"
    using findFirst_SomeD [OF Some] by simp_all
  have rows: "memberships (w_db w') = updateRows (\<lambda>m. m_userId m = uid \<and> m_organizationId m = oid) ?f (memberships (w_db w))"
    using w' by simp
  have "m \<in> set (memberships (w_db w'))"
    unfolding rows set_updateRows by (rule image_eqI [OF _ old(1)]) (simp only: m old if_True simp_thms)
  with old Some show ?thesis by (simp add: m f w' joinsAs_def)
qed

lemma provision_Inr:
  assumes "provision E oid attrs d w = (Inr u, w')" and "distinct (map u_id (users (w_db w)))"
  shows "u_email u = normalizeEmail (ma_email attrs) \<and> u \<in> set (users (w_db w')) \<and>
    (u_status u = UserActive \<or> u_deletedAt u \<noteq> None) \<and>
    (case findFirst (\<lambda>x. u_email x = normalizeEmail (ma_email attrs)) (users (w_db w)) of
       None \<Rightarrow> \<forall>x \<in> set (users (w_db w)). u_id x \<noteq> u_id u
     | Some old \<Rightarrow> u = (if u_deletedAt old = None then old\<lparr>u_status := UserActive\<rparr> else old)) \<and>
    (\<exists>m \<in> set (memberships (w_db w')). joinsAs (memberships (w_db w)) (u_id u) oid m) \<and>
    sessions (w_db w') = sessions (w_db w)"
proof -
  obtain isNew w1 m w2 w3 where
    u: "provisionUser E attrs (normalizeEmail (ma_email attrs)) w = (Inr (u, isNew), w1)"
    and m: "upsertMembership E (u_id u) oid attrs w1 = (Inr m, w2)"
    and roles: "assignJitRoles (m_id m) oid d (ma_groups attrs) w2 = (Inr (), w3)" and db: "w_db w' = w_db w3"
    using assms(1) by (auto simp: provision_def transaction_Inr_iff success_iffs auditRecord_run split: if_splits)
  have frame: "users (w_db w3) = users (w_db w2)" "memberships (w_db w3) = memberships (w_db w2)"
    "sessions (w_db w3) = sessions (w_db w2)"
    using roles_frame [of "m_id m" oid d "ma_groups attrs" w2] roles by simp_all
  with frame provisionUser_Inr [OF u assms(2)] upsertMembership_Inr [OF m] show ?thesis
    by (auto simp: db split: option.splits)
qed

section \<open>The login\<close>

lemma openSsoSession_Inr:
  assumes "openSsoSession E config oid u idp meta w = (Inr r, w')"
  shows "\<exists>s. s_userId s = u_id u \<and> s_id s = sl_sessionId r \<and> s_revokedAt s = None \<and>
    sessions (w_db w') = sessions (w_db w) @ [s] \<and> memberships (w_db w') = memberships (w_db w) \<and>
    users (w_db w') = users (w_db w) \<and> sl_user r = stripSecrets u"
proof -
  obtain c w1 where c: "createSession E (u_id u) meta w = (Inr c, w1)"
    and r: "sl_sessionId r = s_id (cs_session c)" "sl_user r = stripSecrets u" and db: "w_db w' = w_db w1"
    using assms
    by (auto simp: openSsoSession_def success_iffs resolveDefault_def resolveForOrganization_def
        signAccessToken_def auditRecord_run split: option.splits)
  from createSession_success [OF c] show ?thesis
    by (intro exI [of _ "cs_session c"]) (simp add: r db)
qed

text \<open>The checks of a successful \<open>handleAssertion\<close>, in their order.\<close>

lemma handleAssertion_Inr:
  assumes "handleAssertion E slug response relay meta w = (Inr r, w')"
  obtains config oid idp w1 profile w2 attrs u w3 where
    "ssoConfigFor E slug w config oid" "admitAssertion E config oid slug relay w = (Inr idp, w1)"
    "validateResponse E config slug response relay w1 = (Inr (profile, extractAssertionId E profile), w1)"
    "guardReplay E (extractAssertionId E profile) slug oid w1 = (Inr (), w2)"
    "mapSamlAttributes E profile (sc_attributeMapping config) w2 = (Inr attrs, w2)" "ma_email attrs \<noteq> []"
    "provision E oid attrs (sc_defaultRoleSlug config) w2 = (Inr u, w3)"
    "openSsoSession E config oid u idp meta w3 = (Inr r, w')"
proof -
  obtain config oid w0 idp w1 profile aid w1' w2 attrs w2' u w3 where
    c: "getEnabledConfigForOrgSlug E slug w = (Inr (config, oid), w0)"
    and a: "admitAssertion E config oid slug relay w0 = (Inr idp, w1)"
    and v: "validateResponse E config slug response relay w1 = (Inr (profile, aid), w1')"
    and g: "guardReplay E aid slug oid w1' = (Inr (), w2)"
    and m: "mapSamlAttributes E profile (sc_attributeMapping config) w2 = (Inr attrs, w2')" "ma_email attrs \<noteq> []"
    and p: "provision E oid attrs (sc_defaultRoleSlug config) w2' = (Inr u, w3)"
    and s: "openSsoSession E config oid u idp meta w3 = (Inr r, w')"
    using assms by (auto simp: handleAssertion_def success_iffs)
  have "w0 = w" "ssoConfigFor E slug w config oid" using getEnabledConfig_Inr [OF c] by simp_all
  moreover have "w1' = w1" "aid = extractAssertionId E profile" using validateResponse_Inr [OF v] by simp_all
  moreover have "w2' = w2" using mapSaml_world [OF m(1)] .
  ultimately show thesis using that a v g m p s by simp
qed

lemma cacheLive_cong: "w_cache w' k = w_cache w k \<Longrightarrow> w_now w' = w_now w \<Longrightarrow> cacheLive w' k = cacheLive w k"
  by (simp add: cacheLive_def split: option.split)

text \<open>
  C12: a SAML login is only ever the login of an organization with an enabled configuration; the
  response was valid for that configuration's certificate and issuer, was expected (a live
  relay state) unless the configuration admits unexpected ones, and had not been seen while its
  mark was in the cache.  The session belongs to the user with the email of the assertion, of
  any organization and also when deleted, or to a new one; a user who is not deleted is active
  afterwards, whatever the status was before.  Afterwards that user has a membership of the organization with the status ACTIVE: a
  new one is not deleted, while an old one is updated in place and stays deleted if it had been
  removed.  One session was added.
\<close>

theorem sso_login_guarantees:
  assumes "handleAssertion E slug response relay meta w = (Inr r, w')" and "distinct (map u_id (users (w_db w)))"
  shows "\<exists>config oid profile attrs u s v. ssoConfigFor E slug w config oid \<and> sc_isEnabled config \<and> sc_organizationId config = oid \<and>
    (sc_allowIdpInitiated config \<or> (\<exists>st. relay = Some st \<and> cacheLive w (relayKey st) \<noteq> None)) \<and>
    e_samlValidate E (w_now w) (samlConfigOf E config slug) response (if truthy_str relay then relay else None) =
      Inr (Some profile) \<and>
    (\<forall>a. extractAssertionId E profile = Some a \<longrightarrow> a \<noteq> [] \<longrightarrow> w_redisUp w \<longrightarrow> cacheLive w (replayKey a) = None) \<and>
    mapSamlAttributes E profile (sc_attributeMapping config) v = (Inr attrs, v) \<and> ma_email attrs \<noteq> [] \<and>
    u_email u = normalizeEmail (ma_email attrs) \<and> (u_status u = UserActive \<or> u_deletedAt u \<noteq> None) \<and>
    (case findFirst (\<lambda>x. u_email x = u_email u) (users (w_db w)) of
       None \<Rightarrow> \<forall>x \<in> set (users (w_db w)). u_id x \<noteq> u_id u
     | Some old \<Rightarrow> u = (if u_deletedAt old = None then old\<lparr>u_status := UserActive\<rparr> else old)) \<and>
    u \<in> set (users (w_db w')) \<and>
    (\<exists>m \<in> set (memberships (w_db w')). joinsAs (memberships (w_db w)) (u_id u) oid m) \<and>
    sl_user r = stripSecrets u \<and> s_userId s = u_id u \<and> s_id s = sl_sessionId r \<and> s_revokedAt s = None \<and>
    sessions (w_db w') = sessions (w_db w) @ [s]"
  using assms(1)
proof (rule handleAssertion_Inr, goal_cases)
  case (1 config oid idp w1 profile w2 attrs u w3)
  note admit = admitAssertion_Inr [OF 1(2)] and valid = validateResponse_Inr [OF 1(3)]
    and replay = guardReplay_Inr [OF 1(4)]
  have config: "sc_isEnabled config" "sc_organizationId config = oid"
    using 1(1) by (auto simp: ssoConfigFor_def dest: enabledConfig_SomeD)
  have db: "w_db w2 = w_db w" using admit replay by simp
  note prov = provision_Inr [OF 1(7), unfolded db, OF assms(2)] and sess = openSsoSession_Inr [OF 1(8)]
  have seen: "\<forall>a. extractAssertionId E profile = Some a \<longrightarrow> a \<noteq> [] \<longrightarrow> w_redisUp w \<longrightarrow> cacheLive w (replayKey a) = None"
    using replay admit cacheLive_cong [of w1 _ w] by simp
  have allowed: "sc_allowIdpInitiated config \<or> (\<exists>st. relay = Some st \<and> cacheLive w (relayKey st) \<noteq> None)"
    using admit by (auto split: if_splits)
  have user: "u_email u = normalizeEmail (ma_email attrs) \<and> (u_status u = UserActive \<or> u_deletedAt u \<noteq> None) \<and>
      (case findFirst (\<lambda>x. u_email x = u_email u) (users (w_db w)) of
         None \<Rightarrow> \<forall>x \<in> set (users (w_db w)). u_id x \<noteq> u_id u
       | Some old \<Rightarrow> u = (if u_deletedAt old = None then old\<lparr>u_status := UserActive\<rparr> else old)) \<and>
      u \<in> set (users (w_db w3)) \<and>
      (\<exists>m \<in> set (memberships (w_db w3)). joinsAs (memberships (w_db w)) (u_id u) oid m) \<and>
      sessions (w_db w3) = sessions (w_db w)"
    using prov by simp
  have validated: "e_samlValidate E (w_now w) (samlConfigOf E config slug) response
      (if truthy_str relay then relay else None) = Inr (Some profile)"
    using valid admit by simp
  from sess user obtain s where s: "s_userId s = u_id u" "s_id s = sl_sessionId r" "s_revokedAt s = None"
    "sessions (w_db w') = sessions (w_db w) @ [s]" "sl_user r = stripSecrets u"
    and ms: "memberships (w_db w') = memberships (w_db w3)" "users (w_db w') = users (w_db w3)"
    by auto
  have member: "\<exists>m \<in> set (memberships (w_db w')). joinsAs (memberships (w_db w)) (u_id u) oid m"
    unfolding ms using user by blast
  have row: "u \<in> set (users (w_db w'))" unfolding ms using user by blast
  show ?case
    by (intro exI [of _ config] exI [of _ oid] exI [of _ profile] exI [of _ attrs] exI [of _ u] exI [of _ s]
        exI [of _ w2] conjI)
      (rule 1(1,5,6) config allowed validated seen member row s user [THEN conjunct1]
        user [THEN conjunct2, THEN conjunct1] user [THEN conjunct2, THEN conjunct2, THEN conjunct1])+
qed

end
