(* ===== verification/SsoReplay.thy ===== *)
theory SsoReplay
  imports SsoLaws
begin

text \<open>
  The replay guard of SAML logins: a run of the SSO module as seen by the marks it keeps in
  the cache.
\<close>

section \<open>How the marks move\<close>

definition isReplayKey :: "string \<Rightarrow> bool" where
  "isReplayKey k \<longleftrightarrow> (\<exists>a. k = replayKey a)"

lemma other_keys [simp]: "\<not> isReplayKey (relayKey st)" "\<not> isReplayKey (sessionKey sid)"
  by (auto simp: isReplayKey_def)

inductive replayMove :: "world \<Rightarrow> world \<Rightarrow> bool" where
  kept: "(\<And>a. w_cache w' (replayKey a) = w_cache w (replayKey a)) \<Longrightarrow> w_redisUp w' = w_redisUp w \<Longrightarrow>
    w_now w \<le> w_now w' \<Longrightarrow> replayMove w w'"
| marked: "(\<And>b. b \<noteq> a \<Longrightarrow> w_cache w' (replayKey b) = w_cache w (replayKey b)) \<Longrightarrow> cacheLive w (replayKey a) = None \<Longrightarrow>
    w_cache w' (replayKey a) = Some (v, e) \<Longrightarrow> (\<And>x. e = Some x \<Longrightarrow> w_now w \<le> x) \<Longrightarrow> w_redisUp w' = w_redisUp w \<Longrightarrow>
    w_now w' = w_now w \<Longrightarrow> replayMove w w'"

interpretation replaySteps: cache_steps replayMove isReplayKey
  by unfold_locales (auto intro!: replayMove.kept simp: isReplayKey_def)

text \<open>The assertion is marked as used until \<open>t\<close> at least, in a cache that is up.\<close>

definition usedUntil :: "string \<Rightarrow> int \<Rightarrow> world \<Rightarrow> bool" where
  "usedUntil a t w \<longleftrightarrow> w_redisUp w \<and> (\<exists>v e. w_cache w (replayKey a) = Some (v, e) \<and> (\<forall>x. e = Some x \<longrightarrow> t \<le> x))"

lemma replayMove_used: "replayMove w w' \<Longrightarrow> usedUntil a t w \<Longrightarrow> usedUntil a t w'"
proof (induction rule: replayMove.induct)
  case (kept w' w)
  then show ?case by (simp add: usedUntil_def)
next
  case (marked b w' w v e)
  show ?case
  proof (cases "a = b")
    case True
    obtain v0 e0 where old: "w_cache w (replayKey b) = Some (v0, e0)" "\<forall>x. e0 = Some x \<longrightarrow> t \<le> x"
      using marked.prems True by (auto simp: usedUntil_def)
    with marked(2) obtain x0 where "e0 = Some x0" "x0 \<le> w_now w"
      by (auto simp: cacheLive_def not_less split: option.splits if_splits)
    with old have "t \<le> w_now w" by simp
    then have "\<forall>x. e = Some x \<longrightarrow> t \<le> x" using marked(4) by fastforce
    with marked True show ?thesis by (auto simp: usedUntil_def)
  next
    case False
    with marked show ?thesis by (simp add: usedUntil_def)
  qed
qed

lemma used_live: "usedUntil a t w \<Longrightarrow> w_now w < t \<Longrightarrow> cacheLive w (replayKey a) \<noteq> None"
  by (auto simp: usedUntil_def cacheLive_def split: option.split)

lemma guardReplay_walks [walks_intros]: "walks replayMove (guardReplay E aid slug oid)"
proof (rule walksI)
  fix w
  let ?a = "orDefault aid []"
  let ?ttl = "fc_samlReplayCacheTtlMs (e_fed E) div 1000"
  show "replayMove\<^sup>*\<^sup>* w (snd (guardReplay E aid slug oid w))"
  proof (cases "truthy_str aid \<and> w_redisUp w \<and> cacheLive w (replayKey ?a) = None")
    case True
    then have run: "snd (guardReplay E aid slug oid w) = snd (cacheSet (replayKey ?a) (CReplay (w_now w)) ?ttl w)"
      by (simp add: guardReplay_def Let_def bindM_run thenM_run cacheExists_run whenM_run cacheSet_run)
    have "replayMove w (snd (cacheSet (replayKey ?a) (CReplay (w_now w)) ?ttl w))"
      by (rule replayMove.marked [where a = ?a and v = "CReplay (w_now w)" and
            e = "if 0 < ?ttl then Some (w_now w + ?ttl * 1000) else None"])
        (use True in \<open>auto simp: cacheSet_run split: if_splits\<close>)
    then show ?thesis unfolding run by blast
  next
    case False
    have "replayMove w (snd (guardReplay E aid slug oid w))"
      by (rule replayMove.kept)
        (use False in \<open>auto simp: guardReplay_def Let_def bindM_run thenM_run cacheExists_run whenM_run cacheSet_run
          recordSsoFailure_def auditRecord_run\<close>)
    then show ?thesis by blast
  qed
qed

lemma guardReplay_marks:
  assumes "guardReplay E (Some a) slug oid w = (Inr u, w')" and "a \<noteq> []" and "w_redisUp w"
  shows "usedUntil a (w_now w + fc_samlReplayCacheTtlMs (e_fed E) div 1000 * 1000) w'"
  using assms
  by (auto simp: guardReplay_def Let_def success_iffs cacheExists_run cacheSet_run truthy_str_def usedUntil_def
      split: if_splits)

section \<open>The SSO module as a run of such moves\<close>

lemma walks_pure:
  assumes "\<And>I. keeps I m"
  shows "walks R m"
proof (rule walks_silent)
  fix w
  show "snd (m w) = w"
    using keepsD [OF assms [of "\<lambda>v. v = w"], of w] by simp
qed

lemma provision_walks [walks_intros]: "walks replayMove (provision E oid attrs d)"
  unfolding provision_def provisionUser_def createSsoUser_def upsertMembership_def createMembership_def
    assignJitRoles_def upsertUserRole_def Let_def
  by (intro walks_intros)

lemma openSsoSession_walks [walks_intros]: "walks replayMove (openSsoSession E config oid u idp meta)"
  unfolding openSsoSession_def signAccessToken_def
  by (intro walks_intros replaySteps.walks_cache_createSession; simp)

lemma validate_walks [walks_intros]: "walks replayMove (validateResponse E config slug response relay)"
  unfolding validateResponse_def buildClient_def Let_def
  by (intro walks_intros walks_silent) (simp split: sum.split option.split)

lemma config_walks [walks_intros]: "walks replayMove (getEnabledConfigForOrgSlug E slug)"
  unfolding getEnabledConfigForOrgSlug_def by (intro walks_intros)

lemma admit_walks [walks_intros]: "walks replayMove (admitAssertion E config oid slug relay)"
  unfolding admitAssertion_def isKnownRelayState_def recordSsoFailure_def Let_def
  by (intro walks_intros replaySteps.walks_cacheDelete; simp)

lemma sso_walks:
  "walks replayMove (handleAssertion E slug response relay meta)"
  "walks replayMove (beginSpInitiatedLogin E slug)"
  unfolding handleAssertion_def beginSpInitiatedLogin_def buildLoginUrl_def buildClient_def recordSsoFailure_def Let_def
  by (intro walks_intros walks_pure [OF keeps_claims(4)]; simp)+

text \<open>
  One request to the SSO module, or anything that leaves the marks of the replay guard alone,
  with the cache up; time may pass.
\<close>

inductive sso_step :: "env \<Rightarrow> world \<Rightarrow> world \<Rightarrow> bool" for E where
  assertion: "sso_step E w (snd (handleAssertion E slug response relay meta w))"
| begin_login: "sso_step E w (snd (beginSpInitiatedLogin E slug w))"
| other: "(\<And>a. w_cache w' (replayKey a) = w_cache w (replayKey a)) \<Longrightarrow> w_redisUp w' = w_redisUp w \<Longrightarrow>
    w_now w \<le> w_now w' \<Longrightarrow> sso_step E w w'"

lemma sso_step_moves: "sso_step E w w' \<Longrightarrow> replayMove\<^sup>*\<^sup>* w w'"
proof (induction rule: sso_step.induct)
  case (other w' w)
  then show ?case by (intro r_into_rtranclp replayMove.kept)
qed (auto intro: walksD sso_walks)

text \<open>The ID of the assertion in a response sent to \<open>slug\<close>, as the library reads it at that moment.\<close>

definition assertionOf :: "env \<Rightarrow> string \<Rightarrow> string \<Rightarrow> string option \<Rightarrow> world \<Rightarrow> string \<Rightarrow> bool" where
  "assertionOf E slug response relay w a \<longleftrightarrow>
     (\<exists>config oid profile. ssoConfigFor E slug w config oid \<and>
        e_samlValidate E (w_now w) (samlConfigOf E config slug) response (if truthy_str relay then relay else None) =
          Inr (Some profile) \<and> extractAssertionId E profile = Some a)"

lemma ssoConfigFor_unique:
  "ssoConfigFor E slug w c oid \<Longrightarrow> ssoConfigFor E slug w c' oid' \<Longrightarrow> c' = c \<and> oid' = oid"
  by (auto simp: ssoConfigFor_def)

lemma accepted_assertion:
  assumes "handleAssertion E slug response relay meta w = (Inr r, w')" and "assertionOf E slug response relay w a"
    and "a \<noteq> []" and "w_redisUp w"
  shows "cacheLive w (replayKey a) = None \<and>
    usedUntil a (w_now w + fc_samlReplayCacheTtlMs (e_fed E) div 1000 * 1000) w'"
  using assms(1)
proof (rule handleAssertion_Inr, goal_cases)
  case (1 config oid idp w1 profile w2 attrs u w3)
  note admit = admitAssertion_Inr [OF 1(2)] and valid = validateResponse_Inr [OF 1(3)]
  have a: "extractAssertionId E profile = Some a"
    using assms(2) ssoConfigFor_unique [OF 1(1)] valid admit by (auto simp: assertionOf_def)
  have "cacheLive w1 (replayKey a) = None" using guardReplay_Inr [OF 1(4)] a assms(3,4) admit by simp
  moreover have "usedUntil a (w_now w + fc_samlReplayCacheTtlMs (e_fed E) div 1000 * 1000) w2"
    using guardReplay_marks [of E a slug oid w1 "()" w2] 1(4) a assms(3,4) admit by simp
  moreover have "replayMove\<^sup>*\<^sup>* w2 w'"
    using walksE [OF provision_walks 1(7)] walksE [OF openSsoSession_walks 1(8)] by (rule rtranclp_trans)
  ultimately show ?case
    using steps_keep [of replayMove w2 w' "usedUntil a (w_now w + fc_samlReplayCacheTtlMs (e_fed E) div 1000 * 1000)"]
      replayMove_used cacheLive_cong [of w1 "replayKey a" w] admit by auto
qed

text \<open>
  C11: a SAML assertion with an ID logs in once: after a login with it, and whatever logins and
  other requests follow while the cache stays up, every response with the same assertion ID, sent
  to any organization, is refused until the time to live of the mark has passed.
\<close>

theorem saml_assertion_works_once:
  assumes "handleAssertion E slug response relay meta w = (Inr r, w1)" and "assertionOf E slug response relay w a"
    and "a \<noteq> []" and "w_redisUp w" and "(sso_step E)\<^sup>*\<^sup>* w1 w2"
    and "w_now w2 < w_now w + fc_samlReplayCacheTtlMs (e_fed E) div 1000 * 1000"
    and "assertionOf E slug' response' relay' w2 a"
  shows "\<exists>e. fst (handleAssertion E slug' response' relay' meta' w2) = Inl e"
proof -
  let ?until = "w_now w + fc_samlReplayCacheTtlMs (e_fed E) div 1000 * 1000"
  have "replayMove\<^sup>*\<^sup>* w1 w2" by (rule walks_rtranclp [OF assms(5) sso_step_moves])
  with accepted_assertion [OF assms(1-4)] have used: "usedUntil a ?until w2"
    using steps_keep [of replayMove w1 w2 "usedUntil a ?until"] replayMove_used by blast
  then have "cacheLive w2 (replayKey a) \<noteq> None" "w_redisUp w2"
    using used_live assms(6) by (auto simp: usedUntil_def)
  with accepted_assertion [OF _ assms(7,3), of meta'] show ?thesis
    by (metis old.sum.exhaust prod.collapse)
qed

end
