(* ===== verification/SsoWitnesses.thy ===== *)
theory SsoWitnesses
  imports SsoReplay Guards
begin

text \<open>
  SAML logins on concrete inputs: the organization of a tenant signs in Bob, a suspended user
  who never was one of its members.
\<close>

definition ssoEnv :: env where
  "ssoEnv = cryptoEnv\<lparr>e_randomBytes := (\<lambda>n len. if len = IV_LENGTH then replicate IV_LENGTH (n mod 256) else [n]),
     e_samlValidate := (\<lambda>now c response relay. Inr (Some (JObj
       [(''ID'', JStr response), (''email'', JStr ''bob@example.com''),
        (''http://schemas.xmlsoap.org/claims/Group'', JArr [JStr ''Super Admin''])])))\<rparr>"

definition ssoDevice :: LoginMetadata where
  "ssoDevice = \<lparr>lm_ipAddress = None, lm_userAgent = None, lm_deviceName = None\<rparr>"

definition tenantConfig :: SsoConfiguration where
  "tenantConfig = \<lparr>sc_id = ''c1'', sc_organizationId = ''org-t'', sc_providerName = ''idp'',
     sc_entryPoint = ''https://idp.tenant'', sc_issuer = ''idp'',
     sc_certificate = ''AAAAAAAAAAAAAAAAAAAAAAAAAAAAAAAAAAAAAE1JSUM='', sc_metadataUrl = None, sc_isEnabled = True,
     sc_allowIdpInitiated = True, sc_ssoOnlyMode = False, sc_attributeMapping = DEFAULT_ATTRIBUTE_MAPPING,
     sc_defaultRoleSlug = None, sc_createdAt = 0\<rparr>"

definition tenantWorld :: world where
  "tenantWorld = worldOf (emptyDb\<lparr>users := [alice, bob\<lparr>u_status := UserSuspended\<rparr>],
     organizations := [\<lparr>o_id = ''org-t'', o_name = ''Tenant'', o_slug = ''tenant'', o_status = OrgActive,
       o_plan = PlanFree, o_settings = JNull, o_createdAt = 0, o_deletedAt = None\<rparr>],
     roles := [\<lparr>r_id = ''rs'', r_organizationId = None, r_name = ''Super Admin'', r_slug = ''super-admin'',
       r_description = None, r_isSystem = True, r_deletedAt = None\<rparr>], ssoConfigurations := [tenantConfig]\<rparr>)"

lemma tenant_login: "map_sum (\<lambda>_. ()) (\<lambda>r. su_id (sl_user r))
    (fst (handleAssertion ssoEnv ''Tenant'' ''a1'' None ssoDevice tenantWorld)) = Inr ''bob''"
  by code_simp

lemma tenant_login_run:
  obtains r w' where "handleAssertion ssoEnv ''Tenant'' ''a1'' None ssoDevice tenantWorld = (Inr r, w')"
    and "su_id (sl_user r) = ''bob''"
proof -
  obtain x w' where run: "handleAssertion ssoEnv ''Tenant'' ''a1'' None ssoDevice tenantWorld = (x, w')"
    by (meson surj_pair)
  with tenant_login have "map_sum (\<lambda>_. ()) (\<lambda>r. su_id (sl_user r)) x = Inr ''bob''"
    unfolding run fst_conv by (simp only:)
  with run that show thesis by (cases x) auto
qed

theorem sso_login_guarantees_witness:
  "\<exists>r w' config. handleAssertion ssoEnv ''Tenant'' ''a1'' None ssoDevice tenantWorld = (Inr r, w') \<and>
     ssoConfigFor ssoEnv ''Tenant'' tenantWorld config ''org-t'' \<and> sc_isEnabled config \<and>
     su_id (sl_user r) = ''bob''"
proof (rule tenant_login_run)
  fix r w'
  assume run: "handleAssertion ssoEnv ''Tenant'' ''a1'' None ssoDevice tenantWorld = (Inr r, w')"
    and bob: "su_id (sl_user r) = ''bob''"
  have "distinct (map u_id (users (w_db tenantWorld)))" by code_simp
  from sso_login_guarantees [OF run this] obtain config oid where c: "ssoConfigFor ssoEnv ''Tenant'' tenantWorld config oid"
    "sc_isEnabled config" by blast
  have "map o_id (organizations (w_db tenantWorld)) = [''org-t'']" by code_simp
  with c(1) have "oid = ''org-t''" by (auto simp: ssoConfigFor_def dest!: findFirst_SomeD)
  with run bob c show ?thesis by blast
qed

lemma tenant_assertion:
  assumes "\<not> isl (fst (getEnabledConfigForOrgSlug ssoEnv ''Tenant'' w))"
  shows "assertionOf ssoEnv ''Tenant'' ''a1'' None w ''a1''"
proof -
  from run_Inr [OF assms] obtain config oid where c: "ssoConfigFor ssoEnv ''Tenant'' w config oid"
    using getEnabledConfig_Inr by fast
  have "extractAssertionId ssoEnv (JObj [(''ID'', JStr ''a1''), (''email'', JStr ''bob@example.com''),
        (''http://schemas.xmlsoap.org/claims/Group'', JArr [JStr ''Super Admin''])]) = Some ''a1''" by code_simp
  with c show ?thesis unfolding assertionOf_def by (intro exI conjI) (auto simp: ssoEnv_def)
qed

theorem saml_assertion_works_once_witness:
  "\<exists>r w1 e. handleAssertion ssoEnv ''Tenant'' ''a1'' None ssoDevice tenantWorld = (Inr r, w1) \<and>
     fst (handleAssertion ssoEnv ''Tenant'' ''a1'' None ssoDevice w1) = Inl e"
proof (rule tenant_login_run)
  fix r w1
  assume run: "handleAssertion ssoEnv ''Tenant'' ''a1'' None ssoDevice tenantWorld = (Inr r, w1)"
  let ?run = "handleAssertion ssoEnv ''Tenant'' ''a1'' None ssoDevice tenantWorld"
  have "\<not> isl (fst (getEnabledConfigForOrgSlug ssoEnv ''Tenant'' tenantWorld))"
    "\<not> isl (fst (getEnabledConfigForOrgSlug ssoEnv ''Tenant'' (snd ?run)))" by code_simp+
  from this [THEN tenant_assertion]
  have config: "assertionOf ssoEnv ''Tenant'' ''a1'' None tenantWorld ''a1''"
    "assertionOf ssoEnv ''Tenant'' ''a1'' None (snd ?run) ''a1''" .
  have h: "''a1'' \<noteq> []" "w_redisUp tenantWorld"
    "w_now (snd ?run) < w_now tenantWorld + fc_samlReplayCacheTtlMs (e_fed ssoEnv) div 1000 * 1000" by code_simp+
  have w1: "snd ?run = w1" unfolding run snd_conv ..
  from saml_assertion_works_once [OF run config(1) h(1,2) rtranclp.rtrancl_refl h(3) [unfolded w1] config(2) [unfolded w1], of ssoDevice]
  show ?thesis using run by blast
qed

text \<open>
  The claims of an identity provider are taken at their word for the whole platform: the one of
  a tenant signs in a suspended user who is no member of it, and a group named after a global
  role makes that user a super admin.
\<close>

theorem identity_provider_takes_over_accounts:
  "fst (isSuperAdmin ''bob'' tenantWorld) = Inr False \<and>
   filter (\<lambda>m. m_userId m = ''bob'') (memberships (w_db tenantWorld)) = [] \<and>
   map u_status (users (w_db tenantWorld)) = [UserActive, UserSuspended] \<and>
   (let (x, w') = handleAssertion ssoEnv ''Tenant'' ''a1'' None ssoDevice tenantWorld in
      map_sum (\<lambda>_. ()) (\<lambda>r. su_id (sl_user r)) x = Inr ''bob'' \<and> fst (isSuperAdmin ''bob'' w') = Inr True \<and>
      map u_status (users (w_db w')) = [UserActive, UserActive])"
  by (intro conjI; code_simp)

end
