(* ===== verification/HttpErrors.thy ===== *)
theory HttpErrors
  imports World
begin

text \<open>
  What a client sees of an exception: \<open>common/filters/http-exception.filter.ts\<close>.
\<close>

record NormalizedError =
  ne_status :: nat
  ne_code :: string
  ne_message :: string
  ne_errors :: "ApiErrorDetail list"

record ApiErrorResponse =
  er_success :: bool
  er_statusCode :: nat
  er_message :: string
  er_errors :: "(ApiErrorDetail list) option"
  er_correlationId :: "string option"
  er_timestamp :: string
  er_path :: string

definition targetFields :: "prisma_target \<Rightarrow> string" where
  "targetFields t = (case t of NoTarget \<Rightarrow> ''field'' | TargetText s \<Rightarrow> s
     | TargetFields fs \<Rightarrow> js_join '', '' fs)"

definition normalizePrismaError :: "string \<Rightarrow> prisma_target \<Rightarrow> NormalizedError" where
  "normalizePrismaError code target =
     (if code = ''P2002'' then
        \<lparr>ne_status = 409, ne_code = ''UNIQUE_CONSTRAINT_VIOLATION'',
         ne_message = ''Unique constraint failed on '' @ targetFields target,
         ne_errors = [\<lparr>ed_field = Some (targetFields target), ed_code = Some ''UNIQUE'',
                       ed_message = ''Value already exists''\<rparr>]\<rparr>
      else if code = ''P2025'' then
        \<lparr>ne_status = 404, ne_code = ''RECORD_NOT_FOUND'',
         ne_message = ''The requested record was not found'', ne_errors = []\<rparr>
      else if code = ''P2003'' then
        \<lparr>ne_status = 400, ne_code = ''FOREIGN_KEY_VIOLATION'',
         ne_message = ''Foreign key constraint failed'', ne_errors = []\<rparr>
      else
        \<lparr>ne_status = 400, ne_code = ''PRISMA_'' @ code,
         ne_message = ''Database request failed'', ne_errors = []\<rparr>)"

text \<open>\<open>statusName\<close> is the reverse lookup \<open>HttpStatus[status]\<close> of the framework's enum.\<close>

fun normalizeHttpException ::
  "(nat \<Rightarrow> string option) \<Rightarrow> nat \<Rightarrow> http_body \<Rightarrow> string \<Rightarrow> NormalizedError" where
  "normalizeHttpException statusName status (TextBody body) msg =
     \<lparr>ne_status = status, ne_code = orDefault (statusName status) ''HTTP_ERROR'',
      ne_message = body, ne_errors = []\<rparr>"
| "normalizeHttpException statusName status (ObjectBody (MessageList ms) code errs) msg =
     \<lparr>ne_status = status, ne_code = orDefault code ''VALIDATION_FAILED'',
      ne_message = ''Validation failed'',
      ne_errors = map (\<lambda>m. \<lparr>ed_field = None, ed_code = None, ed_message = m\<rparr>) ms\<rparr>"
| "normalizeHttpException statusName status (ObjectBody m code errs) msg =
     \<lparr>ne_status = status,
      ne_code = orDefault (orElse code (statusName status)) ''HTTP_ERROR'',
      ne_message = (case m of OneMessage t \<Rightarrow> t | _ \<Rightarrow> msg),
      ne_errors = orDefault errs []\<rparr>"

fun normalize :: "(nat \<Rightarrow> string option) \<Rightarrow> exn \<Rightarrow> NormalizedError" where
  "normalize statusName (AppException code msg errs status) =
     \<lparr>ne_status = status, ne_code = code, ne_message = msg, ne_errors = errs\<rparr>"
| "normalize statusName (PrismaKnownError code target) = normalizePrismaError code target"
| "normalize statusName PrismaValidationError =
     \<lparr>ne_status = 400, ne_code = ''DATABASE_VALIDATION_ERROR'',
      ne_message = ''Invalid database query'', ne_errors = []\<rparr>"
| "normalize statusName (HttpException status body msg) =
     normalizeHttpException statusName status body msg"
| "normalize statusName (JsError msg) =
     \<lparr>ne_status = 500, ne_code = ''INTERNAL_SERVER_ERROR'',
      ne_message = ''An unexpected error occurred'', ne_errors = []\<rparr>"

text \<open>
  \<open>catch\<close>: the response sent for an exception of a request to \<open>path\<close>;
  \<open>requestCorrelationId\<close> is the one on the request object.
\<close>

definition errorResponse ::
  "env \<Rightarrow> (nat \<Rightarrow> string option) \<Rightarrow> string option \<Rightarrow> string \<Rightarrow> world \<Rightarrow> exn \<Rightarrow> ApiErrorResponse" where
  "errorResponse E statusName requestCorrelationId path w e =
     (let n = normalize statusName e in
      \<lparr>er_success = False, er_statusCode = ne_status n, er_message = ne_message n,
       er_errors = (if ne_errors n \<noteq> [] then Some (ne_errors n) else None),
       er_correlationId = orElse (map_option rc_correlationId (w_ctx w)) requestCorrelationId,
       er_timestamp = e_toISOString E (w_now w), er_path = path\<rparr>)"

text \<open>An unexpected error tells the client nothing about itself.\<close>

lemma normalize_JsError_opaque: "normalize sn (JsError m) = normalize sn (JsError m')"
  by simp

lemma errorResponse_AppException:
  "er_statusCode (errorResponse E sn cid path w (AppException code msg errs st)) = st \<and>
   er_message (errorResponse E sn cid path w (AppException code msg errs st)) = msg"
  by (simp add: errorResponse_def Let_def)

end
