(* ===== verification/Http.thy ===== *)
theory Http
  imports HttpErrors Guards
begin

text \<open>
  What surrounds every controller method: the guard that reads the bearer token
  (\<open>common/guards/jwt-auth.guard.ts\<close>), the order in which guards and handler run, and the
  envelope of a successful answer (\<open>common/interceptors/transform.interceptor.ts\<close>).  The guard
  library checks the signature and the expiry of a token; what it hands over, the payload of a
  good token or nothing, is the argument \<open>bearer\<close> of a route.
\<close>

section \<open>The bearer token\<close>

definition notSignedIn :: exn where
  "notSignedIn = unauthorized ''Unauthorized''"

definition jwtAuthGuard :: "bool \<Rightarrow> JwtAccessPayload option \<Rightarrow> HttpRequest \<Rightarrow> HttpRequest act" where
  "jwtAuthGuard isPublic bearer req =
     (if isPublic then returnM req
      else (case bearer of
              None \<Rightarrow> throwM notSignedIn
            | Some payload \<Rightarrow> bindM (validateToken payload) (\<lambda>user. returnM (req\<lparr>hr_user := Some user\<rparr>))))"

text \<open>\<open>@CurrentUser()\<close>; reading a field of an absent user is a TypeError.\<close>

definition currentUser :: "HttpRequest \<Rightarrow> AuthenticatedUser act" where
  "currentUser req = orThrow (hr_user req) (JsError ''Cannot read properties of undefined'')"

text \<open>\<open>@Param(name)\<close>: a matched route has all the parameters of its path.\<close>

definition pathParam :: "HttpRequest \<Rightarrow> string \<Rightarrow> string" where
  "pathParam req name = orDefault (map_of (hr_params req) name) []"

section \<open>Routes\<close>

text \<open>
  A route without \<open>@Public()\<close>: the guard of the application, then the guards of the controller,
  of which the first is the same guard again, then the handler.
\<close>

definition protectedRoute ::
  "(HttpRequest \<Rightarrow> unit act) list \<Rightarrow> JwtAccessPayload option \<Rightarrow> HttpRequest \<Rightarrow>
   (HttpRequest \<Rightarrow> AuthenticatedUser \<Rightarrow> 'a act) \<Rightarrow> 'a act" where
  "protectedRoute guards bearer req handler =
     bindM (jwtAuthGuard False bearer req) (\<lambda>r1.
     bindM (jwtAuthGuard False bearer r1) (\<lambda>r2.
     thenM (forM guards (\<lambda>g. g r2))
     (bindM (currentUser r2) (\<lambda>user. handler r2 user))))"

text \<open>\<open>@RequirePermission(resource, action)\<close> on a controller with \<open>AuthorizationGuard\<close>.\<close>

definition requirePermission :: "string \<Rightarrow> string \<Rightarrow> GuardMetadata" where
  "requirePermission resource action =
     \<lparr>gm_permissions = Some [\<lparr>rq_resource = resource, rq_action = action\<rparr>], gm_policies = None,
      gm_attributes = None, gm_ownership = None, gm_authorization = None, gm_resource = None\<rparr>"

definition permitted :: "env \<Rightarrow> string \<Rightarrow> string \<Rightarrow> HttpRequest \<Rightarrow> unit act" where
  "permitted E resource action = authorizationGuard E defaultLoaders (requirePermission resource action)"

section \<open>The envelope\<close>

record 'a ApiSuccessResponse =
  as_success :: bool
  as_statusCode :: nat
  as_message :: string
  as_data :: 'a
  as_timestamp :: string
  as_correlationId :: "string option"

text \<open>
  The answer to a handler with status \<open>code\<close> and \<open>@ResponseMessage(message)\<close>.  Only a payload
  with \<open>data\<close> and \<open>meta\<close> or \<open>message\<close> would be unwrapped first, and no controller returns one.
\<close>

definition intercept :: "env \<Rightarrow> nat \<Rightarrow> string option \<Rightarrow> 'a act \<Rightarrow> 'a ApiSuccessResponse act" where
  "intercept E code message handler =
     bindM handler (\<lambda>payload.
     bindM nowM (\<lambda>now.
     bindM (getsM w_ctx) (\<lambda>ctx.
     returnM \<lparr>as_success = True, as_statusCode = code, as_message = orDefault message ''Success'',
       as_data = payload, as_timestamp = e_toISOString E now,
       as_correlationId = map_option rc_correlationId ctx\<rparr>)))"

definition metadataOf :: "HttpRequest \<Rightarrow> string option \<Rightarrow> LoginMetadata" where
  "metadataOf req deviceName =
     \<lparr>lm_ipAddress = extractClientIp req, lm_userAgent = extractUserAgent req, lm_deviceName = deviceName\<rparr>"

section \<open>What a protected route asks for\<close>

lemma validateToken_silent: "snd (validateToken p w) = w"
  by (simp add: validateToken_def checkMembershipClaims_def findSessionById_def bindM_run thenM_run
      monad_simps split: sum.split option.split)

lemma validateToken_world: "validateToken p w = (r, w') \<Longrightarrow> w' = w"
  by (metis snd_conv validateToken_silent)

text \<open>Both runs of the guard see the same tables, so they agree.\<close>

lemma protectedRoute_run:
  "protectedRoute guards bearer req handler w = (case bearer of
     None \<Rightarrow> (Inl notSignedIn, w)
   | Some p \<Rightarrow> (case fst (validateToken p w) of
       Inl e \<Rightarrow> (Inl e, w)
     | Inr user \<Rightarrow> thenM (forM guards (\<lambda>g. g (req\<lparr>hr_user := Some user\<rparr>))) (handler (req\<lparr>hr_user := Some user\<rparr>) user) w))"
proof (cases bearer)
  case (Some p)
  show ?thesis
  proof (cases "fst (validateToken p w)")
    case (Inl e)
    then have "validateToken p w = (Inl e, w)" using validateToken_silent [of p w] by (metis prod.collapse)
    with Some show ?thesis by (simp add: protectedRoute_def jwtAuthGuard_def bindM_run)
  next
    case (Inr user)
    then have "validateToken p w = (Inr user, w)" using validateToken_silent [of p w] by (metis prod.collapse)
    with Some show ?thesis
      by (simp add: protectedRoute_def jwtAuthGuard_def currentUser_def bindM_run returnM_run thenM_run orThrow_run
          split: prod.split sum.split)
  qed
qed (simp add: protectedRoute_def jwtAuthGuard_def bindM_run throwM_run)

text \<open>A route that was answered had a token that is still good, and passed the guards.\<close>

lemma protectedRoute_Inr:
  assumes "protectedRoute guards bearer req handler w = (Inr x, w')"
  obtains p user w1 where "bearer = Some p" "validateToken p w = (Inr user, w)"
    "forM guards (\<lambda>g. g (req\<lparr>hr_user := Some user\<rparr>)) w = (Inr (), w1)"
    "handler (req\<lparr>hr_user := Some user\<rparr>) user w1 = (Inr x, w')"
proof -
  from assms obtain p where p: "bearer = Some p" by (cases bearer) (auto simp: protectedRoute_run)
  then obtain user where user: "fst (validateToken p w) = Inr user"
    using assms by (cases "fst (validateToken p w)") (auto simp: protectedRoute_run)
  then have "validateToken p w = (Inr user, w)"
    using validateToken_silent [of p w] by (metis prod.collapse)
  moreover obtain w1 where "forM guards (\<lambda>g. g (req\<lparr>hr_user := Some user\<rparr>)) w = (Inr (), w1)"
    "handler (req\<lparr>hr_user := Some user\<rparr>) user w1 = (Inr x, w')"
    using assms p user by (auto simp: protectedRoute_run thenM_Inr_iff)
  ultimately show thesis using p that by blast
qed

end
