(* ===== verification/RoutesAuth.thy ===== *)
theory RoutesAuth
  imports Http OAuthAccounts SsoLogin MfaLogin
begin

text \<open>
  The controllers of signing in: \<open>auth/controllers\<close>, \<open>mfa/controllers/mfa.controller.ts\<close> and
  \<open>mfa-challenge.controller.ts\<close>, \<open>sso/controllers/sso-login.controller.ts\<close>.  The hooks that
  the MFA and SSO modules register at start-up (\<open>onModuleInit\<close>) are in place.  A body is the
  record of its DTO: the validation of bodies belongs to the framework.
\<close>

definition platformHooks :: "env \<Rightarrow> LoginHooks" where
  "platformHooks E = \<lparr>lh_mfaHook = Some (mfaHook E), lh_ssoEnforcement = Some ssoEvaluate\<rparr>"

section \<open>AuthController\<close>

record RegisterResponseDto =
  rd_user :: SafeUser
  rd_emailVerificationExpiresAt :: int

record LoginDto =
  ld_email :: string
  ld_password :: string
  ld_deviceName :: "string option"

record ChangePasswordDto =
  cpw_currentPassword :: string
  cpw_newPassword :: string
  cpw_revokeOtherSessions :: "bool option"

record SwitchOrganizationResponseDto =
  so_accessToken :: string
  so_expiresAt :: int
  so_organizationId :: string

definition authRegister :: "env \<Rightarrow> RegisterInput \<Rightarrow> RegisterResponseDto ApiSuccessResponse act" where
  "authRegister E dto = intercept E 201 (Some ''User registered. Verification email pending.'')
     (bindM (registerUser E dto) (\<lambda>result.
      returnM \<lparr>rd_user = rr_user result,
        rd_emailVerificationExpiresAt = rr_emailVerificationExpiresAt result\<rparr>))"

definition authVerifyEmail :: "env \<Rightarrow> string \<Rightarrow> string ApiSuccessResponse act" where
  "authVerifyEmail E token = intercept E 200 (Some ''Email verified'') (verifyEmail E token)"

definition authLogin :: "env \<Rightarrow> LoginDto \<Rightarrow> HttpRequest \<Rightarrow> LoginOutcome ApiSuccessResponse act" where
  "authLogin E dto req = intercept E 200 (Some ''Login successful'')
     (login E (platformHooks E) (ld_email dto) (ld_password dto) (metadataOf req (ld_deviceName dto)))"

definition authRefresh :: "env \<Rightarrow> string \<Rightarrow> HttpRequest \<Rightarrow> TokenPair ApiSuccessResponse act" where
  "authRefresh E refreshToken req =
     intercept E 200 (Some ''Token refreshed'') (refreshTokenPair E refreshToken (metadataOf req None))"

definition authLogout :: "env \<Rightarrow> JwtAccessPayload option \<Rightarrow> HttpRequest \<Rightarrow> unit ApiSuccessResponse act" where
  "authLogout E bearer req = protectedRoute [] bearer req (\<lambda>_ user.
     intercept E 204 None (logout E (au_id user) (au_sessionId user)))"

definition authLogoutAll :: "env \<Rightarrow> JwtAccessPayload option \<Rightarrow> HttpRequest \<Rightarrow> unit ApiSuccessResponse act" where
  "authLogoutAll E bearer req = protectedRoute [] bearer req (\<lambda>_ user.
     intercept E 204 None (logoutAll E (au_id user) None))"

definition authChangePassword ::
  "env \<Rightarrow> ChangePasswordDto \<Rightarrow> JwtAccessPayload option \<Rightarrow> HttpRequest \<Rightarrow> unit ApiSuccessResponse act" where
  "authChangePassword E dto bearer req = protectedRoute [] bearer req (\<lambda>_ user.
     intercept E 204 None (changePassword E
       \<lparr>ci_userId = au_id user, ci_currentPassword = cpw_currentPassword dto,
        ci_newPassword = cpw_newPassword dto,
        ci_revokeOtherSessions = orDefault (cpw_revokeOtherSessions dto) True,
        ci_currentSessionId = au_sessionId user\<rparr>))"

text \<open>The answer is the same whether the email exists or not.\<close>

definition authForgotPassword :: "env \<Rightarrow> string \<Rightarrow> bool ApiSuccessResponse act" where
  "authForgotPassword E email =
     intercept E 202 (Some ''If the email exists, a reset link has been sent'')
       (thenM (requestPasswordReset E email) (returnM True))"

definition authResetPassword :: "env \<Rightarrow> string \<Rightarrow> string \<Rightarrow> bool ApiSuccessResponse act" where
  "authResetPassword E token newPassword =
     intercept E 200 (Some ''Password reset successful'')
       (thenM (resetPassword E token newPassword) (returnM True))"

definition authSwitchOrganization ::
  "env \<Rightarrow> string \<Rightarrow> JwtAccessPayload option \<Rightarrow> HttpRequest \<Rightarrow> SwitchOrganizationResponseDto ApiSuccessResponse act" where
  "authSwitchOrganization E oid bearer req = protectedRoute [] bearer req (\<lambda>_ user.
     intercept E 200 (Some ''Active organization switched'')
       (bindM (switchOrganization E (au_id user) (au_sessionId user) oid) (\<lambda>(accessToken, expiresAt).
        returnM \<lparr>so_accessToken = accessToken, so_expiresAt = expiresAt, so_organizationId = oid\<rparr>)))"

section \<open>SessionController\<close>

record SessionResponseDto =
  sr_id :: string
  sr_ipAddress :: "string option"
  sr_userAgent :: "string option"
  sr_deviceName :: "string option"
  sr_lastActivityAt :: int
  sr_expiresAt :: int
  sr_createdAt :: int
  sr_isCurrent :: bool

definition sessionDto :: "string \<Rightarrow> Session \<Rightarrow> SessionResponseDto" where
  "sessionDto current s =
     \<lparr>sr_id = s_id s, sr_ipAddress = s_ipAddress s, sr_userAgent = s_userAgent s,
      sr_deviceName = s_deviceName s, sr_lastActivityAt = s_lastActivityAt s,
      sr_expiresAt = s_expiresAt s, sr_createdAt = s_createdAt s, sr_isCurrent = (s_id s = current)\<rparr>"

definition sessionList ::
  "env \<Rightarrow> JwtAccessPayload option \<Rightarrow> HttpRequest \<Rightarrow> (SessionResponseDto list) ApiSuccessResponse act" where
  "sessionList E bearer req = protectedRoute [] bearer req (\<lambda>_ user.
     intercept E 200 None (bindM (listActiveSessionsForUser (au_id user)) (\<lambda>ss.
       returnM (map (sessionDto (au_sessionId user)) ss))))"

text \<open>\<open>ParseUUIDPipe\<close>: the library's test \<open>isUuid\<close> of a parameter.\<close>

definition notUuid :: exn where
  "notUuid = HttpException 400 (ObjectBody (OneMessage ''Validation failed (uuid is expected)'') None None) ''Bad Request''"

definition sessionRevoke ::
  "env \<Rightarrow> (string \<Rightarrow> bool) \<Rightarrow> JwtAccessPayload option \<Rightarrow> HttpRequest \<Rightarrow> unit ApiSuccessResponse act" where
  "sessionRevoke E isUuid bearer req = protectedRoute [] bearer req (\<lambda>r user.
     intercept E 204 None
       (let sid = pathParam r ''id'' in
        thenM (throw_if (\<not> isUuid sid) notUuid)
        (if sid = au_sessionId user then logout E (au_id user) sid
         else revokeSession sid (au_id user))))"

section \<open>MfaController\<close>

record DisableMfaDto =
  dm_password :: string
  dm_code :: string

record BackupCodesResponseDto =
  bd_codes :: "string list"
  bd_generatedAt :: int

definition mfaSetup :: "env \<Rightarrow> JwtAccessPayload option \<Rightarrow> HttpRequest \<Rightarrow> MfaSetupResponse ApiSuccessResponse act" where
  "mfaSetup E bearer req = protectedRoute [] bearer req (\<lambda>_ user.
     intercept E 200 (Some ''MFA setup initiated'') (setupMfa E (au_id user)))"

text \<open>
  The two methods that draw backup codes until they differ may not return, and so may their
  routes: the guards, then the loop, then the envelope.
\<close>

definition codesRoute ::
  "env \<Rightarrow> string option \<Rightarrow> (AuthenticatedUser \<Rightarrow> (string list \<times> int) loop) \<Rightarrow> JwtAccessPayload option \<Rightarrow> HttpRequest \<Rightarrow>
   BackupCodesResponseDto ApiSuccessResponse loop" where
  "codesRoute E message service bearer req =
     bindL (runL (protectedRoute [] bearer req (\<lambda>_ user. returnM user))) (\<lambda>user.
     bindL (service user) (\<lambda>(codes, generatedAt).
     runL (intercept E 200 message (returnM \<lparr>bd_codes = codes, bd_generatedAt = generatedAt\<rparr>))))"

definition mfaVerifySetup ::
  "env \<Rightarrow> string \<Rightarrow> JwtAccessPayload option \<Rightarrow> HttpRequest \<Rightarrow> BackupCodesResponseDto ApiSuccessResponse loop" where
  "mfaVerifySetup E code = codesRoute E (Some ''MFA enabled'') (\<lambda>user. verifySetup E (au_id user) code)"

definition mfaDisable ::
  "env \<Rightarrow> DisableMfaDto \<Rightarrow> JwtAccessPayload option \<Rightarrow> HttpRequest \<Rightarrow> unit ApiSuccessResponse act" where
  "mfaDisable E dto bearer req = protectedRoute [] bearer req (\<lambda>_ user.
     intercept E 204 None (disableMfa E (au_id user) (dm_password dto) (dm_code dto)))"

definition mfaBackupCodesStatus ::
  "env \<Rightarrow> JwtAccessPayload option \<Rightarrow> HttpRequest \<Rightarrow> (nat \<times> nat) ApiSuccessResponse act" where
  "mfaBackupCodesStatus E bearer req = protectedRoute [] bearer req (\<lambda>_ user.
     intercept E 200 None (listBackupCodeStatus (au_id user)))"

definition mfaRegenerateBackupCodes ::
  "env \<Rightarrow> string \<Rightarrow> JwtAccessPayload option \<Rightarrow> HttpRequest \<Rightarrow> BackupCodesResponseDto ApiSuccessResponse loop" where
  "mfaRegenerateBackupCodes E password =
     codesRoute E None (\<lambda>user. regenerateBackupCodes E (au_id user) password)"

section \<open>MfaChallengeController\<close>

record IssueChallengeDto =
  id_email :: string
  id_password :: string

definition mfaChallenge ::
  "env \<Rightarrow> IssueChallengeDto \<Rightarrow> HttpRequest \<Rightarrow> MfaChallengeRequired ApiSuccessResponse act" where
  "mfaChallenge E dto req = intercept E 200 None
     (reissueChallenge E (id_email dto) (id_password dto) (metadataOf req None))"

definition mfaVerify ::
  "env \<Rightarrow> VerifyMfaChallengeDto \<Rightarrow> string option \<Rightarrow> HttpRequest \<Rightarrow> LoginResult ApiSuccessResponse act" where
  "mfaVerify E dto deviceName req = intercept E 200 (Some ''MFA verified, login complete'')
     (verifyAndCompleteLogin E dto (metadataOf req deviceName))"

section \<open>SsoLoginController\<close>

text \<open>The routes answer on their own: a redirect, and a body without the envelope.\<close>

record AcsReply =
  ac_accessToken :: string
  ac_refreshToken :: string
  ac_sessionId :: string
  ac_user :: SafeUser

definition ssoLogin :: "env \<Rightarrow> HttpRequest \<Rightarrow> string act" where
  "ssoLogin E req = beginSpInitiatedLogin E (pathParam req ''organizationSlug'')"

definition ssoAcs :: "env \<Rightarrow> string option \<Rightarrow> string option \<Rightarrow> HttpRequest \<Rightarrow> AcsReply act" where
  "ssoAcs E samlResponse relayState req =
     bindM (handleAssertion E (pathParam req ''organizationSlug'') (orDefault samlResponse []) relayState
              (metadataOf req None)) (\<lambda>result.
     returnM \<lparr>ac_accessToken = tp_accessToken (sl_tokens result),
       ac_refreshToken = tp_refreshToken (sl_tokens result), ac_sessionId = sl_sessionId result,
       ac_user = sl_user result\<rparr>)"

section \<open>The protected routes of OAuthController\<close>

definition oauthAccountsRoute ::
  "env \<Rightarrow> JwtAccessPayload option \<Rightarrow> HttpRequest \<Rightarrow> (OAuthAccountDto list) ApiSuccessResponse act" where
  "oauthAccountsRoute E bearer req = protectedRoute [] bearer req (\<lambda>_ user.
     intercept E 200 (Some ''Linked accounts'') (oauthAccountsOf user))"

definition oauthLinkRoute ::
  "env \<Rightarrow> string option \<Rightarrow> JwtAccessPayload option \<Rightarrow> HttpRequest \<Rightarrow> string ApiSuccessResponse act" where
  "oauthLinkRoute E redirectTo bearer req = protectedRoute [] bearer req (\<lambda>r user.
     intercept E 201 None (oauthLink E user (pathParam r ''provider'') redirectTo))"

definition oauthUnlinkRoute ::
  "env \<Rightarrow> JwtAccessPayload option \<Rightarrow> HttpRequest \<Rightarrow> unit ApiSuccessResponse act" where
  "oauthUnlinkRoute E bearer req = protectedRoute [] bearer req (\<lambda>r user.
     intercept E 204 None (oauthUnlink E user (pathParam r ''provider'')))"

end
