(* ===== verification/RoutesAdmin.thy ===== *)
theory RoutesAdmin
  imports Http Invitations Policies MfaLogin Sso
begin

text \<open>
  The controllers of administration: members, organizations and invitations
  (\<open>organizations/controllers\<close>), roles, permissions and policies (\<open>authorization/controllers\<close>),
  the MFA policy (\<open>mfa/controllers/org-mfa-policy.controller.ts\<close>) and the SSO configurations
  (\<open>sso/controllers/sso-configuration.controller.ts\<close>) of an organization.  Each route is the
  guards of its controller, the method of the service and the envelope.
\<close>

type_synonym 'a route = "JwtAccessPayload option \<Rightarrow> HttpRequest \<Rightarrow> 'a ApiSuccessResponse act"

section \<open>MemberController\<close>

definition memberList :: "env \<Rightarrow> ((Membership \<times> User option) list) route" where
  "memberList E bearer req = protectedRoute [tenantGuard] bearer req (\<lambda>r _.
     intercept E 200 None (listMembers (pathParam r ''orgId'')))"

definition memberUpdate :: "env \<Rightarrow> UpdateMemberDto \<Rightarrow> Membership route" where
  "memberUpdate E dto bearer req = protectedRoute [tenantGuard] bearer req (\<lambda>r actor.
     intercept E 200 (Some ''Member updated'')
       (updateAttributes E (pathParam r ''orgId'') (pathParam r ''userId'') dto (au_id actor)))"

definition memberRemove :: "env \<Rightarrow> unit route" where
  "memberRemove E bearer req = protectedRoute [tenantGuard] bearer req (\<lambda>r actor.
     intercept E 204 None (removeMember E (pathParam r ''orgId'') (pathParam r ''userId'') (au_id actor)))"

section \<open>OrganizationController\<close>

definition organizationCreate :: "env \<Rightarrow> CreateOrganizationDto \<Rightarrow> Organization route" where
  "organizationCreate E dto bearer req = protectedRoute [] bearer req (\<lambda>_ user.
     intercept E 201 (Some ''Organization created'') (createOrganization E (au_id user) dto))"

definition organizationList :: "env \<Rightarrow> (Organization list) route" where
  "organizationList E bearer req = protectedRoute [] bearer req (\<lambda>_ user.
     intercept E 200 None (findAllForUser (au_id user)))"

definition organizationFindOne :: "env \<Rightarrow> Organization route" where
  "organizationFindOne E bearer req = protectedRoute [] bearer req (\<lambda>r _.
     intercept E 200 None (findOrganizationById (pathParam r ''id'')))"

definition organizationUpdate :: "env \<Rightarrow> UpdateOrganizationDto \<Rightarrow> Organization route" where
  "organizationUpdate E dto bearer req = protectedRoute [] bearer req (\<lambda>r _.
     intercept E 200 (Some ''Organization updated'') (updateOrganization (pathParam r ''id'') dto))"

definition organizationRemove :: "env \<Rightarrow> unit route" where
  "organizationRemove E bearer req = protectedRoute [] bearer req (\<lambda>r user.
     intercept E 204 None (softDeleteOrganization E (pathParam r ''id'') (au_id user)))"

section \<open>InvitationController\<close>

definition invitationCreate :: "env \<Rightarrow> CreateInvitationDto \<Rightarrow> Invitation route" where
  "invitationCreate E dto bearer req = protectedRoute [tenantGuard] bearer req (\<lambda>r actor.
     intercept E 201 (Some ''Invitation created'')
       (bindM (createInvitation E (pathParam r ''orgId'') dto (au_id actor)) (\<lambda>(invitation, _).
        returnM invitation)))"

definition invitationList :: "env \<Rightarrow> (Invitation list) route" where
  "invitationList E bearer req = protectedRoute [tenantGuard] bearer req (\<lambda>r _.
     intercept E 200 None (listInvitations (pathParam r ''orgId'')))"

definition invitationRevoke :: "env \<Rightarrow> unit route" where
  "invitationRevoke E bearer req = protectedRoute [tenantGuard] bearer req (\<lambda>r actor.
     intercept E 204 None
       (revokeInvitation E (pathParam r ''id'') (pathParam r ''orgId'') (au_id actor)))"

definition invitationAccept :: "env \<Rightarrow> string \<Rightarrow> (string \<times> string) route" where
  "invitationAccept E token bearer req = protectedRoute [] bearer req (\<lambda>_ actor.
     intercept E 200 (Some ''Invitation accepted'')
       (acceptInvitation E token (au_id actor) (au_email actor)))"

section \<open>RoleController\<close>

text \<open>The guards of the controller, with the one permission that every route of it requires.\<close>

definition roleGuards :: "env \<Rightarrow> (HttpRequest \<Rightarrow> unit act) list" where
  "roleGuards E = [tenantGuard, permitted E ''roles'' ''manage'']"

definition roleCreate :: "env \<Rightarrow> CreateRoleDto \<Rightarrow> Role route" where
  "roleCreate E dto bearer req = protectedRoute (roleGuards E) bearer req (\<lambda>r user.
     intercept E 201 (Some ''Role created'') (createRole E (Some (pathParam r ''orgId'')) dto (au_id user)))"

definition roleList :: "env \<Rightarrow> (Role list) route" where
  "roleList E bearer req = protectedRoute (roleGuards E) bearer req (\<lambda>r _.
     intercept E 200 None (listRoles (Some (pathParam r ''orgId''))))"

definition roleFindOne :: "env \<Rightarrow> Role route" where
  "roleFindOne E bearer req = protectedRoute (roleGuards E) bearer req (\<lambda>r _.
     intercept E 200 None (findRoleById (pathParam r ''id'')))"

definition roleUpdate :: "env \<Rightarrow> UpdateRoleDto \<Rightarrow> Role route" where
  "roleUpdate E dto bearer req = protectedRoute (roleGuards E) bearer req (\<lambda>r user.
     intercept E 200 (Some ''Role updated'') (updateRole E (pathParam r ''id'') dto (au_id user)))"

definition roleSetPermissions :: "env \<Rightarrow> string list \<Rightarrow> bool route" where
  "roleSetPermissions E permissionIds bearer req = protectedRoute (roleGuards E) bearer req (\<lambda>r user.
     intercept E 200 (Some ''Role permissions updated'')
       (thenM (setPermissions E (pathParam r ''id'') permissionIds (au_id user)) (returnM True)))"

definition roleRemove :: "env \<Rightarrow> unit route" where
  "roleRemove E bearer req = protectedRoute (roleGuards E) bearer req (\<lambda>r user.
     intercept E 204 None (removeRole E (pathParam r ''id'') (au_id user)))"

definition roleAssign :: "env \<Rightarrow> bool route" where
  "roleAssign E bearer req = protectedRoute (roleGuards E) bearer req (\<lambda>r user.
     intercept E 201 (Some ''Role assigned to membership'')
       (thenM (assignToMembership E (pathParam r ''orgId'') (pathParam r ''membershipId'') (pathParam r ''id'') (au_id user))
          (returnM True)))"

definition roleRevoke :: "env \<Rightarrow> unit route" where
  "roleRevoke E bearer req = protectedRoute (roleGuards E) bearer req (\<lambda>r user.
     intercept E 204 None
       (revokeFromMembership E (pathParam r ''orgId'') (pathParam r ''membershipId'') (pathParam r ''id'') (au_id user)))"

section \<open>PermissionController\<close>

definition permissionGuards :: "env \<Rightarrow> (HttpRequest \<Rightarrow> unit act) list" where
  "permissionGuards E = [permitted E ''permissions'' ''manage'']"

definition permissionCreate :: "env \<Rightarrow> CreatePermissionDto \<Rightarrow> Permission route" where
  "permissionCreate E dto bearer req = protectedRoute (permissionGuards E) bearer req (\<lambda>_ _.
     intercept E 201 (Some ''Permission created'') (createPermission E dto))"

definition permissionList :: "env \<Rightarrow> (Permission list) route" where
  "permissionList E bearer req = protectedRoute (permissionGuards E) bearer req (\<lambda>_ _.
     intercept E 200 None listPermissions)"

definition permissionRemove :: "env \<Rightarrow> unit route" where
  "permissionRemove E bearer req = protectedRoute (permissionGuards E) bearer req (\<lambda>r _.
     intercept E 204 None (removePermission (pathParam r ''id'')))"

section \<open>PolicyController\<close>

text \<open>No tenant guard here: the routes have no organization in their path.\<close>

definition policyGuards :: "env \<Rightarrow> (HttpRequest \<Rightarrow> unit act) list" where
  "policyGuards E = [permitted E ''policies'' ''manage'']"

definition policyCreate :: "env \<Rightarrow> CreatePolicyDto \<Rightarrow> Policy route" where
  "policyCreate E dto bearer req = protectedRoute (policyGuards E) bearer req (\<lambda>_ user.
     intercept E 201 (Some ''Policy created'') (createPolicy E dto (au_id user)))"

definition policyList :: "env \<Rightarrow> ((Policy \<times> PolicyCondition list) list) route" where
  "policyList E bearer req = protectedRoute (policyGuards E) bearer req (\<lambda>_ user.
     intercept E 200 None (listPolicies (au_organizationId user)))"

definition policyFindOne :: "env \<Rightarrow> (Policy \<times> PolicyCondition list) route" where
  "policyFindOne E bearer req = protectedRoute (policyGuards E) bearer req (\<lambda>r _.
     intercept E 200 None (findPolicyById (pathParam r ''id'')))"

definition policyUpdate :: "env \<Rightarrow> UpdatePolicyDto \<Rightarrow> Policy route" where
  "policyUpdate E dto bearer req = protectedRoute (policyGuards E) bearer req (\<lambda>r user.
     intercept E 200 (Some ''Policy updated'') (updatePolicy E (pathParam r ''id'') dto (au_id user)))"

definition policyRemove :: "env \<Rightarrow> unit route" where
  "policyRemove E bearer req = protectedRoute (policyGuards E) bearer req (\<lambda>r user.
     intercept E 204 None (removePolicy E (pathParam r ''id'') (au_id user)))"

definition policyAddCondition :: "env \<Rightarrow> CreatePolicyConditionDto \<Rightarrow> PolicyCondition route" where
  "policyAddCondition E dto bearer req = protectedRoute (policyGuards E) bearer req (\<lambda>r user.
     intercept E 201 (Some ''Condition added'') (addCondition E (pathParam r ''id'') dto (au_id user)))"

definition policyUpdateCondition :: "env \<Rightarrow> UpdatePolicyConditionDto \<Rightarrow> PolicyCondition route" where
  "policyUpdateCondition E dto bearer req = protectedRoute (policyGuards E) bearer req (\<lambda>r user.
     intercept E 200 (Some ''Condition updated'')
       (updateCondition E (pathParam r ''id'') (pathParam r ''conditionId'') dto (au_id user)))"

definition policyRemoveCondition :: "env \<Rightarrow> unit route" where
  "policyRemoveCondition E bearer req = protectedRoute (policyGuards E) bearer req (\<lambda>r user.
     intercept E 204 None (removeCondition E (pathParam r ''id'') (pathParam r ''conditionId'') (au_id user)))"

definition policyAssign :: "env \<Rightarrow> CreatePolicyAssignmentDto \<Rightarrow> PolicyAssignment route" where
  "policyAssign E dto bearer req = protectedRoute (policyGuards E) bearer req (\<lambda>r user.
     intercept E 201 (Some ''Policy assigned'') (assignPolicy E (pathParam r ''id'') dto (au_id user)))"

definition policyUnassign :: "env \<Rightarrow> unit route" where
  "policyUnassign E bearer req = protectedRoute (policyGuards E) bearer req (\<lambda>r user.
     intercept E 204 None (unassignPolicy E (pathParam r ''id'') (pathParam r ''assignmentId'') (au_id user)))"

section \<open>OrgMfaPolicyController and SsoConfigurationController\<close>

text \<open>
  The permission is that of the active organization; the organization acted on is named by the
  path, the query or the body, and no guard compares the two.
\<close>

definition mfaPolicyGet :: "env \<Rightarrow> OrganizationMfaSettings route" where
  "mfaPolicyGet E bearer req = protectedRoute [permitted E ''organization'' ''read''] bearer req (\<lambda>r _.
     intercept E 200 None (getPolicyForOrganization E (pathParam r ''orgId'')))"

definition mfaPolicyUpdate :: "env \<Rightarrow> UpdateOrgMfaPolicyDto \<Rightarrow> OrganizationMfaSettings route" where
  "mfaPolicyUpdate E dto bearer req = protectedRoute [permitted E ''organization'' ''manage''] bearer req (\<lambda>r _.
     intercept E 200 (Some ''MFA policy updated'') (updateOrganizationPolicy E (pathParam r ''orgId'') dto))"

definition ssoConfigCreate :: "env \<Rightarrow> CreateSsoConfigurationDto \<Rightarrow> SsoConfigurationResponseDto route" where
  "ssoConfigCreate E dto bearer req = protectedRoute [permitted E ''organization'' ''manage''] bearer req (\<lambda>_ user.
     intercept E 201 (Some ''SSO configuration created'') (createSsoConfiguration E dto (au_id user)))"

definition ssoConfigList :: "env \<Rightarrow> string \<Rightarrow> (SsoConfigurationResponseDto list) route" where
  "ssoConfigList E oid bearer req = protectedRoute [permitted E ''organization'' ''read''] bearer req (\<lambda>_ _.
     intercept E 200 None (findAllSsoForOrganization oid))"

definition ssoConfigUpdate :: "env \<Rightarrow> UpdateSsoConfigurationDto \<Rightarrow> SsoConfigurationResponseDto route" where
  "ssoConfigUpdate E dto bearer req = protectedRoute [permitted E ''organization'' ''manage''] bearer req (\<lambda>r user.
     intercept E 200 (Some ''SSO configuration updated'') (updateSsoConfiguration E (pathParam r ''id'') dto (au_id user)))"

definition ssoConfigRemove :: "env \<Rightarrow> unit route" where
  "ssoConfigRemove E bearer req = protectedRoute [permitted E ''organization'' ''manage''] bearer req (\<lambda>r user.
     intercept E 204 None (removeSsoConfiguration E (pathParam r ''id'') (au_id user)))"

end
