(* ===== verification/Constraints.thy ===== *)
theory Constraints
  imports Steps
begin

text \<open>
  The keys of \<open>prisma/schema.prisma\<close>: for every model its primary key and its \<open>@unique\<close> and
  \<open>@@unique\<close> columns, with the normal forms of the texts that rows are looked up by.  A row is
  compared with the others when it is created; that no later write breaks a key is a theorem
  about the services.
\<close>

section \<open>Keys of a table\<close>

named_theorems table_keys \<open>what the keys of the tables are\<close>

definition usersOk :: "User list \<Rightarrow> bool" where [table_keys]:
  "usersOk rows \<longleftrightarrow> distinct (map u_id rows) \<and> distinct (map u_email rows) \<and>
     list_all (\<lambda>e. normalizeEmail e = e) (map u_email rows)"

definition mfaSecretsOk :: "MfaSecret list \<Rightarrow> bool" where [table_keys]:
  "mfaSecretsOk rows \<longleftrightarrow> distinct (map ms_userId rows)"

definition backupCodesOk :: "BackupCode list \<Rightarrow> bool" where [table_keys]:
  "backupCodesOk rows \<longleftrightarrow> distinct (map bc_id rows) \<and> distinct (map bc_codeHash rows)"

definition mfaChallengesOk :: "MfaChallenge list \<Rightarrow> bool" where [table_keys]:
  "mfaChallengesOk rows \<longleftrightarrow> distinct (map mc_id rows) \<and> distinct (map mc_tokenHash rows)"

definition oauthAccountsOk :: "OAuthAccount list \<Rightarrow> bool" where [table_keys]:
  "oauthAccountsOk rows \<longleftrightarrow> distinct (map oa_id rows) \<and>
     distinct (map (\<lambda>a. (oa_provider a, oa_providerUserId a)) rows) \<and>
     distinct (map (\<lambda>a. (oa_userId a, oa_provider a)) rows)"

definition sessionsOk :: "Session list \<Rightarrow> bool" where [table_keys]:
  "sessionsOk rows \<longleftrightarrow> distinct (map s_id rows) \<and> distinct (map s_familyId rows)"

definition refreshTokensOk :: "RefreshToken list \<Rightarrow> bool" where [table_keys]:
  "refreshTokensOk rows \<longleftrightarrow> distinct (map rt_id rows) \<and> distinct (map rt_tokenHash rows) \<and>
     distinct (List.map_filter rt_replacedByTokenId rows) \<and>
     list_all (\<lambda>i. i \<in> set (map rt_id rows)) (List.map_filter rt_replacedByTokenId rows)"

definition oneTimeTokensOk :: "OneTimeToken list \<Rightarrow> bool" where [table_keys]:
  "oneTimeTokensOk rows \<longleftrightarrow> distinct (map ot_id rows) \<and> distinct (map ot_tokenHash rows)"

definition passwordHistoryOk :: "PasswordHistory list \<Rightarrow> bool" where [table_keys]:
  "passwordHistoryOk rows \<longleftrightarrow> distinct (map ph_id rows)"

definition organizationsOk :: "Organization list \<Rightarrow> bool" where [table_keys]:
  "organizationsOk rows \<longleftrightarrow> distinct (map o_id rows) \<and> distinct (map o_slug rows) \<and>
     list_all (\<lambda>s. toLowerCase s = s) (map o_slug rows)"

definition ssoConfigurationsOk :: "SsoConfiguration list \<Rightarrow> bool" where [table_keys]:
  "ssoConfigurationsOk rows \<longleftrightarrow> distinct (map sc_id rows) \<and>
     distinct (map (\<lambda>c. (sc_organizationId c, sc_providerName c)) rows)"

definition membershipsOk :: "Membership list \<Rightarrow> bool" where [table_keys]:
  "membershipsOk rows \<longleftrightarrow> distinct (map m_id rows) \<and>
     distinct (map (\<lambda>m. (m_userId m, m_organizationId m)) rows)"

text \<open>A null organization makes no two rows equal: only the roles and policies of an organization
  have slugs of their own.\<close>

definition scopedSlug :: "string option \<Rightarrow> string \<Rightarrow> (string \<times> string) option" where [table_keys]:
  "scopedSlug organizationId slug = map_option (\<lambda>oid. (oid, slug)) organizationId"

definition rolesOk :: "Role list \<Rightarrow> bool" where [table_keys]:
  "rolesOk rows \<longleftrightarrow> distinct (map r_id rows) \<and>
     distinct (List.map_filter (\<lambda>r. scopedSlug (r_organizationId r) (r_slug r)) rows)"

definition permissionsOk :: "Permission list \<Rightarrow> bool" where [table_keys]:
  "permissionsOk rows \<longleftrightarrow> distinct (map p_id rows) \<and> distinct (map (\<lambda>p. (p_resource p, p_action p)) rows)"

definition rolePermissionsOk :: "RolePermission list \<Rightarrow> bool" where [table_keys]:
  "rolePermissionsOk rows \<longleftrightarrow> distinct (map (\<lambda>rp. (rp_roleId rp, rp_permissionId rp)) rows)"

definition userRolesOk :: "UserRole list \<Rightarrow> bool" where [table_keys]:
  "userRolesOk rows \<longleftrightarrow> distinct (map (\<lambda>ur. (ur_membershipId ur, ur_roleId ur)) rows)"

definition policiesOk :: "Policy list \<Rightarrow> bool" where [table_keys]:
  "policiesOk rows \<longleftrightarrow> distinct (map pol_id rows) \<and>
     distinct (List.map_filter (\<lambda>p. scopedSlug (pol_organizationId p) (pol_slug p)) rows)"

definition policyConditionsOk :: "PolicyCondition list \<Rightarrow> bool" where [table_keys]:
  "policyConditionsOk rows \<longleftrightarrow> distinct (map pc_id rows)"

definition policyAssignmentsOk :: "PolicyAssignment list \<Rightarrow> bool" where [table_keys]:
  "policyAssignmentsOk rows \<longleftrightarrow> distinct (map pa_id rows)"

definition invitationsOk :: "Invitation list \<Rightarrow> bool" where [table_keys]:
  "invitationsOk rows \<longleftrightarrow> distinct (map inv_id rows) \<and> distinct (map inv_tokenHash rows) \<and>
     list_all (\<lambda>e. normalizeEmail e = e) (map inv_email rows)"

text \<open>All tables of the database.\<close>

definition schemaOk :: "database \<Rightarrow> bool" where
  "schemaOk d \<longleftrightarrow>
     refreshTokensOk (refreshTokens d) \<and> sessionsOk (sessions d) \<and>
     oneTimeTokensOk (emailVerificationTokens d) \<and> oneTimeTokensOk (passwordResetTokens d) \<and>
     usersOk (users d) \<and> passwordHistoryOk (passwordHistory d) \<and> organizationsOk (organizations d) \<and>
     membershipsOk (memberships d) \<and> invitationsOk (invitations d) \<and> rolesOk (roles d) \<and>
     permissionsOk (permissions d) \<and> rolePermissionsOk (rolePermissions d) \<and> userRolesOk (userRoles d) \<and>
     policiesOk (policies d) \<and> policyConditionsOk (policyConditions d) \<and>
     policyAssignmentsOk (policyAssignments d) \<and> mfaSecretsOk (mfaSecrets d) \<and>
     backupCodesOk (backupCodes d) \<and> mfaChallengesOk (mfaChallenges d) \<and>
     oauthAccountsOk (oauthAccounts d) \<and> ssoConfigurationsOk (ssoConfigurations d)"

section \<open>What a write does to keys\<close>

declare map_updateRows_key [simp]

lemma map_filter_updateRows_key [simp]:
  "(\<And>r. key (f r) = key r) \<Longrightarrow> List.map_filter key (updateRows p f rows) = List.map_filter key rows"
  by (induction rows) (auto simp: List.map_filter_simps split: option.split)

lemma distinct_deleteRows [simp]: "distinct (map key rows) \<Longrightarrow> distinct (map key (deleteRows p rows))"
  by (simp add: deleteRows_def distinct_map_filter)

lemma set_map_filter: "set (List.map_filter f xs) = {y. \<exists>x \<in> set xs. f x = Some y}"
  by (induction xs) (auto simp: List.map_filter_simps split: option.split)

lemma distinct_map_filter_append [simp]:
  "distinct (List.map_filter key (rows @ [row])) \<longleftrightarrow>
     distinct (List.map_filter key rows) \<and> (\<forall>k. key row = Some k \<longrightarrow> (\<forall>r \<in> set rows. key r \<noteq> Some k))"
  by (induction rows) (auto simp: List.map_filter_simps set_map_filter split: option.split)

lemma list_all_deleteRows [simp]: "list_all P (map key rows) \<Longrightarrow> list_all P (map key (deleteRows p rows))"
  by (auto simp: list_all_iff deleteRows_def)

lemma setIf_key: "(\<And>x r. key (f x r) = key r) \<Longrightarrow> key (setIf a f r) = key r"
  by (simp add: setIf_def split: option.split)

lemmas setIf_keys [simp] =
  setIf_key [where key = m_id] setIf_key [where key = m_userId] setIf_key [where key = m_organizationId]
  setIf_key [where key = o_id] setIf_key [where key = o_slug] setIf_key [where key = r_id]
  setIf_key [where key = r_organizationId] setIf_key [where key = r_slug] setIf_key [where key = pol_id]
  setIf_key [where key = pol_organizationId] setIf_key [where key = pol_slug] setIf_key [where key = pc_id]
  setIf_key [where key = sc_id] setIf_key [where key = sc_organizationId]

text \<open>
  \<open>governed R t ok\<close>: the relation allows every write of the table \<open>t\<close> that keeps \<open>ok\<close>.  A
  relation that does not look at the table allows all of them; one that watches the keys allows
  those.
\<close>

definition governed :: "(world \<Rightarrow> world \<Rightarrow> bool) \<Rightarrow> 'r table \<Rightarrow> ('r list \<Rightarrow> bool) \<Rightarrow> bool" where
  "governed R t ok \<longleftrightarrow> (\<forall>w f. (ok (fst t (w_db w)) \<longrightarrow> ok (f (fst t (w_db w)))) \<longrightarrow> R w (w_db_update (snd t f) w))"

lemma governedD:
  "governed R (get, upd) ok \<Longrightarrow> (ok (get (w_db w)) \<Longrightarrow> ok (f (get (w_db w)))) \<Longrightarrow>
   R\<^sup>*\<^sup>* w (w_db_update (upd f) w)"
  by (auto simp: governed_def)

lemma governed_dbUpdate:
  "governed R (get, upd) ok \<Longrightarrow> (\<And>rows. ok rows \<Longrightarrow> ok (updateRows p f rows)) \<Longrightarrow> walks R (dbUpdate (get, upd) p f)"
  by (rule walksI) (auto simp: dbUpdate_run intro: governedD split: option.split)

lemma governed_dbUpdateMany:
  "governed R (get, upd) ok \<Longrightarrow> (\<And>rows. ok rows \<Longrightarrow> ok (updateRows p f rows)) \<Longrightarrow> walks R (dbUpdateMany (get, upd) p f)"
  by (rule walksI) (auto simp: dbUpdateMany_run intro: governedD)

lemma governed_dbCreate:
  "governed R (get, upd) ok \<Longrightarrow> (\<And>rows. ok rows \<Longrightarrow> \<forall>r \<in> set rows. \<not> conflict r \<Longrightarrow> ok (rows @ [row])) \<Longrightarrow>
   walks R (dbCreate (get, upd) cols conflict par row)"
  by (rule walksI) (auto simp: dbCreate_run intro!: governedD [where upd = upd and get = get and ok = ok])

lemma governed_dbDelete:
  "governed R (get, upd) ok \<Longrightarrow> (\<And>rows. ok rows \<Longrightarrow> ok (deleteRows p rows)) \<Longrightarrow> walks R (dbDelete (get, upd) p)"
  by (rule walksI) (auto simp: dbDelete_run intro: governedD split: option.split)

lemma governed_dbDeleteMany:
  "governed R (get, upd) ok \<Longrightarrow> (\<And>rows. ok rows \<Longrightarrow> ok (deleteRows p rows)) \<Longrightarrow> walks R (dbDeleteMany (get, upd) p)"
  by (rule walksI) (auto simp: dbDeleteMany_run intro: governedD)

lemmas governed_writes = governed_dbUpdate governed_dbUpdateMany governed_dbCreate governed_dbDelete
  governed_dbDeleteMany

text \<open>A relation that does not see the table.\<close>

context observed_steps
begin

lemma governed_unobserved:
  "(\<And>f d. obs (upd f d) = obs d) \<Longrightarrow> governed R (get, upd) ok"
  by (simp add: governed_def idle)

end

end
