(* ===== verification/ServiceSteps.thy ===== *)
theory ServiceSteps
  imports RoutesAuth RoutesAdmin OAuthLaws SsoReplay Constraints
begin

text \<open>
  Every service of the platform as a run of a step relation that the account services keep to:
  the interface \<open>account_steps\<close> says what the relation has to allow (the methods of the session
  and authentication services, and whatever leaves the observed tables alone), and inside it
  every other method and every route of the platform is shown to be such a run.
\<close>

text \<open>Methods that may not return: a call that does return was such a run.\<close>

definition walksL :: "(world \<Rightarrow> world \<Rightarrow> bool) \<Rightarrow> 'a loop \<Rightarrow> bool" where
  "walksL R l \<longleftrightarrow> (\<forall>w x w'. l w = Some (x, w') \<longrightarrow> R\<^sup>*\<^sup>* w w')"

lemma walksL_runL: "walks R m \<Longrightarrow> walksL R (runL m)"
  by (auto simp: walksL_def runL_def dest: walksD intro: walksE)

lemma walksL_bindL:
  assumes "walksL R l" and "\<And>x. walksL R (f x)"
  shows "walksL R (bindL l f)"
  unfolding walksL_def
proof (intro allI impI)
  fix w x w'
  assume run: "bindL l f w = Some (x, w')"
  then obtain y w1 where l: "l w = Some (y, w1)" by (cases "l w") (auto simp: bindL_def)
  then have "R\<^sup>*\<^sup>* w w1" using assms(1) by (simp add: walksL_def)
  moreover have "R\<^sup>*\<^sup>* w1 w'"
    using run l assms(2) by (cases y) (auto simp: bindL_def walksL_def)
  ultimately show "R\<^sup>*\<^sup>* w w'" by (rule rtranclp_trans)
qed

lemma walksL_case_prod: "(\<And>a b. walksL R (f a b)) \<Longrightarrow> walksL R (case x of (a, b) \<Rightarrow> f a b)"
  by (simp split: prod.split)

context observed_steps
begin

lemma passive_steps [walks_intros]:
  "walks R (deriveKey E key)" "walks R (encryptSecret E s)" "walks R (decryptSecret E s)"
  "walks R (fetchM E rq)" "walks R (jsonOf res)" "walks R (propM E v k)"
  unfolding encryptSecret_def decryptSecret_def encryptAesGcm_def decryptAesGcm_def deriveKey_def
    fetchM_def jsonOf_def propM_def Let_def
  by (intro walks_intros)+

end

text \<open>
  What the services of the platform need of the relation: it allows every write of a table that
  keeps its keys, and the methods that write several rows of a kind at once.  What the users must
  satisfy is a parameter: new users with an email in normal form keep it, and so do updates that
  change neither the identity nor the status of a user.  Two operations write the status: the
  login with a password, which may lock, and the assertion of an identity provider, which
  reactivates; they come with \<open>platform_steps\<close>.
\<close>

locale service_steps = observed_steps +
  fixes E :: env and users_ok :: "User list \<Rightarrow> bool"
  assumes quiet_users: "(\<And>u. u_id (f u) = u_id u) \<Longrightarrow> (\<And>u. u_email (f u) = u_email u) \<Longrightarrow>
      (\<And>u. u_status (f u) = u_status u) \<Longrightarrow> (\<And>u. u_deletedAt (f u) = u_deletedAt u) \<Longrightarrow>
      users_ok rows \<Longrightarrow> users_ok (updateRows p f rows)"
    and new_users: "users_ok rows \<Longrightarrow> \<forall>u \<in> set rows. u_id u \<noteq> u_id row \<and> u_email u \<noteq> u_email row \<Longrightarrow>
      normalizeEmail (u_email row) = u_email row \<Longrightarrow> users_ok (rows @ [row])"
    and governed_tables:
    "governed R usersT users_ok" "governed R organizationsT organizationsOk"
    "governed R membershipsT membershipsOk" "governed R rolesT rolesOk"
    "governed R permissionsT permissionsOk" "governed R rolePermissionsT rolePermissionsOk"
    "governed R userRolesT userRolesOk" "governed R policiesT policiesOk"
    "governed R policyConditionsT policyConditionsOk" "governed R policyAssignmentsT policyAssignmentsOk"
    "governed R invitationsT invitationsOk" "governed R mfaSecretsT mfaSecretsOk"
    "governed R backupCodesT backupCodesOk" "governed R mfaChallengesT mfaChallengesOk"
    "governed R oauthAccountsT oauthAccountsOk" "governed R ssoConfigurationsT ssoConfigurationsOk"
    and account_ops [walks_intros]:
    "walks R (createSession E uid meta)" "walks R (revokeSession sid uid)"
    "walks R (registerUser E inp)" "walks R (verifyEmail E tok)" "walks R (refreshTokenPair E rt meta)"
    "walks R (switchOrganization E uid sid oid)" "walks R (logout E uid sid)" "walks R (logoutAll E uid ex)"
    "walks R (changePassword E ci)" "walks R (requestPasswordReset E email)"
    "walks R (resetPassword E tok np)" "walks R (completeLogin E u meta)"
    and provider_renamed [walks_intros]: "walks R (updateSsoConfiguration E cid ud uid)"
begin

declare walks_dbUpdate [walks_intros del] walks_dbUpdateMany [walks_intros del] walks_dbCreate [walks_intros del]
  walks_dbDelete [walks_intros del] walks_dbDeleteMany [walks_intros del] handleFailedLogin_walks [walks_intros del]

lemmas table_writes [walks_intros] =
  governed_writes [OF governed_tables(1)] governed_writes [OF governed_tables(2)] governed_writes [OF governed_tables(3)]
  governed_writes [OF governed_tables(4)] governed_writes [OF governed_tables(5)] governed_writes [OF governed_tables(6)]
  governed_writes [OF governed_tables(7)] governed_writes [OF governed_tables(8)] governed_writes [OF governed_tables(9)]
  governed_writes [OF governed_tables(10)] governed_writes [OF governed_tables(11)] governed_writes [OF governed_tables(12)]
  governed_writes [OF governed_tables(13)] governed_writes [OF governed_tables(14)] governed_writes [OF governed_tables(15)]
  governed_writes [OF governed_tables(16)]

section \<open>Members, organizations, invitations\<close>

lemma membership_steps [walks_intros]:
  "walks R (findByUserAndOrgOrThrow uid oid)" "walks R (listMembers oid)"
  "walks R (updateAttributes E oid uid um actor)" "walks R (removeMember E oid uid actor)"
  "walks R (bumpPermissionsVersion mid)" "walks R (bumpPermissionsVersionForRole rid)"
  "walks R (bumpAllVersionsForOrg oid)" "walks R (upsertUserRole mid rid)"
  unfolding findByUserAndOrgOrThrow_def findByUserAndOrg_def listMembers_def updateAttributes_def removeMember_def
    ensureNotLastAdmin_def bumpPermissionsVersion_def bumpPermissionsVersionForRole_def bumpAllVersionsForOrg_def
    upsertUserRole_def Let_def
  by ((intro walks_intros); auto simp: table_keys)+

lemma createMembership_steps [walks_intros]:
  assumes "\<And>m. m_id (g m) = m_id m" "\<And>m. m_userId (g m) = m_userId m" "\<And>m. m_organizationId (g m) = m_organizationId m"
  shows "walks R (createMembership E uid oid g)"
  unfolding createMembership_def by (intro walks_intros) (auto simp: table_keys assms)

lemma organization_steps [walks_intros]:
  "walks R (createOrganization E uid co)" "walks R (findAllForUser uid)" "walks R (findOrganizationById oid)"
  "walks R (updateOrganization oid uo)" "walks R (softDeleteOrganization E oid uid)"
  unfolding createOrganization_def findAllForUser_def findOrganizationById_def updateOrganization_def
    softDeleteOrganization_def Let_def
  by ((intro walks_intros); auto simp: table_keys)+

lemma invitation_steps [walks_intros]:
  "walks R (createInvitation E oid iv uid)" "walks R (listInvitations oid)"
  "walks R (revokeInvitation E iid oid uid)" "walks R (acceptInvitation E tok uid email)"
  unfolding createInvitation_def listInvitations_def revokeInvitation_def acceptInvitation_def
    joinOrganization_def grantInvitedRole_def enqueueInvitationEmail_def Let_def
  by ((intro walks_intros); auto simp: table_keys)+

section \<open>Roles, permissions, policies\<close>

lemma permission_steps [walks_intros]:
  "walks R (createPermission E cp)" "walks R listPermissions" "walks R (removePermission pid)"
  "walks R (resolvePermissions uid oid mid)" "walks R (invalidateForUser uid oid)"
  "walks R (invalidateForRole rid)" "walks R (invalidateForOrganization oid)"
  unfolding createPermission_def listPermissions_def removePermission_def findPermissionById_def
    resolvePermissions_def loadPermissions_def invalidateForUser_def invalidateForRole_def invalidateForOrganization_def Let_def
  by ((intro walks_intros); auto simp: table_keys)+

lemma rolePermissions_steps [walks_intros]: "walks R (createRolePermissions rid ps)"
  by (rule walksI) (auto simp: createRolePermissions_def table_keys distinct_map inj_on_def
      intro!: governedD [OF governed_tables(6)])

lemma role_steps [walks_intros]:
  "walks R (createRole E org cr uid)" "walks R (listRoles org)" "walks R (findRoleById rid)"
  "walks R (updateRole E rid ur uid)" "walks R (removeRole E rid uid)" "walks R (setPermissions E rid ps uid)"
  "walks R (assignToMembership E oid mid rid uid)" "walks R (revokeFromMembership E oid mid rid uid)"
  unfolding createRole_def listRoles_def findRoleById_def updateRole_def removeRole_def setPermissions_def
    assignToMembership_def afterAssignment_def revokeFromMembership_def Let_def
  by ((intro walks_intros); auto simp: table_keys)+

lemma policy_steps [walks_intros]:
  "walks R (createPolicy E cpd uid)" "walks R (listPolicies org)" "walks R (findPolicyById pid)"
  "walks R (updatePolicy E pid upd uid)" "walks R (removePolicy E pid uid)" "walks R (addCondition E pid cpc uid)"
  "walks R (updateCondition E pid cid upc uid)" "walks R (removeCondition E pid cid uid)"
  "walks R (assignPolicy E pid cpa uid)" "walks R (unassignPolicy E pid aid uid)" "walks R (resolvePolicies uid oid mid)"
  unfolding createPolicy_def listPolicies_def findPolicyById_def updatePolicy_def removePolicy_def addCondition_def
    updateCondition_def removeCondition_def assignPolicy_def unassignPolicy_def resolvePolicies_def createConditions_def
    createCondition_def invalidateAfterPolicyChange_def auditPolicyUpdate_def Let_def
  by ((intro walks_intros); auto simp: table_keys conditionData_def)+

section \<open>Guards\<close>

lemma authorization_steps [walks_intros]:
  "walks R (loadAttributes u)" "walks R (resolveAttributes E u)" "walks R (evaluateRequest E inp)"
  "walks R (loadResourceBy defaultLoaders ty rid org)"
proof -
  show "walks R (loadAttributes u)" for u
    unfolding loadAttributes_def Let_def by (intro walks_intros)
  then show attrs: "walks R (resolveAttributes E u)" for u
    unfolding resolveAttributes_def Let_def by (intro walks_intros)
  show "walks R (evaluateRequest E inp)"
    unfolding evaluateRequest_def Let_def by (intro walks_intros attrs)
  have loader_steps: "defaultLoaders ty = Some l \<Longrightarrow> walks R (l rid org)" for l
    by (auto simp: defaultLoaders_def registerLoader_def userLoader_def organizationLoader_def membershipLoader_def
        policyLoader_def Let_def intro!: walks_intros split: if_splits)
  then show "walks R (loadResourceBy defaultLoaders ty rid org)"
    unfolding loadResourceBy_def
    by (cases "defaultLoaders ty") (auto intro: walks_intros)
qed

lemma walks_mapM [walks_intros]: "(\<And>x. walks R (f x)) \<Longrightarrow> walks R (mapM f xs)"
  by (induction xs) (auto intro!: walks_intros)

lemma guard_steps [walks_intros]:
  "walks R (tenantGuard req)" "walks R (jwtAuthGuard b bearer req)" "walks R (currentUser req)"
  "walks R (permitted E res act req)"
  unfolding tenantGuard_def jwtAuthGuard_def currentUser_def permitted_def authorizationGuard_def loadResource_def
    buildContext_def collectDecisions_def validateToken_def checkMembershipClaims_def findSessionById_def Let_def
  by (intro walks_intros)+

lemma route_steps [walks_intros]:
  assumes "\<And>g r. g \<in> set guards \<Longrightarrow> walks R (g r)" and "\<And>r u. walks R (handler r u)"
  shows "walks R (protectedRoute guards bearer req handler)"
proof -
  have guards: "walks R (forM guards (\<lambda>g. g r))" for r
    using assms(1) by (induction guards) (auto intro!: walks_intros)
  show ?thesis unfolding protectedRoute_def by (intro walks_bindM walks_thenM guards guard_steps assms(2))
qed

lemma intercept_steps [walks_intros]: "walks R m \<Longrightarrow> walks R (intercept E code msg m)"
  unfolding intercept_def by (intro walks_intros)

section \<open>Second factors\<close>

lemma factor_steps [walks_intros]:
  "walks R (generateSecret E name)" "walks R (toQrCodeDataUrl E url)" "walks R (upsertMfaSecret uid secret)"
  "walks R (createBackupRows E uid codes)" "walks R (storeBackupCodes E uid codes)" "walks R (checkSetupCode E uid code)"
  "walks R (enableMfa E uid)" "walks R (reauthenticate E uid pw)" "walks R (enabledSecret uid)"
  "walks R (listBackupCodeStatus uid)" "walks R (verifyTotp E uid code)" "walks R (consumeBackupCode E uid code)"
  "walks R (isMfaEnabled uid)"
  unfolding generateSecret_def toQrCodeDataUrl_def upsertMfaSecret_def createBackupRows_def storeBackupCodes_def
    checkSetupCode_def enableMfa_def reauthenticate_def enabledSecret_def listBackupCodeStatus_def verifyTotp_def
    consumeBackupCode_def isMfaEnabled_def Let_def
  by ((intro walks_intros); auto simp: table_keys)+

lemma mfa_steps [walks_intros]:
  "walks R (setupMfa E uid)" "walks R (disableMfa E uid pw code)"
  unfolding setupMfa_def disableMfa_def Let_def
  by ((intro walks_intros); auto simp: table_keys)+

lemma challenge_steps [walks_intros]:
  "walks R (issueMfaChallenge E uid meta)" "walks R (consumeMfaChallenge E tok)" "walks R (recordAttempt cid b)"
  "walks R (issueChallenge E uid meta)" "walks R (mfaHook E u meta)" "walks R (reissueChallenge E email pw meta)"
  "walks R (checkFactor E uid dto)" "walks R (verifyAndCompleteLogin E dto meta)"
  unfolding issueMfaChallenge_def consumeMfaChallenge_def recordAttempt_def issueChallenge_def mfaHook_def
    reissueChallenge_def checkFactor_def verifyAndCompleteLogin_def refuseFactor_def completeMfaLogin_def Let_def
  by ((intro walks_intros); auto simp: table_keys markAttempt_def walks_intros intro!: quiet_users
      split: MfaChallengeMethod.split)+

lemma mfa_policy_steps [walks_intros]:
  "walks R (getPolicyForOrganization E oid)" "walks R (updateOrganizationPolicy E oid up)"
  unfolding getPolicyForOrganization_def updateOrganizationPolicy_def Let_def
  by ((intro walks_intros); auto simp: table_keys)+

section \<open>OAuth\<close>

lemma findProp_steps [walks_intros]: "walks R (findProp E xs k)"
  by (induction xs) (unfold findProp.simps, (rule walks_intros | assumption)+)

lemma profile_steps [walks_intros]: "walks R (fetchProfile E strategy tok)"
  unfolding fetchProfile_def googleProfile_def microsoftProfile_def githubProfile_def githubEmail_def
    githubNames_def okOrError_def Let_def
  by (cases "st_provider strategy"; simp only: OAuthProvider.case; (intro walks_intros)+)

lemma token_steps [walks_intros]: "walks R (encryptToken E v)"
  unfolding encryptToken_def by (intro walks_intros)

lemma oauth_account_steps [walks_intros]:
  "walks R (createLinkedAccount E uid profile tokens)" "walks R (persistTokens E aid tokens profile)"
  "walks R (listAccounts uid)" "walks R (unlinkAccount E uid p)"
  unfolding createLinkedAccount_def persistTokens_def listAccounts_def unlinkAccount_def
    ensureNotLastAuthMethod_def Let_def
  by ((intro walks_intros hashPassword_walks); auto simp: table_keys providerKey_def userKey_def)+

lemma createUserFromProfile_steps [walks_intros]:
  "normalizeEmail email = email \<Longrightarrow> walks R (createUserFromProfile E profile email)"
  unfolding createUserFromProfile_def by (intro walks_intros new_users) auto

lemma oauth_state_steps [walks_intros]:
  "walks R (createState E p mode uid redir)" "walks R (consumeState st p')"
  unfolding createState_def consumeState_def generateState_def generatePkcePair_def Let_def
  by ((intro walks_intros); auto simp: table_keys)+

lemma oauth_login_steps [walks_intros]:
  "walks R (loginOrSignup E profile tokens meta)" "walks R (linkAccount E uid profile tokens)"
  unfolding loginOrSignup_def linkAccount_def resolveUser_def openOAuthSession_def Let_def
  by ((intro walks_intros); auto simp: table_keys intro!: quiet_users)+

lemma oauth_flow_steps [walks_intros]:
  "walks R (beginLogin E p redir)" "walks R (beginLink E p uid redir)" "walks R (handleCallback E p code st meta)"
  unfolding beginLogin_def beginLink_def handleCallback_def registryGet_def buildAuthorizationUrl_def
    ensureConfigured_def exchangeCode_def Let_def
  by (intro walks_intros)+

lemma oauth_route_steps [walks_intros]:
  "walks R (oauthAccountsOf u)" "walks R (oauthLink E u slug redir)" "walks R (oauthUnlink E u slug)"
  "walks R (oauthStartLogin E slug redir)" "walks R (oauthCallback E slug req code st err)"
  unfolding oauthAccountsOf_def oauthLink_def oauthUnlink_def oauthStartLogin_def oauthCallback_def
    callbackReply_def resolveProvider_def Let_def
  by ((intro walks_intros); auto simp: table_keys)+

section \<open>Single sign-on\<close>

lemma sso_configuration_steps [walks_intros]:
  "walks R (createSsoConfiguration E cd uid)" "walks R (findAllSsoForOrganization oid)"
  "walks R (removeSsoConfiguration E cid uid)"
  "walks R (getEnabledConfigForOrgSlug E slug)" "walks R (ssoEvaluate u)"
  unfolding createSsoConfiguration_def validateCertificate_def findAllSsoForOrganization_def removeSsoConfiguration_def getEnabledConfigForOrgSlug_def ssoEvaluate_def isSsoOnlyForUser_def isSuperAdmin_def Let_def
  by ((intro walks_intros); auto simp: table_keys sameProvider_def)+

lemma sso_assertion_steps [walks_intros]:
  "walks R (validateResponse E config slug response relay)" "walks R (guardReplay E aid slug oid)"
  "walks R (admitAssertion E config oid slug relay)" "walks R (mapSamlAttributes E profile mapping)"
proof -
  show "walks R (validateResponse E config slug response relay)"
    unfolding validateResponse_def buildClient_def Let_def by (intro walks_intros)
  show "walks R (guardReplay E aid slug oid)" "walks R (admitAssertion E config oid slug relay)"
    unfolding guardReplay_def admitAssertion_def recordSsoFailure_def isKnownRelayState_def Let_def
    by (intro walks_intros)+
  show "walks R (mapSamlAttributes E profile mapping)" by (rule walks_pure [OF keeps_claims(4)])
qed

lemma sso_begin_steps [walks_intros]: "walks R (beginSpInitiatedLogin E slug)"
  unfolding beginSpInitiatedLogin_def buildLoginUrl_def buildClient_def recordSsoFailure_def Let_def
  by (intro walks_intros)

section \<open>The routes\<close>

lemma hook_steps [walks_intros]:
  "walks R (checkSsoEnforcement (platformHooks E) u)" "walks R (checkMfa (platformHooks E) u meta)"
  by (simp_all add: checkSsoEnforcement_def checkMfa_def platformHooks_def sso_configuration_steps challenge_steps)

lemma auth_routes:
  "walks R (authRegister E inp)" "walks R (authVerifyEmail E tok)"
  "walks R (authRefresh E rt req)" "walks R (authLogout E bearer req)" "walks R (authLogoutAll E bearer req)"
  "walks R (authChangePassword E cpw bearer req)" "walks R (authForgotPassword E email)"
  "walks R (authResetPassword E tok np)" "walks R (authSwitchOrganization E oid bearer req)"
  "walks R (sessionList E bearer req)" "walks R (sessionRevoke E isUuid bearer req)"
  unfolding authRegister_def authVerifyEmail_def authRefresh_def authLogout_def authLogoutAll_def
    authChangePassword_def authForgotPassword_def authResetPassword_def authSwitchOrganization_def sessionList_def
    sessionRevoke_def listActiveSessionsForUser_def Let_def
  by ((intro walks_intros); auto simp: table_keys)+

lemma factor_routes:
  "walks R (mfaSetup E bearer req)" "walks R (mfaDisable E dm bearer req)" "walks R (mfaBackupCodesStatus E bearer req)"
  "walks R (mfaChallenge E ch req)" "walks R (mfaVerify E vc dev req)" "walks R (ssoLogin E req)"
  "walks R (oauthAccountsRoute E bearer req)"
  "walks R (oauthLinkRoute E redir bearer req)" "walks R (oauthUnlinkRoute E bearer req)"
  unfolding mfaSetup_def mfaDisable_def mfaBackupCodesStatus_def mfaChallenge_def mfaVerify_def ssoLogin_def
    oauthAccountsRoute_def oauthLinkRoute_def oauthUnlinkRoute_def
  by ((intro walks_intros); auto simp: table_keys)+

lemma organization_routes:
  "walks R (memberList E bearer req)" "walks R (memberUpdate E um bearer req)" "walks R (memberRemove E bearer req)"
  "walks R (organizationCreate E co bearer req)" "walks R (organizationList E bearer req)"
  "walks R (organizationFindOne E bearer req)" "walks R (organizationUpdate E uo bearer req)"
  "walks R (organizationRemove E bearer req)" "walks R (invitationCreate E iv bearer req)"
  "walks R (invitationList E bearer req)" "walks R (invitationRevoke E bearer req)"
  "walks R (invitationAccept E tok bearer req)"
  unfolding memberList_def memberUpdate_def memberRemove_def organizationCreate_def organizationList_def
    organizationFindOne_def organizationUpdate_def organizationRemove_def invitationCreate_def invitationList_def
    invitationRevoke_def invitationAccept_def
  by ((intro walks_intros); auto intro: walks_intros)+

lemma role_routes:
  "walks R (roleCreate E cr bearer req)" "walks R (roleList E bearer req)" "walks R (roleFindOne E bearer req)"
  "walks R (roleUpdate E ur bearer req)" "walks R (roleSetPermissions E ps bearer req)" "walks R (roleRemove E bearer req)"
  "walks R (roleAssign E bearer req)" "walks R (roleRevoke E bearer req)"
  "walks R (permissionCreate E cp bearer req)" "walks R (permissionList E bearer req)"
  "walks R (permissionRemove E bearer req)"
  unfolding roleCreate_def roleList_def roleFindOne_def roleUpdate_def roleSetPermissions_def roleRemove_def
    roleAssign_def roleRevoke_def roleGuards_def permissionCreate_def permissionList_def permissionRemove_def
    permissionGuards_def
  by ((intro walks_intros); auto intro: walks_intros)+

lemma policy_routes:
  "walks R (policyCreate E cpd bearer req)" "walks R (policyList E bearer req)" "walks R (policyFindOne E bearer req)"
  "walks R (policyUpdate E upd bearer req)" "walks R (policyRemove E bearer req)"
  "walks R (policyAddCondition E cpc bearer req)" "walks R (policyUpdateCondition E upc bearer req)"
  "walks R (policyRemoveCondition E bearer req)" "walks R (policyAssign E cpa bearer req)"
  "walks R (policyUnassign E bearer req)" "walks R (mfaPolicyGet E bearer req)" "walks R (mfaPolicyUpdate E up bearer req)"
  "walks R (ssoConfigCreate E cd bearer req)" "walks R (ssoConfigList E oid bearer req)"
  "walks R (ssoConfigUpdate E ud bearer req)" "walks R (ssoConfigRemove E bearer req)"
  unfolding policyCreate_def policyList_def policyFindOne_def policyUpdate_def policyRemove_def policyAddCondition_def
    policyUpdateCondition_def policyRemoveCondition_def policyAssign_def policyUnassign_def policyGuards_def
    mfaPolicyGet_def mfaPolicyUpdate_def ssoConfigCreate_def ssoConfigList_def ssoConfigUpdate_def ssoConfigRemove_def
  by ((intro walks_intros); auto intro: walks_intros)+

section \<open>The routes that may not return\<close>

lemma generate_steps: "walksL R (generateBackupCodes E count)"
proof -
  have "R\<^sup>*\<^sup>* w (snd r)" if "backupCodeLoop E count codes w = Some r" for codes w r
  proof (rule backupCodeLoop.raw_induct [where P = "\<lambda>E' count codes w r. E' = E \<longrightarrow> R\<^sup>*\<^sup>* w (snd r)",
        THEN mp, OF _ that refl])
    fix loop E' count codes w r
    assume hyp: "\<And>E' count codes w r. loop E' count codes w = Some r \<Longrightarrow> E' = E \<longrightarrow> R\<^sup>*\<^sup>* w (snd r)"
      and run: "(if count \<le> length codes then Some (Inr codes, w)
        else case generateBackupCode E' w of (Inl e, w') \<Rightarrow> Some (Inl e, w')
        | (Inr c, w') \<Rightarrow> loop E' count (if c \<in> set codes then codes else codes @ [c]) w') = Some r"
    have "walks R (generateBackupCode E)" unfolding generateBackupCode_def by (intro walks_intros)
    then have "R\<^sup>*\<^sup>* w (snd (generateBackupCode E w))" by (rule walksD)
    moreover have later: "loop E count cs v = Some r \<Longrightarrow> R\<^sup>*\<^sup>* v (snd r)" for cs v
      using hyp by blast
    ultimately show "E' = E \<longrightarrow> R\<^sup>*\<^sup>* w (snd r)"
      using run by (auto split: if_splits sum.splits prod.splits dest!: later elim: rtranclp_trans)
  qed
  then show ?thesis by (auto simp: walksL_def generateBackupCodes_def)
qed

lemma code_routes:
  "walksL R (mfaVerifySetup E code bearer req)" "walksL R (mfaRegenerateBackupCodes E pw bearer req)"
  unfolding mfaVerifySetup_def mfaRegenerateBackupCodes_def codesRoute_def verifySetup_def regenerateBackupCodes_def
    replaceBackupCodes_def
  by (intro walksL_bindL walksL_runL walksL_case_prod generate_steps; (intro walks_intros; simp)?)+

end

section \<open>The status of users\<close>

locale platform_steps = service_steps +
  assumes any_users: "(\<And>u. u_id (f u) = u_id u) \<Longrightarrow> (\<And>u. u_email (f u) = u_email u) \<Longrightarrow>
      users_ok rows \<Longrightarrow> users_ok (updateRows p f rows)"
begin

lemma handleFailedLogin_steps [walks_intros]: "walks R (handleFailedLogin E u)"
  unfolding handleFailedLogin_def Let_def by (intro walks_intros) (auto intro: any_users)

lemma login_steps [walks_intros]: "walks R (login E (platformHooks E) email pw meta)"
  unfolding login_def Let_def by (intro walks_intros; auto intro: any_users)

lemma sso_provision_steps [walks_intros]: "walks R (provision E oid attrs slug)"
  unfolding provision_def provisionUser_def createSsoUser_def upsertMembership_def assignJitRoles_def Let_def
  by (intro walks_intros hashPassword_walks; auto simp: table_keys intro: any_users new_users)

lemma sso_login_steps [walks_intros]: "walks R (handleAssertion E slug response relay meta)"
  unfolding handleAssertion_def recordSsoFailure_def openSsoSession_def Let_def
  by (intro walks_intros)

lemma status_routes:
  "walks R (authLogin E ld req)" "walks R (ssoAcs E response relay req)"
  unfolding authLogin_def ssoAcs_def
  by ((intro walks_intros); auto simp: table_keys)+

end

section \<open>Relations that look at none of these tables\<close>

text \<open>
  A relation of the session or the verification service sees nothing of the other tables, so it
  allows every write of them.
\<close>

locale account_steps = observed_steps +
  fixes E :: env
  assumes unobserved [simp]:
    "obs (users_update f1 d) = obs d" "obs (organizations_update f3 d) = obs d"
    "obs (memberships_update f4 d) = obs d" "obs (roles_update f5 d) = obs d"
    "obs (permissions_update f6 d) = obs d" "obs (rolePermissions_update f7 d) = obs d"
    "obs (userRoles_update f8 d) = obs d" "obs (policies_update f9 d) = obs d"
    "obs (policyConditions_update f10 d) = obs d" "obs (policyAssignments_update f11 d) = obs d"
    "obs (invitations_update f12 d) = obs d" "obs (mfaSecrets_update f13 d) = obs d"
    "obs (backupCodes_update f14 d) = obs d" "obs (mfaChallenges_update f15 d) = obs d"
    "obs (oauthAccounts_update f16 d) = obs d" "obs (ssoConfigurations_update f17 d) = obs d"
    and own_ops:
    "walks R (createSession E uid meta)" "walks R (revokeSession sid uid)"
    "walks R (registerUser E inp)" "walks R (verifyEmail E tok)" "walks R (refreshTokenPair E rt meta)"
    "walks R (switchOrganization E uid sid oid)" "walks R (logout E uid sid)" "walks R (logoutAll E uid ex)"
    "walks R (changePassword E ci)" "walks R (requestPasswordReset E email)"
    "walks R (resetPassword E tok np)" "walks R (completeLogin E u meta)"

sublocale account_steps \<subseteq> platform_steps R obs E usersOk
proof
  show "walks R (updateSsoConfiguration E cid ud uid)" for cid ud uid
    unfolding updateSsoConfiguration_def validateCertificate_def Let_def by ((intro walks_intros); simp)
qed (auto simp: governed_unobserved own_ops table_keys)

end
