(* ===== verification/Platform.thy ===== *)
theory Platform
  imports ServiceSteps
begin

text \<open>
  The platform as a whole: a step is one request to any of its routes, or anything that leaves
  the tables alone (time passes, a cache entry expires, a worker takes a job).  Requests are
  served one after another.
\<close>

section \<open>Requests\<close>

text \<open>What a client sees of a request: the error it was answered with, if any.\<close>

definition failure :: "exn + 'a \<Rightarrow> exn option" where
  "failure x = (case x of Inl e \<Rightarrow> Some e | Inr _ \<Rightarrow> None)"

text \<open>
  The routes with \<open>@Public()\<close>: those of the platform's own logins, and the one an identity provider
  posts its assertions to.
\<close>

inductive local_request :: "env \<Rightarrow> world \<Rightarrow> world \<Rightarrow> bool" for E where
  post_register: "local_request E w (snd (authRegister E inp w))"
| post_verify_email: "local_request E w (snd (authVerifyEmail E tok w))"
| post_login: "local_request E w (snd (authLogin E ld req w))"
| post_refresh: "local_request E w (snd (authRefresh E rt req w))"
| post_forgot_password: "local_request E w (snd (authForgotPassword E email w))"
| post_reset_password: "local_request E w (snd (authResetPassword E tok np w))"
| post_mfa_challenge: "local_request E w (snd (mfaChallenge E ch req w))"
| post_mfa_verify: "local_request E w (snd (mfaVerify E vc dev req w))"
| get_sso_login: "local_request E w (snd (ssoLogin E req w))"
| get_oauth_login: "local_request E w (snd (oauthStartLogin E slug redir w))"
| get_oauth_callback: "local_request E w (snd (oauthCallback E slug req code st err w))"

inductive public_request :: "env \<Rightarrow> world \<Rightarrow> world \<Rightarrow> bool" for E where
  own: "local_request E w w' \<Longrightarrow> public_request E w w'"
| post_sso_acs: "public_request E w (snd (ssoAcs E response relay req w))"

text \<open>
  The other routes: \<open>protected_request E isUuid bearer req w e w'\<close> is a request with the token
  \<open>bearer\<close> answered with \<open>e\<close>.
\<close>

inductive protected_request ::
  "env \<Rightarrow> (string \<Rightarrow> bool) \<Rightarrow> JwtAccessPayload option \<Rightarrow> HttpRequest \<Rightarrow> world \<Rightarrow> exn option \<Rightarrow> world \<Rightarrow> bool"
  for E isUuid bearer req w where
  post_logout: "authLogout E bearer req w = (x, w') \<Longrightarrow> protected_request E isUuid bearer req w (failure x) w'"
| post_logout_all: "authLogoutAll E bearer req w = (x, w') \<Longrightarrow> protected_request E isUuid bearer req w (failure x) w'"
| post_change_password: "authChangePassword E cpw bearer req w = (x, w') \<Longrightarrow>
    protected_request E isUuid bearer req w (failure x) w'"
| post_switch_organization: "authSwitchOrganization E oid bearer req w = (y, w') \<Longrightarrow>
    protected_request E isUuid bearer req w (failure y) w'"
| get_sessions: "sessionList E bearer req w = (ss, w') \<Longrightarrow> protected_request E isUuid bearer req w (failure ss) w'"
| delete_session: "sessionRevoke E isUuid bearer req w = (x, w') \<Longrightarrow> protected_request E isUuid bearer req w (failure x) w'"
| post_mfa_setup: "mfaSetup E bearer req w = (ms, w') \<Longrightarrow> protected_request E isUuid bearer req w (failure ms) w'"
| post_mfa_verify_setup: "mfaVerifySetup E code bearer req w = Some (bc, w') \<Longrightarrow>
    protected_request E isUuid bearer req w (failure bc) w'"
| post_mfa_disable: "mfaDisable E dm bearer req w = (x, w') \<Longrightarrow> protected_request E isUuid bearer req w (failure x) w'"
| get_backup_codes: "mfaBackupCodesStatus E bearer req w = (n, w') \<Longrightarrow>
    protected_request E isUuid bearer req w (failure n) w'"
| post_backup_codes: "mfaRegenerateBackupCodes E pw bearer req w = Some (bc, w') \<Longrightarrow>
    protected_request E isUuid bearer req w (failure bc) w'"
| get_oauth_accounts: "oauthAccountsRoute E bearer req w = (oa, w') \<Longrightarrow>
    protected_request E isUuid bearer req w (failure oa) w'"
| post_oauth_link: "oauthLinkRoute E redir bearer req w = (url, w') \<Longrightarrow>
    protected_request E isUuid bearer req w (failure url) w'"
| delete_oauth_link: "oauthUnlinkRoute E bearer req w = (x, w') \<Longrightarrow>
    protected_request E isUuid bearer req w (failure x) w'"
| get_members: "memberList E bearer req w = (mem, w') \<Longrightarrow> protected_request E isUuid bearer req w (failure mem) w'"
| patch_member: "memberUpdate E um bearer req w = (m, w') \<Longrightarrow> protected_request E isUuid bearer req w (failure m) w'"
| delete_member: "memberRemove E bearer req w = (x, w') \<Longrightarrow> protected_request E isUuid bearer req w (failure x) w'"
| post_organization: "organizationCreate E co bearer req w = (ob, w') \<Longrightarrow>
    protected_request E isUuid bearer req w (failure ob) w'"
| get_organizations: "organizationList E bearer req w = (obs, w') \<Longrightarrow>
    protected_request E isUuid bearer req w (failure obs) w'"
| get_organization: "organizationFindOne E bearer req w = (ob, w') \<Longrightarrow>
    protected_request E isUuid bearer req w (failure ob) w'"
| patch_organization: "organizationUpdate E uo bearer req w = (ob, w') \<Longrightarrow>
    protected_request E isUuid bearer req w (failure ob) w'"
| delete_organization: "organizationRemove E bearer req w = (x, w') \<Longrightarrow>
    protected_request E isUuid bearer req w (failure x) w'"
| post_invitation: "invitationCreate E iv bearer req w = (ivt, w') \<Longrightarrow>
    protected_request E isUuid bearer req w (failure ivt) w'"
| get_invitations: "invitationList E bearer req w = (ivts, w') \<Longrightarrow>
    protected_request E isUuid bearer req w (failure ivts) w'"
| delete_invitation: "invitationRevoke E bearer req w = (x, w') \<Longrightarrow>
    protected_request E isUuid bearer req w (failure x) w'"
| post_accept: "invitationAccept E tok bearer req w = (joined, w') \<Longrightarrow>
    protected_request E isUuid bearer req w (failure joined) w'"
| post_role: "roleCreate E cr bearer req w = (r, w') \<Longrightarrow> protected_request E isUuid bearer req w (failure r) w'"
| get_roles: "roleList E bearer req w = (rs, w') \<Longrightarrow> protected_request E isUuid bearer req w (failure rs) w'"
| get_role: "roleFindOne E bearer req w = (r, w') \<Longrightarrow> protected_request E isUuid bearer req w (failure r) w'"
| patch_role: "roleUpdate E ur bearer req w = (r, w') \<Longrightarrow> protected_request E isUuid bearer req w (failure r) w'"
| put_role_permissions: "roleSetPermissions E ps bearer req w = (b, w') \<Longrightarrow>
    protected_request E isUuid bearer req w (failure b) w'"
| delete_role: "roleRemove E bearer req w = (x, w') \<Longrightarrow> protected_request E isUuid bearer req w (failure x) w'"
| post_role_member: "roleAssign E bearer req w = (b, w') \<Longrightarrow> protected_request E isUuid bearer req w (failure b) w'"
| delete_role_member: "roleRevoke E bearer req w = (x, w') \<Longrightarrow> protected_request E isUuid bearer req w (failure x) w'"
| post_permission: "permissionCreate E cp bearer req w = (pm, w') \<Longrightarrow>
    protected_request E isUuid bearer req w (failure pm) w'"
| get_permissions: "permissionList E bearer req w = (pms, w') \<Longrightarrow>
    protected_request E isUuid bearer req w (failure pms) w'"
| delete_permission: "permissionRemove E bearer req w = (x, w') \<Longrightarrow>
    protected_request E isUuid bearer req w (failure x) w'"
| post_policy: "policyCreate E cpd bearer req w = (pol, w') \<Longrightarrow>
    protected_request E isUuid bearer req w (failure pol) w'"
| get_policies: "policyList E bearer req w = (pols, w') \<Longrightarrow>
    protected_request E isUuid bearer req w (failure pols) w'"
| get_policy: "policyFindOne E bearer req w = (pc, w') \<Longrightarrow> protected_request E isUuid bearer req w (failure pc) w'"
| patch_policy: "policyUpdate E upd bearer req w = (pol, w') \<Longrightarrow>
    protected_request E isUuid bearer req w (failure pol) w'"
| delete_policy: "policyRemove E bearer req w = (x, w') \<Longrightarrow> protected_request E isUuid bearer req w (failure x) w'"
| post_condition: "policyAddCondition E cpc bearer req w = (con, w') \<Longrightarrow>
    protected_request E isUuid bearer req w (failure con) w'"
| patch_condition: "policyUpdateCondition E upc bearer req w = (con, w') \<Longrightarrow>
    protected_request E isUuid bearer req w (failure con) w'"
| delete_condition: "policyRemoveCondition E bearer req w = (x, w') \<Longrightarrow>
    protected_request E isUuid bearer req w (failure x) w'"
| post_assignment: "policyAssign E cpa bearer req w = (pa, w') \<Longrightarrow>
    protected_request E isUuid bearer req w (failure pa) w'"
| delete_assignment: "policyUnassign E bearer req w = (x, w') \<Longrightarrow>
    protected_request E isUuid bearer req w (failure x) w'"
| get_mfa_policy: "mfaPolicyGet E bearer req w = (mp, w') \<Longrightarrow>
    protected_request E isUuid bearer req w (failure mp) w'"
| put_mfa_policy: "mfaPolicyUpdate E up bearer req w = (mp, w') \<Longrightarrow>
    protected_request E isUuid bearer req w (failure mp) w'"
| post_sso_configuration: "ssoConfigCreate E cd bearer req w = (sc, w') \<Longrightarrow>
    protected_request E isUuid bearer req w (failure sc) w'"
| get_sso_configurations: "ssoConfigList E oid bearer req w = (scs, w') \<Longrightarrow>
    protected_request E isUuid bearer req w (failure scs) w'"
| patch_sso_configuration: "ssoConfigUpdate E ud bearer req w = (sc, w') \<Longrightarrow>
    protected_request E isUuid bearer req w (failure sc) w'"
| delete_sso_configuration: "ssoConfigRemove E bearer req w = (x, w') \<Longrightarrow>
    protected_request E isUuid bearer req w (failure x) w'"

inductive platform_step :: "env \<Rightarrow> (string \<Rightarrow> bool) \<Rightarrow> world \<Rightarrow> world \<Rightarrow> bool" for E isUuid where
  public: "public_request E w w' \<Longrightarrow> platform_step E isUuid w w'"
| protected: "protected_request E isUuid bearer req w e w' \<Longrightarrow> platform_step E isUuid w w'"
| elsewhere: "w_db w' = w_db w \<Longrightarrow> platform_step E isUuid w w'"

section \<open>Requests are runs of the account services\<close>

context service_steps
begin

lemmas all_routes = auth_routes factor_routes organization_routes role_routes policy_routes

lemma protected_steps: "protected_request E isUuid bearer req w e w' \<Longrightarrow> R\<^sup>*\<^sup>* w w'"
  by (induction rule: protected_request.induct)
    (rule walksE, rule all_routes, assumption | use code_routes in \<open>auto simp: walksL_def\<close>)+

lemma local_steps:
  "(\<And>ld req. walks R (authLogin E ld req)) \<Longrightarrow> local_request E w w' \<Longrightarrow> R\<^sup>*\<^sup>* w w'"
  by (rotate_tac 1, induction rule: local_request.induct) (intro walksD auth_routes factor_routes oauth_route_steps; assumption)+

end

context platform_steps
begin

lemma public_steps: "public_request E w w' \<Longrightarrow> R\<^sup>*\<^sup>* w w'"
  by (induction rule: public_request.induct) (rule local_steps walksD status_routes | assumption)+

lemma request_steps: "platform_step E isUuid w w' \<Longrightarrow> R\<^sup>*\<^sup>* w w'"
proof (induction rule: platform_step.induct)
  case (elsewhere w' w)
  then show ?case by (intro r_into_rtranclp idle) simp
qed (rule public_steps protected_steps, assumption)+

end

interpretation sessionRequests: account_steps "session_step E" "\<lambda>d. (sessions d, refreshTokens d)" E
  for E :: env
  by unfold_locales (simp_all add: session_ops_walk auth_ops_session_walk)

interpretation verificationRequests: account_steps "verification_step E"
  "\<lambda>d. (emailVerificationTokens d, passwordResetTokens d)" E
  for E :: env
  by unfold_locales (simp_all add: session_ops_idle auth_ops_verification_walk)

text \<open>
  C1: whatever requests the platform serves, on any of its routes and by any caller, the session
  tables move only along the steps of the session service and the token tables only along those
  of the verification service; so what is proved about runs of the two services (tokens that
  work once, sessions that end, consistent tables) holds for the platform.
\<close>

theorem platform_refines_services:
  assumes "(platform_step E isUuid)\<^sup>*\<^sup>* w w'"
  shows "(session_step E)\<^sup>*\<^sup>* w w' \<and> (verification_step E)\<^sup>*\<^sup>* w w'"
proof
  show "(session_step E)\<^sup>*\<^sup>* w w'"
    using assms by (rule walks_rtranclp) (rule sessionRequests.request_steps)
  show "(verification_step E)\<^sup>*\<^sup>* w w'"
    using assms by (rule walks_rtranclp) (rule verificationRequests.request_steps)
qed

text \<open>
  A refresh token is exchanged once on the whole platform: after \<open>POST /auth/refresh\<close> took
  it, and whatever requests to any route follow, the route answers that token with
  \<open>REFRESH_TOKEN_REUSE_DETECTED\<close> and changes nothing.
\<close>

theorem refresh_route_works_once:
  assumes "sessionInv (w_db w)" and "authRefresh E raw req w = (Inr r, w1)"
    and "(platform_step E isUuid)\<^sup>*\<^sup>* w1 w2"
  shows "authRefresh E raw req' w2 = (Inl reuseDetected, w2)"
proof -
  from assms(2) obtain c v where rotated: "rotateRefreshToken E raw (metadataOf req None) w = (Inr c, v)" and "w1 = v"
    by (auto simp: authRefresh_def intercept_def refreshTokenPair_def signAccessToken_def success_iffs
        resolveDefault_def findMany_def dbFind_run split: option.splits)
  moreover have "(session_step E)\<^sup>*\<^sup>* w1 w2"
    using assms(3) by (rule walks_rtranclp) (rule sessionRequests.request_steps)
  ultimately have "rotateRefreshToken E raw (metadataOf req' None) w2 = (Inl reuseDetected, w2)"
    using refresh.used_stays_spent [OF assms(1) rotated] rotate_spent by blast
  then show ?thesis
    by (simp add: authRefresh_def intercept_def refreshTokenPair_def bindM_run)
qed

section \<open>Routes are closed without a current token\<close>

definition refusal :: "JwtAccessPayload option \<Rightarrow> world \<Rightarrow> exn option" where
  "refusal bearer w = (case bearer of None \<Rightarrow> Some notSignedIn | Some p \<Rightarrow> failure (fst (validateToken p w)))"

lemma protectedRoute_closed:
  "refusal bearer w = Some e \<Longrightarrow> protectedRoute guards bearer req handler w = (Inl e, w)"
  by (auto simp: protectedRoute_run refusal_def failure_def split: option.splits sum.splits)

lemmas route_defs = authLogout_def authLogoutAll_def authChangePassword_def authSwitchOrganization_def sessionList_def
  sessionRevoke_def mfaSetup_def mfaDisable_def mfaBackupCodesStatus_def oauthAccountsRoute_def oauthLinkRoute_def
  oauthUnlinkRoute_def memberList_def memberUpdate_def memberRemove_def organizationCreate_def organizationList_def
  organizationFindOne_def organizationUpdate_def organizationRemove_def invitationCreate_def invitationList_def
  invitationRevoke_def invitationAccept_def roleCreate_def roleList_def roleFindOne_def roleUpdate_def
  roleSetPermissions_def roleRemove_def roleAssign_def roleRevoke_def permissionCreate_def permissionList_def
  permissionRemove_def policyCreate_def policyList_def policyFindOne_def policyUpdate_def policyRemove_def
  policyAddCondition_def policyUpdateCondition_def policyRemoveCondition_def policyAssign_def policyUnassign_def
  mfaPolicyGet_def mfaPolicyUpdate_def ssoConfigCreate_def ssoConfigList_def ssoConfigUpdate_def ssoConfigRemove_def

lemma codesRoute_closed: "refusal bearer w = Some e \<Longrightarrow> codesRoute E msg service bearer req w = Some (Inl e, w)"
  by (simp add: codesRoute_def bindL_def runL_def protectedRoute_closed)

lemma closed_request:
  assumes "protected_request E isUuid bearer req w e w'" and "refusal bearer w = Some x"
  shows "e = Some x \<and> w' = w"
  using assms(1)
  by cases (auto simp: route_defs protectedRoute_closed [OF assms(2)] codesRoute_closed [OF assms(2)] failure_def
      mfaVerifySetup_def mfaRegenerateBackupCodes_def)

lemma validated_current:
  assumes "keysUnique (w_db w)" and "fst (validateToken p w) = Inr u"
  shows "tokenCurrent (w_now w) (w_db w) p"
proof -
  have "validateToken p w = (Inr u, w)" using assms(2) validateToken_silent [of p w] by (metis prod.collapse)
  then show ?thesis using validateToken_Inr_iff [OF assms(1), of p u w] by (auto simp: tokenCurrent_def)
qed

text \<open>
  C8: a route without \<open>@Public()\<close> serves the owners of current tokens only: when such a request is
  answered without an error, or changes anything at all (a table, the cache, the queue), then it
  carried a token with a good signature whose user is active, whose session is neither revoked
  nor expired and whose membership, if it names one, is active and of the same versions.
\<close>

theorem protected_routes_need_current_token:
  assumes "protected_request E isUuid bearer req w e w'" and "keysUnique (w_db w)"
    and "e = None \<or> w' \<noteq> w"
  shows "\<exists>p. bearer = Some p \<and> tokenCurrent (w_now w) (w_db w) p"
proof (cases "refusal bearer w")
  case None
  then obtain p u where "bearer = Some p" "fst (validateToken p w) = Inr u"
    by (auto simp: refusal_def failure_def split: option.splits sum.splits)
  with validated_current [OF assms(2)] show ?thesis by blast
next
  case (Some x)
  with closed_request [OF assms(1)] assms(3) show ?thesis by simp
qed

end
