(* ===== verification/PlatformLaws.thy ===== *)
theory PlatformLaws
  imports Platform OAuthLoginLaws
begin

text \<open>
  What the composition of the modules guarantees: password logins with the hooks of the MFA and
  SSO modules in place, the end of a login with a second factor, and the boundary between
  organizations at the routes of members and invitations.
\<close>

section \<open>Password logins on the whole platform\<close>

text \<open>What the tables say of a user's second factor and of the SSO-only rule.\<close>

definition mfaOn :: "database \<Rightarrow> string \<Rightarrow> bool" where
  "mfaOn d uid \<longleftrightarrow> (\<exists>s. findFirst (\<lambda>s. ms_userId s = uid) (mfaSecrets d) = Some s \<and> ms_isEnabled s)"

definition ssoOnly :: "database \<Rightarrow> string \<Rightarrow> bool" where
  "ssoOnly d uid \<longleftrightarrow> (\<exists>m \<in> set (memberships d). \<exists>c \<in> set (ssoConfigurations d).
     m_userId m = uid \<and> m_deletedAt m = None \<and> sc_organizationId c = m_organizationId m \<and>
     sc_isEnabled c \<and> sc_ssoOnlyMode c)"

definition superAdmin :: "database \<Rightarrow> string \<Rightarrow> bool" where
  "superAdmin d uid \<longleftrightarrow> (\<exists>ur \<in> set (userRoles d).
     membershipExists d (\<lambda>m. m_userId m = uid \<and> m_deletedAt m = None) (ur_membershipId ur) \<and>
     roleExists d (\<lambda>r. r_slug r \<in> set SUPER_ADMIN_SLUGS \<and> r_deletedAt r = None) (ur_roleId ur))"

lemma isMfaEnabled_run: "isMfaEnabled uid w = (Inr (mfaOn (w_db w) uid), w)"
  by (auto simp: isMfaEnabled_def mfaOn_def bindM_run dbFind_run returnM_run split: option.split)

lemma countRows_pos: "0 < countRows p rows \<longleftrightarrow> (\<exists>x \<in> set rows. p x)"
  by (auto simp: countRows_def filter_empty_conv)

lemma isSsoOnlyForUser_run: "isSsoOnlyForUser uid w = (Inr (ssoOnly (w_db w) uid), w)"
  by (auto simp: isSsoOnlyForUser_def ssoOnly_def bindM_run dbFindMany_run dbCount_run returnM_run findMany_def
      countRows_pos filter_empty_conv)

lemma isSuperAdmin_run: "isSuperAdmin uid w = (Inr (superAdmin (w_db w) uid), w)"
  by (simp add: isSuperAdmin_def superAdmin_def getsM_run countRows_pos)

lemma ssoEvaluate_run:
  "\<exists>c. ssoEvaluate u w = (Inr c, w) \<and> (so_blocked c \<longleftrightarrow> ssoOnly (w_db w) (u_id u) \<and> \<not> superAdmin (w_db w) (u_id u))"
  by (auto simp: ssoEvaluate_def bindM_run isSsoOnlyForUser_run isSuperAdmin_run returnM_run)

lemma completeLogin_Inr:
  assumes "completeLogin E user meta w = (Inr out, w')"
  shows "\<exists>r s. out = LoggedIn r \<and> lr_user r = stripSecrets user \<and> s_userId s = u_id user \<and> s_id s = lr_sessionId r \<and>
    s_revokedAt s = None \<and> s_expiresAt s = w_now w + ac_sessionTtlMs (e_auth E) \<and>
    sessions (w_db w') = sessions (w_db w) @ [s]"
proof -
  let ?seen = "\<lambda>u. u\<lparr>u_failedLoginAttempts := 0, u_lockUntil := None, u_lastLoginAt := Some (w_now w)\<rparr>"
  let ?w = "w_db_update (users_update (updateRows (\<lambda>u. u_id u = u_id user) ?seen)) w"
  obtain c w1 r where c: "createSession E (u_id user) meta ?w = (Inr c, w1)"
    and r: "out = LoggedIn r" "lr_sessionId r = s_id (cs_session c)" "lr_user r = stripSecrets user"
    and db: "w_db w' = w_db w1"
    using assms
    by (auto simp: completeLogin_def success_iffs transaction_Inr_iff dbUpdate_run resolveDefault_def
        signAccessToken_def auditRecord_run split: option.splits)
  from createSession_success [OF c] show ?thesis
    by (intro exI [of _ r] exI [of _ "cs_session c"]) (simp add: r db)
qed

lemma mfaHook_Inr:
  assumes "mfaHook E u meta w = (Inr out, w')"
  shows "case out of
      None \<Rightarrow> \<not> mfaOn (w_db w) (u_id u) \<and> w' = w
    | Some c \<Rightarrow> mfaOn (w_db w) (u_id u) \<and> sessions (w_db w') = sessions (w_db w) \<and>
        (\<exists>row \<in> set (mfaChallenges (w_db w')). mc_userId row = u_id u \<and>
           mc_tokenHash row = hashToken E (mr_challengeToken c) \<and> mc_consumedAt row = None \<and> mc_attempts row = 0 \<and>
           mc_expiresAt row = w_now w + fc_mfaChallengeTtlMs (e_fed E))"
  using assms
  by (auto simp: mfaHook_def success_iffs isMfaEnabled_run issueChallenge_def issueMfaChallenge_def Let_def
      generateSecureToken_def randomBytes_def newId_def drawM_def auditRecord_run dbCreate_run split: option.splits if_splits)

lemma login_Inr:
  assumes "login E (platformHooks E) email pw meta w = (Inr out, w')"
  obtains u sso ch w1 where "findFirst (\<lambda>u. u_email u = normalizeEmail email) (users (w_db w)) = Some u"
    "u_deletedAt u = None" "\<not> (u_status u = UserLocked \<or> isLocked (w_now w) u)"
    "\<not> (u_status u = UserInactive \<or> u_status u = UserSuspended)"
    "ssoEvaluate u w = (Inr sso, w)" "\<not> so_blocked sso" "e_bcryptCompare E pw (u_passwordHash u)"
    "mfaHook E u meta w = (Inr ch, w1)"
    "(case ch of None \<Rightarrow> completeLogin E u meta
      | Some c \<Rightarrow> thenM (dbUpdate usersT (\<lambda>x. u_id x = u_id u) (\<lambda>u. u\<lparr>u_failedLoginAttempts := 0, u_lockUntil := None\<rparr>))
          (returnM (MfaRequired c))) w1 = (Inr out, w')"
proof -
  obtain u where u: "findFirst (\<lambda>u. u_email u = normalizeEmail email) (users (w_db w)) = Some u"
    using assms by (auto simp: login_def success_iffs dbFind_run)
  obtain sso where sso: "ssoEvaluate u w = (Inr sso, w)" using ssoEvaluate_run [of u w] by blast
  have hooks: "checkSsoEnforcement (platformHooks E) = ssoEvaluate" "checkMfa (platformHooks E) = mfaHook E"
    by (simp_all add: checkSsoEnforcement_def checkMfa_def platformHooks_def fun_eq_iff)
  from assms u sso show thesis
    by (auto simp: login_def success_iffs dbFind_run hooks comparePassword_def intro!: that)
qed

text \<open>
  C7: what \<open>POST /auth/login\<close> answers without an error, with the hooks of the MFA and SSO
  modules in place: the email is that of a user who is active, not deleted, not locked and free
  to sign in with a password (not bound to SSO, unless a super admin), and the password is the
  user's.  If the user has no second factor, one session is opened, for that user and with the
  configured lifetime; otherwise no session is opened, and the answer is a fresh challenge for
  that user, stored by the hash of its token.
\<close>

theorem login_outcomes:
  assumes "login E (platformHooks E) email pw meta w = (Inr out, w')"
  shows "\<exists>u. findFirst (\<lambda>u. u_email u = normalizeEmail email) (users (w_db w)) = Some u \<and>
    u_deletedAt u = None \<and> u_status u = UserActive \<and> \<not> isLocked (w_now w) u \<and>
    (ssoOnly (w_db w) (u_id u) \<longrightarrow> superAdmin (w_db w) (u_id u)) \<and> e_bcryptCompare E pw (u_passwordHash u) \<and>
    (case out of
       LoggedIn r \<Rightarrow> \<not> mfaOn (w_db w) (u_id u) \<and> lr_user r = stripSecrets u \<and>
         (\<exists>s. s_userId s = u_id u \<and> s_id s = lr_sessionId r \<and> s_revokedAt s = None \<and>
            s_expiresAt s = w_now w + ac_sessionTtlMs (e_auth E) \<and> sessions (w_db w') = sessions (w_db w) @ [s])
     | MfaRequired c \<Rightarrow> mfaOn (w_db w) (u_id u) \<and> sessions (w_db w') = sessions (w_db w) \<and>
         (\<exists>row \<in> set (mfaChallenges (w_db w')). mc_userId row = u_id u \<and>
            mc_tokenHash row = hashToken E (mr_challengeToken c) \<and> mc_consumedAt row = None \<and> mc_attempts row = 0 \<and>
            mc_expiresAt row = w_now w + fc_mfaChallengeTtlMs (e_fed E)))"
proof -
  obtain u sso ch w1 where u: "findFirst (\<lambda>u. u_email u = normalizeEmail email) (users (w_db w)) = Some u"
    "u_deletedAt u = None" "\<not> (u_status u = UserLocked \<or> isLocked (w_now w) u)"
    "\<not> (u_status u = UserInactive \<or> u_status u = UserSuspended)"
    and sso: "ssoEvaluate u w = (Inr sso, w)" "\<not> so_blocked sso"
    and pw: "e_bcryptCompare E pw (u_passwordHash u)"
    and mfa: "mfaHook E u meta w = (Inr ch, w1)"
    and rest: "(case ch of None \<Rightarrow> completeLogin E u meta
      | Some c \<Rightarrow> thenM (dbUpdate usersT (\<lambda>x. u_id x = u_id u) (\<lambda>u. u\<lparr>u_failedLoginAttempts := 0, u_lockUntil := None\<rparr>))
          (returnM (MfaRequired c))) w1 = (Inr out, w')"
    by (rule login_Inr [OF assms])
  have free: "ssoOnly (w_db w) (u_id u) \<longrightarrow> superAdmin (w_db w) (u_id u)"
    using ssoEvaluate_run [of u w] sso by auto
  have active: "u_status u = UserActive" using u(3,4) by (cases "u_status u") auto
  show ?thesis
  proof (cases ch)
    case None
    with mfaHook_Inr [OF mfa] have "\<not> mfaOn (w_db w) (u_id u)" "w1 = w" by simp_all
    moreover from this rest None obtain r s where "out = LoggedIn r" "lr_user r = stripSecrets u" "s_userId s = u_id u"
      "s_id s = lr_sessionId r" "s_revokedAt s = None" "s_expiresAt s = w_now w + ac_sessionTtlMs (e_auth E)"
      "sessions (w_db w') = sessions (w_db w) @ [s]"
      using completeLogin_Inr [of E u meta w out w'] by auto
    ultimately show ?thesis using u active free pw by (intro exI [of _ u]) auto
  next
    case (Some c)
    with rest have "out = MfaRequired c" "sessions (w_db w') = sessions (w_db w1)" "mfaChallenges (w_db w') = mfaChallenges (w_db w1)"
      by (auto simp: success_iffs dbUpdate_run split: option.splits)
    with mfaHook_Inr [OF mfa] Some u active free pw show ?thesis by (intro exI [of _ u]) auto
  qed
qed

section \<open>The end of a login with a second factor\<close>

lemma checkFactor_True:
  assumes "checkFactor E uid dto w = (Inr True, w')"
  shows "case vc_method dto of
      TOTP \<Rightarrow> \<exists>secret plain. findFirst (\<lambda>s. ms_userId s = uid) (mfaSecrets (w_db w)) = Some secret \<and> ms_isEnabled secret \<and>
        fst (decryptSecret E (ms_secretEncrypted secret) w) = Inr plain \<and> verifyCode E (w_now w) plain (vc_code dto)
    | BACKUP_CODE \<Rightarrow> \<exists>b. b \<in> set (backupCodes (w_db w)) \<and> bc_userId b = uid \<and> bc_usedAt b = None \<and>
        bc_codeHash b = hashBackupCode E (normalizeBackupCode (vc_code dto))"
proof (cases "vc_method dto")
  case TOTP
  with assms have totp: "verifyTotp E uid (vc_code dto) w = (Inr True, w')" by (simp add: checkFactor_def)
  then obtain secret where secret: "findFirst (\<lambda>s. ms_userId s = uid) (mfaSecrets (w_db w)) = Some secret" "ms_isEnabled secret"
    by (auto simp: verifyTotp_def success_iffs dbFind_run Let_def split: option.splits if_splits)
  obtain x where run: "decryptSecret E (ms_secretEncrypted secret) w = (x, w)"
    using decryptSecret_world [of E "ms_secretEncrypted secret" w] by (metis prod.collapse)
  from totp secret run obtain plain where "x = Inr plain" "verifyCode E (w_now w) plain (vc_code dto)"
    by (auto simp: verifyTotp_def success_iffs dbFind_run Let_def split: option.splits if_splits)
  with TOTP secret run show ?thesis by simp
next
  case BACKUP_CODE
  with assms have "consumeBackupCode E uid (vc_code dto) w = (Inr True, w')" by (simp add: checkFactor_def)
  then show ?thesis
    by (auto simp: BACKUP_CODE consumeBackupCode_def success_iffs dbFind_run Let_def dest!: findFirst_SomeD
        split: option.splits if_splits)
qed

lemma auditRecord_keeps_db: "auditRecord E a r opts w = (x, w') \<Longrightarrow> w_db w' = w_db w"
  by (auto simp: auditRecord_run)

lemma recordAttempt_sessions: "recordAttempt cid b w = (x, w') \<Longrightarrow> sessions (w_db w') = sessions (w_db w)"
  by (auto simp: recordAttempt_def bindM_run thenM_run dbUpdate_run Let_def split: option.splits)

lemma completeMfaLogin_Inr:
  assumes "completeMfaLogin E user c m meta w = (Inr r, w')"
  shows "lr_user r = stripSecrets user \<and> (\<exists>s. s_userId s = u_id user \<and> s_id s = lr_sessionId r \<and>
    s_revokedAt s = None \<and> sessions (w_db w') = sessions (w_db w) @ [s])"
proof -
  from assms obtain u v w1 x y ses where v: "recordAttempt (mc_id c) True w = (Inr u, v)"
    and ses: "createSession E (u_id user) meta
      (w_db_update (users_update (updateRows (\<lambda>u. u_id u = u_id user)
        (\<lambda>u. u\<lparr>u_failedLoginAttempts := 0, u_lockUntil := None, u_lastLoginAt := Some (w_now v)\<rparr>))) v) = (Inr ses, w1)"
    and r: "lr_sessionId r = s_id (cs_session ses)" "lr_user r = stripSecrets user"
    and audits: "\<exists>w2 a r o1 a' r' o2. auditRecord E a r o1 w1 = (Inr x, w2) \<and> auditRecord E a' r' o2 w2 = (Inr y, w')"
    unfolding completeMfaLogin_def
    by (fastforce simp: success_iffs transaction_Inr_iff dbUpdate_run resolveDefault_def signAccessToken_def
        split: option.splits)
  have "w_db w' = w_db w1" using audits auditRecord_keeps_db by metis
  with createSession_success [OF ses] recordAttempt_sessions [OF v] show ?thesis
    by (intro conjI exI [of _ "cs_session ses"]) (simp_all add: r)
qed

lemma sessions_of_factor: "sessions (w_db (snd (checkFactor E uid dto w))) = sessions (w_db w)"
  by (rule keeps_view [where f = sessions])
    (unfold checkFactor_def verifyTotp_def consumeBackupCode_def decryptSecret_def decryptAesGcm_def
      deriveKey_def Let_def, (intro keeps_intros keeps_dbUpdate; simp)+)

text \<open>
  C18: a login that \<open>POST /auth/mfa/verify\<close> completes has proved both factors: the challenge token
  is that of an unspent, unexpired challenge with guesses left, which only a password login or a
  re-issue with the password creates; its user is active; and the code is the current TOTP code
  of the user's enabled secret or an unused backup code of the user.  It opens one session, for
  that user.
\<close>

theorem mfa_login_proves_factor:
  assumes "mfaVerify E dto dev req w = (Inr r, w')"
  shows "\<exists>c u. findFirst (\<lambda>c. mc_tokenHash c = hashToken E (vc_challengeToken dto)) (mfaChallenges (w_db w)) = Some c \<and>
    mc_consumedAt c = None \<and> w_now w < mc_expiresAt c \<and> mc_attempts c < MAX_CHALLENGE_ATTEMPTS \<and>
    u \<in> set (users (w_db w)) \<and> u_id u = mc_userId c \<and> u_deletedAt u = None \<and> u_status u = UserActive \<and>
    (case vc_method dto of
       TOTP \<Rightarrow> \<exists>secret plain. findFirst (\<lambda>s. ms_userId s = u_id u) (mfaSecrets (w_db w)) = Some secret \<and> ms_isEnabled secret \<and>
         fst (decryptSecret E (ms_secretEncrypted secret) w) = Inr plain \<and> verifyCode E (w_now w) plain (vc_code dto)
     | BACKUP_CODE \<Rightarrow> \<exists>b. b \<in> set (backupCodes (w_db w)) \<and> bc_userId b = u_id u \<and> bc_usedAt b = None \<and>
         bc_codeHash b = hashBackupCode E (normalizeBackupCode (vc_code dto))) \<and>
    lr_user (as_data r) = stripSecrets u \<and>
    (\<exists>s. s_userId s = u_id u \<and> s_id s = lr_sessionId (as_data r) \<and> s_revokedAt s = None \<and>
       sessions (w_db w') = sessions (w_db w) @ [s])"
proof -
  from assms have "verifyAndCompleteLogin E dto (metadataOf req dev) w = (Inr (as_data r), w')"
    by (auto simp: mfaVerify_def intercept_def success_iffs)
  then show ?thesis
  proof (rule verify_accepted, goal_cases)
    case (1 c u w1)
    have "sessions (w_db w1) = sessions (w_db w)"
      using sessions_of_factor [of E "u_id u" dto w] 1(8) by simp
    with 1 checkFactor_True [OF 1(8)] completeMfaLogin_Inr [OF 1(9)] show ?case
      by (intro exI [of _ c] exI [of _ u]) (auto dest: findFirst_SomeD)
  qed
qed

section \<open>The boundary between organizations\<close>

text \<open>
  The routes under \<open>/organizations/:orgId\<close> of members and invitations.  \<open>POST
  organizations/invitations/accept\<close> has no organization in its path: the invitation names it, and
  the caller need not be a member yet (\<open>InvitationLaws\<close>).
\<close>

inductive tenant_request :: "env \<Rightarrow> JwtAccessPayload option \<Rightarrow> HttpRequest \<Rightarrow> world \<Rightarrow> world \<Rightarrow> bool"
  for E bearer req w where
  members: "tenant_request E bearer req w (snd (memberList E bearer req w))"
| update_member: "tenant_request E bearer req w (snd (memberUpdate E um bearer req w))"
| remove_member: "tenant_request E bearer req w (snd (memberRemove E bearer req w))"
| invite: "tenant_request E bearer req w (snd (invitationCreate E iv bearer req w))"
| invitations: "tenant_request E bearer req w (snd (invitationList E bearer req w))"
| revoke_invitation: "tenant_request E bearer req w (snd (invitationRevoke E bearer req w))"

text \<open>Only members and invitations of the organization differ.\<close>

definition onlyTenant :: "string \<Rightarrow> database \<Rightarrow> database \<Rightarrow> bool" where
  "onlyTenant oid d d' \<longleftrightarrow>
     filter (\<lambda>m. m_organizationId m \<noteq> oid) (memberships d') = filter (\<lambda>m. m_organizationId m \<noteq> oid) (memberships d) \<and>
     filter (\<lambda>i. inv_organizationId i \<noteq> oid) (invitations d') = filter (\<lambda>i. inv_organizationId i \<noteq> oid) (invitations d) \<and>
     d'\<lparr>memberships := [], invitations := []\<rparr> = d\<lparr>memberships := [], invitations := []\<rparr>"

lemma onlyTenant_refl [simp]: "onlyTenant oid d d"
  by (simp add: onlyTenant_def)

lemma updateRows_outside:
  assumes "distinct (map key rows)" and "r \<in> set rows" and "org r = oid" and "\<And>x. org (f x) = org x"
  shows "filter (\<lambda>x. org x \<noteq> oid) (updateRows (\<lambda>x. key x = key r) f rows) = filter (\<lambda>x. org x \<noteq> oid) rows"
proof -
  have "x \<in> set rows \<Longrightarrow> key x = key r \<Longrightarrow> x = r" for x
    using assms(1,2) by (metis distinct_map_unique)
  then have "filter (\<lambda>x. org x \<noteq> oid) (map (\<lambda>x. if key x = key r then f x else x) xs) = filter (\<lambda>x. org x \<noteq> oid) xs"
    if "set xs \<subseteq> set rows" for xs
    using that assms(3,4) by (induction xs) auto
  then show ?thesis by (simp add: updateRows_def)
qed

lemma setIf_org: "(\<And>x. m_organizationId (f x m) = m_organizationId m) \<Longrightarrow> m_organizationId (setIf a f m) = m_organizationId m"
  by (simp add: setIf_def split: option.split)

lemma member_update_outside:
  assumes "keysUnique d" and "m \<in> set (memberships d)" and "m_organizationId m = oid"
    and "\<And>x. m_organizationId (f x) = m_organizationId x"
  shows "onlyTenant oid d (memberships_update (updateRows (\<lambda>x. m_id x = m_id m) f) d)"
  using updateRows_outside [where key = m_id and org = m_organizationId and f = f and r = m and rows = "memberships d"] assms
  by (simp add: onlyTenant_def keysUnique_def)

lemma member_row:
  "findByUserAndOrgOrThrow uid oid w = (Inl membershipNotFound, w) \<or>
   (\<exists>m. findByUserAndOrgOrThrow uid oid w = (Inr m, w) \<and> m \<in> set (memberships (w_db w)) \<and> m_organizationId m = oid)"
  by (auto simp: findByUserAndOrgOrThrow_def findByUserAndOrg_def bindM_run dbFind_run orThrow_run
      dest!: findFirst_SomeD split: option.split)

lemma update_then_quiet:
  assumes "\<And>x v. w_db (snd (k x v)) = w_db v"
  shows "w_db (snd (bindM (dbUpdate t p f) k w)) = w_db w \<or>
    w_db (snd (bindM (dbUpdate t p f) k w)) = snd t (updateRows p f) (w_db w)"
  by (auto simp: bindM_run dbUpdate_run assms split: option.split)

lemma member_write_outside:
  assumes "keysUnique (w_db w)" and "m \<in> set (memberships (w_db w))" and "m_organizationId m = oid"
    and "\<And>x. m_organizationId (f x) = m_organizationId x" and "\<And>x v. w_db (snd (k x v)) = w_db v"
  shows "onlyTenant oid (w_db w) (w_db (snd (bindM (dbUpdate membershipsT (\<lambda>x. m_id x = m_id m) f) k w)))"
  using update_then_quiet [where k = k and t = membershipsT and p = "\<lambda>x. m_id x = m_id m" and f = f and w = w, OF assms(5)]
    member_update_outside [OF assms(1-3), of f, OF assms(4)]
  by auto

lemma updateAttributes_outside:
  assumes "keysUnique (w_db w)"
  shows "onlyTenant oid (w_db w) (w_db (snd (updateAttributes E oid uid um actor w)))"
  using member_row [of uid oid w]
proof (elim disjE exE conjE)
  fix m assume m: "findByUserAndOrgOrThrow uid oid w = (Inr m, w)" "m \<in> set (memberships (w_db w))" "m_organizationId m = oid"
  show ?thesis
    unfolding updateAttributes_def Let_def bindM_run [of "findByUserAndOrgOrThrow uid oid"] m(1) prod.case sum.case
    by (rule member_write_outside [OF assms m(2,3)]) (simp_all add: setIf_org thenM_run auditRecord_run)
qed (simp add: updateAttributes_def bindM_run)

lemma removeMember_outside:
  assumes "keysUnique (w_db w)"
  shows "onlyTenant oid (w_db w) (w_db (snd (removeMember E oid uid actor w)))"
  using member_row [of uid oid w]
proof (elim disjE exE conjE)
  fix m assume m: "findByUserAndOrgOrThrow uid oid w = (Inr m, w)" "m \<in> set (memberships (w_db w))" "m_organizationId m = oid"
  have "snd (ensureNotLastAdmin oid (m_id m) w) = w"
    by (simp add: ensureNotLastAdmin_def bindM_run getsM_run whenM_run throw_if_run)
  then obtain x where x: "ensureNotLastAdmin oid (m_id m) w = (x, w)" by (metis prod.collapse)
  have "onlyTenant oid (w_db w) (w_db (snd (thenM (dbUpdate membershipsT (\<lambda>y. m_id y = m_id m)
      (\<lambda>y. y\<lparr>m_status := MemberRemoved, m_deletedAt := Some (w_now w)\<rparr>))
      (auditRecord E ORG_MEMBER_REMOVED AR_MEMBERSHIP (auditOk (Some (m_id m)) (Some actor) None
         [(''organizationId'', JStr oid), (''targetUserId'', JStr uid)])) w)))"
    unfolding thenM_def by (rule member_write_outside [OF assms m(2,3)]) simp_all
  with m x show ?thesis
    by (cases x) (simp_all add: removeMember_def bindM_run thenM_run [of "ensureNotLastAdmin oid (m_id m)"])
qed (simp add: removeMember_def bindM_run)

lemma revokeInvitation_outside:
  assumes "distinct (map inv_id (invitations (w_db w)))"
  shows "onlyTenant oid (w_db w) (w_db (snd (revokeInvitation E iid oid actor w)))"
proof (cases "findFirst (\<lambda>i. inv_id i = iid \<and> inv_organizationId i = oid) (invitations (w_db w))")
  case (Some i)
  then have i: "i \<in> set (invitations (w_db w))" "inv_id i = iid" "inv_organizationId i = oid"
    by (auto dest: findFirst_SomeD)
  from updateRows_outside [where key = inv_id and org = inv_organizationId, OF assms i(1,3)] i(2) Some
  show ?thesis
    by (auto simp: revokeInvitation_def bindM_run thenM_run dbFind_run dbUpdate_run onlyTenant_def orThrow_run
        split: option.split)
qed (simp add: revokeInvitation_def bindM_run dbFind_run orThrow_run)

text \<open>Every step of \<open>createInvitation\<close> but one leaves the tables alone; that one adds a row.\<close>

lemma createInvitation_outside: "onlyTenant oid (w_db w) (w_db (snd (createInvitation E oid iv actor w)))"
proof -
  let ?I = "\<lambda>v. onlyTenant oid (w_db w) (w_db v)"
  have frame: "(\<And>v. w_db (snd (m v)) = w_db v) \<Longrightarrow> keeps ?I m" for m :: "'x act"
    by (simp add: keeps_def)
  have add: "keeps ?I (dbCreate invitationsT cols c par row)" if "inv_organizationId row = oid" for cols c par row
    using that by (auto simp: keeps_def dbCreate_run onlyTenant_def)
  have "keeps ?I (createInvitation E oid iv actor)"
    unfolding createInvitation_def enqueueInvitationEmail_def Let_def
    by (intro keeps_intros add frame) (simp_all add: monad_simps enqueue_run)
  then have "?I (snd (createInvitation E oid iv actor w))" by (rule keepsD) simp
  then show ?thesis .
qed

lemma tenant_route:
  assumes "protectedRoute [tenantGuard] bearer req handler w = (x, w')" and "pathParam req ''orgId'' \<noteq> []"
  shows "w' = w \<or> (\<exists>p user. bearer = Some p \<and> fst (validateToken p w) = Inr user \<and>
    au_organizationId user = Some (pathParam req ''orgId'') \<and>
    handler (req\<lparr>hr_user := Some user\<rparr>) user w = (x, w'))"
proof (cases bearer)
  case (Some p)
  show ?thesis
  proof (cases "fst (validateToken p w)")
    case (Inr user)
    obtain oid where oid: "map_of (hr_params req) ''orgId'' = Some oid" "oid \<noteq> []"
      using assms(2) by (cases "map_of (hr_params req) ''orgId''") (auto simp: pathParam_def)
    have "w' = w \<or> au_organizationId user = Some oid \<and> handler (req\<lparr>hr_user := Some user\<rparr>) user w = (x, w')"
      using assms(1) Some Inr oid
      by (auto simp: protectedRoute_run tenantGuard_def thenM_run bindM_run orThrow_run throw_if_run truthy_str_def
          split: if_splits)
    with Some Inr oid show ?thesis by (auto simp: pathParam_def)
  qed (use assms(1) Some in \<open>simp add: protectedRoute_run\<close>)
qed (use assms(1) in \<open>simp add: protectedRoute_run\<close>)

lemma intercept_db: "w_db (snd (intercept E code msg m w)) = w_db (snd (m w))"
  by (simp add: intercept_def bindM_run getsM_run split: sum.split prod.split)

lemma dropSecond_db: "w_db (snd (bindM m (\<lambda>(i, _). returnM i) v)) = w_db (snd (m v))"
  by (simp add: bindM_run returnM_run split: sum.split prod.split)

lemma pathParam_user [simp]: "pathParam (req\<lparr>hr_user := u\<rparr>) name = pathParam req name"
  by (simp add: pathParam_def)

text \<open>A route of the boundary whose handler is a service that keeps to the organization.\<close>

lemma tenant_route_outside:
  assumes "pathParam req ''orgId'' \<noteq> []"
    and "\<And>user. onlyTenant (pathParam req ''orgId'') (w_db w) (w_db (snd (handler (req\<lparr>hr_user := Some user\<rparr>) user w)))"
  shows "snd (protectedRoute [tenantGuard] bearer req handler w) = w \<or>
    (\<exists>p user. bearer = Some p \<and> fst (validateToken p w) = Inr user \<and> au_organizationId user = Some (pathParam req ''orgId'') \<and>
      onlyTenant (pathParam req ''orgId'') (w_db w) (w_db (snd (protectedRoute [tenantGuard] bearer req handler w))))"
  using tenant_route [of bearer req handler w "fst (protectedRoute [tenantGuard] bearer req handler w)"
      "snd (protectedRoute [tenantGuard] bearer req handler w)", OF _ assms(1)] assms(2)
  by (metis prod.collapse snd_conv)

lemma tenant_request_cases:
  assumes "tenant_request E bearer req w w'" and "pathParam req ''orgId'' \<noteq> []"
    and "keysUnique (w_db w)" and "distinct (map inv_id (invitations (w_db w)))"
  shows "w' = w \<or> (\<exists>p user. bearer = Some p \<and> fst (validateToken p w) = Inr user \<and>
    au_organizationId user = Some (pathParam req ''orgId'') \<and>
    onlyTenant (pathParam req ''orgId'') (w_db w) (w_db w'))"
  using assms(1)
proof cases
  case members
  show ?thesis
    unfolding members memberList_def
    by (rule tenant_route_outside [OF assms(2)]) (simp add: intercept_db listMembers_def getsM_run)
next
  case (update_member um)
  show ?thesis
    unfolding update_member memberUpdate_def
    by (rule tenant_route_outside [OF assms(2)]) (simp add: intercept_db updateAttributes_outside [OF assms(3)])
next
  case remove_member
  show ?thesis
    unfolding remove_member memberRemove_def
    by (rule tenant_route_outside [OF assms(2)]) (simp add: intercept_db removeMember_outside [OF assms(3)])
next
  case (invite iv)
  show ?thesis
    unfolding invite invitationCreate_def
    by (rule tenant_route_outside [OF assms(2)]) (simp add: intercept_db dropSecond_db createInvitation_outside)
next
  case invitations
  show ?thesis
    unfolding invitations invitationList_def
    by (rule tenant_route_outside [OF assms(2)]) (simp add: intercept_db listInvitations_def bindM_run dbFindMany_run)
next
  case revoke_invitation
  show ?thesis
    unfolding revoke_invitation invitationRevoke_def
    by (rule tenant_route_outside [OF assms(2)]) (simp add: intercept_db revokeInvitation_outside [OF assms(4)])
qed

lemma au_organization: "fst (validateToken p w) = Inr user \<Longrightarrow> au_organizationId user = jp_organizationId p"
  by (auto simp: validateToken_def bindM_run thenM_run dbFind_run orThrow_run throw_if_run findSessionById_def whenM_run
      split: option.splits if_splits sum.splits prod.splits)

text \<open>
  C13: organizations are separate at the routes of members and invitations: a request to one of
  them changes nothing, or it carries a current token of an organization, the one in the path,
  and then nothing differs but members and invitations of that organization: those of every
  other organization and all other tables stay as they are.
\<close>

theorem tenant_routes_stay_in_tenant:
  assumes "tenant_request E bearer req w w'" and "pathParam req ''orgId'' \<noteq> []"
    and "keysUnique (w_db w)" and "distinct (map inv_id (invitations (w_db w)))" and "w' \<noteq> w"
  shows "\<exists>p oid. bearer = Some p \<and> tokenCurrent (w_now w) (w_db w) p \<and> jp_organizationId p = Some oid \<and>
    oid = pathParam req ''orgId'' \<and>
    filter (\<lambda>m. m_organizationId m \<noteq> oid) (memberships (w_db w')) = filter (\<lambda>m. m_organizationId m \<noteq> oid) (memberships (w_db w)) \<and>
    filter (\<lambda>i. inv_organizationId i \<noteq> oid) (invitations (w_db w')) = filter (\<lambda>i. inv_organizationId i \<noteq> oid) (invitations (w_db w)) \<and>
    (w_db w')\<lparr>memberships := [], invitations := []\<rparr> = (w_db w)\<lparr>memberships := [], invitations := []\<rparr>"
proof -
  from tenant_request_cases [OF assms(1-4)] assms(5) obtain p user where p: "bearer = Some p"
    "fst (validateToken p w) = Inr user" "au_organizationId user = Some (pathParam req ''orgId'')"
    "onlyTenant (pathParam req ''orgId'') (w_db w) (w_db w')" by blast
  moreover have "tokenCurrent (w_now w) (w_db w) p" by (rule validated_current [OF assms(3) p(2)])
  moreover have "jp_organizationId p = Some (pathParam req ''orgId'')" using au_organization [OF p(2)] p(3) by simp
  ultimately show ?thesis unfolding onlyTenant_def by (intro exI conjI) auto
qed

text \<open>
  C38: the routes of organizations themselves have no such boundary: whoever is signed in, a
  member or not, deletes any organization by its id.
\<close>

theorem anyone_deletes_any_organization:
  assumes "validateToken p w = (Inr user, w)"
    and "findFirst (\<lambda>ob. o_id ob = pathParam req ''id'' \<and> o_deletedAt ob = None) (organizations (w_db w)) = Some org"
  shows "\<exists>r w'. organizationRemove E (Some p) req w = (Inr r, w') \<and> as_statusCode r = 204 \<and>
    (\<forall>ob \<in> set (organizations (w_db w')). o_id ob = o_id org \<longrightarrow> o_deletedAt ob = Some (w_now w))"
proof -
  have "findFirst (\<lambda>ob. o_id ob = pathParam req ''id'') (organizations (w_db w)) \<noteq> None"
    using assms(2) by (auto dest!: findFirst_SomeD simp: findFirst_None_iff)
  moreover have "o_id org = pathParam req ''id''" using assms(2) by (auto dest: findFirst_SomeD)
  ultimately show ?thesis
    using assms
    by (auto simp: organizationRemove_def protectedRoute_run intercept_def softDeleteOrganization_def
        findOrganizationById_def bindM_run thenM_run dbFind_run orThrow_run dbUpdate_run auditRecord_run
        getsM_run set_updateRows split: option.split)
qed

end
