(* ===== verification/SchemaLaws.thy ===== *)
theory SchemaLaws
  imports Platform
begin

text \<open>
  The tables stay well formed: no request of the platform breaks a key of
  \<open>prisma/schema.prisma\<close> or stores an email or a slug that its own lookups would not find.
\<close>

section \<open>Refresh tokens\<close>

text \<open>
  The chain of replaced tokens has a unique column of its own, which is filled by an update; the
  session service keeps it.
\<close>

lemma keeps_refreshTokens_create:
  "(\<And>t. rt_id t = rt_id row \<or> rt_tokenHash t = rt_tokenHash row \<Longrightarrow> conflict t) \<Longrightarrow> rt_replacedByTokenId row = None \<Longrightarrow>
   keeps (dbInv (\<lambda>d. refreshTokensOk (refreshTokens d))) (dbCreate refreshTokensT cols conflict par row)"
  by (rule keeps_dbCreate) (auto simp: table_keys list_all_iff set_map_filter)

lemma refreshTokensOk_revoke [simp]:
  "refreshTokensOk (updateRows p (\<lambda>t. t\<lparr>rt_revokedAt := x\<rparr>) rows) \<longleftrightarrow> refreshTokensOk rows"
  unfolding refreshTokensOk_def by (simp del: set_map)

lemma set_map_filter_snoc: "f x = None \<Longrightarrow> set (List.map_filter f (xs @ [x])) = set (List.map_filter f xs)"
  by (auto simp: set_map_filter)

lemma refreshTokensOk_replace:
  assumes "refreshTokensOk rows" and "\<forall>t \<in> set rows. rt_id t \<noteq> rt_id new \<and> rt_tokenHash t \<noteq> rt_tokenHash new"
    and "rt_replacedByTokenId new = None"
  shows "refreshTokensOk (updateRows (\<lambda>t. rt_id t = i)
    (\<lambda>t. t\<lparr>rt_revokedAt := Some now, rt_replacedByTokenId := Some (rt_id new)\<rparr>) rows @ [new])"
proof -
  let ?f = "\<lambda>t. t\<lparr>rt_revokedAt := Some now, rt_replacedByTokenId := Some (rt_id new)\<rparr>"
  have "distinct (List.map_filter rt_replacedByTokenId (updateRows (\<lambda>t. rt_id t = i) ?f rs)) \<and>
      set (List.map_filter rt_replacedByTokenId (updateRows (\<lambda>t. rt_id t = i) ?f rs))
        \<subseteq> insert (rt_id new) (set (List.map_filter rt_replacedByTokenId rs)) \<and>
      (i \<notin> rt_id ` set rs \<longrightarrow> updateRows (\<lambda>t. rt_id t = i) ?f rs = rs)"
    if "distinct (map rt_id rs)" "distinct (List.map_filter rt_replacedByTokenId rs)"
      "rt_id new \<notin> set (List.map_filter rt_replacedByTokenId rs)" for rs
    using that
    by (induction rs) (auto simp: List.map_filter_simps split: option.splits if_splits)
  note this [of rows]
  moreover have "rt_id new \<notin> set (List.map_filter rt_replacedByTokenId rows)"
    using assms(1,2) unfolding table_keys list_all_iff by fastforce
  ultimately show ?thesis
    using assms by (auto simp: table_keys list_all_iff image_iff table_simps set_map_filter_snoc)
qed

lemma session_step_refreshTokens:
  "session_step E w w' \<Longrightarrow> refreshTokensOk (refreshTokens (w_db w)) \<Longrightarrow> refreshTokensOk (refreshTokens (w_db w'))"
proof (induction rule: session_step.induct)
  case (create w uid meta)
  have "keeps (dbInv (\<lambda>d. refreshTokensOk (refreshTokens d))) (createSession E uid meta)"
    unfolding createSession_def issueRefreshToken_def
    by (intro keeps_intros keeps_refreshTokens_create keeps_dbCreate [where t = sessionsT] keeps_cacheSet) auto
  then show ?case using create keepsD by (fastforce simp: dbInv_def)
next
  case (rotate w raw meta)
  obtain r w' where run: "rotateRefreshToken E raw meta w = (r, w')" by fastforce
  show ?case
  proof (cases r)
    case (Inl e)
    with run rotate show ?thesis by (simp add: rotateRefreshToken_def transaction_rollback)
  next
    case (Inr c)
    from run [unfolded Inr] show ?thesis
    proof (rule rotate_success, goal_cases)
      case (1 old s)
      have "rt_replacedByTokenId (cs_refreshTokenRecord c) = None"
        and "rt_tokenHash (cs_refreshTokenRecord c) = hashToken E (cs_refreshToken c)"
        by (subst 1(6), simp)+
      then show ?case using 1(7) by (simp add: run 1(8) refreshTokensOk_replace [OF rotate])
    qed
  qed
next
  case (revoke w sid uid)
  then show ?case
    by (simp add: revokeSession_run revokeIn_rows split: option.split)
next
  case (revoke_all w uid ex)
  then show ?case by (simp add: revokeAll_run revokeIn_rows Let_def)
qed simp

section \<open>All other tables\<close>

definition otherKeysOk :: "database \<Rightarrow> bool" where
  "otherKeysOk d \<longleftrightarrow> schemaOk (d\<lparr>refreshTokens := []\<rparr>)"

lemma schemaOk_split: "schemaOk d \<longleftrightarrow> refreshTokensOk (refreshTokens d) \<and> otherKeysOk d"
  by (simp add: otherKeysOk_def schemaOk_def refreshTokensOk_def List.map_filter_simps)

definition key_step :: "world \<Rightarrow> world \<Rightarrow> bool" where
  "key_step w w' \<longleftrightarrow> (otherKeysOk (w_db w) \<longrightarrow> otherKeysOk (w_db w'))"

lemma key_tables:
  "governed key_step usersT usersOk" "governed key_step organizationsT organizationsOk"
  "governed key_step membershipsT membershipsOk" "governed key_step rolesT rolesOk"
  "governed key_step permissionsT permissionsOk" "governed key_step rolePermissionsT rolePermissionsOk"
  "governed key_step userRolesT userRolesOk" "governed key_step policiesT policiesOk"
  "governed key_step policyConditionsT policyConditionsOk"
  "governed key_step policyAssignmentsT policyAssignmentsOk"
  "governed key_step invitationsT invitationsOk" "governed key_step mfaSecretsT mfaSecretsOk"
  "governed key_step backupCodesT backupCodesOk" "governed key_step mfaChallengesT mfaChallengesOk"
  "governed key_step oauthAccountsT oauthAccountsOk" "governed key_step ssoConfigurationsT ssoConfigurationsOk"
  "governed key_step sessionsT sessionsOk" "governed key_step refreshTokensT (\<lambda>_. True)"
  "governed key_step emailVerificationTokensT oneTimeTokensOk"
  "governed key_step passwordResetTokensT oneTimeTokensOk"
  "governed key_step passwordHistoryT passwordHistoryOk"
  by (simp_all add: governed_def key_step_def otherKeysOk_def schemaOk_def)

interpretation keySteps: observed_steps key_step "\<lambda>d. d"
  by unfold_locales (simp add: key_step_def)

declare keySteps.walks_dbUpdate [walks_intros del] keySteps.walks_dbUpdateMany [walks_intros del]
  keySteps.walks_dbCreate [walks_intros del] keySteps.walks_dbDelete [walks_intros del]
  keySteps.walks_dbDeleteMany [walks_intros del] keySteps.handleFailedLogin_walks [walks_intros del]
  keySteps.history_walks [walks_intros del]

lemmas key_writes [walks_intros] =
  governed_writes [OF key_tables(1)] governed_writes [OF key_tables(17)] governed_writes [OF key_tables(18)]
  governed_writes [OF key_tables(19)] governed_writes [OF key_tables(20)] governed_writes [OF key_tables(21)]

lemma session_key_steps [walks_intros]:
  "walks key_step (createSession E uid meta)" "walks key_step (rotateRefreshToken E raw meta)"
  "walks key_step (revokeSession sid uid)" "walks key_step (revokeAllSessionsForUser uid ex)"
  unfolding createSession_def rotateRefreshToken_def rotateBody_def issueRefreshToken_def
    revokeFamily_def revokeSession_def revokeAllSessionsForUser_def
  by ((intro walks_intros); auto simp: table_keys)+

lemma token_key_steps [walks_intros]:
  "walks key_step (issueEmailVerificationToken E uid)" "walks key_step (consumeEmailVerificationToken E raw)"
  "walks key_step (issuePasswordResetToken E uid)" "walks key_step (consumePasswordResetToken E raw)"
  unfolding issueEmailVerificationToken_def consumeEmailVerificationToken_def
    issuePasswordResetToken_def consumePasswordResetToken_def storeToken_def redeemToken_def
  by ((intro walks_intros); auto simp: table_keys)+

lemma history_key_steps [walks_intros]:
  "walks key_step (createHistoryEntry E uid h)" "walks key_step (trimPasswordHistory E uid)"
  unfolding createHistoryEntry_def trimPasswordHistory_def Let_def
  by ((intro walks_intros); auto simp: table_keys)+

lemma auth_key_steps:
  "walks key_step (registerUser E inp)" "walks key_step (verifyEmail E tok)"
  "walks key_step (refreshTokenPair E rt meta)" "walks key_step (switchOrganization E uid sid oid)"
  "walks key_step (logout E uid sid)" "walks key_step (logoutAll E uid ex)"
  "walks key_step (changePassword E ci)" "walks key_step (requestPasswordReset E email)"
  "walks key_step (resetPassword E tok np)" "walks key_step (completeLogin E u meta)"
  unfolding registerUser_def verifyEmail_def refreshTokenPair_def switchOrganization_def logout_def
    logoutAll_def changePassword_def requestPasswordReset_def resetPassword_def completeLogin_def Let_def
  by ((intro walks_intros); auto simp: table_keys)+

text \<open>Renaming the provider of a configuration: the clash is looked for before the update.\<close>

lemma distinct_by_id:
  "distinct (map ident xs) \<Longrightarrow> (\<And>x y. x \<in> set xs \<Longrightarrow> y \<in> set xs \<Longrightarrow> key x = key y \<Longrightarrow> ident x = ident y) \<Longrightarrow>
   distinct (map key xs)"
  unfolding distinct_map inj_on_def by blast

lemma patchSso_ids [simp]:
  "sc_id (patchSso ud encrypted c) = sc_id c"
  "sc_organizationId (patchSso ud encrypted c) = sc_organizationId c"
  by (simp_all add: patchSso_def)

lemma patchSso_provider [simp]:
  "sc_providerName (patchSso ud encrypted c) = orDefault (ud_providerName ud) (sc_providerName c)"
  by (cases "ud_providerName ud") (simp_all add: patchSso_def setIf_key [where key = sc_providerName])

lemma ssoConfigurationsOk_rename:
  assumes "ssoConfigurationsOk rows" and "existing \<in> set rows" and "sc_id existing = cid"
    and "\<not> (\<exists>c \<in> set rows. sc_id c \<noteq> cid \<and> sameProvider (sc_organizationId existing)
          (orDefault (ud_providerName ud) (sc_providerName existing)) c)"
  shows "ssoConfigurationsOk (updateRows (\<lambda>c. sc_id c = cid) (patchSso ud encrypted) rows)"
proof -
  let ?key = "\<lambda>c. (sc_organizationId c, sc_providerName c)"
  have one: "c = existing" if "c \<in> set rows" "sc_id c = cid" for c
    using assms(1-3) that by (auto simp: table_keys distinct_map inj_on_def)
  have old: "sc_id x = sc_id y" if "x \<in> set rows" "y \<in> set rows" "?key x = ?key y" for x y
    using assms(1) that by (auto simp: table_keys distinct_map inj_on_def)
  let ?patch = "\<lambda>c. if sc_id c = cid then patchSso ud encrypted c else c"
  have new: "sc_id r = sc_id s" if "r \<in> set rows" "s \<in> set rows" "?key (?patch r) = ?key (?patch s)" for r s
  proof (cases "sc_id r = cid \<or> sc_id s = cid")
    case True
    have clash: "sc_id c = cid" if "c \<in> set rows" "?key (patchSso ud encrypted existing) = ?key c" for c
      using assms(4) that by (auto simp: sameProvider_def)
    from True show ?thesis
    proof
      assume r: "sc_id r = cid"
      with one that(1) have "r = existing" by blast
      with r that(3) have "sc_id s \<noteq> cid \<Longrightarrow> sc_id s = cid" by (intro clash [OF that(2)]) simp
      with r show ?thesis by metis
    next
      assume s: "sc_id s = cid"
      with one that(2) have "s = existing" by blast
      with s that(3) have "sc_id r \<noteq> cid \<Longrightarrow> sc_id r = cid" by (intro clash [OF that(1)]) simp
      with s show ?thesis by metis
    qed
  next
    case False
    with that(3) have "?key r = ?key s" by simp
    with old that(1,2) show ?thesis by blast
  qed
  have "distinct (map ?key (updateRows (\<lambda>c. sc_id c = cid) (patchSso ud encrypted) rows))"
  proof (rule distinct_by_id [where ident = sc_id])
    fix x y
    assume "x \<in> set (updateRows (\<lambda>c. sc_id c = cid) (patchSso ud encrypted) rows)"
      "y \<in> set (updateRows (\<lambda>c. sc_id c = cid) (patchSso ud encrypted) rows)" and key: "?key x = ?key y"
    then obtain r s where "r \<in> set rows" "s \<in> set rows" "x = ?patch r" "y = ?patch s"
      by (auto simp: set_updateRows)
    with new [of r s] key show "sc_id x = sc_id y" by simp
  qed (use assms(1) in \<open>simp add: table_keys\<close>)
  with assms(1) show ?thesis by (simp add: table_keys)
qed

lemma after_quiet:
  assumes "w_db (snd (m w)) = w_db w" and "Q (w_db w)"
    and "\<And>x v. m w = (Inr x, v) \<Longrightarrow> w_db v = w_db w \<Longrightarrow> Q (w_db (snd (f x v)))"
  shows "Q (w_db (snd (bindM m f w)))"
  using assms by (cases "m w") (auto simp: bindM_run split: sum.split)

lemma provider_key_steps: "walks key_step (updateSsoConfiguration E cid ud uid)"
proof (rule walks_step)
  fix w :: world
  let ?Q = "\<lambda>d. otherKeysOk (w_db w) \<longrightarrow> otherKeysOk d"
  let ?encrypt = "if truthy_str (ud_certificate ud)
      then bindM (encryptSecret E (orDefault (ud_certificate ud) [])) (\<lambda>c. returnM (Some c)) else returnM None"
  have encrypt: "w_db (snd (?encrypt v)) = w_db v" for v
  proof -
    have "keeps (dbInv (\<lambda>d. d = w_db v)) ?encrypt"
      unfolding encryptSecret_def encryptAesGcm_def deriveKey_def by (intro keeps_intros)
    from keepsD [OF this, of v] show ?thesis by (simp add: dbInv_def)
  qed
  have "?Q (w_db (snd (updateSsoConfiguration E cid ud uid w)))"
    unfolding updateSsoConfiguration_def
  proof (rule after_quiet, simp add: monad_simps, simp, goal_cases)
    case (1 row v)
    then have v: "v = w" "row = findFirst (\<lambda>c. sc_id c = cid) (ssoConfigurations (w_db w))"
      by (auto simp: dbFind_run)
    show ?case unfolding v(1) thenM_def
    proof (rule after_quiet, simp add: monad_simps, simp, rule after_quiet, simp add: monad_simps validateCertificate_def,
        simp add: orThrow_run split: option.splits, rule after_quiet, goal_cases)
      case (1 existing v1 x v2)
      then show ?case using encrypt [of v2] by simp
    next
      case (2 existing v1 x v2)
      then show ?case by simp
    next
      case (3 existing v1 x v2 encrypted v3)
      then have "row = Some existing" and w: "w_db v3 = w_db w" by (auto simp: orThrow_run split: option.splits)
      with v(2) have found: "existing \<in> set (ssoConfigurations (w_db w))" "sc_id existing = cid"
        using findFirst_SomeD [of "\<lambda>c. sc_id c = cid" "ssoConfigurations (w_db w)" existing] by simp_all
      let ?rows = "ssoConfigurations (w_db w)"
      let ?clash = "\<exists>c \<in> set ?rows. sc_id c \<noteq> cid \<and> sameProvider (sc_organizationId existing)
        (orDefault (ud_providerName ud) (sc_providerName existing)) c"
      have renamed: "otherKeysOk (w_db w) \<Longrightarrow> \<not> ?clash \<Longrightarrow>
          otherKeysOk (ssoConfigurations_update (updateRows (\<lambda>c. sc_id c = cid) (patchSso ud encrypted)) (w_db w))"
        using ssoConfigurationsOk_rename [OF _ found] by (simp add: otherKeysOk_def schemaOk_def)
      show ?case
      proof (cases ?clash)
        case True
        then show ?thesis by (simp add: monad_simps w)
      next
        case False
        then show ?thesis using renamed by (simp add: monad_simps w split: option.split)
      qed
    qed
  qed
  then show "key_step w (snd (updateSsoConfiguration E cid ud uid w))" by (simp add: key_step_def)
qed

interpretation keyRequests: platform_steps key_step "\<lambda>d. d" E usersOk for E :: env
  by unfold_locales (auto simp: key_tables session_key_steps auth_key_steps provider_key_steps table_keys)

text \<open>
  C5: the tables stay well formed under every sequence of requests of any clients.  The primary
  keys of all twenty-one tables stay distinct and so do the unique columns of the schema (the email
  of a user, which moreover stays trimmed and lowercased, the hashes of tokens, the slugs of a
  scope, the pairs of the join tables); no handler inserts or updates past a constraint the model
  of the database relies on.
\<close>

theorem tables_stay_well_formed:
  assumes "(platform_step E isUuid)\<^sup>*\<^sup>* w w'" and "schemaOk (w_db w)"
  shows "schemaOk (w_db w')"
proof -
  have "(session_step E)\<^sup>*\<^sup>* w w'"
    using assms(1) by (rule walks_rtranclp) (rule sessionRequests.request_steps)
  then have "refreshTokensOk (refreshTokens (w_db w'))"
    by (rule steps_keep) (use session_step_refreshTokens assms(2) schemaOk_split in blast)+
  moreover have "key_step\<^sup>*\<^sup>* w w'"
    using assms(1) by (rule walks_rtranclp) (rule keyRequests.request_steps)
  then have "otherKeysOk (w_db w')"
    by (rule steps_keep) (use assms(2) in \<open>auto simp: key_step_def schemaOk_split\<close>)
  ultimately show ?thesis by (simp add: schemaOk_split)
qed

end
