(* ===== verification/BackupCodes.thy ===== *)
theory BackupCodes
  imports MfaLaws
begin

text \<open>
  Backup codes: the loop that draws them ends when the random source allows it, enrolment
  hands out codes that work, each of them once.
\<close>

section \<open>Drawing codes\<close>

text \<open>The code made of the \<open>n\<close>-th draw.\<close>

definition codeAt :: "env \<Rightarrow> nat \<Rightarrow> string" where
  "codeAt E n = formatBackupCode (e_randomBytes E n BACKUP_CODE_BYTES)"

lemma generateBackupCode_run:
  "generateBackupCode E w = (Inr (codeAt E (w_draws w)), w\<lparr>w_draws := Suc (w_draws w)\<rparr>)"
  by (simp add: generateBackupCode_def monad_simps codeAt_def)

lemma codes_shift: "codeAt E ` {n..<n + Suc k} = insert (codeAt E n) (codeAt E ` {Suc n..<Suc n + k})"
proof -
  have "{n..<n + Suc k} = insert n {Suc n..<Suc n + k}" by auto
  then show ?thesis by simp
qed

lemma backupCodeLoop_ends:
  assumes "distinct codes" "length codes \<le> count"
    and "count \<le> card (set codes \<union> codeAt E ` {w_draws w..<w_draws w + k})"
  shows "\<exists>out n. backupCodeLoop E count codes w = Some (Inr out, w\<lparr>w_draws := n\<rparr>) \<and> n \<le> w_draws w + k \<and>
    distinct out \<and> length out = count \<and> set out \<subseteq> set codes \<union> codeAt E ` {w_draws w..<w_draws w + k}"
  using assms
proof (induction k arbitrary: codes w)
  case 0
  then have "count \<le> length codes" by (simp add: distinct_card)
  with 0 show ?case
    by (intro exI [of _ codes] exI [of _ "w_draws w"]) (simp add: backupCodeLoop.simps)
next
  case (Suc k)
  let ?c = "codeAt E (w_draws w)"
  let ?codes = "if ?c \<in> set codes then codes else codes @ [?c]"
  let ?w = "w\<lparr>w_draws := Suc (w_draws w)\<rparr>"
  show ?case
  proof (cases "count \<le> length codes")
    case True
    with Suc.prems show ?thesis
      by (intro exI [of _ codes] exI [of _ "w_draws w"]) (auto simp: backupCodeLoop.simps)
  next
    case False
    have step: "backupCodeLoop E count codes w = backupCodeLoop E count ?codes ?w"
      using False by (subst backupCodeLoop.simps) (simp add: generateBackupCode_run)
    have union: "set ?codes \<union> codeAt E ` {w_draws ?w..<w_draws ?w + k} =
        set codes \<union> codeAt E ` {w_draws w..<w_draws w + Suc k}"
      unfolding codes_shift by auto
    have "distinct ?codes" "length ?codes \<le> count" using Suc.prems(1) False by auto
    moreover have "count \<le> card (set ?codes \<union> codeAt E ` {w_draws ?w..<w_draws ?w + k})"
      unfolding union by (rule Suc.prems(3))
    ultimately obtain out n where
      "backupCodeLoop E count ?codes ?w = Some (Inr out, ?w\<lparr>w_draws := n\<rparr>)" "n \<le> w_draws ?w + k"
      "distinct out" "length out = count" "set out \<subseteq> set ?codes \<union> codeAt E ` {w_draws ?w..<w_draws ?w + k}"
      using Suc.IH [of ?codes ?w] by blast
    then show ?thesis
      unfolding step union by (intro exI [of _ out] exI [of _ n]) simp
  qed
qed

text \<open>And it ends only when so many different codes were drawn.\<close>

lemma backupCodeLoop_drawn:
  assumes "backupCodeLoop E count codes w = Some (r, w')" "distinct codes"
  shows "\<exists>k. count \<le> card (set codes \<union> codeAt E ` {w_draws w..<w_draws w + k})"
proof -
  have "distinct codes \<longrightarrow> (\<exists>k. count \<le> card (set codes \<union> codeAt E ` {w_draws w..<w_draws w + k}))"
  proof (rule backupCodeLoop.raw_induct [where P = "\<lambda>E count codes w r. distinct codes \<longrightarrow>
      (\<exists>k. count \<le> card (set codes \<union> codeAt E ` {w_draws w..<w_draws w + k}))", OF _ assms(1)])
    fix loop E count codes w r
    assume IH: "\<And>E count codes w r. loop E count codes w = Some r \<Longrightarrow> distinct codes \<longrightarrow>
        (\<exists>k. count \<le> card (set codes \<union> codeAt E ` {w_draws w..<w_draws w + k}))"
      and body: "(if count \<le> length codes then Some (Inr codes, w)
        else case generateBackupCode E w of (Inl e, w') \<Rightarrow> Some (Inl e, w')
           | (Inr c, w') \<Rightarrow> loop E count (if c \<in> set codes then codes else codes @ [c]) w') = Some r"
    show "distinct codes \<longrightarrow> (\<exists>k. count \<le> card (set codes \<union> codeAt E ` {w_draws w..<w_draws w + k}))"
    proof (intro impI, cases "count \<le> length codes")
      case True
      assume "distinct codes"
      with True show "\<exists>k. count \<le> card (set codes \<union> codeAt E ` {w_draws w..<w_draws w + k})"
        by (intro exI [of _ 0]) (simp add: distinct_card)
    next
      case False
      let ?c = "codeAt E (w_draws w)"
      let ?codes = "if ?c \<in> set codes then codes else codes @ [?c]"
      let ?w = "w\<lparr>w_draws := Suc (w_draws w)\<rparr>"
      assume "distinct codes"
      then have "distinct ?codes" by simp
      moreover have "loop E count ?codes ?w = Some r" using body False by (simp add: generateBackupCode_run)
      ultimately obtain k where "count \<le> card (set ?codes \<union> codeAt E ` {w_draws ?w..<w_draws ?w + k})"
        using IH by blast
      moreover have "set ?codes \<union> codeAt E ` {w_draws ?w..<w_draws ?w + k} =
          set codes \<union> codeAt E ` {w_draws w..<w_draws w + Suc k}"
        unfolding codes_shift by auto
      ultimately show "\<exists>k. count \<le> card (set codes \<union> codeAt E ` {w_draws w..<w_draws w + k})"
        by metis
    qed
  qed
  with assms(2) show ?thesis by blast
qed

section \<open>The shape of a code\<close>

definition upperAlnum :: "char \<Rightarrow> bool" where
  "upperAlnum c \<longleftrightarrow> (let n = of_char c :: nat in (48 \<le> n \<and> n \<le> 57) \<or> (65 \<le> n \<and> n \<le> 90))"

definition backupShape :: "string \<Rightarrow> bool" where
  "backupShape s \<longleftrightarrow> length s = 9 \<and> s ! 4 = CHR ''-'' \<and> list_all upperAlnum (take 4 s @ drop 5 s)"

lemma upper_alnum: "isAlnum c \<Longrightarrow> upperAlnum (upper_char c)"
  by (auto simp: isAlnum_def upperAlnum_def upper_char_def Let_def)

lemma formatBackupCode_shape: "backupShape (formatBackupCode bs)"
proof -
  let ?raw = "take 8 (toUpperCase (filter isAlnum (toBase64 bs)))"
  let ?p = "padEnd 8 (CHR ''0'') ?raw"
  have len: "length ?p = 8" by (simp add: padEnd_def)
  have "upperAlnum (CHR ''0'')" by (simp add: upperAlnum_def)
  then have "\<forall>c \<in> set ?p. upperAlnum c"
    by (auto simp: padEnd_def toUpperCase_def upper_alnum dest!: in_set_takeD)
  then have "\<forall>c \<in> set (take 4 ?p @ drop 4 ?p). upperAlnum c" by simp
  then show ?thesis
    using len by (simp add: backupShape_def formatBackupCode_def BACKUP_CODE_GROUP_SIZE_def Let_def nth_append list_all_iff)
qed

text \<open>
  C29: \<open>generateBackupCodes\<close> returns exactly when the random source ever yields enough different
  codes; then it returns the number asked for, all different, each four and four capital
  letters or digits around a hyphen, and needs no more draws than it takes to see them.
\<close>

theorem backup_codes_generated:
  "((\<exists>r. generateBackupCodes E count w = Some r) \<longleftrightarrow>
      (\<exists>k. count \<le> card (codeAt E ` {w_draws w..<w_draws w + k}))) \<and>
   (\<forall>k. count \<le> card (codeAt E ` {w_draws w..<w_draws w + k}) \<longrightarrow>
      (\<exists>codes n. generateBackupCodes E count w = Some (Inr codes, w\<lparr>w_draws := n\<rparr>) \<and> n \<le> w_draws w + k \<and>
         length codes = count \<and> distinct codes \<and> list_all backupShape codes))"
proof -
  have ends: "\<exists>codes n. generateBackupCodes E count w = Some (Inr codes, w\<lparr>w_draws := n\<rparr>) \<and> n \<le> w_draws w + k \<and>
      length codes = count \<and> distinct codes \<and> list_all backupShape codes"
    if "count \<le> card (codeAt E ` {w_draws w..<w_draws w + k})" for k
  proof -
    have "count \<le> card (set [] \<union> codeAt E ` {w_draws w..<w_draws w + k})" using that by simp
    from backupCodeLoop_ends [OF _ _ this] obtain out n where out:
      "backupCodeLoop E count [] w = Some (Inr out, w\<lparr>w_draws := n\<rparr>)" "n \<le> w_draws w + k" "distinct out"
      "length out = count" "set out \<subseteq> codeAt E ` {w_draws w..<w_draws w + k}" by auto
    moreover from out(5) have "list_all backupShape out"
      by (auto simp: list_all_iff codeAt_def formatBackupCode_shape)
    ultimately show ?thesis unfolding generateBackupCodes_def by blast
  qed
  moreover have "\<exists>k. count \<le> card (codeAt E ` {w_draws w..<w_draws w + k})"
    if "generateBackupCodes E count w = Some r" for r
    using backupCodeLoop_drawn [of E count "[]" w "fst r" "snd r"] that by (simp add: generateBackupCodes_def)
  ultimately show ?thesis by blast
qed

section \<open>The table of codes\<close>

definition codesGood :: "database \<Rightarrow> bool" where
  "codesGood d \<longleftrightarrow> distinct (map bc_id (backupCodes d)) \<and> distinct (map bc_codeHash (backupCodes d))"

definition codeReady :: "string \<Rightarrow> string \<Rightarrow> database \<Rightarrow> bool" where
  "codeReady uid h d \<longleftrightarrow> (\<exists>b \<in> set (backupCodes d). bc_codeHash b = h \<and> bc_userId b = uid \<and> bc_usedAt b = None)"

definition codeSpent :: "string \<Rightarrow> database \<Rightarrow> bool" where
  "codeSpent h d \<longleftrightarrow> (\<exists>b \<in> set (backupCodes d). bc_codeHash b = h \<and> bc_usedAt b \<noteq> None)"

lemma code_unique:
  "codesGood d \<Longrightarrow> b \<in> set (backupCodes d) \<Longrightarrow>
   findFirst (\<lambda>x. bc_codeHash x = bc_codeHash b) (backupCodes d) = Some b"
  using findFirst_key [of bc_codeHash "backupCodes d" b] by (simp add: codesGood_def)

lemma createBackupRows_Inr:
  "createBackupRows E uid codes w = (Inr u, w') \<Longrightarrow> codesGood (w_db w) \<Longrightarrow>
   codesGood (w_db w') \<and> set (backupCodes (w_db w)) \<subseteq> set (backupCodes (w_db w')) \<and>
   (\<forall>c \<in> set codes. codeReady uid (hashBackupCode E c) (w_db w'))"
proof (induction codes arbitrary: w)
  case Nil
  then show ?case by (simp add: createBackupRows_def)
next
  case (Cons c codes)
  let ?row = "\<lparr>bc_id = e_uuid E (w_draws w), bc_userId = uid, bc_codeHash = hashBackupCode E c, bc_usedAt = None\<rparr>"
  let ?w = "w_db_update (backupCodes_update (\<lambda>rows. rows @ [?row])) (w\<lparr>w_draws := Suc (w_draws w)\<rparr>)"
  from Cons.prems(1) have fresh: "\<forall>b \<in> set (backupCodes (w_db w)). bc_id b \<noteq> bc_id ?row \<and> bc_codeHash b \<noteq> bc_codeHash ?row"
    and rest: "createBackupRows E uid codes ?w = (Inr u, w')"
    by (auto simp: createBackupRows_def success_iffs newId_run dbCreate_run split: if_splits)
  have "codesGood (w_db ?w)"
    using Cons.prems(2) fresh by (auto simp: codesGood_def)
  from Cons.IH [OF rest this] have "codesGood (w_db w')"
    "set (backupCodes (w_db w)) \<subseteq> set (backupCodes (w_db w'))" "?row \<in> set (backupCodes (w_db w'))"
    "\<forall>c \<in> set codes. codeReady uid (hashBackupCode E c) (w_db w')" by auto
  moreover from this(3) have "codeReady uid (hashBackupCode E c) (w_db w')"
    unfolding codeReady_def by (rule bexI [rotated]) simp
  ultimately show ?case by simp
qed

lemma storeBackupCodes_Inr:
  assumes "storeBackupCodes E uid codes w = (Inr (out, t), w')" "codesGood (w_db w)"
  shows "out = codes \<and> codesGood (w_db w') \<and> (\<forall>c \<in> set codes. codeReady uid (hashBackupCode E c) (w_db w'))"
proof -
  let ?w = "w_db_update (backupCodes_update (deleteRows (\<lambda>b. bc_userId b = uid))) w"
  from assms(1) have "out = codes" and "createBackupRows E uid codes ?w = (Inr (), w')"
    by (auto simp: storeBackupCodes_def success_iffs transaction_Inr_iff dbDeleteMany_run)
  moreover have "codesGood (w_db ?w)"
    using assms(2) by (auto simp: codesGood_def deleteRows_def intro: distinct_map_filter)
  ultimately show ?thesis using createBackupRows_Inr by blast
qed

text \<open>A code that is ready is accepted; a code that is spent is not, and nothing changes.\<close>

lemma ready_accepted:
  assumes "codesGood (w_db w)" "codeReady uid (hashBackupCode E (normalizeBackupCode code)) (w_db w)"
  shows "\<exists>w'. consumeBackupCode E uid code w = (Inr True, w')"
proof -
  obtain b where b: "b \<in> set (backupCodes (w_db w))" "bc_codeHash b = hashBackupCode E (normalizeBackupCode code)"
    "bc_userId b = uid" "bc_usedAt b = None" using assms(2) by (auto simp: codeReady_def)
  obtain b' where "findFirst (\<lambda>x. bc_id x = bc_id b) (backupCodes (w_db w)) = Some b'"
    using findFirst_ex [of b "backupCodes (w_db w)" "\<lambda>x. bc_id x = bc_id b"] b(1) by auto
  with code_unique [OF assms(1) b(1)] b show ?thesis
    by (simp add: consumeBackupCode_def Let_def bindM_run thenM_run dbFind_run dbUpdate_run auditRecord_run)
qed

lemma spent_code_refused:
  assumes "codesGood (w_db w)" "codeSpent (hashBackupCode E (normalizeBackupCode code)) (w_db w)"
  shows "consumeBackupCode E uid code w = (Inr False, w)"
proof -
  obtain b where b: "b \<in> set (backupCodes (w_db w))" "bc_codeHash b = hashBackupCode E (normalizeBackupCode code)"
    "bc_usedAt b \<noteq> None" using assms(2) by (auto simp: codeSpent_def)
  with code_unique [OF assms(1) b(1)] show ?thesis
    by (simp add: consumeBackupCode_def Let_def bindM_run dbFind_run)
qed

section \<open>Codes work once\<close>

inductive bcMove :: "world \<Rightarrow> world \<Rightarrow> bool" where
  other: "backupCodes (w_db w') = backupCodes (w_db w) \<Longrightarrow> bcMove w w'"
| used: "backupCodes (w_db w') = updateRows (\<lambda>b. bc_id b = i) (\<lambda>b. b\<lparr>bc_usedAt := Some t\<rparr>) (backupCodes (w_db w)) \<Longrightarrow>
    bcMove w w'"

interpretation codeView: observed_steps bcMove backupCodes
  by unfold_locales (rule bcMove.other)

lemma bcMove_good: "bcMove w w' \<Longrightarrow> codesGood (w_db w) \<Longrightarrow> codesGood (w_db w')"
  by (induction rule: bcMove.induct) (simp_all add: codesGood_def map_updateRows_key)

lemma bcMove_spent: "bcMove w w' \<Longrightarrow> codeSpent h (w_db w) \<Longrightarrow> codeSpent h (w_db w')"
proof (induction rule: bcMove.induct)
  case (used w' i t w)
  then obtain b where "b \<in> set (backupCodes (w_db w))" "bc_codeHash b = h" "bc_usedAt b \<noteq> None"
    by (auto simp: codeSpent_def)
  then show ?case
    unfolding codeSpent_def used(1) set_updateRows
    by (intro bexI [of _ "if bc_id b = i then b\<lparr>bc_usedAt := Some t\<rparr> else b"]) auto
qed (simp add: codeSpent_def)

lemma code_use_walks:
  "walks bcMove (dbUpdate backupCodesT (\<lambda>b. bc_id b = i) (\<lambda>b. b\<lparr>bc_usedAt := Some t\<rparr>))"
proof (rule walks_step)
  fix w show "bcMove w (snd (dbUpdate backupCodesT (\<lambda>b. bc_id b = i) (\<lambda>b. b\<lparr>bc_usedAt := Some t\<rparr>) w))"
    by (rule bcMove.used [where i = i and t = t])
      (simp add: dbUpdate_run updateRows_none findFirst_None_iff split: option.split)
qed

lemma consumeBackupCode_walks [walks_intros]: "walks bcMove (consumeBackupCode E uid code)"
  unfolding consumeBackupCode_def Let_def
  by (rule code_use_walks walks_intros | assumption)+

lemma verify_walks_codes: "walks bcMove (verifyAndCompleteLogin E dto meta)"
  unfolding verifyAndCompleteLogin_def consumeMfaChallenge_def checkFactor_def refuseFactor_def completeMfaLogin_def
    recordAttempt_def verifyTotp_def decryptSecret_def decryptAesGcm_def deriveKey_def resolveDefault_def
    signAccessToken_def createSession_def issueRefreshToken_def Let_def
  by ((intro walks_intros); simp)+

text \<open>
  One verification, one use of a code, or anything that leaves the codes alone; enrolling,
  regenerating and disabling write the codes and are no such steps, whoever does them.
\<close>

inductive code_step :: "env \<Rightarrow> world \<Rightarrow> world \<Rightarrow> bool" for E where
  verify: "code_step E w (snd (verifyAndCompleteLogin E dto meta w))"
| consume: "code_step E w (snd (consumeBackupCode E uid code w))"
| other: "backupCodes (w_db w') = backupCodes (w_db w) \<Longrightarrow> code_step E w w'"

lemma code_step_moves: "code_step E w w' \<Longrightarrow> bcMove\<^sup>*\<^sup>* w w'"
  by (induction rule: code_step.induct)
    (auto intro: walksD verify_walks_codes consumeBackupCode_walks bcMove.other)

lemma code_steps_keep:
  assumes "(code_step E)\<^sup>*\<^sup>* w w'" "codesGood (w_db w)" "codeSpent h (w_db w)"
  shows "codesGood (w_db w') \<and> codeSpent h (w_db w')"
proof -
  have "bcMove\<^sup>*\<^sup>* w w'" by (rule walks_rtranclp [OF assms(1) code_step_moves])
  from steps_keep [OF this, of "\<lambda>w. codesGood (w_db w) \<and> codeSpent h (w_db w)"] assms(2,3) bcMove_good bcMove_spent
  show ?thesis by blast
qed

lemma consume_spends:
  assumes "consumeBackupCode E uid code w = (Inr True, w')"
  shows "codeSpent (hashBackupCode E (normalizeBackupCode code)) (w_db w')"
proof -
  let ?h = "hashBackupCode E (normalizeBackupCode code)"
  obtain b where b: "findFirst (\<lambda>x. bc_codeHash x = ?h) (backupCodes (w_db w)) = Some b"
    and rows: "backupCodes (w_db w') = updateRows (\<lambda>x. bc_id x = bc_id b) (\<lambda>x. x\<lparr>bc_usedAt := Some (w_now w)\<rparr>) (backupCodes (w_db w))"
    using assms
    by (auto simp: consumeBackupCode_def Let_def success_iffs dbFind_run dbUpdate_run auditRecord_run
        split: option.splits if_splits)
  from b have "b \<in> set (backupCodes (w_db w))" "bc_codeHash b = ?h" by (auto dest: findFirst_SomeD)
  then have "b\<lparr>bc_usedAt := Some (w_now w)\<rparr> \<in> set (backupCodes (w_db w'))" "bc_codeHash (b\<lparr>bc_usedAt := Some (w_now w)\<rparr>) = ?h"
    unfolding rows set_updateRows by auto
  then show ?thesis
    unfolding codeSpent_def by (intro bexI [of _ "b\<lparr>bc_usedAt := Some (w_now w)\<rparr>"]) simp_all
qed

text \<open>
  C27: a backup code works once: after it was accepted, and as long as nobody's codes are
  replaced or deleted (no enrolment, regeneration or disabling by any user in between), it is
  refused for every user and in every spelling, whatever logins and other operations come
  between; the refusal changes nothing.
\<close>

theorem backup_code_works_once:
  assumes "codesGood (w_db w)" and "consumeBackupCode E uid code w = (Inr True, w1)"
    and "(code_step E)\<^sup>*\<^sup>* w1 w2" and "normalizeBackupCode code' = normalizeBackupCode code"
  shows "consumeBackupCode E uid' code' w2 = (Inr False, w2)"
proof -
  have "codesGood (w_db w1)"
  proof -
    have "bcMove\<^sup>*\<^sup>* w w1" using walksE [OF consumeBackupCode_walks assms(2)] .
    from steps_keep [OF this, of "\<lambda>w. codesGood (w_db w)"] bcMove_good assms(1) show ?thesis by blast
  qed
  from code_steps_keep [OF assms(3) this consume_spends [OF assms(2)]] assms(4)
  show ?thesis by (intro spent_code_refused) simp_all
qed

section \<open>Enrolment\<close>

lemma bindL_iff:
  "bindL m f w = Some (Inr y, w') \<longleftrightarrow> (\<exists>x w1. m w = Some (Inr x, w1) \<and> f x w1 = Some (Inr y, w'))"
  by (auto simp: bindL_def split: option.splits sum.splits)

lemma runL_iff: "runL m w = Some r \<longleftrightarrow> m w = r"
  by (simp add: runL_def)

lemmas loop_iffs = bindL_iff runL_iff

lemma replaceBackupCodes_Some:
  assumes "replaceBackupCodes E uid w = Some (Inr (out, t), w')" "codesGood (w_db w)"
  shows "length out = fc_mfaBackupCodeCount (e_fed E) \<and> distinct out \<and> list_all backupShape out \<and>
    codesGood (w_db w') \<and> (\<forall>c \<in> set out. codeReady uid (hashBackupCode E c) (w_db w'))"
proof -
  let ?n = "fc_mfaBackupCodeCount (e_fed E)"
  from assms(1) obtain made w1 where r: "generateBackupCodes E ?n w = Some (Inr made, w1)"
    and store: "storeBackupCodes E uid made w1 = (Inr (out, t), w')"
    by (auto simp: replaceBackupCodes_def loop_iffs)
  then obtain k where "?n \<le> card (codeAt E ` {w_draws w..<w_draws w + k})"
    using backupCodeLoop_drawn [of E ?n "[]" w "Inr made" w1] by (auto simp: generateBackupCodes_def)
  then have "?n \<le> card (set [] \<union> codeAt E ` {w_draws w..<w_draws w + k})" by simp
  from backupCodeLoop_ends [OF _ _ this] r obtain n where codes: "w1 = w\<lparr>w_draws := n\<rparr>"
    "distinct made" "length made = ?n" "set made \<subseteq> codeAt E ` {w_draws w..<w_draws w + k}"
    by (auto simp: generateBackupCodes_def)
  have "codesGood (w_db w1)" using assms(2) codes(1) by simp
  from storeBackupCodes_Inr [OF store this] codes(2-4) show ?thesis
    by (auto simp: list_all_iff codeAt_def formatBackupCode_shape)
qed

lemma dropWhile_none: "(\<And>c. c \<in> set s \<Longrightarrow> \<not> p c) \<Longrightarrow> dropWhile p s = s"
  by (cases s) simp_all

lemma js_trim_id: "(\<And>c. c \<in> set s \<Longrightarrow> \<not> js_space c) \<Longrightarrow> js_trim s = s"
  using dropWhile_none [of s js_space] dropWhile_none [of "rev s" js_space] by (simp add: js_trim_def)

lemma normalize_shape: "backupShape s \<Longrightarrow> normalizeBackupCode s = s"
proof -
  assume shape: "backupShape s"
  then have "4 < length s" "s ! 4 = CHR ''-''" by (simp_all add: backupShape_def)
  with id_take_nth_drop [of 4 s] have "s = take 4 s @ CHR ''-'' # drop 5 s" by simp
  then have "set s = insert (CHR ''-'') (set (take 4 s @ drop 5 s))"
    by (metis set_append list.simps(15) Un_insert_right)
  with shape have chars: "c = CHR ''-'' \<or> upperAlnum c" if "c \<in> set s" for c
    using that by (auto simp: backupShape_def list_all_iff)
  have "\<not> js_space c \<and> upper_char c = c" if "c \<in> set s" for c
    using chars [OF that] by (auto simp: js_space_def upper_char_def upperAlnum_def Let_def)
  then show ?thesis
    by (simp add: normalizeBackupCode_def js_trim_id toUpperCase_def map_idI)
qed

text \<open>
  C28: enrolment ends with a factor that works: when \<open>verifySetup\<close> hands out backup codes, MFA is
  enabled for the user from then on, the codes are as many as configured and all different, and
  each of them, with blanks around it or in small letters, is accepted for this user.
\<close>

theorem enrolment_gives_working_codes:
  assumes "codesGood (w_db w)" and "verifySetup E uid code w = Some (Inr (codes, t), w')"
  shows "fst (isMfaEnabled uid w') = Inr True \<and> length codes = fc_mfaBackupCodeCount (e_fed E) \<and> distinct codes \<and>
    (\<forall>c \<in> set codes. normalizeBackupCode c = c \<and>
      (\<forall>typed. normalizeBackupCode typed = c \<longrightarrow> (\<exists>w''. consumeBackupCode E uid typed w' = (Inr True, w''))))"
proof -
  from assms(2) obtain w1 w2 where w1: "checkSetupCode E uid code w = (Inr (), w1)"
    and w2: "replaceBackupCodes E uid w1 = Some (Inr (codes, t), w2)" and w3: "enableMfa E uid w2 = (Inr (), w')"
    by (auto simp: verifySetup_def loop_iffs success_iffs)
  have "backupCodes (w_db w1) = backupCodes (w_db w)"
  proof -
    have "backupCodes (w_db (snd (checkSetupCode E uid code w))) = backupCodes (w_db w)"
      by (rule keeps_view [where f = backupCodes])
        (unfold checkSetupCode_def decryptSecret_def decryptAesGcm_def deriveKey_def Let_def, (intro keeps_intros)+)
    with w1 show ?thesis by simp
  qed
  then have "codesGood (w_db w1)" using assms(1) by (simp add: codesGood_def)
  note codes = replaceBackupCodes_Some [OF w2 this]
  obtain s where s: "findFirst (\<lambda>s. ms_userId s = uid) (mfaSecrets (w_db w2)) = Some s"
    using w3 by (cases "findFirst (\<lambda>s. ms_userId s = uid) (mfaSecrets (w_db w2))")
      (simp_all add: enableMfa_def bindM_run thenM_run dbUpdate_run)
  then have found: "s \<in> set (mfaSecrets (w_db w2))" "ms_userId s = uid" by (auto dest: findFirst_SomeD)
  have db: "w_db w' = mfaSecrets_update (updateRows (\<lambda>s. ms_userId s = uid)
      (\<lambda>s. s\<lparr>ms_isEnabled := True, ms_lastUsedAt := Some (w_now w2)\<rparr>)) (w_db w2)"
  proof -
    have "w_db (snd (enableMfa E uid w2)) = mfaSecrets_update (updateRows (\<lambda>s. ms_userId s = uid)
        (\<lambda>s. s\<lparr>ms_isEnabled := True, ms_lastUsedAt := Some (w_now w2)\<rparr>)) (w_db w2)"
      by (simp add: enableMfa_def bindM_run thenM_run dbUpdate_run s)
    with w3 show ?thesis by simp
  qed
  then have rows: "backupCodes (w_db w') = backupCodes (w_db w2)"
    and secrets: "mfaSecrets (w_db w') = updateRows (\<lambda>s. ms_userId s = uid)
      (\<lambda>s. s\<lparr>ms_isEnabled := True, ms_lastUsedAt := Some (w_now w2)\<rparr>) (mfaSecrets (w_db w2))"
    by simp_all
  have "fst (isMfaEnabled uid w') = Inr True"
  proof -
    let ?on = "\<lambda>s. s\<lparr>ms_isEnabled := True, ms_lastUsedAt := Some (w_now w2)\<rparr>"
    have "?on s \<in> set (mfaSecrets (w_db w'))" unfolding secrets set_updateRows
      by (rule image_eqI [OF _ found(1)]) (simp add: found(2))
    moreover have "ms_userId (?on s) = uid" using found(2) by simp
    ultimately obtain s' where s': "findFirst (\<lambda>s. ms_userId s = uid) (mfaSecrets (w_db w')) = Some s'"
      using findFirst_ex [of "?on s" "mfaSecrets (w_db w')" "\<lambda>s. ms_userId s = uid"] by blast
    then have "s' \<in> set (mfaSecrets (w_db w'))" "ms_userId s' = uid" by (auto dest: findFirst_SomeD)
    then have "s' \<in> (\<lambda>s. if ms_userId s = uid then ?on s else s) ` set (mfaSecrets (w_db w2))"
      by (simp only: secrets set_updateRows)
    then obtain x where "s' = (if ms_userId x = uid then ?on x else x)" by (rule imageE)
    with \<open>ms_userId s' = uid\<close> have "ms_isEnabled s'" by (cases "ms_userId x = uid") simp_all
    with s' show ?thesis by (simp add: isMfaEnabled_def bindM_run dbFind_run)
  qed
  moreover have "codesGood (w_db w')" "\<forall>c \<in> set codes. codeReady uid (hashBackupCode E c) (w_db w')"
    using codes rows by (simp_all add: codesGood_def codeReady_def)
  ultimately show ?thesis
    using codes by (auto simp: list_all_iff normalize_shape intro!: ready_accepted)
qed

end
