(* ===== verification/MfaWitnesses.thy ===== *)
theory MfaWitnesses
  imports BackupCodes
begin

text \<open>
  Concrete runs of the MFA services: a user with a backup code and an open challenge, and a
  user in the middle of enrolment.
\<close>

definition mfaEnv :: env where
  "mfaEnv = cryptoEnv\<lparr>e_fed := (e_fed cryptoEnv)\<lparr>fc_mfaBackupCodeCount := 2\<rparr>,
     e_randomBytes := (\<lambda>n len. if len = IV_LENGTH then replicate IV_LENGTH (n mod 256) else [n])\<rparr>"

definition noDevice :: LoginMetadata where
  "noDevice = \<lparr>lm_ipAddress = None, lm_userAgent = None, lm_deviceName = None\<rparr>"

definition challengeWorld :: world where
  "challengeWorld = withDb (\<lambda>d. d\<lparr>
     backupCodes := [\<lparr>bc_id = ''b1'', bc_userId = ''alice'', bc_codeHash = hashBackupCode mfaEnv ''ABCD-EFGH'', bc_usedAt = None\<rparr>],
     mfaChallenges := [\<lparr>mc_id = ''c1'', mc_userId = ''alice'', mc_tokenHash = hashToken mfaEnv ''tok'',
       mc_expiresAt = 5000, mc_consumedAt = None, mc_ipAddress = None, mc_userAgent = None, mc_deviceName = None,
       mc_attempts = 0\<rparr>]\<rparr>)"

definition goodGuess :: "MfaChallengeMethod \<times> string \<times> LoginMetadata" where
  "goodGuess = (BACKUP_CODE, ''abcd-efgh'', noDevice)"

definition badGuess :: "MfaChallengeMethod \<times> string \<times> LoginMetadata" where
  "badGuess = (TOTP, ''000000'', noDevice)"

text \<open>A secret that is stored, not yet enabled: one letter, sealed under a nonce and a tag of zeros.\<close>

definition enrolling :: world where
  "enrolling = withDb (\<lambda>d. d\<lparr>mfaSecrets := [\<lparr>ms_userId = ''alice'',
     ms_secretEncrypted = ''AAAAAAAAAAAAAAAAAAAAAAAAAAAAAAAAAAAAAFM='', ms_isEnabled = False, ms_lastUsedAt = None\<rparr>]\<rparr>)"

definition enrolChecked :: world where
  "enrolChecked = snd (checkSetupCode mfaEnv ''alice'' ''123456'' enrolling)"

definition enrolStored :: "(exn + (string list \<times> int)) \<times> world" where
  "enrolStored = storeBackupCodes mfaEnv ''alice'' [codeAt mfaEnv (w_draws enrolChecked), codeAt mfaEnv (Suc (w_draws enrolChecked))]
     (enrolChecked\<lparr>w_draws := Suc (Suc (w_draws enrolChecked))\<rparr>)"

lemma challengeWorld_good: "challengesGood (w_db challengeWorld)"
  by code_simp

theorem mfa_challenge_works_once_witness:
  "\<exists>r w1 e. verifyWith mfaEnv ''tok'' goodGuess challengeWorld = (Inr r, w1) \<and>
     fst (verifyWith mfaEnv ''tok'' badGuess w1) = Inl e"
proof -
  have "\<not> isl (fst (verifyWith mfaEnv ''tok'' goodGuess challengeWorld))" by code_simp
  from run_Inr [OF this] obtain r w1
    where run: "verifyWith mfaEnv ''tok'' goodGuess challengeWorld = (Inr r, w1)" by blast
  from mfa_challenge_works_once [OF challengeWorld_good run rtranclp.rtrancl_refl, of badGuess] run show ?thesis by blast
qed

text \<open>Five wrong guesses use the challenge up; then the good code is refused as well.\<close>

primrec guessed :: "nat \<Rightarrow> world" where
  "guessed 0 = challengeWorld"
| "guessed (Suc n) = snd (verifyWith mfaEnv ''tok'' badGuess (guessed n))"

lemma guessed_wrong: "list_all (\<lambda>n. case fst (verifyWith mfaEnv ''tok'' badGuess (guessed n)) of
    Inl e \<Rightarrow> e = wrongFactor TOTP | Inr _ \<Rightarrow> False) [0, 1, 2, 3, 4]"
  by code_simp

theorem mfa_guesses_are_bounded_witness:
  "guessing mfaEnv ''tok'' 5 challengeWorld (guessed 5) \<and>
   (\<exists>e. verifyWith mfaEnv ''tok'' goodGuess (guessed 5) = (Inl e, guessed 5))"
proof -
  have step: "guessing mfaEnv ''tok'' (Suc n) challengeWorld (guessed (Suc n))"
    if "guessing mfaEnv ''tok'' n challengeWorld (guessed n)" "n \<in> set [0, 1, 2, 3, 4]" for n
  proof -
    have "fst (verifyWith mfaEnv ''tok'' badGuess (guessed n)) = Inl (wrongFactor TOTP)"
      using guessed_wrong that(2) unfolding list_all_iff by (fastforce split: sum.splits)
    from run_fst [OF this] obtain w' where run: "verifyWith mfaEnv ''tok'' badGuess (guessed n) = (Inl (wrongFactor TOTP), w')"
      by blast
    from guessing.wrong [OF that(1) run] show ?thesis by (simp add: run)
  qed
  have "n \<le> 5 \<Longrightarrow> guessing mfaEnv ''tok'' n challengeWorld (guessed n)" for n
    by (induction n) (simp add: guessing.start, rule step, auto)
  then have "guessing mfaEnv ''tok'' 5 challengeWorld (guessed 5)" by simp
  with mfa_guesses_are_bounded [OF challengeWorld_good this] show ?thesis by blast
qed

theorem backup_codes_generated_witness:
  "\<exists>codes n. generateBackupCodes mfaEnv 2 sampleWorld = Some (Inr codes, sampleWorld\<lparr>w_draws := n\<rparr>) \<and>
     n \<le> w_draws sampleWorld + 2 \<and> length codes = 2 \<and> distinct codes \<and> list_all backupShape codes"
proof -
  have "card (set (map (codeAt mfaEnv) [w_draws sampleWorld..<w_draws sampleWorld + 2])) = 2" by code_simp
  then have "2 \<le> card (codeAt mfaEnv ` {w_draws sampleWorld..<w_draws sampleWorld + 2})"
    by (simp only: set_map set_upt)
  with backup_codes_generated [of mfaEnv 2 sampleWorld] show ?thesis by blast
qed

theorem backup_code_works_once_witness:
  "\<exists>w1. consumeBackupCode mfaEnv ''alice'' ''abcd-efgh'' challengeWorld = (Inr True, w1) \<and>
     consumeBackupCode mfaEnv ''bob'' '' ABCD-EFGH '' w1 = (Inr False, w1)"
proof -
  have good: "codesGood (w_db challengeWorld)" by code_simp
  have "fst (consumeBackupCode mfaEnv ''alice'' ''abcd-efgh'' challengeWorld) = Inr True" by code_simp
  from run_fst [OF this] obtain w1
    where run: "consumeBackupCode mfaEnv ''alice'' ''abcd-efgh'' challengeWorld = (Inr True, w1)" by blast
  have "normalizeBackupCode '' ABCD-EFGH '' = normalizeBackupCode ''abcd-efgh''" by code_simp
  from backup_code_works_once [OF good run rtranclp.rtrancl_refl this] run show ?thesis by blast
qed


text \<open>Two draws that give different codes.\<close>

lemma two_codes:
  assumes "codeAt E (w_draws w) \<noteq> codeAt E (Suc (w_draws w))"
  shows "generateBackupCodes E 2 w =
    Some (Inr [codeAt E (w_draws w), codeAt E (Suc (w_draws w))], w\<lparr>w_draws := Suc (Suc (w_draws w))\<rparr>)"
proof -
  note step = backupCodeLoop.simps [of E 2] generateBackupCode_run
  show ?thesis
    unfolding generateBackupCodes_def
    by (subst step, simp add: step(2), subst step, simp add: step(2) assms assms [symmetric], subst step, simp)
qed

lemma enrolment_runs: "\<exists>codes t w'. verifySetup mfaEnv ''alice'' ''123456'' enrolling = Some (Inr (codes, t), w')"
proof -
  have check: "fst (checkSetupCode mfaEnv ''alice'' ''123456'' enrolling) = Inr ()" by code_simp
  then have check: "checkSetupCode mfaEnv ''alice'' ''123456'' enrolling = (Inr (), enrolChecked)"
    by (simp add: enrolChecked_def prod_eq_iff)
  have "codeAt mfaEnv (w_draws enrolChecked) \<noteq> codeAt mfaEnv (Suc (w_draws enrolChecked))" by code_simp
  note codes = two_codes [OF this]
  have "\<not> isl (fst enrolStored)" by code_simp
  from run_Inr [OF this] obtain r w2 where stored: "enrolStored = (Inr r, w2)" by blast
  have "\<not> isl (fst (enableMfa mfaEnv ''alice'' (snd enrolStored)))" by code_simp
  from run_Inr [OF this] obtain w3 where "enableMfa mfaEnv ''alice'' (snd enrolStored) = (Inr (), w3)" by auto
  then have "enableMfa mfaEnv ''alice'' w2 = (Inr (), w3)" unfolding stored snd_conv .
  moreover have "fc_mfaBackupCodeCount (e_fed mfaEnv) = 2" by code_simp
  ultimately show ?thesis
    using check codes stored [unfolded enrolStored_def]
    by (cases r) (simp add: verifySetup_def replaceBackupCodes_def bindL_def runL_def thenM_run)
qed

theorem enrolment_gives_working_codes_witness:
  "\<exists>codes t w'. verifySetup mfaEnv ''alice'' ''123456'' enrolling = Some (Inr (codes, t), w') \<and>
     fst (isMfaEnabled ''alice'' w') = Inr True \<and> length codes = 2 \<and> distinct codes"
proof -
  have good: "codesGood (w_db enrolling)" by code_simp
  obtain codes t w' where run: "verifySetup mfaEnv ''alice'' ''123456'' enrolling = Some (Inr (codes, t), w')"
    using enrolment_runs by blast
  have "fc_mfaBackupCodeCount (e_fed mfaEnv) = 2" by code_simp
  with enrolment_gives_working_codes [OF good run] run show ?thesis by auto
qed

end
