(* ===== verification/PlatformWitnesses.thy ===== *)
theory PlatformWitnesses
  imports PlatformLaws SchemaLaws MfaWitnesses InvitationLaws
begin

text \<open>
  Requests on concrete inputs: the logins of Alice, and an organization of hers that Bob, who is
  signed in but no member of it, deletes.
\<close>

definition requestTo :: "(string \<times> string) list \<Rightarrow> HttpRequest" where
  "requestTo params = \<lparr>hr_user = None, hr_params = params, hr_headers = [], hr_method = ''POST'', hr_path = [],
     hr_ip = None, hr_remoteAddress = None\<rparr>"

text \<open>A run that was computed to succeed.\<close>

lemma run_ok: "\<not> isl (fst run) \<Longrightarrow> \<exists>r. run = (Inr r, snd run)"
  by (metis prod.collapse sum.collapse(2))

section \<open>Signing in and refreshing\<close>

definition aliceLogin :: LoginDto where
  "aliceLogin = \<lparr>ld_email = ''alice@example.com'', ld_password = ''pw'', ld_deviceName = None\<rparr>"

theorem platform_refines_services_witness:
  "(session_step sampleEnv)\<^sup>*\<^sup>* sampleWorld (snd (authLogin sampleEnv aliceLogin (requestTo []) sampleWorld)) \<and>
   (verification_step sampleEnv)\<^sup>*\<^sup>* sampleWorld (snd (authLogin sampleEnv aliceLogin (requestTo []) sampleWorld))"
  by (rule platform_refines_services [where isUuid = "\<lambda>_. True"])
    (intro r_into_rtranclp platform_step.public public_request.own local_request.post_login)

definition afterExchange :: world where
  "afterExchange = snd (authRefresh sampleEnv firstToken (requestTo []) afterLogin)"

definition signedInAs :: "string \<Rightarrow> Session" where
  "signedInAs uid = \<lparr>s_id = uid @ ''-session'', s_userId = uid, s_familyId = uid, s_ipAddress = None, s_userAgent = None,
     s_deviceName = None, s_lastActivityAt = 0, s_expiresAt = 5000, s_revokedAt = None, s_createdAt = 0\<rparr>"

definition acmeWorld :: world where
  "acmeWorld = worldOf (emptyDb\<lparr>users := [alice, bob], organizations := [acme],
     memberships := [memberOf ''ma'' ''alice''], sessions := [signedInAs ''alice'', signedInAs ''bob'']\<rparr>)"

definition tokenOfUser :: "string \<Rightarrow> (string \<times> string) option \<Rightarrow> JwtAccessPayload" where
  "tokenOfUser uid org = \<lparr>jp_sub = uid, jp_email = uid @ ''@example.com'', jp_sessionId = uid @ ''-session'', jp_tokenVersion = 0,
     jp_organizationId = map_option fst org, jp_membershipId = map_option snd org, jp_roles = [],
     jp_permissionsVersion = 1, jp_attributesVersion = 1\<rparr>"

definition aliceInAcme :: JwtAccessPayload where
  "aliceInAcme = tokenOfUser ''alice'' (Some (''acme'', ''ma''))"

definition clearance3 :: UpdateMemberDto where
  "clearance3 = \<lparr>um_status = None, um_department = None, um_region = None, um_jobTitle = None, um_clearanceLevel = Some (Some 3)\<rparr>"

theorem tables_stay_well_formed_witness:
  "schemaOk (w_db (snd (authLogin sampleEnv aliceLogin (requestTo []) sampleWorld))) \<and>
   sessions (w_db (snd (authLogin sampleEnv aliceLogin (requestTo []) sampleWorld))) \<noteq> []"
proof -
  have ok: "schemaOk (w_db sampleWorld)"
    and opened: "sessions (w_db (snd (authLogin sampleEnv aliceLogin (requestTo []) sampleWorld))) \<noteq> []" by code_simp+
  have "schemaOk (w_db (snd (authLogin sampleEnv aliceLogin (requestTo []) sampleWorld)))"
    by (rule tables_stay_well_formed [where isUuid = "\<lambda>_. True" and E = sampleEnv, OF _ ok])
      (intro r_into_rtranclp platform_step.public public_request.own local_request.post_login)
  with opened show ?thesis by simp
qed

theorem refresh_route_works_once_witness:
  "authRefresh sampleEnv firstToken (requestTo []) afterExchange = (Inl reuseDetected, afterExchange)"
proof -
  have "\<not> isl (fst (authRefresh sampleEnv firstToken (requestTo []) afterLogin))" by code_simp
  from run_ok [OF this] obtain r
    where "authRefresh sampleEnv firstToken (requestTo []) afterLogin = (Inr r, afterExchange)"
    unfolding afterExchange_def by blast
  from refresh_route_works_once [OF afterLogin_inv this rtranclp.rtrancl_refl]
  show ?thesis .
qed

theorem login_outcomes_witness:
  "\<exists>r w'. login sampleEnv (platformHooks sampleEnv) ''alice@example.com'' ''pw'' noMeta sampleWorld = (Inr (LoggedIn r), w') \<and>
     (\<exists>s. s_userId s = ''alice'' \<and> s_id s = lr_sessionId r \<and> sessions (w_db w') = [s])"
proof -
  let ?run = "login sampleEnv (platformHooks sampleEnv) ''alice@example.com'' ''pw'' noMeta sampleWorld"
  have "case fst ?run of Inr (LoggedIn r) \<Rightarrow> True | _ \<Rightarrow> False" by code_simp
  then obtain r w' where run: "?run = (Inr (LoggedIn r), w')"
    by (cases ?run) (auto split: sum.splits LoginOutcome.splits)
  have "map_option u_id (findFirst (\<lambda>u. u_email u = normalizeEmail ''alice@example.com'') (users (w_db sampleWorld))) = Some ''alice''"
    "sessions (w_db sampleWorld) = []" by code_simp+
  with login_outcomes [OF run] run show ?thesis by auto
qed

theorem mfa_login_proves_factor_witness:
  "\<exists>r w' b. mfaVerify mfaEnv \<lparr>vc_challengeToken = ''tok'', vc_method = BACKUP_CODE, vc_code = ''abcd-efgh''\<rparr> None (requestTo [])
      challengeWorld = (Inr r, w') \<and> b \<in> set (backupCodes (w_db challengeWorld)) \<and> bc_usedAt b = None \<and>
     bc_codeHash b = hashBackupCode mfaEnv (normalizeBackupCode ''abcd-efgh'')"
proof -
  let ?m = "mfaVerify mfaEnv \<lparr>vc_challengeToken = ''tok'', vc_method = BACKUP_CODE, vc_code = ''abcd-efgh''\<rparr> None (requestTo [])"
  have "\<not> isl (fst (?m challengeWorld))" by code_simp
  from run_ok [OF this] obtain r where run: "?m challengeWorld = (Inr r, snd (?m challengeWorld))" by blast
  from mfa_login_proves_factor [OF run] run show ?thesis by fastforce
qed

section \<open>Organizations\<close>

lemma acme_keys: "keysUnique (w_db acmeWorld)" "distinct (map inv_id (invitations (w_db acmeWorld)))"
proof -
  have "distinct (map u_id (users (w_db acmeWorld)))" "distinct (map s_id (sessions (w_db acmeWorld)))"
    "distinct (map m_id (memberships (w_db acmeWorld)))" "distinct (map o_id (organizations (w_db acmeWorld)))" by code_simp+
  then show "keysUnique (w_db acmeWorld)" by (simp add: keysUnique_def)
  show "distinct (map inv_id (invitations (w_db acmeWorld)))" by code_simp
qed

theorem protected_routes_need_current_token_witness:
  "\<exists>w'. protected_request sampleEnv (\<lambda>_. True) (Some aliceInAcme) (requestTo []) acmeWorld None w' \<and>
     tokenCurrent (w_now acmeWorld) (w_db acmeWorld) aliceInAcme"
proof -
  have "\<not> isl (fst (authLogout sampleEnv (Some aliceInAcme) (requestTo []) acmeWorld))" by code_simp
  from run_Inr [OF this] obtain r w'
    where "authLogout sampleEnv (Some aliceInAcme) (requestTo []) acmeWorld = (Inr r, w')" by blast
  from protected_request.post_logout [OF this, where isUuid = "\<lambda>_. True"]
  have request: "protected_request sampleEnv (\<lambda>_. True) (Some aliceInAcme) (requestTo []) acmeWorld None w'"
    by (simp add: failure_def)
  from protected_routes_need_current_token [OF this acme_keys(1)] request show ?thesis by auto
qed

theorem tenant_routes_stay_in_tenant_witness:
  "\<exists>w'. w' = snd (memberUpdate sampleEnv clearance3 (Some aliceInAcme) (requestTo [(''orgId'', ''acme''), (''userId'', ''alice'')]) acmeWorld) \<and>
     map m_clearanceLevel (memberships (w_db w')) = [3] \<and>
     (w_db w')\<lparr>memberships := [], invitations := []\<rparr> = (w_db acmeWorld)\<lparr>memberships := [], invitations := []\<rparr>"
proof -
  let ?req = "requestTo [(''orgId'', ''acme''), (''userId'', ''alice'')]"
  let ?w = "snd (memberUpdate sampleEnv clearance3 (Some aliceInAcme) ?req acmeWorld)"
  have levels: "map m_clearanceLevel (memberships (w_db ?w)) = [3]"
    "map m_clearanceLevel (memberships (w_db acmeWorld)) = [0]" by code_simp+
  then have changed: "?w \<noteq> acmeWorld" by (metis list.inject zero_neq_numeral)
  have path: "pathParam ?req ''orgId'' \<noteq> []" by code_simp
  have request: "tenant_request sampleEnv (Some aliceInAcme) ?req acmeWorld ?w" by (rule tenant_request.update_member)
  from tenant_routes_stay_in_tenant [OF request path acme_keys changed]
  have "(w_db ?w)\<lparr>memberships := [], invitations := []\<rparr> = (w_db acmeWorld)\<lparr>memberships := [], invitations := []\<rparr>"
    by (elim exE conjE)
  with levels(1) show ?thesis by (intro exI [of _ ?w] conjI refl)
qed

text \<open>Bob's token names no organization.\<close>

theorem anyone_deletes_any_organization_witness:
  "\<exists>r w'. organizationRemove sampleEnv (Some (tokenOfUser ''bob'' None)) (requestTo [(''id'', ''acme'')]) acmeWorld = (Inr r, w') \<and>
     as_statusCode r = 204 \<and> list_all (\<lambda>m. m_userId m = ''alice'') (memberships (w_db acmeWorld))"
proof -
  have "\<not> isl (fst (validateToken (tokenOfUser ''bob'' None) acmeWorld))" by code_simp
  from run_ok [OF this] validateToken_silent [of "tokenOfUser ''bob'' None" acmeWorld] obtain user
    where token: "validateToken (tokenOfUser ''bob'' None) acmeWorld = (Inr user, acmeWorld)" by metis
  have org: "findFirst (\<lambda>ob. o_id ob = pathParam (requestTo [(''id'', ''acme'')]) ''id'' \<and> o_deletedAt ob = None)
      (organizations (w_db acmeWorld)) = Some acme" by code_simp
  have "list_all (\<lambda>m. m_userId m = ''alice'') (memberships (w_db acmeWorld))" by code_simp
  with anyone_deletes_any_organization [OF token org, of sampleEnv] show ?thesis by blast
qed

end
