(* ===== verification/LockLaws.thy ===== *)
theory LockLaws
  imports PlatformLaws SsoLaws
begin

text \<open>
  Wrong passwords and the account lock on the whole platform: what a failed login counts, and
  that only an identity provider takes a lock away.
\<close>

section \<open>Wrong passwords\<close>

text \<open>
  C34: a wrong password counts.  At \<open>POST /auth/login\<close>, with the hooks of the MFA and SSO modules
  in place, the wrong password of an open account that SSO enforcement does not block (the user is
  in no organization with SSO-only mode, or is a super admin) is answered with
  \<open>INVALID_CREDENTIALS\<close> and raises the failure count of that account by one; the account becomes
  locked exactly when the count reaches the configured maximum, and every other account stays as
  it is.
\<close>

theorem wrong_password_counts:
  assumes "usersDistinct (w_db w)" "u \<in> set (users (w_db w))" "u_email u = normalizeEmail email"
    and "u_deletedAt u = None" "u_status u = UserActive" "\<not> isLocked (w_now w) u"
    and "ssoOnly (w_db w) (u_id u) \<longrightarrow> superAdmin (w_db w) (u_id u)"
    and "\<not> e_bcryptCompare E pw (u_passwordHash u)"
  shows "\<exists>w'. login E (platformHooks E) email pw meta w = (Inl invalidCredentials, w') \<and>
    users (w_db w') = map (\<lambda>v. if v = u
      then u\<lparr>u_failedLoginAttempts := u_failedLoginAttempts u + 1,
             u_lockUntil := (if ac_maxLoginAttempts (e_auth E) \<le> u_failedLoginAttempts u + 1
               then Some (w_now w + ac_lockDurationMs (e_auth E)) else None),
             u_status := (if ac_maxLoginAttempts (e_auth E) \<le> u_failedLoginAttempts u + 1
               then UserLocked else UserActive)\<rparr>
      else v) (users (w_db w))"
proof -
  obtain sso where sso: "ssoEvaluate u w = (Inr sso, w)" "\<not> so_blocked sso"
    using ssoEvaluate_run [of u w] assms(7) by blast
  then have "checkSsoEnforcement (platformHooks E) u w = (Inr sso, w)"
    by (simp add: checkSsoEnforcement_def platformHooks_def)
  from wrong_password_run [OF assms(1-6) this sso(2) assms(8)] show ?thesis .
qed

theorem wrong_password_counts_witness:
  "\<exists>w'. login sampleEnv (platformHooks sampleEnv) ''Alice@example.com '' ''guess'' noMeta sampleWorld =
      (Inl invalidCredentials, w') \<and>
    u_failedLoginAttempts (hd (users (w_db w'))) = 1"
proof -
  have e: "u_email alice = normalizeEmail ''Alice@example.com ''" by code_simp
  have a: "u_deletedAt alice = None" "u_status alice = UserActive"
    "\<not> isLocked (w_now sampleWorld) alice"
    "ssoOnly (w_db sampleWorld) (u_id alice) \<longrightarrow> superAdmin (w_db sampleWorld) (u_id alice)"
    "\<not> e_bcryptCompare sampleEnv ''guess'' (u_passwordHash alice)"
    by (simp_all add: alice_def isLocked_def sampleEnv_def ssoOnly_def sampleWorld_def worldOf_def emptyDb_def)
  from wrong_password_counts [OF sampleWorld_distinct alice_in e a, of noMeta]
  show ?thesis by (force simp: sampleWorld_def worldOf_def emptyDb_def alice_def)
qed

section \<open>Who leaves a lock alone\<close>

definition lockedRows :: "string \<Rightarrow> string \<Rightarrow> User list \<Rightarrow> bool" where
  "lockedRows uid em rows \<longleftrightarrow> distinct (map u_id rows) \<and> distinct (map u_email rows) \<and>
     (\<exists>u \<in> set rows. u_id u = uid \<and> u_email u = em \<and> u_status u = UserLocked \<and> u_deletedAt u = None)"

lemma lockedAccount_rows: "lockedAccount uid em d \<longleftrightarrow> lockedRows uid em (users d)"
  by (auto simp: lockedAccount_def pinned_def usersDistinct_def lockedRows_def)

definition lockMove :: "string \<Rightarrow> string \<Rightarrow> world \<Rightarrow> world \<Rightarrow> bool" where
  "lockMove uid em w w' \<longleftrightarrow> (lockedAccount uid em (w_db w) \<longrightarrow> lockedAccount uid em (w_db w'))"

lemma keeps_lockMove: "keeps (dbInv (lockedAccount uid em)) m \<Longrightarrow> walks (lockMove uid em) m"
  by (rule walks_step) (auto simp: lockMove_def dbInv_def dest: keepsD)

abbreviation lockRow :: "string \<Rightarrow> User \<Rightarrow> bool" where
  "lockRow em u \<equiv> u_email u = em \<and> u_status u = UserLocked \<and> u_deletedAt u = None"

lemma lock_profileStable: "profileStable (lockRow em)"
  by (simp add: profileStable_def)

lemma sameUsers_lock: "walks sameUsers m \<Longrightarrow> walks (lockMove uid em) m"
  by (rule keeps_lockMove) (simp add: lockedAccount_def sameUsers_keeps)

lemma completeLogin_lock: "walks (lockMove uid em) (completeLogin E u meta)"
proof (rule keeps_lockMove)
  show "keeps (dbInv (lockedAccount uid em)) (completeLogin E u meta)"
    unfolding completeLogin_def lockedAccount_def
    by (intro keeps_bindM keeps_thenM keeps_transaction keeps_case_option keeps_whenM keeps_pinned_update)
      ((rule sameUsers_keeps, intro walks_intros; simp) | simp)+
qed

lemma updateSso_lock: "walks (lockMove uid em) (updateSsoConfiguration E cid ud actor)"
  by (rule sameUsers_lock)
    (unfold updateSsoConfiguration_def validateCertificate_def Let_def, (intro walks_intros; simp))

lemmas account_ops_lock = auth_ops_keep_pinned [OF lock_profileStable, folded lockedAccount_def, THEN keeps_lockMove]

lemma lockedRows_update:
  assumes "\<And>u. u_id (f u) = u_id u" "\<And>u. u_email (f u) = u_email u" "\<And>u. u_status (f u) = u_status u"
    "\<And>u. u_deletedAt (f u) = u_deletedAt u" and "lockedRows uid em rows"
  shows "lockedRows uid em (updateRows p f rows)"
proof -
  obtain u where "u \<in> set rows" "u_id u = uid" "lockRow em u" using assms(5) by (auto simp: lockedRows_def)
  then have "\<exists>v \<in> set (updateRows p f rows). u_id v = uid \<and> lockRow em v"
    unfolding set_updateRows by (intro bexI [of _ "if p u then f u else u"]) (simp_all add: assms(1-4))
  with assms show ?thesis by (simp add: lockedRows_def map_updateRows_key)
qed

lemma lock_tables: "governed (lockMove uid em) usersT (lockedRows uid em)"
  by (simp add: governed_def lockMove_def lockedAccount_rows)

interpretation lockView: observed_steps "lockMove uid em" users for uid em :: string
  by unfold_locales (simp add: lockMove_def lockedAccount_rows)

interpretation lockRequests: service_steps "lockMove uid em" users E "lockedRows uid em" for uid em :: string and E :: env
proof (unfold_locales, goal_cases)
  case (1 f rows p)
  then show ?case by (rule lockedRows_update)
next
  case (2 rows row)
  then show ?case by (auto simp: lockedRows_def)
qed (simp_all add: lock_tables lockView.governed_unobserved account_ops_lock completeLogin_lock updateSso_lock
    sameUsers_lock users_untouched)

lemma platformHooks_walk: "hooks_walk sameUsers (platformHooks E)"
  unfolding hooks_walk_def checkSsoEnforcement_def checkMfa_def platformHooks_def
  by (simp, unfold ssoEvaluate_def isSsoOnlyForUser_def isSuperAdmin_def mfaHook_def isMfaEnabled_def
      issueChallenge_def issueMfaChallenge_def Let_def, intro conjI allI walks_intros; simp)

lemma login_lock: "walks (lockMove uid em) (login E (platformHooks E) email pw meta)"
  by (rule walks_step)
    (auto simp: lockMove_def intro: auth_step_keeps_lock [OF auth_step.login platformHooks_walk])

lemma authLogin_lock: "walks (lockMove uid em) (authLogin E ld req)"
  unfolding authLogin_def Let_def by (intro walks_intros lockRequests.intercept_steps login_lock)

text \<open>
  One request to any route but the one that identity providers post assertions to, or anything
  that leaves the tables alone.
\<close>

inductive local_step :: "env \<Rightarrow> (string \<Rightarrow> bool) \<Rightarrow> world \<Rightarrow> world \<Rightarrow> bool" for E isUuid where
  own: "local_request E w w' \<Longrightarrow> local_step E isUuid w w'"
| protected: "protected_request E isUuid bearer req w e w' \<Longrightarrow> local_step E isUuid w w'"
| elsewhere: "w_db w' = w_db w \<Longrightarrow> local_step E isUuid w w'"

lemma local_step_lock: "local_step E isUuid w w' \<Longrightarrow> lockedAccount uid em (w_db w) \<Longrightarrow> lockedAccount uid em (w_db w')"
proof (induction rule: local_step.induct)
  case (own w w')
  show ?case
    by (rule steps_keep [OF lockRequests.local_steps [where uid = uid and em = em, OF authLogin_lock own(1)], where I = "\<lambda>w. lockedAccount uid em (w_db w)"])
      (use own(2) in \<open>simp_all add: lockMove_def\<close>)
next
  case (protected bearer req w e w')
  show ?case
    by (rule steps_keep [OF lockRequests.protected_steps [where uid = uid and em = em, OF protected(1)], where I = "\<lambda>w. lockedAccount uid em (w_db w)"])
      (use protected(2) in \<open>simp_all add: lockMove_def\<close>)
qed simp

text \<open>
  C35: the lock does not end by itself.  The message says the account is temporarily locked, and a
  time until which it is locked is stored; but the lock also sets the status of the account, and
  no request to any route of the platform, password resets and OAuth logins included, takes it
  back, except an assertion posted by an identity provider: after any sequence of other requests,
  at any later time, a login with the right password is still refused as locked.
\<close>

theorem locked_account_stays_locked:
  assumes "lockedAccount uid (normalizeEmail email) (w_db w)" and "(local_step E isUuid)\<^sup>*\<^sup>* w w2"
  shows "login E (platformHooks E) email pw meta w2 = (Inl accountLocked, w2)"
proof -
  have "lockedAccount uid (normalizeEmail email) (w_db w2)"
    using steps_keep [OF assms(2), of "\<lambda>w. lockedAccount uid (normalizeEmail email) (w_db w)"]
      local_step_lock assms(1) by blast
  then show ?thesis by (rule locked_login_refused)
qed

definition lockedOut :: world where
  "lockedOut = worldOf (emptyDb\<lparr>users :=
     [alice\<lparr>u_status := UserLocked, u_lockUntil := Some 901000, u_failedLoginAttempts := 5\<rparr>, bob]\<rparr>)"

definition yearLater :: world where
  "yearLater = lockedOut\<lparr>w_now := 31536000000\<rparr>"

theorem locked_account_stays_locked_witness:
  "login sampleEnv (platformHooks sampleEnv) ''alice@example.com'' ''pw'' noMeta yearLater =
     (Inl accountLocked, yearLater)"
proof (rule locked_account_stays_locked)
  have "normalizeEmail ''alice@example.com'' = ''alice@example.com''" by code_simp
  then show "lockedAccount ''alice'' (normalizeEmail ''alice@example.com'') (w_db lockedOut)"
    by (simp add: lockedAccount_def pinned_def usersDistinct_def lockedOut_def worldOf_def emptyDb_def
        alice_def bob_def)
  have "local_step sampleEnv (\<lambda>_. True) lockedOut yearLater"
    by (rule local_step.elsewhere) (simp add: yearLater_def)
  then show "(local_step sampleEnv (\<lambda>_. True))\<^sup>*\<^sup>* lockedOut yearLater" by simp
qed

text \<open>The exception: a SAML login makes the locked user active again.\<close>

theorem saml_login_ends_lock:
  assumes "handleAssertion E slug response relay meta w = (Inr r, w')"
    and "lockedAccount (su_id (sl_user r)) em (w_db w)"
  shows "\<exists>u \<in> set (users (w_db w')). u_id u = su_id (sl_user r) \<and> u_email u = em \<and> u_status u = UserActive"
proof -
  have d: "distinct (map u_id (users (w_db w)))" "distinct (map u_email (users (w_db w)))"
    using assms(2) by (simp_all add: lockedAccount_rows lockedRows_def)
  from assms(1) show ?thesis
  proof (rule handleAssertion_Inr, goal_cases)
    case (1 config oid idp w1 profile w2 attrs u w3)
    have db: "w_db w2 = w_db w" using admitAssertion_Inr [OF 1(2)] guardReplay_Inr [OF 1(4)] by simp
    note prov = provision_Inr [OF 1(7), unfolded db, OF d(1)]
    have final: "users (w_db w') = users (w_db w3)" "su_id (sl_user r) = u_id u"
      using openSsoSession_Inr [OF 1(8)] by (auto simp: stripSecrets_def)
    from assms(2) obtain old where old: "old \<in> set (users (w_db w))" "u_id old = u_id u" "lockRow em old"
      by (auto simp: lockedAccount_rows lockedRows_def final)
    have "u = old\<lparr>u_status := UserActive\<rparr>"
    proof (cases "findFirst (\<lambda>x. u_email x = normalizeEmail (ma_email attrs)) (users (w_db w))")
      case None
      with prov old show ?thesis by auto
    next
      case (Some x)
      then have "x \<in> set (users (w_db w))" by (auto dest: findFirst_SomeD)
      moreover have u: "u = (if u_deletedAt x = None then x\<lparr>u_status := UserActive\<rparr> else x)"
        using prov Some by simp
      then have "u_id x = u_id old" unfolding old(2) by simp
      ultimately have "x = old" by (intro distinct_map_unique [OF d(1) _ old(1)])
      moreover have "u_deletedAt old = None" using old(3) by simp
      ultimately show ?thesis using u by simp
    qed
    then have "u_email u = em" "u_status u = UserActive" using old(3) by simp_all
    moreover have "u \<in> set (users (w_db w'))" using prov final(1) by simp
    ultimately show ?case using final(2) by (intro bexI [of _ u]) simp_all
  qed
qed

end
