(* ===== verification/Mail.thy ===== *)
theory Mail
  imports Fixtures
begin

text \<open>
  Mail: the templates of \<open>infrastructure/mail/templates\<close>, the dispatch of
  \<open>infrastructure/mail/mail.service.ts\<close> and the worker of \<open>infrastructure/mail/mail.processor.ts\<close>.
  The jobs are those the services put into the queue (\<open>mail_job\<close>).  Parameters: \<open>utc\<close> is
  \<open>new Date(s).toUTCString()\<close>, \<open>transport\<close> the transporter of \<open>nodemailer\<close>.
\<close>

section \<open>Escaping\<close>

definition newline :: string where
  "newline = [CHR 0x0A]"

definition entity :: "char \<Rightarrow> string" where
  "entity c =
     (if c = CHR ''&'' then ''&amp;''
      else if c = CHR ''<'' then ''&lt;''
      else if c = CHR ''>'' then ''&gt;''
      else if c = CHR 0x22 then ''&quot;''
      else if c = CHR 0x27 then ''&#39;''
      else [c])"

definition escapeHtml :: "string option \<Rightarrow> string" where
  "escapeHtml v = (case v of None \<Rightarrow> [] | Some s \<Rightarrow> concat (map entity s))"

definition escapeAttr :: "string option \<Rightarrow> string" where
  "escapeAttr v = escapeHtml v"

section \<open>Templates\<close>

record RenderedMail =
  rm_subject :: string
  rm_html :: string
  rm_text :: string

definition htmlLayout :: "string \<Rightarrow> string" where
  "htmlLayout bodyHtml = js_join newline
     [''<!doctype html>'',
      ''<html lang=\"en\">'',
      ''<head>'',
      ''<meta charset=\"utf-8\" />'',
      ''<meta name=\"viewport\" content=\"width=device-width,initial-scale=1\" />'',
      ''</head>'',
      ''<body style=\"margin:0;padding:24px;background:#f6f7f9;font-family:-apple-system,Segoe UI,Roboto,sans-serif;color:#101828;\">'',
      ''<table role=\"presentation\" width=\"100%\" cellpadding=\"0\" cellspacing=\"0\" style=\"max-width:560px;margin:0 auto;background:#ffffff;border-radius:8px;padding:32px;\">'',
      ''<tr><td>'',
      bodyHtml,
      ''</td></tr>'',
      ''</table>'',
      ''</body>'',
      ''</html>'']"

definition greeting :: "string option \<Rightarrow> string" where
  "greeting firstName = (if truthy_str firstName then ''Hi '' @ escapeHtml firstName @ '','' else ''Hello,'')"

definition plainGreeting :: "string option \<Rightarrow> string" where
  "plainGreeting firstName = (if truthy_str firstName then ''Hi '' @ orDefault firstName [] @ '','' else ''Hello,'')"

text \<open>The two paragraphs with a link the templates share: a button and the address as text.\<close>

definition linkButton :: "string \<Rightarrow> string \<Rightarrow> string" where
  "linkButton url label = ''<p style=\"margin:24px 0;\"><a href=\"'' @ escapeAttr (Some url) @
     ''\" style=\"background:#101828;color:#ffffff;text-decoration:none;padding:12px 20px;border-radius:6px;display:inline-block;\">'' @
     label @ ''</a></p>''"

definition linkText :: "string \<Rightarrow> string list" where
  "linkText url =
     [''<p style=\"margin:0 0 8px;font-size:13px;color:#475467;\">Or paste this link into your browser:</p>'',
      ''<p style=\"margin:0 0 16px;font-size:13px;word-break:break-all;\"><a href=\"'' @ escapeAttr (Some url) @ ''\">'' @
        escapeHtml (Some url) @ ''</a></p>'']"

definition renderVerifyEmail :: "(string \<Rightarrow> string) \<Rightarrow> string option \<Rightarrow> string \<Rightarrow> string \<Rightarrow> RenderedMail" where
  "renderVerifyEmail utc firstName verifyUrl expiresAt =
     \<lparr>rm_subject = ''Verify your email'',
      rm_html = htmlLayout (js_join newline
        ([''<h2 style=\"margin:0 0 16px;font-size:20px;\">Verify your email</h2>'',
          ''<p style=\"margin:0 0 12px;\">'' @ greeting firstName @ ''</p>'',
          ''<p style=\"margin:0 0 12px;\">Confirm your email address to finish setting up your account.</p>'',
          linkButton verifyUrl ''Verify email''] @ linkText verifyUrl @
         [''<p style=\"margin:0;font-size:13px;color:#475467;\">This link expires at '' @
            escapeHtml (Some (utc expiresAt)) @ ''.</p>''])),
      rm_text = js_join newline
        [plainGreeting firstName, [], ''Confirm your email address to finish setting up your account.'', [],
         verifyUrl, [], ''This link expires at '' @ utc expiresAt @ ''.'']\<rparr>"

definition renderResetPassword :: "(string \<Rightarrow> string) \<Rightarrow> string option \<Rightarrow> string \<Rightarrow> string \<Rightarrow> RenderedMail" where
  "renderResetPassword utc firstName resetUrl expiresAt =
     \<lparr>rm_subject = ''Reset your password'',
      rm_html = htmlLayout (js_join newline
        ([''<h2 style=\"margin:0 0 16px;font-size:20px;\">Reset your password</h2>'',
          ''<p style=\"margin:0 0 12px;\">'' @ greeting firstName @ ''</p>'',
          ''<p style=\"margin:0 0 12px;\">We received a request to reset your password. If you didn't make this request, you can ignore this email.</p>'',
          linkButton resetUrl ''Reset password''] @ linkText resetUrl @
         [''<p style=\"margin:0;font-size:13px;color:#475467;\">This link expires at '' @
            escapeHtml (Some (utc expiresAt)) @ ''.</p>''])),
      rm_text = js_join newline
        [plainGreeting firstName, [],
         ''We received a request to reset your password. If you didn't make this request, you can ignore this email.'',
         [], resetUrl, [], ''This link expires at '' @ utc expiresAt @ ''.'']\<rparr>"

definition renderPasswordChanged ::
  "(string \<Rightarrow> string) \<Rightarrow> string option \<Rightarrow> string option \<Rightarrow> string option \<Rightarrow> string \<Rightarrow> RenderedMail" where
  "renderPasswordChanged utc firstName ipAddress userAgent changedAt =
     (let changedAtText = utc changedAt; ip = orDefault ipAddress ''unknown IP'';
          ua = orDefault userAgent ''unknown device'' in
     \<lparr>rm_subject = ''Your password was changed'',
      rm_html = htmlLayout (js_join newline
        [''<h2 style=\"margin:0 0 16px;font-size:20px;\">Your password was changed</h2>'',
         ''<p style=\"margin:0 0 12px;\">'' @ greeting firstName @ ''</p>'',
         ''<p style=\"margin:0 0 12px;\">Your password was changed on '' @ escapeHtml (Some changedAtText) @
           '' from '' @ escapeHtml (Some ip) @ '' ('' @ escapeHtml (Some ua) @ '').</p>'',
         ''<p style=\"margin:0 0 12px;\">If you did not make this change, reset your password and revoke all sessions immediately.</p>'']),
      rm_text = js_join newline
        [plainGreeting firstName, [],
         ''Your password was changed on '' @ changedAtText @ '' from '' @ ip @ '' ('' @ ua @ '').'', [],
         ''If you did not make this change, reset your password and revoke all sessions immediately.'']\<rparr>)"

definition renderOrganizationInvitation :: "(string \<Rightarrow> string) \<Rightarrow> string \<Rightarrow> string \<Rightarrow> string \<Rightarrow> RenderedMail" where
  "renderOrganizationInvitation utc organizationName acceptUrl expiresAt =
     (let orgName = escapeHtml (Some organizationName) in
     \<lparr>rm_subject = ''Invitation to join '' @ organizationName,
      rm_html = htmlLayout (js_join newline
        ([''<h2 style=\"margin:0 0 16px;font-size:20px;\">You're invited to '' @ orgName @ ''</h2>'',
          ''<p style=\"margin:0 0 12px;\">You've been invited to join <strong>'' @ orgName @ ''</strong>.</p>'',
          linkButton acceptUrl ''Accept invitation''] @ linkText acceptUrl @
         [''<p style=\"margin:0;font-size:13px;color:#475467;\">This invitation expires at '' @
            escapeHtml (Some (utc expiresAt)) @ ''.</p>''])),
      rm_text = js_join newline
        [''You've been invited to join '' @ organizationName @ ''.'', [], acceptUrl, [],
         ''This invitation expires at '' @ utc expiresAt @ ''.'']\<rparr>)"

section \<open>MailService\<close>

record MailConfig =
  ml_host :: string
  ml_port :: jsnum
  ml_secure :: bool
  ml_user :: "string option"
  ml_password :: "string option"
  ml_from :: string
  ml_fromName :: string

text \<open>What is handed to \<open>createTransport\<close> and to \<open>transporter.sendMail\<close>.\<close>

record TransportOptions =
  to_host :: string
  to_port :: jsnum
  to_secure :: bool
  to_auth :: "(string \<times> string) option"

definition transportOptions :: "MailConfig \<Rightarrow> TransportOptions" where
  "transportOptions c = \<lparr>to_host = ml_host c, to_port = ml_port c, to_secure = ml_secure c,
     to_auth = (if truthy_str (ml_user c) \<and> truthy_str (ml_password c)
                then Some (orDefault (ml_user c) [], orDefault (ml_password c) []) else None)\<rparr>"

record OutgoingMail =
  om_from :: string
  om_to :: string
  om_subject :: string
  om_text :: string
  om_html :: string

record SentInfo =
  si_messageId :: string
  si_accepted :: "(string list) option"
  si_rejected :: "(string list) option"

record SendMailResult =
  sr_messageId :: string
  sr_accepted :: "string list"
  sr_rejected :: "string list"

text \<open>\<open>Inl\<close> is the message of the error the transport throws.\<close>

type_synonym transport = "OutgoingMail \<Rightarrow> string + SentInfo"

definition outgoing :: "MailConfig \<Rightarrow> string \<Rightarrow> RenderedMail \<Rightarrow> OutgoingMail" where
  "outgoing config recipient mail =
     \<lparr>om_from = [CHR 0x22] @ ml_fromName config @ [CHR 0x22] @ '' <'' @ ml_from config @ ''>'',
      om_to = recipient, om_subject = rm_subject mail, om_text = rm_text mail, om_html = rm_html mail\<rparr>"

definition sendMail :: "transport \<Rightarrow> MailConfig \<Rightarrow> string \<Rightarrow> RenderedMail \<Rightarrow> string + SendMailResult" where
  "sendMail transport config recipient mail =
     (case transport (outgoing config recipient mail) of
        Inl e \<Rightarrow> Inl e
      | Inr info \<Rightarrow> Inr \<lparr>sr_messageId = si_messageId info,
          sr_accepted = orDefault (si_accepted info) [], sr_rejected = orDefault (si_rejected info) []\<rparr>)"

fun recipientOf :: "mail_job \<Rightarrow> string" where
  "recipientOf (VerifyEmailJob recipient _ _ _) = recipient"
| "recipientOf (ResetPasswordJob recipient _ _ _) = recipient"
| "recipientOf (PasswordChangedJob recipient _ _ _ _) = recipient"
| "recipientOf (OrgInvitationJob recipient _ _ _) = recipient"

fun renderMail :: "(string \<Rightarrow> string) \<Rightarrow> mail_job \<Rightarrow> RenderedMail" where
  "renderMail utc (VerifyEmailJob _ firstName url expiresAt) = renderVerifyEmail utc firstName url expiresAt"
| "renderMail utc (ResetPasswordJob _ firstName url expiresAt) = renderResetPassword utc firstName url expiresAt"
| "renderMail utc (PasswordChangedJob _ firstName ip ua changedAt) =
     renderPasswordChanged utc firstName ip ua changedAt"
| "renderMail utc (OrgInvitationJob _ organizationName url expiresAt) =
     renderOrganizationInvitation utc organizationName url expiresAt"

definition dispatch ::
  "(string \<Rightarrow> string) \<Rightarrow> transport \<Rightarrow> MailConfig \<Rightarrow> mail_job \<Rightarrow> string + SendMailResult" where
  "dispatch utc transport config data = sendMail transport config (recipientOf data) (renderMail utc data)"

text \<open>The worker logs an error and throws it again, so that the queue tries the job later.\<close>

definition processMail :: "(string \<Rightarrow> string) \<Rightarrow> transport \<Rightarrow> MailConfig \<Rightarrow> mail_job \<Rightarrow> string + unit" where
  "processMail utc transport config data =
     (case dispatch utc transport config data of Inl e \<Rightarrow> Inl e | Inr _ \<Rightarrow> Inr ())"

end
