(* ===== verification/MailLaws.thy ===== *)
theory MailLaws
  imports Mail
begin

text \<open>
  What a mail may contain: the data of a job reaches the reader as text and inside quoted
  attributes only, whatever characters it is made of.
\<close>

section \<open>The markup of a page\<close>

text \<open>
  How a reader splits HTML: text, tags, and double-quoted values inside tags.  The markup is what is
  left without the text and the values; a place where data goes leaves no mark.
\<close>

datatype html_mode = InText | InTag | InValue

fun scanMarkup :: "html_mode \<Rightarrow> string \<Rightarrow> string \<times> html_mode" where
  "scanMarkup m [] = ([], m)"
| "scanMarkup InText (c # cs) =
     (if c = CHR ''<'' then map_prod (Cons c) id (scanMarkup InTag cs) else scanMarkup InText cs)"
| "scanMarkup InTag (c # cs) = map_prod (Cons c) id
     (scanMarkup (if c = CHR ''>'' then InText else if c = CHR 0x22 then InValue else InTag) cs)"
| "scanMarkup InValue (c # cs) =
     (if c = CHR 0x22 then map_prod (Cons c) id (scanMarkup InTag cs) else scanMarkup InValue cs)"

definition markup :: "string \<Rightarrow> string" where
  "markup page = fst (scanMarkup InText page)"

lemma scanMarkup_append:
  "scanMarkup m (xs @ ys) = map_prod ((@) (fst (scanMarkup m xs))) id (scanMarkup (snd (scanMarkup m xs)) ys)"
  by (induction m xs rule: scanMarkup.induct) (simp_all add: prod.map_comp comp_def)

lemma scanMarkup_plain:
  "list_all (\<lambda>c. c \<noteq> CHR ''<'' \<and> c \<noteq> CHR 0x22) xs \<Longrightarrow> m \<noteq> InTag \<Longrightarrow> scanMarkup m xs = ([], m)"
  by (induction m xs rule: scanMarkup.induct) auto

lemma entity_plain: "list_all (\<lambda>c. c \<noteq> CHR ''<'' \<and> c \<noteq> CHR 0x22) (entity c)"
  by (simp add: entity_def)

lemma escapeHtml_plain: "list_all (\<lambda>c. c \<noteq> CHR ''<'' \<and> c \<noteq> CHR 0x22) (escapeHtml v)"
  using entity_plain by (auto simp: escapeHtml_def list_all_iff split: option.split)

lemma scan_escapeHtml [simp]: "m \<noteq> InTag \<Longrightarrow> scanMarkup m (escapeHtml v) = ([], m)"
  by (rule scanMarkup_plain [OF escapeHtml_plain])

lemma scan_greeting [simp]: "scanMarkup InText (greeting firstName) = ([], InText)"
  by (simp add: greeting_def scanMarkup_append)

section \<open>Decoding\<close>

text \<open>How a reader decodes the entities of a text.\<close>

definition ENTITIES :: "(string \<times> char) list" where
  "ENTITIES = [(''&amp;'', CHR ''&''), (''&lt;'', CHR ''<''), (''&gt;'', CHR ''>''), (''&quot;'', CHR 0x22),
     (''&#39;'', CHR 0x27)]"

function decodeEntities :: "string \<Rightarrow> string" where
  "decodeEntities [] = []"
| "decodeEntities (c # cs) = (case find (\<lambda>(e, x). startsWith (c # cs) e) ENTITIES of
     Some (e, x) \<Rightarrow> x # decodeEntities (drop (length e - 1) cs)
   | None \<Rightarrow> c # decodeEntities cs)"
  by pat_completeness auto

termination
  by (relation "measure length") auto

lemma decode_entity: "decodeEntities (entity c @ rest) = c # decodeEntities rest"
  by (auto simp: entity_def ENTITIES_def startsWith_def)

lemma decode_escapeHtml: "decodeEntities (escapeHtml (Some s) @ rest) = s @ decodeEntities rest"
  by (induction s) (simp_all add: escapeHtml_def decode_entity)

section \<open>Pieces of a page\<close>

definition balanced :: "string \<Rightarrow> bool" where
  "balanced s \<longleftrightarrow> snd (scanMarkup InText s) = InText"

lemma markup_append: "balanced a \<Longrightarrow> markup (a @ b) = markup a @ markup b"
  by (simp add: balanced_def markup_def scanMarkup_append)

lemma balanced_append: "balanced a \<Longrightarrow> balanced (a @ b) = balanced b"
  by (simp add: balanced_def scanMarkup_append)

lemma data_piece [simp]:
  "balanced (escapeHtml v)" "markup (escapeHtml v) = []" "balanced (greeting v)" "markup (greeting v) = []"
  "balanced newline" "markup newline = []" "balanced []" "markup [] = []"
  by (simp_all add: balanced_def markup_def newline_def)

lemma markup_join:
  "list_all balanced xs \<Longrightarrow> balanced (js_join newline xs) \<and> markup (js_join newline xs) = concat (map markup xs)"
  by (induction newline xs rule: js_join.induct) (simp_all add: markup_append balanced_append)

text \<open>An element with a quoted address in it.\<close>

definition buttonMarkup :: "string \<Rightarrow> string" where
  "buttonMarkup label = markup (linkButton [] label)"

definition linkTextMarkup :: "string list" where
  "linkTextMarkup = map markup (linkText [])"

lemma link_piece [simp]:
  assumes "balanced label"
  shows "balanced (linkButton url label)" and "markup (linkButton url label) = buttonMarkup label"
  using assms
  by (simp_all add: balanced_def markup_def buttonMarkup_def linkButton_def escapeAttr_def scanMarkup_append)

lemma link_text_pieces [simp]:
  "list_all balanced (linkText url)" "map markup (linkText url) = linkTextMarkup"
  by (simp_all add: balanced_def markup_def linkTextMarkup_def linkText_def escapeAttr_def scanMarkup_append)

lemma layout_join:
  "\<exists>top foot. list_all balanced top \<and> list_all balanced foot \<and>
     (\<forall>body. htmlLayout body = js_join newline (top @ body # foot))"
proof (intro exI conjI allI)
  show "htmlLayout body = js_join newline ([''<!doctype html>'', ''<html lang=\"en\">'', ''<head>'', ''<meta charset=\"utf-8\" />'',
    ''<meta name=\"viewport\" content=\"width=device-width,initial-scale=1\" />'', ''</head>'',
    ''<body style=\"margin:0;padding:24px;background:#f6f7f9;font-family:-apple-system,Segoe UI,Roboto,sans-serif;color:#101828;\">'',
    ''<table role=\"presentation\" width=\"100%\" cellpadding=\"0\" cellspacing=\"0\" style=\"max-width:560px;margin:0 auto;background:#ffffff;border-radius:8px;padding:32px;\">'',
    ''<tr><td>''] @ body # [''</td></tr>'', ''</table>'', ''</body>'', ''</html>''])" for body
    by (simp only: htmlLayout_def append.simps)
qed (simp_all add: balanced_def)

lemma layout_pieces: "\<exists>before after. \<forall>body. balanced body \<longrightarrow> markup (htmlLayout body) = before @ markup body @ after"
proof -
  obtain top foot where "list_all balanced top" "list_all balanced foot"
    and pieces: "\<And>body. htmlLayout body = js_join newline (top @ body # foot)" using layout_join by blast
  then have "markup (htmlLayout body) = concat (map markup top) @ markup body @ concat (map markup foot)"
    if "balanced body" for body
    using that markup_join [of "top @ body # foot"] by simp
  then show ?thesis by blast
qed

lemma layout_cong: "balanced b \<Longrightarrow> balanced b' \<Longrightarrow> markup b = markup b' \<Longrightarrow> markup (htmlLayout b) = markup (htmlLayout b')"
  using layout_pieces by metis

lemma literal_pieces [simp]:
  "balanced ''<h2 style=\"margin:0 0 16px;font-size:20px;\">''" "balanced ''</h2>''"
  "balanced ''<p style=\"margin:0 0 12px;\">''" "balanced ''</p>''" "balanced ''.</p>''" "balanced '').</p>''"
  "balanced '' from ''" "balanced '' (''" "balanced ''</strong>.</p>''"
  "balanced ''Verify email''" "balanced ''Reset password''" "balanced ''Accept invitation''"
  "balanced ''<h2 style=\"margin:0 0 16px;font-size:20px;\">Verify your email</h2>''"
  "balanced ''<p style=\"margin:0 0 12px;\">Confirm your email address to finish setting up your account.</p>''"
  "balanced ''<p style=\"margin:0;font-size:13px;color:#475467;\">This link expires at ''"
  "balanced ''<h2 style=\"margin:0 0 16px;font-size:20px;\">Reset your password</h2>''"
  "balanced ''<p style=\"margin:0 0 12px;\">We received a request to reset your password. If you didn't make this request, you can ignore this email.</p>''"
  "balanced ''<h2 style=\"margin:0 0 16px;font-size:20px;\">Your password was changed</h2>''"
  "balanced ''<p style=\"margin:0 0 12px;\">Your password was changed on ''"
  "balanced ''<p style=\"margin:0 0 12px;\">If you did not make this change, reset your password and revoke all sessions immediately.</p>''"
  "balanced ''<h2 style=\"margin:0 0 16px;font-size:20px;\">You're invited to ''"
  "balanced ''<p style=\"margin:0 0 12px;\">You've been invited to join <strong>''"
  "balanced ''<p style=\"margin:0;font-size:13px;color:#475467;\">This invitation expires at ''"
  by (simp_all add: balanced_def)

lemma markup_body:
  "list_all balanced xs \<Longrightarrow> list_all balanced ys \<Longrightarrow> map markup xs = map markup ys \<Longrightarrow>
   markup (htmlLayout (js_join newline xs)) = markup (htmlLayout (js_join newline ys))"
  using markup_join [of xs] markup_join [of ys] by (intro layout_cong) simp_all

lemma template_markup:
  "markup (rm_html (renderVerifyEmail utc firstName url expiresAt)) =
     markup (rm_html (renderVerifyEmail utc' firstName' url' expiresAt'))"
  "markup (rm_html (renderResetPassword utc firstName url expiresAt)) =
     markup (rm_html (renderResetPassword utc' firstName' url' expiresAt'))"
  "markup (rm_html (renderPasswordChanged utc firstName ip ua changedAt)) =
     markup (rm_html (renderPasswordChanged utc' firstName' ip' ua' changedAt'))"
  "markup (rm_html (renderOrganizationInvitation utc organizationName url expiresAt)) =
     markup (rm_html (renderOrganizationInvitation utc' organizationName' url' expiresAt'))"
  unfolding renderVerifyEmail_def renderResetPassword_def renderPasswordChanged_def
    renderOrganizationInvitation_def RenderedMail.simps Let_def
  by (rule markup_body; simp add: markup_append balanced_append del: append.simps)+

fun sameTemplate :: "mail_job \<Rightarrow> mail_job \<Rightarrow> bool" where
  "sameTemplate (VerifyEmailJob _ _ _ _) (VerifyEmailJob _ _ _ _) = True"
| "sameTemplate (ResetPasswordJob _ _ _ _) (ResetPasswordJob _ _ _ _) = True"
| "sameTemplate (PasswordChangedJob _ _ _ _ _) (PasswordChangedJob _ _ _ _ _) = True"
| "sameTemplate (OrgInvitationJob _ _ _ _) (OrgInvitationJob _ _ _ _) = True"
| "sameTemplate _ _ = False"

text \<open>
  C30: nobody writes markup into a mail: the page a job is rendered to has the same tags and
  attributes, in the same order, as that of any other job of its kind; names of people and
  organizations, the user agent of a client and addresses come out as text and inside quoted
  values only, whatever characters they are made of.
\<close>

theorem mail_data_is_text:
  assumes "sameTemplate j j'"
  shows "markup (om_html (outgoing config (recipientOf j) (renderMail utc j))) =
     markup (om_html (outgoing config' (recipientOf j') (renderMail utc' j')))"
  using assms template_markup by (cases j; cases j') (simp_all add: outgoing_def)

definition sampleMail :: MailConfig where
  "sampleMail = \<lparr>ml_host = ''localhost'', ml_port = Fin 587, ml_secure = False, ml_user = None, ml_password = None,
     ml_from = ''no-reply@example.com'', ml_fromName = ''Enterprise Auth Platform''\<rparr>"

definition scriptJob :: mail_job where
  "scriptJob = OrgInvitationJob ''bob@example.com'' ''<script>alert(1)</script>'' ''http://localhost/accept?token=1'' ''2030''"

lemma mail_data_is_text_witness:
  "markup (om_html (outgoing sampleMail (recipientOf scriptJob) (renderMail id scriptJob))) =
   markup (om_html (outgoing sampleMail ''bob@example.com'' (renderMail id
       (OrgInvitationJob ''bob@example.com'' ''Acme'' ''http://localhost/accept?token=1'' ''2030''))))"
  using mail_data_is_text [of scriptJob
      "OrgInvitationJob ''bob@example.com'' ''Acme'' ''http://localhost/accept?token=1'' ''2030''"]
  by (simp add: scriptJob_def)

section \<open>The link of a mail\<close>

fun linkOf :: "mail_job \<Rightarrow> string option" where
  "linkOf (VerifyEmailJob _ _ url _) = Some url"
| "linkOf (ResetPasswordJob _ _ url _) = Some url"
| "linkOf (PasswordChangedJob _ _ _ _ _) = None"
| "linkOf (OrgInvitationJob _ _ url _) = Some url"

lemma js_join_Cons: "ps \<noteq> [] \<Longrightarrow> js_join sep (p # ps) = p @ sep @ js_join sep ps"
  by (cases ps) simp_all

lemma join_at:
  "\<exists>before after. (list_all balanced xs \<longrightarrow> balanced before) \<and> (\<forall>z. js_join newline (xs @ z # ys) = before @ z @ after)"
proof (induction xs)
  case Nil
  show ?case by (cases ys) (auto intro: exI [of _ "[]"])
next
  case (Cons x xs)
  then obtain before after where "list_all balanced xs \<longrightarrow> balanced before"
    and "\<And>z. js_join newline (xs @ z # ys) = before @ z @ after" by blast
  then show ?case
    by (intro exI [of _ "x @ newline @ before"] exI [of _ after]) (auto simp: balanced_append js_join_Cons)
qed

text \<open>
  A link of a page: an \<open>a\<close> element that begins in the text of the page (not inside a tag or a quoted
  value), whose \<open>href\<close> is the escaped address from the opening quote to the next one, with other
  attributes and a label after it.
\<close>

definition linkTo :: "string \<Rightarrow> string \<Rightarrow> string \<Rightarrow> bool" where
  "linkTo url label page \<longleftrightarrow> (\<exists>before attrs after.
     page = before @ ''<a href=\"'' @ escapeAttr (Some url) @ CHR 0x22 # attrs @ CHR ''>'' # label @ ''</a>'' @ after \<and>
     snd (scanMarkup InText before) = InText \<and>
     CHR ''<'' \<notin> set attrs \<and> CHR ''>'' \<notin> set attrs \<and> snd (scanMarkup InTag attrs) = InTag)"

lemma link_in_button: "linkTo url label (linkButton url label)"
proof -
  let ?open = "''<p style=\"margin:24px 0;\">''"
    and ?attrs = "'' style=\"background:#101828;color:#ffffff;text-decoration:none;padding:12px 20px;border-radius:6px;display:inline-block;\"''"
  have "snd (scanMarkup InText ?open) = InText" "CHR ''<'' \<notin> set ?attrs" "CHR ''>'' \<notin> set ?attrs"
    "snd (scanMarkup InTag ?attrs) = InTag" by simp_all
  then show ?thesis
    unfolding linkTo_def linkButton_def
    by (intro exI [of _ ?open] exI [of _ ?attrs] exI [of _ "''</p>''"]) simp
qed

lemma link_in_text: "linkTo url (escapeHtml (Some url)) (linkText url ! 1)"
proof -
  let ?open = "''<p style=\"margin:0 0 16px;font-size:13px;word-break:break-all;\">''"
  have "snd (scanMarkup InText ?open) = InText" by simp
  then show ?thesis
    unfolding linkTo_def linkText_def
    by (intro exI [of _ ?open] exI [of _ "[]"] exI [of _ "''</p>''"]) simp
qed

lemma link_in_page:
  assumes "linkTo url label p" and "list_all balanced xs"
  shows "linkTo url label (htmlLayout (js_join newline (xs @ p # ys)))"
proof -
  obtain top foot where "list_all balanced top"
    and layout: "\<And>body. htmlLayout body = js_join newline (top @ body # foot)" using layout_join by blast
  then obtain b0 a0 where b0: "balanced b0" and outer: "\<And>z. htmlLayout z = b0 @ z @ a0"
    using join_at [of top foot] by auto
  obtain b1 a1 where b1: "balanced b1" and inner: "js_join newline (xs @ p # ys) = b1 @ p @ a1"
    using join_at [of xs ys] assms(2) by blast
  from assms(1) obtain b2 attrs a2 where
    p: "p = b2 @ ''<a href=\"'' @ escapeAttr (Some url) @ CHR 0x22 # attrs @ CHR ''>'' # label @ ''</a>'' @ a2"
    and ok: "snd (scanMarkup InText b2) = InText" "CHR ''<'' \<notin> set attrs" "CHR ''>'' \<notin> set attrs"
      "snd (scanMarkup InTag attrs) = InTag"
    unfolding linkTo_def by blast
  have "snd (scanMarkup InText (b0 @ b1 @ b2)) = InText"
    using b0 b1 ok(1) by (simp add: balanced_def scanMarkup_append)
  moreover have "htmlLayout (js_join newline (xs @ p # ys)) = (b0 @ b1 @ b2) @ ''<a href=\"'' @
      escapeAttr (Some url) @ CHR 0x22 # attrs @ CHR ''>'' # label @ ''</a>'' @ (a2 @ a1 @ a0)"
    unfolding outer inner unfolding p by simp
  ultimately show ?thesis
    unfolding linkTo_def using ok(2-4) by (intro exI [of _ "b0 @ b1 @ b2"] exI [of _ attrs] exI [of _ "a2 @ a1 @ a0"]) simp
qed

lemma links_after:
  assumes "list_all balanced xs" "balanced label"
  shows "linkTo url label (htmlLayout (js_join newline (xs @ [linkButton url label] @ linkText url @ zs)))"
    and "linkTo url (escapeHtml (Some url)) (htmlLayout (js_join newline (xs @ [linkButton url label] @ linkText url @ zs)))"
proof -
  have texts: "linkText url = [linkText url ! 0, linkText url ! 1]" by (simp add: linkText_def)
  show "linkTo url label (htmlLayout (js_join newline (xs @ [linkButton url label] @ linkText url @ zs)))"
    using link_in_page [OF link_in_button assms(1), where ys = "linkText url @ zs"] by simp
  have "balanced (linkText url ! 0)" using link_text_pieces(1) [of url] by (subst (asm) texts) simp
  then have "list_all balanced (xs @ [linkButton url label, linkText url ! 0])" using assms by simp
  from link_in_page [OF link_in_text this, where ys = zs] texts
  show "linkTo url (escapeHtml (Some url)) (htmlLayout (js_join newline (xs @ [linkButton url label] @ linkText url @ zs)))"
    by (metis append.assoc append_Cons append_Nil)
qed

fun buttonOf :: "mail_job \<Rightarrow> string" where
  "buttonOf (VerifyEmailJob _ _ _ _) = ''Verify email''"
| "buttonOf (ResetPasswordJob _ _ _ _) = ''Reset password''"
| "buttonOf (OrgInvitationJob _ _ _ _) = ''Accept invitation''"
| "buttonOf (PasswordChangedJob _ _ _ _ _) = []"

lemma links_of_body:
  assumes "balanced label"
  shows "list_all balanced [a, b, c] \<Longrightarrow> linkTo url label (htmlLayout (js_join newline ([a, b, c, linkButton url label] @ linkText url @ zs)))"
    and "list_all balanced [a, b, c] \<Longrightarrow>
      linkTo url (escapeHtml (Some url)) (htmlLayout (js_join newline ([a, b, c, linkButton url label] @ linkText url @ zs)))"
    and "list_all balanced [a, b] \<Longrightarrow> linkTo url label (htmlLayout (js_join newline ([a, b, linkButton url label] @ linkText url @ zs)))"
    and "list_all balanced [a, b] \<Longrightarrow>
      linkTo url (escapeHtml (Some url)) (htmlLayout (js_join newline ([a, b, linkButton url label] @ linkText url @ zs)))"
  using links_after [OF _ assms, of "[a, b, c]" url zs] links_after [OF _ assms, of "[a, b]" url zs]
  by (simp_all only: append_Cons append_Nil)

lemma links_in_mail:
  "linkTo url ''Verify email'' (rm_html (renderVerifyEmail utc firstName url expiresAt))"
  "linkTo url (escapeHtml (Some url)) (rm_html (renderVerifyEmail utc firstName url expiresAt))"
  "linkTo url ''Reset password'' (rm_html (renderResetPassword utc firstName url expiresAt))"
  "linkTo url (escapeHtml (Some url)) (rm_html (renderResetPassword utc firstName url expiresAt))"
  "linkTo url ''Accept invitation'' (rm_html (renderOrganizationInvitation utc organizationName url expiresAt))"
  "linkTo url (escapeHtml (Some url)) (rm_html (renderOrganizationInvitation utc organizationName url expiresAt))"
  unfolding renderVerifyEmail_def renderResetPassword_def renderOrganizationInvitation_def RenderedMail.simps Let_def
  by (rule links_of_body; simp add: balanced_append del: append.simps)+

text \<open>
  C39: the links of a verification, reset or invitation mail lead to the address of the job: the
  button is an \<open>a\<close> element in the text of the page whose \<open>href\<close> is the escaped address and nothing
  else, and so is the link below it, which shows the address; no character of the address ends the
  value, and what a reader decodes it to is the address itself.
\<close>

theorem mail_link_reads_back:
  assumes "linkOf j = Some url"
  shows "linkTo url (buttonOf j) (om_html (outgoing config (recipientOf j) (renderMail utc j))) \<and>
     linkTo url (escapeHtml (Some url)) (om_html (outgoing config (recipientOf j) (renderMail utc j))) \<and>
     CHR 0x22 \<notin> set (escapeAttr (Some url)) \<and> decodeEntities (escapeAttr (Some url)) = url"
proof (intro conjI)
  show "CHR 0x22 \<notin> set (escapeAttr (Some url))"
    using escapeHtml_plain [of "Some url"] by (auto simp: escapeAttr_def list_all_iff)
  show "decodeEntities (escapeAttr (Some url)) = url"
    using decode_escapeHtml [of url "[]"] by (simp add: escapeAttr_def)
  show "linkTo url (buttonOf j) (om_html (outgoing config (recipientOf j) (renderMail utc j)))"
    "linkTo url (escapeHtml (Some url)) (om_html (outgoing config (recipientOf j) (renderMail utc j)))"
    using assms links_in_mail by (cases j; simp add: outgoing_def)+
qed

lemma mail_link_reads_back_witness:
  "linkTo ''http://localhost/accept?token=1'' ''Accept invitation''
     (om_html (outgoing sampleMail (recipientOf scriptJob) (renderMail id scriptJob)))"
  using mail_link_reads_back [of scriptJob "''http://localhost/accept?token=1''"] by (simp add: scriptJob_def)

end
