(* ===== verification/Config.thy ===== *)
theory Config
  imports Mail
begin

text \<open>
  The configuration: the schema of \<open>config/env.validation.ts\<close> that the environment is checked with
  when the platform starts, and the factories of \<open>config/*.config.ts\<close> that read it.  The library
  Joi is a parameter as far as it decides what an address, a host name, an email or a number is.
\<close>

section \<open>The schema\<close>

type_synonym environ = "string \<rightharpoonup> string"

datatype EnvType = TextFrom nat | OneOf "string list" | UriOf "string list" | Hostname | EmailAddress
  | IntegerIn "int option" "int option" | Switch

record EnvRule =
  ev_name :: string
  ev_type :: EnvType
  ev_required :: bool
  ev_allowEmpty :: bool
  ev_default :: "string option"

definition withDefault :: "string \<Rightarrow> EnvType \<Rightarrow> string \<Rightarrow> EnvRule" where
  "withDefault name t value =
     \<lparr>ev_name = name, ev_type = t, ev_required = False, ev_allowEmpty = False, ev_default = Some value\<rparr>"

definition requiredVar :: "string \<Rightarrow> EnvType \<Rightarrow> EnvRule" where
  "requiredVar name t =
     \<lparr>ev_name = name, ev_type = t, ev_required = True, ev_allowEmpty = False, ev_default = None\<rparr>"

definition optionalText :: "string \<Rightarrow> EnvRule" where
  "optionalText name =
     \<lparr>ev_name = name, ev_type = TextFrom 0, ev_required = False, ev_allowEmpty = True, ev_default = None\<rparr>"

definition textVar :: "string \<Rightarrow> string \<Rightarrow> EnvRule" where
  "textVar name value = withDefault name (TextFrom 0) value"

definition integerVar :: "string \<Rightarrow> int option \<Rightarrow> int option \<Rightarrow> nat \<Rightarrow> EnvRule" where
  "integerVar name lo hi value = withDefault name (IntegerIn lo hi) (show_nat value)"

definition switchVar :: "string \<Rightarrow> bool \<Rightarrow> EnvRule" where
  "switchVar name value = withDefault name Switch (if value then ''true'' else ''false'')"

definition envValidationSchema :: "EnvRule list" where
  "envValidationSchema =
     [withDefault ''NODE_ENV'' (OneOf [''development'', ''test'', ''staging'', ''production'']) ''development'',
      integerVar ''PORT'' (Some 1) (Some 65535) 3000,
      textVar ''API_PREFIX'' ''api'',
      textVar ''API_DEFAULT_VERSION'' ''1'',
      textVar ''CORS_ORIGIN'' ''*'',
      textVar ''BODY_LIMIT'' ''10mb'',
      withDefault ''APP_URL'' (UriOf []) ''http://localhost:3000'',
      requiredVar ''DATABASE_URL'' (UriOf [''postgresql'', ''postgres'']),
      switchVar ''DATABASE_LOG_QUERIES'' False,
      withDefault ''REDIS_HOST'' Hostname ''localhost'',
      integerVar ''REDIS_PORT'' (Some 1) (Some 65535) 6379,
      optionalText ''REDIS_PASSWORD'',
      integerVar ''REDIS_DB'' (Some 0) None 0,
      requiredVar ''JWT_ACCESS_SECRET'' (TextFrom 16),
      requiredVar ''JWT_REFRESH_SECRET'' (TextFrom 16),
      textVar ''JWT_ACCESS_EXPIRES_IN'' ''15m'',
      textVar ''JWT_REFRESH_EXPIRES_IN'' ''7d'',
      textVar ''JWT_ISSUER'' ''enterprise-auth-platform'',
      textVar ''JWT_AUDIENCE'' ''enterprise-auth-platform-clients'',
      integerVar ''BCRYPT_SALT_ROUNDS'' (Some 4) (Some 20) 12,
      integerVar ''PASSWORD_MIN_LENGTH'' (Some 8) (Some 256) 12,
      switchVar ''PASSWORD_REQUIRE_UPPERCASE'' True,
      switchVar ''PASSWORD_REQUIRE_LOWERCASE'' True,
      switchVar ''PASSWORD_REQUIRE_NUMBER'' True,
      switchVar ''PASSWORD_REQUIRE_SPECIAL'' True,
      integerVar ''PASSWORD_HISTORY_LIMIT'' (Some 0) (Some 50) 5,
      integerVar ''MAX_LOGIN_ATTEMPTS'' (Some 1) None 5,
      integerVar ''LOCK_DURATION_MS'' (Some 0) None 900000,
      integerVar ''EMAIL_VERIFICATION_TOKEN_TTL_MS'' (Some 60000) None 86400000,
      integerVar ''PASSWORD_RESET_TOKEN_TTL_MS'' (Some 60000) None 3600000,
      integerVar ''SESSION_TTL_MS'' (Some 60000) None 604800000,
      withDefault ''MAIL_HOST'' Hostname ''localhost'',
      integerVar ''MAIL_PORT'' (Some 1) (Some 65535) 587,
      switchVar ''MAIL_SECURE'' False,
      optionalText ''MAIL_USER'',
      optionalText ''MAIL_PASSWORD'',
      withDefault ''MAIL_FROM'' EmailAddress ''no-reply@example.com'',
      textVar ''MAIL_FROM_NAME'' ''Enterprise Auth Platform'',
      textVar ''QUEUE_PREFIX'' ''eap'',
      integerVar ''QUEUE_DEFAULT_ATTEMPTS'' (Some 1) None 3,
      integerVar ''QUEUE_DEFAULT_BACKOFF_MS'' (Some 0) None 5000,
      integerVar ''THROTTLE_TTL_MS'' (Some 1) None 60000,
      integerVar ''THROTTLE_LIMIT'' (Some 1) None 100,
      switchVar ''SWAGGER_ENABLED'' True,
      textVar ''SWAGGER_PATH'' ''api/docs'',
      textVar ''SWAGGER_TITLE'' ''Enterprise Auth Platform API'',
      textVar ''SWAGGER_DESCRIPTION'' ''Enterprise authentication and authorization API'',
      textVar ''SWAGGER_VERSION'' ''0.3.0'',
      withDefault ''LOG_LEVEL'' (OneOf [''fatal'', ''error'', ''warn'', ''info'', ''debug'', ''trace'', ''silent'']) ''debug'',
      switchVar ''LOG_PRETTY'' True]"

section \<open>Validation at the start\<close>

record joi =
  jo_uri :: "string list \<Rightarrow> string \<Rightarrow> bool"
  jo_hostname :: "string \<Rightarrow> bool"
  jo_email :: "string \<Rightarrow> bool"
  jo_number :: "string \<Rightarrow> jsnum option"

definition integerBetween :: "int option \<Rightarrow> int option \<Rightarrow> jsnum \<Rightarrow> bool" where
  "integerBetween lo hi n = (case n of
     Fin q \<Rightarrow> of_int \<lfloor>q\<rfloor> = q \<and> pred_option (\<lambda>l. l \<le> \<lfloor>q\<rfloor>) lo \<and> pred_option (\<lambda>h. \<lfloor>q\<rfloor> \<le> h) hi
   | _ \<Rightarrow> False)"

fun acceptsType :: "joi \<Rightarrow> EnvType \<Rightarrow> string \<Rightarrow> bool" where
  "acceptsType J (TextFrom n) s = (s \<noteq> [] \<and> n \<le> length s)"
| "acceptsType J (OneOf vs) s = (s \<in> set vs)"
| "acceptsType J (UriOf schemes) s = (s \<noteq> [] \<and> jo_uri J schemes s)"
| "acceptsType J Hostname s = (s \<noteq> [] \<and> jo_hostname J s)"
| "acceptsType J EmailAddress s = (s \<noteq> [] \<and> jo_email J s)"
| "acceptsType J (IntegerIn lo hi) s =
     (case jo_number J s of None \<Rightarrow> False | Some n \<Rightarrow> integerBetween lo hi n)"
| "acceptsType J Switch s = (toLowerCase s = ''true'' \<or> toLowerCase s = ''false'')"

definition acceptsRule :: "joi \<Rightarrow> environ \<Rightarrow> EnvRule \<Rightarrow> bool" where
  "acceptsRule J env r = (case env (ev_name r) of
     None \<Rightarrow> \<not> ev_required r
   | Some s \<Rightarrow> (s = [] \<and> ev_allowEmpty r) \<or> acceptsType J (ev_type r) s)"

text \<open>
  \<open>ConfigModule.forRoot\<close> with this schema: the names of all variables that are refused, or the
  environment with the defaults of the variables that are not set.
\<close>

definition withDefaults :: "environ \<Rightarrow> environ" where
  "withDefaults env = (\<lambda>k. case env k of
     Some s \<Rightarrow> Some s
   | None \<Rightarrow> (case find (\<lambda>r. ev_name r = k) envValidationSchema of None \<Rightarrow> None | Some r \<Rightarrow> ev_default r))"

definition validateEnv :: "joi \<Rightarrow> environ \<Rightarrow> string list + environ" where
  "validateEnv J env =
     (let refused = filter (\<lambda>r. \<not> acceptsRule J env r) envValidationSchema in
      if refused = [] then Inr (withDefaults env) else Inl (map ev_name refused))"

section \<open>The factories\<close>

text \<open>\<open>process.env.X ?? d\<close>, \<open>Number(process.env.X ?? d)\<close>, \<open>process.env.X !== 'false'\<close>,
  \<open>process.env.X === 'true'\<close> and \<open>process.env.X ? process.env.X : undefined\<close>.\<close>

definition textOf :: "environ \<Rightarrow> string \<Rightarrow> string \<Rightarrow> string" where
  "textOf env name d = orDefault (env name) d"

definition numberOf :: "js_runtime \<Rightarrow> environ \<Rightarrow> string \<Rightarrow> int \<Rightarrow> jsnum" where
  "numberOf R env name d = (case env name of None \<Rightarrow> Fin (of_int d) | Some s \<Rightarrow> js_Number R (JStr s))"

definition onUnlessFalse :: "environ \<Rightarrow> string \<Rightarrow> bool" where
  "onUnlessFalse env name \<longleftrightarrow> env name \<noteq> Some ''false''"

definition onIfTrue :: "environ \<Rightarrow> string \<Rightarrow> bool" where
  "onIfTrue env name \<longleftrightarrow> env name = Some ''true''"

definition nonEmpty :: "environ \<Rightarrow> string \<Rightarrow> string option" where
  "nonEmpty env name = (if truthy_str (env name) then env name else None)"

record PasswordPolicySettings =
  ps_minLength :: jsnum
  ps_requireUppercase :: bool
  ps_requireLowercase :: bool
  ps_requireNumber :: bool
  ps_requireSpecial :: bool
  ps_historyLimit :: jsnum

record AuthSettings =
  as_bcryptSaltRounds :: jsnum
  as_passwordPolicy :: PasswordPolicySettings
  as_maxLoginAttempts :: jsnum
  as_lockDurationMs :: jsnum
  as_emailVerificationTokenTtlMs :: jsnum
  as_passwordResetTokenTtlMs :: jsnum
  as_sessionTtlMs :: jsnum
  as_appUrl :: string

definition authConfig :: "js_runtime \<Rightarrow> environ \<Rightarrow> AuthSettings" where
  "authConfig R env =
     \<lparr>as_bcryptSaltRounds = numberOf R env ''BCRYPT_SALT_ROUNDS'' 12,
      as_passwordPolicy =
        \<lparr>ps_minLength = numberOf R env ''PASSWORD_MIN_LENGTH'' 12,
         ps_requireUppercase = onUnlessFalse env ''PASSWORD_REQUIRE_UPPERCASE'',
         ps_requireLowercase = onUnlessFalse env ''PASSWORD_REQUIRE_LOWERCASE'',
         ps_requireNumber = onUnlessFalse env ''PASSWORD_REQUIRE_NUMBER'',
         ps_requireSpecial = onUnlessFalse env ''PASSWORD_REQUIRE_SPECIAL'',
         ps_historyLimit = numberOf R env ''PASSWORD_HISTORY_LIMIT'' 5\<rparr>,
      as_maxLoginAttempts = numberOf R env ''MAX_LOGIN_ATTEMPTS'' 5,
      as_lockDurationMs = numberOf R env ''LOCK_DURATION_MS'' (15 * 60 * 1000),
      as_emailVerificationTokenTtlMs = numberOf R env ''EMAIL_VERIFICATION_TOKEN_TTL_MS'' (24 * 60 * 60 * 1000),
      as_passwordResetTokenTtlMs = numberOf R env ''PASSWORD_RESET_TOKEN_TTL_MS'' (60 * 60 * 1000),
      as_sessionTtlMs = numberOf R env ''SESSION_TTL_MS'' (7 * 24 * 60 * 60 * 1000),
      as_appUrl = textOf env ''APP_URL'' ''http://localhost:3000''\<rparr>"

record FederationSettings =
  fs_encryptionKey :: string
  fs_mfaIssuer :: string
  fs_mfaChallengeTtlMs :: jsnum
  fs_mfaChallengeTokenBytes :: jsnum
  fs_mfaBackupCodeCount :: jsnum
  fs_mfaTotpWindow :: jsnum
  fs_oauthStateTtlMs :: jsnum
  fs_baseUrl :: string
  fs_google :: OAuthProviderClientConfig
  fs_github :: OAuthProviderClientConfig
  fs_microsoft :: OAuthProviderClientConfig
  fs_microsoftTenantId :: string
  fs_samlEntityId :: string
  fs_samlAcsBaseUrl :: string
  fs_samlClockSkewMs :: jsnum
  fs_samlReplayCacheTtlMs :: jsnum

definition providerClient :: "environ \<Rightarrow> string \<Rightarrow> string \<Rightarrow> string \<Rightarrow> OAuthProviderClientConfig" where
  "providerClient env baseUrl prefix provider =
     \<lparr>cc_clientId = textOf env (prefix @ ''_OAUTH_CLIENT_ID'') [],
      cc_clientSecret = textOf env (prefix @ ''_OAUTH_CLIENT_SECRET'') [],
      cc_callbackUrl = textOf env (prefix @ ''_OAUTH_CALLBACK_URL'')
        (baseUrl @ ''/api/v1/oauth/'' @ provider @ ''/callback'')\<rparr>"

text \<open>\<open>DEFAULT_BASE_URL\<close> is read when the module is loaded, before the environment is validated:
  \<open>env0\<close> is the environment at that time.\<close>

definition federationConfig :: "js_runtime \<Rightarrow> environ \<Rightarrow> environ \<Rightarrow> FederationSettings" where
  "federationConfig R env0 env =
     (let baseUrl = textOf env0 ''APP_URL'' ''http://localhost:3000'' in
     \<lparr>fs_encryptionKey = textOf env ''FEDERATION_ENCRYPTION_KEY'' [],
      fs_mfaIssuer = textOf env ''MFA_ISSUER'' ''EnterpriseAuthPlatform'',
      fs_mfaChallengeTtlMs = numberOf R env ''MFA_CHALLENGE_TTL_MS'' (5 * 60 * 1000),
      fs_mfaChallengeTokenBytes = numberOf R env ''MFA_CHALLENGE_TOKEN_BYTES'' 32,
      fs_mfaBackupCodeCount = numberOf R env ''MFA_BACKUP_CODE_COUNT'' 10,
      fs_mfaTotpWindow = numberOf R env ''MFA_TOTP_WINDOW'' 1,
      fs_oauthStateTtlMs = numberOf R env ''OAUTH_STATE_TTL_MS'' (10 * 60 * 1000),
      fs_baseUrl = baseUrl,
      fs_google = providerClient env baseUrl ''GOOGLE'' ''google'',
      fs_github = providerClient env baseUrl ''GITHUB'' ''github'',
      fs_microsoft = providerClient env baseUrl ''MICROSOFT'' ''microsoft'',
      fs_microsoftTenantId = textOf env ''MICROSOFT_OAUTH_TENANT_ID'' ''common'',
      fs_samlEntityId = textOf env ''SAML_ENTITY_ID'' ''urn:enterprise-auth-platform:sp'',
      fs_samlAcsBaseUrl = textOf env ''SAML_ACS_BASE_URL'' (baseUrl @ ''/api/v1/sso''),
      fs_samlClockSkewMs = numberOf R env ''SAML_CLOCK_SKEW_MS'' (5 * 60 * 1000),
      fs_samlReplayCacheTtlMs = numberOf R env ''SAML_REPLAY_CACHE_TTL_MS'' (60 * 60 * 1000)\<rparr>)"

definition mailConfig :: "js_runtime \<Rightarrow> environ \<Rightarrow> MailConfig" where
  "mailConfig R env =
     \<lparr>ml_host = textOf env ''MAIL_HOST'' ''localhost'', ml_port = numberOf R env ''MAIL_PORT'' 587,
      ml_secure = onIfTrue env ''MAIL_SECURE'', ml_user = nonEmpty env ''MAIL_USER'',
      ml_password = nonEmpty env ''MAIL_PASSWORD'', ml_from = textOf env ''MAIL_FROM'' ''no-reply@example.com'',
      ml_fromName = textOf env ''MAIL_FROM_NAME'' ''Enterprise Auth Platform''\<rparr>"

record AppConfig =
  ap_nodeEnv :: string
  ap_port :: jsnum
  ap_apiPrefix :: string
  ap_apiDefaultVersion :: string
  ap_corsOrigin :: string
  ap_bodyLimit :: string
  ap_appUrl :: string
  ap_isProduction :: bool
  ap_isDevelopment :: bool
  ap_isTest :: bool
  ap_logLevel :: string
  ap_logPretty :: bool

definition appConfig :: "js_runtime \<Rightarrow> environ \<Rightarrow> AppConfig" where
  "appConfig R env =
     (let nodeEnv = textOf env ''NODE_ENV'' ''development'' in
     \<lparr>ap_nodeEnv = nodeEnv, ap_port = numberOf R env ''PORT'' 3000, ap_apiPrefix = textOf env ''API_PREFIX'' ''api'',
      ap_apiDefaultVersion = textOf env ''API_DEFAULT_VERSION'' ''1'', ap_corsOrigin = textOf env ''CORS_ORIGIN'' ''*'',
      ap_bodyLimit = textOf env ''BODY_LIMIT'' ''10mb'', ap_appUrl = textOf env ''APP_URL'' ''http://localhost:3000'',
      ap_isProduction = (nodeEnv = ''production''), ap_isDevelopment = (nodeEnv = ''development''),
      ap_isTest = (nodeEnv = ''test''), ap_logLevel = textOf env ''LOG_LEVEL'' ''debug'',
      ap_logPretty = onUnlessFalse env ''LOG_PRETTY''\<rparr>)"

record JwtConfig =
  jc_accessSecret :: string
  jc_refreshSecret :: string
  jc_accessExpiresIn :: string
  jc_refreshExpiresIn :: string
  jc_issuer :: string
  jc_audience :: string

definition jwtConfig :: "environ \<Rightarrow> JwtConfig" where
  "jwtConfig env =
     \<lparr>jc_accessSecret = textOf env ''JWT_ACCESS_SECRET'' [], jc_refreshSecret = textOf env ''JWT_REFRESH_SECRET'' [],
      jc_accessExpiresIn = textOf env ''JWT_ACCESS_EXPIRES_IN'' ''15m'',
      jc_refreshExpiresIn = textOf env ''JWT_REFRESH_EXPIRES_IN'' ''7d'',
      jc_issuer = textOf env ''JWT_ISSUER'' ''enterprise-auth-platform'',
      jc_audience = textOf env ''JWT_AUDIENCE'' ''enterprise-auth-platform-clients''\<rparr>"

record RedisConfig =
  rd_host :: string
  rd_port :: jsnum
  rd_password :: "string option"
  rd_db :: jsnum

definition redisConfig :: "js_runtime \<Rightarrow> environ \<Rightarrow> RedisConfig" where
  "redisConfig R env = \<lparr>rd_host = textOf env ''REDIS_HOST'' ''localhost'', rd_port = numberOf R env ''REDIS_PORT'' 6379,
     rd_password = nonEmpty env ''REDIS_PASSWORD'', rd_db = numberOf R env ''REDIS_DB'' 0\<rparr>"

record QueueConfig =
  qc_prefix :: string
  qc_defaultAttempts :: jsnum
  qc_defaultBackoffMs :: jsnum

definition queueConfig :: "js_runtime \<Rightarrow> environ \<Rightarrow> QueueConfig" where
  "queueConfig R env = \<lparr>qc_prefix = textOf env ''QUEUE_PREFIX'' ''eap'',
     qc_defaultAttempts = numberOf R env ''QUEUE_DEFAULT_ATTEMPTS'' 3,
     qc_defaultBackoffMs = numberOf R env ''QUEUE_DEFAULT_BACKOFF_MS'' 5000\<rparr>"

record ThrottleConfig =
  th_ttlMs :: jsnum
  th_limit :: jsnum

definition throttleConfig :: "js_runtime \<Rightarrow> environ \<Rightarrow> ThrottleConfig" where
  "throttleConfig R env = \<lparr>th_ttlMs = numberOf R env ''THROTTLE_TTL_MS'' 60000,
     th_limit = numberOf R env ''THROTTLE_LIMIT'' 100\<rparr>"

record SwaggerConfig =
  sw_enabled :: bool
  sw_path :: string
  sw_title :: string
  sw_description :: string
  sw_version :: string

definition swaggerConfig :: "environ \<Rightarrow> SwaggerConfig" where
  "swaggerConfig env = \<lparr>sw_enabled = onUnlessFalse env ''SWAGGER_ENABLED'',
     sw_path = textOf env ''SWAGGER_PATH'' ''api/docs'',
     sw_title = textOf env ''SWAGGER_TITLE'' ''Enterprise Auth Platform API'',
     sw_description = textOf env ''SWAGGER_DESCRIPTION'' ''Enterprise authentication and authorization API'',
     sw_version = textOf env ''SWAGGER_VERSION'' ''0.2.0''\<rparr>"

record DatabaseConfig =
  dc_url :: string
  dc_logQueries :: bool

definition databaseConfig :: "environ \<Rightarrow> DatabaseConfig" where
  "databaseConfig env = \<lparr>dc_url = textOf env ''DATABASE_URL'' [], dc_logQueries = onIfTrue env ''DATABASE_LOG_QUERIES''\<rparr>"

end
