(* ===== verification/ConfigLaws.thy ===== *)
theory ConfigLaws
  imports Config
begin

text \<open>
  What the validation of the environment guarantees to the services: the settings they are modelled
  with, integers within bounds, are the ones the factories produce.  The settings of federation
  are not validated.
\<close>

section \<open>Validated numbers\<close>

definition settingsOf :: "AuthConfig \<Rightarrow> AuthSettings" where
  "settingsOf c =
     \<lparr>as_bcryptSaltRounds = Fin (of_nat (ac_bcryptSaltRounds c)),
      as_passwordPolicy =
        \<lparr>ps_minLength = Fin (of_nat (pw_minLength (ac_passwordPolicy c))),
         ps_requireUppercase = pw_requireUppercase (ac_passwordPolicy c),
         ps_requireLowercase = pw_requireLowercase (ac_passwordPolicy c),
         ps_requireNumber = pw_requireNumber (ac_passwordPolicy c),
         ps_requireSpecial = pw_requireSpecial (ac_passwordPolicy c),
         ps_historyLimit = Fin (of_int (pw_historyLimit (ac_passwordPolicy c)))\<rparr>,
      as_maxLoginAttempts = Fin (of_int (ac_maxLoginAttempts c)),
      as_lockDurationMs = Fin (of_int (ac_lockDurationMs c)),
      as_emailVerificationTokenTtlMs = Fin (of_int (ac_emailVerificationTokenTtlMs c)),
      as_passwordResetTokenTtlMs = Fin (of_int (ac_passwordResetTokenTtlMs c)),
      as_sessionTtlMs = Fin (of_int (ac_sessionTtlMs c)),
      as_appUrl = ac_appUrl c\<rparr>"

text \<open>The bounds of the schema.\<close>

definition authConfigOk :: "AuthConfig \<Rightarrow> bool" where
  "authConfigOk c \<longleftrightarrow> 4 \<le> ac_bcryptSaltRounds c \<and> ac_bcryptSaltRounds c \<le> 20 \<and>
     8 \<le> pw_minLength (ac_passwordPolicy c) \<and> pw_minLength (ac_passwordPolicy c) \<le> 256 \<and>
     0 \<le> pw_historyLimit (ac_passwordPolicy c) \<and> pw_historyLimit (ac_passwordPolicy c) \<le> 50 \<and>
     1 \<le> ac_maxLoginAttempts c \<and> 0 \<le> ac_lockDurationMs c \<and> 60000 \<le> ac_emailVerificationTokenTtlMs c \<and>
     60000 \<le> ac_passwordResetTokenTtlMs c \<and> 60000 \<le> ac_sessionTtlMs c"

text \<open>What is relied on of Joi and of \<open>Number\<close>: they agree on the texts Joi takes for a number, and
  the decimal text of a number reads as that number.\<close>

definition numbersAgree :: "joi \<Rightarrow> js_runtime \<Rightarrow> bool" where
  "numbersAgree J R \<longleftrightarrow> (\<forall>s n. jo_number J s = Some n \<longrightarrow> js_Number R (JStr s) = n) \<and>
     (\<forall>i. js_Number R (JStr (show_nat i)) = Fin (of_nat i))"

lemma validateEnv_Inr:
  assumes "validateEnv J env = Inr env'"
  shows "env' = withDefaults env" and "r \<in> set envValidationSchema \<Longrightarrow> acceptsRule J env r"
  using assms by (auto simp: validateEnv_def Let_def filter_empty_conv split: if_splits)

lemma integerBetween_Fin:
  assumes "integerBetween lo hi n"
  obtains i where "n = Fin (of_int i)" and "pred_option (\<lambda>l. l \<le> i) lo" and "pred_option (\<lambda>h. i \<le> h) hi"
  using assms by (cases n) (auto simp: integerBetween_def)

lemma validated_integer:
  assumes "validateEnv J env = Inr env'" and "numbersAgree J R"
    and "find (\<lambda>r. ev_name r = name) envValidationSchema = Some (integerVar name lo hi d)"
    and "pred_option (\<lambda>l. l \<le> int d) lo" and "pred_option (\<lambda>h. int d \<le> h) hi"
  shows "\<exists>i. numberOf R env' name e = Fin (of_int i) \<and> pred_option (\<lambda>l. l \<le> i) lo \<and> pred_option (\<lambda>h. i \<le> h) hi"
proof -
  have env': "env' name = (case env name of None \<Rightarrow> Some (show_nat d) | Some s \<Rightarrow> Some s)"
    by (simp add: validateEnv_Inr(1) [OF assms(1)] withDefaults_def assms(3) integerVar_def withDefault_def split: option.split)
  have "integerVar name lo hi d \<in> set envValidationSchema"
    using assms(3) unfolding find_Some_iff by (metis nth_mem)
  from validateEnv_Inr(2) [OF assms(1) this] have ok: "acceptsRule J env (integerVar name lo hi d)" .
  show ?thesis
  proof (cases "env name")
    case None
    then have "numberOf R env' name e = Fin (of_int (int d))"
      using assms(2) by (simp add: env' numberOf_def numbersAgree_def)
    with assms(4,5) show ?thesis by blast
  next
    case (Some s)
    with ok obtain n where n: "jo_number J s = Some n" "integerBetween lo hi n"
      by (auto simp: acceptsRule_def integerVar_def withDefault_def split: option.splits)
    then have "numberOf R env' name e = n"
      using assms(2) Some by (simp add: env' numberOf_def numbersAgree_def)
    with n(2) show ?thesis by (metis integerBetween_Fin)
  qed
qed

lemmas schema_rules = envValidationSchema_def integerVar_def withDefault_def switchVar_def textVar_def requiredVar_def
  optionalText_def

lemma schema_integers:
  "find (\<lambda>r. ev_name r = ''BCRYPT_SALT_ROUNDS'') envValidationSchema = Some (integerVar ''BCRYPT_SALT_ROUNDS'' (Some 4) (Some 20) 12)"
  "find (\<lambda>r. ev_name r = ''PASSWORD_MIN_LENGTH'') envValidationSchema = Some (integerVar ''PASSWORD_MIN_LENGTH'' (Some 8) (Some 256) 12)"
  "find (\<lambda>r. ev_name r = ''PASSWORD_HISTORY_LIMIT'') envValidationSchema = Some (integerVar ''PASSWORD_HISTORY_LIMIT'' (Some 0) (Some 50) 5)"
  "find (\<lambda>r. ev_name r = ''MAX_LOGIN_ATTEMPTS'') envValidationSchema = Some (integerVar ''MAX_LOGIN_ATTEMPTS'' (Some 1) None 5)"
  "find (\<lambda>r. ev_name r = ''LOCK_DURATION_MS'') envValidationSchema = Some (integerVar ''LOCK_DURATION_MS'' (Some 0) None 900000)"
  "find (\<lambda>r. ev_name r = ''EMAIL_VERIFICATION_TOKEN_TTL_MS'') envValidationSchema =
     Some (integerVar ''EMAIL_VERIFICATION_TOKEN_TTL_MS'' (Some 60000) None 86400000)"
  "find (\<lambda>r. ev_name r = ''PASSWORD_RESET_TOKEN_TTL_MS'') envValidationSchema =
     Some (integerVar ''PASSWORD_RESET_TOKEN_TTL_MS'' (Some 60000) None 3600000)"
  "find (\<lambda>r. ev_name r = ''SESSION_TTL_MS'') envValidationSchema = Some (integerVar ''SESSION_TTL_MS'' (Some 60000) None 604800000)"
  by (simp_all add: schema_rules)

text \<open>
  C40: the authentication settings are integers within their bounds whenever the platform starts:
  for every environment the schema accepts there is a configuration of the shape the services
  work with, inside the bounds of the schema (at least 4 rounds of bcrypt, passwords of at least 8
  characters, at least one login attempt, lifetimes of at least a minute), and it is the one the
  factory reads.
\<close>

theorem validated_auth_config:
  assumes "validateEnv J env = Inr env'" and "numbersAgree J R"
  shows "\<exists>c. authConfig R env' = settingsOf c \<and> authConfigOk c"
proof -
  note int = validated_integer [OF assms]
  obtain rounds where rounds: "numberOf R env' ''BCRYPT_SALT_ROUNDS'' 12 = Fin (of_int rounds)" "4 \<le> rounds" "rounds \<le> 20"
    using int [OF schema_integers(1)] by fastforce
  obtain len where len: "numberOf R env' ''PASSWORD_MIN_LENGTH'' 12 = Fin (of_int len)" "8 \<le> len" "len \<le> 256"
    using int [OF schema_integers(2)] by fastforce
  obtain hist where hist: "numberOf R env' ''PASSWORD_HISTORY_LIMIT'' 5 = Fin (of_int hist)" "0 \<le> hist" "hist \<le> 50"
    using int [OF schema_integers(3)] by fastforce
  obtain tries where tries: "numberOf R env' ''MAX_LOGIN_ATTEMPTS'' 5 = Fin (of_int tries)" "1 \<le> tries"
    using int [OF schema_integers(4)] by fastforce
  obtain lock where lock: "numberOf R env' ''LOCK_DURATION_MS'' (15 * 60 * 1000) = Fin (of_int lock)" "0 \<le> lock"
    using int [OF schema_integers(5)] by fastforce
  obtain email where email: "numberOf R env' ''EMAIL_VERIFICATION_TOKEN_TTL_MS'' (24 * 60 * 60 * 1000) = Fin (of_int email)"
    "60000 \<le> email"
    using int [OF schema_integers(6)] by fastforce
  obtain reset where reset: "numberOf R env' ''PASSWORD_RESET_TOKEN_TTL_MS'' (60 * 60 * 1000) = Fin (of_int reset)"
    "60000 \<le> reset"
    using int [OF schema_integers(7)] by fastforce
  obtain ttl where ttl: "numberOf R env' ''SESSION_TTL_MS'' (7 * 24 * 60 * 60 * 1000) = Fin (of_int ttl)" "60000 \<le> ttl"
    using int [OF schema_integers(8)] by fastforce
  let ?p = "\<lparr>pw_minLength = nat len, pw_requireUppercase = onUnlessFalse env' ''PASSWORD_REQUIRE_UPPERCASE'',
    pw_requireLowercase = onUnlessFalse env' ''PASSWORD_REQUIRE_LOWERCASE'',
    pw_requireNumber = onUnlessFalse env' ''PASSWORD_REQUIRE_NUMBER'',
    pw_requireSpecial = onUnlessFalse env' ''PASSWORD_REQUIRE_SPECIAL'', pw_historyLimit = hist\<rparr>"
  let ?c = "\<lparr>ac_bcryptSaltRounds = nat rounds, ac_passwordPolicy = ?p, ac_maxLoginAttempts = tries,
    ac_lockDurationMs = lock, ac_emailVerificationTokenTtlMs = email, ac_passwordResetTokenTtlMs = reset,
    ac_sessionTtlMs = ttl, ac_appUrl = textOf env' ''APP_URL'' ''http://localhost:3000''\<rparr>"
  have "authConfig R env' = settingsOf ?c"
    unfolding authConfig_def settingsOf_def rounds(1) len(1) hist(1) tries(1) lock(1) email(1) reset(1) ttl(1)
    using rounds(2) len(2) by simp
  moreover have "authConfigOk ?c"
    using rounds len hist tries lock email reset ttl
    by (simp add: authConfigOk_def nat_le_iff le_nat_iff)
  ultimately show ?thesis by blast
qed

section \<open>What is not validated\<close>

definition federationVars :: "string list" where
  "federationVars = [''FEDERATION_ENCRYPTION_KEY'', ''MFA_ISSUER'', ''MFA_CHALLENGE_TTL_MS'', ''MFA_CHALLENGE_TOKEN_BYTES'',
     ''MFA_BACKUP_CODE_COUNT'', ''MFA_TOTP_WINDOW'', ''OAUTH_STATE_TTL_MS'', ''SAML_CLOCK_SKEW_MS'',
     ''SAML_REPLAY_CACHE_TTL_MS'']"

lemma federationVars_unknown:
  "name \<in> set federationVars \<Longrightarrow> find (\<lambda>r. ev_name r = name) envValidationSchema = None"
proof -
  have "list_all (\<lambda>name. name \<notin> set (map ev_name envValidationSchema)) federationVars"
    by (simp add: federationVars_def schema_rules)
  then show "name \<in> set federationVars \<Longrightarrow> find (\<lambda>r. ev_name r = name) envValidationSchema = None"
    by (auto simp: list_all_iff find_None_iff)
qed

text \<open>
  The settings of MFA, OAuth and SAML are not validated: in an environment the platform starts
  with, any of their variables may be left out or given any text, and it starts as before.
  A key that is left out is empty, and a lifetime such as \<open>5m\<close> is whatever \<open>Number\<close> makes of
  it, \<open>NaN\<close>.
\<close>

theorem federation_is_not_validated:
  assumes "validateEnv J env = Inr env'" and "name \<in> set federationVars"
  shows "validateEnv J (env(name := value)) = Inr (env'(name := value)) \<and>
    numberOf R (env'(name := value)) name d = (case value of None \<Rightarrow> Fin (of_int d) | Some s \<Rightarrow> js_Number R (JStr s))"
proof -
  have unknown: "find (\<lambda>r. ev_name r = name) envValidationSchema = None"
    by (rule federationVars_unknown [OF assms(2)])
  then have "acceptsRule J (env(name := value)) r = acceptsRule J env r" if "r \<in> set envValidationSchema" for r
    using that by (auto simp: acceptsRule_def find_None_iff)
  then have "filter (\<lambda>r. \<not> acceptsRule J (env(name := value)) r) envValidationSchema =
      filter (\<lambda>r. \<not> acceptsRule J env r) envValidationSchema"
    by (intro filter_cong) simp_all
  moreover have "withDefaults (env(name := value)) = (withDefaults env)(name := value)"
    by (rule ext) (simp add: withDefaults_def unknown split: option.split)
  ultimately show ?thesis
    using assms(1) by (simp add: validateEnv_def Let_def numberOf_def split: if_splits)
qed

section \<open>Concrete environments\<close>

text \<open>Decimal texts, as a stand-in for the number parser.\<close>

definition readDigits :: "string \<Rightarrow> nat" where
  "readDigits s = foldl (\<lambda>n c. 10 * n + (of_char c - 48)) 0 s"

definition isDigits :: "string \<Rightarrow> bool" where
  "isDigits s \<longleftrightarrow> s \<noteq> [] \<and> list_all (\<lambda>c. (48::nat) \<le> of_char c \<and> (of_char c :: nat) \<le> 57) s"

lemma readDigits_show: "readDigits (show_nat n) = n"
proof (induction n rule: show_nat.induct)
  case (1 n)
  show ?case
  proof (cases "n < 10")
    case True
    then show ?thesis by (subst show_nat.simps) (simp add: readDigits_def)
  next
    case False
    with 1 have "readDigits (show_nat (n div 10)) = n div 10" by simp
    with False show ?thesis
      by (subst show_nat.simps) (simp add: readDigits_def)
  qed
qed

definition digitNumber :: "jsval \<Rightarrow> jsnum" where
  "digitNumber v = (case v of JStr s \<Rightarrow> Fin (of_nat (readDigits s)) | _ \<Rightarrow> NaN)"

definition sampleJoi :: joi where
  "sampleJoi = \<lparr>jo_uri = (\<lambda>_ _. True), jo_hostname = (\<lambda>_. True), jo_email = (\<lambda>_. True),
     jo_number = (\<lambda>s. if isDigits s then Some (Fin (of_nat (readDigits s))) else None)\<rparr>"

definition sampleRuntime :: js_runtime where
  "sampleRuntime = (e_js sampleEnv)\<lparr>js_Number := digitNumber\<rparr>"

definition sampleEnviron :: environ where
  "sampleEnviron = [''DATABASE_URL'' \<mapsto> ''postgresql://localhost/eap'', ''JWT_ACCESS_SECRET'' \<mapsto> ''0123456789abcdef'',
     ''JWT_REFRESH_SECRET'' \<mapsto> ''fedcba9876543210'', ''MAX_LOGIN_ATTEMPTS'' \<mapsto> ''3'']"

lemma sample_starts: "validateEnv sampleJoi sampleEnviron = Inr (withDefaults sampleEnviron)"
proof -
  have "list_all (acceptsRule sampleJoi sampleEnviron) envValidationSchema"
    by (simp add: schema_rules acceptsRule_def sampleEnviron_def sampleJoi_def isDigits_def readDigits_def integerBetween_def)
  then show ?thesis by (simp add: validateEnv_def Let_def list_all_iff filter_empty_conv)
qed

lemma sample_numbers: "numbersAgree sampleJoi sampleRuntime"
  by (simp add: numbersAgree_def sampleJoi_def sampleRuntime_def digitNumber_def readDigits_show)

theorem validated_auth_config_witness:
  "\<exists>c. authConfig sampleRuntime (withDefaults sampleEnviron) = settingsOf c \<and> authConfigOk c"
  by (rule validated_auth_config [OF sample_starts sample_numbers])

theorem federation_is_not_validated_witness:
  "validateEnv sampleJoi (sampleEnviron(''MFA_CHALLENGE_TTL_MS'' := Some ''5m'')) =
     Inr ((withDefaults sampleEnviron)(''MFA_CHALLENGE_TTL_MS'' := Some ''5m''))"
proof -
  have "''MFA_CHALLENGE_TTL_MS'' \<in> set federationVars" by (simp add: federationVars_def)
  from federation_is_not_validated [OF sample_starts this] show ?thesis by blast
qed

end
