(* ===== verification/Seed.thy ===== *)
theory Seed
  imports Policies
begin

text \<open>
  The script \<open>prisma/seed.ts\<close>: the permissions, system roles and default policies every
  installation starts with.  It can be run again on a database in use.
\<close>

section \<open>What is seeded\<close>

definition PERMISSIONS :: "(string \<times> string \<times> string) list" where
  "PERMISSIONS =
     [(''users'', ''read'', ''Read users in the organization''),
      (''users'', ''create'', ''Create users in the organization''),
      (''users'', ''update'', ''Update users in the organization''),
      (''users'', ''delete'', ''Delete users in the organization''),
      (''roles'', ''manage'', ''Manage roles and assignments''),
      (''permissions'', ''manage'', ''Manage permissions''),
      (''organizations'', ''manage'', ''Manage organization settings''),
      (''members'', ''read'', ''View organization members''),
      (''members'', ''manage'', ''Manage organization members''),
      (''invitations'', ''manage'', ''Manage organization invitations''),
      (''policies'', ''manage'', ''Manage ABAC policies''),
      (''audit'', ''read'', ''Read audit logs'')]"

text \<open>\<open>None\<close> stands for \<open>'*'\<close>, all permissions.\<close>

record SystemRoleDef =
  sr_slug :: string
  sr_name :: string
  sr_description :: string
  sr_permissions :: "((string \<times> string) list) option"

definition SYSTEM_ROLES :: "SystemRoleDef list" where
  "SYSTEM_ROLES =
     [\<lparr>sr_slug = ''super-admin'', sr_name = ''Super Admin'', sr_description = ''Cross-organization administrator'',
       sr_permissions = None\<rparr>,
      \<lparr>sr_slug = ''admin'', sr_name = ''Admin'', sr_description = ''Organization administrator'',
       sr_permissions = None\<rparr>,
      \<lparr>sr_slug = ''manager'', sr_name = ''Manager'', sr_description = ''Department / team manager'',
       sr_permissions = Some [(''users'', ''read''), (''users'', ''update''), (''members'', ''read''),
         (''members'', ''manage''), (''invitations'', ''manage''), (''audit'', ''read'')]\<rparr>,
      \<lparr>sr_slug = ''user'', sr_name = ''User'', sr_description = ''Standard organization user'',
       sr_permissions = Some [(''users'', ''read'')]\<rparr>]"

record SeedPolicy =
  se_slug :: string
  se_name :: string
  se_effect :: PolicyEffect
  se_resource :: string
  se_action :: string
  se_priority :: int
  se_conditions :: "CreatePolicyConditionDto list"

definition seedCondition ::
  "AttributeSource \<Rightarrow> string \<Rightarrow> PolicyOperator \<Rightarrow> string \<Rightarrow> CreatePolicyConditionDto list" where
  "seedCondition source path operator value =
     [\<lparr>cpc_attributeSource = source, cpc_attributePath = path, cpc_operator = operator, cpc_value = JStr value,
       cpc_valueType = Some VT_STRING\<rparr>]"

definition DEFAULT_POLICIES :: "SeedPolicy list" where
  "DEFAULT_POLICIES =
     [\<lparr>se_slug = ''edit-own-profile'', se_name = ''Users can edit their own profile'', se_effect = ALLOW,
       se_resource = ''users'', se_action = ''update'', se_priority = 200,
       se_conditions = seedCondition RESOURCE ''id'' EQUALS ''USER.id''\<rparr>,
      \<lparr>se_slug = ''same-organization-access'', se_name = ''Members access resources within their organization'',
       se_effect = ALLOW, se_resource = ''*'', se_action = ''*'', se_priority = 100,
       se_conditions = seedCondition RESOURCE ''organizationId'' EQUALS ''ORGANIZATION.id''\<rparr>,
      \<lparr>se_slug = ''manager-can-access-department-users'', se_name = ''Managers can access users in their department'',
       se_effect = ALLOW, se_resource = ''users'', se_action = ''read'', se_priority = 150,
       se_conditions = seedCondition RESOURCE ''department'' EQUALS ''MEMBERSHIP.department''\<rparr>,
      \<lparr>se_slug = ''admin-can-access-all-org-resources'',
       se_name = ''Admins access all resources within their organization'',
       se_effect = ALLOW, se_resource = ''*'', se_action = ''*'', se_priority = 500,
       se_conditions = seedCondition MEMBERSHIP ''roles'' CONTAINS ''admin''\<rparr>,
      \<lparr>se_slug = ''deny-suspended-members'', se_name = ''Suspended members are denied any access'',
       se_effect = DENY, se_resource = ''*'', se_action = ''*'', se_priority = 10000,
       se_conditions = seedCondition MEMBERSHIP ''status'' EQUALS ''SUSPENDED''\<rparr>,
      \<lparr>se_slug = ''enterprise-plan-required-for-sso'', se_name = ''SSO management requires Enterprise plan'',
       se_effect = ALLOW, se_resource = ''sso'', se_action = ''manage'', se_priority = 300,
       se_conditions = seedCondition ORGANIZATION ''plan'' EQUALS ''ENTERPRISE''\<rparr>]"

section \<open>The script\<close>

definition upsertPermission :: "env \<Rightarrow> string \<times> string \<times> string \<Rightarrow> unit act" where
  "upsertPermission E = (\<lambda>(resource, action, description).
     bindM (dbFind permissionsT (\<lambda>p. p_resource p = resource \<and> p_action p = action)) (\<lambda>row.
     case row of
       None \<Rightarrow>
         bindM (newId E) (\<lambda>pid.
         thenM (dbCreate permissionsT [''resource'', ''action'']
                  (\<lambda>p. p_id p = pid \<or> (p_resource p = resource \<and> p_action p = action)) (\<lambda>_. True)
                  \<lparr>p_id = pid, p_resource = resource, p_action = action, p_description = Some description\<rparr>)
         (returnM ()))
     | Some _ \<Rightarrow>
         thenM (dbUpdate permissionsT (\<lambda>p. p_resource p = resource \<and> p_action p = action)
                  (\<lambda>p. p\<lparr>p_description := Some description\<rparr>))
         (returnM ())))"

definition seedPermissions :: "env \<Rightarrow> unit act" where
  "seedPermissions E = forM PERMISSIONS (upsertPermission E)"

definition permissionsFor :: "SystemRoleDef \<Rightarrow> Permission list \<Rightarrow> Permission list" where
  "permissionsFor role allPermissions =
     (case sr_permissions role of
        None \<Rightarrow> allPermissions
      | Some wanted \<Rightarrow> filter (\<lambda>p. list_ex (\<lambda>(r, a). r = p_resource p \<and> a = p_action p) wanted) allPermissions)"

definition upsertSystemRole :: "env \<Rightarrow> SystemRoleDef \<Rightarrow> Role act" where
  "upsertSystemRole E role =
     bindM (dbFind rolesT (\<lambda>r. r_organizationId r = None \<and> r_slug r = sr_slug role)) (\<lambda>existing.
     case existing of
       Some e \<Rightarrow> dbUpdate rolesT (\<lambda>r. r_id r = r_id e)
         (\<lambda>r. r\<lparr>r_name := sr_name role, r_description := Some (sr_description role), r_isSystem := True\<rparr>)
     | None \<Rightarrow>
         bindM (newId E) (\<lambda>rid.
         dbCreate rolesT [''organizationId'', ''slug''] (\<lambda>r. r_id r = rid) (\<lambda>_. True)
           \<lparr>r_id = rid, r_organizationId = None, r_name = sr_name role, r_slug = sr_slug role,
            r_description = Some (sr_description role), r_isSystem = True, r_deletedAt = None\<rparr>))"

definition seedSystemRole :: "env \<Rightarrow> Permission list \<Rightarrow> SystemRoleDef \<Rightarrow> unit act" where
  "seedSystemRole E allPermissions role =
     bindM (upsertSystemRole E role) (\<lambda>r.
     let wanted = permissionsFor role allPermissions in
     thenM (dbDeleteMany rolePermissionsT (\<lambda>rp. rp_roleId rp = r_id r))
     (whenM (wanted \<noteq> []) (createRolePermissions (r_id r) (map p_id wanted))))"

definition seedSystemRoles :: "env \<Rightarrow> unit act" where
  "seedSystemRoles E =
     bindM (dbFindMany permissionsT (\<lambda>_. True)) (\<lambda>allPermissions.
     forM SYSTEM_ROLES (seedSystemRole E allPermissions))"

definition upsertPolicyRow :: "env \<Rightarrow> SeedPolicy \<Rightarrow> Policy act" where
  "upsertPolicyRow E policy =
     bindM (dbFind policiesT (\<lambda>p. pol_organizationId p = None \<and> pol_slug p = se_slug policy)) (\<lambda>existing.
     case existing of
       Some e \<Rightarrow> dbUpdate policiesT (\<lambda>p. pol_id p = pol_id e)
         (\<lambda>p. p\<lparr>pol_name := se_name policy, pol_effect := se_effect policy, pol_resource := se_resource policy,
                pol_action := se_action policy, pol_priority := se_priority policy, pol_isSystem := True\<rparr>)
     | None \<Rightarrow>
         bindM (newId E) (\<lambda>pid.
         dbCreate policiesT [''organizationId'', ''slug''] (\<lambda>p. pol_id p = pid) (\<lambda>_. True)
           \<lparr>pol_id = pid, pol_organizationId = None, pol_name = se_name policy, pol_slug = se_slug policy,
            pol_description = None, pol_effect = se_effect policy, pol_resource = se_resource policy,
            pol_action = se_action policy, pol_priority = se_priority policy, pol_isSystem = True,
            pol_isEnabled = True, pol_deletedAt = None\<rparr>))"

definition upsertPolicy :: "env \<Rightarrow> SeedPolicy \<Rightarrow> unit act" where
  "upsertPolicy E policy =
     bindM (upsertPolicyRow E policy) (\<lambda>created.
     thenM (dbDeleteMany policyConditionsT (\<lambda>c. pc_policyId c = pol_id created))
     (whenM (se_conditions policy \<noteq> []) (createConditions E (pol_id created) (se_conditions policy))))"

definition seedDefaultPolicies :: "env \<Rightarrow> unit act" where
  "seedDefaultPolicies E = forM DEFAULT_POLICIES (upsertPolicy E)"

text \<open>An error ends the script with exit code 1; what was written before stays.\<close>

definition seed :: "env \<Rightarrow> unit act" where
  "seed E = thenM (seedPermissions E) (thenM (seedSystemRoles E) (seedDefaultPolicies E))"

section \<open>The defaults of the authorization module\<close>

text \<open>
  \<open>SYSTEM_ROLE_DEFAULTS\<close> of \<open>authorization/constants/authorization.constants.ts\<close>: by slug, name,
  description and which permissions the role has.  Its permissions, \<open>DEFAULT_PERMISSIONS\<close>, are the list
  of the script once more.
\<close>

definition DEFAULT_PERMISSIONS :: "(string \<times> string \<times> string) list" where
  "DEFAULT_PERMISSIONS =
     [(''users'', ''read'', ''Read users in the organization''),
      (''users'', ''create'', ''Create users in the organization''),
      (''users'', ''update'', ''Update users in the organization''),
      (''users'', ''delete'', ''Delete users in the organization''),
      (''roles'', ''manage'', ''Manage roles and assignments''),
      (''permissions'', ''manage'', ''Manage permissions''),
      (''organizations'', ''manage'', ''Manage organization settings''),
      (''members'', ''read'', ''View organization members''),
      (''members'', ''manage'', ''Manage organization members''),
      (''invitations'', ''manage'', ''Manage organization invitations''),
      (''policies'', ''manage'', ''Manage ABAC policies''),
      (''audit'', ''read'', ''Read audit logs'')]"

definition SYSTEM_ROLE_DEFAULTS :: "(string \<times> string \<times> string \<times> (string \<Rightarrow> string \<Rightarrow> bool)) list" where
  "SYSTEM_ROLE_DEFAULTS =
     [(''super-admin'', ''Super Admin'', ''Cross-organization administrator (global)'', \<lambda>_ _. True),
      (''admin'', ''Admin'', ''Organization administrator'', \<lambda>_ _. True),
      (''manager'', ''Manager'', ''Department / team manager'',
         \<lambda>resource _. resource \<in> set [''users'', ''members'', ''invitations'', ''audit'']),
      (''user'', ''User'', ''Standard organization user'', \<lambda>resource action. resource = ''users'' \<and> action = ''read'')]"

definition defaultGrants :: "string \<Rightarrow> (string \<times> string) list" where
  "defaultGrants slug = (case map_of SYSTEM_ROLE_DEFAULTS slug of None \<Rightarrow> []
     | Some (_, _, granted) \<Rightarrow> map (\<lambda>(r, a, _). (r, a)) (filter (\<lambda>(r, a, _). granted r a) DEFAULT_PERMISSIONS))"

definition seededGrants :: "SystemRoleDef \<Rightarrow> (string \<times> string) list" where
  "seededGrants role = (case sr_permissions role of None \<Rightarrow> map (\<lambda>(r, a, _). (r, a)) PERMISSIONS | Some wanted \<Rightarrow> wanted)"

end
