(* ===== verification/SeedLaws.thy ===== *)
theory SeedLaws
  imports Seed Constraints AuthorizationLaws
begin

text \<open>
  What the seed script establishes, on a fresh database or on one in use, and what its permission
  names mean for the routes.
\<close>

section \<open>Loops that establish something for every element\<close>

lemma forM_Cons_Inr_iff:
  "forM (x # xs) f w = (Inr (), v) \<longleftrightarrow> (\<exists>u. f x w = (Inr (), u) \<and> forM xs f u = (Inr (), v))"
  by (auto simp: thenM_Inr_iff)

lemma forM_extends:
  assumes step: "\<And>x w w'. x \<in> U \<Longrightarrow> I w \<Longrightarrow> f x w = (Inr (), w') \<Longrightarrow> I w' \<and> P x w'"
    and frame: "\<And>x y w w'. x \<in> U \<Longrightarrow> y \<in> U \<Longrightarrow> x \<noteq> y \<Longrightarrow> I w \<Longrightarrow> P y w \<Longrightarrow> f x w = (Inr (), w') \<Longrightarrow> P y w'"
  shows "forM xs f w = (Inr (), w') \<Longrightarrow> distinct xs \<Longrightarrow> set xs \<subseteq> U \<Longrightarrow> D \<subseteq> U - set xs \<Longrightarrow> I w \<Longrightarrow> \<forall>y \<in> D. P y w \<Longrightarrow>
    I w' \<and> (\<forall>y \<in> D \<union> set xs. P y w')"
proof (induction xs arbitrary: w D)
  case (Cons x xs)
  then obtain v where x: "f x w = (Inr (), v)" and rest: "forM xs f v = (Inr (), w')"
    by (auto simp: thenM_Inr_iff)
  have "x \<in> U" using Cons.prems(3) by simp
  have v: "I v \<and> P x v" using step [OF \<open>x \<in> U\<close> Cons.prems(5) x] .
  have "P y v" if "y \<in> insert x D" for y
  proof (cases "y = x")
    case False
    with that have "y \<in> D" by simp
    with Cons.prems(4,6) False show ?thesis by (intro frame [OF \<open>x \<in> U\<close> _ _ Cons.prems(5) _ x]) auto
  qed (use v in simp)
  then have "I w' \<and> (\<forall>y \<in> insert x D \<union> set xs. P y w')"
    using Cons.prems v by (intro Cons.IH [OF rest]) auto
  then show ?case by simp
qed simp

lemma forM_establishes:
  assumes "forM xs f w = (Inr (), w')" and "distinct xs" and "I w"
    and "\<And>x w w'. x \<in> set xs \<Longrightarrow> I w \<Longrightarrow> f x w = (Inr (), w') \<Longrightarrow> I w' \<and> P x w'"
    and "\<And>x y w w'. x \<in> set xs \<Longrightarrow> y \<in> set xs \<Longrightarrow> x \<noteq> y \<Longrightarrow> I w \<Longrightarrow> P y w \<Longrightarrow> f x w = (Inr (), w') \<Longrightarrow> P y w'"
  shows "I w' \<and> (\<forall>x \<in> set xs. P x w')"
proof -
  have "I w' \<and> (\<forall>y \<in> {} \<union> set xs. P y w')"
    by (rule forM_extends [where U = "set xs", OF assms(4,5,1,2)]) (simp_all add: assms(3))
  then show ?thesis by simp
qed

section \<open>Permissions\<close>

definition permissionSeeded :: "string \<times> string \<times> string \<Rightarrow> database \<Rightarrow> bool" where
  "permissionSeeded = (\<lambda>(resource, action, description) d. \<exists>p \<in> set (permissions d).
     p_resource p = resource \<and> p_action p = action \<and> p_description p = Some description)"

lemma upsertPermission_Inr:
  assumes "upsertPermission E (resource, action, description) w = (Inr (), w')"
  shows "(\<exists>p. w_db w' = permissions_update (\<lambda>rows. rows @ [p]) (w_db w) \<and> p_resource p = resource \<and> p_action p = action \<and>
      p_description p = Some description) \<or>
    (\<exists>p \<in> set (permissions (w_db w)). p_resource p = resource \<and> p_action p = action \<and>
      w_db w' = permissions_update (updateRows (\<lambda>p. p_resource p = resource \<and> p_action p = action)
        (\<lambda>p. p\<lparr>p_description := Some description\<rparr>)) (w_db w))"
  using assms unfolding upsertPermission_def
  by (auto simp: success_iffs dbFind_run newId_run permissionsI.create_Inr_iff permissionsI.update_Inr_iff
      dest!: findFirst_SomeD split: option.splits)

lemma permission_step:
  assumes "upsertPermission E x w = (Inr (), w')"
  shows "permissionSeeded x (w_db w')"
proof -
  obtain resource action description where x: "x = (resource, action, description)" by (cases x) auto
  from upsertPermission_Inr [OF assms [unfolded x]] show ?thesis
  proof (elim disjE bexE exE conjE)
    fix p
    assume "p \<in> set (permissions (w_db w))" "p_resource p = resource" "p_action p = action"
      and db: "w_db w' = permissions_update (updateRows (\<lambda>p. p_resource p = resource \<and> p_action p = action)
        (\<lambda>p. p\<lparr>p_description := Some description\<rparr>)) (w_db w)"
    then have "p\<lparr>p_description := Some description\<rparr> \<in> set (permissions (w_db w'))"
      by (auto simp: set_updateRows)
    then show ?thesis
      using \<open>p_resource p = resource\<close> \<open>p_action p = action\<close>
      by (auto simp: x permissionSeeded_def intro!: bexI [of _ "p\<lparr>p_description := Some description\<rparr>"])
  qed (auto simp: x permissionSeeded_def)
qed

lemma permission_frame:
  assumes "upsertPermission E x w = (Inr (), w')" and "(fst x, fst (snd x)) \<noteq> (fst y, fst (snd y))"
    and "permissionSeeded y (w_db w)"
  shows "permissionSeeded y (w_db w')"
  using assms(3) upsertPermission_Inr [of E "fst x" "fst (snd x)" "snd (snd x)" w w'] assms(1,2)
  by (fastforce simp: permissionSeeded_def set_updateRows split: prod.splits)

lemma permissions_seeded:
  assumes "seedPermissions E w = (Inr (), w')"
  shows "\<forall>x \<in> set PERMISSIONS. permissionSeeded x (w_db w')"
proof -
  have "distinct (map (\<lambda>x. (fst x, fst (snd x))) PERMISSIONS)" by (simp add: PERMISSIONS_def)
  then have "distinct PERMISSIONS" and differ: "\<And>x y. x \<in> set PERMISSIONS \<Longrightarrow> y \<in> set PERMISSIONS \<Longrightarrow> x \<noteq> y \<Longrightarrow>
      (fst x, fst (snd x)) \<noteq> (fst y, fst (snd y))"
    unfolding distinct_map inj_on_def by blast+
  have "True \<and> (\<forall>x \<in> set PERMISSIONS. permissionSeeded x (w_db w'))"
    by (rule forM_establishes [OF assms [unfolded seedPermissions_def] \<open>distinct PERMISSIONS\<close>])
      (use permission_step permission_frame differ in \<open>blast+\<close>)
  then show ?thesis by simp
qed

section \<open>System roles\<close>

definition roleRow :: "SystemRoleDef \<Rightarrow> Role \<Rightarrow> bool" where
  "roleRow role r \<longleftrightarrow> r_organizationId r = None \<and> r_slug r = sr_slug role \<and> r_name r = sr_name role \<and>
     r_description r = Some (sr_description role) \<and> r_isSystem r"

definition grantsOf :: "database \<Rightarrow> string \<Rightarrow> string set" where
  "grantsOf d rid = set (map rp_permissionId (filter (\<lambda>rp. rp_roleId rp = rid) (rolePermissions d)))"

text \<open>
  The seeded row and its grants; the script does not clear \<open>deletedAt\<close>, so the row may be one that
  was deleted.
\<close>

definition roleSeeded :: "SystemRoleDef \<Rightarrow> database \<Rightarrow> bool" where
  "roleSeeded role d \<longleftrightarrow> (\<exists>r \<in> set (roles d). roleRow role r \<and>
     grantsOf d (r_id r) = p_id ` set (permissionsFor role (permissions d)))"

lemma upsertSystemRole_Inr:
  assumes "upsertSystemRole E role w = (Inr r, v)" and "distinct (map r_id (roles (w_db w)))"
  shows "permissions (w_db v) = permissions (w_db w) \<and> rolePermissions (w_db v) = rolePermissions (w_db w) \<and> distinct (map r_id (roles (w_db v))) \<and>
    r \<in> set (roles (w_db v)) \<and> roleRow role r \<and>
    (\<forall>r' \<in> set (roles (w_db w)). r_slug r' \<noteq> sr_slug role \<longrightarrow> r' \<in> set (roles (w_db v)) \<and> r_id r' \<noteq> r_id r)"
proof (cases "findFirst (\<lambda>r. r_organizationId r = None \<and> r_slug r = sr_slug role) (roles (w_db w))")
  case None
  with assms show ?thesis
    by (auto simp: upsertSystemRole_def success_iffs dbFind_run newId_run rolesI.create_Inr_iff roleRow_def)
next
  case (Some e)
  then have e: "e \<in> set (roles (w_db w))" "r_organizationId e = None" "r_slug e = sr_slug role"
    using findFirst_SomeD [OF Some] by auto
  let ?f = "\<lambda>r. r\<lparr>r_name := sr_name role, r_description := Some (sr_description role), r_isSystem := True\<rparr>"
  have same: "r' = e" if "r' \<in> set (roles (w_db w))" "r_id r' = r_id e" for r'
    using assms(2) e(1) that by (auto simp: distinct_map dest: inj_onD)
  from assms(1) Some obtain r0 where found: "findFirst (\<lambda>r. r_id r = r_id e) (roles (w_db w)) = Some r0"
    and r: "r = ?f r0" and v: "v = w_db_update (roles_update (updateRows (\<lambda>r. r_id r = r_id e) ?f)) w"
    by (auto simp: upsertSystemRole_def success_iffs dbFind_run rolesI.update_Inr_iff)
  have "r0 = e" using findFirst_SomeD [OF found] same by auto
  then have "r \<in> set (roles (w_db v))" using e(1) by (auto simp: r v set_updateRows)
  moreover have "r' \<in> set (roles (w_db v)) \<and> r_id r' \<noteq> r_id r"
    if "r' \<in> set (roles (w_db w))" "r_slug r' \<noteq> sr_slug role" for r'
  proof -
    have "r_id r' \<noteq> r_id e" using same [OF that(1)] that(2) e(3) by auto
    with that(1) show ?thesis by (auto simp: r v \<open>r0 = e\<close> set_updateRows)
  qed
  ultimately show ?thesis
    using assms(2) e by (auto simp: v r \<open>r0 = e\<close> roleRow_def map_updateRows_key)
qed

lemma grantsOf_append:
  "rolePermissions d' = rolePermissions d @ map (\<lambda>pid. \<lparr>rp_roleId = rid, rp_permissionId = pid\<rparr>) pids \<Longrightarrow>
   grantsOf d' i = grantsOf d i \<union> (if i = rid then set pids else {})"
  by (simp add: grantsOf_def filter_map o_def)

lemma createRolePermissions_Inr:
  assumes "createRolePermissions rid pids w = (Inr (), v)"
  shows "permissions (w_db v) = permissions (w_db w) \<and> roles (w_db v) = roles (w_db w) \<and>
    (\<forall>i. grantsOf (w_db v) i = grantsOf (w_db w) i \<union> (if i = rid then set pids else {}))"
proof -
  let ?old = "rolePermissions (w_db w)"
  let ?new = "filter (\<lambda>pid. \<not> (\<exists>rp \<in> set ?old. rp_roleId rp = rid \<and> rp_permissionId rp = pid)) (remdups pids)"
  from assms have v: "v = w_db_update (rolePermissions_update (\<lambda>_. ?old @ map (\<lambda>pid. \<lparr>rp_roleId = rid, rp_permissionId = pid\<rparr>) ?new)) w"
    by (auto simp: createRolePermissions_def split: if_splits)
  have "grantsOf (w_db v) i = grantsOf (w_db w) i \<union> (if i = rid then set ?new else {})" for i
    by (rule grantsOf_append) (simp add: v)
  moreover have "grantsOf (w_db w) rid \<union> set ?new = grantsOf (w_db w) rid \<union> set pids"
    by (auto simp: grantsOf_def)
  ultimately show ?thesis by (simp add: v)
qed

lemma seedSystemRole_Inr:
  assumes "seedSystemRole E allPermissions role w = (Inr (), w')" and "distinct (map r_id (roles (w_db w)))"
    and "permissions (w_db w) = allPermissions"
  shows "(distinct (map r_id (roles (w_db w'))) \<and> permissions (w_db w') = allPermissions) \<and> roleSeeded role (w_db w')"
    and "sr_slug role' \<noteq> sr_slug role \<Longrightarrow> roleSeeded role' (w_db w) \<Longrightarrow> roleSeeded role' (w_db w')"
proof -
  from assms(1) obtain r v where v: "upsertSystemRole E role w = (Inr r, v)"
    and rest: "(if permissionsFor role allPermissions = [] then returnM ()
      else createRolePermissions (r_id r) (map p_id (permissionsFor role allPermissions)))
      (w_db_update (rolePermissions_update (deleteRows (\<lambda>rp. rp_roleId rp = r_id r))) v) = (Inr (), w')"
    by (auto simp: seedSystemRole_def success_iffs Let_def dbDeleteMany_run whenM_def split: if_splits)
  let ?u = "w_db_update (rolePermissions_update (deleteRows (\<lambda>rp. rp_roleId rp = r_id r))) v"
  note r = upsertSystemRole_Inr [OF v assms(2)]
  have deleted: "grantsOf (w_db ?u) i = (if i = r_id r then {} else grantsOf (w_db v) i)" for i
    by (auto simp: grantsOf_def deleteRows_def)
  have w': "permissions (w_db w') = permissions (w_db v) \<and> roles (w_db w') = roles (w_db v) \<and>
      (\<forall>i. grantsOf (w_db w') i = (if i = r_id r then p_id ` set (permissionsFor role allPermissions) else grantsOf (w_db v) i))"
  proof (cases "permissionsFor role allPermissions = []")
    case True
    with rest have "w' = ?u" by simp
    with True deleted show ?thesis by simp
  next
    case False
    with rest have "createRolePermissions (r_id r) (map p_id (permissionsFor role allPermissions)) ?u = (Inr (), w')"
      by simp
    from createRolePermissions_Inr [OF this] deleted show ?thesis by simp
  qed
  have same: "permissions (w_db v) = allPermissions" using r assms(3) by simp
  show "(distinct (map r_id (roles (w_db w'))) \<and> permissions (w_db w') = allPermissions) \<and> roleSeeded role (w_db w')"
    using w' r same by (auto simp: roleSeeded_def)
  have grants: "grantsOf (w_db v) i = grantsOf (w_db w) i" for i using r by (simp add: grantsOf_def)
  assume "sr_slug role' \<noteq> sr_slug role" and "roleSeeded role' (w_db w)"
  then obtain r' where r': "r' \<in> set (roles (w_db w))" "roleRow role' r'" "r_slug r' \<noteq> sr_slug role"
    "grantsOf (w_db w) (r_id r') = p_id ` set (permissionsFor role' (permissions (w_db w)))"
    by (auto simp: roleSeeded_def roleRow_def)
  then have "r' \<in> set (roles (w_db v))" "r_id r' \<noteq> r_id r" using r by auto
  with r' show "roleSeeded role' (w_db w')"
    by (auto simp: roleSeeded_def w' grants same assms(3) intro!: bexI [of _ r'])
qed

lemma systemRoles_seeded:
  assumes "seedSystemRoles E w = (Inr (), w')" and "distinct (map r_id (roles (w_db w)))"
  shows "permissions (w_db w') = permissions (w_db w)" and "\<forall>role \<in> set SYSTEM_ROLES. roleSeeded role (w_db w')"
proof -
  have "distinct (map sr_slug SYSTEM_ROLES)" by (simp add: SYSTEM_ROLES_def)
  then have "distinct SYSTEM_ROLES" and differ: "\<And>x y. x \<in> set SYSTEM_ROLES \<Longrightarrow> y \<in> set SYSTEM_ROLES \<Longrightarrow> x \<noteq> y \<Longrightarrow>
      sr_slug y \<noteq> sr_slug x"
    unfolding distinct_map inj_on_def by blast+
  let ?I = "\<lambda>v. distinct (map r_id (roles (w_db v))) \<and> permissions (w_db v) = permissions (w_db w)"
  from assms(1) have run: "forM SYSTEM_ROLES (seedSystemRole E (permissions (w_db w))) w = (Inr (), w')"
    by (simp add: seedSystemRoles_def success_iffs dbFindMany_run findMany_def)
  have "?I w' \<and> (\<forall>role \<in> set SYSTEM_ROLES. roleSeeded role (w_db w'))"
    by (rule forM_establishes [OF run \<open>distinct SYSTEM_ROLES\<close>])
      (use assms(2) seedSystemRole_Inr differ in \<open>simp; blast\<close>)+
  then show "permissions (w_db w') = permissions (w_db w)" and "\<forall>role \<in> set SYSTEM_ROLES. roleSeeded role (w_db w')"
    by simp_all
qed

section \<open>Default policies\<close>

definition policyRow :: "SeedPolicy \<Rightarrow> Policy \<Rightarrow> bool" where
  "policyRow policy p \<longleftrightarrow> pol_organizationId p = None \<and> pol_slug p = se_slug policy \<and> pol_name p = se_name policy \<and>
     pol_effect p = se_effect policy \<and> pol_resource p = se_resource policy \<and> pol_action p = se_action policy \<and>
     pol_priority p = se_priority policy \<and> pol_isSystem p"

definition conditionFields :: "PolicyCondition \<Rightarrow> CreatePolicyConditionDto" where
  "conditionFields c = \<lparr>cpc_attributeSource = pc_attributeSource c, cpc_attributePath = pc_attributePath c,
     cpc_operator = pc_operator c, cpc_value = pc_value c, cpc_valueType = Some (pc_valueType c)\<rparr>"

text \<open>The seeded row and its conditions; the row may be deleted or disabled, for the same reason.\<close>

definition policySeeded :: "SeedPolicy \<Rightarrow> database \<Rightarrow> bool" where
  "policySeeded policy d \<longleftrightarrow> (\<exists>p \<in> set (policies d). policyRow policy p \<and>
     map conditionFields (conditionsOf d (pol_id p)) = se_conditions policy)"

lemma upsertPolicyRow_Inr:
  assumes "upsertPolicyRow E policy w = (Inr p, v)" and "distinct (map pol_id (policies (w_db w)))"
  shows "w_db v = w_db w\<lparr>policies := policies (w_db v)\<rparr> \<and> distinct (map pol_id (policies (w_db v))) \<and>
    p \<in> set (policies (w_db v)) \<and> policyRow policy p \<and>
    (\<forall>p' \<in> set (policies (w_db w)). pol_slug p' \<noteq> se_slug policy \<longrightarrow> p' \<in> set (policies (w_db v)) \<and> pol_id p' \<noteq> pol_id p)"
proof (cases "findFirst (\<lambda>p. pol_organizationId p = None \<and> pol_slug p = se_slug policy) (policies (w_db w))")
  case None
  with assms show ?thesis
    by (auto simp: upsertPolicyRow_def success_iffs dbFind_run newId_run policiesI.create_Inr_iff policyRow_def)
next
  case (Some e)
  then have e: "e \<in> set (policies (w_db w))" "pol_organizationId e = None" "pol_slug e = se_slug policy"
    using findFirst_SomeD [OF Some] by auto
  let ?f = "\<lambda>p. p\<lparr>pol_name := se_name policy, pol_effect := se_effect policy, pol_resource := se_resource policy,
    pol_action := se_action policy, pol_priority := se_priority policy, pol_isSystem := True\<rparr>"
  from assms(1) Some have p: "p = ?f e" and v: "v = w_db_update (policies_update (updateRows (\<lambda>p. pol_id p = pol_id e) ?f)) w"
    using findFirst_key [OF assms(2) e(1)]
    by (auto simp: upsertPolicyRow_def success_iffs dbFind_run policiesI.update_Inr_iff)
  have "p \<in> set (policies (w_db v))" using e(1) by (auto simp: p v set_updateRows)
  moreover have "p' \<in> set (policies (w_db v)) \<and> pol_id p' \<noteq> pol_id p"
    if "p' \<in> set (policies (w_db w))" "pol_slug p' \<noteq> se_slug policy" for p'
  proof -
    have "pol_id p' \<noteq> pol_id e"
      using assms(2) e(1,3) that by (auto simp: distinct_map dest: inj_onD)
    with that(1) show ?thesis by (auto simp: p v set_updateRows)
  qed
  ultimately show ?thesis
    using assms(2) e by (auto simp: v p policyRow_def map_updateRows_key)
qed

lemma createCondition_Inr:
  assumes "createCondition E pid c w = (Inr r, u)"
  shows "\<exists>cid. w_db u = policyConditions_update (\<lambda>rows. rows @ [conditionData cid pid c]) (w_db w)"
  using assms
  by (auto simp: createCondition_def success_iffs newId_run policyConditionsI.create_Inr_iff)

lemma createConditions_Inr:
  assumes "createConditions E pid dtos w = (Inr (), v)" and "list_all (\<lambda>c. cpc_valueType c \<noteq> None) dtos"
  shows "\<exists>rows. w_db v = w_db w\<lparr>policyConditions := policyConditions (w_db w) @ rows\<rparr> \<and>
    map conditionFields rows = dtos \<and> list_all (\<lambda>c. pc_policyId c = pid) rows"
proof -
  have "\<exists>rows. w_db v = w_db w\<lparr>policyConditions := policyConditions (w_db w) @ rows\<rparr> \<and>
      map conditionFields rows = dtos \<and> list_all (\<lambda>c. pc_policyId c = pid) rows"
    if "forM dtos (\<lambda>c. bindM (createCondition E pid c) (\<lambda>_. returnM ())) w = (Inr (), v)" and
      "list_all (\<lambda>c. cpc_valueType c \<noteq> None) dtos"
    using that
  proof (induction dtos arbitrary: w)
    case (Cons c dtos)
    from Cons.prems(1) obtain u where first: "bindM (createCondition E pid c) (\<lambda>_. returnM ()) w = (Inr (), u)"
      and rest: "forM dtos (\<lambda>c. bindM (createCondition E pid c) (\<lambda>_. returnM ())) u = (Inr (), v)"
      by (simp only: forM_Cons_Inr_iff) blast
    from first obtain r where "createCondition E pid c w = (Inr r, u)" by (auto simp: success_iffs)
    from createCondition_Inr [OF this] obtain cid where
      u: "w_db u = policyConditions_update (\<lambda>rows. rows @ [conditionData cid pid c]) (w_db w)" by blast
    from Cons.IH [OF rest] Cons.prems(2) obtain rows
      where rows: "w_db v = w_db u\<lparr>policyConditions := policyConditions (w_db u) @ rows\<rparr>"
        "map conditionFields rows = dtos" "list_all (\<lambda>c. pc_policyId c = pid) rows" by auto
    have "conditionFields (conditionData cid pid c) = c" "pc_policyId (conditionData cid pid c) = pid"
      using Cons.prems(2) by (cases c; auto simp: conditionFields_def conditionData_def orDefault_def)+
    with rows u show ?case by (intro exI [of _ "conditionData cid pid c # rows"]) simp
  qed (intro exI [of _ "[]"], simp)
  with assms show ?thesis by (auto simp: createConditions_def success_iffs)
qed

lemma upsertPolicy_Inr:
  assumes "upsertPolicy E policy w = (Inr (), w')" and "distinct (map pol_id (policies (w_db w)))"
    and "list_all (\<lambda>c. cpc_valueType c \<noteq> None) (se_conditions policy)"
  shows "w_db w' = w_db w\<lparr>policies := policies (w_db w'), policyConditions := policyConditions (w_db w')\<rparr> \<and>
      distinct (map pol_id (policies (w_db w'))) \<and> policySeeded policy (w_db w')"
    and "se_slug policy' \<noteq> se_slug policy \<Longrightarrow> policySeeded policy' (w_db w) \<Longrightarrow> policySeeded policy' (w_db w')"
proof -
  from assms(1) obtain p v where v: "upsertPolicyRow E policy w = (Inr p, v)"
    and rest: "(if se_conditions policy = [] then returnM () else createConditions E (pol_id p) (se_conditions policy))
      (w_db_update (policyConditions_update (deleteRows (\<lambda>c. pc_policyId c = pol_id p))) v) = (Inr (), w')"
    by (auto simp: upsertPolicy_def success_iffs dbDeleteMany_run whenM_def split: if_splits)
  let ?u = "w_db_update (policyConditions_update (deleteRows (\<lambda>c. pc_policyId c = pol_id p))) v"
  note p = upsertPolicyRow_Inr [OF v assms(2)]
  obtain rows where w': "w_db w' = w_db ?u\<lparr>policyConditions := policyConditions (w_db ?u) @ rows\<rparr>"
    and rows: "map conditionFields rows = se_conditions policy" "list_all (\<lambda>c. pc_policyId c = pol_id p) rows"
  proof (cases "se_conditions policy = []")
    case True
    with rest have "w' = ?u" by simp
    with True show ?thesis by (intro that [of "[]"]) simp_all
  next
    case False
    with rest have "createConditions E (pol_id p) (se_conditions policy) ?u = (Inr (), w')" by simp
    from createConditions_Inr [OF this assms(3)] show ?thesis using that by blast
  qed
  have tables: "policies (w_db w') = policies (w_db v)"
    "policyConditions (w_db w') = deleteRows (\<lambda>c. pc_policyId c = pol_id p) (policyConditions (w_db v)) @ rows"
    by (simp_all add: w')
  have conditions: "conditionsOf (w_db w') i = (if i = pol_id p then rows else conditionsOf (w_db v) i)" for i
    using rows(2) by (auto simp: conditionsOf_def findMany_def tables deleteRows_def filter_empty_conv list_all_iff
        intro!: filter_True filter_cong)
  show "w_db w' = w_db w\<lparr>policies := policies (w_db w'), policyConditions := policyConditions (w_db w')\<rparr> \<and>
      distinct (map pol_id (policies (w_db w'))) \<and> policySeeded policy (w_db w')"
  proof (intro conjI)
    have "w_db v = w_db w\<lparr>policies := policies (w_db v)\<rparr>" using p by simp
    then show "w_db w' = w_db w\<lparr>policies := policies (w_db w'), policyConditions := policyConditions (w_db w')\<rparr>"
      by (simp add: w')
  qed (use p rows(1) in \<open>auto simp: policySeeded_def tables conditions\<close>)
  have "policyConditions (w_db v) = policyConditions (w_db w)"
    using p by (metis (no_types, lifting) database.ext_inject database.surjective database.update_convs)
  then have before: "conditionsOf (w_db v) i = conditionsOf (w_db w) i" for i by (simp add: conditionsOf_def)
  assume "se_slug policy' \<noteq> se_slug policy" and "policySeeded policy' (w_db w)"
  then obtain p' where p': "p' \<in> set (policies (w_db w))" "policyRow policy' p'" "pol_slug p' \<noteq> se_slug policy"
    "map conditionFields (conditionsOf (w_db w) (pol_id p')) = se_conditions policy'"
    by (auto simp: policySeeded_def policyRow_def)
  then have "p' \<in> set (policies (w_db v))" "pol_id p' \<noteq> pol_id p" using p by auto
  with p' show "policySeeded policy' (w_db w')"
    by (auto simp: policySeeded_def tables conditions before intro!: bexI [of _ p'])
qed

lemma defaultPolicies_seeded:
  assumes "seedDefaultPolicies E w = (Inr (), w')" and "distinct (map pol_id (policies (w_db w)))"
  shows "w_db w' = w_db w\<lparr>policies := policies (w_db w'), policyConditions := policyConditions (w_db w')\<rparr>"
    and "\<forall>policy \<in> set DEFAULT_POLICIES. policySeeded policy (w_db w')"
proof -
  have "distinct (map se_slug DEFAULT_POLICIES)"
    and typed: "list_all (\<lambda>p. list_all (\<lambda>c. cpc_valueType c \<noteq> None) (se_conditions p)) DEFAULT_POLICIES"
    by (simp_all add: DEFAULT_POLICIES_def seedCondition_def)
  then have "distinct DEFAULT_POLICIES"
    and differ: "\<And>x y. x \<in> set DEFAULT_POLICIES \<Longrightarrow> y \<in> set DEFAULT_POLICIES \<Longrightarrow> x \<noteq> y \<Longrightarrow> se_slug y \<noteq> se_slug x"
    and typed': "\<And>x. x \<in> set DEFAULT_POLICIES \<Longrightarrow> list_all (\<lambda>c. cpc_valueType c \<noteq> None) (se_conditions x)"
    unfolding distinct_map inj_on_def list_all_iff by blast+
  let ?I = "\<lambda>v. distinct (map pol_id (policies (w_db v))) \<and>
    w_db v = w_db w\<lparr>policies := policies (w_db v), policyConditions := policyConditions (w_db v)\<rparr>"
  have "?I w' \<and> (\<forall>policy \<in> set DEFAULT_POLICIES. policySeeded policy (w_db w'))"
  proof (rule forM_establishes [OF assms(1) [unfolded seedDefaultPolicies_def] \<open>distinct DEFAULT_POLICIES\<close>])
    fix x v v'
    assume "x \<in> set DEFAULT_POLICIES" and v: "?I v" and run: "upsertPolicy E x v = (Inr (), v')"
    note step = upsertPolicy_Inr(1) [OF run conjunct1 [OF v] typed' [OF \<open>x \<in> set DEFAULT_POLICIES\<close>]]
    then have "w_db v' = w_db v\<lparr>policies := policies (w_db v'), policyConditions := policyConditions (w_db v')\<rparr>" by simp
    also have "\<dots> = w_db w\<lparr>policies := policies (w_db v'), policyConditions := policyConditions (w_db v')\<rparr>"
      by (subst conjunct2 [OF v]) simp
    finally show "?I v' \<and> policySeeded x (w_db v')" using step by simp
  next
    fix x y v v'
    assume xy: "x \<in> set DEFAULT_POLICIES" "y \<in> set DEFAULT_POLICIES" "x \<noteq> y" and v: "?I v"
      and y: "policySeeded y (w_db v)" and run: "upsertPolicy E x v = (Inr (), v')"
    show "policySeeded y (w_db v')"
      by (rule upsertPolicy_Inr(2) [OF run conjunct1 [OF v] typed' [OF xy(1)] differ [OF xy] y])
  qed (use assms(2) in simp)
  then show "w_db w' = w_db w\<lparr>policies := policies (w_db w'), policyConditions := policyConditions (w_db w')\<rparr>"
    and "\<forall>policy \<in> set DEFAULT_POLICIES. policySeeded policy (w_db w')"
    by simp_all
qed

section \<open>The whole script\<close>

lemma seedPermissions_keeps:
  "keeps (dbInv (\<lambda>d. roles d = R \<and> policies d = P)) (seedPermissions E)"
  unfolding seedPermissions_def upsertPermission_def split_def
  by (intro keeps_intros keeps_dbCreate keeps_dbUpdate) simp_all

lemma seedSystemRoles_keeps:
  "keeps (dbInv (\<lambda>d. policies d = P)) (seedSystemRoles E)"
proof -
  have "keeps (dbInv (\<lambda>d. policies d = P)) (createRolePermissions rid pids)" for rid pids
    by (simp add: keeps_def dbInv_def createRolePermissions_def)
  then show ?thesis
    unfolding seedSystemRoles_def seedSystemRole_def upsertSystemRole_def Let_def
    by (intro keeps_intros keeps_dbCreate keeps_dbUpdate keeps_dbDeleteMany) simp_all
qed

lemma seedDefaultPolicies_enabled:
  "keeps (dbInv (\<lambda>d. \<forall>p \<in> set (policies d). pol_isEnabled p \<and> pol_deletedAt p = None)) (seedDefaultPolicies E)"
  unfolding seedDefaultPolicies_def upsertPolicy_def upsertPolicyRow_def createConditions_def createCondition_def
  by (intro keeps_intros keeps_dbCreate keeps_dbUpdate keeps_dbDeleteMany) (auto simp: set_updateRows)

lemma seed_phases:
  assumes "seed E w = (Inr (), w')"
  obtains u v where "seedPermissions E w = (Inr (), u)" and "seedSystemRoles E u = (Inr (), v)"
    and "seedDefaultPolicies E v = (Inr (), w')"
    and "roles (w_db u) = roles (w_db w)" and "policies (w_db v) = policies (w_db w)"
proof -
  from assms obtain u v where u: "seedPermissions E w = (Inr (), u)" and v: "seedSystemRoles E u = (Inr (), v)"
    and w': "seedDefaultPolicies E v = (Inr (), w')"
    by (auto simp: seed_def thenM_Inr_iff)
  have "roles (w_db u) = roles (w_db w) \<and> policies (w_db u) = policies (w_db w)"
    using seedPermissions_keeps [of "roles (w_db w)" "policies (w_db w)" E] u by (force simp: keeps_def dbInv_def)
  moreover have "policies (w_db v) = policies (w_db u)"
    using seedSystemRoles_keeps [of "policies (w_db u)" E] v by (force simp: keeps_def dbInv_def)
  ultimately show thesis using that [OF u v w'] by simp
qed

text \<open>
  C31: running the seed script to its end, on an empty database or on one in use, establishes all
  default data: every listed permission exists with its description, every system role exists as
  a global system role and grants exactly the permissions it is defined with (\<open>admin\<close> and
  \<open>super-admin\<close> all there are), and every default policy exists as a global system policy with
  its effect, target, priority and exactly its conditions.  An existing row keeps its deletion and
  its enabled mark: the script sets neither on a row it finds.
\<close>

theorem seed_establishes_defaults:
  assumes "schemaOk (w_db w)" and "seed E w = (Inr (), w')"
  shows "(\<forall>x \<in> set PERMISSIONS. permissionSeeded x (w_db w')) \<and> (\<forall>role \<in> set SYSTEM_ROLES. roleSeeded role (w_db w')) \<and>
    (\<forall>policy \<in> set DEFAULT_POLICIES. policySeeded policy (w_db w'))"
proof -
  from assms(2) obtain u v where u: "seedPermissions E w = (Inr (), u)" and v: "seedSystemRoles E u = (Inr (), v)"
    and w': "seedDefaultPolicies E v = (Inr (), w')"
    and same: "roles (w_db u) = roles (w_db w)" "policies (w_db v) = policies (w_db w)"
    by (rule seed_phases)
  have keys: "distinct (map r_id (roles (w_db u)))" "distinct (map pol_id (policies (w_db v)))"
    using assms(1) by (simp_all add: same schemaOk_def rolesOk_def policiesOk_def)
  note roles = systemRoles_seeded [OF v keys(1)] and policies = defaultPolicies_seeded [OF w' keys(2)]
  have "\<forall>x \<in> set PERMISSIONS. permissionSeeded x (w_db w')"
    using permissions_seeded [OF u] roles(1) by (subst policies(1)) (simp add: permissionSeeded_def split_def)
  moreover have "\<forall>role \<in> set SYSTEM_ROLES. roleSeeded role (w_db w')"
    using roles(2) by (subst policies(1)) (simp add: roleSeeded_def grantsOf_def)
  ultimately show ?thesis using policies(2) by simp
qed

section \<open>Two definitions of the system roles\<close>

text \<open>
  The script and the constants of the authorization module agree on the permissions and on the roles
  but one: the constants let a manager create and delete users, the script does not.
\<close>

theorem role_definitions_disagree_on_managers:
  "DEFAULT_PERMISSIONS = PERMISSIONS \<and>
   list_all (\<lambda>role. filter (\<lambda>g. g \<notin> set (seededGrants role)) (defaultGrants (sr_slug role)) =
       (if sr_slug role = ''manager'' then [(''users'', ''create''), (''users'', ''delete'')] else []) \<and>
     list_all (\<lambda>g. g \<in> set (defaultGrants (sr_slug role))) (seededGrants role)) SYSTEM_ROLES"
  by (simp add: DEFAULT_PERMISSIONS_def PERMISSIONS_def SYSTEM_ROLES_def defaultGrants_def SYSTEM_ROLE_DEFAULTS_def
      seededGrants_def)

section \<open>A permission no role has\<close>

lemma seedPermissions_resources:
  "keeps (dbInv (\<lambda>d. \<forall>p \<in> set (permissions d). p_resource p \<in> fst ` set PERMISSIONS)) (seedPermissions E)"
proof -
  let ?J = "\<lambda>d. \<forall>p \<in> set (permissions d). p_resource p \<in> fst ` set PERMISSIONS"
  have "keeps (dbInv ?J) (upsertPermission E x)" if "x \<in> set PERMISSIONS" for x
    unfolding upsertPermission_def split_def using that
    by (intro keeps_intros keeps_dbCreate keeps_dbUpdate) (auto simp: set_updateRows)
  then have "keeps (dbInv ?J) (forM xs (upsertPermission E))" if "set xs \<subseteq> set PERMISSIONS" for xs
    using that by (induction xs) (auto intro!: keeps_thenM keeps_returnM)
  then show ?thesis by (simp add: seedPermissions_def)
qed

text \<open>
  The routes of the SSO configuration and of the organization's MFA policy require a permission
  on \<open>organization\<close>, but the seed script defines the resource as \<open>organizations\<close> and no wildcard:
  on a database seeded from empty, as long as no permission is added, no set of role assignments
  gives a member that permission, not even the role \<open>super-admin\<close>.
\<close>

theorem no_role_manages_sso:
  assumes "permissions (w_db w) = []" and "schemaOk (w_db w)" and "seed E w = (Inr (), w')"
    and "permissions d = permissions (w_db w')"
  shows "\<not> roleGrants d mid ''organization'' action"
proof -
  from assms(3) obtain u v where u: "seedPermissions E w = (Inr (), u)" and v: "seedSystemRoles E u = (Inr (), v)"
    and w': "seedDefaultPolicies E v = (Inr (), w')"
    and same: "roles (w_db u) = roles (w_db w)" "policies (w_db v) = policies (w_db w)"
    by (rule seed_phases)
  have keys: "distinct (map r_id (roles (w_db u)))" "distinct (map pol_id (policies (w_db v)))"
    using assms(2) by (simp_all add: same schemaOk_def rolesOk_def policiesOk_def)
  have "permissions d = permissions (w_db u)"
    using systemRoles_seeded(1) [OF v keys(1)] assms(4) by (subst (asm) defaultPolicies_seeded(1) [OF w' keys(2)]) simp
  moreover have "\<forall>p \<in> set (permissions (w_db u)). p_resource p \<in> fst ` set PERMISSIONS"
    using keepsE [OF seedPermissions_resources [of E], of w] u assms(1) by (simp add: dbInv_def)
  ultimately have "p_resource p \<noteq> ''organization'' \<and> p_resource p \<noteq> ''*''" if "p \<in> set (permissions d)" for p
    using that by (force simp: PERMISSIONS_def)
  then show ?thesis by (auto simp: roleGrants_def)
qed

section \<open>Who the administrators' policy is for\<close>

lemma js_includes_iff: "js_includes s p \<longleftrightarrow> (\<exists>u v. s = u @ p @ v)"
proof (induction s)
  case (Cons c s)
  have "startsWith (c # s) p \<longleftrightarrow> (\<exists>v. c # s = p @ v)"
    unfolding startsWith_def by (metis append_eq_conv_conj)
  moreover have "(\<exists>u v. c # s = u @ p @ v) \<longleftrightarrow> (\<exists>v. c # s = p @ v) \<or> (\<exists>u v. s = u @ p @ v)"
    by (metis append_Cons append_Nil list.exhaust list.inject)
  ultimately show ?case using Cons.IH by simp
qed auto

lemma separator_splits:
  assumes "c \<notin> set p" and "a @ c # b = u @ p @ v" and "p \<noteq> []"
  shows "(\<exists>x y. a = x @ p @ y) \<or> (\<exists>x y. b = x @ p @ y)"
proof -
  from assms(2) consider zs where "u = a @ zs" "c # b = zs @ p @ v" | zs where "a = u @ zs" "p @ v = zs @ c # b"
    by (metis append_eq_append_conv2)
  then show ?thesis
  proof cases
    case 1
    with assms(1,3) show ?thesis by (cases zs) (auto simp: Cons_eq_append_conv)
  next
    case 2
    from 2(2) assms(1) obtain ys where "zs = p @ ys"
      by (auto simp: append_eq_append_conv2 append_eq_Cons_conv Cons_eq_append_conv)
    with 2(1) show ?thesis by auto
  qed
qed

lemma js_includes_join:
  assumes "c \<notin> set p" and "p \<noteq> []"
  shows "js_includes (js_join [c] xs) p \<longleftrightarrow> (\<exists>x \<in> set xs. js_includes x p)"
proof (induction "[c]" xs rule: js_join.induct)
  case (3 x y xs)
  have "js_includes (x @ c # t) p \<longleftrightarrow> js_includes x p \<or> js_includes t p" for t
    unfolding js_includes_iff
    by (metis append.assoc append_Cons separator_splits [OF assms(1) _ assms(2)])
  with 3 show ?case by simp
qed (use assms(2) in simp_all)

definition adminPolicy :: SeedPolicy where
  "adminPolicy = DEFAULT_POLICIES ! 3"

lemma adminPolicy_unfold:
  "se_resource adminPolicy = ''*''" "se_action adminPolicy = ''*''" "se_effect adminPolicy = ALLOW"
  "se_conditions adminPolicy = seedCondition MEMBERSHIP ''roles'' CONTAINS ''admin''"
  by (simp_all add: adminPolicy_def DEFAULT_POLICIES_def)

lemma policyHolds_condition:
  assumes "map conditionFields cs = [dto]"
  shows "\<exists>cid. map serializeCondition cs = [\<lparr>spc_id = cid, spc_attributeSource = cpc_attributeSource dto,
    spc_attributePath = cpc_attributePath dto, spc_operator = cpc_operator dto, spc_value = cpc_value dto,
    spc_valueType = the (cpc_valueType dto)\<rparr>]"
  using assms by (auto simp: conditionFields_def serializeCondition_def)

text \<open>
  C17: the seeded policy \<open>admin-can-access-all-org-resources\<close> does not look for the role
  \<open>admin\<close> among the roles of the member: its value type STRING turns the list of role slugs into
  one text first, so that CONTAINS searches a substring.  It applies to a request for any resource
  exactly when the slug of some role has \<open>admin\<close> in it; a role \<open>billing-admin-readonly\<close> without any
  permission opens everything in the organization.
\<close>

theorem admin_policy_matches_substrings:
  assumes "p \<in> set (policies (w_db w))" and "policyRow adminPolicy p" and "pol_isEnabled p" and "pol_deletedAt p = None"
    and "map conditionFields (conditionsOf (w_db w) (pol_id p)) = se_conditions adminPolicy"
    and "ax_attributes ctx = attributesOf u m ob slugs"
    and "js_String (e_js E) (JArr (map JStr slugs)) = js_join '','' slugs"
  shows "(policyApplies E (w_now w) ctx (serializePolicy (w_db w) p) \<longleftrightarrow> (\<exists>s \<in> set slugs. js_includes s ''admin'')) \<and>
    ((\<exists>s \<in> set slugs. js_includes s ''admin'') \<longrightarrow> policyDecides E w ctx mid ALLOW)"
proof -
  let ?d = "w_db w"
  obtain cid where c: "sp_conditions (serializePolicy ?d p) = [\<lparr>spc_id = cid, spc_attributeSource = MEMBERSHIP,
      spc_attributePath = ''roles'', spc_operator = CONTAINS, spc_value = JStr ''admin'', spc_valueType = VT_STRING\<rparr>]"
    using assms(5) unfolding adminPolicy_unfold seedCondition_def
    by (auto simp: serializePolicy_def dest!: policyHolds_condition)
  have "resolveAttribute E (w_now w) ctx MEMBERSHIP ''roles'' = JArr (map JStr slugs)"
    by (simp add: resolveAttribute_def readPath_def rootFor_def assms(6) attributesOf_def js_get_def js_nullish_def)
  moreover have "resolveCompareTarget E (w_now w) ctx ''admin'' = JStr ''admin''"
    by (simp add: resolveCompareTarget_def splitReference_def isCapital_def)
  ultimately have "policyHolds E (w_now w) ctx (serializePolicy ?d p) \<longleftrightarrow> js_includes (js_join '','' slugs) ''admin''"
    unfolding policyHolds_def c
    by (simp add: evaluateCondition_def expectedValue_def coerceValue_def js_nullish_def assms(7) Let_def)
  moreover have "matchesResource (serializePolicy ?d p) (ax_resource ctx) (ax_action ctx)" "sp_isEnabled (serializePolicy ?d p)"
    using assms(2,3) by (simp_all add: matchesResource_def serializePolicy_def policyRow_def adminPolicy_unfold)
  ultimately have iff: "policyApplies E (w_now w) ctx (serializePolicy ?d p) \<longleftrightarrow> (\<exists>s \<in> set slugs. js_includes s ''admin'')"
    by (simp add: policyApplies_def js_includes_join)
  then show ?thesis
    using assms(1-4) by (auto simp: policyDecides_def policyInForce_def policyRow_def adminPolicy_unfold)
qed

section \<open>On an empty database\<close>

text \<open>\<open>String\<close> joins the texts of an array with commas.\<close>

fun joinString :: "jsval \<Rightarrow> string" where
  "joinString (JStr s) = s"
| "joinString (JArr vs) = js_join [CHR '',''] (map (\<lambda>v. case v of JStr s \<Rightarrow> s | _ \<Rightarrow> []) vs)"
| "joinString _ = []"

definition joinEnv :: env where
  "joinEnv = sampleEnv\<lparr>e_js := (e_js sampleEnv)\<lparr>js_String := joinString\<rparr>, e_uuid := show_nat\<rparr>"

definition seededWorld :: world where
  "seededWorld = snd (seed joinEnv (worldOf emptyDb))"

definition adminPolicyIn :: "database \<Rightarrow> Policy \<Rightarrow> bool" where
  "adminPolicyIn d p \<longleftrightarrow> policyRow adminPolicy p \<and> pol_isEnabled p \<and> pol_deletedAt p = None \<and>
     map conditionFields (conditionsOf d (pol_id p)) = se_conditions adminPolicy"

definition billingContext :: AuthorizationContext where
  "billingContext = contextFor (aliceAsks ''users'' ''delete'') [] []
     (attributesOf alice (memberOf ''ma'' ''alice'') acme [''billing-admin-readonly''])"

lemma seededWorld_run: "seed joinEnv (worldOf emptyDb) = (Inr (), seededWorld)"
proof -
  have "\<not> isl (fst (seed joinEnv (worldOf emptyDb)))" by code_simp
  from run_Inr [OF this] show ?thesis by (auto simp: seededWorld_def)
qed

lemma seededWorld_policies:
  "\<exists>p \<in> set (policies (w_db seededWorld)). adminPolicyIn (w_db seededWorld) p"
proof -
  from seededWorld_run obtain u v where v: "seedDefaultPolicies joinEnv v = (Inr (), seededWorld)"
    and same: "policies (w_db v) = []"
    by (rule seed_phases) (simp add: worldOf_def emptyDb_def)
  have "policySeeded adminPolicy (w_db seededWorld)"
    using defaultPolicies_seeded(2) [OF v] by (simp add: same adminPolicy_def DEFAULT_POLICIES_def)
  moreover have "pol_isEnabled p \<and> pol_deletedAt p = None" if "p \<in> set (policies (w_db seededWorld))" for p
    using keepsE [OF seedDefaultPolicies_enabled [of joinEnv], of v] that by (simp add: v same dbInv_def)
  ultimately show ?thesis by (auto simp: policySeeded_def adminPolicyIn_def)
qed

lemma emptyDb_ok: "schemaOk emptyDb" by code_simp

theorem seed_establishes_defaults_witness:
  "permissionSeeded (''users'', ''read'', ''Read users in the organization'') (w_db seededWorld)"
proof -
  from seed_establishes_defaults [OF _ seededWorld_run] emptyDb_ok
  show ?thesis by (simp add: worldOf_def PERMISSIONS_def)
qed

theorem no_role_manages_sso_witness:
  "\<not> roleGrants (w_db seededWorld) ''m'' ''organization'' ''manage''"
proof -
  from no_role_manages_sso [OF _ _ seededWorld_run refl] emptyDb_ok
  show ?thesis by (simp add: worldOf_def emptyDb_def)
qed

theorem admin_policy_matches_substrings_witness:
  "policyDecides joinEnv seededWorld billingContext ''ma'' ALLOW"
proof -
  obtain p where "p \<in> set (policies (w_db seededWorld))" "adminPolicyIn (w_db seededWorld) p"
    using seededWorld_policies by blast
  moreover have "ax_attributes billingContext = attributesOf alice (memberOf ''ma'' ''alice'') acme [''billing-admin-readonly'']"
    by (simp add: billingContext_def contextFor_def)
  moreover have "js_String (e_js joinEnv) (JArr (map JStr [''billing-admin-readonly''])) = js_join '','' [''billing-admin-readonly'']"
    and "js_includes ''billing-admin-readonly'' ''admin''" by code_simp+
  ultimately show ?thesis
    using admin_policy_matches_substrings [of p seededWorld billingContext alice "memberOf ''ma'' ''alice''" acme
        "[''billing-admin-readonly'']" joinEnv "''ma''"] by (simp add: adminPolicyIn_def)
qed

end
