(* ===== verification/Operations.thy ===== *)
theory Operations
  imports Http Config
begin

text \<open>
  What runs around the requests: the correlation id (\<open>common/middleware/correlation-id.middleware.ts\<close>,
  \<open>common/utils/request-context/request-context.ts\<close>), the hooks of the request log
  (\<open>infrastructure/logger/logger.module.ts\<close>), the health report
  (\<open>modules/health/health.service.ts\<close>), the remaining methods of the cache
  (\<open>infrastructure/cache/cache.service.ts\<close>) and the options the servers are connected with.
\<close>

section \<open>Correlation ids\<close>

definition CORRELATION_ID_HEADER :: string where
  "CORRELATION_ID_HEADER = ''x-correlation-id''"

text \<open>The id a client sends is taken over, otherwise one is drawn.\<close>

definition correlationIdFor :: "env \<Rightarrow> HttpRequest \<Rightarrow> string act" where
  "correlationIdFor E req =
     (case requestHeader req CORRELATION_ID_HEADER of
        Some incoming \<Rightarrow> if incoming \<noteq> [] then returnM incoming else newId E
      | None \<Rightarrow> newId E)"

text \<open>\<open>RequestContext.run\<close>: the store is in force during \<open>m\<close> only.\<close>

definition runInContext :: "RequestContextStore \<Rightarrow> 'a act \<Rightarrow> 'a act" where
  "runInContext store m = (\<lambda>w. case m (w\<lparr>w_ctx := Some store\<rparr>) of (r, w') \<Rightarrow> (r, w'\<lparr>w_ctx := w_ctx w\<rparr>))"

definition requestStore :: "string \<Rightarrow> HttpRequest \<Rightarrow> RequestContextStore" where
  "requestStore correlationId req = \<lparr>rc_correlationId = correlationId, rc_ip = extractClientIp req,
     rc_userAgent = extractUserAgent req, rc_userId = None\<rparr>"

record 'a HttpAnswer =
  ha_correlationHeader :: string
  ha_body :: "ApiErrorResponse + 'a ApiSuccessResponse"

text \<open>A request through the middleware, the route, the interceptor and the exception filter.\<close>

definition answerOf :: "env \<Rightarrow> (nat \<Rightarrow> string option) \<Rightarrow> string \<Rightarrow> string \<Rightarrow> 'a ApiSuccessResponse act \<Rightarrow>
  (ApiErrorResponse + 'a ApiSuccessResponse) act" where
  "answerOf E statusName correlationId originalUrl m = (\<lambda>w. case m w of
     (Inl e, w') \<Rightarrow> (Inr (Inl (errorResponse E statusName (Some correlationId) originalUrl w' e)), w')
   | (Inr a, w') \<Rightarrow> (Inr (Inr a), w'))"

definition serve ::
  "env \<Rightarrow> (nat \<Rightarrow> string option) \<Rightarrow> nat \<Rightarrow> string option \<Rightarrow> string \<Rightarrow> HttpRequest \<Rightarrow> 'a act \<Rightarrow> 'a HttpAnswer act" where
  "serve E statusName code message originalUrl req route =
     bindM (correlationIdFor E req) (\<lambda>correlationId.
     bindM (runInContext (requestStore correlationId req)
              (answerOf E statusName correlationId originalUrl (intercept E code message route))) (\<lambda>body.
     returnM \<lparr>ha_correlationHeader = correlationId, ha_body = body\<rparr>))"

text \<open>The hooks of the log: an id of its own, the context, and the level by the status.\<close>

definition genReqId :: "env \<Rightarrow> HttpRequest \<Rightarrow> string act" where
  "genReqId E req =
     (let incoming = requestHeader req (toLowerCase CORRELATION_ID_HEADER) in
      if truthy_str incoming then returnM (orDefault incoming []) else newId E)"

definition customProps :: "world \<Rightarrow> (string \<times> string option) option" where
  "customProps w = map_option (\<lambda>ctx. (rc_correlationId ctx, rc_userId ctx)) (w_ctx w)"

definition customLogLevel :: "nat \<Rightarrow> bool \<Rightarrow> string" where
  "customLogLevel statusCode failed =
     (if failed \<or> 500 \<le> statusCode then ''error'' else if 400 \<le> statusCode then ''warn'' else ''info'')"

section \<open>Health\<close>

datatype ComponentStatus = Up | Down

record 'm HealthReport =
  hp_status :: ComponentStatus
  hp_timestamp :: string
  hp_environment :: string
  hp_version :: string
  hp_uptimeSeconds :: int
  hp_memory :: 'm
  hp_database :: ComponentStatus
  hp_redis :: ComponentStatus

text \<open>\<open>databaseUp\<close> and \<open>redisUp\<close> are the answers of the two \<open>isHealthy\<close>, \<open>npmVersion\<close>,
  \<open>uptime\<close> and \<open>memory\<close> those of the process.\<close>

definition healthCheck ::
  "env \<Rightarrow> AppConfig \<Rightarrow> string option \<Rightarrow> int \<Rightarrow> 'm \<Rightarrow> bool \<Rightarrow> bool \<Rightarrow> 'm HealthReport act" where
  "healthCheck E config npmVersion uptime memory databaseUp redisUp =
     bindM nowM (\<lambda>now.
     let database = (if databaseUp then Up else Down); redis = (if redisUp then Up else Down) in
     returnM \<lparr>hp_status = (if database = Up \<and> redis = Up then Up else Down),
       hp_timestamp = e_toISOString E now, hp_environment = ap_nodeEnv config,
       hp_version = orDefault npmVersion ''0.0.0'', hp_uptimeSeconds = uptime, hp_memory = memory,
       hp_database = database, hp_redis = redis\<rparr>)"

text \<open>\<open>RedisService.isHealthy\<close>: a connection that is not ready is not asked; an error or a second
  without an answer counts as down.\<close>

definition redisHealthy :: "string \<Rightarrow> string option \<Rightarrow> bool" where
  "redisHealthy status ping \<longleftrightarrow> status = ''ready'' \<and> ping = Some ''PONG''"

section \<open>The cache and its keys\<close>

text \<open>\<open>TTL\<close> of Redis: the seconds that remain, rounded, \<open>-1\<close> without an expiry, \<open>-2\<close> without an
  entry; a failure of Redis counts as no entry.\<close>

definition cacheTtl :: "string \<Rightarrow> int act" where
  "cacheTtl key = getsM (\<lambda>w.
     if \<not> w_redisUp w \<or> cacheLive w key = None then - 2
     else (case w_cache w key of Some (_, Some t) \<Rightarrow> (t - w_now w + 500) div 1000 | _ \<Rightarrow> - 1))"

text \<open>\<open>EXPIRE\<close>: a lifetime that is not positive deletes the entry.\<close>

definition cacheExpire :: "string \<Rightarrow> int \<Rightarrow> bool act" where
  "cacheExpire key ttlSeconds = (\<lambda>w.
     if \<not> w_redisUp w then (Inr False, w)
     else (case cacheLive w key of
             None \<Rightarrow> (Inr False, w)
           | Some v \<Rightarrow> (Inr True, w_cache_update (\<lambda>c. c(key :=
               (if 0 < ttlSeconds then Some (v, Some (w_now w + ttlSeconds * 1000)) else None))) w)))"

definition buildKey :: "string \<Rightarrow> string list \<Rightarrow> string" where
  "buildKey namespace parts = js_join '':'' (namespace # parts)"

section \<open>Connections\<close>

text \<open>The delay in milliseconds before the connection to Redis is tried again.\<close>

definition retryStrategy :: "nat \<Rightarrow> nat" where
  "retryStrategy attempt = min (1000 * 2 ^ min attempt 6) 30000"

record JobOptions =
  jb_prefix :: string
  jb_host :: string
  jb_port :: jsnum
  jb_password :: "string option"
  jb_db :: jsnum
  jb_attempts :: jsnum
  jb_backoffDelay :: jsnum
  jb_removeOnCompleteAge :: nat
  jb_removeOnCompleteCount :: nat
  jb_removeOnFailAge :: nat

definition queueOptions :: "RedisConfig \<Rightarrow> QueueConfig \<Rightarrow> JobOptions" where
  "queueOptions redis queue =
     \<lparr>jb_prefix = qc_prefix queue, jb_host = rd_host redis, jb_port = rd_port redis, jb_password = rd_password redis,
      jb_db = rd_db redis, jb_attempts = qc_defaultAttempts queue, jb_backoffDelay = qc_defaultBackoffMs queue,
      jb_removeOnCompleteAge = 3600, jb_removeOnCompleteCount = 1000, jb_removeOnFailAge = 24 * 3600\<rparr>"

text \<open>\<open>enableCors\<close>: \<open>None\<close> reflects the origin of the request.\<close>

definition corsOrigin :: "AppConfig \<Rightarrow> (string list) option" where
  "corsOrigin config =
     (if ap_corsOrigin config = ''*'' then None else Some (js_split (CHR '','') (ap_corsOrigin config)))"

section \<open>Laws\<close>

lemma retryStrategy_bounds: "1000 \<le> retryStrategy attempt \<and> retryStrategy attempt \<le> 30000"
  by (simp add: retryStrategy_def)

lemma retryStrategy_mono: "i \<le> j \<Longrightarrow> retryStrategy i \<le> retryStrategy j"
  unfolding retryStrategy_def
  by (intro min.mono mult_le_mono power_increasing order_refl) simp_all

lemma js_split_append: "c \<notin> set p \<Longrightarrow> js_split c (p @ c # s) = p # js_split c s"
  by (induction p) auto

lemma js_split_plain: "c \<notin> set p \<Longrightarrow> js_split c p = [p]"
  by (induction p) auto

lemma js_split_join:
  "xs \<noteq> [] \<Longrightarrow> list_all (\<lambda>p. c \<notin> set p) xs \<Longrightarrow> js_split c (js_join [c] xs) = xs"
  by (induction "[c]" xs rule: js_join.induct) (simp_all add: js_split_append js_split_plain)

lemma buildKey_segments:
  assumes "list_all (\<lambda>p. CHR '':'' \<notin> set p) (namespace # parts)"
  shows "js_split (CHR '':'') (buildKey namespace parts) = namespace # parts"
  using js_split_join [OF _ assms] by (simp add: buildKey_def)

text \<open>An entry given a new lifetime is there until it has passed and reports that lifetime.\<close>

lemma cacheExpire_ttl:
  assumes "cacheExpire key n w = (Inr True, w')" and "0 < n"
  shows "fst (cacheTtl key w') = Inr n" and "cacheLive w' key = cacheLive w key"
  using assms by (auto simp: cacheExpire_def cacheTtl_def cacheLive_def split: if_splits option.splits)

lemma correlationIdFor_Inr:
  assumes "correlationIdFor E req w = (Inr cid, v)"
  shows "w_ctx v = w_ctx w" and "requestHeader req CORRELATION_ID_HEADER = Some h \<Longrightarrow> h \<noteq> [] \<Longrightarrow> cid = h"
  using assms by (auto simp: correlationIdFor_def newId_run split: option.splits if_splits)

lemma answerOf_correlation:
  assumes "answerOf E statusName cid url (intercept E code message route) u = (Inr b, v)"
    and "w_ctx u = Some (requestStore cid req)" and "w_ctx (snd (route u)) = w_ctx u"
  shows "(case b of Inl e \<Rightarrow> er_correlationId e | Inr s \<Rightarrow> as_correlationId s) = Some cid"
proof (cases "route u")
  case (Pair r x)
  with assms(2,3) have x: "w_ctx x = Some (requestStore cid req)" by simp
  show ?thesis
  proof (cases r)
    case (Inl e)
    with assms(1) Pair have "b = Inl (errorResponse E statusName (Some cid) url x e)"
      by (auto simp: answerOf_def intercept_def bindM_run)
    then show ?thesis by (simp add: errorResponse_def Let_def x orElse_def requestStore_def)
  next
    case (Inr a)
    with assms(1) Pair show ?thesis
      by (auto simp: answerOf_def intercept_def bindM_run nowM_def x requestStore_def)
  qed
qed

text \<open>
  Every answer, of a success and of an error, carries in its body the correlation id of its
  header: the one the client sent, if any.
\<close>

theorem answers_carry_correlation_id:
  assumes "\<And>v. w_ctx (snd (route v)) = w_ctx v" and "serve E statusName code message url req route w = (Inr a, w')"
  shows "(case ha_body a of Inl e \<Rightarrow> er_correlationId e | Inr s \<Rightarrow> as_correlationId s) = Some (ha_correlationHeader a) \<and>
    (\<forall>h. requestHeader req CORRELATION_ID_HEADER = Some h \<and> h \<noteq> [] \<longrightarrow> ha_correlationHeader a = h) \<and> w_ctx w' = w_ctx w"
proof -
  from assms(2) obtain cid w1 where cid: "correlationIdFor E req w = (Inr cid, w1)" "ha_correlationHeader a = cid"
    and body: "runInContext (requestStore cid req) (answerOf E statusName cid url (intercept E code message route)) w1 =
      (Inr (ha_body a), w')"
    by (auto simp: serve_def success_iffs)
  obtain v where answer: "answerOf E statusName cid url (intercept E code message route)
      (w1\<lparr>w_ctx := Some (requestStore cid req)\<rparr>) = (Inr (ha_body a), v)" and w': "w' = v\<lparr>w_ctx := w_ctx w1\<rparr>"
    using body by (auto simp: runInContext_def split: prod.splits)
  show ?thesis
    using answerOf_correlation [OF answer] assms(1) correlationIdFor_Inr [OF cid(1)] by (simp add: cid(2) w')
qed

end
