(* ===== verification/Spec2Isabelle.thy ===== *)
theory Spec2Isabelle
  imports PasswordLaws InvitationLaws AuthorizationLaws OAuthWitnesses SsoWitnesses PlatformWitnesses
    LockLaws MailLaws ConfigLaws SeedLaws Operations
begin

text \<open>
  Verification development of the enterprise authentication platform, a NestJS server in
  TypeScript.  Source paths below are relative to \<open>src/src\<close>; the database schema is
  \<open>src/prisma/schema.prisma\<close> and the seed script \<open>src/prisma/seed.ts\<close>.

  The program.  Users register, confirm their email and sign in with a password
  (\<open>modules/auth\<close>), with an OAuth provider (\<open>modules/oauth\<close>) or over SAML
  (\<open>modules/sso\<close>), with a second factor if they enrolled one (\<open>modules/mfa\<close>).  A login
  opens a session with a chain of refresh tokens and signs a short access token that names the
  session, the active organization and the versions of what it was computed from.  Users are
  members of organizations (\<open>modules/organizations\<close>); what a member may do is decided by
  roles and by attribute policies (\<open>modules/authorization\<close>).  PostgreSQL holds the tables,
  Redis the cache and the one-time states, a queue the mails and audit events.

  State and effects (theories \<open>Prelude\<close>, \<open>JsStrings\<close>, \<open>JsValue\<close>, \<open>Schema\<close>, \<open>World\<close>,
  \<open>Storage\<close>).  A \<open>world\<close> is the clock, the number of random draws, the database (a list of
  rows per model of the schema), the cache (keys to entries with an expiry), whether Redis and the
  queue are up, the jobs enqueued and the request context.  An asynchronous method is a function
  from the world before to its exception or result and the world after; what was written before an
  exception stays written, except inside \<open>transaction\<close>, which restores the tables.  The Prisma
  calls are \<open>dbFind\<close>, \<open>dbCreate\<close> (with the unique keys and the foreign keys it is refused by),
  \<open>dbUpdate\<close>, \<open>dbUpdateMany\<close>, \<open>dbDelete\<close>, \<open>dbDeleteMany\<close>; the locale \<open>table\<close> states their
  laws once and is interpreted for every table.  Values of type \<open>unknown\<close> are \<open>jsval\<close>, numbers
  rationals with \<open>NaN\<close> and the infinities.  Requests are served one after the other: a method runs
  to its end before the next starts, so races between two requests inside one method are outside
  the model.

  Libraries are fields of the record \<open>env\<close> (theory \<open>World\<close>): ids, random bytes, SHA-256,
  bcrypt, AES-GCM, the JWT library, TOTP and QR codes, \<open>fetch\<close>, the URL parser, node-saml, and the
  conversions of the JavaScript runtime; in \<open>Mail\<close> and \<open>Config\<close> the SMTP transport, the text of a
  date and Joi are arguments.  What a theorem needs of them is a named hypothesis (that decryption
  undoes encryption, that two random tokens differ, that \<open>Number\<close> reads a decimal text), and every
  theorem with a hypothesis has a witness in which the theory \<open>Fixtures\<close> or the theory itself
  replaces them by functions that compute.
\<close>

text \<open>
  The components, in the order of the theories.

  \<^item> Sessions (\<open>auth/services/session.service.ts\<close>; \<open>Sessions\<close>, \<open>SessionInv\<close>, \<open>SessionLaws\<close>):
    creation, rotation of refresh tokens with detection of reuse, revocation.  \<open>sessionInv\<close> is the
    invariant of the two tables; a token works once, a session never outlives the expiry set at
    login, revoking ends every login, and the revocation of a family on reuse is rolled back by its
    own transaction.
  \<^item> One-time links (\<open>verification.service.ts\<close>; \<open>Verification\<close>), passwords and their policy
    (\<open>Passwords\<close>, \<open>PasswordLaws\<close>), the active organization (\<open>ActiveContext\<close>) and
    \<open>auth.service.ts\<close> itself (\<open>Auth\<close>, \<open>AuthLaws\<close>, \<open>Lockout\<close>): what a login, a change and a reset of
    a password guarantee, that links work once; \<open>LockLaws\<close> says on the whole platform what a wrong
    password counts, and that nothing but a SAML login ends a lock.
  \<^item> Access tokens (\<open>jwt.strategy.ts\<close>; \<open>JwtStrategy\<close>): a token is accepted exactly when user,
    session, membership, organization and versions are current.
  \<^item> Policies (\<open>condition-evaluator\<close>, \<open>attribute-resolver\<close>, \<open>policy-evaluator\<close>; \<open>Conditions\<close>,
    \<open>PolicyEvaluator\<close>): the loop over policies against its reference \<open>someApplies\<close>, deny
    overrides; the comparison of values and its oddities.  \<open>Policies\<close> models the administration of
    policies and which are in force.
  \<^item> Members, organizations and invitations (\<open>Memberships\<close>, \<open>Invitations\<close>, \<open>InvitationLaws\<close>), roles and
    permissions with their cache (\<open>Permissions\<close>, \<open>PermissionLaws\<close>, \<open>RoleLaws\<close>): invitations work once
    and add the role they name to those the membership had; the cached permissions are what the
    tables grant (\<open>permInv\<close>) as long as Redis answers and only the role and permission services
    write the grants, each for memberships of its own organization; \<open>RoleLaws\<close> shows both ways
    around that.
  \<^item> Decisions and guards (\<open>authorization.service.ts\<close>, the guards; \<open>Authorization\<close>, \<open>Guards\<close>,
    \<open>AuthorizationLaws\<close>): what a decision answers is a formula over the policies of the tables and the
    permissions seen (\<open>permissionsSeen\<close>: the live cached list, or the grants of the tables), and a
    request that passes the guard met its demands, all of them or one, as the mode says.
  \<^item> Second factors (\<open>modules/mfa\<close>; \<open>Secrets\<close>, \<open>Mfa\<close>, \<open>MfaLogin\<close>, \<open>Throws\<close>, \<open>MfaLaws\<close>, \<open>BackupCodes\<close>,
    \<open>MfaWitnesses\<close>): challenges answer at most five guesses and complete one login, backup codes work
    once, secrets read back.
  \<^item> Federation (\<open>modules/oauth\<close>: \<open>OAuth\<close>, \<open>OAuthAccounts\<close>, \<open>CacheSteps\<close>, \<open>OAuthLaws\<close>,
    \<open>OAuthLoginLaws\<close>, \<open>OAuthWitnesses\<close>; \<open>modules/sso\<close>: \<open>Sso\<close>, \<open>SsoLogin\<close>, \<open>SsoLaws\<close>, \<open>SsoReplay\<close>,
    \<open>SsoWitnesses\<close>): states and assertions work once, the verifier of PKCE fits the challenge, and whose
    session a federated login opens.
  \<^item> HTTP (\<open>HttpErrors\<close>, \<open>Http\<close>, \<open>RoutesAuth\<close>, \<open>RoutesAdmin\<close>): every route with its guards, the call
    it makes and its envelope; the exception filter.  \<open>Operations\<close> has the correlation id around a
    request, the hooks of the log, the health report and the connection options.
  \<^item> Mail (\<open>Mail\<close>, \<open>MailLaws\<close>): templates, dispatch and worker; data of a job is text in the page and
    its link reads back.
  \<^item> Configuration (\<open>config/*.ts\<close>; \<open>Config\<close>, \<open>ConfigLaws\<close>): the schema the environment is checked
    with and the factories; validated settings have the shape and the bounds that the services are
    modelled with, those of federation are not validated.
  \<^item> Seed data (\<open>Seed\<close>, \<open>SeedLaws\<close>): the script establishes the default permissions, roles and
    policies, and what two of its entries mean for the routes.

  Composition.  \<open>Steps\<close> and \<open>ServiceSteps\<close> state what a service may do as steps of a relation on an
  observation of the world (locales \<open>observed_steps\<close>, \<open>service_steps\<close>, \<open>platform_steps\<close>,
  \<open>account_steps\<close>), and prove once that a method built of such steps is a run of them.  \<open>Platform\<close> collects all routes in the
  relation \<open>platform_step\<close> and interprets the locales: for the steps of the session service, for
  those of the one-time links, in \<open>SchemaLaws\<close> for the keys of all tables (\<open>Constraints\<close>), and in
  \<open>LockLaws\<close>, without the assertions of identity providers, for the lock of an account.
  \<open>platform_refines_services\<close> is the refinement: any sequence of requests is, on the session and
  link tables, a run of the two services, so that their theorems hold of the platform.
  \<open>tables_stay_well_formed\<close> is the typing of the database: no sequence of requests breaks a key,
  a unique column or the normal form of an email or slug.  \<open>PlatformLaws\<close> has the theorems about
  routes (the tenant of a route, the token it needs), \<open>PlatformWitnesses\<close> concrete requests.
\<close>

text \<open>
  Bounds and termination.  Loops over lists are \<open>forM\<close> and recursion on the list.  The loop that
  draws backup codes until enough of them differ may not end: it is a partial function into an
  option, and \<open>backup_codes_generated\<close> says exactly when it returns.  \<open>deepEqual\<close> recurses on pairs of
  values and terminates by their size.  Sequences of requests are the reflexive transitive closure
  of a step relation, of any length; no fuel is used.  Machine integers do not occur: the numbers
  of the program are JavaScript numbers that stay far below \<open>2 ^ 53\<close>, or times in milliseconds.

  Assumptions of the model.  Letters are mapped to lower case in ASCII only.  The order of rows
  that a query without \<open>orderBy\<close> returns is the order of insertion.  A route gets a request that
  the validation of its DTO (class-validator) let through, the payload of an access token whose
  signature and expiry passport checked (or none), and the function that recognises a UUID.  Redis
  and the queue are up or down for a whole request.

  Not modelled.  Bootstrap and module wiring (\<open>main.ts\<close>, the modules) are declarations for the
  framework; rate limits, Swagger, helmet and compression belong to libraries, as do the decorators
  of the DTOs.  No worker in the repository reads the audit queue, and when the queue library tries
  a failed job again is its own business.  Connection events, log lines, the memory figures of the
  health report and the lifecycle of the database client have no effect on the state.  The unwrapping
  of answers with \<open>data\<close> and \<open>meta\<close> is left out because no controller returns one.
\<close>

end
